(* ===== verification/JsPrelude.thy ===== *)
theory JsPrelude
  imports Main "HOL-Library.List_Lexorder"
begin

section \<open>Shared vocabulary: JavaScript strings, nullable values, errors\<close>

text \<open>
  What every component uses: the coercions \<open>String(x || '')\<close>, \<open>.trim()\<close>,
  \<open>.toUpperCase()\<close>, \<open>.toLowerCase()\<close>, nullable fields (\<open>null\<close> and
  \<open>undefined\<close> are both \<open>None\<close>), truthiness of strings, thrown errors as values of a
  sum type, and the contract \<open>transition_table\<close> that the five state machines of the
  program share.

  Strings are HOL strings, that is lists of 8-bit characters.  Case mapping is the one of
  ASCII, so the model is the program's on ASCII identifiers, statuses and roles (the program
  stores no others in these fields).  Instants are integers, milliseconds since the epoch.
\<close>

named_theorems js_defs "unfolding rules of the string and null coercions"
named_theorems table_defs "transition tables of the state machines"

subsection \<open>Strings\<close>

definition js_space :: "char \<Rightarrow> bool" where
  "js_space c \<longleftrightarrow> (let n = (of_char c :: nat) in (9 \<le> n \<and> n \<le> 13) \<or> n = 32 \<or> n = 160)"

definition upper_char :: "char \<Rightarrow> char" where
  "upper_char c = (let n = (of_char c :: nat) in if 97 \<le> n \<and> n \<le> 122 then char_of (n - 32) else c)"

definition lower_char :: "char \<Rightarrow> char" where
  "lower_char c = (let n = (of_char c :: nat) in if 65 \<le> n \<and> n \<le> 90 then char_of (n + 32) else c)"

definition js_upper :: "string \<Rightarrow> string" where
  "js_upper = map upper_char"

definition js_lower :: "string \<Rightarrow> string" where
  "js_lower = map lower_char"

definition js_trim :: "string \<Rightarrow> string" where
  "js_trim s = rev (dropWhile js_space (rev (dropWhile js_space s)))"

definition str_or_empty :: "string option \<Rightarrow> string" where
  "str_or_empty v = (case v of None \<Rightarrow> [] | Some s \<Rightarrow> s)"

definition truthy :: "string option \<Rightarrow> bool" where
  "truthy v \<longleftrightarrow> str_or_empty v \<noteq> []"

definition js_or :: "string option \<Rightarrow> string option \<Rightarrow> string option" where
  "js_or a b = (if truthy a then a else b)"

definition normalize_str :: "string option \<Rightarrow> string" where
  "normalize_str v = js_upper (js_trim (str_or_empty v))"

lemma upper_char_idem [simp]: "upper_char (upper_char c) = upper_char c"
  by (auto simp: upper_char_def Let_def)

lemma lower_char_idem [simp]: "lower_char (lower_char c) = lower_char c"
  by (auto simp: lower_char_def Let_def)

lemma js_space_upper [simp]: "js_space (upper_char c) = js_space c"
  by (auto simp: upper_char_def js_space_def Let_def)

lemma js_upper_idem [simp]: "js_upper (js_upper s) = js_upper s"
  by (simp add: js_upper_def)

lemma js_lower_idem [simp]: "js_lower (js_lower s) = js_lower s"
  by (simp add: js_lower_def)

lemma js_upper_Nil_iff [simp]: "js_upper s = [] \<longleftrightarrow> s = []"
  by (simp add: js_upper_def)

lemma dropWhile_upper: "dropWhile js_space (map upper_char s) = map upper_char (dropWhile js_space s)"
  by (induction s) auto

lemma js_trim_upper: "js_trim (js_upper s) = js_upper (js_trim s)"
  by (simp add: js_trim_def js_upper_def dropWhile_upper rev_map)

lemma js_trim_idem [simp]: "js_trim (js_trim s) = js_trim s"
proof -
  define t where "t = dropWhile js_space s"
  define u where "u = rev (dropWhile js_space (rev t))"
  have "dropWhile js_space u = u"
  proof (cases "u = []")
    case False
    obtain v where v: "t = u @ v"
      by (metis u_def rev_append rev_rev_ident takeWhile_dropWhile_id)
    with False have "hd u = hd t" and "t \<noteq> []" by auto
    then have "\<not> js_space (hd u)"
      using hd_dropWhile [of js_space s] by (simp add: t_def)
    then show ?thesis by (simp add: dropWhile_eq_self_iff)
  qed simp
  moreover have "dropWhile js_space (rev u) = rev u"
    by (simp add: u_def)
  moreover have "js_trim s = u" by (simp add: js_trim_def t_def u_def)
  ultimately show ?thesis by (simp add: js_trim_def)
qed

lemma js_trim_Nil [simp]: "js_trim [] = []"
  by (simp add: js_trim_def)

lemma normalize_str_idem [simp]: "normalize_str (Some (normalize_str v)) = normalize_str v"
  by (simp add: normalize_str_def str_or_empty_def js_trim_upper)

lemma normalize_str_None [simp]: "normalize_str None = []"
  by (simp add: normalize_str_def str_or_empty_def js_trim_def)

lemma normalize_str_Nil [simp]: "normalize_str (Some []) = []"
  by (simp add: normalize_str_def str_or_empty_def js_trim_def)

lemma truthy_simps [simp]: "\<not> truthy None" "truthy (Some s) \<longleftrightarrow> s \<noteq> []"
  by (simp_all add: truthy_def str_or_empty_def)

lemma str_or_empty_simps [simp]: "str_or_empty None = []" "str_or_empty (Some s) = s"
  by (simp_all add: str_or_empty_def)

lemma js_or_simps [simp]: "js_or None b = b" "s \<noteq> [] \<Longrightarrow> js_or (Some s) b = Some s"
  by (simp_all add: js_or_def)

subsection \<open>Thrown errors\<close>

text \<open>
  An \<open>Error\<close> carries its message, and the \<open>statusCode\<close> and \<open>code\<close> properties
  the source attaches, when it attaches them.  Reading an identifier that is not declared
  throws a \<open>ReferenceError\<close>, which is a value of its own; a document that fails the
  schema's validation is rejected with a \<open>ValidationError\<close> that names the paths.
\<close>

datatype js_error =
    Thrown (err_message: string) (err_status: "nat option") (err_code: "string option")
  | ReferenceError (err_identifier: string)
  | ValidationError (err_paths: "string list")

type_synonym 'a res = "js_error + 'a"

definition is_error :: "'a res \<Rightarrow> bool" where
  "is_error r \<longleftrightarrow> (case r of Inl _ \<Rightarrow> True | Inr _ \<Rightarrow> False)"

lemma is_error_simps [simp]: "is_error (Inl e)" "\<not> is_error (Inr x)"
  by (simp_all add: is_error_def)

lemma is_error_iff: "is_error r \<longleftrightarrow> (\<forall>x. r \<noteq> Inr x)"
  by (cases r) auto

definition res_bind :: "'a res \<Rightarrow> ('a \<Rightarrow> 'b res) \<Rightarrow> 'b res" where
  "res_bind r f = (case r of Inl e \<Rightarrow> Inl e | Inr x \<Rightarrow> f x)"

lemma res_bind_simps [simp]: "res_bind (Inl e) f = Inl e" "res_bind (Inr x) f = f x"
  by (simp_all add: res_bind_def)

lemma res_bind_Inr_iff: "res_bind r f = Inr y \<longleftrightarrow> (\<exists>x. r = Inr x \<and> f x = Inr y)"
  by (cases r) auto

lemma res_bind_InrE:
  assumes "res_bind r f = Inr y"
  obtains x where "r = Inr x" "f x = Inr y"
  using assms by (auto simp: res_bind_Inr_iff)

subsection \<open>Outcomes: effects and a value or an error\<close>

text \<open>
  A handler emits effects (writes, audit entries, notifications) while it runs and ends with a
  value or with a thrown error; the effects it performed before the error stay performed.
\<close>

type_synonym ('e, 'a) outcome = "'e list \<times> 'a res"

definition pure :: "'a res \<Rightarrow> ('e, 'a) outcome" where
  "pure r = ([], r)"

definition emit :: "'e list \<Rightarrow> ('e, unit) outcome" where
  "emit es = (es, Inr ())"

definition seq :: "('e, 'a) outcome \<Rightarrow> ('a \<Rightarrow> ('e, 'b) outcome) \<Rightarrow> ('e, 'b) outcome" where
  "seq m f =
    (case m of (es, Inl e) \<Rightarrow> (es, Inl e)
     | (es, Inr x) \<Rightarrow> (case f x of (es', r) \<Rightarrow> (es @ es', r)))"

lemma snd_seq [simp]: "snd (seq m f) = res_bind (snd m) (\<lambda>x. snd (f x))"
  by (simp add: seq_def res_bind_def split: prod.splits sum.splits)

lemma snd_pure [simp]: "snd (pure r) = r" and fst_pure [simp]: "fst (pure r) = []"
  by (simp_all add: pure_def)

lemma snd_emit [simp]: "snd (emit es) = Inr ()" and fst_emit [simp]: "fst (emit es) = es"
  by (simp_all add: emit_def)

lemma fst_seq: "fst (seq m f) = fst m @ (case snd m of Inl _ \<Rightarrow> [] | Inr x \<Rightarrow> fst (f x))"
  by (simp add: seq_def split: prod.splits sum.splits)

lemma fst_seq_simps [simp]:
  "snd m = Inl e \<Longrightarrow> fst (seq m f) = fst m"
  "snd m = Inr x \<Longrightarrow> fst (seq m f) = fst m @ fst (f x)"
  by (simp_all add: fst_seq)

definition check :: "bool \<Rightarrow> js_error \<Rightarrow> unit res" where
  "check ok e = (if ok then Inr () else Inl e)"

lemma check_Inr_iff [simp]: "check ok e = Inr u \<longleftrightarrow> ok"
  by (simp add: check_def)

lemma check_Inl_iff [simp]: "check ok e = Inl e' \<longleftrightarrow> \<not> ok \<and> e' = e"
  by (auto simp: check_def)

lemma check_simps [simp]: "check True e = Inr ()" "check False e = Inl e"
  by (simp_all add: check_def)

lemma res_bind_check_Inr [simp]:
  "res_bind (check ok e) f = Inr y \<longleftrightarrow> ok \<and> f () = Inr y"
  by (simp add: check_def)

subsection \<open>Transition tables\<close>

text \<open>
  The state machines of the program are frozen objects that map a state to the array of its
  successors.  \<open>runs_to nxt s t\<close>: some sequence of allowed transitions leads from \<open>s\<close>
  to \<open>t\<close>.  The contract of a table: a terminal state has no successor, and no state is its
  own successor; its clients use that a run never leaves a terminal state.
\<close>

inductive runs_to :: "('s \<Rightarrow> 's list) \<Rightarrow> 's \<Rightarrow> 's \<Rightarrow> bool" for nxt where
  refl: "runs_to nxt s s"
| step: "runs_to nxt s t \<Longrightarrow> u \<in> set (nxt t) \<Longrightarrow> runs_to nxt s u"

inductive_cases runs_toE: "runs_to nxt s t"

lemma runs_to_closed:
  assumes "runs_to nxt s t" and "s \<in> S" and "\<And>x. x \<in> S \<Longrightarrow> set (nxt x) \<subseteq> S"
  shows "t \<in> S"
  using assms by (induction rule: runs_to.induct) auto

lemma runs_to_last:
  "runs_to nxt s t \<Longrightarrow> s = t \<or> (\<exists>u. runs_to nxt s u \<and> t \<in> set (nxt u))"
  by (auto elim: runs_toE)

text \<open>An executable search, bounded in depth, that is sound for \<open>runs_to\<close>.\<close>

fun can_reach :: "('s \<Rightarrow> 's list) \<Rightarrow> nat \<Rightarrow> 's \<Rightarrow> 's \<Rightarrow> bool" where
  "can_reach nxt 0 s t = (s = t)"
| "can_reach nxt (Suc n) s t = (s = t \<or> list_ex (\<lambda>u. can_reach nxt n u t) (nxt s))"

lemma runs_to_trans:
  assumes "runs_to nxt t u" and "runs_to nxt s t"
  shows "runs_to nxt s u"
  using assms by (induction rule: runs_to.induct) (auto intro: runs_to.step)

lemma can_reach_sound: "can_reach nxt n s t \<Longrightarrow> runs_to nxt s t"
proof (induction n arbitrary: s)
  case 0
  then show ?case by (simp add: runs_to.refl)
next
  case (Suc n)
  then show ?case
    by (auto simp: list_ex_iff intro: runs_to.refl runs_to_trans runs_to.step [OF runs_to.refl])
qed

locale transition_table =
  fixes nxt :: "'s \<Rightarrow> 's list"
    and terminal :: "'s \<Rightarrow> bool"
  assumes terminal_stuck: "terminal s \<Longrightarrow> nxt s = []"
    and irreflexive: "s \<notin> set (nxt s)"
begin

lemma terminal_absorbing: "runs_to nxt s t \<Longrightarrow> terminal s \<Longrightarrow> t = s"
  by (induction rule: runs_to.induct) (auto simp: terminal_stuck)

lemma step_changes: "t \<in> set (nxt s) \<Longrightarrow> t \<noteq> s"
  using irreflexive by blast

lemma not_terminal_if_step: "t \<in> set (nxt s) \<Longrightarrow> \<not> terminal s"
  using terminal_stuck by force

end

subsection \<open>Atomic claims\<close>

text \<open>
  A conditional update that MongoDB performs atomically on one document: it applies
  \<open>update r\<close> when the document satisfies the filter and does nothing otherwise.
  \<open>run_claims\<close> runs requests in the order in which the database serialises them and returns
  the final document and the requests that matched.  The contract of a claim: an update takes the
  document out of the filter, so of any number of concurrent requests exactly one wins.
\<close>

fun run_claims :: "('d \<Rightarrow> bool) \<Rightarrow> ('r \<Rightarrow> 'd \<Rightarrow> 'd) \<Rightarrow> 'r list \<Rightarrow> 'd \<Rightarrow> 'd \<times> 'r list" where
  "run_claims flt upd [] d = (d, [])"
| "run_claims flt upd (r # rs) d =
    (if flt d then (let (d', ws) = run_claims flt upd rs (upd r d) in (d', r # ws))
     else run_claims flt upd rs d)"

locale claim =
  fixes flt :: "'d \<Rightarrow> bool"
    and upd :: "'r \<Rightarrow> 'd \<Rightarrow> 'd"
  assumes claimed: "flt d \<Longrightarrow> \<not> flt (upd r d)"
begin

lemma no_claim: "\<not> flt d \<Longrightarrow> run_claims flt upd rs d = (d, [])"
  by (induction rs) auto

lemma one_winner: "flt d \<Longrightarrow> run_claims flt upd (r # rs) d = (upd r d, [r])"
  by (simp add: no_claim claimed)

lemma at_most_one: "length (snd (run_claims flt upd rs d)) \<le> 1"
  by (cases rs; cases "flt d") (simp_all add: no_claim claimed)

end

text \<open>
  Requests of several kinds that compete for one document, each with a filter of its own.  The
  contract: a request that is granted shuts out every other; a \<open>claim\<close> is the case in which all
  filters are the same.
\<close>

fun run_competition :: "('r \<Rightarrow> 'd \<Rightarrow> bool) \<Rightarrow> ('r \<Rightarrow> 'd \<Rightarrow> 'd) \<Rightarrow> 'r list \<Rightarrow> 'd \<Rightarrow> 'd \<times> 'r list" where
  "run_competition flt upd [] d = (d, [])"
| "run_competition flt upd (r # rs) d =
    (if flt r d then (let (d', ws) = run_competition flt upd rs (upd r d) in (d', r # ws))
     else run_competition flt upd rs d)"

locale competition =
  fixes flt :: "'r \<Rightarrow> 'd \<Rightarrow> bool"
    and upd :: "'r \<Rightarrow> 'd \<Rightarrow> 'd"
  assumes excluded: "flt r d \<Longrightarrow> \<not> flt r' (upd r d)"
begin

lemma nobody: "(\<And>r. r \<in> set rs \<Longrightarrow> \<not> flt r d) \<Longrightarrow> run_competition flt upd rs d = (d, [])"
  by (induction rs) auto

lemma outcome:
  "run_competition flt upd rs d =
    (case find (\<lambda>r. flt r d) rs of None \<Rightarrow> (d, []) | Some r \<Rightarrow> (upd r d, [r]))"
  by (induction rs) (simp_all add: nobody excluded)

lemma single_winner: "length (snd (run_competition flt upd rs d)) \<le> 1"
  by (simp add: outcome split: option.split)

end

sublocale claim \<subseteq> same: competition "\<lambda>_. flt" upd
  by unfold_locales (rule claimed)

end
