(* ===== verification/CaseStates.thy ===== *)
theory CaseStates
  imports JsPrelude
begin

section \<open>Case statuses and the compliance state machine\<close>

text \<open>
  \<open>src/domain/case/caseStatus.js\<close>, \<open>src/domain/case/caseStateMachine.js\<close> and
  \<open>src/domain/compliance/complianceStateMachine.js\<close>.  A status is a string, as in the
  code: unknown strings pass through \<open>normalizeStatus\<close> unchanged.  A lookup in a frozen
  object is \<open>map_of\<close> on its entries (the keys inherited from \<open>Object.prototype\<close>,
  such as \<open>constructor\<close>, are not statuses and stay outside the model).
\<close>

subsection \<open>The status vocabulary\<close>

definition CaseStatus :: "string list" where
  "CaseStatus =
    [''OPEN'', ''ASSIGNED'', ''PEND'', ''ROUTED'', ''ROUTED_ASSIGNED'', ''ROUTED_PEND'',
     ''ROUTED_SUBMITTED'', ''FILED'', ''RESOLVED'', ''QC_WB'', ''QC_ASSIGNED'', ''QC_PASS'',
     ''QC_FAIL'', ''QC_CORRECTED'',
     ''CREATED'', ''AVAILABLE'', ''UNASSIGNED'', ''IN_PROGRESS'', ''PENDING'', ''QC_PENDING'',
     ''QC_FAILED'', ''CLOSED'', ''DRAFT'', ''SUBMITTED'', ''UNDER_REVIEW'', ''APPROVED'',
     ''REJECTED'', ''RETURNED'', ''Reviewed'', ''Open'', ''Pending'', ''Filed'', ''Archived'']"

definition STATUS_ALIASES :: "(string \<times> string) list" where
  "STATUS_ALIASES =
    [(''Pending'', ''PENDING''), (''Open'', ''OPEN''), (''Filed'', ''FILED''), (''Archived'', ''FILED'')]"

definition normalizeStatus :: "string option \<Rightarrow> string option" where
  "normalizeStatus st =
    (case st of None \<Rightarrow> None
     | Some s \<Rightarrow> (case map_of STATUS_ALIASES s of Some a \<Rightarrow> Some a | None \<Rightarrow> Some s))"

subsection \<open>The case state machine\<close>

definition transitions :: "(string \<times> string list) list" where
  "transitions =
    [(''DRAFT'', [''SUBMITTED'']),
     (''SUBMITTED'', [''UNDER_REVIEW'', ''REJECTED'']),
     (''UNDER_REVIEW'', [''APPROVED'', ''REJECTED'']),
     (''REJECTED'', [''DRAFT'', ''CLOSED'']),
     (''APPROVED'', [''OPEN'']),
     (''UNASSIGNED'', [''ASSIGNED'', ''ROUTED'']),
     (''OPEN'', [''ASSIGNED'', ''IN_PROGRESS'', ''PENDING'', ''PEND'', ''RESOLVED'', ''FILED'']),
     (''ASSIGNED'', [''IN_PROGRESS'', ''PEND'', ''PENDING'', ''ROUTED'', ''QC_WB'', ''RESOLVED'', ''FILED'']),
     (''IN_PROGRESS'', [''OPEN'', ''PENDING'', ''PEND'', ''FILED'', ''RESOLVED'']),
     (''PEND'', [''OPEN'', ''ASSIGNED'', ''IN_PROGRESS'']),
     (''PENDING'', [''OPEN'', ''ASSIGNED'', ''IN_PROGRESS'']),
     (''ROUTED'', [''ROUTED_ASSIGNED'']),
     (''ROUTED_ASSIGNED'', [''ROUTED_PEND'', ''ROUTED_SUBMITTED'']),
     (''ROUTED_PEND'', [''ROUTED_ASSIGNED'']),
     (''ROUTED_SUBMITTED'', [''ASSIGNED'', ''IN_PROGRESS'']),
     (''QC_WB'', [''QC_ASSIGNED'']),
     (''QC_ASSIGNED'', [''RESOLVED'', ''ASSIGNED'', ''IN_PROGRESS'']),
     (''FILED'', []),
     (''RESOLVED'', []),
     (''CLOSED'', [])]"

definition case_next :: "string \<Rightarrow> string list" where
  "case_next s = (case map_of transitions s of None \<Rightarrow> [] | Some ts \<Rightarrow> ts)"

definition case_canTransition :: "string option \<Rightarrow> string option \<Rightarrow> bool" where
  "case_canTransition from_st to_st =
    (case normalizeStatus from_st of
       None \<Rightarrow> False
     | Some f \<Rightarrow>
         (case map_of transitions f of
            None \<Rightarrow> False
          | Some allowed \<Rightarrow>
              (case normalizeStatus to_st of None \<Rightarrow> False | Some t \<Rightarrow> t \<in> set allowed)))"

definition case_assertValidTransition :: "string option \<Rightarrow> string option \<Rightarrow> bool res" where
  "case_assertValidTransition from_st to_st =
    (let allowed = (case normalizeStatus from_st of None \<Rightarrow> [] | Some f \<Rightarrow> case_next f)
     in if (case normalizeStatus to_st of None \<Rightarrow> False | Some t \<Rightarrow> t \<in> set allowed) then Inr True
        else Inl (Thrown (''Invalid case transition: '' @ str_or_empty (js_or from_st (Some ''UNKNOWN''))
                    @ '' -> '' @ str_or_empty (js_or to_st (Some ''UNKNOWN'')))
                  (Some 400) (Some ''INVALID_CASE_TRANSITION'')))"

subsection \<open>The compliance state machine\<close>

datatype compliance =
    Not_started | In_progress | Awaiting_client | Awaiting_partner
  | Ready_to_file | Filed | Blocked | Closed

definition COMPLIANCE_STATES :: "(string \<times> compliance) list" where
  "COMPLIANCE_STATES =
    [(''not_started'', Not_started), (''in_progress'', In_progress),
     (''awaiting_client'', Awaiting_client), (''awaiting_partner'', Awaiting_partner),
     (''ready_to_file'', Ready_to_file), (''filed'', Filed), (''blocked'', Blocked),
     (''closed'', Closed)]"

fun compliance_TRANSITIONS :: "compliance \<Rightarrow> compliance list" where
  "compliance_TRANSITIONS Not_started = [In_progress, Awaiting_client, Blocked, Closed]"
| "compliance_TRANSITIONS In_progress =
     [Awaiting_client, Awaiting_partner, Ready_to_file, Blocked, Closed]"
| "compliance_TRANSITIONS Awaiting_client = [In_progress, Blocked, Closed]"
| "compliance_TRANSITIONS Awaiting_partner = [In_progress, Ready_to_file, Blocked, Closed]"
| "compliance_TRANSITIONS Ready_to_file = [Filed, Blocked, Closed]"
| "compliance_TRANSITIONS Filed = [Closed]"
| "compliance_TRANSITIONS Blocked =
     [In_progress, Awaiting_client, Awaiting_partner, Ready_to_file, Closed]"
| "compliance_TRANSITIONS Closed = []"

definition normalizeComplianceState :: "string option \<Rightarrow> compliance option" where
  "normalizeComplianceState v = map_of COMPLIANCE_STATES (js_lower (js_trim (str_or_empty v)))"

definition canComplianceTransition :: "string option \<Rightarrow> string option \<Rightarrow> bool" where
  "canComplianceTransition from_st to_st =
    (case (normalizeComplianceState from_st, normalizeComplianceState to_st) of
       (Some f, Some t) \<Rightarrow> f \<noteq> t \<and> t \<in> set (compliance_TRANSITIONS f)
     | _ \<Rightarrow> False)"

subsection \<open>Facts\<close>

lemma normalizeStatus_idem: "normalizeStatus (normalizeStatus st) = normalizeStatus st"
  by (auto simp: normalizeStatus_def STATUS_ALIASES_def split: option.splits if_splits)

lemma case_next_terminal: "s \<in> {''FILED'', ''RESOLVED'', ''CLOSED''} \<Longrightarrow> case_next s = []"
  by (auto simp: case_next_def transitions_def)

lemma case_next_irrefl: "s \<notin> set (case_next s)"
  by (auto simp: case_next_def transitions_def split: if_splits)

interpretation case_table: transition_table case_next "\<lambda>s. s \<in> {''FILED'', ''RESOLVED'', ''CLOSED''}"
  by unfold_locales (simp_all only: case_next_terminal case_next_irrefl not_False_eq_True)

interpretation compliance_table: transition_table compliance_TRANSITIONS "\<lambda>s. s = Closed"
proof unfold_locales
  fix s :: compliance
  show "s \<notin> set (compliance_TRANSITIONS s)" by (cases s) simp_all
qed simp

lemma case_canTransition_iff:
  "case_canTransition (Some f) (Some t) \<longleftrightarrow>
     the (normalizeStatus (Some t)) \<in> set (case_next (the (normalizeStatus (Some f))))"
  by (auto simp: case_canTransition_def case_next_def normalizeStatus_def split: option.splits)

text \<open>
  Fact. The guard and the assertion of the case state machine agree: the assertion
  returns normally exactly on the transitions the guard allows, and throws a 400 with the code
  \<open>INVALID_CASE_TRANSITION\<close> on every other pair of statuses, missing ones included.
\<close>

theorem case_assert_iff_can:
  "(case_assertValidTransition f t = Inr True \<longleftrightarrow> case_canTransition f t)
   \<and> (case_assertValidTransition f t = Inr True
      \<or> (\<exists>msg. case_assertValidTransition f t
               = Inl (Thrown msg (Some 400) (Some ''INVALID_CASE_TRANSITION''))))"
  by (auto simp: case_assertValidTransition_def case_canTransition_def case_next_def Let_def
      split: option.splits)

text \<open>
  Fact. A case that is filed, resolved or closed stays so: the only status a run of
  allowed transitions reaches from one of these is the status itself; and the legacy spellings
  \<open>Filed\<close> and \<open>Archived\<close> allow no transition at all.
\<close>

theorem case_terminal_absorbing:
  "runs_to case_next ''FILED'' = (\<lambda>t. t = ''FILED'')
   \<and> runs_to case_next ''RESOLVED'' = (\<lambda>t. t = ''RESOLVED'')
   \<and> runs_to case_next ''CLOSED'' = (\<lambda>t. t = ''CLOSED'')
   \<and> (\<forall>t. \<not> case_canTransition (Some ''Filed'') t \<and> \<not> case_canTransition (Some ''Archived'') t)"
  using case_table.terminal_absorbing
  by (auto simp: fun_eq_iff case_canTransition_def normalizeStatus_def STATUS_ALIASES_def
      transitions_def intro: runs_to.refl split: option.splits)

lemma case_can_finish:
  "list_all (\<lambda>s. list_ex (can_reach case_next 5 s) [''RESOLVED'', ''FILED'', ''CLOSED'']) (map fst transitions)"
  by code_simp

lemma case_rows_closed: "list_all (\<lambda>(s, ts). set ts \<subseteq> set (map fst transitions)) transitions"
  by code_simp

lemma case_next_closed: "set (case_next s) \<subseteq> set (map fst transitions)"
proof (cases "map_of transitions s")
  case (Some ts)
  then have "(s, ts) \<in> set transitions" by (rule map_of_SomeD)
  with case_rows_closed have "set ts \<subseteq> set (map fst transitions)"
    unfolding list_all_iff by blast
  with Some show ?thesis by (simp add: case_next_def)
qed (simp add: case_next_def)

text \<open>
  Fact. No status of the case state machine is a trap: from every status that the
  table lists, a sequence of allowed transitions reaches \<open>RESOLVED\<close>, \<open>FILED\<close> or
  \<open>CLOSED\<close>; and no allowed transition leaves the table.
\<close>

theorem case_always_completable:
  "(\<forall>s \<in> set (map fst transitions).
      \<exists>t \<in> {''RESOLVED'', ''FILED'', ''CLOSED''}. runs_to case_next s t)
   \<and> (\<forall>s. set (case_next s) \<subseteq> set (map fst transitions))"
proof (intro conjI ballI allI)
  fix s assume "s \<in> set (map fst transitions)"
  then have "list_ex (can_reach case_next 5 s) [''RESOLVED'', ''FILED'', ''CLOSED'']"
    using case_can_finish by (metis (mono_tags, lifting) list_all_iff)
  then show "\<exists>t \<in> {''RESOLVED'', ''FILED'', ''CLOSED''}. runs_to case_next s t"
    by (auto dest: can_reach_sound)
qed (rule case_next_closed)

theorem case_always_completable_witness:
  "\<exists>t \<in> {''RESOLVED'', ''FILED'', ''CLOSED''}. runs_to case_next ''DRAFT'' t"
  by (rule bspec [OF conjunct1 [OF case_always_completable]]) (simp add: transitions_def)

end
