(* ===== verification/DocketStates.thy ===== *)
theory DocketStates
  imports CaseStates
begin

section \<open>Docket lifecycle, docket status and canonical docket state\<close>

text \<open>
  \<open>src/domain/docketLifecycle.js\<close>, \<open>src/domain/docket/docketStatus.js\<close>,
  \<open>src/domain/docket/docketStateMachine.js\<close>, \<open>src/utils/docketStateMapper.js\<close> and
  \<open>src/utils/docketStateTransitions.js\<close>: the three views of where a docket is.  The
  lifecycle and the canonical state are closed enumerations, so they are datatypes; a status
  is a string that may come from the database or from a client.
\<close>

subsection \<open>Lifecycle\<close>

datatype lifecycle = WL | ACTIVE | WAITING | DONE

definition lifecycle_name :: "lifecycle \<Rightarrow> string" where
  "lifecycle_name l =
    (case l of WL \<Rightarrow> ''WL'' | ACTIVE \<Rightarrow> ''ACTIVE'' | WAITING \<Rightarrow> ''WAITING'' | DONE \<Rightarrow> ''DONE'')"

definition STATES :: "(string \<times> lifecycle) list" where
  "STATES = [(''WL'', WL), (''ACTIVE'', ACTIVE), (''WAITING'', WAITING), (''DONE'', DONE)]"

fun lifecycle_TRANSITIONS :: "lifecycle \<Rightarrow> lifecycle list" where
  "lifecycle_TRANSITIONS WL = [ACTIVE, WAITING]"
| "lifecycle_TRANSITIONS ACTIVE = [WAITING, DONE]"
| "lifecycle_TRANSITIONS WAITING = [ACTIVE]"
| "lifecycle_TRANSITIONS DONE = []"

definition LEGACY_LIFECYCLE_TO_DOCKET :: "(string \<times> lifecycle) list" where
  "LEGACY_LIFECYCLE_TO_DOCKET =
    [(''ASSIGNED'', WL), (''IN_PROGRESS'', ACTIVE), (''REVIEW'', ACTIVE), (''CREATED'', WL),
     (''IN_WORKLIST'', WL), (''COMPLETED'', DONE), (''ARCHIVED'', DONE)]"

definition isValidState :: "string option \<Rightarrow> bool" where
  "isValidState st \<longleftrightarrow> normalize_str st \<in> set (map fst STATES)"

definition isValidTransition :: "string option \<Rightarrow> string option \<Rightarrow> bool" where
  "isValidTransition from_st to_st =
    (case (map_of STATES (normalize_str from_st), map_of STATES (normalize_str to_st)) of
       (Some f, Some t) \<Rightarrow> t \<in> set (lifecycle_TRANSITIONS f)
     | _ \<Rightarrow> False)"

definition getNextStates :: "string option \<Rightarrow> lifecycle list" where
  "getNextStates st =
    (case map_of STATES (normalize_str st) of None \<Rightarrow> [] | Some l \<Rightarrow> lifecycle_TRANSITIONS l)"

definition toLifecycleFromStatus :: "string option \<Rightarrow> lifecycle" where
  "toLifecycleFromStatus st =
    (let s = normalize_str st
     in if s = ''PENDING'' \<or> s = ''QC_PENDING'' then WAITING
        else if s = ''RESOLVED'' \<or> s = ''FILED'' \<or> s = ''CLOSED'' then DONE
        else if s = ''ASSIGNED'' \<or> s = ''ROUTED_ASSIGNED'' then WL
        else ACTIVE)"

definition coerceLifecycleToDocket :: "string option \<Rightarrow> lifecycle option" where
  "coerceLifecycleToDocket v =
    (case v of None \<Rightarrow> None
     | Some s \<Rightarrow>
        (let raw = js_trim s; upper = js_upper raw
         in if raw = [] then None
            else (case map_of STATES upper of
                    Some l \<Rightarrow> Some l
                  | None \<Rightarrow> map_of LEGACY_LIFECYCLE_TO_DOCKET upper)))"

definition deriveLifecycle :: "string option \<Rightarrow> string option \<Rightarrow> string option \<Rightarrow> lifecycle" where
  "deriveLifecycle lc assigned st =
    (case coerceLifecycleToDocket lc of
       Some l \<Rightarrow> l
     | None \<Rightarrow>
        (let ns = (if js_trim (str_or_empty st) \<noteq> [] then normalizeStatus st else None)
         in if ns = Some ''RESOLVED'' \<or> ns = Some ''CLOSED'' \<or> ns = Some ''FILED'' then DONE
            else if \<not> truthy assigned then WL
            else if ns = Some ''PENDING'' \<or> ns = Some ''QC_PENDING'' then WAITING
            else ACTIVE))"

definition normalizeLifecycle :: "string option \<Rightarrow> lifecycle" where
  "normalizeLifecycle v = (case coerceLifecycleToDocket v of None \<Rightarrow> WL | Some l \<Rightarrow> l)"

definition lifecycleRequiresAssignment :: "string option \<Rightarrow> bool" where
  "lifecycleRequiresAssignment v \<longleftrightarrow> normalizeLifecycle v = WL"

definition assertValidLifecycleTransition :: "string option \<Rightarrow> string option \<Rightarrow> bool res" where
  "assertValidLifecycleTransition from_st to_st =
    (let f = normalizeLifecycle from_st; t = normalizeLifecycle to_st
     in if f = t then Inr True
        else if isValidTransition (Some (lifecycle_name f)) (Some (lifecycle_name t)) then Inr True
        else Inl (Thrown (''Invalid docket lifecycle transition: '' @ lifecycle_name f @ '' -> ''
                    @ lifecycle_name t) (Some 400) (Some ''INVALID_DOCKET_LIFECYCLE_TRANSITION'')))"

subsection \<open>Docket status\<close>

definition DocketStatus :: "string list" where
  "DocketStatus =
    [''CREATED'', ''AVAILABLE'', ''ASSIGNED'', ''IN_PROGRESS'', ''PENDING'', ''ROUTED'',
     ''ROUTED_ASSIGNED'', ''QC_PENDING'', ''QC_FAILED'', ''QC_CORRECTED'', ''RESOLVED'', ''FILED'']"

definition allowedTransitions :: "(string \<times> string list) list" where
  "allowedTransitions =
    [(''AVAILABLE'', [''ASSIGNED'', ''ROUTED'']),
     (''ROUTED'', [''ASSIGNED'', ''ROUTED_ASSIGNED'']),
     (''ROUTED_ASSIGNED'', [''PENDING'', ''QC_PENDING'', ''RESOLVED'', ''FILED'']),
     (''ASSIGNED'', [''IN_PROGRESS'']),
     (''IN_PROGRESS'', [''PENDING'', ''QC_PENDING'', ''RESOLVED'', ''FILED'']),
     (''PENDING'', [''IN_PROGRESS'', ''ASSIGNED'', ''ROUTED'', ''ROUTED_ASSIGNED'', ''AVAILABLE'']),
     (''QC_PENDING'', [''ASSIGNED'', ''RESOLVED'']),
     (''QC_FAILED'', [''IN_PROGRESS'']),
     (''QC_CORRECTED'', [''RESOLVED'']),
     (''CREATED'', [''AVAILABLE'']),
     (''RESOLVED'', []),
     (''FILED'', [])]"

definition persistenceToDocket :: "(string \<times> string) list" where
  "persistenceToDocket =
    [(''UNASSIGNED'', ''AVAILABLE''), (''OPEN'', ''ASSIGNED''), (''ASSIGNED'', ''ASSIGNED''),
     (''IN_PROGRESS'', ''IN_PROGRESS''), (''PENDING'', ''PENDING''), (''ROUTED'', ''ROUTED''),
     (''ROUTED_ASSIGNED'', ''ROUTED_ASSIGNED''), (''QC_PENDING'', ''QC_PENDING''),
     (''QC_FAILED'', ''QC_FAILED''), (''QC_CORRECTED'', ''QC_CORRECTED''),
     (''RESOLVED'', ''RESOLVED''), (''FILED'', ''FILED''),
     (''Open'', ''ASSIGNED''), (''Pending'', ''PENDING''), (''Filed'', ''FILED'')]"

definition docketToPersistence :: "(string \<times> string) list" where
  "docketToPersistence =
    [(''CREATED'', ''UNASSIGNED''), (''AVAILABLE'', ''UNASSIGNED''), (''ASSIGNED'', ''ASSIGNED''),
     (''ROUTED'', ''ROUTED''), (''ROUTED_ASSIGNED'', ''ROUTED_ASSIGNED''),
     (''IN_PROGRESS'', ''IN_PROGRESS''), (''PENDING'', ''PENDING''), (''QC_PENDING'', ''QC_PENDING''),
     (''QC_FAILED'', ''QC_FAILED''), (''QC_CORRECTED'', ''QC_CORRECTED''),
     (''RESOLVED'', ''RESOLVED''), (''FILED'', ''FILED'')]"

definition lookup_or_self :: "(string \<times> string) list \<Rightarrow> string \<Rightarrow> string" where
  "lookup_or_self m s = (case map_of m s of None \<Rightarrow> s | Some t \<Rightarrow> t)"

definition toDocketState :: "string option \<Rightarrow> string option" where
  "toDocketState st = (if \<not> truthy st then st else map_option (lookup_or_self persistenceToDocket) st)"

definition toPersistenceState :: "string option \<Rightarrow> string option" where
  "toPersistenceState st = (if \<not> truthy st then st else map_option (lookup_or_self docketToPersistence) st)"

definition docket_next :: "string \<Rightarrow> string list" where
  "docket_next s = (case map_of allowedTransitions s of None \<Rightarrow> [] | Some ts \<Rightarrow> ts)"

definition assertValidDocketTransition :: "string option \<Rightarrow> string option \<Rightarrow> bool res" where
  "assertValidDocketTransition from_st to_st =
    (let f = toDocketState from_st; t = toDocketState to_st;
         allowed = (case f of None \<Rightarrow> [] | Some s \<Rightarrow> docket_next s)
     in if (case t of None \<Rightarrow> False | Some s \<Rightarrow> s \<in> set allowed) then Inr True
        else Inl (Thrown (''Invalid docket state transition: '' @ str_or_empty (js_or f (Some ''UNKNOWN''))
                    @ '' -> '' @ str_or_empty (js_or t (Some ''UNKNOWN'')))
                  (Some 400) (Some ''INVALID_DOCKET_TRANSITION'')))"

subsection \<open>Canonical docket state\<close>

datatype canon = IN_WB | IN_PROGRESS | IN_QC | PENDED | RESOLVED | FILED

definition CANONICAL_DOCKET_STATES :: "(string \<times> canon) list" where
  "CANONICAL_DOCKET_STATES =
    [(''IN_WB'', IN_WB), (''IN_PROGRESS'', IN_PROGRESS), (''IN_QC'', IN_QC),
     (''PENDED'', PENDED), (''RESOLVED'', RESOLVED), (''FILED'', FILED)]"

definition canon_name :: "canon \<Rightarrow> string" where
  "canon_name c =
    (case c of IN_WB \<Rightarrow> ''IN_WB'' | IN_PROGRESS \<Rightarrow> ''IN_PROGRESS'' | IN_QC \<Rightarrow> ''IN_QC''
     | PENDED \<Rightarrow> ''PENDED'' | RESOLVED \<Rightarrow> ''RESOLVED'' | FILED \<Rightarrow> ''FILED'')"

definition state_of_assignment :: "string option \<Rightarrow> string option \<Rightarrow> canon" where
  "state_of_assignment assigned queue =
    (if js_trim (str_or_empty assigned) \<noteq> [] then IN_PROGRESS
     else if normalize_str queue = ''PERSONAL'' then IN_PROGRESS
     else IN_WB)"

text \<open>
  The argument of \<open>getCanonicalDocketState\<close> is a document; the four fields it reads are
  the arguments here: status, state, assignedToXID, queueType.
\<close>

definition getCanonicalDocketState ::
  "string option \<Rightarrow> string option \<Rightarrow> string option \<Rightarrow> string option \<Rightarrow> canon" where
  "getCanonicalDocketState st explicit_state assigned queue =
    (let s = normalize_str st
     in if s \<noteq> [] then
          (if s = ''RESOLVED'' then RESOLVED
           else if s = ''FILED'' then FILED
           else if s = ''QC_PENDING'' then IN_QC
           else if s = ''PENDING'' then PENDED
           else if s = ''ROUTED'' then IN_WB
           else if s \<in> {''ASSIGNED'', ''IN_PROGRESS'', ''ROUTED_ASSIGNED''} then IN_PROGRESS
           else if s = ''OPEN'' then (if truthy assigned then IN_PROGRESS else IN_WB)
           else state_of_assignment assigned queue)
        else (case map_of CANONICAL_DOCKET_STATES (normalize_str explicit_state) of
                Some c \<Rightarrow> c
              | None \<Rightarrow> state_of_assignment assigned queue))"

fun ALLOWED_TRANSITIONS :: "canon \<Rightarrow> canon list" where
  "ALLOWED_TRANSITIONS IN_WB = [IN_PROGRESS]"
| "ALLOWED_TRANSITIONS IN_PROGRESS = [IN_QC, PENDED, RESOLVED]"
| "ALLOWED_TRANSITIONS PENDED = [IN_PROGRESS, IN_WB]"
| "ALLOWED_TRANSITIONS IN_QC = [RESOLVED, IN_PROGRESS]"
| "ALLOWED_TRANSITIONS RESOLVED = []"
| "ALLOWED_TRANSITIONS FILED = []"

definition canTransition :: "string option \<Rightarrow> string option \<Rightarrow> bool" where
  "canTransition from_st to_st =
    (case map_of CANONICAL_DOCKET_STATES (normalize_str from_st) of
       None \<Rightarrow> False
     | Some f \<Rightarrow> normalize_str to_st \<in> set (map canon_name (ALLOWED_TRANSITIONS f)))"

definition canResolve :: "string option \<Rightarrow> bool" where
  "canResolve st \<longleftrightarrow> (let s = normalize_str st in s = ''IN_PROGRESS'' \<or> s = ''IN_QC'')"

definition canFile :: "string option \<Rightarrow> bool" where
  "canFile st \<longleftrightarrow> True"

subsection \<open>Evaluation of the vocabulary\<close>

lemma normalize_literal [simp]:
  "normalize_str (Some ''WL'') = ''WL''"
  "normalize_str (Some ''ACTIVE'') = ''ACTIVE''"
  "normalize_str (Some ''WAITING'') = ''WAITING''"
  "normalize_str (Some ''DONE'') = ''DONE''"
  "normalize_str (Some ''CREATED'') = ''CREATED''"
  "normalize_str (Some ''AVAILABLE'') = ''AVAILABLE''"
  "normalize_str (Some ''UNASSIGNED'') = ''UNASSIGNED''"
  "normalize_str (Some ''ASSIGNED'') = ''ASSIGNED''"
  "normalize_str (Some ''IN_PROGRESS'') = ''IN_PROGRESS''"
  "normalize_str (Some ''PENDING'') = ''PENDING''"
  "normalize_str (Some ''ROUTED'') = ''ROUTED''"
  "normalize_str (Some ''ROUTED_ASSIGNED'') = ''ROUTED_ASSIGNED''"
  "normalize_str (Some ''QC_PENDING'') = ''QC_PENDING''"
  "normalize_str (Some ''QC_FAILED'') = ''QC_FAILED''"
  "normalize_str (Some ''QC_CORRECTED'') = ''QC_CORRECTED''"
  "normalize_str (Some ''RESOLVED'') = ''RESOLVED''"
  "normalize_str (Some ''FILED'') = ''FILED''"
  "normalize_str (Some ''CLOSED'') = ''CLOSED''"
  "normalize_str (Some ''OPEN'') = ''OPEN''"
  "normalize_str (Some ''IN_WB'') = ''IN_WB''"
  "normalize_str (Some ''IN_QC'') = ''IN_QC''"
  "normalize_str (Some ''PENDED'') = ''PENDED''"
  "normalize_str (Some ''PERSONAL'') = ''PERSONAL''"
  "normalize_str (Some ''GLOBAL'') = ''GLOBAL''"
  "normalize_str (Some ''COMPLETED'') = ''COMPLETED''"
  "normalize_str (Some ''ARCHIVED'') = ''ARCHIVED''"
  "normalize_str (Some ''IN_WORKLIST'') = ''IN_WORKLIST''"
  "normalize_str (Some ''SYSTEM'') = ''SYSTEM''"
  "normalize_str (Some ''ADMIN'') = ''ADMIN''"
  "normalize_str (Some ''USER'') = ''USER''"
  by code_simp+

lemma map_of_STATES_name [simp]: "map_of STATES (lifecycle_name l) = Some l"
  by (cases l) (simp_all add: STATES_def lifecycle_name_def)

lemma normalize_lifecycle_name [simp]: "normalize_str (Some (lifecycle_name l)) = lifecycle_name l"
  by (cases l) (simp_all add: lifecycle_name_def)

lemma map_of_canon_name [simp]: "map_of CANONICAL_DOCKET_STATES (canon_name c) = Some c"
  by (cases c) (simp_all add: CANONICAL_DOCKET_STATES_def canon_name_def)

lemma normalize_canon_name [simp]: "normalize_str (Some (canon_name c)) = canon_name c"
  by (cases c) (simp_all add: canon_name_def)

lemma canon_name_inject [simp]: "canon_name c = canon_name d \<longleftrightarrow> c = d"
  by (metis map_of_canon_name option.inject)

lemma lifecycle_name_inject [simp]: "lifecycle_name c = lifecycle_name d \<longleftrightarrow> c = d"
  by (metis map_of_STATES_name option.inject)

lemma coerce_lifecycle_name [simp]: "coerceLifecycleToDocket (Some (lifecycle_name l)) = Some l"
proof -
  have "js_trim (lifecycle_name l) = lifecycle_name l" "js_upper (lifecycle_name l) = lifecycle_name l"
    by (cases l; simp add: lifecycle_name_def; code_simp)+
  moreover have "lifecycle_name l \<noteq> []" by (cases l) (simp_all add: lifecycle_name_def)
  ultimately show ?thesis by (simp add: coerceLifecycleToDocket_def)
qed

lemma normalizeLifecycle_name [simp]: "normalizeLifecycle (Some (lifecycle_name l)) = l"
  by (simp add: normalizeLifecycle_def)

lemma isValidTransition_name [simp]:
  "isValidTransition (Some (lifecycle_name f)) (Some (lifecycle_name t))
     \<longleftrightarrow> t \<in> set (lifecycle_TRANSITIONS f)"
  by (simp add: isValidTransition_def)

lemma canTransition_name [simp]:
  "canTransition (Some (canon_name f)) (Some (canon_name t)) \<longleftrightarrow> t \<in> set (ALLOWED_TRANSITIONS f)"
  by (auto simp: canTransition_def)

lemma DONE_only_from_ACTIVE: "DONE \<in> set (lifecycle_TRANSITIONS l) \<longleftrightarrow> l = ACTIVE"
  by (cases l) simp_all

interpretation lifecycle_table: transition_table lifecycle_TRANSITIONS "\<lambda>l. l = DONE"
proof unfold_locales
  fix s :: lifecycle
  show "s \<notin> set (lifecycle_TRANSITIONS s)" by (cases s) simp_all
qed simp

interpretation canon_table: transition_table ALLOWED_TRANSITIONS "\<lambda>c. c \<in> {RESOLVED, FILED}"
proof unfold_locales
  fix s :: canon
  show "s \<notin> set (ALLOWED_TRANSITIONS s)" by (cases s) simp_all
  show "s \<in> {RESOLVED, FILED} \<Longrightarrow> ALLOWED_TRANSITIONS s = []" by auto
qed

interpretation docket_table: transition_table docket_next "\<lambda>s. s \<in> {''RESOLVED'', ''FILED''}"
  by unfold_locales (auto simp: docket_next_def allowedTransitions_def split: if_splits)

lemma assertValidLifecycleTransition_ok:
  "assertValidLifecycleTransition f t = Inr b \<longleftrightarrow> b \<and> (
     normalizeLifecycle f = normalizeLifecycle t
     \<or> normalizeLifecycle t \<in> set (lifecycle_TRANSITIONS (normalizeLifecycle f)))"
  by (auto simp: assertValidLifecycleTransition_def Let_def)

subsection \<open>Properties\<close>

text \<open>
  Fact. The lifecycle that is derived on every save is stable: writing the derived
  value back and deriving again gives the same value, whatever the assignee and the status have
  become in the meantime, so a document that is saved twice keeps its lifecycle.
\<close>

theorem deriveLifecycle_stable:
  "deriveLifecycle (Some (lifecycle_name (deriveLifecycle lc assigned st))) assigned' st'
     = deriveLifecycle lc assigned st"
  by (simp add: deriveLifecycle_def)

text \<open>
  Fact. A docket is only ever done after it was active: in every run of lifecycle
  transitions that ends in \<open>DONE\<close> and starts elsewhere, the step before the end is taken from
  \<open>ACTIVE\<close>; in particular a waiting docket cannot be completed directly, and a completed one
  never moves again.
\<close>

theorem lifecycle_done_via_active:
  "(\<forall>l. DONE \<in> set (lifecycle_TRANSITIONS l) \<longleftrightarrow> l = ACTIVE)
   \<and> runs_to lifecycle_TRANSITIONS DONE = (\<lambda>t. t = DONE)
   \<and> (\<forall>l. runs_to lifecycle_TRANSITIONS l DONE)
   \<and> \<not> isValidTransition (Some ''waiting'') (Some ''done'')"
proof (intro conjI allI)
  fix l show "DONE \<in> set (lifecycle_TRANSITIONS l) \<longleftrightarrow> l = ACTIVE" by (rule DONE_only_from_ACTIVE)
next
  show "runs_to lifecycle_TRANSITIONS DONE = (\<lambda>t. t = DONE)"
    using lifecycle_table.terminal_absorbing by (auto simp: fun_eq_iff intro: runs_to.refl)
next
  fix l
  have "can_reach lifecycle_TRANSITIONS 2 l DONE" by (cases l) (simp_all add: numeral_2_eq_2)
  then show "runs_to lifecycle_TRANSITIONS l DONE" by (rule can_reach_sound)
next
  show "\<not> isValidTransition (Some ''waiting'') (Some ''done'')" by code_simp
qed

lemma lookup_idem:
  "lookup_or_self persistenceToDocket (lookup_or_self persistenceToDocket s)
     = lookup_or_self persistenceToDocket s"
proof -
  have "list_all (\<lambda>(_, t). lookup_or_self persistenceToDocket t = t) persistenceToDocket"
    by code_simp
  then show ?thesis
    by (cases "map_of persistenceToDocket s")
      (auto simp: lookup_or_self_def list_all_iff dest!: map_of_SomeD)
qed

lemma lookup_Nil_iff: "lookup_or_self persistenceToDocket s = [] \<longleftrightarrow> s = []"
proof -
  have "list_all (\<lambda>(k, t). t \<noteq> [] \<and> k \<noteq> []) persistenceToDocket" by code_simp
  then show ?thesis
    by (cases "map_of persistenceToDocket s")
      (auto simp: lookup_or_self_def list_all_iff dest!: map_of_SomeD)
qed

text \<open>
  Fact. The two directions of the persistence mapping fit: reading back what was
  written gives the same docket status for every status of the vocabulary but \<open>CREATED\<close>,
  which is stored as \<open>UNASSIGNED\<close> and read back as \<open>AVAILABLE\<close>; reading is idempotent.
\<close>

theorem docket_status_roundtrip:
  "(\<forall>s \<in> set DocketStatus. toDocketState (toPersistenceState (Some s))
      = Some (if s = ''CREATED'' then ''AVAILABLE'' else s))
   \<and> (\<forall>v. toDocketState (toDocketState v) = toDocketState v)"
proof
  show "\<forall>s \<in> set DocketStatus. toDocketState (toPersistenceState (Some s))
      = Some (if s = ''CREATED'' then ''AVAILABLE'' else s)"
    unfolding list_all_iff [symmetric] by code_simp
  show "\<forall>v. toDocketState (toDocketState v) = toDocketState v"
  proof
    fix v show "toDocketState (toDocketState v) = toDocketState v"
      by (cases v) (auto simp: toDocketState_def lookup_idem lookup_Nil_iff)
  qed
qed

theorem docket_status_roundtrip_witness:
  "toDocketState (toPersistenceState (Some ''QC_PENDING'')) = Some ''QC_PENDING''"
  using bspec [OF conjunct1 [OF docket_status_roundtrip], of "''QC_PENDING''"]
  by (simp add: DocketStatus_def)

text \<open>
  An abstraction of the docket status machine: the canonical state of a docket that has the
  persisted form of the status, no assignee while it waits in a workbasket and one otherwise.
\<close>

definition assigned_canon :: "string \<Rightarrow> canon" where
  "assigned_canon s = getCanonicalDocketState (toPersistenceState (Some s)) None
     (if s \<in> {''CREATED'', ''AVAILABLE'', ''ROUTED''} then None else Some ''X000001'') None"

definition simulated :: "string \<Rightarrow> string \<Rightarrow> bool" where
  "simulated s t \<longleftrightarrow> assigned_canon s = assigned_canon t
      \<or> assigned_canon t \<in> set (ALLOWED_TRANSITIONS (assigned_canon s))"

lemma docket_steps_simulated:
  "list_all (\<lambda>(s, ts). list_all (\<lambda>t. t = ''FILED'' \<or> simulated s t) ts) allowedTransitions"
  by code_simp

lemma docket_next_cases: "t \<in> set (docket_next s) \<Longrightarrow> \<exists>ts. (s, ts) \<in> set allowedTransitions \<and> t \<in> set ts"
  by (cases "map_of allowedTransitions s") (auto simp: docket_next_def dest: map_of_SomeD)

text \<open>
  Fact. The canonical state machine simulates the docket status machine: every allowed
  status transition, other than filing the docket, either keeps its canonical state
  or is an allowed transition of the canonical machine.
\<close>

theorem canonical_simulates_docket:
  assumes "t \<in> set (docket_next s)" and "t \<noteq> ''FILED''"
  shows "assigned_canon s = assigned_canon t
         \<or> canTransition (Some (canon_name (assigned_canon s))) (Some (canon_name (assigned_canon t)))"
proof -
  from assms(1) obtain ts where "(s, ts) \<in> set allowedTransitions" "t \<in> set ts"
    by (blast dest: docket_next_cases)
  then have "t = ''FILED'' \<or> simulated s t"
    using docket_steps_simulated unfolding list_all_iff by blast
  with assms(2) show ?thesis by (simp add: simulated_def)
qed

theorem canonical_simulates_docket_witness:
  "assigned_canon ''IN_PROGRESS'' \<noteq> assigned_canon ''QC_PENDING''
   \<and> canTransition (Some (canon_name (assigned_canon ''IN_PROGRESS'')))
                   (Some (canon_name (assigned_canon ''QC_PENDING'')))"
proof -
  have 1: "''QC_PENDING'' \<in> set (docket_next ''IN_PROGRESS'')" by code_simp
  have 2: "(''QC_PENDING'' :: string) \<noteq> ''FILED''" by simp
  have 3: "assigned_canon ''IN_PROGRESS'' \<noteq> assigned_canon ''QC_PENDING''" by code_simp
  with canonical_simulates_docket [OF 1 2] show ?thesis by blast
qed

text \<open>
  The lifecycle table is stricter than the other two.  These are all the status transitions
  the docket status machine allows although the lifecycle of the target cannot follow the
  lifecycle of the source.
\<close>

definition lifecycle_conflicts :: "(string \<times> string) list" where
  "lifecycle_conflicts =
    [(s, t). (s, ts) \<leftarrow> allowedTransitions, t \<leftarrow> ts,
       \<not> is_error (assertValidDocketTransition (Some s) (Some t)),
       is_error (assertValidLifecycleTransition
          (Some (lifecycle_name (toLifecycleFromStatus (Some s))))
          (Some (lifecycle_name (toLifecycleFromStatus (Some t)))))]"

text \<open>
  Fact. The state machines disagree on exactly these transitions: the docket status
  machine allows them, but the lifecycle the workflow derives for the target status cannot follow
  the one of the source.  Among them is the passing of quality control,
  \<open>QC_PENDING\<close> to \<open>RESOLVED\<close>.
\<close>

theorem lifecycle_conflicts_exact:
  "lifecycle_conflicts =
     [(''AVAILABLE'', ''ASSIGNED''), (''ROUTED'', ''ASSIGNED''), (''ROUTED'', ''ROUTED_ASSIGNED''),
      (''ROUTED_ASSIGNED'', ''RESOLVED''), (''ROUTED_ASSIGNED'', ''FILED''),
      (''PENDING'', ''ASSIGNED''), (''PENDING'', ''ROUTED_ASSIGNED''),
      (''QC_PENDING'', ''ASSIGNED''), (''QC_PENDING'', ''RESOLVED'')]"
  by code_simp

end
