(* ===== verification/CaseModel.thy ===== *)
theory CaseModel
  imports DocketStates
begin

section \<open>The docket document and its save hooks\<close>

text \<open>
  \<open>src/models/Case.model.js\<close>: the fields of a docket that the workflow reads or writes, and
  the hooks that run when a document is saved.  A field that is absent or \<open>null\<close> is
  \<open>None\<close>; a \<open>Date\<close> is an integer (milliseconds since the epoch); an \<open>ObjectId\<close> is
  its string.
\<close>

subsection \<open>The document\<close>

record lock_status =
  lk_isLocked :: bool
  lk_activeUserEmail :: "string option"
  lk_activeUserXID :: "string option"
  lk_activeUserDisplayName :: "string option"
  lk_lockedAt :: "int option"
  lk_lastActivityAt :: "int option"

record qc_info =
  qc_requestedBy :: "string option"
  qc_handledBy :: "string option"
  qc_status :: "string option"
  qc_attempts :: nat
  qc_comment :: "string option"
  qc_requestedAt :: "int option"
  qc_handledAt :: "int option"
  qc_originalAssigneeXID :: "string option"

record docket_ids =
  d_id :: string
  d_caseInternalId :: string
  d_caseId :: "string option"
  d_caseNumber :: "string option"
  d_firmId :: "string option"

record docket_class = docket_ids +
  d_category :: "string option"
  d_categoryId :: "string option"
  d_subcategory :: "string option"
  d_caseSubCategory :: "string option"
  d_subcategoryId :: "string option"

record docket_state = docket_class +
  d_status :: "string option"
  d_state :: "string option"
  d_qcOutcome :: "string option"
  d_version :: "int option"
  d_lifecycle :: "string option"

record docket_qc = docket_state +
  d_pendingUntil :: "int option"
  d_reopenAt :: "int option"
  d_duplicateOf :: "string option"
  d_forceQc :: bool
  d_qcStatus :: "string option"
  d_qcBy :: "string option"
  d_qcAt :: "int option"
  d_qcSubmittedByXID :: "string option"
  d_qcSubmittedAt :: "int option"
  d_qcDecisionByXID :: "string option"
  d_qcDecisionAt :: "int option"
  d_qcFailedCorrected :: bool
  d_qc :: qc_info
  d_resolvedAt :: "int option"
  d_pendingReason :: "string option"

record docket_teams = docket_qc +
  d_ownerTeamId :: "string option"
  d_routedToTeamId :: "string option"
  d_workbasketId :: "string option"

record docket = docket_teams +
  d_createdByXID :: "string option"
  d_assignedToXID :: "string option"
  d_assignedTo :: "string option"
  d_assignedBy :: "string option"
  d_assignedAt :: "int option"
  d_queueType :: "string option"
  d_pendedByXID :: "string option"
  d_lastActionByXID :: "string option"
  d_lastActionAt :: "int option"
  d_lockStatus :: lock_status
  d_updatedAt :: "int option"

text \<open>
  The schema's setters: \<open>uppercase\<close> and \<open>trim\<close> on the xID fields, and
  \<open>normalizeLifecycle\<close> on the lifecycle.
\<close>

definition xid_set :: "string option \<Rightarrow> string option" where
  "xid_set v = map_option (\<lambda>s. js_upper (js_trim s)) v"

definition set_lifecycle :: "lifecycle \<Rightarrow> docket \<Rightarrow> docket" where
  "set_lifecycle l d = d\<lparr>d_lifecycle := Some (lifecycle_name l)\<rparr>"

definition canonical_state :: "docket \<Rightarrow> canon" where
  "canonical_state d = getCanonicalDocketState (d_status d) (d_state d) (d_assignedToXID d) (d_queueType d)"

subsection \<open>Save hooks\<close>

definition status_validator :: "docket \<Rightarrow> bool" where
  "status_validator d \<longleftrightarrow> \<not> (d_status d = Some ''PENDING'' \<and> \<not> truthy (d_pendingReason d))"

definition enforceAssignedUserForWorklistLifecycle :: "docket \<Rightarrow> string list" where
  "enforceAssignedUserForWorklistLifecycle d =
    (if normalize_str (d_queueType d) = ''PERSONAL'' \<and> \<not> truthy (d_assignedToXID d)
     then [''assignedToXID''] else [])"

definition enforceAssignedUserForWlOnSave :: "docket \<Rightarrow> unit res" where
  "enforceAssignedUserForWlOnSave d =
    check (\<not> (normalize_str (d_queueType d) = ''PERSONAL'' \<and> \<not> truthy (d_assignedToXID d)))
      (Thrown ''PERSONAL docket must have assignedToXID'' None None)"

definition preValidate :: "docket \<Rightarrow> docket" where
  "preValidate d =
    (let d1 = set_lifecycle (deriveLifecycle (d_lifecycle d) (d_assignedToXID d) (d_status d)) d
     in if truthy (d_state d1) then d1
        else d1\<lparr>d_state := Some (canon_name (canonical_state d1))\<rparr>)"

text \<open>
  \<open>document.save()\<close> runs the pre-validate hooks, the validators of the modified paths, then
  the pre-save hooks.  Whether it also validates a status that was not modified is Mongoose's,
  and is the argument \<open>revalidate\<close>.  \<open>status\<close> is required and an enumeration.
\<close>

definition status_errors :: "bool \<Rightarrow> docket \<Rightarrow> docket \<Rightarrow> string list" where
  "status_errors revalidate before after =
    (if (d_status before \<noteq> d_status after \<or> revalidate)
        \<and> \<not> ((case d_status after of None \<Rightarrow> False | Some s \<Rightarrow> s \<in> set CaseStatus)
             \<and> status_validator after)
     then [''status''] else [])"

definition save :: "bool \<Rightarrow> docket \<Rightarrow> docket \<Rightarrow> docket res" where
  "save revalidate before after =
    (let invalid = enforceAssignedUserForWorklistLifecycle after;
         after' = preValidate after;
         errs = invalid @ status_errors revalidate before after'
     in if \<not> truthy (d_firmId after) then Inl (Thrown ''Firm ID is required for case creation'' None None)
        else if errs \<noteq> [] then Inl (ValidationError errs)
        else res_bind (enforceAssignedUserForWlOnSave after') (\<lambda>_. Inr after'))"

subsection \<open>Facts\<close>

lemma preValidate_simps [simp]:
  "d_status (preValidate d) = d_status d"
  "d_assignedToXID (preValidate d) = d_assignedToXID d"
  "d_queueType (preValidate d) = d_queueType d"
  "d_pendingReason (preValidate d) = d_pendingReason d"
  "d_firmId (preValidate d) = d_firmId d"
  "d_qcOutcome (preValidate d) = d_qcOutcome d"
  "d_version (preValidate d) = d_version d"
  "d_id (preValidate d) = d_id d"
  "d_caseId (preValidate d) = d_caseId d"
  "d_qcSubmittedByXID (preValidate d) = d_qcSubmittedByXID d"
  "d_lastActionByXID (preValidate d) = d_lastActionByXID d"
  "d_qcStatus (preValidate d) = d_qcStatus d"
  "d_qc (preValidate d) = d_qc d"
  "d_ownerTeamId (preValidate d) = d_ownerTeamId d"
  "d_workbasketId (preValidate d) = d_workbasketId d"
  "d_routedToTeamId (preValidate d) = d_routedToTeamId d"
  "d_reopenAt (preValidate d) = d_reopenAt d"
  "d_pendingUntil (preValidate d) = d_pendingUntil d"
  "truthy (d_state d) \<Longrightarrow> d_state (preValidate d) = d_state d"
  "d_lifecycle (preValidate d)
     = Some (lifecycle_name (deriveLifecycle (d_lifecycle d) (d_assignedToXID d) (d_status d)))"
  by (simp_all add: preValidate_def set_lifecycle_def Let_def)

lemma canon_name_ne_Nil [simp]: "canon_name c \<noteq> []"
  by (cases c) (simp_all add: canon_name_def)

lemma saveE:
  assumes "save rv b a = Inr d"
  obtains "d = preValidate a" "normalize_str (d_queueType a) = ''PERSONAL'' \<longrightarrow> truthy (d_assignedToXID a)"
    "truthy (d_firmId a)" "status_errors rv b (preValidate a) = []"
  using assms
  by (auto simp: save_def Let_def enforceAssignedUserForWorklistLifecycle_def
      enforceAssignedUserForWlOnSave_def split: if_splits)

lemma save_pending_requires_reason:
  assumes "d_status a = Some ''PENDING''" and "d_status b \<noteq> Some ''PENDING''"
    and "\<not> truthy (d_pendingReason a)"
  shows "is_error (save rv b a)"
  using assms by (auto simp: is_error_iff status_errors_def status_validator_def elim!: saveE)

text \<open>
  Fact. No saved docket is in a personal worklist without an owner: when a save
  succeeds, a docket whose queue is \<open>PERSONAL\<close> has an assignee, its lifecycle is one of the four
  canonical values, its canonical state is set, and its status is a status of the schema whenever
  it was modified.
\<close>

theorem save_wellformed:
  assumes "save rv b a = Inr d"
  shows "(normalize_str (d_queueType d) = ''PERSONAL'' \<longrightarrow> truthy (d_assignedToXID d))
     \<and> (\<exists>l. d_lifecycle d = Some (lifecycle_name l))
     \<and> truthy (d_state d)
     \<and> (d_status d \<noteq> d_status b \<longrightarrow> (\<exists>s \<in> set CaseStatus. d_status d = Some s))"
proof -
  from assms have d: "d = preValidate a" and q: "normalize_str (d_queueType a) = ''PERSONAL'' \<longrightarrow> truthy (d_assignedToXID a)"
    and e: "status_errors rv b (preValidate a) = []" by (auto elim: saveE)
  have "normalize_str (d_queueType d) = ''PERSONAL'' \<longrightarrow> truthy (d_assignedToXID d)"
    using d q by simp
  moreover have "\<exists>l. d_lifecycle d = Some (lifecycle_name l)" using d by auto
  moreover have "truthy (d_state d)" using d by (auto simp: preValidate_def Let_def)
  moreover have "d_status d \<noteq> d_status b \<longrightarrow> (\<exists>s \<in> set CaseStatus. d_status d = Some s)"
    using d e by (auto simp: status_errors_def split: if_splits option.splits)
  ultimately show ?thesis by blast
qed

text \<open>A new docket of firm \<open>FIRM1\<close>, used by the witnesses of the development.\<close>

definition sample_lock :: lock_status where
  "sample_lock = \<lparr>lk_isLocked = False, lk_activeUserEmail = None, lk_activeUserXID = None,
     lk_activeUserDisplayName = None, lk_lockedAt = None, lk_lastActivityAt = None\<rparr>"

definition sample_qc :: qc_info where
  "sample_qc = \<lparr>qc_requestedBy = None, qc_handledBy = None, qc_status = None, qc_attempts = 0,
     qc_comment = None, qc_requestedAt = None, qc_handledAt = None, qc_originalAssigneeXID = None\<rparr>"

definition sample_docket :: docket where
  "sample_docket = \<lparr>d_id = ''D1'', d_caseInternalId = ''I1'', d_caseId = Some ''CASE-20260108-00012'',
     d_caseNumber = Some ''CASE-20260108-00012'', d_firmId = Some ''FIRM1'',
     d_category = Some ''Tax'', d_categoryId = None, d_subcategory = None, d_caseSubCategory = None,
     d_subcategoryId = None,
     d_status = Some ''UNASSIGNED'', d_state = Some ''IN_WB'', d_qcOutcome = None, d_version = Some 0,
     d_lifecycle = Some ''WL'',
     d_pendingUntil = None, d_reopenAt = None, d_duplicateOf = None, d_forceQc = False,
     d_qcStatus = None, d_qcBy = None, d_qcAt = None, d_qcSubmittedByXID = None,
     d_qcSubmittedAt = None, d_qcDecisionByXID = None, d_qcDecisionAt = None,
     d_qcFailedCorrected = False, d_qc = sample_qc, d_resolvedAt = None, d_pendingReason = None,
     d_ownerTeamId = Some ''T1'', d_routedToTeamId = None, d_workbasketId = Some ''T1'',
     d_createdByXID = Some ''X000009'', d_assignedToXID = None, d_assignedTo = None,
     d_assignedBy = None, d_assignedAt = None, d_queueType = Some ''GLOBAL'', d_pendedByXID = None,
     d_lastActionByXID = None, d_lastActionAt = None, d_lockStatus = sample_lock, d_updatedAt = None\<rparr>"

theorem save_wellformed_witness:
  "\<exists>d. save True sample_docket sample_docket = Inr d \<and> truthy (d_state d)"
proof -
  have "save True sample_docket sample_docket = Inr (preValidate sample_docket)" by code_simp
  then show ?thesis using save_wellformed by blast
qed

end
