(* ===== verification/DocketQuery.thy ===== *)
theory DocketQuery
  imports CaseModel
begin

section \<open>Docket identifiers in queries\<close>

text \<open>
  \<open>getCaseNumberCandidates\<close> and \<open>makeDocketQuery\<close> of
  \<open>src/services/docketWorkflow.service.js\<close> (the same two functions are repeated in
  \<open>docketTransition.service.js\<close> and \<open>docketApproval.service.js\<close>).  A query is a
  predicate on documents.  \<open>mongoose.Types.ObjectId.isValid\<close> is the argument
  \<open>isObjectId\<close>.
\<close>

text \<open>\<open>replace(/[_\s]+/g, '-')\<close>: every maximal run of underscores and white space.\<close>

function collapse_runs :: "(char \<Rightarrow> bool) \<Rightarrow> string \<Rightarrow> string" where
  "collapse_runs P [] = []"
| "collapse_runs P (c # cs) =
    (if P c then CHR ''-'' # collapse_runs P (dropWhile P cs) else c # collapse_runs P cs)"
  by pat_completeness auto
termination
  by (relation "measure (\<lambda>(P, s). length s)") (auto simp: le_imp_less_Suc length_dropWhile_le)

definition run_char :: "char \<Rightarrow> bool" where
  "run_char c \<longleftrightarrow> c = CHR ''_'' \<or> js_space c"

definition strip_prefix :: "string \<Rightarrow> string \<Rightarrow> string option" where
  "strip_prefix p s = (if take (length p) s = p then Some (drop (length p) s) else None)"

text \<open>\<open>[...new Set(xs)]\<close> keeps the first occurrence of every element.\<close>

fun js_unique :: "'a list \<Rightarrow> 'a list" where
  "js_unique [] = []"
| "js_unique (x # xs) = x # filter (\<lambda>y. y \<noteq> x) (js_unique xs)"

definition prefix_match :: "string \<Rightarrow> (string \<times> string) option" where
  "prefix_match s =
    (case strip_prefix ''CASE-'' s of
       Some b \<Rightarrow> if b \<noteq> [] then Some (''CASE'', b) else None
     | None \<Rightarrow>
        (case strip_prefix ''DOCKET-'' s of
           Some b \<Rightarrow> if b \<noteq> [] then Some (''DOCKET'', b) else None
         | None \<Rightarrow> None))"

definition getCaseNumberCandidates :: "string option \<Rightarrow> string list" where
  "getCaseNumberCandidates v =
    (if \<not> truthy v then []
     else
       (let s = str_or_empty v;
            normalized = js_upper (collapse_runs run_char (js_trim s))
        in js_unique (s #
             (case prefix_match normalized of
                Some (prefix, bare) \<Rightarrow>
                  (let other = (if prefix = ''CASE'' then ''DOCKET'' else ''CASE'')
                   in [prefix @ ''-'' @ bare, other @ ''-'' @ bare, bare])
              | None \<Rightarrow> [normalized, ''CASE-'' @ normalized, ''DOCKET-'' @ normalized]))))"

definition opt_in :: "string option \<Rightarrow> string list \<Rightarrow> bool" where
  "opt_in v xs = (case v of None \<Rightarrow> False | Some s \<Rightarrow> s \<in> set xs)"

definition makeDocketQuery :: "(string \<Rightarrow> bool) \<Rightarrow> string option \<Rightarrow> string \<Rightarrow> docket \<Rightarrow> bool" where
  "makeDocketQuery isObjectId docketId firmId d =
    (let candidates = getCaseNumberCandidates docketId
     in d_firmId d = Some firmId
        \<and> (opt_in (d_caseId d) candidates \<or> opt_in (d_caseNumber d) candidates
           \<or> (case docketId of None \<Rightarrow> False
              | Some i \<Rightarrow> isObjectId i \<and> (d_caseInternalId d = i \<or> d_id d = i))))"

subsection \<open>Facts\<close>

lemma set_js_unique [simp]: "set (js_unique xs) = set xs"
  by (induction xs) auto

lemma distinct_js_unique [simp]: "distinct (js_unique xs)"
  by (induction xs) auto

lemma strip_prefix_append [simp]: "strip_prefix p (p @ s) = Some s"
  by (simp add: strip_prefix_def)

lemma strip_prefix_Some: "strip_prefix p s = Some b \<longleftrightarrow> s = p @ b"
  by (auto simp: strip_prefix_def) (metis append_take_drop_id)

lemma prefix_match_CASE [simp]: "b \<noteq> [] \<Longrightarrow> prefix_match (''CASE-'' @ b) = Some (''CASE'', b)"
  by (simp add: prefix_match_def del: append.simps)

lemma prefix_match_DOCKET: "b \<noteq> [] \<Longrightarrow> prefix_match (''DOCKET-'' @ b) = Some (''DOCKET'', b)"
  by (simp add: prefix_match_def strip_prefix_def)

lemma collapse_runs_id: "list_all (\<lambda>c. \<not> P c) s \<Longrightarrow> collapse_runs P s = s"
  by (induction s) auto

lemma dropWhile_none: "list_all (\<lambda>c. \<not> P c) s \<Longrightarrow> dropWhile P s = s"
  by (cases s) auto

lemma js_trim_none: "list_all (\<lambda>c. \<not> js_space c) s \<Longrightarrow> js_trim s = s"
  by (simp add: js_trim_def dropWhile_none list_all_rev)

text \<open>Bare numbers: printable upper-case text with no separator to rewrite.\<close>

definition plain_number :: "string \<Rightarrow> bool" where
  "plain_number s \<longleftrightarrow> s \<noteq> [] \<and> list_all (\<lambda>c. \<not> run_char c \<and> upper_char c = c) s"

lemma plain_append: "plain_number s \<Longrightarrow> plain_number p \<Longrightarrow> plain_number (p @ s)"
  by (simp add: plain_number_def)

lemma plain_normalized:
  assumes "plain_number s"
  shows "js_upper (collapse_runs run_char (js_trim s)) = s"
proof -
  from assms have "list_all (\<lambda>c. \<not> js_space c) s" "list_all (\<lambda>c. \<not> run_char c) s" "map upper_char s = s"
    by (auto simp: plain_number_def list_all_iff run_char_def map_idI)
  then show ?thesis by (simp add: js_trim_none collapse_runs_id js_upper_def)
qed

lemma plain_prefixes: "plain_number ''CASE-''" "plain_number ''DOCKET-''"
  by code_simp+

lemma candidates_prefixed:
  assumes "s \<noteq> []" and "js_upper (collapse_runs run_char (js_trim s)) = n"
    and "prefix_match n = Some (p, b)"
  shows "set (getCaseNumberCandidates (Some s))
         = {s, p @ ''-'' @ b, (if p = ''CASE'' then ''DOCKET'' else ''CASE'') @ ''-'' @ b, b}"
  using assms by (simp add: getCaseNumberCandidates_def Let_def del: js_unique.simps)

lemma candidates_CASE:
  assumes "plain_number b"
  shows "set (getCaseNumberCandidates (Some (''CASE-'' @ b))) = {''CASE-'' @ b, ''DOCKET-'' @ b, b}"
proof -
  have b: "b \<noteq> []" using assms by (simp add: plain_number_def)
  have n: "js_upper (collapse_runs run_char (js_trim (''CASE-'' @ b))) = ''CASE-'' @ b"
    by (rule plain_normalized [OF plain_append [OF assms plain_prefixes(1)]])
  show ?thesis
    using candidates_prefixed [OF _ n prefix_match_CASE [OF b]] by simp
qed

lemma candidates_DOCKET:
  assumes "plain_number b"
  shows "set (getCaseNumberCandidates (Some (''DOCKET-'' @ b))) = {''CASE-'' @ b, ''DOCKET-'' @ b, b}"
proof -
  have b: "b \<noteq> []" using assms by (simp add: plain_number_def)
  have n: "js_upper (collapse_runs run_char (js_trim (''DOCKET-'' @ b))) = ''DOCKET-'' @ b"
    by (rule plain_normalized [OF plain_append [OF assms plain_prefixes(2)]])
  show ?thesis
    using candidates_prefixed [OF _ n prefix_match_DOCKET [OF b]] by auto
qed

text \<open>
  Fact. The two spellings of an identifier are interchangeable: for a number in the
  program's own format, asking for \<open>CASE-n\<close> and asking for \<open>DOCKET-n\<close> selects the same
  documents of a firm, when neither string is an object id.
\<close>

theorem docket_query_alias:
  assumes "plain_number b"
    and "\<not> isObjectId (''CASE-'' @ b)" and "\<not> isObjectId (''DOCKET-'' @ b)"
  shows "makeDocketQuery isObjectId (Some (''CASE-'' @ b)) firmId d
         = makeDocketQuery isObjectId (Some (''DOCKET-'' @ b)) firmId d"
  using assms candidates_CASE [OF assms(1)] candidates_DOCKET [OF assms(1)]
  by (simp add: makeDocketQuery_def opt_in_def del: append.simps split: option.splits)

theorem docket_query_alias_witness:
  "makeDocketQuery (\<lambda>s. length s = 24) (Some ''DOCKET-20260108-00012'') ''FIRM1'' sample_docket"
proof -
  have "plain_number ''20260108-00012''" by code_simp
  from docket_query_alias [OF this, of "\<lambda>s. length s = 24" "''FIRM1''" sample_docket]
  have "makeDocketQuery (\<lambda>s. length s = 24) (Some ''DOCKET-20260108-00012'') ''FIRM1'' sample_docket
        = makeDocketQuery (\<lambda>s. length s = 24) (Some ''CASE-20260108-00012'') ''FIRM1'' sample_docket"
    by simp
  also have "\<dots>" by code_simp
  finally show ?thesis by simp
qed



end
