(* ===== verification/DocketQc.thy ===== *)
theory DocketQc
  imports DocketQuery Complex_Main
begin

section \<open>Quality control: sampling, routing, decisions\<close>

text \<open>
  The quality-control rules of \<open>src/services/docketWorkflow.service.js\<close>.  A \<open>Number\<close> is a
  rational (\<open>None\<close> for \<open>undefined\<close>, \<open>null\<close> and \<open>NaN\<close>).  The first 32 bits of
  the SHA-256 digest of a string are the argument \<open>sha\<close>.
\<close>

definition makeError :: "string \<Rightarrow> js_error" where
  "makeError msg = Thrown msg (Some 400) (Some ''VALIDATION_ERROR'')"

definition QC_DECISIONS :: "string list" where
  "QC_DECISIONS = [''APPROVED'', ''PASSED'', ''FAILED'', ''CORRECTED'']"

record subcategory =
  sc_id :: "string option"
  sc_name :: "string option"
  sc_forceQC :: bool
  sc_qcPercent :: "rat option"
  sc_isActive :: bool
  sc_workbasketId :: "string option"

record category =
  cat_name :: "string option"
  cat_forceQC :: bool
  cat_qcPercent :: "rat option"
  cat_subcategories :: "subcategory list"

definition normalizeQcPercent :: "rat option \<Rightarrow> int" where
  "normalizeQcPercent v =
    (let percent = (case v of None \<Rightarrow> 0 | Some q \<Rightarrow> \<lfloor>q + 1/2\<rfloor>) in min 100 (max 0 percent))"

definition shouldRouteToQcByPercent :: "(string \<Rightarrow> nat) \<Rightarrow> string option \<Rightarrow> rat option \<Rightarrow> bool" where
  "shouldRouteToQcByPercent sha docketId percent =
    (let normalizedPercent = normalizeQcPercent percent
     in if normalizedPercent \<le> 0 then False
        else if normalizedPercent \<ge> 100 then True
        else int (sha (str_or_empty docketId) mod 100) < normalizedPercent)"

definition findDocketSubcategory :: "category option \<Rightarrow> docket \<Rightarrow> subcategory option" where
  "findDocketSubcategory cat d =
    (let subs = (case cat of None \<Rightarrow> [] | Some c \<Rightarrow> cat_subcategories c);
         sid = js_trim (str_or_empty (d_subcategoryId d));
         sname = js_lower (js_trim (str_or_empty (js_or (d_subcategory d) (d_caseSubCategory d))))
     in find (\<lambda>sc. (sid \<noteq> [] \<and> str_or_empty (sc_id sc) = sid)
                 \<or> (sname \<noteq> [] \<and> js_lower (js_trim (str_or_empty (sc_name sc))) = sname)) subs)"

record qc_routing =
  routeToQc :: bool
  qr_source :: string
  qr_percent :: int

text \<open>
  \<open>resolverUser\<close> is \<open>None\<close> when there is no such user; its sampling rate is an option of
  its own.
\<close>

definition resolveQcRoutingDecision ::
  "(string \<Rightarrow> nat) \<Rightarrow> docket \<Rightarrow> category option \<Rightarrow> subcategory option \<Rightarrow> bool \<Rightarrow> rat option option \<Rightarrow> qc_routing" where
  "resolveQcRoutingDecision sha d cat sub sendToQC resolverUser =
    (if sendToQC then \<lparr>routeToQc = True, qr_source = ''manual'', qr_percent = 100\<rparr>
     else if d_forceQc d \<or> (case sub of None \<Rightarrow> False | Some s \<Rightarrow> sc_forceQC s)
             \<or> (case cat of None \<Rightarrow> False | Some c \<Rightarrow> cat_forceQC c)
     then \<lparr>routeToQc = True, qr_source = ''configured'', qr_percent = 100\<rparr>
     else
       (let (effectivePercent, source) =
              (case resolverUser of
                 Some (Some rate) \<Rightarrow> (normalizeQcPercent (Some rate), ''user_sampled'')
               | _ \<Rightarrow>
                  (let subcategoryPercent = normalizeQcPercent (case sub of None \<Rightarrow> None | Some s \<Rightarrow> sc_qcPercent s);
                       categoryPercent = normalizeQcPercent (case cat of None \<Rightarrow> None | Some c \<Rightarrow> cat_qcPercent c)
                   in (if subcategoryPercent > 0 then subcategoryPercent else categoryPercent, ''sampled'')));
            sampled = shouldRouteToQcByPercent sha (js_or (d_caseId d) (Some (d_id d)))
                        (Some (of_int effectivePercent))
        in \<lparr>routeToQc = sampled,
            qr_source = (if sampled then source else ''none''),
            qr_percent = effectivePercent\<rparr>))"

definition getQcDecisionTransition :: "string option \<Rightarrow> string option \<Rightarrow> (canon \<times> string) res" where
  "getQcDecisionTransition fromCanonicalState decision =
    (let fromState = js_upper (str_or_empty fromCanonicalState);
         normalizedDecision = js_upper (str_or_empty decision)
     in if fromState \<noteq> ''IN_QC'' then Inl (makeError ''QC can only be performed when docket is in QC state'')
        else if normalizedDecision \<notin> set QC_DECISIONS then Inl (makeError ''Invalid QC decision'')
        else if normalizedDecision = ''FAILED'' then Inr (IN_PROGRESS, ''FAILED'')
        else if normalizedDecision = ''CORRECTED'' then Inr (RESOLVED, ''CORRECTED'')
        else Inr (RESOLVED, ''PASSED''))"

subsection \<open>Facts\<close>

lemma normalizeQcPercent_range: "0 \<le> normalizeQcPercent v \<and> normalizeQcPercent v \<le> 100"
  by (simp add: normalizeQcPercent_def Let_def)

lemma floor_half_int [simp]: "\<lfloor>of_int n + (1/2 :: rat)\<rfloor> = n"
  by (simp add: floor_eq_iff)

lemma normalizeQcPercent_of_int [simp]:
  "normalizeQcPercent (Some (of_int n)) = min 100 (max 0 n)"
  by (simp add: normalizeQcPercent_def)

lemma normalizeQcPercent_idem [simp]:
  "normalizeQcPercent (Some (of_int (normalizeQcPercent v))) = normalizeQcPercent v"
  using normalizeQcPercent_range [of v] by simp

lemma normalizeQcPercent_mono: "p \<le> q \<Longrightarrow> normalizeQcPercent (Some p) \<le> normalizeQcPercent (Some q)"
proof -
  assume "p \<le> q"
  then have "\<lfloor>p + 1/2\<rfloor> \<le> \<lfloor>q + 1/2\<rfloor>" by (intro floor_mono) simp
  then show ?thesis by (simp add: normalizeQcPercent_def)
qed

lemma routed_iff:
  "shouldRouteToQcByPercent sha i v \<longleftrightarrow> int (sha (str_or_empty i) mod 100) < normalizeQcPercent v"
proof -
  have "0 \<le> int (sha (str_or_empty i) mod 100) \<and> int (sha (str_or_empty i) mod 100) < 100"
    by simp
  then show ?thesis
    using normalizeQcPercent_range [of v]
    by (simp add: shouldRouteToQcByPercent_def Let_def) linarith
qed

text \<open>
  Fact. Sampling is a threshold on a fixed bucket of the docket: a docket that a rate
  selects for quality control is selected by every higher rate, a rate that rounds to 0 or less
  selects none and a rate of 100 or more selects all, and of the hundred buckets a rate selects
  exactly as many as its normalised percentage.
\<close>

theorem qc_sampling_threshold:
  "(\<forall>p q. p \<le> q \<and> shouldRouteToQcByPercent sha i (Some p) \<longrightarrow> shouldRouteToQcByPercent sha i (Some q))
   \<and> \<not> shouldRouteToQcByPercent sha i (Some 0) \<and> \<not> shouldRouteToQcByPercent sha i None
   \<and> shouldRouteToQcByPercent sha i (Some 100)
   \<and> (\<forall>v. card {b. b < 100 \<and> shouldRouteToQcByPercent (\<lambda>_. b) i v} = nat (normalizeQcPercent v))"
proof (intro conjI allI impI)
  fix p q assume "p \<le> q \<and> shouldRouteToQcByPercent sha i (Some p)"
  then show "shouldRouteToQcByPercent sha i (Some q)"
    using normalizeQcPercent_mono [of p q] by (auto simp: routed_iff)
next
  fix v
  have "{b. b < 100 \<and> shouldRouteToQcByPercent (\<lambda>_. b) i v} = {..< nat (normalizeQcPercent v)}"
    using normalizeQcPercent_range [of v] by (auto simp: routed_iff)
  then show "card {b. b < 100 \<and> shouldRouteToQcByPercent (\<lambda>_. b) i v} = nat (normalizeQcPercent v)"
    by simp
qed (simp_all add: shouldRouteToQcByPercent_def normalizeQcPercent_def Let_def floor_eq_iff)

theorem qc_sampling_threshold_witness:
  "shouldRouteToQcByPercent (\<lambda>s. 30 + length s) (Some ''D1'') (Some 50)"
proof -
  have "shouldRouteToQcByPercent (\<lambda>s. 30 + length s) (Some ''D1'') (Some 33)" by code_simp
  moreover have "(33 :: rat) \<le> 50" by simp
  ultimately show ?thesis using qc_sampling_threshold by blast
qed

text \<open>
  Fact. Quality-control routing has a fixed precedence: a manual request always routes;
  otherwise a forced docket, subcategory or category always routes; otherwise the resolver's own
  rate decides, even when the category asks for more; the subcategory's percentage decides before
  the category's.  The reported percentage always lies between 0 and 100, and a docket is
  reported as not routed exactly when the source is \<open>none\<close>.
\<close>

theorem qc_routing_precedence:
  "routeToQc (resolveQcRoutingDecision sha d cat sub True u)
   \<and> (d_forceQc d \<longrightarrow> routeToQc (resolveQcRoutingDecision sha d cat sub manual u))
   \<and> (\<not> d_forceQc d \<and> cat = Some c \<and> \<not> cat_forceQC c \<and> sub = Some s \<and> \<not> sc_forceQC s
      \<longrightarrow> routeToQc (resolveQcRoutingDecision sha d cat sub False (Some (Some rate)))
            = (int (sha (str_or_empty (js_or (d_caseId d) (Some (d_id d)))) mod 100)
               < normalizeQcPercent (Some rate))
         \<and> qr_percent (resolveQcRoutingDecision sha d cat sub False None)
            = (if normalizeQcPercent (sc_qcPercent s) > 0 then normalizeQcPercent (sc_qcPercent s)
               else normalizeQcPercent (cat_qcPercent c)))
   \<and> qr_percent (resolveQcRoutingDecision sha d cat sub manual u) \<in> {0..100}
   \<and> (routeToQc (resolveQcRoutingDecision sha d cat sub manual u)
      \<longleftrightarrow> qr_source (resolveQcRoutingDecision sha d cat sub manual u) \<noteq> ''none'')"
proof (intro conjI impI)
  show "qr_percent (resolveQcRoutingDecision sha d cat sub manual u) \<in> {0..100}"
    using normalizeQcPercent_range
    by (cases "u"; cases "the u") (simp_all add: resolveQcRoutingDecision_def Let_def)
  show "routeToQc (resolveQcRoutingDecision sha d cat sub manual u)
      \<longleftrightarrow> qr_source (resolveQcRoutingDecision sha d cat sub manual u) \<noteq> ''none''"
    by (cases "u"; cases "the u") (simp_all add: resolveQcRoutingDecision_def Let_def)
qed (simp_all add: resolveQcRoutingDecision_def Let_def routed_iff
       max_absorb2 normalizeQcPercent_range)

theorem qc_routing_precedence_witness:
  "routeToQc (resolveQcRoutingDecision (\<lambda>_. 99) (sample_docket\<lparr>d_forceQc := True\<rparr>) None None False None)
   \<and> \<not> routeToQc (resolveQcRoutingDecision (\<lambda>_. 99) sample_docket None None False (Some (Some 99)))"
proof
  have "d_forceQc (sample_docket\<lparr>d_forceQc := True\<rparr>)" by simp
  then show "routeToQc (resolveQcRoutingDecision (\<lambda>_. 99) (sample_docket\<lparr>d_forceQc := True\<rparr>) None None False None)"
    using qc_routing_precedence by blast
  show "\<not> routeToQc (resolveQcRoutingDecision (\<lambda>_. 99) sample_docket None None False (Some (Some 99)))"
    by code_simp
qed

lemma getQcDecisionTransition_cases:
  "getQcDecisionTransition f dec = Inr (c, oc) \<Longrightarrow>
     (c = IN_PROGRESS \<and> oc = ''FAILED'') \<or> (c = RESOLVED \<and> oc = ''CORRECTED'') \<or> (c = RESOLVED \<and> oc = ''PASSED'')"
  by (auto simp: getQcDecisionTransition_def Let_def split: if_splits)

end
