(* ===== verification/DocketWorkflow.thy ===== *)
theory DocketWorkflow
  imports DocketQc
begin

section \<open>The docket workflow handlers\<close>

text \<open>
  \<open>src/services/docketWorkflow.service.js\<close>.  A handler takes the document its query loaded
  (\<open>None\<close> when nothing matched) and what its other lookups returned, and yields its effects, in
  order, with the document it returns or the error it throws.  One clock reading \<open>e_now\<close> stands
  for the \<open>new Date()\<close> calls of one run.
\<close>

record env =
  e_now :: int
  e_revalidate :: bool

record actor =
  actor_xID :: "string option"
  actor_role :: "string option"

record audit =
  au_docketId :: "string option"
  au_event :: string
  au_action :: string
  au_actionType :: string
  au_fromState :: "string option"
  au_toState :: "string option"
  au_userId :: "string option"
  au_role :: string
  au_comment :: "string option"
  au_qcOutcome :: "string option"

datatype effect =
    Save docket
  | Notify (notify_user: string) (notify_type: string) (notify_docket: "string option")
  | Emitted (event_name: string) (event_docket: "string option")
  | Audited audit
  | Activity (activity_type: string) (activity_docket: string)
  | StoreSet (set_docket: string)

subsection \<open>Guards\<close>

definition validateOwnershipRules :: "docket \<Rightarrow> docket res" where
  "validateOwnershipRules d =
    (if d_state d = Some ''IN_WB'' \<and> truthy (d_assignedToXID d)
     then Inl (makeError ''WB docket cannot have owner'')
     else if d_state d = Some ''IN_PROGRESS'' \<and> \<not> truthy (d_assignedToXID d)
     then Inl (makeError ''IN_PROGRESS docket must have owner'')
     else Inr d)"

definition enforceOwnershipRules :: "docket \<Rightarrow> docket res" where
  "enforceOwnershipRules d =
    (let d1 = (if d_state d = Some ''IN_WB''
               then d\<lparr>d_assignedToXID := None, d_assignedTo := None, d_queueType := Some ''GLOBAL''\<rparr>
               else d)
     in if d_state d1 = Some ''IN_PROGRESS'' \<and> \<not> truthy (d_assignedToXID d1)
        then Inl (makeError ''IN_PROGRESS docket must have an owner'')
        else validateOwnershipRules
          (if d_state d1 = Some ''IN_PROGRESS'' then d1\<lparr>d_queueType := Some ''PERSONAL''\<rparr> else d1))"

definition hydrateCanonicalDocketFields :: "docket \<Rightarrow> docket" where
  "hydrateCanonicalDocketFields d =
    (if truthy (d_state d) then d else d\<lparr>d_state := Some (canon_name (canonical_state d))\<rparr>)"

definition requireComment :: "string option \<Rightarrow> string \<Rightarrow> unit res" where
  "requireComment comment context =
    check (js_trim (str_or_empty comment) \<noteq> [])
      (Thrown (context @ '' requires comment'') (Some 400) (Some ''COMMENT_REQUIRED''))"

definition INACTIVITY_TIMEOUT_MS :: int where
  "INACTIVITY_TIMEOUT_MS = 2 * 60 * 60 * 1000"

definition lockHolderLabel :: "lock_status \<Rightarrow> string" where
  "lockHolderLabel l =
    (let display = js_trim (str_or_empty (lk_activeUserDisplayName l));
         xid = js_upper (js_trim (str_or_empty (lk_activeUserXID l)));
         email = js_lower (js_trim (str_or_empty (lk_activeUserEmail l)))
     in if display \<noteq> [] \<and> xid \<noteq> [] then display @ '' ('' @ xid @ '')''
        else if display \<noteq> [] then display else if xid \<noteq> [] then xid
        else if email \<noteq> [] then email else ''another user'')"

definition assertNotLockedByAnotherActiveUser :: "int \<Rightarrow> docket \<Rightarrow> actor \<Rightarrow> unit res" where
  "assertNotLockedByAnotherActiveUser now d actor =
    (let l = d_lockStatus d;
         actorXID = normalize_str (actor_xID actor);
         ownerXID = normalize_str (lk_activeUserXID l);
         lockTs = (case lk_lastActivityAt l of Some t \<Rightarrow> t
                   | None \<Rightarrow> (case lk_lockedAt l of Some t \<Rightarrow> t | None \<Rightarrow> 0));
         isActiveLock = (lockTs > 0 \<and> now - lockTs < INACTIVITY_TIMEOUT_MS)
     in if \<not> lk_isLocked l then Inr ()
        else if actorXID \<noteq> [] \<and> ownerXID \<noteq> [] \<and> actorXID = ownerXID then Inr ()
        else if \<not> isActiveLock then Inr ()
        else Inl (Thrown (''Docket is locked by '' @ lockHolderLabel l
                    @ ''. Ask them to exit or close the docket before moving it.'')
                   (Some 409) (Some ''DOCKET_LOCKED_ACTIVE'')))"

definition normalizeActorRole :: "actor \<Rightarrow> string" where
  "normalizeActorRole a =
    (let raw = js_upper (str_or_empty (actor_role a))
     in if raw \<in> {''ADMIN'', ''SUPER_ADMIN'', ''SUPERADMIN''} then ''ADMIN''
        else if raw = ''SYSTEM'' then ''SYSTEM'' else ''USER'')"

fun join_names :: "lifecycle list \<Rightarrow> string" where
  "join_names [] = []"
| "join_names [l] = lifecycle_name l"
| "join_names (l # ls) = lifecycle_name l @ '', '' @ join_names ls"

definition validateLifecycleAccess ::
  "actor \<Rightarrow> lifecycle \<Rightarrow> lifecycle \<Rightarrow> string option \<Rightarrow> unit res" where
  "validateLifecycleAccess a fromL toL fromStatus =
    (if normalizeActorRole a = ''USER''
        \<and> getCanonicalDocketState fromStatus None None None = IN_QC
     then Inl (Thrown ''Permission denied'' (Some 403) (Some ''DOCKET_PERMISSION_DENIED''))
     else check (isValidTransition (Some (lifecycle_name fromL)) (Some (lifecycle_name toL)))
       (Thrown (''Invalid lifecycle transition from '' @ lifecycle_name fromL @ '' to ''
           @ lifecycle_name toL @ ''. Allowed: ''
           @ str_or_empty (js_or (Some (join_names (getNextStates (Some (lifecycle_name fromL))))) (Some ''none'')))
         (Some 400) (Some ''INVALID_DOCKET_TRANSITION'')))"

subsection \<open>Notifications, audit, lifecycle\<close>

definition createDocketNotification ::
  "string option \<Rightarrow> string \<Rightarrow> string option \<Rightarrow> effect list" where
  "createDocketNotification userId type docketId =
    (if \<not> truthy userId then [] else [Notify (js_upper (str_or_empty userId)) type docketId])"

definition transitionLifecycle ::
  "docket \<Rightarrow> lifecycle \<Rightarrow> bool \<Rightarrow> string option \<Rightarrow> actor \<Rightarrow> (effect, docket) outcome" where
  "transitionLifecycle d target suppress firmId a =
    (let fromL = normalizeLifecycle (js_or (d_lifecycle d) (Some ''WL''))
     in seq (pure (if fromL \<noteq> target
                   then assertValidLifecycleTransition (Some (lifecycle_name fromL)) (Some (lifecycle_name target))
                   else Inr True)) (\<lambda>_.
        seq (pure (check (\<not> (target = WL \<and> js_trim (str_or_empty (d_assignedToXID d)) = []))
               (Thrown ''Cannot move to WL without assignment'' (Some 400) (Some ''WL_ASSIGNMENT_REQUIRED'')))) (\<lambda>_.
        seq (emit (if \<not> suppress \<and> fromL \<noteq> target \<and> truthy firmId \<and> truthy (d_caseId d)
                   then createDocketNotification (js_or (d_assignedToXID d) (actor_xID a)) ''STATUS_CHANGED'' (d_caseId d)
                   else [])) (\<lambda>_.
        pure (Inr (set_lifecycle target d))))))"

definition assignToUser :: "int \<Rightarrow> docket \<Rightarrow> string option \<Rightarrow> docket" where
  "assignToUser now d userId =
    set_lifecycle WL (d\<lparr>d_assignedToXID := xid_set (Some (js_upper (str_or_empty userId))),
      d_queueType := Some ''PERSONAL'', d_assignedAt := Some now, d_updatedAt := Some now,
      d_status := toPersistenceState (Some ''ASSIGNED''),
      d_state := Some ''IN_PROGRESS'', d_qcOutcome := None\<rparr>)"

fun js_includes :: "string \<Rightarrow> string \<Rightarrow> bool" where
  "js_includes p [] = (p = [])"
| "js_includes p (c # cs) = (take (length p) (c # cs) = p \<or> js_includes p cs)"

definition audit_action_type :: "string \<Rightarrow> string option \<Rightarrow> string option \<Rightarrow> string" where
  "audit_action_type action fromState toState =
    (if action = ''ASSIGNMENT'' \<or> action = ''REASSIGNED'' then ''CASE_ASSIGNED''
     else
      (let lowerTo = js_lower (str_or_empty toState); lowerFrom = js_lower (str_or_empty fromState)
       in if js_includes ''pend'' lowerTo \<and> \<not> js_includes ''pend'' lowerFrom then ''CASE_PENDED''
          else if js_includes ''pend'' lowerFrom \<and> \<not> js_includes ''pend'' lowerTo then ''CASE_UNPENDED''
          else if js_includes ''resolve'' lowerTo then ''CASE_RESOLVED''
          else if js_includes ''file'' lowerTo then ''CASE_FILED''
          else if js_includes ''qc'' lowerTo \<or> take 3 action = ''QC_'' then ''CASE_STATUS_CHANGED''
          else ''CASE_UPDATED''))"

definition writeAudit ::
  "string option \<Rightarrow> string \<Rightarrow> string option \<Rightarrow> string option \<Rightarrow> string option \<Rightarrow> string
   \<Rightarrow> string option \<Rightarrow> string option \<Rightarrow> string option \<Rightarrow> effect" where
  "writeAudit docketId action fromState toState userId role comment meta_event qcOutcome =
    Audited \<lparr>au_docketId = docketId,
      au_event = (if js_upper (str_or_empty meta_event) = ''QC_ACTION'' then ''QC_ACTION'' else ''STATE_CHANGED''),
      au_action = action,
      au_actionType = audit_action_type action fromState toState,
      au_fromState = fromState, au_toState = toState, au_userId = userId, au_role = role,
      au_comment = comment, au_qcOutcome = qcOutcome\<rparr>"

subsection \<open>Pulling from the workbasket\<close>

definition pull_filter :: "(string \<Rightarrow> bool) \<Rightarrow> string option \<Rightarrow> string \<Rightarrow> docket \<Rightarrow> bool" where
  "pull_filter isObjectId docketId firmId d \<longleftrightarrow>
    makeDocketQuery isObjectId docketId firmId d
    \<and> d_status d = toPersistenceState (Some ''AVAILABLE'')
    \<and> \<not> truthy (d_assignedToXID d)"

definition pull_update :: "int \<Rightarrow> string \<Rightarrow> string option \<Rightarrow> string option \<Rightarrow> docket \<Rightarrow> docket" where
  "pull_update now assigneeXID userId userObjectId d =
    set_lifecycle WL (d\<lparr>d_status := toPersistenceState (Some ''ASSIGNED''),
      d_assignedToXID := xid_set (Some assigneeXID), d_assignedTo := userObjectId, d_assignedAt := Some now,
      d_lastActionByXID := xid_set (Some (js_upper (str_or_empty userId))), d_lastActionAt := Some now,
      d_updatedAt := Some now, d_queueType := Some ''PERSONAL'', d_state := Some ''IN_PROGRESS'',
      d_qcOutcome := None, d_version := Some (case d_version d of None \<Rightarrow> 1 | Some v \<Rightarrow> v + 1)\<rparr>)"

text \<open>\<open>stored\<close> is the document the identifier designates when the atomic update runs.\<close>

definition pullFromWorkbench ::
  "env \<Rightarrow> (string \<Rightarrow> bool) \<Rightarrow> string option \<Rightarrow> string \<Rightarrow> string option \<Rightarrow> string option \<Rightarrow> string option
   \<Rightarrow> docket option \<Rightarrow> (effect, docket) outcome" where
  "pullFromWorkbench e isObjectId docketId firmId userId userObjectId assignToXID stored =
    (let assigneeXID = js_upper (str_or_empty (js_or assignToXID userId))
     in if assigneeXID = [] then pure (Inl (makeError ''assignee xID required''))
        else
        (case stored of
           None \<Rightarrow> pure (Inl (Thrown ''Docket not found'' (Some 404) (Some ''DOCKET_NOT_FOUND'')))
         | Some d \<Rightarrow>
            if pull_filter isObjectId docketId firmId d
            then (let u = pull_update (e_now e) assigneeXID userId userObjectId d
                  in ([Save u,
                       writeAudit (d_caseId u) ''ASSIGNMENT'' (Some ''AVAILABLE'') (Some ''ASSIGNED'') userId ''USER'' None None None,
                       Emitted ''docket.assignment'' (d_caseId u)]
                      @ createDocketNotification (Some assigneeXID) ''DOCKET_ASSIGNED'' (d_caseId u)
                      @ [Activity ''ASSIGNED'' (d_caseInternalId u)],
                      Inr (hydrateCanonicalDocketFields u)))
            else if makeDocketQuery isObjectId docketId firmId d
            then pure (Inl (Thrown ''Docket is already assigned'' (Some 409) (Some ''DOCKET_ALREADY_ASSIGNED'')))
            else pure (Inl (Thrown ''Docket not found'' (Some 404) (Some ''DOCKET_NOT_FOUND'')))))"

end
