(* ===== verification/DocketHandlers.thy ===== *)
theory DocketHandlers
  imports DocketWorkflow
begin

section \<open>Moving a docket: transition, quality-control decision, reassignment, activation\<close>

text \<open>
  The remaining handlers of \<open>src/services/docketWorkflow.service.js\<close> that load a document,
  change it and save it: \<open>transition\<close>, \<open>qcDecision\<close>, \<open>reassign\<close> and
  \<open>activateOnOpen\<close>.  \<open>qcTeam\<close> is what the lookup of the active QC workbasket of a
  workbasket returns.
\<close>

definition not_found :: js_error where
  "not_found = Thrown ''Docket not found'' (Some 404) (Some ''DOCKET_NOT_FOUND'')"

definition save_step :: "env \<Rightarrow> docket \<Rightarrow> docket \<Rightarrow> (effect, docket) outcome" where
  "save_step e before after =
    seq (pure (save (e_revalidate e) before after)) (\<lambda>d. seq (emit [Save d]) (\<lambda>_. pure (Inr d)))"

subsection \<open>transition\<close>

record transition_req =
  tr_firmId :: string
  tr_actor :: actor
  tr_toState :: "string option"
  tr_comment :: "string option"
  tr_reopenAt :: "int option"
  tr_duplicateOf :: "string option"

text \<open>
  Lines 527 to 589: the target and the guards before the document is touched.  Resolving reads
  the identifier \<open>subcategory\<close>, which \<open>transition\<close> never declares, so this branch throws a
  \<open>ReferenceError\<close> after its comment check.
\<close>

definition transition_target :: "transition_req \<Rightarrow> string option res" where
  "transition_target r =
    (let normalizedTarget = toDocketState (tr_toState r)
     in res_bind (if normalizedTarget \<in> {Some ''PENDING'', Some ''RESOLVED'', Some ''FILED''}
                  then requireComment (tr_comment r) (str_or_empty normalizedTarget) else Inr ()) (\<lambda>_.
        if normalizedTarget = Some ''RESOLVED'' then Inl (ReferenceError ''subcategory'')
        else Inr normalizedTarget))"

definition target_canonical :: "docket \<Rightarrow> string option \<Rightarrow> canon" where
  "target_canonical d finalTarget =
    getCanonicalDocketState (toPersistenceState finalTarget) (d_state d) (d_assignedToXID d) (d_queueType d)"

definition transition_guards :: "transition_req \<Rightarrow> docket \<Rightarrow> string option \<Rightarrow> unit res" where
  "transition_guards r d finalTarget =
    (let fromCanonicalState = canonical_state d;
         targetCanonicalState = target_canonical d finalTarget
     in res_bind (check (targetCanonicalState \<noteq> IN_PROGRESS)
            (makeError ''Use pull/assign APIs to move docket to IN_PROGRESS'')) (\<lambda>_.
        res_bind (check (fromCanonicalState = targetCanonicalState
              \<or> canTransition (Some (canon_name fromCanonicalState)) (Some (canon_name targetCanonicalState)))
            (Thrown (''Invalid docket state transition from '' @ canon_name fromCanonicalState @ '' to ''
               @ canon_name targetCanonicalState) (Some 400) (Some ''INVALID_DOCKET_STATE_TRANSITION''))) (\<lambda>_.
        validateLifecycleAccess (tr_actor r)
          (normalizeLifecycle (js_or (d_lifecycle d) (Some ''WL'')))
          (toLifecycleFromStatus finalTarget) (toDocketState (d_status d)))))"

text \<open>Lines 600 to 658: the fields that are written.\<close>

definition transition_fields :: "int \<Rightarrow> transition_req \<Rightarrow> string option \<Rightarrow> docket \<Rightarrow> docket" where
  "transition_fields now r finalTarget d =
    (let d1 = d\<lparr>d_lastActionByXID := xid_set (actor_xID (tr_actor r)), d_lastActionAt := Some now,
                d_updatedAt := Some now\<rparr>;
         d2 = (if finalTarget = Some ''PENDING''
               then d1\<lparr>d_reopenAt := tr_reopenAt r, d_pendingUntil := tr_reopenAt r\<rparr>
               else d1\<lparr>d_reopenAt := None, d_pendingUntil := None\<rparr>)
     in if finalTarget = Some ''FILED'' \<and> truthy (tr_duplicateOf r)
        then d2\<lparr>d_duplicateOf := tr_duplicateOf r\<rparr> else d2)"

definition transition_qc_fields :: "int \<Rightarrow> actor \<Rightarrow> string option \<Rightarrow> string option \<Rightarrow> docket \<Rightarrow> docket" where
  "transition_qc_fields now a comment qcWorkbasketId d =
    (let submitterXID = js_or (d_assignedToXID d) (actor_xID a);
         d1 = d\<lparr>d_qcStatus := Some ''REQUESTED'', d_qcBy := xid_set (actor_xID a), d_qcAt := Some now,
                d_qc := (d_qc d)\<lparr>qc_requestedBy := xid_set (actor_xID a), qc_status := Some ''REQUESTED'',
                   qc_comment := (if truthy comment then comment else None), qc_requestedAt := Some now,
                   qc_originalAssigneeXID := xid_set submitterXID,
                   qc_attempts := qc_attempts (d_qc d) + 1\<rparr>\<rparr>;
         d2 = (if truthy qcWorkbasketId
               then d1\<lparr>d_ownerTeamId := qcWorkbasketId, d_workbasketId := qcWorkbasketId\<rparr> else d1)
     in d2\<lparr>d_routedToTeamId := None, d_assignedToXID := None, d_assignedTo := None,
           d_queueType := Some ''GLOBAL'', d_state := Some ''IN_QC'', d_qcOutcome := None,
           d_qcSubmittedByXID := xid_set submitterXID, d_qcSubmittedAt := Some now,
           d_qcDecisionByXID := None, d_qcDecisionAt := None, d_qcFailedCorrected := False\<rparr>)"

text \<open>Lines 567 to 581 and 600 to 604: the QC workbasket of the docket's workbasket, the new status.\<close>

definition qc_workbasket :: "(string \<Rightarrow> string option) \<Rightarrow> string option \<Rightarrow> docket \<Rightarrow> string option" where
  "qc_workbasket qcTeam finalTarget d =
    (let currentWorkbasketId = js_or (d_routedToTeamId d) (d_ownerTeamId d)
     in if finalTarget = Some ''QC_PENDING'' \<and> truthy currentWorkbasketId
        then qcTeam (str_or_empty currentWorkbasketId) else None)"

definition transition_start :: "string option \<Rightarrow> docket \<Rightarrow> docket" where
  "transition_start finalTarget d =
    (let targetCanonicalState = target_canonical d finalTarget;
         d1 = d\<lparr>d_status := toPersistenceState finalTarget,
                d_state := Some (canon_name targetCanonicalState)\<rparr>
     in if targetCanonicalState = IN_PROGRESS \<or> targetCanonicalState = IN_WB
        then d1\<lparr>d_qcOutcome := None\<rparr> else d1)"

definition transition_apply ::
  "env \<Rightarrow> (string \<Rightarrow> string option) \<Rightarrow> transition_req \<Rightarrow> string option \<Rightarrow> docket \<Rightarrow> (effect, docket) outcome" where
  "transition_apply e qcTeam r finalTarget d =
    seq (transitionLifecycle (transition_start finalTarget d) (toLifecycleFromStatus finalTarget) False
           (Some (tr_firmId r)) (tr_actor r)) (\<lambda>d3.
    let d4 = transition_fields (e_now e) r finalTarget d3
    in if finalTarget = Some ''QC_PENDING''
       then seq (emit [Emitted ''docket.qc_request'' (d_caseId d4)]) (\<lambda>_.
            pure (Inr (transition_qc_fields (e_now e) (tr_actor r) (tr_comment r)
                         (qc_workbasket qcTeam finalTarget d) d4)))
       else pure (Inr d4))"

definition transition ::
  "env \<Rightarrow> (string \<Rightarrow> string option) \<Rightarrow> transition_req \<Rightarrow> docket option \<Rightarrow> (effect, docket) outcome" where
  "transition e qcTeam r loaded =
    (case loaded of None \<Rightarrow> pure (Inl not_found)
     | Some d \<Rightarrow>
        seq (pure (transition_target r)) (\<lambda>finalTarget.
        seq (pure (transition_guards r d finalTarget)) (\<lambda>_.
        seq (transition_apply e qcTeam r finalTarget d) (\<lambda>d4.
        seq (pure (enforceOwnershipRules d4)) (\<lambda>d5.
        seq (save_step e d d5) (\<lambda>d6.
        seq (emit [writeAudit (d_caseId d6) ''STATE_TRANSITION'' (toDocketState (d_status d)) finalTarget
                     (actor_xID (tr_actor r)) (normalizeActorRole (tr_actor r)) (tr_comment r)
                     (Some ''DOCKET_STATE_CHANGED'') None,
                   Activity ''STATUS_CHANGED'' (d_caseInternalId d6)]) (\<lambda>_.
        pure (Inr d6))))))))"

subsection \<open>qcDecision\<close>

definition qc_handled :: "int \<Rightarrow> actor \<Rightarrow> string option \<Rightarrow> string \<Rightarrow> string \<Rightarrow> string \<Rightarrow> docket \<Rightarrow> docket" where
  "qc_handled now a comment outcome qcStatus innerStatus d =
    d\<lparr>d_qcOutcome := Some outcome, d_qcStatus := Some qcStatus, d_qcBy := xid_set (actor_xID a),
      d_qcAt := Some now,
      d_qc := (d_qc d)\<lparr>qc_status := Some innerStatus, qc_handledBy := xid_set (actor_xID a),
        qc_handledAt := Some now, qc_comment := comment\<rparr>\<rparr>"

definition qc_decided_fields :: "int \<Rightarrow> actor \<Rightarrow> string option \<Rightarrow> string \<Rightarrow> docket \<Rightarrow> docket" where
  "qc_decided_fields now a comment decision d =
    (if decision = ''FAILED''
     then qc_handled now a comment ''FAILED'' ''REJECTED'' ''FAILED''
            (d\<lparr>d_assignedToXID := xid_set (js_or (d_qcSubmittedByXID d)
                  (js_or (qc_originalAssigneeXID (d_qc d)) (d_assignedToXID d))),
               d_queueType := Some ''PERSONAL''\<rparr>)
     else if decision = ''CORRECTED''
     then (qc_handled now a comment ''CORRECTED'' ''CORRECTED'' ''CORRECTED'' d)\<lparr>d_qcFailedCorrected := True\<rparr>
     else (qc_handled now a comment ''PASSED'' ''APPROVED'' ''APPROVED'' d)\<lparr>d_qcFailedCorrected := False\<rparr>)"

text \<open>Lines 781 to 842: the guards on the target, the writes, the save and the audit.\<close>

definition qc_guards :: "actor \<Rightarrow> docket \<Rightarrow> docket \<Rightarrow> string option \<Rightarrow> unit res" where
  "qc_guards a d d1 toState =
    (let fromCanonicalState = canonical_state d; targetCanonicalState = target_canonical d1 toState
     in res_bind (check (fromCanonicalState = targetCanonicalState
            \<or> canTransition (Some (canon_name fromCanonicalState)) (Some (canon_name targetCanonicalState)))
          (Thrown (''Invalid docket state transition from '' @ canon_name fromCanonicalState @ '' to ''
             @ canon_name targetCanonicalState) (Some 400) (Some ''INVALID_DOCKET_STATE_TRANSITION''))) (\<lambda>_.
        validateLifecycleAccess a (normalizeLifecycle (js_or (d_lifecycle d1) (Some ''WL'')))
          (toLifecycleFromStatus toState) (toDocketState (d_status d))))"

definition qc_finish ::
  "env \<Rightarrow> string \<Rightarrow> actor \<Rightarrow> string \<Rightarrow> string option \<Rightarrow> docket \<Rightarrow> docket \<Rightarrow> string option \<Rightarrow> (effect, docket) outcome" where
  "qc_finish e firmId a decision comment d d1 toState =
    (let d2 = d1\<lparr>d_status := toPersistenceState toState, d_qcDecisionByXID := xid_set (actor_xID a),
                 d_qcDecisionAt := Some (e_now e),
                 d_state := Some (canon_name (target_canonical d1 toState))\<rparr>
     in seq (pure (qc_guards a d d1 toState)) (\<lambda>_.
        seq (transitionLifecycle d2 (toLifecycleFromStatus toState) False (Some firmId) a) (\<lambda>d3.
        seq (pure (enforceOwnershipRules (d3\<lparr>d_lastActionByXID := xid_set (actor_xID a),
               d_lastActionAt := Some (e_now e), d_updatedAt := Some (e_now e)\<rparr>))) (\<lambda>d5.
        seq (save_step e d d5) (\<lambda>d6.
        seq (emit [writeAudit (d_caseId d6) (''QC_'' @ decision) (toDocketState (d_status d)) toState
               (actor_xID a) (normalizeActorRole a) comment (Some ''QC_ACTION'') (d_qcOutcome d6)]) (\<lambda>_.
        pure (Inr d6)))))))"

definition qcDecision ::
  "env \<Rightarrow> string \<Rightarrow> actor \<Rightarrow> string option \<Rightarrow> string option \<Rightarrow> docket option \<Rightarrow> (effect, docket) outcome" where
  "qcDecision e firmId a decision comment loaded =
    (let normalizedDecision = js_upper (str_or_empty decision)
     in seq (pure (requireComment comment ''QC action'')) (\<lambda>_.
        seq (pure (check (normalizedDecision \<in> set QC_DECISIONS) (makeError ''Invalid QC decision''))) (\<lambda>_.
        case loaded of None \<Rightarrow> pure (Inl not_found)
        | Some d \<Rightarrow>
            seq (pure (getQcDecisionTransition (Some (canon_name (canonical_state d))) (Some normalizedDecision))) (\<lambda>tr.
            let d1 = qc_decided_fields (e_now e) a comment normalizedDecision d
            in seq (emit (if fst tr = IN_PROGRESS
                   then Emitted ''docket.qc_failure'' (d_caseId d)
                        # createDocketNotification (d_assignedToXID d1) ''QC_RETURNED'' (d_caseId d)
                   else [])) (\<lambda>_.
               qc_finish e firmId a normalizedDecision comment d d1
                 (Some (if fst tr = IN_PROGRESS then ''IN_PROGRESS'' else ''RESOLVED'')))))))"

subsection \<open>reassign and activateOnOpen\<close>

definition reassign ::
  "env \<Rightarrow> actor \<Rightarrow> string option \<Rightarrow> string option \<Rightarrow> docket option \<Rightarrow> (effect, docket) outcome" where
  "reassign e a toUserXID comment loaded =
    seq (pure (requireComment comment ''Reassignment'')) (\<lambda>_.
    (case loaded of None \<Rightarrow> pure (Inl not_found)
     | Some d \<Rightarrow>
        seq (pure (assertNotLockedByAnotherActiveUser (e_now e) d a)) (\<lambda>_.
        (let nextAssignee = js_trim (js_upper (str_or_empty toUserXID))
         in seq (pure (check (\<not> (nextAssignee = [] \<and> normalizeLifecycle (d_lifecycle d) = WL))
                (Thrown ''Cannot move to WL without assignment'' (Some 400) (Some ''WL_ASSIGNMENT_REQUIRED'')))) (\<lambda>_.
            (let d1 = d\<lparr>d_assignedToXID := Some nextAssignee, d_assignedTo := None,
                        d_assignedAt := Some (e_now e), d_lastActionByXID := xid_set (actor_xID a),
                        d_lastActionAt := Some (e_now e), d_updatedAt := Some (e_now e),
                        d_state := Some ''IN_PROGRESS'', d_queueType := Some ''PERSONAL'', d_qcOutcome := None\<rparr>
             in seq (pure (enforceOwnershipRules d1)) (\<lambda>d2.
                seq (save_step e d d2) (\<lambda>d3.
                seq (emit ([writeAudit (d_caseId d3) ''REASSIGNED'' (toDocketState (d_status d3))
                              (toDocketState (d_status d3)) (actor_xID a) ''USER'' comment None None]
                            @ createDocketNotification (d_assignedToXID d3) ''DOCKET_REASSIGNED'' (d_caseId d3)
                            @ [Activity ''ASSIGNED'' (d_caseInternalId d3)])) (\<lambda>_.
                pure (Inr d3))))))))))"

definition activateOnOpen ::
  "env \<Rightarrow> string \<Rightarrow> actor \<Rightarrow> docket option \<Rightarrow> (effect, docket) outcome" where
  "activateOnOpen e firmId a loaded =
    (case loaded of None \<Rightarrow> pure (Inl not_found)
     | Some d \<Rightarrow>
        if normalizeLifecycle (js_or (d_lifecycle d) (Some ''WL'')) = WL
        then seq (transitionLifecycle d ACTIVE True (Some firmId) a) (\<lambda>d1.
             (let d2 = d1\<lparr>d_status := toPersistenceState (Some ''IN_PROGRESS''), d_state := Some ''IN_PROGRESS'',
                          d_qcOutcome := None,
                          d_lastActionByXID := xid_set (js_or (actor_xID a) (js_or (d_assignedToXID d1) (Some ''SYSTEM''))),
                          d_lastActionAt := Some (e_now e), d_updatedAt := Some (e_now e)\<rparr>
              in seq (pure (enforceOwnershipRules d2)) (\<lambda>d3.
                 seq (save_step e d d3) (\<lambda>d4.
                 seq (emit (createDocketNotification (d_assignedToXID d4) ''STATUS_CHANGED'' (d_caseId d4))) (\<lambda>_.
                 pure (Inr d4))))))
        else pure (Inr d))"

end
