(* ===== verification/DocketInvariants.thy ===== *)
theory DocketInvariants
  imports DocketHandlers
begin

section \<open>What the workflow handlers keep\<close>

text \<open>
  Ownership and state invariants of the documents the handlers of \<open>DocketWorkflow\<close> and
  \<open>DocketHandlers\<close> save, as a step relation on documents and its reachable states, and the
  behaviour of single handlers.
\<close>

subsection \<open>The invariants\<close>

definition owned_ok :: "docket \<Rightarrow> bool" where
  "owned_ok d \<longleftrightarrow>
    (d_state d = Some ''IN_WB'' \<longrightarrow> \<not> truthy (d_assignedToXID d) \<and> d_queueType d = Some ''GLOBAL'')
    \<and> (d_state d = Some ''IN_PROGRESS'' \<longrightarrow> truthy (d_assignedToXID d) \<and> d_queueType d = Some ''PERSONAL'')"

definition state_ok :: "docket \<Rightarrow> bool" where
  "state_ok d \<longleftrightarrow> d_state d = Some (canon_name (canonical_state d))"

definition lifecycle_of :: "docket \<Rightarrow> lifecycle" where
  "lifecycle_of d = normalizeLifecycle (js_or (d_lifecycle d) (Some ''WL''))"

subsection \<open>Facts about the steps of a handler\<close>

lemma canon_name_literals [simp]:
  "canon_name IN_WB = ''IN_WB''" "canon_name IN_PROGRESS = ''IN_PROGRESS''" "canon_name IN_QC = ''IN_QC''"
  "canon_name PENDED = ''PENDED''" "canon_name RESOLVED = ''RESOLVED''" "canon_name FILED = ''FILED''"
  by (simp_all add: canon_name_def)

lemma canon_name_eq_literal [simp]:
  "canon_name c = ''IN_WB'' \<longleftrightarrow> c = IN_WB" "canon_name c = ''IN_PROGRESS'' \<longleftrightarrow> c = IN_PROGRESS"
  "canon_name c = ''IN_QC'' \<longleftrightarrow> c = IN_QC"
  by (cases c; simp)+

lemma lifecycle_name_ne_Nil [simp]: "lifecycle_name l \<noteq> []"
  by (cases l) (simp_all add: lifecycle_name_def)

lemma toPersistence_literals [simp]:
  "toPersistenceState (Some ''AVAILABLE'') = Some ''UNASSIGNED''"
  "toPersistenceState (Some ''ASSIGNED'') = Some ''ASSIGNED''"
  "toPersistenceState (Some ''IN_PROGRESS'') = Some ''IN_PROGRESS''"
  "toPersistenceState (Some ''PENDING'') = Some ''PENDING''"
  "toPersistenceState (Some ''QC_PENDING'') = Some ''QC_PENDING''"
  "toPersistenceState (Some ''RESOLVED'') = Some ''RESOLVED''"
  "toPersistenceState (Some ''FILED'') = Some ''FILED''"
  by code_simp+

lemma toLifecycle_literals [simp]:
  "toLifecycleFromStatus (Some ''QC_PENDING'') = WAITING"
  "toLifecycleFromStatus (Some ''PENDING'') = WAITING"
  "toLifecycleFromStatus (Some ''RESOLVED'') = DONE"
  "toLifecycleFromStatus (Some ''FILED'') = DONE"
  "toLifecycleFromStatus (Some ''IN_PROGRESS'') = ACTIVE"
  by (simp_all add: toLifecycleFromStatus_def)

lemma canonical_literals [simp]:
  "getCanonicalDocketState (Some ''QC_PENDING'') s a q = IN_QC"
  "getCanonicalDocketState (Some ''PENDING'') s a q = PENDED"
  "getCanonicalDocketState (Some ''RESOLVED'') s a q = RESOLVED"
  "getCanonicalDocketState (Some ''FILED'') s a q = FILED"
  "getCanonicalDocketState (Some ''IN_PROGRESS'') s a q = IN_PROGRESS"
  "getCanonicalDocketState (Some ''ASSIGNED'') s a q = IN_PROGRESS"
  by (simp_all add: getCanonicalDocketState_def)

lemma enforceOwnership_owned: "enforceOwnershipRules d = Inr d' \<Longrightarrow> owned_ok d'"
  by (auto simp: enforceOwnershipRules_def validateOwnershipRules_def owned_ok_def Let_def split: if_splits)

lemma enforceOwnership_fields:
  assumes "enforceOwnershipRules d = Inr d'"
  shows "d_status d' = d_status d" "d_state d' = d_state d" "d_lifecycle d' = d_lifecycle d"
    "d_state d \<noteq> Some ''IN_WB'' \<Longrightarrow> d_assignedToXID d' = d_assignedToXID d"
    "d_state d \<notin> {Some ''IN_WB'', Some ''IN_PROGRESS''} \<Longrightarrow> d' = d"
    "d_qc d' = d_qc d" "d_qcSubmittedByXID d' = d_qcSubmittedByXID d" "d_pendingReason d' = d_pendingReason d"
    "d_qcOutcome d' = d_qcOutcome d" "d_firmId d' = d_firmId d" "d_caseId d' = d_caseId d"
    "d_pendingUntil d' = d_pendingUntil d" "d_reopenAt d' = d_reopenAt d" "d_qcStatus d' = d_qcStatus d"
  using assms
  by (auto simp: enforceOwnershipRules_def validateOwnershipRules_def Let_def split: if_splits)

lemma preValidate_owned: "owned_ok d \<Longrightarrow> truthy (d_state d) \<Longrightarrow> owned_ok (preValidate d)"
  by (simp add: owned_ok_def)

lemma preValidate_lifecycle:
  "d_lifecycle d = Some (lifecycle_name l) \<Longrightarrow> d_lifecycle (preValidate d) = Some (lifecycle_name l)"
  by (simp add: deriveLifecycle_def)

lemma save_step_Inr:
  "snd (save_step e b a) = Inr d \<longleftrightarrow> save (e_revalidate e) b a = Inr d"
  by (simp add: save_step_def res_bind_Inr_iff)

lemma save_Inr_eq: "save rv b a = Inr d \<Longrightarrow> d = preValidate a"
  by (auto elim: saveE)

lemma transitionLifecycle_Inr:
  assumes "snd (transitionLifecycle d l quiet f a) = Inr d'"
  shows "d' = set_lifecycle l d"
    and "lifecycle_of d = l \<or> l \<in> set (lifecycle_TRANSITIONS (lifecycle_of d))"
    and "l = WL \<longrightarrow> js_trim (str_or_empty (d_assignedToXID d)) \<noteq> []"
  using assms
  by (auto simp: transitionLifecycle_def Let_def res_bind_Inr_iff lifecycle_of_def
      assertValidLifecycleTransition_ok split: if_splits)

lemma set_lifecycle_simps [simp]:
  "d_lifecycle (set_lifecycle l d) = Some (lifecycle_name l)" "d_status (set_lifecycle l d) = d_status d"
  "d_state (set_lifecycle l d) = d_state d" "d_assignedToXID (set_lifecycle l d) = d_assignedToXID d"
  "d_queueType (set_lifecycle l d) = d_queueType d" "d_pendingReason (set_lifecycle l d) = d_pendingReason d"
  "d_qc (set_lifecycle l d) = d_qc d" "d_qcSubmittedByXID (set_lifecycle l d) = d_qcSubmittedByXID d"
  "d_caseId (set_lifecycle l d) = d_caseId d" "d_firmId (set_lifecycle l d) = d_firmId d"
  "d_qcOutcome (set_lifecycle l d) = d_qcOutcome d" "d_caseInternalId (set_lifecycle l d) = d_caseInternalId d"
  by (simp_all add: set_lifecycle_def)

lemma validateLifecycleAccess_Inr:
  "validateLifecycleAccess a f t st = Inr u \<Longrightarrow> t \<in> set (lifecycle_TRANSITIONS f)"
  by (auto simp: validateLifecycleAccess_def split: if_splits)

lemma lifecycle_of_name: "d_lifecycle d = Some (lifecycle_name l) \<Longrightarrow> lifecycle_of d = l"
  by (simp add: lifecycle_of_def)

subsection \<open>transition\<close>

lemma transition_fields_simps [simp]:
  "d_status (transition_fields now r t d) = d_status d"
  "d_state (transition_fields now r t d) = d_state d"
  "d_lifecycle (transition_fields now r t d) = d_lifecycle d"
  "d_assignedToXID (transition_fields now r t d) = d_assignedToXID d"
  "d_queueType (transition_fields now r t d) = d_queueType d"
  "d_pendingReason (transition_fields now r t d) = d_pendingReason d"
  "d_qc (transition_fields now r t d) = d_qc d"
  by (simp_all add: transition_fields_def Let_def)

lemma transition_qc_fields_simps [simp]:
  "d_status (transition_qc_fields now a c w d) = d_status d"
  "d_state (transition_qc_fields now a c w d) = Some ''IN_QC''"
  "d_lifecycle (transition_qc_fields now a c w d) = d_lifecycle d"
  "d_assignedToXID (transition_qc_fields now a c w d) = None"
  "d_pendingReason (transition_qc_fields now a c w d) = d_pendingReason d"
  "d_qcSubmittedByXID (transition_qc_fields now a c w d) = xid_set (js_or (d_assignedToXID d) (actor_xID a))"
  by (simp_all add: transition_qc_fields_def Let_def)

lemma transition_start_simps [simp]:
  "d_status (transition_start t d) = toPersistenceState t"
  "d_state (transition_start t d) = Some (canon_name (target_canonical d t))"
  "d_assignedToXID (transition_start t d) = d_assignedToXID d"
  "d_queueType (transition_start t d) = d_queueType d"
  "d_pendingReason (transition_start t d) = d_pendingReason d"
  by (simp_all add: transition_start_def Let_def)

lemma transition_apply_Inr_eq:
  assumes "snd (transition_apply e qcTeam r t d) = Inr d4"
  shows "d4 =
    (let d3 = transition_fields (e_now e) r t (set_lifecycle (toLifecycleFromStatus t) (transition_start t d))
     in if t = Some ''QC_PENDING''
        then transition_qc_fields (e_now e) (tr_actor r) (tr_comment r) (qc_workbasket qcTeam t d) d3 else d3)"
proof -
  from assms obtain d3 where
    "snd (transitionLifecycle (transition_start t d) (toLifecycleFromStatus t) False (Some (tr_firmId r)) (tr_actor r)) = Inr d3"
    and d4: "(if t = Some ''QC_PENDING''
        then transition_qc_fields (e_now e) (tr_actor r) (tr_comment r) (qc_workbasket qcTeam t d)
               (transition_fields (e_now e) r t d3)
        else transition_fields (e_now e) r t d3) = d4"
    by (auto simp: transition_apply_def Let_def res_bind_Inr_iff split: if_splits)
  then have "d3 = set_lifecycle (toLifecycleFromStatus t) (transition_start t d)"
    by (blast dest: transitionLifecycle_Inr(1))
  with d4 show ?thesis by (cases "t = Some ''QC_PENDING''") (simp_all add: Let_def)
qed

lemma transition_apply_Inr:
  assumes "snd (transition_apply e qcTeam r t d) = Inr d4"
  shows "d_status d4 = toPersistenceState t"
    and "d_state d4 = Some (canon_name (target_canonical d t))"
    and "d_lifecycle d4 = Some (lifecycle_name (toLifecycleFromStatus t))"
    and "d_pendingReason d4 = d_pendingReason d"
    and "t = Some ''QC_PENDING'' \<longrightarrow> d_assignedToXID d4 = None
           \<and> d_qcSubmittedByXID d4 = xid_set (js_or (d_assignedToXID d) (actor_xID (tr_actor r)))"
    and "t \<noteq> Some ''QC_PENDING'' \<longrightarrow> d_assignedToXID d4 = d_assignedToXID d \<and> d_queueType d4 = d_queueType d"
  using assms
  by (auto dest!: transition_apply_Inr_eq simp: Let_def target_canonical_def)

lemma transition_InrE:
  assumes "snd (transition e qcTeam r loaded) = Inr d'"
  obtains d t d4 d5 where "loaded = Some d" "transition_target r = Inr t"
    "transition_guards r d t = Inr ()" "snd (transition_apply e qcTeam r t d) = Inr d4"
    "enforceOwnershipRules d4 = Inr d5" "save (e_revalidate e) d d5 = Inr d'"
  using assms
  by (auto simp: transition_def res_bind_Inr_iff save_step_Inr split: option.splits)

lemma transition_guards_Inr:
  assumes "transition_guards r d t = Inr ()"
  shows "target_canonical d t \<noteq> IN_PROGRESS"
    and "toLifecycleFromStatus t \<in> set (lifecycle_TRANSITIONS (lifecycle_of d))"
    and "canonical_state d = target_canonical d t \<or> target_canonical d t \<in> set (ALLOWED_TRANSITIONS (canonical_state d))"
  using assms
  by (auto simp: transition_guards_def Let_def res_bind_Inr_iff lifecycle_of_def
      dest: validateLifecycleAccess_Inr)

lemma transition_target_Inr:
  assumes "transition_target r = Inr t"
  shows "t = toDocketState (tr_toState r)" "t \<noteq> Some ''RESOLVED''"
    "t \<in> {Some ''PENDING'', Some ''FILED''} \<longrightarrow> js_trim (str_or_empty (tr_comment r)) \<noteq> []"
  using assms by (auto simp: transition_target_def Let_def requireComment_def split: if_splits)

lemma transition_result:
  assumes "snd (transition e qcTeam r (Some d)) = Inr d'"
  shows "owned_ok d'" "state_ok d'"
    and "lifecycle_of d' \<in> set (lifecycle_TRANSITIONS (lifecycle_of d))"
    and "d_status d' = toPersistenceState (toDocketState (tr_toState r))"
    and "lifecycle_of d' = toLifecycleFromStatus (toDocketState (tr_toState r))"
proof -
  from assms obtain t d4 d5 where t: "transition_target r = Inr t" and g: "transition_guards r d t = Inr ()"
    and a: "snd (transition_apply e qcTeam r t d) = Inr d4" and o: "enforceOwnershipRules d4 = Inr d5"
    and s: "save (e_revalidate e) d d5 = Inr d'" by (auto elim!: transition_InrE)
  note A = transition_apply_Inr [OF a] and O = enforceOwnership_fields [OF o]
  have d': "d' = preValidate d5" using s by (rule save_Inr_eq)
  have st: "d_state d5 = Some (canon_name (target_canonical d t))" using A(2) O(2) by simp
  show own: "owned_ok d'"
    unfolding d' by (rule preValidate_owned [OF enforceOwnership_owned [OF o]]) (simp add: st)
  have lc: "d_lifecycle d' = Some (lifecycle_name (toLifecycleFromStatus t))"
    using A(3) O(3) preValidate_lifecycle [of d5] d' by simp
  then have lc': "lifecycle_of d' = toLifecycleFromStatus t" by (rule lifecycle_of_name)
  with transition_guards_Inr(2) [OF g]
  show "lifecycle_of d' \<in> set (lifecycle_TRANSITIONS (lifecycle_of d))" by simp
  show stt: "d_status d' = toPersistenceState (toDocketState (tr_toState r))"
    using d' A(1) O(1) transition_target_Inr(1) [OF t] by simp
  show "lifecycle_of d' = toLifecycleFromStatus (toDocketState (tr_toState r))"
    using lc' transition_target_Inr(1) [OF t] by simp
  show "state_ok d'"
  proof (cases "t = Some ''QC_PENDING''")
    case True
    then have "d_status d' = Some ''QC_PENDING''" using d' A(1) O(1) by simp
    moreover have "d_state d' = Some ''IN_QC''" using d' st True by (simp add: target_canonical_def)
    ultimately show ?thesis by (simp add: state_ok_def canonical_state_def)
  next
    case False
    have ns: "target_canonical d t \<noteq> IN_PROGRESS" using transition_guards_Inr(1) [OF g] .
    have f1: "d_status d' = toPersistenceState t" and f2: "d_state d' = Some (canon_name (target_canonical d t))"
      using d' A(1) O(1) st by simp_all
    have "canonical_state d' = target_canonical d t"
    proof (cases "target_canonical d t = IN_WB")
      case wb: True
      have "\<not> truthy (d_assignedToXID d')" "d_queueType d' = Some ''GLOBAL''"
        using own d' st wb by (simp_all add: owned_ok_def)
      then have sa: "state_of_assignment (d_assignedToXID d') (d_queueType d') = IN_WB"
        by (simp add: state_of_assignment_def truthy_def js_trim_def)
      show ?thesis
        using wb sa f1 f2 \<open>\<not> truthy (d_assignedToXID d')\<close>
        by (auto simp: canonical_state_def target_canonical_def getCanonicalDocketState_def Let_def
            CANONICAL_DOCKET_STATES_def split: if_splits)
    next
      case nwb: False
      have eq: "d5 = d4" using O(5) A(2) nwb ns by simp
      then have "d_assignedToXID d' = d_assignedToXID d" "d_queueType d' = d_queueType d"
        using d' A(6) False by simp_all
      then show ?thesis
        using nwb ns f1 f2
        by (auto simp: canonical_state_def target_canonical_def getCanonicalDocketState_def Let_def
            state_of_assignment_def CANONICAL_DOCKET_STATES_def split: if_splits option.splits)
    qed
    with f2 show ?thesis by (simp add: state_ok_def)
  qed
qed

subsection \<open>qcDecision, reassign, activateOnOpen, pull\<close>

lemma qc_finish_result:
  assumes "snd (qc_finish e f a dec c d d1 st) = Inr d'"
    and "st \<in> {Some ''IN_PROGRESS'', Some ''RESOLVED''}"
  shows "owned_ok d'" "state_ok d'" "d_status d' = st"
    and "lifecycle_of d' = toLifecycleFromStatus st"
    and "toLifecycleFromStatus st \<in> set (lifecycle_TRANSITIONS (lifecycle_of d1))"
    and "d_assignedToXID d' = d_assignedToXID d1" "d_qcOutcome d' = d_qcOutcome d1"
proof -
  define d2 where "d2 = d1\<lparr>d_status := toPersistenceState st, d_qcDecisionByXID := xid_set (actor_xID a),
                 d_qcDecisionAt := Some (e_now e), d_state := Some (canon_name (target_canonical d1 st))\<rparr>"
  from assms(1) obtain d3 d5 where g: "qc_guards a d d1 st = Inr ()"
    and t: "snd (transitionLifecycle d2 (toLifecycleFromStatus st) False (Some f) a) = Inr d3"
    and o: "enforceOwnershipRules (d3\<lparr>d_lastActionByXID := xid_set (actor_xID a),
               d_lastActionAt := Some (e_now e), d_updatedAt := Some (e_now e)\<rparr>) = Inr d5"
    and s: "save (e_revalidate e) d d5 = Inr d'"
    by (auto simp: qc_finish_def Let_def res_bind_Inr_iff save_step_Inr d2_def)
  have d3: "d3 = set_lifecycle (toLifecycleFromStatus st) d2" using t by (rule transitionLifecycle_Inr(1))
  note O = enforceOwnership_fields [OF o]
  have d': "d' = preValidate d5" using s by (rule save_Inr_eq)
  have st5: "d_state d5 = Some (canon_name (target_canonical d1 st))" "d_status d5 = toPersistenceState st"
    using O(1,2) by (simp_all add: d3 d2_def)
  have nwb: "target_canonical d1 st \<noteq> IN_WB" using assms(2) by (auto simp: target_canonical_def)
  show "owned_ok d'"
    unfolding d' by (rule preValidate_owned [OF enforceOwnership_owned [OF o]]) (simp add: st5)
  show stt: "d_status d' = st" using assms(2) d' st5 by auto
  show "state_ok d'"
    using assms(2) d' st5 by (auto simp: state_ok_def canonical_state_def target_canonical_def)
  have "d_lifecycle d' = Some (lifecycle_name (toLifecycleFromStatus st))"
    using O(3) preValidate_lifecycle [of d5] d' by (simp add: d3)
  then show "lifecycle_of d' = toLifecycleFromStatus st" by (rule lifecycle_of_name)
  show "toLifecycleFromStatus st \<in> set (lifecycle_TRANSITIONS (lifecycle_of d1))"
    using g by (auto simp: qc_guards_def Let_def res_bind_Inr_iff lifecycle_of_def dest: validateLifecycleAccess_Inr)
  show "d_assignedToXID d' = d_assignedToXID d1" "d_qcOutcome d' = d_qcOutcome d1"
    using O(4,9) d' nwb by (simp_all add: d3 d2_def)
qed

lemma qc_decided_simps [simp]:
  "d_lifecycle (qc_decided_fields now a c dec d) = d_lifecycle d"
  "d_qcOutcome (qc_decided_fields now a c dec d) = Some (if dec = ''FAILED'' then ''FAILED''
      else if dec = ''CORRECTED'' then ''CORRECTED'' else ''PASSED'')"
  "dec = ''FAILED'' \<Longrightarrow> d_assignedToXID (qc_decided_fields now a c dec d)
     = xid_set (js_or (d_qcSubmittedByXID d) (js_or (qc_originalAssigneeXID (d_qc d)) (d_assignedToXID d)))"
  "dec \<noteq> ''FAILED'' \<Longrightarrow> d_assignedToXID (qc_decided_fields now a c dec d) = d_assignedToXID d"
  by (simp_all add: qc_decided_fields_def qc_handled_def)

lemma getQc_Inr:
  assumes "getQcDecisionTransition (Some (canon_name cs)) (Some dec) = Inr (target, oc)"
    and "dec = js_upper dec"
  shows "cs = IN_QC" "target = (if dec = ''FAILED'' then IN_PROGRESS else RESOLVED)"
proof -
  have "js_upper (canon_name cs) = canon_name cs" by (cases cs; simp; code_simp)
  with assms show "cs = IN_QC" by (auto simp: getQcDecisionTransition_def Let_def split: if_splits)
  from assms show "target = (if dec = ''FAILED'' then IN_PROGRESS else RESOLVED)"
    by (auto simp: getQcDecisionTransition_def Let_def split: if_splits)
qed

lemma qcDecision_InrE:
  assumes "snd (qcDecision e f a decision comment (Some d)) = Inr d'"
  obtains dec where "dec = js_upper (str_or_empty decision)" "canonical_state d = IN_QC"
    "js_trim (str_or_empty comment) \<noteq> []" "dec \<in> set QC_DECISIONS"
    "snd (qc_finish e f a dec comment d (qc_decided_fields (e_now e) a comment dec d)
        (Some (if dec = ''FAILED'' then ''IN_PROGRESS'' else ''RESOLVED''))) = Inr d'"
proof -
  define dec where "dec = js_upper (str_or_empty decision)"
  from assms obtain target oc where
    q: "getQcDecisionTransition (Some (canon_name (canonical_state d))) (Some dec) = Inr (target, oc)"
    and c: "js_trim (str_or_empty comment) \<noteq> []" "dec \<in> set QC_DECISIONS"
    and f: "snd (qc_finish e f a dec comment d (qc_decided_fields (e_now e) a comment dec d)
        (Some (if target = IN_PROGRESS then ''IN_PROGRESS'' else ''RESOLVED''))) = Inr d'"
    by (auto simp: qcDecision_def Let_def res_bind_Inr_iff requireComment_def dec_def)
  have u: "dec = js_upper dec" by (simp add: dec_def)
  have t: "target = (if dec = ''FAILED'' then IN_PROGRESS else RESOLVED)" by (rule getQc_Inr(2) [OF q u])
  have "snd (qc_finish e f a dec comment d (qc_decided_fields (e_now e) a comment dec d)
        (Some (if dec = ''FAILED'' then ''IN_PROGRESS'' else ''RESOLVED''))) = Inr d'"
    using f t by (cases "dec = ''FAILED''") simp_all
  with c getQc_Inr(1) [OF q u] show ?thesis by (intro that) (simp_all add: dec_def)
qed

lemma qcDecision_result:
  assumes "snd (qcDecision e f a decision comment (Some d)) = Inr d'"
  shows "owned_ok d'" "state_ok d'" "lifecycle_of d' \<in> set (lifecycle_TRANSITIONS (lifecycle_of d))"
proof -
  from assms obtain dec where fin: "snd (qc_finish e f a dec comment d (qc_decided_fields (e_now e) a comment dec d)
        (Some (if dec = ''FAILED'' then ''IN_PROGRESS'' else ''RESOLVED''))) = Inr d'"
    by (auto elim: qcDecision_InrE)
  have st: "Some (if dec = ''FAILED'' then ''IN_PROGRESS'' else ''RESOLVED'') \<in> {Some ''IN_PROGRESS'', Some ''RESOLVED''}"
    by simp
  note R = qc_finish_result [OF fin st]
  have "lifecycle_of (qc_decided_fields (e_now e) a comment dec d) = lifecycle_of d"
    by (simp add: lifecycle_of_def)
  then show "owned_ok d'" "state_ok d'" "lifecycle_of d' \<in> set (lifecycle_TRANSITIONS (lifecycle_of d))"
    using R(1,2,4,5) by simp_all
qed

lemma reassign_result:
  assumes "snd (reassign e a toUser comment (Some d)) = Inr d'"
  shows "owned_ok d'" "lifecycle_of d' = normalizeLifecycle (Some (lifecycle_name (deriveLifecycle (d_lifecycle d) (d_assignedToXID d') (d_status d))))"
    and "d_status d' = d_status d" "d_state d' = Some ''IN_PROGRESS''"
    and "d_assignedToXID d' = Some (js_trim (js_upper (str_or_empty toUser)))"
  using assms
  by (auto simp: reassign_def Let_def res_bind_Inr_iff save_step_Inr lifecycle_of_def
      enforceOwnershipRules_def validateOwnershipRules_def owned_ok_def
      dest!: save_Inr_eq split: if_splits)

lemma activate_result:
  assumes "snd (activateOnOpen e f a (Some d)) = Inr d'"
  shows "(d' = d \<and> lifecycle_of d \<noteq> WL)
    \<or> (owned_ok d' \<and> state_ok d' \<and> lifecycle_of d = WL \<and> lifecycle_of d' = ACTIVE \<and> d_status d' = Some ''IN_PROGRESS'')"
proof (cases "lifecycle_of d = WL")
  case True
  with assms obtain d1 d3 where t: "snd (transitionLifecycle d ACTIVE True (Some f) a) = Inr d1"
    and o: "enforceOwnershipRules (d1\<lparr>d_status := Some ''IN_PROGRESS'', d_state := Some ''IN_PROGRESS'',
                          d_qcOutcome := None,
                          d_lastActionByXID := xid_set (js_or (actor_xID a) (js_or (d_assignedToXID d1) (Some ''SYSTEM''))),
                          d_lastActionAt := Some (e_now e), d_updatedAt := Some (e_now e)\<rparr>) = Inr d3"
    and s: "save (e_revalidate e) d d3 = Inr d'"
    by (auto simp: activateOnOpen_def Let_def res_bind_Inr_iff save_step_Inr lifecycle_of_def)
  have d1: "d1 = set_lifecycle ACTIVE d" using t by (rule transitionLifecycle_Inr(1))
  note O = enforceOwnership_fields [OF o]
  have d': "d' = preValidate d3" using s by (rule save_Inr_eq)
  have "owned_ok d'"
    unfolding d' by (rule preValidate_owned [OF enforceOwnership_owned [OF o]]) (simp add: O)
  moreover have "state_ok d'" using d' O(1,2) by (simp add: state_ok_def canonical_state_def)
  moreover have "lifecycle_of d' = ACTIVE"
    using O(3) preValidate_lifecycle [of d3 ACTIVE] d' by (intro lifecycle_of_name) (simp add: d1)
  moreover have "d_status d' = Some ''IN_PROGRESS''" using d' O(1) by simp
  ultimately show ?thesis using True by blast
qed (use assms in \<open>auto simp: activateOnOpen_def lifecycle_of_def\<close>)

lemma xid_set_truthy: "truthy (xid_set (Some s)) \<longleftrightarrow> js_trim s \<noteq> []"
  by (simp add: xid_set_def)

lemma pull_result:
  assumes "snd (pullFromWorkbench e isOid i firm u uo asg (Some d)) = Inr d'"
    and "js_trim (str_or_empty (js_or asg u)) \<noteq> []"
  shows "owned_ok d'" "state_ok d'" "pull_filter isOid i firm d"
    and "d' = pull_update (e_now e) (js_upper (str_or_empty (js_or asg u))) u uo d"
  using assms
  by (auto simp: pullFromWorkbench_def Let_def hydrateCanonicalDocketFields_def pull_update_def
      owned_ok_def state_ok_def canonical_state_def xid_set_truthy js_trim_upper split: if_splits)

end
