(* ===== verification/DocketProperties.thy ===== *)
theory DocketProperties
  imports DocketInvariants
begin

section \<open>Properties of the docket workflow\<close>

text \<open>
  The handlers as a step relation on stored documents, its invariants, and the properties of
  single handlers: who may own a docket, what a lifecycle can do, which moves always fail, the
  round trip through quality control, races for an unassigned docket, locks and the audit trail.
\<close>

subsection \<open>The workflow as a step relation\<close>

datatype step_kind = Pull | Move | Decide | Reassign | Open

inductive workflow_step :: "step_kind \<Rightarrow> docket \<Rightarrow> docket \<Rightarrow> bool" where
  pull: "js_trim (str_or_empty (js_or asg u)) \<noteq> [] \<Longrightarrow>
    snd (pullFromWorkbench e isOid i firm u uo asg (Some d)) = Inr d' \<Longrightarrow> workflow_step Pull d d'"
| move: "snd (transition e qcTeam r (Some d)) = Inr d' \<Longrightarrow> workflow_step Move d d'"
| decide: "snd (qcDecision e firm a dec c (Some d)) = Inr d' \<Longrightarrow> workflow_step Decide d d'"
| reassigned: "snd (reassign e a toUser c (Some d)) = Inr d' \<Longrightarrow> workflow_step Reassign d d'"
| opened: "snd (activateOnOpen e firm a (Some d)) = Inr d' \<Longrightarrow> workflow_step Open d d'"

inductive_cases workflow_stepE: "workflow_step k d d'"
inductive_simps workflow_step_Move: "workflow_step Move d d'"

lemma workflow_step_owned: "workflow_step k d d' \<Longrightarrow> owned_ok d \<Longrightarrow> owned_ok d'"
  by (elim workflow_stepE)
    (auto dest: pull_result(1) transition_result(1) qcDecision_result(1) reassign_result(1) activate_result)

lemma workflow_step_state: "workflow_step k d d' \<Longrightarrow> k \<noteq> Reassign \<Longrightarrow> state_ok d \<Longrightarrow> state_ok d'"
  by (elim workflow_stepE)
    (auto dest: pull_result(2) transition_result(2) qcDecision_result(2) activate_result)

lemma reassign_lifecycle:
  assumes "snd (reassign e a toUser c (Some d)) = Inr d'" and "d_lifecycle d = Some (lifecycle_name l)"
  shows "lifecycle_of d' = l"
  using reassign_result(2) [OF assms(1)] assms(2) by (simp add: deriveLifecycle_def)

lemma workflow_step_lifecycle:
  assumes "workflow_step k d d'" and "k \<noteq> Pull" and "d_lifecycle d = Some (lifecycle_name l)"
  shows "lifecycle_of d' = l \<or> lifecycle_of d' \<in> set (lifecycle_TRANSITIONS l)"
proof -
  have l: "lifecycle_of d = l" using assms(3) by (rule lifecycle_of_name)
  from assms(1) show ?thesis
  proof cases
    case move
    then show ?thesis using transition_result(3) l by blast
  next
    case decide
    then show ?thesis using qcDecision_result(3) l by blast
  next
    case reassigned
    then show ?thesis using reassign_lifecycle assms(3) by blast
  next
    case opened
    then have "d' = d \<or> (l = WL \<and> lifecycle_of d' = ACTIVE)" using activate_result l by blast
    then show ?thesis using l by auto
  qed (use assms(2) in simp)
qed

inductive reachable_from :: "docket \<Rightarrow> docket \<Rightarrow> bool" for d0 where
  start: "reachable_from d0 d0"
| step: "reachable_from d0 d \<Longrightarrow> workflow_step k d d' \<Longrightarrow> reachable_from d0 d'"

text \<open>
  C1. Ownership is an invariant of the workflow: along every sequence of pulls,
  transitions, quality-control decisions, reassignments and openings that starts from a docket
  that satisfies it, a docket in the workbasket has no assignee and a global queue, and a docket
  in progress has an assignee and a personal queue.
\<close>

theorem workflow_ownership:
  assumes "reachable_from d0 d" and "owned_ok d0"
  shows "(d_state d = Some ''IN_WB'' \<longrightarrow> \<not> truthy (d_assignedToXID d) \<and> d_queueType d = Some ''GLOBAL'')
    \<and> (d_state d = Some ''IN_PROGRESS'' \<longrightarrow> truthy (d_assignedToXID d) \<and> d_queueType d = Some ''PERSONAL'')"
proof -
  from assms have "owned_ok d"
    by (induction rule: reachable_from.induct) (blast intro: workflow_step_owned)+
  then show ?thesis by (simp add: owned_ok_def)
qed

definition sample_env :: env where
  "sample_env = \<lparr>e_now = 1000000, e_revalidate = False\<rparr>"

definition sample_actor :: actor where
  "sample_actor = \<lparr>actor_xID = Some ''x000123'', actor_role = Some ''Admin''\<rparr>"

definition is_hex24 :: "string \<Rightarrow> bool" where
  "is_hex24 s = (length s = 24)"

definition sample_pulled :: docket where
  "sample_pulled = pull_update 1000000 ''X000123'' (Some ''x000123'') None sample_docket"

lemma sample_pull:
  "snd (pullFromWorkbench sample_env is_hex24 (Some ''CASE-20260108-00012'') ''FIRM1'' (Some ''x000123'')
     None None (Some sample_docket)) = Inr sample_pulled"
  by code_simp

lemma sample_pull_step: "workflow_step Pull sample_docket sample_pulled"
  by (rule workflow_step.pull [OF _ sample_pull]) code_simp

lemma sample_owned: "owned_ok sample_docket" "state_ok sample_docket"
  by (simp add: owned_ok_def sample_docket_def, code_simp)

theorem workflow_ownership_witness:
  "d_state sample_pulled = Some ''IN_PROGRESS'' \<and> truthy (d_assignedToXID sample_pulled)"
proof -
  have "reachable_from sample_docket sample_pulled"
    by (rule reachable_from.step [OF reachable_from.start sample_pull_step])
  from workflow_ownership [OF this sample_owned(1)]
  show ?thesis by (simp add: sample_pulled_def pull_update_def)
qed

text \<open>
  C4. The stored state always says what the status means: a pull, a transition, a
  quality-control decision or an opening that starts from a docket whose stored canonical state is
  the one computed from its status and assignment ends in such a docket.
\<close>

theorem workflow_state_consistent:
  assumes "workflow_step k d d'" and "k \<noteq> Reassign"
    and "d_state d = Some (canon_name (canonical_state d))"
  shows "d_state d' = Some (canon_name (canonical_state d'))"
  using workflow_step_state [OF assms(1,2)] assms(3) by (simp add: state_ok_def)

theorem workflow_state_consistent_witness:
  "d_state sample_pulled = Some (canon_name (canonical_state sample_pulled))"
  using workflow_state_consistent [OF sample_pull_step] sample_owned(2) by (simp add: state_ok_def)

text \<open>
  C9. The lifecycle only moves along its table: every step but a pull from the
  workbasket keeps the lifecycle of a stored docket or changes it along an allowed transition; in
  particular no such step leaves \<open>DONE\<close>.
\<close>

theorem workflow_lifecycle_table:
  assumes "workflow_step k d d'" and "k \<noteq> Pull" and "d_lifecycle d = Some (lifecycle_name l)"
  shows "(lifecycle_of d' = l
          \<or> isValidTransition (Some (lifecycle_name l)) (Some (lifecycle_name (lifecycle_of d'))))
    \<and> (l = DONE \<longrightarrow> lifecycle_of d' = DONE)"
  using workflow_step_lifecycle [OF assms] by auto

definition sample_active :: docket where
  "sample_active = sample_pulled\<lparr>d_status := Some ''IN_PROGRESS'', d_lifecycle := Some ''ACTIVE''\<rparr>"

lemma sample_open: "snd (activateOnOpen sample_env ''FIRM1'' sample_actor (Some sample_pulled)) = Inr sample_active"
  by code_simp

theorem workflow_lifecycle_table_witness:
  "lifecycle_of sample_active = ACTIVE
   \<and> (lifecycle_of sample_active = WL
      \<or> isValidTransition (Some ''WL'') (Some (lifecycle_name (lifecycle_of sample_active))))"
proof -
  have s: "workflow_step Open sample_pulled sample_active"
    by (rule workflow_step.opened [OF sample_open])
  have l: "d_lifecycle sample_pulled = Some (lifecycle_name WL)" by code_simp
  have "lifecycle_of sample_active = ACTIVE" by code_simp
  with workflow_lifecycle_table [OF s _ l] show ?thesis by (simp add: lifecycle_name_def)
qed

end
