(* ===== verification/DocketProperties2.thy ===== *)
theory DocketProperties2
  imports DocketProperties
begin

section \<open>Properties of the docket workflow: refusals, quality control, races, locks, audit\<close>

text \<open>Further properties of the handlers of \<open>DocketWorkflow\<close> and \<open>DocketHandlers\<close>.\<close>

subsection \<open>Moves that are always refused\<close>

text \<open>
  Fact. A finished docket is closed to the workflow: on a docket whose lifecycle is
  \<open>DONE\<close> every transition and every quality-control decision fails, whatever the actor and the
  request, and opening it changes nothing and notifies nobody.
\<close>

theorem done_docket_is_final:
  assumes "lifecycle_of d = DONE"
  shows "is_error (snd (transition e qcTeam r (Some d)))
    \<and> is_error (snd (qcDecision e firm a dec c (Some d)))
    \<and> activateOnOpen e firm a (Some d) = ([], Inr d)"
proof (intro conjI)
  show "is_error (snd (transition e qcTeam r (Some d)))"
    using transition_result(3) [of e qcTeam r d] assms by (auto simp: is_error_iff)
  show "is_error (snd (qcDecision e firm a dec c (Some d)))"
    using qcDecision_result(3) [of e firm a dec c d] assms by (auto simp: is_error_iff)
  show "activateOnOpen e firm a (Some d) = ([], Inr d)"
    using assms by (simp add: activateOnOpen_def lifecycle_of_def pure_def)
qed

theorem done_docket_is_final_witness:
  "is_error (snd (qcDecision sample_env ''FIRM1'' sample_actor (Some ''passed'') (Some ''ok'')
     (Some (sample_docket\<lparr>d_lifecycle := Some ''DONE'', d_status := Some ''QC_PENDING''\<rparr>))))"
proof -
  have "lifecycle_of (sample_docket\<lparr>d_lifecycle := Some ''DONE'', d_status := Some ''QC_PENDING''\<rparr>) = DONE"
    by code_simp
  from done_docket_is_final [OF this] show ?thesis by blast
qed

text \<open>
  Fact. Resolving through \<open>transition\<close> never succeeds: with a comment, every request
  whose target is \<open>RESOLVED\<close> ends, before any effect, with the \<open>ReferenceError\<close> of the
  undeclared identifier \<open>subcategory\<close>; without one it is refused for the comment.
\<close>

theorem resolve_throws:
  assumes "toDocketState (tr_toState r) = Some ''RESOLVED''"
  shows "transition e qcTeam r (Some d) = ([], Inl
    (if js_trim (str_or_empty (tr_comment r)) \<noteq> [] then ReferenceError ''subcategory''
     else Thrown ''RESOLVED requires comment'' (Some 400) (Some ''COMMENT_REQUIRED'')))"
  using assms by (simp add: transition_def transition_target_def requireComment_def seq_def pure_def check_def)

definition sample_req :: "string \<Rightarrow> transition_req" where
  "sample_req target = \<lparr>tr_firmId = ''FIRM1'', tr_actor = sample_actor, tr_toState = Some target,
     tr_comment = Some ''please check'', tr_reopenAt = Some 2000000, tr_duplicateOf = None\<rparr>"

theorem resolve_throws_witness:
  "snd (transition sample_env (\<lambda>_. None) (sample_req ''RESOLVED'') (Some sample_active))
     = Inl (ReferenceError ''subcategory'')"
proof -
  have 1: "toDocketState (tr_toState (sample_req ''RESOLVED'')) = Some ''RESOLVED''" by code_simp
  have 2: "js_trim (str_or_empty (tr_comment (sample_req ''RESOLVED''))) \<noteq> []" by code_simp
  from resolve_throws [OF 1] 2 show ?thesis by simp
qed

text \<open>
  Fact. A docket without a pending reason cannot be pended through \<open>transition\<close>: the
  handler writes no \<open>pendingReason\<close>, and the schema refuses the status \<open>PENDING\<close> without
  one, so the request fails whatever comment and reopening date it carries.
\<close>

theorem pend_needs_reason:
  assumes "toDocketState (tr_toState r) = Some ''PENDING''"
    and "\<not> truthy (d_pendingReason d)" and "d_status d \<noteq> Some ''PENDING''"
  shows "is_error (snd (transition e qcTeam r (Some d)))"
proof (rule ccontr)
  assume "\<not> is_error (snd (transition e qcTeam r (Some d)))"
  then obtain d' where "snd (transition e qcTeam r (Some d)) = Inr d'" by (auto simp: is_error_iff)
  then obtain t d4 d5 where t: "transition_target r = Inr t" and a: "snd (transition_apply e qcTeam r t d) = Inr d4"
    and o: "enforceOwnershipRules d4 = Inr d5" and s: "save (e_revalidate e) d d5 = Inr d'"
    by (auto elim!: transition_InrE)
  have "t = Some ''PENDING''" using transition_target_Inr(1) [OF t] assms(1) by simp
  then have "d_status d5 = Some ''PENDING''" "\<not> truthy (d_pendingReason d5)"
    using transition_apply_Inr(1,4) [OF a] enforceOwnership_fields(1,8) [OF o] assms(2) by simp_all
  then have "is_error (save (e_revalidate e) d d5)"
    using assms(3) by (intro save_pending_requires_reason)
  with s show False by simp
qed

theorem pend_needs_reason_witness:
  "is_error (snd (transition sample_env (\<lambda>_. None) (sample_req ''PENDING'') (Some sample_active)))"
proof (rule pend_needs_reason)
  show "toDocketState (tr_toState (sample_req ''PENDING'')) = Some ''PENDING''" by code_simp
  show "\<not> truthy (d_pendingReason sample_active)" by code_simp
  show "d_status sample_active \<noteq> Some ''PENDING''" by code_simp
qed

subsection \<open>Quality control\<close>

lemma transition_to_qc:
  assumes "snd (transition e qcTeam r (Some d)) = Inr d1"
    and "toDocketState (tr_toState r) = Some ''QC_PENDING''"
  shows "lifecycle_of d1 = WAITING" "d_status d1 = Some ''QC_PENDING''" "d_state d1 = Some ''IN_QC''"
    and "d_lifecycle d1 = Some ''WAITING''"
    and "canonical_state d1 = IN_QC" "d_assignedToXID d1 = None"
    and "d_qcSubmittedByXID d1 = xid_set (js_or (d_assignedToXID d) (actor_xID (tr_actor r)))"
    and "truthy (d_firmId d1)"
proof -
  from assms obtain t d4 d5 where t: "transition_target r = Inr t" and a: "snd (transition_apply e qcTeam r t d) = Inr d4"
    and o: "enforceOwnershipRules d4 = Inr d5" and s: "save (e_revalidate e) d d5 = Inr d1"
    by (auto elim!: transition_InrE)
  have tq: "t = Some ''QC_PENDING''" using transition_target_Inr(1) [OF t] assms(2) by simp
  note A = transition_apply_Inr [OF a]
  have "d_state d4 = Some ''IN_QC''" using A(2) tq by (simp add: target_canonical_def)
  then have eq: "d5 = d4" using enforceOwnership_fields(5) [OF o] by simp
  have d1: "d1 = preValidate d4" using s eq save_Inr_eq by blast
  show "d_status d1 = Some ''QC_PENDING''" "d_state d1 = Some ''IN_QC''" "d_assignedToXID d1 = None"
    "d_qcSubmittedByXID d1 = xid_set (js_or (d_assignedToXID d) (actor_xID (tr_actor r)))"
    using A(1,5) tq d1 \<open>d_state d4 = Some ''IN_QC''\<close> by simp_all
  then show "canonical_state d1 = IN_QC" by (simp add: canonical_state_def)
  show "lifecycle_of d1 = WAITING" using transition_result(5) [OF assms(1)] assms(2) by simp
  have "d_lifecycle d4 = Some (lifecycle_name WAITING)" using A(3) tq by simp
  then have "d_lifecycle d1 = Some (lifecycle_name WAITING)" unfolding d1 by (rule preValidate_lifecycle)
  then show "d_lifecycle d1 = Some ''WAITING''" by (simp add: lifecycle_name_def)
  show "truthy (d_firmId d1)" using s d1 eq by (auto elim!: saveE)
qed

text \<open>
  Fact. Quality control cannot be passed after a transition into it: the transition
  leaves the lifecycle \<open>WAITING\<close>, from which \<open>DONE\<close> is not reachable in one step, so on the
  docket it saved every decision other than \<open>FAILED\<close> is refused, for every actor.
\<close>

theorem qc_pass_refused_after_transition:
  assumes "snd (transition e qcTeam r (Some d)) = Inr d1"
    and "toDocketState (tr_toState r) = Some ''QC_PENDING''"
    and "js_upper (str_or_empty decision) \<noteq> ''FAILED''"
  shows "is_error (snd (qcDecision e' firm a decision comment (Some d1)))"
proof (rule ccontr)
  assume "\<not> is_error (snd (qcDecision e' firm a decision comment (Some d1)))"
  then obtain d2 where q: "snd (qcDecision e' firm a decision comment (Some d1)) = Inr d2"
    by (auto simp: is_error_iff)
  have fin: "snd (qc_finish e' firm a (js_upper (str_or_empty decision)) comment d1
      (qc_decided_fields (e_now e') a comment (js_upper (str_or_empty decision)) d1) (Some ''RESOLVED'')) = Inr d2"
    using q assms(3) by (auto elim!: qcDecision_InrE)
  have "lifecycle_of d2 = DONE" using qc_finish_result(4) [OF fin] by simp
  moreover have "lifecycle_of d2 \<in> set (lifecycle_TRANSITIONS WAITING)"
    using qcDecision_result(3) [OF q] transition_to_qc(1) [OF assms(1,2)] by simp
  ultimately show False by simp
qed

definition sample_in_qc :: docket where
  "sample_in_qc = sample_active\<lparr>d_status := Some ''QC_PENDING'', d_lifecycle := Some ''WAITING'',
     d_state := Some ''IN_QC'', d_assignedToXID := None, d_queueType := Some ''GLOBAL'',
     d_qcStatus := Some ''REQUESTED'', d_qcBy := Some ''X000123'', d_qcAt := Some 1000000,
     d_qc := sample_qc\<lparr>qc_requestedBy := Some ''X000123'', qc_status := Some ''REQUESTED'',
       qc_comment := Some ''please check'', qc_requestedAt := Some 1000000,
       qc_originalAssigneeXID := Some ''X000123'', qc_attempts := 1\<rparr>,
     d_qcSubmittedByXID := Some ''X000123'', d_qcSubmittedAt := Some 1000000\<rparr>"

lemma sample_to_qc:
  "snd (transition sample_env (\<lambda>_. None) (sample_req ''QC_PENDING'') (Some sample_active)) = Inr sample_in_qc"
  "toDocketState (tr_toState (sample_req ''QC_PENDING'')) = Some ''QC_PENDING''"
  by code_simp+

theorem qc_pass_refused_after_transition_witness:
  "is_error (snd (qcDecision sample_env ''FIRM1'' sample_actor (Some ''passed'') (Some ''fine'') (Some sample_in_qc)))"
  by (rule qc_pass_refused_after_transition [OF sample_to_qc]) code_simp

lemma enforce_in_progress:
  "d_state d = Some ''IN_PROGRESS'' \<Longrightarrow> truthy (d_assignedToXID d)
    \<Longrightarrow> enforceOwnershipRules d = Inr (d\<lparr>d_queueType := Some ''PERSONAL''\<rparr>)"
  by (simp add: enforceOwnershipRules_def validateOwnershipRules_def Let_def)

lemma save_in_progress:
  assumes "d_status a = Some ''IN_PROGRESS''" "truthy (d_firmId a)" "truthy (d_assignedToXID a)"
  shows "save rv b a = Inr (preValidate a)"
proof -
  have "''IN_PROGRESS'' \<in> set CaseStatus" by code_simp
  then have "status_errors rv b (preValidate a) = []"
    using assms(1) by (simp add: status_errors_def status_validator_def)
  moreover have "enforceAssignedUserForWorklistLifecycle a = []"
    using assms(3) by (simp add: enforceAssignedUserForWorklistLifecycle_def)
  moreover have "enforceAssignedUserForWlOnSave (preValidate a) = Inr ()"
    using assms(3) by (simp add: enforceAssignedUserForWlOnSave_def)
  ultimately show ?thesis using assms(2) by (simp add: save_def Let_def)
qed

text \<open>
  Fact. A failed quality control returns the docket to its submitter: after a transition
  into quality control of a docket assigned to \<open>x\<close>, an administrator's decision \<open>FAILED\<close> with
  a comment succeeds, and the saved docket is assigned to \<open>x\<close> again, in progress, active, in a
  personal queue, with the outcome \<open>FAILED\<close>.
\<close>

theorem qc_fail_returns_to_submitter:
  assumes tr: "snd (transition e qcTeam r (Some d)) = Inr d1"
    and qc: "toDocketState (tr_toState r) = Some ''QC_PENDING''"
    and x: "d_assignedToXID d = Some x" "js_trim x \<noteq> []"
    and a: "normalizeActorRole a \<noteq> ''USER''"
    and c: "js_trim (str_or_empty comment) \<noteq> []" and dec: "js_upper (str_or_empty decision) = ''FAILED''"
  shows "\<exists>d2. snd (qcDecision e' firm a decision comment (Some d1)) = Inr d2
     \<and> d_assignedToXID d2 = Some (js_upper (js_trim x)) \<and> d_state d2 = Some ''IN_PROGRESS''
     \<and> d_queueType d2 = Some ''PERSONAL'' \<and> lifecycle_of d2 = ACTIVE \<and> d_qcOutcome d2 = Some ''FAILED''"
proof -
  note Q = transition_to_qc [OF tr qc]
  have xne: "x \<noteq> []" using x(2) by (auto simp: js_trim_def)
  define d1' where "d1' = qc_decided_fields (e_now e') a comment ''FAILED'' d1"
  have sub: "d_qcSubmittedByXID d1 = Some (js_upper (js_trim x))"
    using Q(7) x xne by (simp add: xid_set_def)
  have asg: "d_assignedToXID d1' = Some (js_upper (js_trim x))"
    using sub x(2) by (simp add: d1'_def xid_set_def js_trim_upper)
  have firm1: "truthy (d_firmId d1')" using Q(8) by (simp add: d1'_def qc_decided_fields_def qc_handled_def)
  have lc: "d_lifecycle d1' = Some (lifecycle_name WAITING)" using Q(4) by (simp add: d1'_def lifecycle_name_def)
  have tc: "target_canonical d1' (Some ''IN_PROGRESS'') = IN_PROGRESS" by (simp add: target_canonical_def)
  have gd: "qc_guards a d1 d1' (Some ''IN_PROGRESS'') = Inr ()"
    using a lc Q(5) tc canTransition_name [of IN_QC IN_PROGRESS] isValidTransition_name [of WAITING ACTIVE]
    by (simp add: qc_guards_def Let_def validateLifecycleAccess_def)
  define d2 where "d2 = d1'\<lparr>d_status := Some ''IN_PROGRESS'', d_qcDecisionByXID := xid_set (actor_xID a),
     d_qcDecisionAt := Some (e_now e'), d_state := Some ''IN_PROGRESS''\<rparr>"
  have tl: "snd (transitionLifecycle d2 ACTIVE False (Some firm) a) = Inr (set_lifecycle ACTIVE d2)"
    using lc by (simp add: transitionLifecycle_def Let_def d2_def assertValidLifecycleTransition_def)
  define d5 where "d5 = (set_lifecycle ACTIVE d2)\<lparr>d_lastActionByXID := xid_set (actor_xID a),
     d_lastActionAt := Some (e_now e'), d_updatedAt := Some (e_now e'), d_queueType := Some ''PERSONAL''\<rparr>"
  have own: "enforceOwnershipRules ((set_lifecycle ACTIVE d2)\<lparr>d_lastActionByXID := xid_set (actor_xID a),
     d_lastActionAt := Some (e_now e'), d_updatedAt := Some (e_now e')\<rparr>) = Inr d5"
    unfolding d5_def using asg x(2) by (subst enforce_in_progress) (simp_all add: d2_def)
  have sv: "save (e_revalidate e') d1 d5 = Inr (preValidate d5)"
    using asg x(2) firm1 by (intro save_in_progress) (simp_all add: d5_def d2_def)
  have fin: "snd (qc_finish e' firm a ''FAILED'' comment d1 d1' (Some ''IN_PROGRESS'')) = Inr (preValidate d5)"
    using gd tl own sv tc by (simp add: qc_finish_def Let_def save_step_def d2_def)
  have cc: "canon_name (canonical_state d1) = ''IN_QC''" using Q(5) by simp
  have "snd (qcDecision e' firm a decision comment (Some d1)) = Inr (preValidate d5)"
    using fin c dec cc
    by (simp add: qcDecision_def Let_def requireComment_def QC_DECISIONS_def getQcDecisionTransition_def
        d1'_def js_upper_def upper_char_def)
  moreover have "d_lifecycle (preValidate d5) = Some (lifecycle_name ACTIVE)"
    by (rule preValidate_lifecycle) (simp add: d5_def)
  then have "lifecycle_of (preValidate d5) = ACTIVE" by (rule lifecycle_of_name)
  ultimately show ?thesis
    using asg by (intro exI [of _ "preValidate d5"]) (simp add: d5_def d2_def d1'_def)
qed

theorem qc_fail_returns_to_submitter_witness:
  "\<exists>d2. snd (qcDecision sample_env ''FIRM1'' sample_actor (Some ''failed'') (Some ''redo'') (Some sample_in_qc)) = Inr d2
     \<and> d_assignedToXID d2 = Some ''X000123''"
proof -
  have x: "d_assignedToXID sample_active = Some ''X000123''" "js_trim ''X000123'' \<noteq> []" by code_simp+
  have a: "normalizeActorRole sample_actor \<noteq> ''USER''" by code_simp
  have c: "js_trim (str_or_empty (Some ''redo'')) \<noteq> []" by code_simp
  have dec: "js_upper (str_or_empty (Some ''failed'')) = ''FAILED''" by code_simp
  have u: "js_upper (js_trim ''X000123'') = ''X000123''" by code_simp
  from qc_fail_returns_to_submitter [OF sample_to_qc x a c dec] u show ?thesis by auto
qed

end
