(* ===== verification/DocketProperties3.thy ===== *)
theory DocketProperties3
  imports DocketProperties2
begin

section \<open>Properties of the docket workflow: races, locks, audit\<close>

text \<open>Further properties of the handlers of \<open>DocketWorkflow\<close> and \<open>DocketHandlers\<close>.\<close>

subsection \<open>Races for an unassigned docket\<close>

record pull_req =
  pr_now :: int
  pr_assignee :: string
  pr_user :: "string option"
  pr_userObjectId :: "string option"

definition pull_claim :: "pull_req \<Rightarrow> docket \<Rightarrow> docket" where
  "pull_claim r = pull_update (pr_now r) (pr_assignee r) (pr_user r) (pr_userObjectId r)"

interpretation workbench: claim "pull_filter isOid i firm" pull_claim for isOid i firm
  by unfold_locales (simp add: pull_filter_def pull_claim_def pull_update_def)

text \<open>
  Fact. A pull has one winner: however many users pull the same waiting docket, and
  in whatever order the database serialises their updates, exactly the first one takes it; the
  stored document is the one that pull wrote, with that user as its assignee; and a docket that
  is not waiting is taken by nobody and stays as it is.
\<close>

theorem pull_race_one_winner:
  "run_claims (pull_filter isOid i firm) pull_claim (r # rs) d
   = (if pull_filter isOid i firm d then (pull_claim r d, [r]) else (d, []))
   \<and> d_assignedToXID (pull_claim r d) = Some (js_upper (js_trim (pr_assignee r)))
   \<and> d_status (pull_claim r d) = Some ''ASSIGNED''"
proof (intro conjI)
  show "run_claims (pull_filter isOid i firm) pull_claim (r # rs) d
   = (if pull_filter isOid i firm d then (pull_claim r d, [r]) else (d, []))"
  proof (cases "pull_filter isOid i firm d")
    case True
    then show ?thesis using workbench.one_winner [of isOid i firm d r rs] by simp
  next
    case False
    then show ?thesis using workbench.no_claim [of isOid i firm d "r # rs"] by simp
  qed
qed (simp_all add: pull_claim_def pull_update_def xid_set_def)

lemma query_pull_update [simp]:
  "makeDocketQuery isOid i firm (pull_update now asg u uo d) = makeDocketQuery isOid i firm d"
  by (cases i) (simp_all add: makeDocketQuery_def pull_update_def set_lifecycle_def)

text \<open>
  Fact. The loser of a race is told so: once a pull of a docket succeeded, every later pull
  of the saved document by the same identifier fails with status 409 and the code
  \<open>DOCKET_ALREADY_ASSIGNED\<close>, performs no effect, and leaves the first owner in place.
\<close>

theorem second_pull_conflicts:
  assumes first: "snd (pullFromWorkbench e isOid i firm u uo asg (Some d)) = Inr d'"
    and "js_trim (str_or_empty (js_or asg u)) \<noteq> []"
    and second: "js_upper (str_or_empty (js_or asg' u')) \<noteq> []"
  shows "pullFromWorkbench e' isOid i firm u' uo' asg' (Some d')
     = ([], Inl (Thrown ''Docket is already assigned'' (Some 409) (Some ''DOCKET_ALREADY_ASSIGNED'')))
     \<and> d_assignedToXID d' = Some (js_upper (js_trim (str_or_empty (js_or asg u))))"
proof -
  note P = pull_result [OF first assms(2)]
  have q: "makeDocketQuery isOid i firm d'" using P(3,4) by (simp add: pull_filter_def)
  have "d_status d' = Some ''ASSIGNED''" using P(4) by (simp add: pull_update_def)
  then have "\<not> pull_filter isOid i firm d'" by (simp add: pull_filter_def)
  moreover have "d_assignedToXID d' = Some (js_upper (js_trim (str_or_empty (js_or asg u))))"
    using P(4) by (simp add: pull_update_def xid_set_def js_trim_upper)
  ultimately show ?thesis
    using q second by (simp add: pullFromWorkbench_def Let_def pure_def)
qed

theorem second_pull_conflicts_witness:
  "snd (pullFromWorkbench sample_env is_hex24 (Some ''CASE-20260108-00012'') ''FIRM1'' (Some ''X000456'')
     None None (Some sample_pulled))
   = Inl (Thrown ''Docket is already assigned'' (Some 409) (Some ''DOCKET_ALREADY_ASSIGNED''))"
proof -
  have 1: "js_trim (str_or_empty (js_or None (Some ''x000123''))) \<noteq> []" by code_simp
  have 2: "js_upper (str_or_empty (js_or None (Some ''X000456''))) \<noteq> []" by code_simp
  from second_pull_conflicts [OF sample_pull 1 2] show ?thesis by simp
qed

subsection \<open>Locks and reassignment\<close>

text \<open>
  Fact. A docket another user is working on cannot be taken away: while its lock is held by
  somebody else and was active less than two hours ago, reassigning it fails with status 409 and
  \<open>DOCKET_LOCKED_ACTIVE\<close> and has no effect; the holder itself, and anybody once two hours
  have passed, is not stopped by the lock.
\<close>

theorem reassign_respects_lock:
  assumes "lk_isLocked (d_lockStatus d)" and "lk_lastActivityAt (d_lockStatus d) = Some t" and "0 < t"
    and "js_trim (str_or_empty comment) \<noteq> []"
  shows "(e_now e - t < 2 * 60 * 60 * 1000
          \<and> normalize_str (actor_xID a) \<noteq> normalize_str (lk_activeUserXID (d_lockStatus d))
          \<longrightarrow> (\<exists>msg. reassign e a to comment (Some d)
                 = ([], Inl (Thrown msg (Some 409) (Some ''DOCKET_LOCKED_ACTIVE'')))))
    \<and> (e_now e - t \<ge> 2 * 60 * 60 * 1000
          \<or> (normalize_str (actor_xID a) \<noteq> []
             \<and> normalize_str (actor_xID a) = normalize_str (lk_activeUserXID (d_lockStatus d)))
          \<longrightarrow> assertNotLockedByAnotherActiveUser (e_now e) d a = Inr ())"
  using assms
  by (auto simp: reassign_def assertNotLockedByAnotherActiveUser_def Let_def INACTIVITY_TIMEOUT_MS_def
      requireComment_def seq_def pure_def check_def)

definition sample_locked :: docket where
  "sample_locked = sample_active\<lparr>d_lockStatus := sample_lock\<lparr>lk_isLocked := True,
     lk_activeUserXID := Some ''X000777'', lk_lastActivityAt := Some 900000\<rparr>\<rparr>"

theorem reassign_respects_lock_witness:
  "\<exists>msg. reassign sample_env sample_actor (Some ''X000456'') (Some ''busy'') (Some sample_locked)
       = ([], Inl (Thrown msg (Some 409) (Some ''DOCKET_LOCKED_ACTIVE'')))"
proof -
  have 1: "lk_isLocked (d_lockStatus sample_locked)"
    and 2: "lk_lastActivityAt (d_lockStatus sample_locked) = Some 900000" by code_simp+
  have 3: "(0 :: int) < 900000" by simp
  have 4: "js_trim (str_or_empty (Some ''busy'')) \<noteq> []" by code_simp
  have 5: "e_now sample_env - 900000 < 2 * 60 * 60 * 1000" by (simp add: sample_env_def)
  have 6: "normalize_str (actor_xID sample_actor) \<noteq> normalize_str (lk_activeUserXID (d_lockStatus sample_locked))"
    by code_simp
  from reassign_respects_lock [OF 1 2 3 4] 5 6 show ?thesis by blast
qed

text \<open>
  Fact. Reassignment does not look at the status: it succeeds on a docket in any status and
  always stores the state \<open>IN_PROGRESS\<close> while the status stays, so the stored state agrees
  with the status afterwards exactly when the status is one of a docket in progress.  A filed
  docket that is reassigned is stored as in progress.
\<close>

theorem reassign_ignores_status:
  assumes "snd (reassign e a to comment (Some d)) = Inr d'"
  shows "d_status d' = d_status d \<and> d_state d' = Some ''IN_PROGRESS''
    \<and> (d_state d' = Some (canon_name (canonical_state d')) \<longleftrightarrow> canonical_state d' = IN_PROGRESS)
    \<and> (d_status d = Some ''FILED'' \<longrightarrow> canonical_state d' = FILED)"
proof -
  have n: "''IN_PROGRESS'' = canon_name c \<longleftrightarrow> c = IN_PROGRESS" for c
    by (cases c) (simp_all add: canon_name_def)
  have f: "canonical_state d' = FILED" if "d_status d' = Some ''FILED''"
    using that by (simp add: canonical_state_def getCanonicalDocketState_def)
  show ?thesis using reassign_result(3,4) [OF assms] f by (auto simp: n)
qed

definition sample_filed :: docket where
  "sample_filed = sample_active\<lparr>d_status := Some ''FILED'', d_state := Some ''FILED'', d_lifecycle := Some ''DONE''\<rparr>"

definition sample_filed_reassigned :: docket where
  "sample_filed_reassigned = sample_filed\<lparr>d_assignedToXID := Some ''X000456'', d_assignedAt := Some 1000000,
     d_lastActionByXID := Some ''X000123'', d_state := Some ''IN_PROGRESS''\<rparr>"

lemma sample_reassign:
  "snd (reassign sample_env sample_actor (Some ''x000456'') (Some ''move'') (Some sample_filed)) = Inr sample_filed_reassigned"
  by code_simp

theorem reassign_ignores_status_witness:
  "d_status sample_filed_reassigned = Some ''FILED'' \<and> d_state sample_filed_reassigned = Some ''IN_PROGRESS''"
proof -
  have "d_status sample_filed = Some ''FILED''" by code_simp
  with reassign_ignores_status [OF sample_reassign] show ?thesis by simp
qed

subsection \<open>Audit\<close>

definition is_save :: "effect \<Rightarrow> bool" where
  "is_save x = (case x of Save _ \<Rightarrow> True | _ \<Rightarrow> False)"

lemma createDocketNotification_no_save [simp]: "filter is_save (createDocketNotification u t i) = []"
  by (simp add: createDocketNotification_def is_save_def)

lemma transitionLifecycle_no_save: "filter is_save (fst (transitionLifecycle d l quiet f a)) = []"
  by (auto simp: transitionLifecycle_def Let_def seq_def pure_def emit_def split: sum.splits prod.splits)

lemma transition_apply_no_save: "filter is_save (fst (transition_apply e q r t d)) = []"
  using transitionLifecycle_no_save
  by (auto simp: transition_apply_def Let_def fst_seq is_save_def split: sum.splits)

text \<open>
  Fact. Every transition that succeeds is saved once and then audited: its effects are, in
  this order, at most notifications and events, one write of the returned document, one audit entry
  that names the status before and the status written, and one activity entry.  A transition that
  fails writes nothing.
\<close>

theorem transition_audited:
  "(snd (transition e qcTeam r (Some d)) = Inr d' \<longrightarrow>
      (\<exists>pre au. fst (transition e qcTeam r (Some d))
             = pre @ [Save d', Audited au, Activity ''STATUS_CHANGED'' (d_caseInternalId d')]
         \<and> filter is_save pre = []
         \<and> au_action au = ''STATE_TRANSITION'' \<and> au_userId au = actor_xID (tr_actor r)
         \<and> au_fromState au = toDocketState (d_status d)
         \<and> toPersistenceState (au_toState au) = d_status d'))
   \<and> (is_error (snd (transition e qcTeam r (Some d)))
      \<longrightarrow> filter is_save (fst (transition e qcTeam r (Some d))) = [])"
proof (intro conjI impI)
  assume ok: "snd (transition e qcTeam r (Some d)) = Inr d'"
  then obtain t d4 d5 where t: "transition_target r = Inr t" and g: "transition_guards r d t = Inr ()"
    and a: "snd (transition_apply e qcTeam r t d) = Inr d4"
    and o: "enforceOwnershipRules d4 = Inr d5" and s: "save (e_revalidate e) d d5 = Inr d'"
    by (auto elim!: transition_InrE)
  define au where "au = (case writeAudit (d_caseId d') ''STATE_TRANSITION'' (toDocketState (d_status d)) t
     (actor_xID (tr_actor r)) (normalizeActorRole (tr_actor r)) (tr_comment r) (Some ''DOCKET_STATE_CHANGED'') None
     of Audited x \<Rightarrow> x)"
  have "fst (transition e qcTeam r (Some d)) = fst (transition_apply e qcTeam r t d)
     @ [Save d', Audited au, Activity ''STATUS_CHANGED'' (d_caseInternalId d')]"
    using t g a o s by (simp add: transition_def save_step_def writeAudit_def au_def)
  moreover have "toPersistenceState t = d_status d'"
    using transition_result(4) [OF ok] transition_target_Inr(1) [OF t] by simp
  ultimately show "\<exists>pre au. fst (transition e qcTeam r (Some d))
             = pre @ [Save d', Audited au, Activity ''STATUS_CHANGED'' (d_caseInternalId d')]
         \<and> filter is_save pre = [] \<and> au_action au = ''STATE_TRANSITION''
         \<and> au_userId au = actor_xID (tr_actor r) \<and> au_fromState au = toDocketState (d_status d)
         \<and> toPersistenceState (au_toState au) = d_status d'"
    using transition_apply_no_save by (intro exI conjI) (auto simp: au_def writeAudit_def)
next
  assume "is_error (snd (transition e qcTeam r (Some d)))"
  then show "filter is_save (fst (transition e qcTeam r (Some d))) = []"
    using transition_apply_no_save
    by (auto simp: transition_def save_step_def fst_seq res_bind_def split: sum.splits)
qed

theorem transition_audited_witness:
  "\<exists>pre au. fst (transition sample_env (\<lambda>_. None) (sample_req ''QC_PENDING'') (Some sample_active))
     = pre @ [Save sample_in_qc, Audited au, Activity ''STATUS_CHANGED'' (d_caseInternalId sample_in_qc)]"
  using transition_audited [of sample_env "\<lambda>_. None" "sample_req ''QC_PENDING''" sample_active sample_in_qc]
    sample_to_qc(1) by blast

end
