(* ===== verification/DocketSchedulers.thy ===== *)
theory DocketSchedulers
  imports DocketInvariants
begin

section \<open>Workflow steps nobody asks for: due dates, deactivation, client mail\<close>

text \<open>
  The parts of \<open>src/services/docketWorkflow.service.js\<close> that the scheduler, the deactivation
  of a user and the inbound mail run.  They write with \<open>Case.updateOne\<close>, which runs no save
  hook, on the collection of dockets; the collection is a list and \<open>update_by_id\<close> is
  \<open>updateOne({ _id }, ...)\<close>.
\<close>

subsection \<open>The collection\<close>

definition update_by_id :: "string \<Rightarrow> (docket \<Rightarrow> docket) \<Rightarrow> docket list \<Rightarrow> docket list" where
  "update_by_id i f ds = map (\<lambda>d. if d_id d = i then f d else d) ds"

definition has_assignee :: "docket \<Rightarrow> bool" where
  "has_assignee d \<longleftrightarrow> js_trim (str_or_empty (d_assignedToXID d)) \<noteq> []"

definition update_if :: "(docket \<Rightarrow> docket \<Rightarrow> docket) \<Rightarrow> docket \<Rightarrow> docket \<Rightarrow> docket" where
  "update_if f read d = (if d_id d = d_id read then f read d else d)"

lemma fold_update_by_id:
  "fold (\<lambda>s. update_by_id (d_id s) (f s)) rs ds = map (\<lambda>d. fold (update_if f) rs d) ds"
  by (induction rs arbitrary: ds) (simp_all add: update_by_id_def update_if_def comp_def)

lemma fold_update_miss: "d_id d \<notin> d_id ` set rs \<Longrightarrow> fold (update_if f) rs d = d"
  by (induction rs) (auto simp: update_if_def)

lemma fold_update_hit:
  assumes "\<And>r d. d_id (f r d) = d_id d"
  shows "distinct (map d_id rs) \<Longrightarrow> r \<in> set rs \<Longrightarrow> d_id r = d_id d \<Longrightarrow> fold (update_if f) rs d = f r d"
proof (induction rs)
  case Nil
  then show ?case by simp
next
  case (Cons x rs)
  show ?case
  proof (cases "x = r")
    case True
    then have "d_id (f r d) \<notin> d_id ` set rs" using Cons.prems assms by auto
    moreover have "update_if f x d = f r d" using True Cons.prems(3) by (simp add: update_if_def)
    ultimately show ?thesis by (simp add: fold_update_miss)
  next
    case False
    then have r: "r \<in> set rs" using Cons.prems(2) by simp
    then have "d_id r \<in> d_id ` set rs" by simp
    then have "d_id x \<noteq> d_id d" using Cons.prems(1,3) by auto
    then show ?thesis using Cons.IH Cons.prems r by (simp add: update_if_def)
  qed
qed

lemma update_by_id_map:
  assumes dist: "distinct (map d_id ds)" and id: "\<And>r d. d_id (f r d) = d_id d"
  shows "fold (\<lambda>s. update_by_id (d_id s) (f s)) (filter P ds) ds = map (\<lambda>d. if P d then f d d else d) ds"
proof -
  have "fold (update_if f) (filter P ds) d = (if P d then f d d else d)" if "d \<in> set ds" for d
  proof (cases "P d")
    case True
    with that dist show ?thesis
      by (simp add: fold_update_hit [where r = d] id distinct_map_filter)
  next
    case False
    have "d_id d \<notin> d_id ` set (filter P ds)"
      using False that dist by (auto simp: distinct_map inj_on_def)
    then show ?thesis using False by (simp add: fold_update_miss)
  qed
  then show ?thesis by (simp add: fold_update_by_id)
qed

subsection \<open>reopenDuePending\<close>

definition pending_due :: "int \<Rightarrow> docket \<Rightarrow> bool" where
  "pending_due now d \<longleftrightarrow>
    d_status d = toPersistenceState (Some ''PENDING'')
    \<and> ((case d_reopenAt d of None \<Rightarrow> False | Some t \<Rightarrow> t \<le> now)
       \<or> (case d_pendingUntil d of None \<Rightarrow> False | Some t \<Rightarrow> t \<le> now))"

definition reopen_target :: "docket \<Rightarrow> string \<times> string \<times> string" where
  "reopen_target d =
    (if has_assignee d then (''ASSIGNED'', ''IN_PROGRESS'', ''PERSONAL'')
     else if truthy (d_routedToTeamId d) \<and> js_trim (str_or_empty (d_routedToTeamId d)) \<noteq> []
     then (''ROUTED'', ''IN_WB'', ''GLOBAL'')
     else (''UNASSIGNED'', ''IN_WB'', ''GLOBAL''))"

definition reopen_set :: "int \<Rightarrow> docket \<Rightarrow> docket \<Rightarrow> docket" where
  "reopen_set now read d =
    (case reopen_target read of (toState, stateVal, queueTypeVal) \<Rightarrow>
      let d1 = (set_lifecycle ACTIVE d)\<lparr>d_status := Some toState, d_state := Some stateVal,
                 d_queueType := Some queueTypeVal, d_qcOutcome := None, d_reopenAt := None,
                 d_pendingUntil := None, d_lastActionAt := Some now, d_lastActionByXID := Some ''SYSTEM'',
                 d_updatedAt := Some now\<rparr>
      in if has_assignee read then d1 else d1\<lparr>d_assignedToXID := None, d_assignedTo := None\<rparr>)"

definition reopenDuePending :: "int \<Rightarrow> docket list \<Rightarrow> effect list \<times> docket list \<times> nat \<times> string option list" where
  "reopenDuePending now ds =
    (let due = filter (pending_due now) ds;
         audits = map (\<lambda>d. writeAudit (d_caseId d) ''PENDING_REOPEN'' (Some ''PENDING'')
                    (toDocketState (Some (fst (reopen_target d)))) (Some ''SYSTEM'') ''USER''
                    (Some ''Auto reopened'') None None) due;
         events = concat (map (\<lambda>d. Emitted ''docket.pending_reopen'' (d_caseId d)
                    # createDocketNotification (d_assignedToXID d) ''PENDED_DOCKET_REOPENED'' (d_caseId d)) due)
     in (audits @ events,
         fold (\<lambda>read. update_by_id (d_id read) (reopen_set now read)) due ds,
         length due, map d_caseId due))"

lemma reopen_set_id [simp]: "d_id (reopen_set now r d) = d_id d"
  by (simp add: reopen_set_def reopen_target_def set_lifecycle_def Let_def)

lemma reopen_set_not_due: "\<not> pending_due now' (reopen_set now r d)"
  by (auto simp: pending_due_def reopen_set_def reopen_target_def set_lifecycle_def Let_def)

lemma trim_nonempty_truthy: "js_trim (str_or_empty v) \<noteq> [] \<Longrightarrow> truthy v"
  by (cases v) (auto simp: js_trim_def)

lemma reopen_set_ok: "owned_ok (reopen_set now d d) \<and> state_ok (reopen_set now d d)"
  using trim_nonempty_truthy [of "d_assignedToXID d"]
  by (auto simp: reopen_set_def reopen_target_def set_lifecycle_def Let_def owned_ok_def state_ok_def
      canonical_state_def getCanonicalDocketState_def has_assignee_def state_of_assignment_def)

lemma reopen_coll:
  assumes "distinct (map d_id ds)"
  shows "fst (snd (reopenDuePending now ds))
    = map (\<lambda>d. if pending_due now d then reopen_set now d d else d) ds"
  unfolding reopenDuePending_def Let_def fst_conv snd_conv
  by (rule update_by_id_map [OF assms]) simp

text \<open>
  Fact. The scheduler reopens exactly what is due: every pending docket whose reopening
  date has passed leaves \<open>PENDING\<close>, goes back to its assignee's worklist or to the workbasket
  with a state that agrees with its status and its owner, and every other docket is untouched; the
  count it reports is the number of due dockets, and a second run at any later time that nothing
  else became due for finds none of them.
\<close>

theorem reopen_due_exact:
  assumes "distinct (map d_id ds)" and "reopenDuePending now ds = (effs, ds', n, ids)"
  shows "length ds' = length ds
    \<and> (\<forall>i < length ds. (\<not> pending_due now (ds ! i) \<longrightarrow> ds' ! i = ds ! i)
        \<and> (pending_due now (ds ! i) \<longrightarrow>
             (\<forall>later. \<not> pending_due later (ds' ! i)) \<and> owned_ok (ds' ! i) \<and> state_ok (ds' ! i)
             \<and> (d_state (ds' ! i) = Some ''IN_PROGRESS'' \<longleftrightarrow> has_assignee (ds ! i))
             \<and> (has_assignee (ds ! i) \<longrightarrow> d_assignedToXID (ds' ! i) = d_assignedToXID (ds ! i))))
    \<and> n = length (filter (pending_due now) ds)
    \<and> filter (pending_due now) ds' = []"
proof -
  have ds': "ds' = map (\<lambda>d. if pending_due now d then reopen_set now d d else d) ds"
    using reopen_coll [OF assms(1), of now] assms(2) by simp
  have "(d_state (reopen_set now d d) = Some ''IN_PROGRESS'' \<longleftrightarrow> has_assignee d)
     \<and> (has_assignee d \<longrightarrow> d_assignedToXID (reopen_set now d d) = d_assignedToXID d)" for d
    by (auto simp: reopen_set_def reopen_target_def set_lifecycle_def Let_def)
  moreover have "filter (pending_due now) ds' = []"
    by (auto simp: ds' filter_empty_conv reopen_set_not_due)
  moreover have "n = length (filter (pending_due now) ds)"
    using assms(2) by (simp add: reopenDuePending_def Let_def)
  ultimately show ?thesis by (simp add: ds' reopen_set_not_due reopen_set_ok)
qed

definition sample_pended :: docket where
  "sample_pended = sample_docket\<lparr>d_status := Some ''PENDING'', d_state := Some ''PENDED'',
     d_lifecycle := Some ''WAITING'', d_assignedToXID := Some ''X000123'', d_reopenAt := Some 500\<rparr>"

theorem reopen_due_exact_witness:
  "let ds' = fst (snd (reopenDuePending 1000 [sample_docket\<lparr>d_id := ''D0''\<rparr>, sample_pended]))
   in ds' ! 0 = sample_docket\<lparr>d_id := ''D0''\<rparr> \<and> d_state (ds' ! 1) = Some ''IN_PROGRESS'' \<and> owned_ok (ds' ! 1)"
proof -
  let ?ds = "[sample_docket\<lparr>d_id := ''D0''\<rparr>, sample_pended]"
  have d: "distinct (map d_id ?ds)" by (simp add: sample_docket_def sample_pended_def)
  obtain effs ds' n ids where r: "reopenDuePending 1000 ?ds = (effs, ds', n, ids)"
    by (metis surj_pair)
  have "\<not> pending_due 1000 (?ds ! 0)" "pending_due 1000 (?ds ! 1)" "has_assignee (?ds ! 1)"
    by code_simp+
  moreover have "0 < length ?ds" "1 < length ?ds" by simp_all
  ultimately have "ds' ! 0 = ?ds ! 0 \<and> d_state (ds' ! 1) = Some ''IN_PROGRESS'' \<and> owned_ok (ds' ! 1)"
    using reopen_due_exact [OF d r] by blast
  then show ?thesis using r by (simp add: Let_def)
qed

subsection \<open>handleUserDeactivation\<close>

text \<open>
  \<open>cats\<close> are the active categories of the firm, in the order the database returns them, and
  \<open>primary\<close> tells which identifiers are active primary workbaskets of the firm.
\<close>

definition deactivation_filter :: "string \<Rightarrow> string \<Rightarrow> docket \<Rightarrow> bool" where
  "deactivation_filter firmId normalized d \<longleftrightarrow>
    d_firmId d = Some firmId \<and> d_assignedToXID d = xid_set (Some normalized)
    \<and> d_status d \<notin> {toPersistenceState (Some ''RESOLVED''), toPersistenceState (Some ''FILED'')}"

definition mapped_workbasket :: "category list \<Rightarrow> docket \<Rightarrow> string option" where
  "mapped_workbasket cats d =
    (if \<not> truthy (d_category d) then None
     else (case find (\<lambda>c. cat_name c = d_category d) (rev cats) of
        None \<Rightarrow> None
      | Some c \<Rightarrow>
         (case find (\<lambda>sc. sc_isActive sc \<and> (sc_id sc = d_subcategoryId d
                \<or> sc_name sc = d_subcategory d \<or> sc_name sc = d_caseSubCategory d)) (cat_subcategories c) of
            None \<Rightarrow> None
          | Some sc \<Rightarrow> if truthy (sc_workbasketId sc) then sc_workbasketId sc else None)))"

definition handoff_team :: "category list \<Rightarrow> (string \<Rightarrow> bool) \<Rightarrow> docket \<Rightarrow> string option" where
  "handoff_team cats primary d =
    (case mapped_workbasket cats d of None \<Rightarrow> None | Some w \<Rightarrow> if primary w then Some w else None)"

definition deactivation_set :: "string option \<Rightarrow> docket \<Rightarrow> docket" where
  "deactivation_set wb d =
    d\<lparr>d_assignedToXID := None, d_assignedTo := None, d_assignedBy := None, d_assignedAt := None,
      d_queueType := Some ''GLOBAL'', d_state := Some ''IN_WB'',
      d_status := toPersistenceState (Some ''AVAILABLE''), d_ownerTeamId := wb, d_workbasketId := wb,
      d_qcOutcome := None\<rparr>"

definition handleUserDeactivation ::
  "string \<Rightarrow> string option \<Rightarrow> category list \<Rightarrow> (string \<Rightarrow> bool) \<Rightarrow> docket list
   \<Rightarrow> docket list \<times> nat \<times> nat \<times> nat" where
  "handleUserDeactivation firmId userXID cats primary ds =
    (let normalized = js_upper (str_or_empty userXID);
         assigned = filter (deactivation_filter firmId normalized) ds;
         movable = filter (\<lambda>d. handoff_team cats primary d \<noteq> None) assigned
     in (fold (\<lambda>read. update_by_id (d_id read) (deactivation_set (handoff_team cats primary read))) movable ds,
         length movable, length (filter (\<lambda>d. handoff_team cats primary d = None) assigned), length assigned))"

lemma deactivation_set_facts [simp]:
  "d_id (deactivation_set wb d) = d_id d"
  "owned_ok (deactivation_set wb d)"
  "state_ok (deactivation_set wb d)"
  by (simp_all add: deactivation_set_def owned_ok_def state_ok_def canonical_state_def getCanonicalDocketState_def
      state_of_assignment_def)

lemma deactivation_pullable:
  "makeDocketQuery isOid i firmId d \<Longrightarrow> pull_filter isOid i firmId (deactivation_set wb d)"
  by (cases i) (simp_all add: pull_filter_def deactivation_set_def makeDocketQuery_def)

lemma deactivation_coll:
  assumes "distinct (map d_id ds)"
  shows "fst (handleUserDeactivation firmId u cats primary ds)
    = map (\<lambda>d. if deactivation_filter firmId (js_upper (str_or_empty u)) d \<and> handoff_team cats primary d \<noteq> None
              then deactivation_set (handoff_team cats primary d) d else d) ds"
  unfolding handleUserDeactivation_def Let_def fst_conv filter_filter
  by (subst update_by_id_map [OF assms, where f = "\<lambda>r. deactivation_set (handoff_team cats primary r)"])
    (auto simp: conj_commute)

text \<open>
  Fact. A deactivated user's open dockets go back to the pool: each one whose category leads
  to an active primary workbasket has no assignee afterwards, lies in that workbasket and can be
  pulled by anybody who can name it; every other docket of the collection, and each open docket
  without such a workbasket, is untouched; and the dockets reported as moved and skipped add up to
  those scanned.
\<close>

theorem deactivation_returns_dockets:
  assumes "distinct (map d_id ds)" and "handleUserDeactivation firmId u cats primary ds = (ds', moved, skipped, scanned)"
  shows "moved + skipped = scanned
    \<and> scanned = length (filter (deactivation_filter firmId (js_upper (str_or_empty u))) ds)
    \<and> length ds' = length ds
    \<and> (\<forall>k < length ds.
        if deactivation_filter firmId (js_upper (str_or_empty u)) (ds ! k) \<and> handoff_team cats primary (ds ! k) \<noteq> None
        then owned_ok (ds' ! k) \<and> state_ok (ds' ! k) \<and> d_assignedToXID (ds' ! k) = None
          \<and> d_workbasketId (ds' ! k) = handoff_team cats primary (ds ! k)
          \<and> (\<forall>isOid i. makeDocketQuery isOid i firmId (ds ! k) \<longrightarrow> pull_filter isOid i firmId (ds' ! k))
        else ds' ! k = ds ! k)"
proof (intro conjI)
  let ?f = "deactivation_filter firmId (js_upper (str_or_empty u))"
  have ds': "ds' = map (\<lambda>d. if ?f d \<and> handoff_team cats primary d \<noteq> None
              then deactivation_set (handoff_team cats primary d) d else d) ds"
    using deactivation_coll [OF assms(1), of firmId u cats primary] assms(2) by simp
  show "moved + skipped = scanned"
    using assms(2) sum_length_filter_compl [of "\<lambda>d. handoff_team cats primary d \<noteq> None" "filter ?f ds"]
    by (auto simp: handleUserDeactivation_def Let_def)
  show "scanned = length (filter ?f ds)" using assms(2) by (simp add: handleUserDeactivation_def Let_def)
  show "length ds' = length ds" by (simp add: ds')
  show "\<forall>k < length ds.
        if ?f (ds ! k) \<and> handoff_team cats primary (ds ! k) \<noteq> None
        then owned_ok (ds' ! k) \<and> state_ok (ds' ! k) \<and> d_assignedToXID (ds' ! k) = None
          \<and> d_workbasketId (ds' ! k) = handoff_team cats primary (ds ! k)
          \<and> (\<forall>isOid i. makeDocketQuery isOid i firmId (ds ! k) \<longrightarrow> pull_filter isOid i firmId (ds' ! k))
        else ds' ! k = ds ! k"
    by (auto simp: ds' deactivation_pullable) (auto simp: deactivation_set_def)
qed

definition sample_category :: category where
  "sample_category = \<lparr>cat_name = Some ''Tax'', cat_forceQC = False, cat_qcPercent = None,
     cat_subcategories = [\<lparr>sc_id = Some ''S1'', sc_name = Some ''Returns'', sc_forceQC = False,
       sc_qcPercent = None, sc_isActive = True, sc_workbasketId = Some ''T7''\<rparr>]\<rparr>"

theorem deactivation_returns_dockets_witness:
  "let ds' = fst (handleUserDeactivation ''FIRM1'' (Some ''x000123'') [sample_category] (\<lambda>w. w = ''T7'')
                    [sample_pended\<lparr>d_subcategoryId := Some ''S1''\<rparr>])
   in d_assignedToXID (ds' ! 0) = None \<and> d_workbasketId (ds' ! 0) = Some ''T7''"
proof -
  let ?d = "sample_pended\<lparr>d_subcategoryId := Some ''S1''\<rparr>"
  obtain ds' m s n where r: "handleUserDeactivation ''FIRM1'' (Some ''x000123'') [sample_category] (\<lambda>w. w = ''T7'') [?d]
    = (ds', m, s, n)" by (metis surj_pair)
  have "deactivation_filter ''FIRM1'' (js_upper (str_or_empty (Some ''x000123''))) ?d"
    "handoff_team [sample_category] (\<lambda>w. w = ''T7'') ?d = Some ''T7''" by code_simp+
  moreover have "distinct (map d_id [?d])" by simp
  ultimately show ?thesis using deactivation_returns_dockets [OF _ r] r by (auto simp: Let_def)
qed

end
