(* ===== verification/DocketSessions.thy ===== *)
theory DocketSessions
  imports DocketSchedulers
begin

section \<open>Client mail and expired upload sessions\<close>

text \<open>
  \<open>reopenDocketFromClientEmail\<close> and \<open>processExpiredPendedDockets\<close> of
  \<open>src/services/docketWorkflow.service.js\<close>: a pending docket is reopened when its client
  answers, or when the upload session sent to the client expires.
\<close>

definition by_case_id :: "string \<Rightarrow> string \<Rightarrow> docket \<Rightarrow> bool" where
  "by_case_id firmId caseId d \<longleftrightarrow>
    d_firmId d = Some firmId \<and> (d_caseId d = Some caseId \<or> d_caseNumber d = Some caseId)"

definition unpend_target :: "docket \<Rightarrow> string" where
  "unpend_target d = (if has_assignee d then ''IN_PROGRESS'' else ''AVAILABLE'')"

text \<open>The fields both functions write (lines 1142 to 1153 and 1243 to 1253).\<close>

definition unpend_set :: "int \<Rightarrow> docket \<Rightarrow> docket \<Rightarrow> docket" where
  "unpend_set now read d =
    (set_lifecycle ACTIVE d)\<lparr>d_status := toPersistenceState (Some (unpend_target read)),
      d_state := Some (if has_assignee read then ''IN_PROGRESS'' else ''IN_WB''),
      d_queueType := Some (if has_assignee read then ''PERSONAL'' else ''GLOBAL''),
      d_reopenAt := None, d_pendingUntil := None, d_lastActionAt := Some now,
      d_lastActionByXID := Some ''SYSTEM'', d_updatedAt := Some now\<rparr>"

definition mail_reopen_set :: "int \<Rightarrow> docket \<Rightarrow> docket \<Rightarrow> docket" where
  "mail_reopen_set now read d =
    (let d1 = (unpend_set now read d)\<lparr>d_qcOutcome := None\<rparr>
     in if has_assignee read then d1 else d1\<lparr>d_assignedToXID := None, d_assignedTo := None\<rparr>)"

text \<open>The value is the state the docket was reopened to, \<open>None\<close> when it was not pending.\<close>

definition reopenDocketFromClientEmail ::
  "int \<Rightarrow> string \<Rightarrow> string \<Rightarrow> string \<Rightarrow> docket list \<Rightarrow> (effect, docket list \<times> string option) outcome" where
  "reopenDocketFromClientEmail now caseId firmId senderEmail ds =
    (case find (by_case_id firmId caseId) ds of
       None \<Rightarrow> pure (Inl (Thrown ''Docket not found'' None None))
     | Some d \<Rightarrow>
         if d_status d \<noteq> toPersistenceState (Some ''PENDING'') then pure (Inr (ds, None))
         else ([writeAudit (d_caseId d) ''PENDING_REOPEN'' (Some ''PENDING'') (Some (unpend_target d))
                  (Some ''SYSTEM'') ''USER'' (Some (''Auto reopened on client email from '' @ senderEmail)) None None],
               Inr (update_by_id (d_id d) (mail_reopen_set now d) ds, Some (unpend_target d))))"

subsection \<open>processExpiredPendedDockets\<close>

record upload_session =
  us_id :: string
  us_firmId :: string
  us_docketId :: string
  us_token :: string
  us_senderEmail :: "string option"
  us_reopenAt :: "int option"
  us_reminderSent :: bool
  us_isActive :: bool

datatype session_effect =
    ReminderMail (mail_to: string) (mail_docket: "string option")
  | ReminderComment (comment_docket: "string option")
  | SessionAudit effect

definition session_expired :: "int \<Rightarrow> upload_session \<Rightarrow> bool" where
  "session_expired now s \<longleftrightarrow> us_isActive s \<and> (case us_reopenAt s of None \<Rightarrow> False | Some t \<Rightarrow> t \<le> now)"

text \<open>
  \<open>client_email\<close> is the address on record for the client of a docket, \<open>mail_ok\<close> whether
  \<open>sendEmail\<close> to an address returns; when it throws, the \<open>catch\<close> of the loop goes on with
  the next session.  \<open>today\<close> is the ISO date of \<open>now\<close>.
\<close>

definition reminder_address :: "(string \<Rightarrow> string option) \<Rightarrow> docket list \<Rightarrow> upload_session \<Rightarrow> string option" where
  "reminder_address client_email ds s =
    (case find (by_case_id (us_firmId s) (us_docketId s)) ds of None \<Rightarrow> None
     | Some d \<Rightarrow>
        (let clientEmail = js_or (us_senderEmail s) (client_email (d_id d))
         in if \<not> us_reminderSent s \<and> truthy clientEmail then clientEmail else None))"

definition process_session ::
  "int \<Rightarrow> string \<Rightarrow> (string \<Rightarrow> bool) \<Rightarrow> (string \<Rightarrow> string option) \<Rightarrow> upload_session \<Rightarrow> docket list
   \<Rightarrow> session_effect list \<times> docket list \<times> upload_session \<times> bool" where
  "process_session now today mail_ok client_email s ds =
    (case find (by_case_id (us_firmId s) (us_docketId s)) ds of
       None \<Rightarrow> ([], ds, s\<lparr>us_isActive := False\<rparr>, False)
     | Some d \<Rightarrow>
        (let mail = reminder_address client_email ds s
         in if mail \<noteq> None \<and> \<not> mail_ok (str_or_empty mail) then ([], ds, s, False)
            else
             (let sent = (case mail of None \<Rightarrow> []
                          | Some a \<Rightarrow> [ReminderMail a (d_caseNumber d), ReminderComment (js_or (d_caseId d) (d_caseNumber d))]);
                  pending = (d_status d = toPersistenceState (Some ''PENDING''))
              in (sent @ (if pending
                    then [SessionAudit (writeAudit (d_caseId d) ''PENDING_REOPEN'' (Some ''PENDING'')
                            (Some (unpend_target d)) (Some ''SYSTEM'') ''USER'' (Some (''Auto reopened on scheduled date ('' @ today @ '')'')) None None)]
                    else []),
                  (if pending then update_by_id (d_id d) (unpend_set now d) ds else ds),
                  s\<lparr>us_isActive := False, us_reminderSent := True\<rparr>, True))))"

fun process_sessions ::
  "int \<Rightarrow> string \<Rightarrow> (string \<Rightarrow> bool) \<Rightarrow> (string \<Rightarrow> string option) \<Rightarrow> upload_session list \<Rightarrow> docket list
   \<Rightarrow> session_effect list \<times> docket list \<times> upload_session list \<times> nat" where
  "process_sessions now today ok ce [] ds = ([], ds, [], 0)"
| "process_sessions now today ok ce (s # ss) ds =
    (case process_session now today ok ce s ds of (es, ds1, s', done_ok) \<Rightarrow>
     case process_sessions now today ok ce ss ds1 of (es', ds2, ss', n) \<Rightarrow>
       (es @ es', ds2, s' # ss', (if done_ok then Suc n else n)))"

definition processExpiredPendedDockets ::
  "int \<Rightarrow> string \<Rightarrow> (string \<Rightarrow> bool) \<Rightarrow> (string \<Rightarrow> string option) \<Rightarrow> upload_session list \<Rightarrow> docket list
   \<Rightarrow> session_effect list \<times> docket list \<times> upload_session list \<times> nat" where
  "processExpiredPendedDockets now today ok ce sessions ds =
    process_sessions now today ok ce (filter (session_expired now) sessions) ds"

subsection \<open>Facts\<close>

lemma by_case_id_unpend [simp]: "by_case_id f i (unpend_set now r d) = by_case_id f i d"
  by (simp add: by_case_id_def unpend_set_def set_lifecycle_def)

lemma d_id_unpend [simp]: "d_id (unpend_set now r d) = d_id d"
  by (simp add: unpend_set_def set_lifecycle_def)

lemma find_map_same:
  "(\<And>x. P (f x) = P x) \<Longrightarrow> find P (map f xs) = map_option f (find P xs)"
  by (induction xs) auto

lemma find_update_by_id:
  "(\<And>d. P (g d) = P d) \<Longrightarrow> find P (update_by_id i g ds) = map_option (\<lambda>d. if d_id d = i then g d else d) (find P ds)"
  by (simp add: update_by_id_def find_map_same)

lemma unpend_ok: "d_status (unpend_set now r d) \<noteq> toPersistenceState (Some ''PENDING'')"
  by (simp add: unpend_set_def set_lifecycle_def unpend_target_def)

lemma mail_reopen_ok: "owned_ok (mail_reopen_set now d d) \<and> state_ok (mail_reopen_set now d d)"
  using trim_nonempty_truthy [of "d_assignedToXID d"]
  by (auto simp: mail_reopen_set_def unpend_set_def unpend_target_def set_lifecycle_def Let_def owned_ok_def state_ok_def
      canonical_state_def getCanonicalDocketState_def has_assignee_def state_of_assignment_def)

lemma process_session_address:
  assumes "process_session now today ok ce s ds = (es, ds', s', b)"
  shows "reminder_address ce ds' t = reminder_address ce ds t"
    and "find (by_case_id f i) ds' = None \<longleftrightarrow> find (by_case_id f i) ds = None"
  using assms
  by (auto simp: process_session_def reminder_address_def Let_def find_update_by_id split: option.splits if_splits)

definition mail_failed :: "(string \<Rightarrow> bool) \<Rightarrow> (string \<Rightarrow> string option) \<Rightarrow> docket list \<Rightarrow> upload_session \<Rightarrow> bool" where
  "mail_failed ok ce ds s = (case reminder_address ce ds s of None \<Rightarrow> False | Some a \<Rightarrow> \<not> ok a)"

definition docket_known :: "docket list \<Rightarrow> upload_session \<Rightarrow> bool" where
  "docket_known ds s \<longleftrightarrow> list_ex (by_case_id (us_firmId s) (us_docketId s)) ds"

lemma find_None_known: "find (by_case_id (us_firmId s) (us_docketId s)) ds = None \<longleftrightarrow> \<not> docket_known ds s"
  by (auto simp: docket_known_def find_None_iff list_ex_iff)

definition close_session :: "(string \<Rightarrow> bool) \<Rightarrow> (string \<Rightarrow> string option) \<Rightarrow> docket list \<Rightarrow> upload_session \<Rightarrow> upload_session" where
  "close_session ok ce ds s =
    (if mail_failed ok ce ds s then s
     else if docket_known ds s then s\<lparr>us_isActive := False, us_reminderSent := True\<rparr>
     else s\<lparr>us_isActive := False\<rparr>)"

lemma process_session_result:
  assumes "process_session now today ok ce s ds = (es, ds', s', b)"
  shows "s' = close_session ok ce ds s"
    and "b \<longleftrightarrow> docket_known ds s \<and> \<not> mail_failed ok ce ds s"
  using assms find_None_known [of s ds]
  by (auto simp: process_session_def close_session_def mail_failed_def Let_def reminder_address_def split: option.splits if_splits)

lemma process_sessions_result:
  "process_sessions now today ok ce ss ds = (es, ds', ss', n) \<Longrightarrow>
     ss' = map (close_session ok ce ds) ss
     \<and> n = length (filter (\<lambda>s. docket_known ds s \<and> \<not> mail_failed ok ce ds s) ss)"
proof (induction ss arbitrary: ds es ds' ss' n)
  case Nil
  then show ?case by simp
next
  case (Cons s ss)
  obtain e1 d1 s1 b where 1: "process_session now today ok ce s ds = (e1, d1, s1, b)" by (metis surj_pair)
  obtain e2 d2 s2 m where 2: "process_sessions now today ok ce ss d1 = (e2, d2, s2, m)" by (metis surj_pair)
  have same: "mail_failed ok ce d1 t = mail_failed ok ce ds t" "docket_known d1 t = docket_known ds t" for t
    using process_session_address [OF 1] find_None_known [of t d1] find_None_known [of t ds]
    by (simp_all add: mail_failed_def)
  then have "close_session ok ce d1 t = close_session ok ce ds t" for t by (simp add: close_session_def)
  note same = this same
  show ?case
    using Cons.prems 1 2 Cons.IH [OF 2] process_session_result [OF 1] by (simp add: same split: if_splits)
qed

text \<open>\<open>settled ds s\<close>: the docket of session \<open>s\<close> is not pending.\<close>

definition settled :: "docket list \<Rightarrow> upload_session \<Rightarrow> bool" where
  "settled ds s \<longleftrightarrow> (case find (by_case_id (us_firmId s) (us_docketId s)) ds of None \<Rightarrow> True
     | Some d \<Rightarrow> d_status d \<noteq> toPersistenceState (Some ''PENDING''))"

lemma settled_mono:
  assumes "process_session now today ok ce s ds = (es, ds', s', b)" and "settled ds t"
  shows "settled ds' t"
  using assms unpend_ok
  by (auto simp: process_session_def settled_def Let_def find_update_by_id split: option.splits if_splits)

lemma settled_done:
  assumes "process_session now today ok ce s ds = (es, ds', s', b)" and "\<not> mail_failed ok ce ds s"
  shows "settled ds' s"
  using assms unpend_ok
  by (auto simp: process_session_def settled_def mail_failed_def reminder_address_def Let_def find_update_by_id
      split: option.splits if_splits)

lemma settled_run:
  "process_sessions now today ok ce ss ds = (es, ds', ss', n) \<Longrightarrow>
     (settled ds t \<longrightarrow> settled ds' t) \<and> (\<forall>s \<in> set ss. \<not> mail_failed ok ce ds s \<longrightarrow> settled ds' s)"
proof (induction ss arbitrary: ds es ds' ss' n t)
  case Nil
  then show ?case by simp
next
  case (Cons s ss)
  obtain e1 d1 s1 b where 1: "process_session now today ok ce s ds = (e1, d1, s1, b)" by (metis surj_pair)
  obtain e2 d2 s2 m where 2: "process_sessions now today ok ce ss d1 = (e2, d2, s2, m)" by (metis surj_pair)
  have "mail_failed ok ce d1 u = mail_failed ok ce ds u" for u
    using process_session_address [OF 1] by (simp add: mail_failed_def)
  moreover have "ds' = d2" using Cons.prems 1 2 by simp
  ultimately show ?case
    using Cons.IH [OF 2] settled_mono [OF 1] settled_done [OF 1] by auto
qed

text \<open>
  Fact. The expiry of upload sessions fails one session at a time: of the sessions that are
  due, one whose reminder cannot be sent stays exactly as it was, to be tried again, and every
  other one is closed whatever happens to the rest; the docket of a closed session is no longer
  pending; and the count is the number of closed sessions whose docket exists.
\<close>

theorem expired_sessions_isolated:
  assumes "processExpiredPendedDockets now today ok ce sessions ds = (es, ds', ss', n)"
  shows "length ss' = length (filter (session_expired now) sessions)
    \<and> (\<forall>k < length ss'. let s = filter (session_expired now) sessions ! k in
        if mail_failed ok ce ds s then ss' ! k = s
        else \<not> us_isActive (ss' ! k) \<and> \<not> session_expired now (ss' ! k) \<and> settled ds' s)
    \<and> n = length (filter (\<lambda>s. docket_known ds s \<and> \<not> mail_failed ok ce ds s) (filter (session_expired now) sessions))"
proof -
  note r = assms [unfolded processExpiredPendedDockets_def]
  note R = process_sessions_result [OF r]
  have len: "length ss' = length (filter (session_expired now) sessions)" using R by simp
  have "settled ds' s" if "s \<in> set (filter (session_expired now) sessions)" "\<not> mail_failed ok ce ds s" for s
    using settled_run [OF r] that by blast
  then have "let s = filter (session_expired now) sessions ! k in
        if mail_failed ok ce ds s then ss' ! k = s
        else \<not> us_isActive (ss' ! k) \<and> \<not> session_expired now (ss' ! k) \<and> settled ds' s" if "k < length ss'" for k
    using that R len nth_mem [of k "filter (session_expired now) sessions"]
    by (auto simp: Let_def session_expired_def close_session_def)
  then show ?thesis using R len by blast
qed

definition sample_session :: upload_session where
  "sample_session = \<lparr>us_id = ''U1'', us_firmId = ''FIRM1'', us_docketId = ''CASE-20260108-00012'', us_token = ''tok'',
     us_senderEmail = Some ''a@b.c'', us_reopenAt = Some 400, us_reminderSent = False, us_isActive = True\<rparr>"

theorem expired_sessions_isolated_witness:
  "(let (es, ds', ss', n) = processExpiredPendedDockets 1000 ''2026-01-08'' (\<lambda>_. True) (\<lambda>_. None) [sample_session] [sample_pended]
    in \<not> us_isActive (ss' ! 0) \<and> settled ds' sample_session)
   \<and> (let (es, ds', ss', n) = processExpiredPendedDockets 1000 ''2026-01-08'' (\<lambda>_. False) (\<lambda>_. None) [sample_session] [sample_pended]
    in ss' ! 0 = sample_session)"
proof -
  obtain es ds' ss' n where r: "processExpiredPendedDockets 1000 ''2026-01-08'' (\<lambda>_. True) (\<lambda>_. None) [sample_session] [sample_pended]
    = (es, ds', ss', n)" by (metis surj_pair)
  obtain es2 ds2 ss2 n2 where r2: "processExpiredPendedDockets 1000 ''2026-01-08'' (\<lambda>_. False) (\<lambda>_. None) [sample_session] [sample_pended]
    = (es2, ds2, ss2, n2)" by (metis surj_pair)
  have f: "session_expired 1000 sample_session" by code_simp
  have m: "\<not> mail_failed (\<lambda>_. True) (\<lambda>_. None) [sample_pended] sample_session"
    "mail_failed (\<lambda>_. False) (\<lambda>_. None) [sample_pended] sample_session" by code_simp+
  show ?thesis
    using expired_sessions_isolated [OF r] expired_sessions_isolated [OF r2] r r2 m by (auto simp: f Let_def)
qed

text \<open>
  Fact. A client's mail reopens a docket only when it is pending: on a pending docket the
  stored document afterwards is owned and its state agrees with its status, its assignee keeps it, and
  nothing else in the collection changes; on any other docket nothing happens at all; and on an
  unknown one the call fails.
\<close>

theorem client_mail_reopens_pending_only:
  "case find (by_case_id firmId caseId) ds of
     None \<Rightarrow> is_error (snd (reopenDocketFromClientEmail now caseId firmId sender ds))
   | Some d \<Rightarrow>
       if d_status d \<noteq> Some ''PENDING''
       then reopenDocketFromClientEmail now caseId firmId sender ds = ([], Inr (ds, None))
       else (\<exists>ds'. snd (reopenDocketFromClientEmail now caseId firmId sender ds) = Inr (ds', Some (unpend_target d))
              \<and> ds' = map (\<lambda>x. if d_id x = d_id d then mail_reopen_set now d x else x) ds
              \<and> owned_ok (mail_reopen_set now d d) \<and> state_ok (mail_reopen_set now d d)
              \<and> (d_state (mail_reopen_set now d d) = Some ''IN_PROGRESS'' \<longleftrightarrow> has_assignee d))"
proof -
  have "(d_state (mail_reopen_set now d d) = Some ''IN_PROGRESS'' \<longleftrightarrow> has_assignee d)" for d
    by (simp add: mail_reopen_set_def unpend_set_def set_lifecycle_def Let_def)
  then show ?thesis
    by (auto simp: reopenDocketFromClientEmail_def mail_reopen_ok update_by_id_def pure_def split: option.splits)
qed

end
