(* ===== verification/CaseSla.thy ===== *)
theory CaseSla
  imports CaseStates Complex_Main
begin

section \<open>The turnaround clock of a case\<close>

text \<open>
  The clock of \<open>src/services/caseSla.service.js\<close>: minutes are accumulated while the clock
  runs, a change to \<open>PENDING\<close> pauses it, a change to \<open>OPEN\<close> resumes it, and
  \<open>RESOLVED\<close> stops it.  A \<open>Number\<close> is a rational (\<open>None\<close> for a missing value or
  \<open>NaN\<close>), an instant an integer in milliseconds.
\<close>

record tat_clock =
  tat_paused :: bool
  tat_lastStartedAt :: "int option"
  tat_accumulatedMinutes :: "rat option"
  tat_totalMinutes :: "rat option"

datatype sla_event_kind = SLA_PAUSED | SLA_RESUMED | SLA_FINALIZED

record sla_event =
  se_event :: sla_event_kind
  se_previousTat :: int
  se_newTat :: int
  se_timestamp :: int
  se_userId :: "string option"

definition clampMinutes :: "rat option \<Rightarrow> int" where
  "clampMinutes v = (case v of None \<Rightarrow> 0 | Some q \<Rightarrow> if q < 0 then 0 else \<lfloor>q\<rfloor>)"

definition MS_PER_MINUTE :: int where
  "MS_PER_MINUTE = 60 * 1000"

definition computeElapsedMinutes :: "int option \<Rightarrow> int \<Rightarrow> int" where
  "computeElapsedMinutes startedAt now =
    (case startedAt of None \<Rightarrow> 0
     | Some s \<Rightarrow> (let elapsedMs = now - s in if elapsedMs \<le> 0 then 0 else elapsedMs div MS_PER_MINUTE))"

definition getEffectiveTatMinutes :: "tat_clock \<Rightarrow> int \<Rightarrow> int" where
  "getEffectiveTatMinutes c now =
    (let accumulated = clampMinutes (tat_accumulatedMinutes c)
     in if tat_paused c \<or> tat_lastStartedAt c = None then accumulated
        else accumulated + computeElapsedMinutes (tat_lastStartedAt c) now)"

definition isBreached :: "string option \<Rightarrow> int option \<Rightarrow> int \<Rightarrow> bool" where
  "isBreached st slaDueAt now =
    (case slaDueAt of None \<Rightarrow> False
     | Some due \<Rightarrow> normalizeStatus st \<noteq> Some ''RESOLVED'' \<and> now > due)"

text \<open>The patch is what it makes of the clock; \<open>None\<close> is an empty patch without an event.\<close>

definition handleStatusTransition ::
  "string option \<Rightarrow> tat_clock \<Rightarrow> string option \<Rightarrow> int \<Rightarrow> string option \<Rightarrow> (tat_clock \<times> sla_event) option" where
  "handleStatusTransition currentStatus c newStatus now userId =
    (let fromStatus = normalizeStatus currentStatus; toStatus = normalizeStatus newStatus;
         previousTat = clampMinutes (tat_accumulatedMinutes c)
     in if toStatus = Some ''PENDING'' \<and> \<not> tat_paused c then
          (let elapsed = computeElapsedMinutes (tat_lastStartedAt c) now;
               newTat = max (previousTat + elapsed) 0
           in Some (c\<lparr>tat_accumulatedMinutes := Some (of_int newTat), tat_totalMinutes := Some (of_int newTat),
                      tat_paused := True, tat_lastStartedAt := None\<rparr>,
                    \<lparr>se_event = SLA_PAUSED, se_previousTat = previousTat, se_newTat = newTat,
                     se_timestamp = now, se_userId = userId\<rparr>))
        else if toStatus = Some ''OPEN'' then
          (if \<not> (fromStatus = Some ''PENDING'' \<or> tat_paused c) then None
           else Some (c\<lparr>tat_paused := False, tat_lastStartedAt := Some now\<rparr>,
                      \<lparr>se_event = SLA_RESUMED, se_previousTat = previousTat, se_newTat = previousTat,
                       se_timestamp = now, se_userId = userId\<rparr>))
        else if toStatus = Some ''RESOLVED'' then
          (let elapsed = (if tat_paused c then 0 else computeElapsedMinutes (tat_lastStartedAt c) now);
               newTat = max (previousTat + elapsed) 0
           in Some (c\<lparr>tat_accumulatedMinutes := Some (of_int newTat), tat_totalMinutes := Some (of_int newTat),
                      tat_paused := True, tat_lastStartedAt := None\<rparr>,
                    \<lparr>se_event = SLA_FINALIZED, se_previousTat = previousTat, se_newTat = newTat,
                     se_timestamp = now, se_userId = userId\<rparr>))
        else None)"

definition clock_after :: "string option \<Rightarrow> tat_clock \<Rightarrow> string option \<Rightarrow> int \<Rightarrow> tat_clock" where
  "clock_after st c newStatus now =
    (case handleStatusTransition st c newStatus now None of None \<Rightarrow> c | Some (c', _) \<Rightarrow> c')"

subsection \<open>Facts\<close>

lemma clampMinutes_nonneg [simp]: "0 \<le> clampMinutes v"
  by (cases v) (auto simp: clampMinutes_def)

lemma clampMinutes_of_int [simp]: "clampMinutes (Some (of_int n)) = max n 0"
  by (auto simp: clampMinutes_def)

lemma clampMinutes_of_int_add [simp]: "clampMinutes (Some (of_int m + of_int n)) = max (m + n) 0"
  using clampMinutes_of_int [of "m + n"] by (simp del: clampMinutes_of_int)

lemma elapsed_nonneg [simp]: "0 \<le> computeElapsedMinutes s now"
  by (cases s) (auto simp: computeElapsedMinutes_def Let_def MS_PER_MINUTE_def)

lemma elapsed_mono: "now \<le> later \<Longrightarrow> computeElapsedMinutes s now \<le> computeElapsedMinutes s later"
  by (cases s) (auto simp: computeElapsedMinutes_def Let_def MS_PER_MINUTE_def intro!: zdiv_mono1)

lemma elapsed_self [simp]: "computeElapsedMinutes (Some now) now = 0"
  by (simp add: computeElapsedMinutes_def)

lemma effective_mono: "now \<le> later \<Longrightarrow> getEffectiveTatMinutes c now \<le> getEffectiveTatMinutes c later"
  by (simp add: getEffectiveTatMinutes_def Let_def elapsed_mono)

lemma effective_stopped:
  "tat_paused c \<or> tat_lastStartedAt c = None \<Longrightarrow> getEffectiveTatMinutes c now = clampMinutes (tat_accumulatedMinutes c)"
  by (auto simp: getEffectiveTatMinutes_def Let_def)

subsection \<open>The contract of a stopwatch\<close>

text \<open>
  A stopwatch has a reading at every instant.  Its contract: the reading never goes down while
  time passes, pausing freezes it at its value of that instant, and resuming a stopped watch goes
  on from the value it stopped at.
\<close>

locale stopwatch =
  fixes reading :: "'s \<Rightarrow> int \<Rightarrow> int"
    and stopped :: "'s \<Rightarrow> bool"
    and pause :: "int \<Rightarrow> 's \<Rightarrow> 's"
    and resume :: "int \<Rightarrow> 's \<Rightarrow> 's"
  assumes reading_mono: "t \<le> u \<Longrightarrow> reading s t \<le> reading s u"
    and pause_stops: "stopped (pause t s)"
    and stopped_const: "stopped s \<Longrightarrow> reading s t = reading s u"
    and pause_keeps: "reading (pause t s) t = reading s t"
    and resume_keeps: "stopped s \<Longrightarrow> reading (resume t s) t = reading s t"
begin

lemma paused_reading: "reading (pause t s) u = reading s t"
  using stopped_const [OF pause_stops] pause_keeps by metis

lemma pause_resume_reading: "reading (resume u (pause t s)) u = reading s t"
  using resume_keeps [OF pause_stops] paused_reading by metis

text \<open>The time between a pause and the next resumption does not count.\<close>

lemma interval_excluded:
  "u \<le> v \<Longrightarrow> reading (resume u (pause t s)) v - reading s t = reading (resume u (pause t s)) v - reading (resume u (pause t s)) u"
  by (simp add: pause_resume_reading)

lemma never_back: "t \<le> u \<Longrightarrow> u \<le> v \<Longrightarrow> reading s t \<le> reading (resume u (pause t s)) v"
  using reading_mono [of u v "resume u (pause t s)"] by (simp add: pause_resume_reading)

end

definition clock_pause :: "int \<Rightarrow> tat_clock \<Rightarrow> tat_clock" where
  "clock_pause now c = clock_after (Some ''ASSIGNED'') c (Some ''PENDING'') now"

definition clock_resume :: "int \<Rightarrow> tat_clock \<Rightarrow> tat_clock" where
  "clock_resume now c = clock_after (Some ''PENDING'') c (Some ''OPEN'') now"

lemma normalizeStatus_literals [simp]:
  "normalizeStatus (Some ''PENDING'') = Some ''PENDING''" "normalizeStatus (Some ''OPEN'') = Some ''OPEN''"
  "normalizeStatus (Some ''ASSIGNED'') = Some ''ASSIGNED''" "normalizeStatus (Some ''RESOLVED'') = Some ''RESOLVED''"
  by code_simp+

lemma clock_pause_eq:
  "clock_pause now c = (if tat_paused c then c
     else (let n = clampMinutes (tat_accumulatedMinutes c) + computeElapsedMinutes (tat_lastStartedAt c) now
           in c\<lparr>tat_accumulatedMinutes := Some (of_int n), tat_totalMinutes := Some (of_int n),
                tat_paused := True, tat_lastStartedAt := None\<rparr>))"
  by (simp add: clock_pause_def clock_after_def handleStatusTransition_def Let_def)

lemma clock_resume_eq: "clock_resume now c = c\<lparr>tat_paused := False, tat_lastStartedAt := Some now\<rparr>"
  by (simp add: clock_resume_def clock_after_def handleStatusTransition_def Let_def)

interpretation tat: stopwatch getEffectiveTatMinutes "\<lambda>c. tat_paused c" clock_pause clock_resume
proof
  show "getEffectiveTatMinutes (clock_pause t s) t = getEffectiveTatMinutes s t" for t s
    by (simp add: clock_pause_eq getEffectiveTatMinutes_def Let_def) (simp add: computeElapsedMinutes_def)
qed (auto simp: clock_pause_eq clock_resume_eq getEffectiveTatMinutes_def Let_def elapsed_mono)

text \<open>
  Fact. Waiting for the client is not charged: over a pause and the resumption that follows,
  the turnaround time on resumption is exactly what it was when the docket was pended, however long
  it waited; it does not move while the docket waits; and from the resumption on it counts the whole
  minutes that pass.
\<close>

theorem pending_time_excluded:
  assumes "pausedAt \<le> resumedAt" and "resumedAt \<le> later"
  shows "getEffectiveTatMinutes (clock_pause pausedAt c) resumedAt = getEffectiveTatMinutes c pausedAt
    \<and> getEffectiveTatMinutes (clock_resume resumedAt (clock_pause pausedAt c)) resumedAt = getEffectiveTatMinutes c pausedAt
    \<and> getEffectiveTatMinutes (clock_resume resumedAt (clock_pause pausedAt c)) later
        = getEffectiveTatMinutes c pausedAt + (later - resumedAt) div MS_PER_MINUTE
    \<and> getEffectiveTatMinutes c pausedAt \<le> getEffectiveTatMinutes (clock_resume resumedAt (clock_pause pausedAt c)) later"
proof (intro conjI)
  show "getEffectiveTatMinutes (clock_resume resumedAt (clock_pause pausedAt c)) later
        = getEffectiveTatMinutes c pausedAt + (later - resumedAt) div MS_PER_MINUTE"
    using assms tat.paused_reading [of pausedAt c later] tat.pause_stops [of pausedAt c]
    by (auto simp: clock_resume_eq getEffectiveTatMinutes_def Let_def computeElapsedMinutes_def)
qed (rule tat.paused_reading, rule tat.pause_resume_reading, rule tat.never_back [OF assms])

definition sample_clock :: tat_clock where
  "sample_clock = \<lparr>tat_paused = False, tat_lastStartedAt = Some 0, tat_accumulatedMinutes = Some 0, tat_totalMinutes = Some 0\<rparr>"

theorem pending_time_excluded_witness:
  "getEffectiveTatMinutes (clock_resume 9000000 (clock_pause 600000 sample_clock)) 9120000 = 12"
proof -
  have "getEffectiveTatMinutes sample_clock 600000 = 10" by code_simp
  moreover have "(9120000 - 9000000) div MS_PER_MINUTE = 2" by (simp add: MS_PER_MINUTE_def)
  ultimately show ?thesis using pending_time_excluded [of 600000 9000000 9120000 sample_clock] by simp
qed

text \<open>
  Fact. Only two things move a stopped clock: a status change never lowers the turnaround
  time, except that opening a docket in \<open>PENDING\<close> whose clock was never paused drops the
  minutes that ran since it started; a paused clock starts again on a change to \<open>OPEN\<close> and on
  no other; and after a change to \<open>RESOLVED\<close> the time is final until such a change.
\<close>

theorem status_change_tat:
  assumes "now \<le> later"
  shows "(getEffectiveTatMinutes c now \<le> getEffectiveTatMinutes (clock_after st c new now) later
      \<or> (normalizeStatus new = Some ''OPEN'' \<and> normalizeStatus st = Some ''PENDING'' \<and> \<not> tat_paused c))
    \<and> (tat_paused c \<and> normalizeStatus new \<noteq> Some ''OPEN'' \<longrightarrow>
         tat_paused (clock_after st c new now)
         \<and> getEffectiveTatMinutes (clock_after st c new now) later = getEffectiveTatMinutes c now)
    \<and> (normalizeStatus new = Some ''RESOLVED'' \<longrightarrow>
         tat_paused (clock_after st c new now)
         \<and> getEffectiveTatMinutes (clock_after st c new now) later = getEffectiveTatMinutes c now)"
proof -
  have e: "now \<le> later \<Longrightarrow> computeElapsedMinutes s now \<le> computeElapsedMinutes s later" for s by (rule elapsed_mono)
  have z: "computeElapsedMinutes None now = 0" by (simp add: computeElapsedMinutes_def)
  show ?thesis
    using assms e [of "tat_lastStartedAt c"]
    by (cases "tat_paused c"; cases "tat_lastStartedAt c")
      (auto simp: clock_after_def handleStatusTransition_def getEffectiveTatMinutes_def Let_def z split: if_splits)
qed

theorem status_change_tat_witness:
  "getEffectiveTatMinutes (clock_after (Some ''ASSIGNED'') sample_clock (Some ''RESOLVED'') 600000) 90000000 = 10"
proof -
  have "getEffectiveTatMinutes sample_clock 600000 = 10" by code_simp
  then show ?thesis
    using status_change_tat [of 600000 90000000 sample_clock "Some ''ASSIGNED''" "Some ''RESOLVED''"] by simp
qed

end
