(* ===== verification/CaseService.thy ===== *)
theory CaseService
  imports DocketInvariants CaseSla
begin

section \<open>Status changes of a case\<close>

text \<open>
  \<open>transitionDocket\<close> of \<open>src/services/docketTransition.service.js\<close>, which guards a status
  change by the lifecycle table and by the version of the document, and \<open>updateStatus\<close> of
  \<open>src/services/case.service.js\<close>, which runs the turnaround clock, calls it and then writes the
  rest of the change with \<open>CaseRepository.updateStatus\<close>.  The document an identifier designates
  is an argument.
\<close>

subsection \<open>transitionDocket\<close>

record transition_opts =
  to_firmId :: "string option"
  to_reason :: "string option"
  to_notes :: "string option"
  to_expectedVersion :: "int option"
  to_skipAudit :: bool
  to_actorRole :: "string option"

record status_log =
  sl_docketId :: string
  sl_performedBy :: string
  sl_role :: string
  sl_from :: "string option"
  sl_to :: "string option"
  sl_versionFrom :: int
  sl_versionTo :: int
  sl_comment :: "string option"

text \<open>Lines 56 to 103: the guards, on the document that was read.\<close>

definition transition_docket_guards ::
  "string option \<Rightarrow> string option \<Rightarrow> string option \<Rightarrow> transition_opts \<Rightarrow> docket option \<Rightarrow> docket res" where
  "transition_docket_guards docketId newState userId opts read =
    (if \<not> truthy (to_firmId opts) then Inl (Thrown ''Firm context is required'' (Some 400) None)
     else if \<not> truthy docketId \<or> \<not> truthy newState \<or> \<not> truthy userId
     then Inl (Thrown ''docketId, newState, and userId are required'' (Some 400) None)
     else (case read of None \<Rightarrow> Inl (Thrown ''Docket not found'' (Some 404) None)
       | Some d \<Rightarrow>
          if d_firmId d \<noteq> to_firmId opts
          then Inl (Thrown ''Docket does not belong to current firm scope'' (Some 403) None)
          else
           (let toState = toDocketState newState;
                currentState = normalizeLifecycle (d_lifecycle d);
                nextState = normalizeLifecycle (Some (lifecycle_name (toLifecycleFromStatus newState)))
            in if toState = Some ''PENDING'' \<and> \<not> truthy (to_reason opts)
               then Inl (Thrown ''PENDING transition requires reason'' (Some 400) None)
               else if toState = Some ''RESOLVED'' \<and> \<not> truthy (to_notes opts)
               then Inl (Thrown ''RESOLVED transition requires notes'' (Some 400) None)
               else if \<not> isValidTransition (Some (lifecycle_name currentState)) (Some (lifecycle_name nextState))
               then Inl (Thrown (''Invalid transition from '' @ lifecycle_name currentState @ '' to ''
                      @ lifecycle_name nextState) None None)
               else Inr d)))"

definition expected_version :: "int option \<Rightarrow> docket \<Rightarrow> int" where
  "expected_version expectedVersion d =
    (case expectedVersion of Some v \<Rightarrow> v | None \<Rightarrow> (case d_version d of Some v \<Rightarrow> v | None \<Rightarrow> 0))"

definition version_filter :: "string \<Rightarrow> int \<Rightarrow> docket \<Rightarrow> bool" where
  "version_filter i expected d \<longleftrightarrow>
    d_id d = i \<and> (d_version d = Some expected \<or> (expected = 0 \<and> d_version d = None))"

definition transition_docket_set :: "int \<Rightarrow> string option \<Rightarrow> docket \<Rightarrow> docket" where
  "transition_docket_set now toState d =
    d\<lparr>d_status := toPersistenceState toState,
      d_pendingUntil := (if toState \<noteq> Some ''PENDING'' then None else d_pendingUntil d),
      d_updatedAt := Some now,
      d_version := Some (case d_version d of None \<Rightarrow> 1 | Some v \<Rightarrow> v + 1)\<rparr>"

text \<open>
  \<open>read\<close> is the document the query found, \<open>stored\<close> the one with its \<open>_id\<close> when the update
  runs; the result is the stored document afterwards with the two states and the new version.
\<close>

definition transitionDocket ::
  "int \<Rightarrow> string option \<Rightarrow> string option \<Rightarrow> string option \<Rightarrow> transition_opts \<Rightarrow> docket option \<Rightarrow> docket
   \<Rightarrow> (status_log, docket \<times> string option \<times> string option \<times> int) outcome" where
  "transitionDocket now docketId newState userId opts read stored =
    seq (pure (transition_docket_guards docketId newState userId opts read)) (\<lambda>d.
    let fromState = toDocketState (d_status d); toState = toDocketState newState;
        expected = expected_version (to_expectedVersion opts) d
    in seq (pure (check (version_filter (d_id d) expected stored)
           (Thrown ''Version mismatch: docket was updated by another request'' (Some 409) (Some ''DOCKET_VERSION_CONFLICT'')))) (\<lambda>_.
       seq (emit (if to_skipAudit opts then []
              else [\<lparr>sl_docketId = str_or_empty docketId, sl_performedBy = str_or_empty userId,
                     sl_role = str_or_empty (js_or (to_actorRole opts) (Some ''USER'')),
                     sl_from = fromState, sl_to = toState, sl_versionFrom = expected,
                     sl_versionTo = expected + 1, sl_comment = js_or (to_notes opts) (js_or (to_reason opts) None)\<rparr>])) (\<lambda>_.
       pure (Inr (transition_docket_set now toState stored, fromState, toState, expected + 1)))))"

lemma guards_Inr:
  assumes "transition_docket_guards i new u opts read = Inr d"
  shows "read = Some d"
    "isValidTransition (Some (lifecycle_name (normalizeLifecycle (d_lifecycle d))))
       (Some (lifecycle_name (toLifecycleFromStatus new)))"
  using assms by (simp_all add: transition_docket_guards_def Let_def split: if_splits option.splits)

lemma version_filter_next:
  "version_filter i v d \<Longrightarrow> d_version (transition_docket_set now t d) = Some (v + 1)"
  by (auto simp: version_filter_def transition_docket_set_def)

lemma transitionDocket_InrE:
  assumes "snd (transitionDocket now i new u opts read stored) = Inr (d', f, t, v)"
  obtains d where "read = Some d" "transition_docket_guards i new u opts read = Inr d"
    "version_filter (d_id d) (expected_version (to_expectedVersion opts) d) stored"
    "d' = transition_docket_set now (toDocketState new) stored"
    "t = toDocketState new" "d_version d' = Some v"
proof -
  from assms obtain d where g: "transition_docket_guards i new u opts read = Inr d"
    and r: "version_filter (d_id d) (expected_version (to_expectedVersion opts) d) stored"
      "d' = transition_docket_set now (toDocketState new) stored"
      "t = toDocketState new" "v = expected_version (to_expectedVersion opts) d + 1"
    by (auto simp: transitionDocket_def Let_def res_bind_Inr_iff)
  show ?thesis by (rule that [OF guards_Inr(1) [OF g] g r(1,2,3)]) (simp add: r version_filter_next [OF r(1)])
qed

definition transition_docket_claim :: "int \<times> string option \<Rightarrow> docket \<Rightarrow> docket" where
  "transition_docket_claim r = transition_docket_set (fst r) (toDocketState (snd r))"

interpretation versioned: claim "version_filter i v" transition_docket_claim for i v
  by unfold_locales (auto simp: version_filter_def transition_docket_claim_def transition_docket_set_def split: option.splits)

text \<open>
  Fact. No lost update: of any number of status changes that were decided on the same
  version of a docket, in whatever order the database runs them, exactly the first is written and
  every other one finds the document changed; the version grows by one with the change that is
  written.
\<close>

theorem transition_version_race:
  "run_claims (version_filter i v) transition_docket_claim ((now, new) # rs) d
   = (if version_filter i v d then (transition_docket_set now (toDocketState new) d, [(now, new)]) else (d, []))
   \<and> (version_filter i v d \<longrightarrow> d_version (transition_docket_set now (toDocketState new) d) = Some (v + 1))"
proof (cases "version_filter i v d")
  case True
  then show ?thesis
    using versioned.one_winner [of i v d "(now, new)" rs] version_filter_next [OF True]
    by (simp add: transition_docket_claim_def)
next
  case False
  then show ?thesis using versioned.no_claim [of i v d "(now, new) # rs"] by simp
qed

theorem transition_version_race_witness:
  "snd (run_claims (version_filter ''D1'' 0) transition_docket_claim [(1, Some ''PENDING''), (2, Some ''FILED'')] sample_docket)
   = [(1, Some ''PENDING'')]"
proof -
  have "version_filter ''D1'' 0 sample_docket" by code_simp
  then show ?thesis
    using transition_version_race [of "''D1''" 0 1 "Some ''PENDING''" "[(2, Some ''FILED'')]" sample_docket] by (simp del: run_claims.simps)
qed

subsection \<open>inferLifecycleAfterStatusChange\<close>

text \<open>
  The part of a status patch the service itself looks at: an explicit lifecycle, an
  assignee and a queue (\<open>None\<close> when the patch does not set the field) and what the patch does to the document.
\<close>

record status_patch =
  sp_lifecycle :: "string option"
  sp_assignedToXID :: "string option option"
  sp_queueType :: "string option option"
  sp_apply :: "docket \<Rightarrow> docket"

definition inferLifecycleAfterStatusChange :: "docket \<Rightarrow> string option \<Rightarrow> status_patch \<Rightarrow> lifecycle" where
  "inferLifecycleAfterStatusChange existing normalizedNewStatus patch =
    (let assigned = (case sp_assignedToXID patch of Some a \<Rightarrow> a | None \<Rightarrow> d_assignedToXID existing);
         ns = normalizedNewStatus
     in if js_trim (str_or_empty (sp_lifecycle patch)) \<noteq> [] then deriveLifecycle (sp_lifecycle patch) assigned ns
        else if ns = Some ''RESOLVED'' \<or> ns = Some ''CLOSED'' then DONE
        else if ns = Some ''FILED'' then DONE
        else
         (let prev = coerceLifecycleToDocket (d_lifecycle existing)
          in if prev = Some DONE then DONE
             else if \<not> truthy assigned then WL
             else if ns = Some ''ASSIGNED'' \<or> ns = Some ''ROUTED_ASSIGNED'' then WL
             else if ns \<in> {Some ''PENDING'', Some ''QC_PENDING''} then WAITING
             else if ns \<in> {Some ''IN_PROGRESS'', Some ''OPEN'', Some ''QC_FAILED'', Some ''QC_CORRECTED''} then ACTIVE
             else deriveLifecycle (d_lifecycle existing) assigned ns))"

subsection \<open>updateStatus\<close>

text \<open>
  \<open>CaseRepository.updateStatus\<close> with an expected status.
\<close>

definition repository_updateStatus ::
  "string option \<Rightarrow> (docket \<Rightarrow> docket) \<Rightarrow> string option \<Rightarrow> docket \<Rightarrow> docket res" where
  "repository_updateStatus st extraFields expectedCurrentStatus d =
    (if truthy expectedCurrentStatus \<and> d_status d \<noteq> expectedCurrentStatus
     then Inl (Thrown ''Case state changed concurrently'' None None)
     else Inr (extraFields (d\<lparr>d_status := st\<rparr>)))"

text \<open>\<open>cx_userId\<close> is \<open>context.userId || context.performedByXID\<close>.\<close>

record status_ctx =
  cx_tenantId :: "string option"
  cx_role :: "string option"
  cx_userId :: "string option"
  cx_hasSession :: bool
  cx_expectedVersion :: "int option"
  cx_reason :: "string option"
  cx_notes :: "string option"
  cx_meta_reason :: "string option"
  cx_meta_notes :: "string option"
  cx_currentStatus :: "string option"
  cx_skipDocketAudit :: bool
  cx_actorRole :: "string option"
  cx_patch :: status_patch

datatype case_effect =
    StatusLog status_log
  | CaseAuditEntry string "string option" string
  | ForensicAudit "string option" "string option"
  | SlaAudit sla_event
  | CaseComment "string option" string string
  | ActionRecorded string "string option" "string option"
  | CaseNotify string "string option"

text \<open>
  \<open>spread\<close> is what \<open>...existingCase\<close> copies of the state, the assignee and the queue of the
  loaded Mongoose document into a plain object.  The document and its clock are changed together.
\<close>

definition patched_state ::
  "(docket \<Rightarrow> string option \<times> string option \<times> string option) \<Rightarrow> docket \<Rightarrow> string option \<Rightarrow> status_patch \<Rightarrow> canon" where
  "patched_state spread existing st patch =
    (case spread existing of (stt, assigned, queue) \<Rightarrow>
      getCanonicalDocketState st stt (case sp_assignedToXID patch of Some a \<Rightarrow> a | None \<Rightarrow> assigned)
        (case sp_queueType patch of Some q \<Rightarrow> q | None \<Rightarrow> queue))"

definition merged_fields ::
  "(docket \<Rightarrow> string option \<times> string option \<times> string option) \<Rightarrow> docket \<Rightarrow> string option \<Rightarrow> status_patch \<Rightarrow> docket \<Rightarrow> docket" where
  "merged_fields spread existing st patch d =
    (sp_apply patch (d\<lparr>d_qcOutcome := d_qcOutcome existing\<rparr>))\<lparr>d_lifecycle := Some (lifecycle_name (inferLifecycleAfterStatusChange existing st patch)),
      d_state := Some (canon_name (patched_state spread existing st patch))\<rparr>"

definition status_opts :: "status_ctx \<Rightarrow> docket \<Rightarrow> transition_opts" where
  "status_opts cx existing =
    \<lparr>to_firmId = cx_tenantId cx, to_reason = js_or (cx_reason cx) (cx_meta_reason cx),
     to_notes = js_or (cx_notes cx) (cx_meta_notes cx),
     to_expectedVersion = (case cx_expectedVersion cx of Some v \<Rightarrow> Some v | None \<Rightarrow> d_version existing),
     to_skipAudit = cx_skipDocketAudit cx, to_actorRole = None\<rparr>"

definition updateStatus ::
  "int \<Rightarrow> (docket \<Rightarrow> string option \<times> string option \<times> string option) \<Rightarrow> string option \<Rightarrow> string option \<Rightarrow> status_ctx
   \<Rightarrow> (docket \<times> tat_clock) option \<Rightarrow> docket \<Rightarrow> (case_effect, docket \<times> tat_clock) outcome" where
  "updateStatus now spread caseId newStatus cx loaded stored =
    (let st = normalizeStatus newStatus; who = js_or (cx_userId cx) (Some ''SYSTEM'') in
     if \<not> truthy (cx_tenantId cx) then pure (Inl (Thrown ''Tenant context required'' None None))
     else if \<not> cx_hasSession cx then pure (Inl (Thrown ''Transaction session required for status transition'' None None))
     else if \<not> truthy (cx_role cx) then pure (Inl (Thrown ''Role is required for status transition'' None None))
     else (case loaded of None \<Rightarrow> pure (Inl (Thrown ''Case not found'' None None))
       | Some (existing, clock) \<Rightarrow>
          (let sla = handleStatusTransition (d_status existing) clock st now (js_or (cx_userId cx) None);
               trans = transitionDocket now caseId st who (status_opts cx existing) (Some stored) stored
           in seq (map StatusLog (fst trans), snd trans) (\<lambda>(d1, _).
              seq (pure (repository_updateStatus st (merged_fields spread existing st (cx_patch cx)) st d1)) (\<lambda>d2.
              seq (emit ([CaseAuditEntry ''CASE_STATUS_CHANGED'' (js_or (d_caseId existing) caseId) (str_or_empty who),
                          ForensicAudit (if truthy (cx_currentStatus cx) then normalizeStatus (cx_currentStatus cx)
                              else normalizeStatus (d_status existing)) st]
                     @ (case sla of None \<Rightarrow> [] | Some (_, ev) \<Rightarrow> [SlaAudit ev]))) (\<lambda>_.
              pure (Inr (d2, case sla of None \<Rightarrow> clock | Some (c, _) \<Rightarrow> c))))))))"

subsection \<open>Facts\<close>

lemma lifecycle_into [simp]: "WL \<notin> set (lifecycle_TRANSITIONS l)" "lifecycle_TRANSITIONS DONE = []"
  by (cases l) simp_all

lemma handle_keeps_paused:
  assumes "handleStatusTransition st c (normalizeStatus new) now u = Some (c', ev)" and "tat_paused c"
    and "normalizeStatus new \<noteq> Some ''OPEN''"
  shows "tat_paused c'"
  using assms by (auto simp: handleStatusTransition_def Let_def normalizeStatus_idem split: if_splits)

lemma updateStatus_InrE:
  assumes "snd (updateStatus now spread i new cx loaded stored) = Inr (d', c')"
  obtains existing clock where "loaded = Some (existing, clock)"
    "c' = (case handleStatusTransition (d_status existing) clock (normalizeStatus new) now (js_or (cx_userId cx) None)
           of None \<Rightarrow> clock | Some (c, _) \<Rightarrow> c)"
    "toLifecycleFromStatus (normalizeStatus new) \<in> set (lifecycle_TRANSITIONS (normalizeLifecycle (d_lifecycle stored)))"
    "toPersistenceState (toDocketState (normalizeStatus new)) = normalizeStatus new"
    "d' = merged_fields spread existing (normalizeStatus new) (cx_patch cx)
            ((transition_docket_set now (toDocketState (normalizeStatus new)) stored)\<lparr>d_status := normalizeStatus new\<rparr>)"
    "version_filter (d_id stored) (expected_version (to_expectedVersion (status_opts cx existing)) stored) stored"
proof -
  let ?st = "normalizeStatus new" and ?who = "js_or (cx_userId cx) (Some ''SYSTEM'')"
  obtain existing clock where l: "loaded = Some (existing, clock)"
    using assms by (cases loaded) (auto simp: updateStatus_def Let_def split: if_splits)
  define sla where "sla = handleStatusTransition (d_status existing) clock ?st now (js_or (cx_userId cx) None)"
  have "res_bind (snd (transitionDocket now i ?st ?who (status_opts cx existing) (Some stored) stored))
      (\<lambda>p. res_bind (repository_updateStatus ?st (merged_fields spread existing ?st (cx_patch cx)) ?st (fst p))
        (\<lambda>d2. Inr (d2, case sla of None \<Rightarrow> clock | Some (c, _) \<Rightarrow> c))) = Inr (d', c')"
    using assms by (simp add: updateStatus_def Let_def l sla_def case_prod_beta split: if_splits)
  then obtain d1 r where t: "snd (transitionDocket now i ?st ?who (status_opts cx existing) (Some stored) stored) = Inr (d1, r)"
    and u: "repository_updateStatus ?st (merged_fields spread existing ?st (cx_patch cx)) ?st d1 = Inr d'"
    and c: "c' = (case sla of None \<Rightarrow> clock | Some (c, _) \<Rightarrow> c)"
    by (auto elim!: res_bind_InrE)
  obtain f to v where r: "r = (f, to, v)" by (cases r)
  from t [unfolded r] obtain g: "transition_docket_guards i ?st ?who (status_opts cx existing) (Some stored) = Inr stored"
    and v: "version_filter (d_id stored) (expected_version (to_expectedVersion (status_opts cx existing)) stored) stored"
    and d1: "d1 = transition_docket_set now (toDocketState ?st) stored"
    by (elim transitionDocket_InrE) simp
  have "truthy ?st" using g by (auto simp: transition_docket_guards_def split: if_splits)
  then have "toPersistenceState (toDocketState ?st) = ?st"
    using u by (auto simp: repository_updateStatus_def d1 transition_docket_set_def split: if_splits)
  moreover from this have "d' = merged_fields spread existing ?st (cx_patch cx)
      ((transition_docket_set now (toDocketState ?st) stored)\<lparr>d_status := ?st\<rparr>)"
    using u by (simp add: repository_updateStatus_def d1 transition_docket_set_def split: if_splits)
  ultimately show ?thesis
    using l c [unfolded sla_def] v guards_Inr(2) [OF g] by (intro that) simp_all
qed

lemma updateStatus_no_open:
  "toPersistenceState (toDocketState (normalizeStatus new)) \<noteq> normalizeStatus new
   \<or> toLifecycleFromStatus (normalizeStatus new) = WL
   \<or> normalizeLifecycle (d_lifecycle stored) = DONE
   \<Longrightarrow> is_error (snd (updateStatus now spread i new cx loaded stored))"
  unfolding is_error_iff by (auto elim!: updateStatus_InrE)

text \<open>
  Fact. Some statuses can never be set: whatever the docket, the caller and the patch, a
  status change to \<open>OPEN\<close>, \<open>ASSIGNED\<close> or \<open>ROUTED_ASSIGNED\<close> fails.  (No lifecycle
  leads back to the worklist, and \<open>OPEN\<close> is stored as \<open>ASSIGNED\<close>, which the second write
  does not find.)  So the change that would resume the turnaround clock never happens.
\<close>

theorem update_status_unreachable:
  "(\<forall>target \<in> {''OPEN'', ''Open'', ''ASSIGNED'', ''ROUTED_ASSIGNED''}.
      is_error (snd (updateStatus now spread i (Some target) cx loaded stored)))
   \<and> (\<forall>new d' c'. snd (updateStatus now spread i new cx (Some (existing, clock)) stored) = Inr (d', c')
        \<and> tat_paused clock \<longrightarrow> tat_paused c')"
proof (intro conjI ballI allI impI)
  fix target assume "target \<in> {''OPEN'', ''Open'', ''ASSIGNED'', ''ROUTED_ASSIGNED''}"
  moreover have "toPersistenceState (toDocketState (normalizeStatus (Some ''OPEN''))) \<noteq> normalizeStatus (Some ''OPEN'')"
    "toPersistenceState (toDocketState (normalizeStatus (Some ''Open''))) \<noteq> normalizeStatus (Some ''Open'')"
    "toLifecycleFromStatus (normalizeStatus (Some ''ASSIGNED'')) = WL"
    "toLifecycleFromStatus (normalizeStatus (Some ''ROUTED_ASSIGNED'')) = WL" by code_simp+
  ultimately show "is_error (snd (updateStatus now spread i (Some target) cx loaded stored))"
    by (intro updateStatus_no_open) auto
next
  fix new d' c'
  assume a: "snd (updateStatus now spread i new cx (Some (existing, clock)) stored) = Inr (d', c') \<and> tat_paused clock"
  have "toPersistenceState (toDocketState (Some ''OPEN'')) \<noteq> Some ''OPEN''" by code_simp
  then have "normalizeStatus new \<noteq> Some ''OPEN''" using a by (elim conjE updateStatus_InrE) auto
  moreover have "c' = (case handleStatusTransition (d_status existing) clock (normalizeStatus new) now (js_or (cx_userId cx) None)
      of None \<Rightarrow> clock | Some (c, _) \<Rightarrow> c)"
    using a by (elim conjE updateStatus_InrE) simp
  ultimately show "tat_paused c'" using a handle_keeps_paused by (auto split: option.splits)
qed

text \<open>
  C5. A status change that succeeds leaves a consistent document: the stored status is the
  normalised target, the lifecycle it had allows the target's, the stored state is the canonical
  state of the target status, the version has grown by one, and a docket whose lifecycle was
  \<open>DONE\<close> never changes.
\<close>

theorem update_status_consistent:
  assumes "snd (updateStatus now spread i new cx (Some (existing, clock)) stored) = Inr (d', c')"
    and "\<And>d. d_version (sp_apply (cx_patch cx) d) = d_version d \<and> d_status (sp_apply (cx_patch cx) d) = d_status d"
  shows "d_status d' = normalizeStatus new
    \<and> toLifecycleFromStatus (normalizeStatus new) \<in> set (lifecycle_TRANSITIONS (normalizeLifecycle (d_lifecycle stored)))
    \<and> d_state d' = Some (canon_name (patched_state spread existing (normalizeStatus new) (cx_patch cx)))
    \<and> d_lifecycle d' = Some (lifecycle_name (inferLifecycleAfterStatusChange existing (normalizeStatus new) (cx_patch cx)))
    \<and> d_version d' = Some (case d_version stored of None \<Rightarrow> 1 | Some v \<Rightarrow> v + 1)
    \<and> normalizeLifecycle (d_lifecycle stored) \<noteq> DONE"
  using assms(1)
proof (rule updateStatus_InrE)
  fix ex cl
  assume a: "Some (existing, clock) = Some (ex, cl)"
    and m: "d' = merged_fields spread ex (normalizeStatus new) (cx_patch cx)
            ((transition_docket_set now (toDocketState (normalizeStatus new)) stored)\<lparr>d_status := normalizeStatus new\<rparr>)"
    and l: "toLifecycleFromStatus (normalizeStatus new) \<in> set (lifecycle_TRANSITIONS (normalizeLifecycle (d_lifecycle stored)))"
  have "normalizeLifecycle (d_lifecycle stored) \<noteq> DONE" using l by auto
  then show ?thesis using a l by (simp add: m merged_fields_def assms(2) transition_docket_set_def)
qed

definition sample_patch :: status_patch where
  "sample_patch = \<lparr>sp_lifecycle = None, sp_assignedToXID = None, sp_queueType = None,
     sp_apply = (\<lambda>d. d\<lparr>d_pendingUntil := None, d_resolvedAt := Some 600000\<rparr>)\<rparr>"

definition sample_ctx :: status_ctx where
  "sample_ctx = \<lparr>cx_tenantId = Some ''FIRM1'', cx_role = Some ''Admin'', cx_userId = Some ''X000123'', cx_hasSession = True,
     cx_expectedVersion = None, cx_reason = None, cx_notes = Some ''done'', cx_meta_reason = None, cx_meta_notes = None,
     cx_currentStatus = None, cx_skipDocketAudit = False, cx_actorRole = Some ''ADMIN'', cx_patch = sample_patch\<rparr>"

definition sample_working :: docket where
  "sample_working = sample_docket\<lparr>d_assignedToXID := Some ''X000123'', d_queueType := Some ''PERSONAL'',
     d_status := Some ''IN_PROGRESS'', d_state := Some ''IN_PROGRESS'', d_lifecycle := Some ''ACTIVE''\<rparr>"

definition no_spread :: "docket \<Rightarrow> string option \<times> string option \<times> string option" where
  "no_spread d = (None, None, None)"

definition sample_resolved :: docket where
  "sample_resolved = sample_working\<lparr>d_status := Some ''RESOLVED'', d_state := Some ''RESOLVED'', d_lifecycle := Some ''DONE'',
     d_version := Some 1, d_updatedAt := Some 600000, d_pendingUntil := None, d_resolvedAt := Some 600000\<rparr>"

lemma sample_update:
  "snd (updateStatus 600000 no_spread (Some ''CASE-20260108-00012'') (Some ''RESOLVED'') sample_ctx
     (Some (sample_working, sample_clock)) sample_working)
   = Inr (sample_resolved, clock_after (Some ''IN_PROGRESS'') sample_clock (Some ''RESOLVED'') 600000)"
  by code_simp

theorem update_status_consistent_witness:
  "d_status sample_resolved = Some ''RESOLVED'' \<and> d_version sample_resolved = Some 1"
proof -
  have p: "d_version (sp_apply (cx_patch sample_ctx) d) = d_version d \<and> d_status (sp_apply (cx_patch sample_ctx) d) = d_status d" for d
    by (simp add: sample_ctx_def sample_patch_def)
  have "d_version sample_working = Some 0" by code_simp
  then show ?thesis using update_status_consistent [OF sample_update p] by simp
qed

theorem update_status_unreachable_witness:
  "is_error (snd (updateStatus 600000 no_spread (Some ''CASE-20260108-00012'') (Some ''OPEN'') sample_ctx
     (Some (sample_working, sample_clock)) sample_working))"
  using update_status_unreachable [of 600000 no_spread "Some ''CASE-20260108-00012''" sample_ctx
    "Some (sample_working, sample_clock)" sample_working] by blast

end
