(* ===== verification/CaseAction.thy ===== *)
theory CaseAction
  imports CaseService
begin

section \<open>Resolve, pend, file, unpend\<close>

text \<open>
  \<open>src/services/caseAction.service.js\<close>: the actions a user performs on a case, each with a
  mandatory comment, and the reopening of pending cases whose date has passed.  All of them change
  the status with \<open>updateStatus\<close>; the session a request carries is the flag
  \<open>u_session\<close>.
\<close>

record case_user =
  u_xID :: "string option"
  u_role :: "string option"
  u_session :: bool

definition LIFECYCLE_TRANSITIONS :: "(string \<times> string list) list" where
  "LIFECYCLE_TRANSITIONS =
    [(''ASSIGNED'', [''PENDING'', ''QC_PENDING'', ''RESOLVED'', ''FILED'']),
     (''OPEN'', [''PENDING'', ''QC_PENDING'', ''RESOLVED'', ''FILED'']),
     (''ACTIVE'', [''PENDING'', ''QC_PENDING'', ''RESOLVED'', ''FILED'']),
     (''IN_PROGRESS'', [''PENDING'', ''QC_PENDING'', ''RESOLVED'', ''FILED'']),
     (''PENDING'', [''OPEN'', ''ASSIGNED'', ''ROUTED'', ''UNASSIGNED'']),
     (''QC_PENDING'', [''RESOLVED'', ''OPEN'']),
     (''RESOLVED'', []), (''FILED'', [])]"

definition case_normalizeActorRole :: "string option \<Rightarrow> string" where
  "case_normalizeActorRole role =
    (if js_upper (str_or_empty role) \<in> {''ADMIN'', ''SUPER_ADMIN'', ''SUPERADMIN''} then ''ADMIN'' else ''USER'')"

definition assertLifecycleTransitionAllowed ::
  "string option \<Rightarrow> string option \<Rightarrow> string option \<Rightarrow> unit res" where
  "assertLifecycleTransitionAllowed currentStatus nextStatus actorRole =
    (let current = js_upper (str_or_empty currentStatus); next_st = js_upper (str_or_empty nextStatus)
     in if case_normalizeActorRole actorRole = ''USER'' \<and> current \<in> {''QC_PENDING'', ''RESOLVED'', ''FILED''}
        then Inl (Thrown ''Permission denied'' None None)
        else check (case map_of LIFECYCLE_TRANSITIONS current of None \<Rightarrow> False | Some ts \<Rightarrow> next_st \<in> set ts)
          (Thrown ''Invalid lifecycle transition'' None None))"

definition validateComment :: "string option \<Rightarrow> unit res" where
  "validateComment comment =
    check (truthy comment \<and> js_trim (str_or_empty comment) \<noteq> [])
      (Thrown ''Comment is mandatory for this action'' None None)"

text \<open>
  \<open>CaseRepository.findByCaseId\<close>: a role is required and a superadmin is refused;
  \<open>replace('_', '')\<close> drops the first underscore only.
\<close>

fun drop_first :: "char \<Rightarrow> string \<Rightarrow> string" where
  "drop_first c [] = []"
| "drop_first c (x # xs) = (if x = c then xs else x # drop_first c xs)"

definition guardSuperadmin :: "string option \<Rightarrow> unit res" where
  "guardSuperadmin role =
    (if \<not> truthy role then Inl (Thrown ''SECURITY: role is required for repository access'' None None)
     else check (drop_first (CHR ''_'') (js_lower (str_or_empty role)) \<noteq> ''superadmin'')
       (Thrown ''Superadmin cannot access decrypted tenant data'' (Some 403) None))"

definition find_case :: "string option \<Rightarrow> 'a option \<Rightarrow> 'a res" where
  "find_case role loaded =
    res_bind (guardSuperadmin role) (\<lambda>_.
      case loaded of None \<Rightarrow> Inl (Thrown ''Case not found'' None None) | Some x \<Rightarrow> Inr x)"

definition action_ctx ::
  "string option \<Rightarrow> case_user \<Rightarrow> string option \<Rightarrow> string option \<Rightarrow> string option \<Rightarrow> (docket \<Rightarrow> docket) \<Rightarrow> status_ctx" where
  "action_ctx firmId u reason notes meta_reason patch =
    \<lparr>cx_tenantId = firmId, cx_role = u_role u, cx_userId = u_xID u, cx_hasSession = u_session u,
     cx_expectedVersion = None, cx_reason = reason, cx_notes = notes, cx_meta_reason = meta_reason,
     cx_meta_notes = None, cx_currentStatus = None, cx_skipDocketAudit = False,
     cx_actorRole = Some (if u_role u = Some ''Admin'' then ''ADMIN'' else ''USER''),
     cx_patch = \<lparr>sp_lifecycle = None, sp_assignedToXID = None, sp_queueType = None, sp_apply = patch\<rparr>\<rparr>"

text \<open>
  What the four actions share: the status change, then the comment and the entry in the audit
  trail.  \<open>stored\<close> is the document when the change is written.
\<close>

definition perform_action ::
  "int \<Rightarrow> (docket \<Rightarrow> string option \<times> string option \<times> string option) \<Rightarrow> string option \<Rightarrow> string option
   \<Rightarrow> case_user \<Rightarrow> string option \<Rightarrow> status_ctx \<Rightarrow> string \<Rightarrow> string option \<Rightarrow> string \<Rightarrow> docket \<times> tat_clock \<Rightarrow> docket
   \<Rightarrow> (case_effect, docket \<times> tat_clock) outcome" where
  "perform_action now spread caseId target u comment cx actionType recordedStatus note existing stored =
    seq (updateStatus now spread caseId target cx (Some existing) stored) (\<lambda>res.
    seq (emit [CaseComment caseId (str_or_empty comment) note,
               ActionRecorded actionType (d_status (fst existing)) recordedStatus]) (\<lambda>_.
    pure (Inr res)))"

definition resolve_patch :: "int \<Rightarrow> case_user \<Rightarrow> docket \<Rightarrow> docket" where
  "resolve_patch now u d =
    d\<lparr>d_pendingUntil := None, d_reopenAt := None, d_resolvedAt := Some now,
      d_lastActionByXID := xid_set (u_xID u), d_lastActionAt := Some now\<rparr>"

definition resolveCase ::
  "int \<Rightarrow> (docket \<Rightarrow> string option \<times> string option \<times> string option) \<Rightarrow> string option \<Rightarrow> string option
   \<Rightarrow> string option \<Rightarrow> case_user \<Rightarrow> (docket \<times> tat_clock) option \<Rightarrow> docket \<Rightarrow> (case_effect, docket \<times> tat_clock) outcome" where
  "resolveCase now spread firmId caseId comment u loaded stored =
    seq (pure (validateComment comment)) (\<lambda>_.
    seq (pure (find_case (u_role u) loaded)) (\<lambda>existing.
    let currentDocketState = canon_name (canonical_state (fst existing))
    in seq (pure (check (canResolve (Some currentDocketState))
           (Thrown (''Resolve is allowed only from IN_PROGRESS or IN_QC. Current state: '' @ currentDocketState) None None))) (\<lambda>_.
       seq (pure (assertLifecycleTransitionAllowed (d_status (fst existing)) (Some ''RESOLVED'') (u_role u))) (\<lambda>_.
       perform_action now spread caseId (Some ''RESOLVED'') u comment
         (action_ctx firmId u None comment None (resolve_patch now u))
         ''CASE_RESOLVED'' (Some ''RESOLVED'') ''Case resolution comment'' existing stored))))"

text \<open>\<open>ist8\<close> is 8:00 in Asia/Kolkata on a date, as an instant.\<close>

definition pend_patch :: "int \<Rightarrow> case_user \<Rightarrow> string option \<Rightarrow> int option \<Rightarrow> docket \<Rightarrow> docket" where
  "pend_patch now u comment pendingUntil d =
    d\<lparr>d_pendedByXID := xid_set (u_xID u), d_pendingReason := Some (js_trim (str_or_empty comment)),
      d_pendingUntil := pendingUntil, d_reopenAt := pendingUntil,
      d_lastActionByXID := xid_set (u_xID u), d_lastActionAt := Some now\<rparr>"

definition pendCase ::
  "int \<Rightarrow> (docket \<Rightarrow> string option \<times> string option \<times> string option) \<Rightarrow> (string \<Rightarrow> int option) \<Rightarrow> string option
   \<Rightarrow> string option \<Rightarrow> string option \<Rightarrow> string option \<Rightarrow> case_user \<Rightarrow> (docket \<times> tat_clock) option \<Rightarrow> docket
   \<Rightarrow> (case_effect, docket \<times> tat_clock) outcome" where
  "pendCase now spread ist8 firmId caseId comment reopenDate u loaded stored =
    seq (pure (validateComment comment)) (\<lambda>_.
    seq (pure (check (truthy reopenDate) (Thrown ''Reopen date is required'' None None))) (\<lambda>_.
    seq (pure (find_case (u_role u) loaded)) (\<lambda>existing.
    seq (pure (assertLifecycleTransitionAllowed (d_status (fst existing)) (Some ''PENDING'') (u_role u))) (\<lambda>_.
    perform_action now spread caseId (Some ''PENDING'') u comment
      (action_ctx firmId u comment None (Some (js_trim (str_or_empty comment)))
        (pend_patch now u comment (ist8 (str_or_empty reopenDate))))
      ''CASE_PENDED'' (Some ''PENDING'') ''Case pending comment'' existing stored))))"

definition file_patch :: "int \<Rightarrow> case_user \<Rightarrow> docket \<Rightarrow> docket" where
  "file_patch now u d =
    d\<lparr>d_pendingUntil := None, d_reopenAt := None,
      d_lastActionByXID := xid_set (u_xID u), d_lastActionAt := Some now\<rparr>"

text \<open>
  Who is told that a case was filed (lines 424 to 448): its assignee and creator, the manager
  and the users of its team (the lookups' results are arguments), each once, but not who filed it.
\<close>

definition filing_recipients :: "docket \<Rightarrow> string option \<Rightarrow> string option list \<Rightarrow> string option \<Rightarrow> string list" where
  "filing_recipients d managerXID teamXIDs actorXID =
    filter (\<lambda>x. x \<noteq> js_upper (str_or_empty actorXID))
      (js_unique (map (\<lambda>v. js_upper (str_or_empty v))
        (filter truthy ([d_assignedToXID d, d_createdByXID d]
           @ (if truthy (js_or (d_workbasketId d) (d_ownerTeamId d)) then managerXID # teamXIDs else [])))))"

definition fileCase ::
  "int \<Rightarrow> (docket \<Rightarrow> string option \<times> string option \<times> string option) \<Rightarrow> string option \<Rightarrow> string option list
   \<Rightarrow> string option \<Rightarrow> string option \<Rightarrow> string option \<Rightarrow> case_user \<Rightarrow> (docket \<times> tat_clock) option \<Rightarrow> docket \<Rightarrow> (case_effect, docket \<times> tat_clock) outcome" where
  "fileCase now spread managerXID teamXIDs firmId caseId comment u loaded stored =
    seq (pure (validateComment comment)) (\<lambda>_.
    seq (pure (find_case (u_role u) loaded)) (\<lambda>existing.
    seq (pure (check (canFile (Some (canon_name (canonical_state (fst existing)))))
           (Thrown (''Cannot file docket from current state: '' @ canon_name (canonical_state (fst existing))) None None))) (\<lambda>_.
    seq (perform_action now spread caseId (Some ''FILED'') u comment
      (action_ctx firmId u None None None (file_patch now u))
      ''CASE_FILED'' (Some ''FILED'') ''Case filing comment'' existing stored) (\<lambda>res.
    seq (emit (map (\<lambda>x. CaseNotify x (js_or (d_caseNumber (fst res)) (d_caseId (fst res))))
           (filing_recipients (fst res) managerXID teamXIDs (u_xID u)))) (\<lambda>_.
    pure (Inr res))))))"

definition unpend_status :: "docket \<Rightarrow> string" where
  "unpend_status d =
    (if js_trim (str_or_empty (d_assignedToXID d)) \<noteq> [] then ''ASSIGNED''
     else if js_trim (str_or_empty (d_routedToTeamId d)) \<noteq> [] then ''ROUTED'' else ''UNASSIGNED'')"

definition unpend_patch :: "int \<Rightarrow> case_user \<Rightarrow> docket \<Rightarrow> docket" where
  "unpend_patch now u d =
    d\<lparr>d_pendingUntil := None, d_reopenAt := None, d_pendedByXID := None,
      d_lastActionByXID := xid_set (u_xID u), d_lastActionAt := Some now\<rparr>"

definition unpendCase ::
  "int \<Rightarrow> (docket \<Rightarrow> string option \<times> string option \<times> string option) \<Rightarrow> string option \<Rightarrow> string option
   \<Rightarrow> string option \<Rightarrow> case_user \<Rightarrow> (docket \<times> tat_clock) option \<Rightarrow> docket \<Rightarrow> (case_effect, docket \<times> tat_clock) outcome" where
  "unpendCase now spread firmId caseId comment u loaded stored =
    seq (pure (validateComment comment)) (\<lambda>_.
    seq (pure (find_case (u_role u) loaded)) (\<lambda>existing.
    let targetStatus = unpend_status (fst existing)
    in seq (pure (assertLifecycleTransitionAllowed (d_status (fst existing)) (Some targetStatus) (u_role u))) (\<lambda>_.
       perform_action now spread caseId (Some targetStatus) u comment
         (action_ctx firmId u None None None (unpend_patch now u))
         ''CASE_UNPENDED'' (Some ''OPEN'') ''Case unpend comment'' existing stored)))"

subsection \<open>Automatic reopening\<close>

definition reopen_patch :: "int \<Rightarrow> docket \<Rightarrow> docket" where
  "reopen_patch now d =
    d\<lparr>d_pendingUntil := None, d_reopenAt := None, d_lastActionByXID := Some ''SYSTEM'', d_lastActionAt := Some now\<rparr>"

text \<open>
  Runs in a transaction of its own, so an error leaves the document as it was.  The text of the
  comment is given without the rendered date.
\<close>

definition performAutoReopen ::
  "int \<Rightarrow> (docket \<Rightarrow> string option \<times> string option \<times> string option) \<Rightarrow> docket \<times> tat_clock
   \<Rightarrow> (case_effect, docket \<times> tat_clock) outcome" where
  "performAutoReopen now spread existing =
    (let d = fst existing; targetStatus = unpend_status d;
         cx = \<lparr>cx_tenantId = d_firmId d, cx_role = Some ''Admin'', cx_userId = Some ''SYSTEM'', cx_hasSession = True,
               cx_expectedVersion = None, cx_reason = None, cx_notes = None,
               cx_meta_reason = Some ''pending_until elapsed'', cx_meta_notes = None, cx_currentStatus = None,
               cx_skipDocketAudit = False, cx_actorRole = Some ''SYSTEM'',
               cx_patch = \<lparr>sp_lifecycle = None, sp_assignedToXID = None, sp_queueType = None, sp_apply = reopen_patch now\<rparr>\<rparr>
     in seq (updateStatus now spread (d_caseId d) (Some targetStatus) cx (Some existing) d) (\<lambda>res.
        seq (emit [CaseComment (d_caseId d) ''Case automatically reopened after pending period expired'' ''Auto-reopen system action'',
                   ActionRecorded ''CASE_AUTO_REOPENED'' (d_status d) (Some targetStatus)]) (\<lambda>_.
        pure (Inr res))))"

definition reopen_selected :: "int \<Rightarrow> string option \<Rightarrow> string option \<Rightarrow> docket \<Rightarrow> bool" where
  "reopen_selected now userXid firmId d \<longleftrightarrow>
    d_status d = Some ''PENDING'' \<and> (case d_pendingUntil d of None \<Rightarrow> False | Some t \<Rightarrow> t \<le> now)
    \<and> (case userXid of None \<Rightarrow> True | Some x \<Rightarrow> d_assignedToXID d = Some x)
    \<and> (truthy firmId \<longrightarrow> d_firmId d = firmId)"

text \<open>
  \<open>Promise.all\<close> runs every case and rejects as soon as one of them does; the cases that
  succeed stay changed.  The result is \<open>None\<close> when the call rejects, and the reopened
  identifiers otherwise.
\<close>

definition autoReopen ::
  "int \<Rightarrow> (docket \<Rightarrow> string option \<times> string option \<times> string option) \<Rightarrow> string option \<Rightarrow> string option
   \<Rightarrow> (docket \<times> tat_clock) list \<Rightarrow> (docket \<times> tat_clock) list \<times> string option list option" where
  "autoReopen now spread userXid firmId store =
    (map (\<lambda>x. if reopen_selected now userXid firmId (fst x)
              then (case snd (performAutoReopen now spread x) of Inl _ \<Rightarrow> x | Inr x' \<Rightarrow> x') else x) store,
     (let selected = filter (\<lambda>x. reopen_selected now userXid firmId (fst x)) store
      in if list_ex (\<lambda>x. is_error (snd (performAutoReopen now spread x))) selected then None
         else Some (map (\<lambda>x. d_caseId (fst x)) selected)))"

definition autoReopenExpiredPendingCases ::
  "int \<Rightarrow> (docket \<Rightarrow> string option \<times> string option \<times> string option) \<Rightarrow> string \<Rightarrow> string option
   \<Rightarrow> (docket \<times> tat_clock) list \<Rightarrow> (docket \<times> tat_clock) list \<times> string option list option" where
  "autoReopenExpiredPendingCases now spread userXid firmId store = autoReopen now spread (Some userXid) firmId store"

definition autoReopenPendedCases ::
  "int \<Rightarrow> (docket \<Rightarrow> string option \<times> string option \<times> string option) \<Rightarrow> string option
   \<Rightarrow> (docket \<times> tat_clock) list \<Rightarrow> (docket \<times> tat_clock) list \<times> string option list option" where
  "autoReopenPendedCases now spread firmId store = autoReopen now spread None firmId store"

end
