(* ===== verification/CaseActionProperties.thy ===== *)
theory CaseActionProperties
  imports CaseAction
begin

section \<open>What the case actions do\<close>

text \<open>
  Properties of \<open>resolveCase\<close>, \<open>pendCase\<close>, \<open>fileCase\<close>, \<open>unpendCase\<close> and of the
  automatic reopening of \<open>CaseAction\<close>.
\<close>

subsection \<open>Facts\<close>

lemma find_case_Inr [simp]:
  "find_case role (Some x) = Inr y \<longleftrightarrow> guardSuperadmin role = Inr () \<and> y = x"
  by (auto simp: find_case_def res_bind_Inr_iff)

lemma perform_action_Inr [simp]:
  "snd (perform_action now spread i target u comment cx ty recorded note ex stored) = Inr res
   \<longleftrightarrow> snd (updateStatus now spread i target cx (Some ex) stored) = Inr res"
  by (cases res) (auto simp: perform_action_def res_bind_Inr_iff)

lemma perform_action_error:
  assumes "is_error (snd (updateStatus now spread i target cx (Some ex) stored))"
  shows "is_error (snd (perform_action now spread i target u comment cx ty recorded note ex stored))"
  using assms by (simp add: is_error_iff)

lemma canonical_of_target [simp]:
  "getCanonicalDocketState (Some ''RESOLVED'') s a q = RESOLVED"
  "getCanonicalDocketState (Some ''FILED'') s a q = FILED"
  "getCanonicalDocketState (Some ''PENDING'') s a q = PENDED"
  by (simp_all add: getCanonicalDocketState_def)

lemma normalizeStatus_filed [simp]: "normalizeStatus (Some ''FILED'') = Some ''FILED''"
  by code_simp

lemma computeElapsed_None: "computeElapsedMinutes None now = 0"
  by (simp add: computeElapsedMinutes_def)

lemma infer_terminal [simp]:
  "sp_lifecycle p = None \<Longrightarrow> inferLifecycleAfterStatusChange ex (Some ''RESOLVED'') p = DONE"
  "sp_lifecycle p = None \<Longrightarrow> inferLifecycleAfterStatusChange ex (Some ''FILED'') p = DONE"
  by (simp_all add: inferLifecycleAfterStatusChange_def Let_def)

lemma handle_resolved:
  "handleStatusTransition st c (Some ''RESOLVED'') now u = Some (c', ev) \<Longrightarrow>
     tat_paused c' \<and> getEffectiveTatMinutes c' later = getEffectiveTatMinutes c now"
  by (cases "tat_lastStartedAt c")
    (auto simp: handleStatusTransition_def getEffectiveTatMinutes_def Let_def computeElapsed_None split: if_splits)

lemma handle_resolved_some: "handleStatusTransition st c (Some ''RESOLVED'') now u \<noteq> None"
  by (simp add: handleStatusTransition_def Let_def)

text \<open>The fields a status change to a fixed target with a plain patch ends with.\<close>

lemma update_plain:
  assumes "snd (updateStatus now spread i (Some t) (action_ctx firm u rs nt mr patch) (Some (ex, clock)) stored) = Inr (d', c')"
    and "normalizeStatus (Some t) = Some t"
    and "\<And>d. d_status (patch d) = d_status d" "\<And>d. d_version (patch d) = d_version d"
  shows "d_status d' = Some t"
    and "toLifecycleFromStatus (Some t) \<in> set (lifecycle_TRANSITIONS (normalizeLifecycle (d_lifecycle stored)))"
    and "d_lifecycle d' = Some (lifecycle_name (inferLifecycleAfterStatusChange ex (Some t)
           (cx_patch (action_ctx firm u rs nt mr patch))))"
    and "d_state d' = Some (canon_name (getCanonicalDocketState (Some t) (fst (spread ex))
           (fst (snd (spread ex))) (snd (snd (spread ex)))))"
    and "c' = (case handleStatusTransition (d_status ex) clock (Some t) now (js_or (u_xID u) None) of None \<Rightarrow> clock | Some (c, _) \<Rightarrow> c)"
    and "d' = merged_fields spread ex (Some t) (cx_patch (action_ctx firm u rs nt mr patch))
            ((transition_docket_set now (toDocketState (Some t)) stored)\<lparr>d_status := Some t\<rparr>)"
  using assms
  by (auto elim!: updateStatus_InrE simp: merged_fields_def action_ctx_def patched_state_def split: prod.splits)

text \<open>
  C3. Resolving is final: a case is resolved only with a comment, from the canonical states
  \<open>IN_PROGRESS\<close> and \<open>IN_QC\<close> and while its lifecycle is \<open>ACTIVE\<close>; the saved document is
  \<open>RESOLVED\<close> in status and state with the lifecycle \<open>DONE\<close>; its turnaround time is the one
  it had at that instant and stays it; and no later status change of the saved document succeeds.
\<close>

theorem resolve_is_final:
  assumes "snd (resolveCase now spread firm i comment u (Some (d, c)) stored) = Inr (d', c')"
  shows "js_trim (str_or_empty comment) \<noteq> []
    \<and> canonical_state d \<in> {IN_PROGRESS, IN_QC} \<and> normalizeLifecycle (d_lifecycle stored) = ACTIVE
    \<and> d_status d' = Some ''RESOLVED'' \<and> d_state d' = Some ''RESOLVED'' \<and> d_lifecycle d' = Some ''DONE''
    \<and> d_resolvedAt d' = Some now
    \<and> tat_paused c' \<and> (\<forall>later. getEffectiveTatMinutes c' later = getEffectiveTatMinutes c now)
    \<and> (\<forall>now' spread' i' target cx loaded. is_error (snd (updateStatus now' spread' i' target cx loaded d')))"
proof -
  from assms have v: "js_trim (str_or_empty comment) \<noteq> []"
    and r: "canResolve (Some (canon_name (canonical_state d)))"
    and up: "snd (updateStatus now spread i (Some ''RESOLVED'') (action_ctx firm u None comment None (resolve_patch now u))
        (Some (d, c)) stored) = Inr (d', c')"
    by (auto simp: resolveCase_def validateComment_def Let_def res_bind_Inr_iff)
  have p: "d_status (resolve_patch now u x) = d_status x" "d_version (resolve_patch now u x) = d_version x" for x
    by (simp_all add: resolve_patch_def)
  note U = update_plain [OF up _ p, simplified]
  have l: "d_lifecycle d' = Some ''DONE''"
    using U(3) by (simp add: action_ctx_def lifecycle_name_def)
  have a: "normalizeLifecycle (d_lifecycle stored) = ACTIVE"
    using U(2) by (cases "normalizeLifecycle (d_lifecycle stored)") simp_all
  have c: "canonical_state d \<in> {IN_PROGRESS, IN_QC}"
    using r by (cases "canonical_state d") (simp_all add: canResolve_def)
  obtain c1 ev where h: "handleStatusTransition (d_status d) c (Some ''RESOLVED'') now (js_or (u_xID u) None) = Some (c1, ev)"
    using handle_resolved_some by (metis not_Some_eq surj_pair)
  have t: "tat_paused c' \<and> getEffectiveTatMinutes c' later = getEffectiveTatMinutes c now" for later
    using U(5) handle_resolved [OF h] by (simp add: h)
  have "normalizeLifecycle (Some ''DONE'') = DONE" by code_simp
  then have f: "is_error (snd (updateStatus now' spread' i' target cx loaded d'))" for now' spread' i' target cx loaded
    by (intro updateStatus_no_open) (simp add: l)
  have "d_resolvedAt d' = Some now"
    using U(6) by (simp add: merged_fields_def action_ctx_def resolve_patch_def)
  then show ?thesis using v c a U(1,4) l t f by simp
qed

definition sample_user :: case_user where
  "sample_user = \<lparr>u_xID = Some ''X000123'', u_role = Some ''Admin'', u_session = True\<rparr>"

definition sample_case_resolved :: docket where
  "sample_case_resolved = sample_resolved\<lparr>d_lastActionByXID := Some ''X000123'', d_lastActionAt := Some 600000\<rparr>"

lemma sample_resolve:
  "snd (resolveCase 600000 no_spread (Some ''FIRM1'') (Some ''CASE-20260108-00012'') (Some ''done'') sample_user
     (Some (sample_working, sample_clock)) sample_working)
   = Inr (sample_case_resolved, clock_after (Some ''IN_PROGRESS'') sample_clock (Some ''RESOLVED'') 600000)"
  by code_simp

theorem resolve_is_final_witness:
  "d_lifecycle sample_case_resolved = Some ''DONE''
   \<and> getEffectiveTatMinutes (clock_after (Some ''IN_PROGRESS'') sample_clock (Some ''RESOLVED'') 600000) 90000000 = 10"
proof -
  have "getEffectiveTatMinutes sample_clock 600000 = 10" by code_simp
  then show ?thesis using resolve_is_final [OF sample_resolve] by simp
qed

text \<open>
  Fact. A pending case that has an assignee cannot be unpended: \<open>unpendCase\<close> fails on it in
  every case and performs no effect, because the target \<open>ASSIGNED\<close> needs the lifecycle
  \<open>WL\<close>, to which no transition leads; and the automatic reopening of a user's expired cases
  rejects as soon as there is one, and leaves every case as it was.
\<close>

theorem assigned_case_stays_pending:
  assumes "js_trim (str_or_empty (d_assignedToXID d)) \<noteq> []"
  shows "is_error (snd (unpendCase now spread firm i comment u (Some (d, c)) stored))
    \<and> (js_trim userXid \<noteq> [] \<and> list_ex (\<lambda>x. reopen_selected now (Some userXid) firmId (fst x)) store
       \<longrightarrow> autoReopenExpiredPendingCases now spread userXid firmId store = (store, None))"
proof -
  have t: "unpend_status e = ''ASSIGNED''" if "js_trim (str_or_empty (d_assignedToXID e)) \<noteq> []" for e
    using that by (simp add: unpend_status_def)
  have w: "toLifecycleFromStatus (normalizeStatus (Some ''ASSIGNED'')) = WL" by code_simp
  have err: "is_error (snd (updateStatus now' s j (Some ''ASSIGNED'') cx l st))" for now' s j cx l st
    by (rule updateStatus_no_open) (use w in blast)
  have "is_error (snd (unpendCase now spread firm i comment u (Some (d, c)) stored))"
    using err by (auto simp: unpendCase_def is_error_iff res_bind_Inr_iff Let_def t [OF assms])
  moreover have r: "is_error (snd (performAutoReopen now spread x))"
    if "js_trim (str_or_empty (d_assignedToXID (fst x))) \<noteq> []" for x
    using err t [OF that] by (auto simp: performAutoReopen_def is_error_iff res_bind_Inr_iff Let_def)
  have sel: "is_error (snd (performAutoReopen now spread x))"
    if "reopen_selected now (Some userXid) firmId (fst x)" "js_trim userXid \<noteq> []" for x
    using that by (intro r) (simp add: reopen_selected_def)
  have "autoReopenExpiredPendingCases now spread userXid firmId store = (store, None)"
    if ne: "js_trim userXid \<noteq> []" and ex: "list_ex (\<lambda>x. reopen_selected now (Some userXid) firmId (fst x)) store"
  proof -
    have "(if reopen_selected now (Some userXid) firmId (fst x)
           then (case snd (performAutoReopen now spread x) of Inl _ \<Rightarrow> x | Inr x' \<Rightarrow> x') else x) = x" for x
      using sel [of x] ne by (cases "snd (performAutoReopen now spread x)") auto
    then show ?thesis
      using ex sel ne by (auto simp: autoReopenExpiredPendingCases_def autoReopen_def Let_def list_ex_iff)
  qed
  ultimately show ?thesis by blast
qed

theorem assigned_case_stays_pending_witness:
  "is_error (snd (unpendCase 1000 no_spread (Some ''FIRM1'') (Some ''CASE-20260108-00012'') (Some ''back'') sample_user
      (Some (sample_working\<lparr>d_status := Some ''PENDING'', d_lifecycle := Some ''WAITING''\<rparr>, sample_clock))
      (sample_working\<lparr>d_status := Some ''PENDING'', d_lifecycle := Some ''WAITING''\<rparr>)))"
proof -
  have "js_trim (str_or_empty (d_assignedToXID (sample_working\<lparr>d_status := Some ''PENDING'', d_lifecycle := Some ''WAITING''\<rparr>))) \<noteq> []"
    by code_simp
  from assigned_case_stays_pending [OF this] show ?thesis by blast
qed

text \<open>
  Fact. Filing needs an active case: whatever the stated rule, a case is filed exactly from the
  lifecycle \<open>ACTIVE\<close>, never from a pending, quality-control or worklist one; the saved document
  is \<open>FILED\<close> in status and state with lifecycle \<open>DONE\<close>; and each person told about it is
  told once, and never the one who filed it.
\<close>

theorem filing_only_active:
  assumes "snd (fileCase now spread mgr team firm i comment u (Some (d, c)) stored) = Inr (d', c')"
  shows "normalizeLifecycle (d_lifecycle stored) = ACTIVE
    \<and> d_status d' = Some ''FILED'' \<and> d_state d' = Some ''FILED'' \<and> d_lifecycle d' = Some ''DONE''
    \<and> distinct (filing_recipients d' mgr team (u_xID u))
    \<and> js_upper (str_or_empty (u_xID u)) \<notin> set (filing_recipients d' mgr team (u_xID u))"
proof -
  from assms have up: "snd (updateStatus now spread i (Some ''FILED'') (action_ctx firm u None None None (file_patch now u))
        (Some (d, c)) stored) = Inr (d', c')"
    by (auto simp: fileCase_def res_bind_Inr_iff)
  have p: "d_status (file_patch now u x) = d_status x" "d_version (file_patch now u x) = d_version x" for x
    by (simp_all add: file_patch_def)
  note U = update_plain [OF up _ p, simplified]
  have "normalizeLifecycle (d_lifecycle stored) = ACTIVE"
    using U(2) by (cases "normalizeLifecycle (d_lifecycle stored)") simp_all
  moreover have "d_lifecycle d' = Some ''DONE''"
    using U(3) by (simp add: action_ctx_def lifecycle_name_def)
  ultimately show ?thesis using U(1,4) by (simp add: filing_recipients_def)
qed

definition sample_case_filed :: docket where
  "sample_case_filed = sample_working\<lparr>d_status := Some ''FILED'', d_state := Some ''FILED'', d_lifecycle := Some ''DONE'',
     d_version := Some 1, d_updatedAt := Some 600000, d_pendingUntil := None, d_lastActionByXID := Some ''X000123'',
     d_lastActionAt := Some 600000\<rparr>"

lemma sample_filing:
  "snd (fileCase 600000 no_spread (Some ''X000777'') [Some ''X000123'', Some ''x000777''] (Some ''FIRM1'')
     (Some ''CASE-20260108-00012'') (Some ''filed'') sample_user (Some (sample_working, sample_clock)) sample_working)
   = Inr (sample_case_filed, sample_clock)"
  by code_simp

theorem filing_only_active_witness:
  "d_lifecycle sample_case_filed = Some ''DONE''
   \<and> filing_recipients sample_case_filed (Some ''X000777'') [Some ''X000123'', Some ''x000777''] (Some ''X000123'')
     = [''X000009'', ''X000777'']"
proof
  show "d_lifecycle sample_case_filed = Some ''DONE''" using filing_only_active [OF sample_filing] by blast
  show "filing_recipients sample_case_filed (Some ''X000777'') [Some ''X000123'', Some ''x000777''] (Some ''X000123'')
     = [''X000009'', ''X000777'']" by code_simp
qed

lemma handle_pending:
  "\<not> tat_paused c \<Longrightarrow> \<exists>c1 ev. handleStatusTransition st c (Some ''PENDING'') now u = Some (c1, ev) \<and> tat_paused c1
     \<and> getEffectiveTatMinutes c1 later = getEffectiveTatMinutes c now"
  by (cases "tat_lastStartedAt c")
    (auto simp: handleStatusTransition_def getEffectiveTatMinutes_def Let_def computeElapsed_None)

lemma handle_pending_paused: "tat_paused c \<Longrightarrow> handleStatusTransition st c (Some ''PENDING'') now u = None"
  by (simp add: handleStatusTransition_def Let_def)

text \<open>
  Fact. Pending a case is complete: it succeeds only with a comment and a reopening date and
  from a lifecycle that may wait; the saved document has the status \<open>PENDING\<close>, the state
  \<open>PENDED\<close>, the comment as its reason (so the schema accepts it), and one date for both
  reopening fields; a case with an assignee waits; and its turnaround clock stands still at the
  value of that instant.
\<close>

theorem pend_is_complete:
  assumes "snd (pendCase now spread ist8 firm i comment reopenDate u (Some (d, c)) stored) = Inr (d', c')"
  shows "truthy reopenDate
    \<and> normalizeLifecycle (d_lifecycle stored) \<in> {WL, ACTIVE}
    \<and> d_status d' = Some ''PENDING'' \<and> d_state d' = Some ''PENDED''
    \<and> d_pendingReason d' = Some (js_trim (str_or_empty comment)) \<and> status_validator d'
    \<and> d_pendingUntil d' = ist8 (str_or_empty reopenDate) \<and> d_reopenAt d' = d_pendingUntil d'
    \<and> (truthy (d_assignedToXID d) \<and> coerceLifecycleToDocket (d_lifecycle d) \<noteq> Some DONE \<longrightarrow> d_lifecycle d' = Some ''WAITING'')
    \<and> tat_paused c' \<and> getEffectiveTatMinutes c' later = getEffectiveTatMinutes c now"
proof -
  let ?patch = "pend_patch now u comment (ist8 (str_or_empty reopenDate))"
  from assms have v: "js_trim (str_or_empty comment) \<noteq> []" "truthy reopenDate"
    and up: "snd (updateStatus now spread i (Some ''PENDING'')
        (action_ctx firm u comment None (Some (js_trim (str_or_empty comment))) ?patch) (Some (d, c)) stored) = Inr (d', c')"
    by (auto simp: pendCase_def validateComment_def res_bind_Inr_iff)
  have p: "d_status (?patch x) = d_status x" "d_version (?patch x) = d_version x" for x
    by (simp_all add: pend_patch_def)
  note U = update_plain [OF up _ p, simplified]
  have l: "normalizeLifecycle (d_lifecycle stored) \<in> {WL, ACTIVE}"
    using U(2) by (cases "normalizeLifecycle (d_lifecycle stored)") simp_all
  have f: "d_pendingReason d' = Some (js_trim (str_or_empty comment))" "d_pendingUntil d' = ist8 (str_or_empty reopenDate)"
    "d_reopenAt d' = d_pendingUntil d'"
    using U(6) by (simp_all add: merged_fields_def action_ctx_def pend_patch_def)
  have w: "d_lifecycle d' = Some ''WAITING''"
    if "truthy (d_assignedToXID d)" "coerceLifecycleToDocket (d_lifecycle d) \<noteq> Some DONE"
    using U(3) that by (simp add: inferLifecycleAfterStatusChange_def action_ctx_def Let_def lifecycle_name_def)
  have t: "tat_paused c' \<and> getEffectiveTatMinutes c' later = getEffectiveTatMinutes c now"
  proof (cases "tat_paused c")
    case True
    then show ?thesis using U(5) by (simp add: handle_pending_paused effective_stopped)
  next
    case False
    then show ?thesis using U(5) handle_pending [OF False, of "d_status d" now "js_or (u_xID u) None" later] by auto
  qed
  show ?thesis using v l f U(1,4) w t by (simp add: status_validator_def)
qed

definition sample_case_pended :: docket where
  "sample_case_pended = sample_working\<lparr>d_status := Some ''PENDING'', d_state := Some ''PENDED'', d_lifecycle := Some ''WAITING'',
     d_version := Some 1, d_updatedAt := Some 600000, d_pendedByXID := Some ''X000123'',
     d_pendingReason := Some ''waiting'', d_pendingUntil := Some 7000000, d_reopenAt := Some 7000000,
     d_lastActionByXID := Some ''X000123'', d_lastActionAt := Some 600000\<rparr>"

lemma sample_pending:
  "snd (pendCase 600000 no_spread (\<lambda>_. Some 7000000) (Some ''FIRM1'')
     (Some ''CASE-20260108-00012'') (Some ''waiting'') (Some ''2026-02-01'') sample_user
     (Some (sample_working, sample_clock)) sample_working)
   = Inr (sample_case_pended, clock_after (Some ''IN_PROGRESS'') sample_clock (Some ''PENDING'') 600000)"
  by code_simp

theorem pend_is_complete_witness:
  "status_validator sample_case_pended
   \<and> getEffectiveTatMinutes (clock_after (Some ''IN_PROGRESS'') sample_clock (Some ''PENDING'') 600000) 90000000 = 10"
proof -
  have "getEffectiveTatMinutes sample_clock 600000 = 10" by code_simp
  then show ?thesis using pend_is_complete [OF sample_pending, of 90000000] by simp
qed

end
