(* ===== verification/CaseAssignment.thy ===== *)
theory CaseAssignment
  imports CaseActionProperties DocketProperties3
begin

section \<open>Assignment of cases\<close>

text \<open>
  \<open>src/services/caseAssignment.service.js\<close>: pulling a case from the workbasket, assigning one
  or many, reassigning and unassigning.  Except for \<open>reassignCase\<close>, each is one conditional
  update with an aggregation pipeline, which the database performs atomically and to which no setter
  of the schema applies.
\<close>

definition unowned_status :: "string option \<Rightarrow> string option" where
  "unowned_status st = (if st = Some ''ROUTED'' then Some ''ROUTED_ASSIGNED'' else Some ''ASSIGNED'')"

definition pull_case_filter :: "string \<Rightarrow> string \<Rightarrow> docket \<Rightarrow> bool" where
  "pull_case_filter tenantId caseId d \<longleftrightarrow>
    d_caseId d = Some caseId \<and> d_firmId d = Some tenantId \<and> d_assignedToXID d = None \<and> d_assignedTo d = None
    \<and> d_status d \<in> {Some ''UNASSIGNED'', Some ''ROUTED''}"

text \<open>The \<open>$set\<close> stage shared by the three assignments.\<close>

definition assign_set :: "int \<Rightarrow> string \<Rightarrow> string option \<Rightarrow> string option \<Rightarrow> docket \<Rightarrow> docket" where
  "assign_set now xid assigneeId assignerId d =
    d\<lparr>d_assignedToXID := Some xid, d_assignedAt := Some now, d_assignedTo := js_or assigneeId None,
      d_assignedBy := js_or assignerId (js_or assigneeId None), d_status := unowned_status (d_status d),
      d_queueType := Some ''PERSONAL'', d_lifecycle := Some ''WL'', d_state := Some ''IN_PROGRESS'', d_qcOutcome := None\<rparr>"

datatype assign_effect =
    AssignmentAudit (aa_docket: string) (aa_user: string) (aa_action: string) (aa_from: "string option") (aa_to: "string option")
  | AssignmentHistory (ah_docket: "string option") (ah_user: string)

datatype pull_result =
    Pulled (pr_status: "string option") (pr_caseId: string) (pr_assignedTo: string) (pr_assignedAt: int) (pr_doc: docket)
  | PullConflict

definition pullCaseFromWorkbasket ::
  "int \<Rightarrow> string option \<Rightarrow> string option \<Rightarrow> string option \<Rightarrow> string option \<Rightarrow> string option \<Rightarrow> docket option
   \<Rightarrow> (assign_effect, pull_result) outcome" where
  "pullCaseFromWorkbasket now caseId tenantId userId assigneeObjectId assignerObjectId stored =
    (if \<not> truthy caseId \<or> \<not> truthy tenantId \<or> \<not> truthy userId
     then pure (Inl (Thrown ''caseId, tenantId, and userId are required'' None None))
     else
      (let i = str_or_empty caseId; xid = js_upper (str_or_empty userId) in
       case stored of None \<Rightarrow> pure (Inr PullConflict)
       | Some d \<Rightarrow>
          if pull_case_filter (str_or_empty tenantId) i d
          then (let u = assign_set now xid assigneeObjectId assignerObjectId d
                in ([AssignmentHistory (Some i) xid,
                     AssignmentAudit i xid ''ASSIGNMENT'' (Some ''UNASSIGNED'') (d_status u)],
                    Inr (Pulled (d_status u) i xid now u)))
          else pure (Inr PullConflict)))"

definition assignCaseToUser ::
  "int \<Rightarrow> string option \<Rightarrow> string option \<Rightarrow> case_user option \<Rightarrow> docket option \<Rightarrow> (assign_effect, docket option) outcome" where
  "assignCaseToUser now firmId caseId user stored =
    (case user of None \<Rightarrow> pure (Inl (Thrown ''Valid user with xID is required for case assignment'' None None))
     | Some u \<Rightarrow>
        if \<not> truthy (u_xID u) then pure (Inl (Thrown ''Valid user with xID is required for case assignment'' None None))
        else seq (pullCaseFromWorkbasket now caseId firmId (u_xID u) None None stored) (\<lambda>r.
          case r of PullConflict \<Rightarrow> pure (Inr None)
          | Pulled _ _ _ _ d \<Rightarrow> seq (pure (find_case (u_role u) (Some d))) (\<lambda>x. pure (Inr (Some x)))))"

definition assign_docket_filter :: "string \<Rightarrow> string \<Rightarrow> docket \<Rightarrow> bool" where
  "assign_docket_filter firmId caseId d \<longleftrightarrow>
    d_firmId d = Some firmId \<and> d_caseId d = Some caseId \<and> d_assignedToXID d = None
    \<and> d_status d \<in> {Some ''UNASSIGNED'', Some ''OPEN'', Some ''ROUTED''}"

definition assignDocket ::
  "int \<Rightarrow> string \<Rightarrow> string \<Rightarrow> string option \<Rightarrow> string option \<Rightarrow> string option \<Rightarrow> docket option \<Rightarrow> docket option res" where
  "assignDocket now firmId caseId userXID assigneeObjectId assignedByObjectId stored =
    (let normalizedUserXID = normalize_str userXID
     in if normalizedUserXID = [] then Inl (Thrown ''Valid userXID is required'' None None)
        else Inr (case stored of None \<Rightarrow> None
          | Some d \<Rightarrow> if assign_docket_filter firmId caseId d
                     then Some (assign_set now normalizedUserXID assigneeObjectId assignedByObjectId d) else None))"

definition unassign_set :: "docket \<Rightarrow> docket" where
  "unassign_set d =
    d\<lparr>d_assignedToXID := None, d_assignedTo := None, d_assignedBy := None, d_assignedAt := None,
      d_queueType := Some ''GLOBAL'', d_lifecycle := Some ''WL'',
      d_status := (if d_routedToTeamId d \<noteq> None \<and> d_routedToTeamId d \<noteq> Some [] then Some ''ROUTED'' else Some ''UNASSIGNED''),
      d_state := Some ''IN_WB'', d_qcOutcome := None\<rparr>"

definition unassignDocket :: "string \<Rightarrow> string \<Rightarrow> docket option \<Rightarrow> docket option" where
  "unassignDocket firmId caseId stored =
    (case stored of None \<Rightarrow> None
     | Some d \<Rightarrow> if d_firmId d = Some firmId \<and> d_caseId d = Some caseId \<and> d_status d \<noteq> Some ''FILED''
                then Some (unassign_set d) else None)"

subsection \<open>Bulk assignment\<close>

definition bulk_filter :: "string \<Rightarrow> string list \<Rightarrow> docket \<Rightarrow> bool" where
  "bulk_filter firmId caseIds d \<longleftrightarrow>
    d_firmId d = Some firmId \<and> (case d_caseId d of None \<Rightarrow> False | Some i \<Rightarrow> i \<in> set caseIds)
    \<and> d_status d \<in> {Some ''UNASSIGNED'', Some ''ROUTED''} \<and> d_assignedToXID d = None \<and> d_assignedTo d = None
    \<and> \<not> lk_isLocked (d_lockStatus d)"

definition bulk_set :: "int \<Rightarrow> string \<Rightarrow> string option \<Rightarrow> string option \<Rightarrow> docket \<Rightarrow> docket" where
  "bulk_set now xid userId assignerId d =
    (assign_set now xid userId assignerId d)\<lparr>d_lastActionByXID := Some xid, d_lastActionAt := Some now\<rparr>"

text \<open>
  \<open>ds\<close> is the collection; the value is the collection afterwards, the number assigned, the
  number requested and the cases the caller gets back.
\<close>

definition bulkAssignCasesToUser ::
  "int \<Rightarrow> string \<Rightarrow> string list \<Rightarrow> case_user option \<Rightarrow> string option \<Rightarrow> string option \<Rightarrow> docket list
   \<Rightarrow> (assign_effect, docket list \<times> nat \<times> nat \<times> docket list) outcome" where
  "bulkAssignCasesToUser now firmId caseIds user userId assignerObjectId ds =
    (case user of None \<Rightarrow> pure (Inl (Thrown ''Valid user with xID is required for case assignment'' None None))
     | Some u \<Rightarrow>
      if \<not> truthy (u_xID u) then pure (Inl (Thrown ''Valid user with xID is required for case assignment'' None None))
      else if \<not> truthy (u_role u) then pure (Inl (Thrown ''User role is required for case assignment'' None None))
      else if caseIds = [] then pure (Inl (Thrown ''Case IDs array is required and must not be empty'' None None))
      else
       (let xid = js_upper (str_or_empty (u_xID u));
            ds' = map (\<lambda>d. if bulk_filter firmId caseIds d then bulk_set now xid userId assignerObjectId d else d) ds;
            modified = length (filter (bulk_filter firmId caseIds) ds)
        in if modified = 0 then pure (Inr (ds', 0, length caseIds, []))
           else
            (let wanted = (\<lambda>d. d_firmId d = Some firmId \<and> (case d_caseId d of None \<Rightarrow> False | Some i \<Rightarrow> i \<in> set caseIds));
                 updated = filter (\<lambda>d. wanted d \<and> d_assignedToXID d = Some xid \<and> d_assignedAt d = Some now) ds';
                 transitioned = filter (\<lambda>d. d_firmId d = Some firmId \<and> d_caseId d \<in> d_caseId ` set updated) ds'
             in (map (\<lambda>d. AssignmentHistory (d_caseId d) xid) updated
                 @ map (\<lambda>d. AssignmentAudit (str_or_empty (d_caseId d)) xid ''BULK_ASSIGNMENT'' (Some ''UNASSIGNED'') (Some ''ASSIGNED'')) updated,
                 Inr (ds', modified, length caseIds, transitioned)))))"

subsection \<open>Reassignment\<close>

definition valid_xid :: "string option \<Rightarrow> bool" where
  "valid_xid v \<longleftrightarrow>
    (case v of Some (x # ds) \<Rightarrow> (x = CHR ''X'' \<or> x = CHR ''x'') \<and> length ds = 6
        \<and> list_all (\<lambda>c. 48 \<le> (of_char c :: nat) \<and> of_char c \<le> (57 :: nat)) ds
     | _ \<Rightarrow> False)"

definition reassignCase ::
  "env \<Rightarrow> string \<Rightarrow> string option \<Rightarrow> case_user \<Rightarrow> docket option \<Rightarrow> (assign_effect, docket) outcome" where
  "reassignCase e caseId newUserXID performedBy loaded =
    seq (pure (check (valid_xid newUserXID)
      (Thrown ''Valid xID is required for reassignment (format: X123456)'' None None))) (\<lambda>_.
    seq (pure (find_case (u_role performedBy) loaded)) (\<lambda>d.
    seq (pure (check (d_status d \<notin> {Some ''UNASSIGNED'', Some ''ROUTED''})
      (Thrown ''Cannot reassign unassigned/routed dockets. Use assignment instead.'' None None))) (\<lambda>_.
    seq (pure (check (d_status d \<noteq> Some ''FILED'') (Thrown ''Cannot reassign filed cases'' None None))) (\<lambda>_.
    seq (pure (save (e_revalidate e) d (d\<lparr>d_assignedToXID := Some (js_upper (str_or_empty newUserXID)),
           d_assignedAt := Some (e_now e)\<rparr>))) (\<lambda>d'.
    seq (emit [AssignmentHistory (Some caseId) (js_upper (str_or_empty (u_xID performedBy))),
               AssignmentAudit caseId (str_or_empty (u_xID performedBy)) ''REASSIGNED'' (d_status d') (d_status d')]) (\<lambda>_.
    pure (Inr d')))))))"

subsection \<open>Four ways to take a docket\<close>

datatype take_request =
    ByPull int string "string option" "string option"
  | ByAssign int string "string option" "string option"
  | ByBulk "string list" int string "string option" "string option"
  | ByWorkbench pull_req

text \<open>The case identifier and the tenant are fixed: all requests are about one docket.\<close>

fun take_filter :: "(string \<Rightarrow> bool) \<Rightarrow> string \<Rightarrow> string \<Rightarrow> take_request \<Rightarrow> docket \<Rightarrow> bool" where
  "take_filter isOid firm i (ByPull now xid a b) d = pull_case_filter firm i d"
| "take_filter isOid firm i (ByAssign now xid a b) d = assign_docket_filter firm i d"
| "take_filter isOid firm i (ByBulk ids now xid a b) d = (i \<in> set ids \<and> d_caseId d = Some i \<and> bulk_filter firm ids d)"
| "take_filter isOid firm i (ByWorkbench r) d = pull_filter isOid (Some i) firm d"

fun take_update :: "take_request \<Rightarrow> docket \<Rightarrow> docket" where
  "take_update (ByPull now xid a b) d = assign_set now xid a b d"
| "take_update (ByAssign now xid a b) d = assign_set now xid a b d"
| "take_update (ByBulk ids now xid a b) d = bulk_set now xid a b d"
| "take_update (ByWorkbench r) d = pull_claim r d"

fun take_owner :: "take_request \<Rightarrow> string" where
  "take_owner (ByPull now xid a b) = xid"
| "take_owner (ByAssign now xid a b) = xid"
| "take_owner (ByBulk ids now xid a b) = xid"
| "take_owner (ByWorkbench r) = js_upper (js_trim (pr_assignee r))"

lemma take_update_owner [simp]: "d_assignedToXID (take_update r d) = Some (take_owner r)"
  by (cases r) (simp_all add: assign_set_def bulk_set_def pull_claim_def pull_update_def xid_set_def set_lifecycle_def)

lemma take_update_status [simp]: "d_status (take_update r d) \<noteq> Some ''UNASSIGNED''"
  by (cases r) (simp_all add: assign_set_def bulk_set_def pull_claim_def pull_update_def set_lifecycle_def unowned_status_def)

lemma take_excluded: "\<not> take_filter isOid firm i r' (take_update r d)"
  by (cases r') (simp_all add: pull_case_filter_def assign_docket_filter_def bulk_filter_def pull_filter_def)

interpretation takers: competition "take_filter isOid firm i" take_update for isOid firm i
  by unfold_locales (rule take_excluded)

lemma take_assigned_ok:
  "d_status d \<in> {Some ''UNASSIGNED'', Some ''ROUTED'', Some ''OPEN''} \<Longrightarrow> xid \<noteq> [] \<Longrightarrow>
     owned_ok (assign_set now xid a b d) \<and> state_ok (assign_set now xid a b d)
     \<and> owned_ok (bulk_set now xid a b d) \<and> state_ok (bulk_set now xid a b d)"
  by (auto simp: owned_ok_def state_ok_def canonical_state_def assign_set_def bulk_set_def getCanonicalDocketState_def unowned_status_def)



text \<open>
  Fact. Bulk assignment takes exactly the eligible dockets: each docket of the firm that was
  asked for and is unassigned, unowned and not locked ends owned by the user, in a state that agrees
  with its status; every other docket of the collection is as it was; and the number reported is the
  number of dockets taken.
\<close>

theorem bulk_assign_exact:
  assumes "snd (bulkAssignCasesToUser now firm ids (Some u) userId assigner ds) = Inr (ds', n, requested, cases)"
  shows "n = length (filter (bulk_filter firm ids) ds) \<and> requested = length ids \<and> length ds' = length ds
    \<and> (\<forall>k < length ds.
        if bulk_filter firm ids (ds ! k)
        then d_assignedToXID (ds' ! k) = Some (js_upper (str_or_empty (u_xID u)))
          \<and> owned_ok (ds' ! k) \<and> state_ok (ds' ! k) \<and> d_id (ds' ! k) = d_id (ds ! k)
        else ds' ! k = ds ! k)
    \<and> (\<forall>d \<in> set cases. d_firmId d = Some firm)"
proof -
  let ?xid = "js_upper (str_or_empty (u_xID u))"
  have x: "?xid \<noteq> []" using assms by (auto simp: bulkAssignCasesToUser_def truthy_def split: if_splits)
  have r: "ds' = map (\<lambda>d. if bulk_filter firm ids d then bulk_set now ?xid userId assigner d else d) ds"
    "n = length (filter (bulk_filter firm ids) ds)" "requested = length ids" "\<forall>d \<in> set cases. d_firmId d = Some firm"
    using assms by (auto simp: bulkAssignCasesToUser_def Let_def split: if_splits)
  have "d_status d \<in> {Some ''UNASSIGNED'', Some ''ROUTED'', Some ''OPEN''}" if "bulk_filter firm ids d" for d
    using that by (auto simp: bulk_filter_def)
  then have "owned_ok (bulk_set now ?xid userId assigner d) \<and> state_ok (bulk_set now ?xid userId assigner d)
      \<and> d_assignedToXID (bulk_set now ?xid userId assigner d) = Some ?xid \<and> d_id (bulk_set now ?xid userId assigner d) = d_id d"
    if "bulk_filter firm ids d" for d
    using that take_assigned_ok [OF _ x] by (simp add: bulk_set_def assign_set_def)
  then show ?thesis using r by simp
qed

theorem bulk_assign_exact_witness:
  "\<exists>ds' cases. snd (bulkAssignCasesToUser 5 ''FIRM1'' [''CASE-20260108-00012''] (Some sample_user) None None [sample_docket])
     = Inr (ds', 1, 1, cases) \<and> d_assignedToXID (ds' ! 0) = Some ''X000123'' \<and> owned_ok (ds' ! 0)"
proof -
  let ?d = "bulk_set 5 ''X000123'' None None sample_docket"
  have f: "bulk_filter ''FIRM1'' [''CASE-20260108-00012''] sample_docket"
    and x: "js_upper (str_or_empty (u_xID sample_user)) = ''X000123''" by code_simp+
  have r: "snd (bulkAssignCasesToUser 5 ''FIRM1'' [''CASE-20260108-00012''] (Some sample_user) None None [sample_docket])
     = Inr ([?d], 1, 1, [?d])"
    by code_simp
  show ?thesis using bulk_assign_exact [OF r] r f x by auto
qed

text \<open>
  Fact. Unassigning undoes everything but filing: a docket in any status except \<open>FILED\<close>,
  a resolved one included, goes back to the workbasket without an owner, with the lifecycle of a new
  docket and in a state that agrees with its status, and the next pull takes it; a filed docket and
  a docket of another firm are not touched.
\<close>

theorem unassign_returns_to_pool:
  assumes "d_firmId d = Some firm" and "d_caseId d = Some i"
  shows "(d_status d = Some ''FILED'' \<longrightarrow> unassignDocket firm i (Some d) = None)
    \<and> (d_status d \<noteq> Some ''FILED'' \<longrightarrow>
        (\<exists>d'. unassignDocket firm i (Some d) = Some d' \<and> owned_ok d' \<and> state_ok d'
          \<and> d_lifecycle d' = Some ''WL'' \<and> pull_case_filter firm i d'
          \<and> (\<not> truthy (d_routedToTeamId d) \<longrightarrow> pull_filter isOid (Some i) firm d' = makeDocketQuery isOid (Some i) firm d)))
    \<and> (\<forall>other. other \<noteq> firm \<longrightarrow> unassignDocket other i (Some d) = None)"
proof -
  let ?u = "unassign_set d"
  have "owned_ok ?u \<and> state_ok ?u \<and> d_lifecycle ?u = Some ''WL'' \<and> pull_case_filter firm i ?u"
    using assms by (simp add: owned_ok_def state_ok_def canonical_state_def unassign_set_def getCanonicalDocketState_def
      state_of_assignment_def pull_case_filter_def)
  moreover have "pull_filter isOid (Some i) firm ?u = makeDocketQuery isOid (Some i) firm d" if "\<not> truthy (d_routedToTeamId d)"
    using that by (cases "d_routedToTeamId d") (auto simp: pull_filter_def unassign_set_def makeDocketQuery_def)
  ultimately show ?thesis using assms by (simp add: unassignDocket_def)
qed

theorem unassign_returns_to_pool_witness:
  "\<exists>d'. unassignDocket ''FIRM1'' ''CASE-20260108-00012'' (Some sample_resolved) = Some d' \<and> d_lifecycle d' = Some ''WL''"
proof -
  have "d_firmId sample_resolved = Some ''FIRM1''" "d_caseId sample_resolved = Some ''CASE-20260108-00012''"
    "d_status sample_resolved \<noteq> Some ''FILED''" by code_simp+
  with unassign_returns_to_pool [of sample_resolved] show ?thesis by blast
qed

end
