(* ===== verification/DocketApproval.thy ===== *)
theory DocketApproval
  imports DocketProperties
begin

section \<open>Approvals of dockets\<close>

text \<open>
  \<open>src/services/docketApproval.service.js\<close>: an approval is requested from an approver, decided
  once, and kept in the history of the docket; meanwhile the compliance state of the docket says whom
  it waits for.  A document here is the docket with its approval stage, its approval history and its
  compliance state.
\<close>

subsection \<open>State\<close>

record approval_stage =
  as_approval_type :: "string option"
  as_requested_by :: "string option"
  as_approver :: "string option"
  as_requested_at :: "int option"
  as_due_at :: "int option"
  as_status :: "string option"
  as_comments :: string
  as_evidence :: "string option"
  as_resume_to_state :: "string option"
  as_decided_at :: "int option"
  as_decided_by :: "string option"
  as_decision_comment :: string

record approval_doc =
  ad_docket :: docket
  ad_stage :: approval_stage
  ad_history :: "(approval_stage \<times> int) list"
  ad_compliance :: "string option"

definition APPROVAL_TYPES :: "string list" where
  "APPROVAL_TYPES = [''internal_partner'', ''client'', ''authorised_signatory'', ''other'']"

definition normalize_lower :: "string option \<Rightarrow> string" where
  "normalize_lower v = js_lower (js_trim (str_or_empty v))"

definition normalizeXid :: "string option \<Rightarrow> string" where
  "normalizeXid v = js_upper (js_trim (str_or_empty v))"

definition computePendingComplianceState :: "string \<Rightarrow> string option \<Rightarrow> string option" where
  "computePendingComplianceState approvalType currentState =
    (if approvalType = ''internal_partner'' then Some ''awaiting_partner''
     else if approvalType \<in> {''client'', ''authorised_signatory'', ''other''} then Some ''awaiting_client''
     else js_or currentState (Some ''in_progress''))"

text \<open>
  \<open>snapshotApprovalStage\<close>: the stage at an instant; missing strings are empty and empty ones
  missing, as \<open>||\<close> has it.
\<close>

definition or_null :: "string option \<Rightarrow> string option" where
  "or_null v = js_or v None"

definition snapshotApprovalStage :: "int \<Rightarrow> approval_stage \<Rightarrow> approval_stage \<times> int" where
  "snapshotApprovalStage now st =
    (st\<lparr>as_approval_type := or_null (as_approval_type st), as_requested_by := or_null (as_requested_by st),
        as_approver := or_null (as_approver st), as_status := or_null (as_status st),
        as_evidence := or_null (as_evidence st), as_resume_to_state := or_null (as_resume_to_state st),
        as_decided_by := or_null (as_decided_by st)\<rparr>, now)"

datatype approval_effect =
    ApprovalSaved
  | ApprovalNotify (an_user: string) (an_event: string) (an_docket: "string option")

definition save_approval :: "env \<Rightarrow> approval_doc \<Rightarrow> approval_doc \<Rightarrow> (approval_effect, approval_doc) outcome" where
  "save_approval e before after =
    seq (pure (save (e_revalidate e) (ad_docket before) (ad_docket after))) (\<lambda>d.
    seq (emit [ApprovalSaved]) (\<lambda>_. pure (Inr (after\<lparr>ad_docket := d\<rparr>))))"

subsection \<open>requestApproval\<close>

record approval_req =
  ar_requestedByXID :: "string option"
  ar_approvalType :: "string option"
  ar_approverXID :: "string option"
  ar_dueAt :: "int option"
  ar_comments :: "string option"
  ar_evidence :: "string option"
  ar_resumeToState :: "string option"

definition requested_stage :: "int \<Rightarrow> approval_req \<Rightarrow> approval_stage" where
  "requested_stage now r =
    (let resume = js_trim (str_or_empty (ar_resumeToState r))
     in \<lparr>as_approval_type = Some (normalize_lower (ar_approvalType r)),
         as_requested_by = Some (normalizeXid (ar_requestedByXID r)),
         as_approver = Some (normalizeXid (ar_approverXID r)), as_requested_at = Some now,
         as_due_at = ar_dueAt r, as_status = Some ''pending'',
         as_comments = take 1200 (js_trim (str_or_empty (ar_comments r))),
         as_evidence = (if truthy (ar_evidence r) then map_option js_trim (ar_evidence r) else None),
         as_resume_to_state = Some (if resume \<in> {''ready_to_file'', ''in_progress''} then resume else ''ready_to_file''),
         as_decided_at = None, as_decided_by = None, as_decision_comment = []\<rparr>)"

text \<open>\<open>ar_dueAt\<close> is \<open>toDateOrNull(dueAt)\<close>.\<close>

definition requestApproval ::
  "env \<Rightarrow> approval_req \<Rightarrow> approval_doc option \<Rightarrow> (approval_effect, approval_doc) outcome" where
  "requestApproval e r loaded =
    (let normalizedType = normalize_lower (ar_approvalType r); normalizedApprover = normalizeXid (ar_approverXID r)
     in if normalizedType \<notin> set APPROVAL_TYPES then pure (Inl (Thrown ''Invalid approval type'' (Some 400) None))
        else if normalizedApprover = [] then pure (Inl (Thrown ''Approver is required'' (Some 400) None))
        else (case loaded of None \<Rightarrow> pure (Inl (Thrown ''Docket not found'' (Some 404) None))
          | Some d \<Rightarrow>
             if as_status (ad_stage d) = Some ''pending''
             then pure (Inl (Thrown ''An approval request is already pending for this docket'' (Some 409) None))
             else
              (let h = (if truthy (as_status (ad_stage d))
                        then ad_history d @ [snapshotApprovalStage (e_now e) (ad_stage d)] else ad_history d);
                   d1 = d\<lparr>ad_history := h, ad_stage := requested_stage (e_now e) r,
                          ad_compliance := computePendingComplianceState normalizedType (ad_compliance d)\<rparr>
               in seq (save_approval e d d1) (\<lambda>d2.
                  seq (emit [ApprovalNotify normalizedApprover ''approval_requested''
                         (js_or (d_caseId (ad_docket d2)) (d_caseNumber (ad_docket d2)))]) (\<lambda>_.
                  pure (Inr d2))))))"

subsection \<open>decideApproval\<close>

definition decided_stage :: "int \<Rightarrow> string \<Rightarrow> string \<Rightarrow> string option \<Rightarrow> approval_stage \<Rightarrow> approval_stage" where
  "decided_stage now decision actor comment st =
    st\<lparr>as_status := Some decision, as_decided_at := Some now,
       as_decided_by := (if actor = [] then None else Some actor),
       as_decision_comment := take 1200 (js_trim (str_or_empty comment))\<rparr>"

definition decided_compliance :: "string \<Rightarrow> approval_stage \<Rightarrow> string" where
  "decided_compliance decision st =
    (if decision = ''approved''
     then (if as_resume_to_state st = Some ''in_progress'' then ''in_progress'' else ''ready_to_file'')
     else ''in_progress'')"

definition decideApproval ::
  "env \<Rightarrow> string option \<Rightarrow> string option \<Rightarrow> string option \<Rightarrow> approval_doc option \<Rightarrow> (approval_effect, approval_doc) outcome" where
  "decideApproval e actorXID decision comment loaded =
    (let normalizedDecision = normalize_lower decision
     in if normalizedDecision \<notin> {''approved'', ''rejected'', ''cancelled''}
        then pure (Inl (Thrown ''Decision must be approved, rejected, or cancelled'' (Some 400) None))
        else (case loaded of None \<Rightarrow> pure (Inl (Thrown ''Docket not found'' (Some 404) None))
          | Some d \<Rightarrow>
             (let st = ad_stage d; actor = normalizeXid actorXID; approver = normalizeXid (as_approver st)
              in if normalize_lower (as_status st) \<noteq> ''pending''
                 then pure (Inl (Thrown ''No pending approval exists for this docket'' (Some 409) None))
                 else if normalizedDecision \<noteq> ''cancelled'' \<and> approver \<noteq> [] \<and> actor \<noteq> [] \<and> approver \<noteq> actor
                 then pure (Inl (Thrown ''Only the assigned approver can approve/reject'' (Some 403) None))
                 else
                  (let st1 = decided_stage (e_now e) normalizedDecision actor comment st;
                       d1 = d\<lparr>ad_stage := st1, ad_history := ad_history d @ [snapshotApprovalStage (e_now e) st1],
                              ad_compliance := Some (decided_compliance normalizedDecision st)\<rparr>
                   in seq (save_approval e d d1) (\<lambda>d2.
                      seq (emit (if truthy (as_requested_by st1)
                             then [ApprovalNotify (str_or_empty (as_requested_by st1)) ''approval_decision''
                                     (js_or (d_caseId (ad_docket d2)) (d_caseNumber (ad_docket d2)))]
                             else [])) (\<lambda>_.
                      pure (Inr d2)))))))"

subsection \<open>The queue and reminders\<close>

definition approval_queue :: "string option \<Rightarrow> string option \<Rightarrow> int \<Rightarrow> approval_stage \<Rightarrow> bool" where
  "approval_queue view userXID now st =
    (let v = js_lower (js_trim (str_or_empty (js_or view (Some ''my_approvals''))))
     in as_status st = Some ''pending''
        \<and> (if v = ''my_approvals'' then truthy userXID \<longrightarrow> as_approver st = Some (normalizeXid userXID)
           else if v = ''awaiting_partner'' then as_approval_type st = Some ''internal_partner''
           else if v = ''awaiting_client_signatory'' then as_approval_type st \<in> {Some ''client'', Some ''authorised_signatory''}
           else if v = ''overdue'' then (case as_due_at st of None \<Rightarrow> False | Some t \<Rightarrow> t < now)
           else True))"

definition reminder_recipients :: "bool \<Rightarrow> approval_stage \<Rightarrow> string list" where
  "reminder_recipients escalate st =
    filter (\<lambda>x. x \<noteq> [])
      (js_unique (normalizeXid (as_approver st)
         # (if escalate \<and> truthy (as_requested_by st) then [normalizeXid (as_requested_by st)] else [])))"

definition sendApprovalReminderPlaceholder ::
  "bool \<Rightarrow> approval_doc option \<Rightarrow> (approval_effect, string list) outcome" where
  "sendApprovalReminderPlaceholder escalate loaded =
    (case loaded of None \<Rightarrow> pure (Inl (Thrown ''Docket not found'' (Some 404) None))
     | Some d \<Rightarrow>
        if normalize_lower (as_status (ad_stage d)) \<noteq> ''pending''
        then pure (Inl (Thrown ''No pending approval to remind'' (Some 409) None))
        else (let rs = reminder_recipients escalate (ad_stage d)
              in (map (\<lambda>x. ApprovalNotify x ''approval_reminder''
                        (js_or (d_caseId (ad_docket d)) (d_caseNumber (ad_docket d)))) rs, Inr rs)))"

subsection \<open>Facts\<close>

lemma pending_lower [simp]: "normalize_lower (Some ''pending'') = ''pending''"
  by code_simp

lemma decision_not_pending:
  "x \<in> {''approved'', ''rejected'', ''cancelled''} \<Longrightarrow> normalize_lower (Some x) \<noteq> ''pending''"
  by (elim insertE emptyE; simp) (code_simp+)

lemma save_error:
  assumes "save rv b x = Inl err"
  shows "err \<noteq> Thrown m (Some s) k"
  using assms
  by (auto simp: save_def Let_def enforceAssignedUserForWlOnSave_def check_def split: if_splits)

lemma requestApproval_InrE:
  assumes "snd (requestApproval e r (Some d)) = Inr d'"
  obtains "as_status (ad_stage d) \<noteq> Some ''pending''" "normalizeXid (ar_approverXID r) \<noteq> []"
    "normalize_lower (ar_approvalType r) \<in> set APPROVAL_TYPES"
    "ad_stage d' = requested_stage (e_now e) r"
    "ad_history d' = (if truthy (as_status (ad_stage d))
        then ad_history d @ [snapshotApprovalStage (e_now e) (ad_stage d)] else ad_history d)"
    "ad_compliance d' = computePendingComplianceState (normalize_lower (ar_approvalType r)) (ad_compliance d)"
  using assms
  by (auto simp: requestApproval_def Let_def save_approval_def res_bind_Inr_iff split: if_splits)

lemma decideApproval_InrE:
  assumes "snd (decideApproval e a dec c (Some d)) = Inr d'"
  obtains "normalize_lower dec \<in> {''approved'', ''rejected'', ''cancelled''}"
    "normalize_lower (as_status (ad_stage d)) = ''pending''"
    "ad_stage d' = decided_stage (e_now e) (normalize_lower dec) (normalizeXid a) c (ad_stage d)"
    "ad_history d' = ad_history d @ [snapshotApprovalStage (e_now e) (ad_stage d')]"
    "ad_compliance d' = Some (decided_compliance (normalize_lower dec) (ad_stage d))"
    "normalize_lower dec = ''cancelled'' \<or> normalizeXid (as_approver (ad_stage d)) = [] \<or> normalizeXid a = []
      \<or> normalizeXid (as_approver (ad_stage d)) = normalizeXid a"
  using assms
  by (auto simp: decideApproval_def Let_def save_approval_def res_bind_Inr_iff split: if_splits)

subsection \<open>Properties\<close>

definition sample_approval_doc :: approval_doc where
  "sample_approval_doc = \<lparr>ad_docket = sample_pulled, ad_stage = \<lparr>as_approval_type = None, as_requested_by = None,
     as_approver = None, as_requested_at = None, as_due_at = None, as_status = None, as_comments = [], as_evidence = None,
     as_resume_to_state = Some ''ready_to_file'', as_decided_at = None, as_decided_by = None, as_decision_comment = []\<rparr>,
     ad_history = [], ad_compliance = Some ''closed''\<rparr>"

definition sample_approval_req :: approval_req where
  "sample_approval_req = \<lparr>ar_requestedByXID = Some ''x000123'', ar_approvalType = Some ''client'',
     ar_approverXID = Some ''x000777'', ar_dueAt = None, ar_comments = Some '' please '', ar_evidence = None,
     ar_resumeToState = None\<rparr>"

definition sample_requested :: approval_doc where
  "sample_requested = sample_approval_doc\<lparr>ad_stage := requested_stage 1000000 sample_approval_req,
     ad_compliance := Some ''awaiting_client''\<rparr>"

definition sample_decided :: approval_doc where
  "sample_decided = sample_requested\<lparr>ad_stage := decided_stage 1000000 ''approved'' ''X000777'' (Some ''ok'') (ad_stage sample_requested),
     ad_history := [snapshotApprovalStage 1000000 (decided_stage 1000000 ''approved'' ''X000777'' (Some ''ok'') (ad_stage sample_requested))],
     ad_compliance := Some ''ready_to_file''\<rparr>"

lemma sample_request: "snd (requestApproval sample_env sample_approval_req (Some sample_approval_doc)) = Inr sample_requested"
  by code_simp

lemma sample_decision:
  "snd (decideApproval sample_env (Some ''x000777'') (Some ''Approved'') (Some ''ok'') (Some sample_requested)) = Inr sample_decided"
  by code_simp



text \<open>
  Fact. Who may decide: on a pending approval whose approver is known, an approval or a
  rejection is refused with 403, and without an effect, exactly when the caller has an identity and it
  is not the approver's, up to case and blanks; a caller without an identity is let through, and so is
  a cancellation by anybody.
\<close>

theorem approval_decider:
  assumes "normalize_lower (as_status (ad_stage d)) = ''pending''" and "normalizeXid (as_approver (ad_stage d)) \<noteq> []"
    and "normalize_lower dec \<in> {''approved'', ''rejected'', ''cancelled''}"
  shows "(decideApproval e a dec c (Some d) = ([], Inl (Thrown ''Only the assigned approver can approve/reject'' (Some 403) None)))
     = (normalize_lower dec \<noteq> ''cancelled'' \<and> normalizeXid a \<noteq> [] \<and> normalizeXid (as_approver (ad_stage d)) \<noteq> normalizeXid a)
    \<and> (is_error (save (e_revalidate e) (ad_docket d) (ad_docket d)) = False \<and>
         (normalizeXid a = [] \<or> normalizeXid a = normalizeXid (as_approver (ad_stage d)))
       \<longrightarrow> (\<exists>d'. snd (decideApproval e a dec c (Some d)) = Inr d' \<and> as_status (ad_stage d') = Some (normalize_lower dec)))"
proof (intro conjI impI)
  let ?err = "Thrown ''Only the assigned approver can approve/reject'' (Some 403) None"
  let ?bad = "normalize_lower dec \<noteq> ''cancelled'' \<and> normalizeXid a \<noteq> [] \<and> normalizeXid (as_approver (ad_stage d)) \<noteq> normalizeXid a"
  show "(decideApproval e a dec c (Some d) = ([], Inl ?err)) = ?bad"
  proof (cases ?bad)
    case True
    then show ?thesis using assms by (auto simp: decideApproval_def Let_def pure_def)
  next
    case False
    have "snd (decideApproval e a dec c (Some d)) \<noteq> Inl ?err"
    proof (cases "save (e_revalidate e) (ad_docket d) (ad_docket d)")
      case (Inl x)
      then show ?thesis using assms False save_error [OF Inl]
        by (simp add: decideApproval_def Let_def save_approval_def)
    next
      case (Inr x)
      then show ?thesis using assms False
        by (simp add: decideApproval_def Let_def save_approval_def)
    qed
    then show ?thesis using False by (metis snd_conv)
  qed
next
  assume a: "is_error (save (e_revalidate e) (ad_docket d) (ad_docket d)) = False
    \<and> (normalizeXid a = [] \<or> normalizeXid a = normalizeXid (as_approver (ad_stage d)))"
  then obtain d2 where "save (e_revalidate e) (ad_docket d) (ad_docket d) = Inr d2" by (auto simp: is_error_iff)
  then show "\<exists>d'. snd (decideApproval e a dec c (Some d)) = Inr d' \<and> as_status (ad_stage d') = Some (normalize_lower dec)"
    using assms a by (auto simp: decideApproval_def Let_def save_approval_def decided_stage_def)
qed

theorem approval_decider_witness:
  "snd (decideApproval sample_env (Some ''x000888'') (Some ''approved'') None (Some sample_requested))
     = Inl (Thrown ''Only the assigned approver can approve/reject'' (Some 403) None)
   \<and> (\<exists>d'. snd (decideApproval sample_env None (Some ''approved'') None (Some sample_requested)) = Inr d')"
proof -
  have 1: "normalize_lower (as_status (ad_stage sample_requested)) = ''pending''"
    "normalizeXid (as_approver (ad_stage sample_requested)) \<noteq> []"
    "normalize_lower (Some ''approved'') \<in> {''approved'', ''rejected'', ''cancelled''}" by code_simp+
  have 2: "normalize_lower (Some ''approved'') \<noteq> ''cancelled''" "normalizeXid (Some ''x000888'') \<noteq> []"
"normalizeXid (as_approver (ad_stage sample_requested)) \<noteq> normalizeXid (Some ''x000888'')"
    "is_error (save (e_revalidate sample_env) (ad_docket sample_requested) (ad_docket sample_requested)) = False"
    "normalizeXid None = []" by code_simp+
  show ?thesis
    using approval_decider [OF 1, of sample_env "Some ''x000888''" None] approval_decider [OF 1, of sample_env None None] 2 by auto
qed

text \<open>
  Fact. Requesting again after a decision records the decided approval twice: the history
  gets the decision when it is taken and the same stage once more when the next approval is requested;
  the two entries differ only in their instant.
\<close>

theorem approval_history_doubled:
  assumes "snd (decideApproval e a dec c (Some d)) = Inr d1" and "snd (requestApproval e1 r (Some d1)) = Inr d2"
  shows "\<exists>entry t1 t2. ad_history d2 = ad_history d @ [(entry, t1), (entry, t2)]
    \<and> as_status entry = Some (normalize_lower dec) \<and> t1 = e_now e \<and> t2 = e_now e1"
proof -
  from assms(1) obtain v: "normalize_lower dec \<in> {''approved'', ''rejected'', ''cancelled''}"
    and s: "ad_stage d1 = decided_stage (e_now e) (normalize_lower dec) (normalizeXid a) c (ad_stage d)"
    and h: "ad_history d1 = ad_history d @ [snapshotApprovalStage (e_now e) (ad_stage d1)]"
    by (elim decideApproval_InrE) simp
  have st: "as_status (ad_stage d1) = Some (normalize_lower dec)" by (simp add: s decided_stage_def)
  then have "truthy (as_status (ad_stage d1))" using v by auto
  then have "ad_history d2 = ad_history d1 @ [snapshotApprovalStage (e_now e1) (ad_stage d1)]"
    using assms(2) by (elim requestApproval_InrE) simp
  moreover have "as_status (fst (snapshotApprovalStage (e_now e) (ad_stage d1))) = Some (normalize_lower dec)"
    using v by (auto simp: snapshotApprovalStage_def st or_null_def js_or_def)
  ultimately show ?thesis using h by (auto simp: snapshotApprovalStage_def)
qed

definition sample_requested_again :: approval_doc where
  "sample_requested_again = sample_decided\<lparr>ad_stage := requested_stage 1000000 sample_approval_req,
     ad_history := ad_history sample_decided @ ad_history sample_decided, ad_compliance := Some ''awaiting_client''\<rparr>"

lemma sample_request_again:
  "snd (requestApproval sample_env sample_approval_req (Some sample_decided)) = Inr sample_requested_again"
  by code_simp

theorem approval_history_doubled_witness:
  "length (ad_history sample_requested_again) = 2"
  using approval_history_doubled [OF sample_decision sample_request_again]
  by (auto simp: sample_requested_def sample_approval_doc_def)

text \<open>
  Fact. Approvals override the compliance machine: whatever the compliance state was, a closed
  or filed one included, a request sets it to the state that waits for the approver's kind and a
  decision sets it to \<open>ready_to_file\<close> or \<open>in_progress\<close>; from \<open>closed\<close> the compliance machine
  allows neither.
\<close>

theorem approval_overrides_compliance:
  assumes "snd (requestApproval e r (Some d)) = Inr d1" and "snd (decideApproval e1 a dec c (Some d1)) = Inr d2"
  shows "ad_compliance d1 = Some (if normalize_lower (ar_approvalType r) = ''internal_partner'' then ''awaiting_partner'' else ''awaiting_client'')
    \<and> ad_compliance d2 \<in> {Some ''ready_to_file'', Some ''in_progress''}
    \<and> (ad_compliance d2 = Some ''ready_to_file'' \<longrightarrow> normalize_lower dec = ''approved'')
    \<and> (ad_compliance d = Some ''closed'' \<longrightarrow>
        \<not> canComplianceTransition (ad_compliance d) (ad_compliance d1) \<and> \<not> canComplianceTransition (ad_compliance d) (ad_compliance d2))"
proof -
  from assms(1) obtain t: "normalize_lower (ar_approvalType r) \<in> set APPROVAL_TYPES"
    and c1: "ad_compliance d1 = computePendingComplianceState (normalize_lower (ar_approvalType r)) (ad_compliance d)"
    by (elim requestApproval_InrE) simp
  from assms(2) have c2: "ad_compliance d2 = Some (decided_compliance (normalize_lower dec) (ad_stage d1))"
    by (elim decideApproval_InrE) simp
  have closed: "\<not> canComplianceTransition (Some ''closed'') x" for x
  proof -
    have "normalizeComplianceState (Some ''closed'') = Some Closed" by code_simp
    then show ?thesis by (simp add: canComplianceTransition_def split: option.split)
  qed
  show ?thesis using t closed
    by (auto simp: c1 c2 computePendingComplianceState_def APPROVAL_TYPES_def decided_compliance_def)
qed

theorem approval_overrides_compliance_witness:
  "ad_compliance sample_requested = Some ''awaiting_client''
   \<and> \<not> canComplianceTransition (Some ''closed'') (ad_compliance sample_requested)"
proof -
  have "normalize_lower (ar_approvalType sample_approval_req) \<noteq> ''internal_partner''" "ad_compliance sample_approval_doc = Some ''closed''"
    by code_simp+
  note A = approval_overrides_compliance [OF sample_request sample_decision] this
  then have "ad_compliance sample_requested = Some ''awaiting_client''" by (elim conjE) simp
  moreover have "\<not> canComplianceTransition (ad_compliance sample_approval_doc) (ad_compliance sample_requested)"
    using A by blast
  ultimately show ?thesis using A(3) by (simp only: simp_thms)
qed

end
