(* ===== verification/Decimal.thy ===== *)
theory Decimal
  imports JsPrelude
begin

section \<open>Decimal numerals\<close>

text \<open>
  \<open>String(n)\<close> of a natural number, \<open>padStart(w, '0')\<close>, \<open>parseInt(s, 10)\<close> of a string of
  digits, and how zero-padded numerals compare as strings.
\<close>

definition is_digit :: "char \<Rightarrow> bool" where
  "is_digit c \<longleftrightarrow> (48 \<le> (of_char c :: nat) \<and> (of_char c :: nat) \<le> 57)"

definition digit_nat :: "char \<Rightarrow> nat" where
  "digit_nat c = of_char c - 48"

definition digit_char :: "nat \<Rightarrow> char" where
  "digit_char n = char_of (48 + n)"

fun decimal :: "nat \<Rightarrow> string" where
  "decimal n = (if n < 10 then [digit_char n] else decimal (n div 10) @ [digit_char (n mod 10)])"

declare decimal.simps [simp del]

definition padStart :: "nat \<Rightarrow> string \<Rightarrow> string" where
  "padStart w s = replicate (w - length s) CHR ''0'' @ s"

definition all_digits :: "string \<Rightarrow> bool" where
  "all_digits s \<longleftrightarrow> s \<noteq> [] \<and> list_all is_digit s"

definition parse_dec :: "string \<Rightarrow> nat" where
  "parse_dec s = fold (\<lambda>c a. 10 * a + digit_nat c) s 0"

subsection \<open>Facts\<close>

lemma of_char_digit: "n < 10 \<Longrightarrow> (of_char (digit_char n) :: nat) = 48 + n"
  by (simp add: digit_char_def)

lemma digit_char_facts [simp]:
  "n < 10 \<Longrightarrow> is_digit (digit_char n)" "n < 10 \<Longrightarrow> digit_nat (digit_char n) = n"
  by (simp_all add: is_digit_def digit_nat_def of_char_digit)

lemma zero_char [simp]: "is_digit CHR ''0''" "digit_nat CHR ''0'' = 0"
  by (simp_all add: is_digit_def digit_nat_def)

lemma digit_nat_less: "is_digit c \<Longrightarrow> digit_nat c < 10"
  unfolding is_digit_def digit_nat_def by linarith

lemma digit_nat_order: "is_digit c \<Longrightarrow> is_digit d \<Longrightarrow> digit_nat c < digit_nat d \<longleftrightarrow> (of_char c :: nat) < of_char d"
  by (auto simp: is_digit_def digit_nat_def)

lemma digit_nat_eq: "is_digit c \<Longrightarrow> is_digit d \<Longrightarrow> digit_nat c = digit_nat d \<longleftrightarrow> c = d"
  by (auto simp: is_digit_def digit_nat_def) (metis eq_diff_iff of_char_eq_iff)

lemma parse_fold: "fold (\<lambda>c a. 10 * a + digit_nat c) s a = a * 10 ^ length s + parse_dec s"
proof (induction s arbitrary: a)
  case Nil
  then show ?case by (simp add: parse_dec_def)
next
  case (Cons c s)
  have "parse_dec (c # s) = digit_nat c * 10 ^ length s + parse_dec s"
    using Cons [of "digit_nat c"] by (simp add: parse_dec_def)
  then show ?case using Cons [of "10 * a + digit_nat c"] by (simp add: algebra_simps)
qed

lemma parse_dec_Nil [simp]: "parse_dec [] = 0"
  by (simp add: parse_dec_def)

lemma parse_dec_Cons: "parse_dec (c # s) = digit_nat c * 10 ^ length s + parse_dec s"
  using parse_fold [of s "digit_nat c"] by (simp add: parse_dec_def)

lemma parse_dec_snoc: "parse_dec (s @ [c]) = 10 * parse_dec s + digit_nat c"
  by (simp add: parse_dec_def)

lemma parse_dec_zeros [simp]: "parse_dec (replicate k CHR ''0'' @ s) = parse_dec s"
  by (induction k) (simp_all add: parse_dec_Cons)

lemma decimal_digits: "all_digits (decimal n)"
  by (induction n rule: decimal.induct) (subst decimal.simps, auto simp: all_digits_def)

lemma parse_decimal [simp]: "parse_dec (decimal n) = n"
proof (induction n rule: decimal.induct)
  case (1 n)
  then show ?case by (subst decimal.simps) (simp add: parse_dec_snoc parse_dec_Cons)
qed

lemma length_decimal: "0 < w \<Longrightarrow> length (decimal n) \<le> w \<longleftrightarrow> n < 10 ^ w"
proof (induction n arbitrary: w rule: decimal.induct)
  case (1 n)
  obtain v where w: "w = Suc v" using 1(2) by (cases w) auto
  show ?case
  proof (cases "n < 10")
    case True
    moreover have "n < 10 ^ w" using True w by (simp add: power_Suc less_le_trans [OF True])
    ultimately show ?thesis using w by (subst decimal.simps) simp
  next
    case False
    have "length (decimal (n div 10)) \<le> v \<longleftrightarrow> n div 10 < 10 ^ v"
    proof (cases "v = 0")
      case True
      then show ?thesis using False decimal_digits [of "n div 10"] by (auto simp: all_digits_def)
    next
      case v: False
      then show ?thesis using 1(1) [OF False] by simp
    qed
    moreover have "n div 10 < 10 ^ v \<longleftrightarrow> n < 10 ^ w" using w by (simp add: div_less_iff_less_mult mult.commute)
    ultimately show ?thesis using False w by (subst decimal.simps) simp
  qed
qed

lemma padStart_facts:
  "all_digits s \<Longrightarrow> all_digits (padStart w s)" "length (padStart w s) = max w (length s)" "parse_dec (padStart w s) = parse_dec s"
  by (auto simp: padStart_def all_digits_def list_all_iff)

definition padded :: "nat \<Rightarrow> nat \<Rightarrow> string" where
  "padded w n = padStart w (decimal n)"

lemma parse_padded [simp]: "parse_dec (padded w n) = n"
  by (simp add: padded_def padStart_facts)

lemma padded_digits [simp]: "all_digits (padded w n)"
  by (simp add: padded_def padStart_facts decimal_digits)

lemma length_padded: "0 < w \<Longrightarrow> length (padded w n) = w \<longleftrightarrow> n < 10 ^ w"
  using length_decimal [of w n] by (simp add: padded_def padStart_facts flip: max.absorb_iff1)

lemma length_padded_ge: "w \<le> length (padded w n)"
  by (simp add: padded_def padStart_facts)

lemma padded_inject [simp]: "padded w m = padded w n \<longleftrightarrow> m = n"
  by (metis parse_padded)

text \<open>Evaluation of literals by the simplifier.\<close>

lemma digit_char_literals:
  "digit_char 0 = CHR ''0''" "digit_char 1 = CHR ''1''" "digit_char (Suc 0) = CHR ''1''" "digit_char 2 = CHR ''2''" "digit_char 3 = CHR ''3''"
  "digit_char 4 = CHR ''4''" "digit_char 5 = CHR ''5''" "digit_char 6 = CHR ''6''" "digit_char 7 = CHR ''7''"
  "digit_char 8 = CHR ''8''" "digit_char 9 = CHR ''9''"
  by code_simp+

lemma replicate_literals:
  "replicate 2 c = [c, c]" "replicate 3 c = [c, c, c]" "replicate 4 c = [c, c, c, c]" "replicate 5 c = [c, c, c, c, c]"
  by (simp_all add: eval_nat_numeral)

lemmas padded_eval = padded_def padStart_def decimal.simps digit_char_literals replicate_literals

text \<open>Strings compare by the codes of their characters.\<close>

definition str_less :: "string \<Rightarrow> string \<Rightarrow> bool" where
  "str_less s t \<longleftrightarrow> map (of_char :: char \<Rightarrow> nat) s < map of_char t"

lemma str_less_Cons [simp]:
  "str_less (c # s) (d # t) \<longleftrightarrow> (of_char c :: nat) < of_char d \<or> c = d \<and> str_less s t"
  by (auto simp: str_less_def)

lemma parse_dec_bound: "list_all is_digit s \<Longrightarrow> parse_dec s < 10 ^ length s"
proof (induction s)
  case Nil
  then show ?case by simp
next
  case (Cons c s)
  then have d: "digit_nat c \<le> 9" and p: "parse_dec s < 10 ^ length s" using digit_nat_less [of c] by auto
  have "digit_nat c * 10 ^ length s \<le> 9 * 10 ^ length s" using d by (rule mult_right_mono) simp
  with p have "digit_nat c * 10 ^ length s + parse_dec s < 10 * 10 ^ length s" by linarith
  then show ?case by (simp only: parse_dec_Cons length_Cons power_Suc)
qed

lemma str_less_parse:
  "length s = length t \<Longrightarrow> list_all is_digit s \<Longrightarrow> list_all is_digit t \<Longrightarrow> str_less s t \<longleftrightarrow> parse_dec s < parse_dec t"
proof (induction s t rule: list_induct2)
  case Nil
  then show ?case by (simp add: str_less_def)
next
  case (Cons c s d t)
  then have b: "parse_dec s < 10 ^ length t" "parse_dec t < 10 ^ length t"
    using parse_dec_bound [of s] parse_dec_bound [of t] by auto
  have IH: "str_less s t \<longleftrightarrow> parse_dec s < parse_dec t" using Cons by simp
  have o: "digit_nat c < digit_nat d \<longleftrightarrow> (of_char c :: nat) < of_char d" "digit_nat c = digit_nat d \<longleftrightarrow> c = d"
    using Cons.prems digit_nat_order digit_nat_eq by auto
  have less: "x * 10 ^ length t + parse_dec s < y * 10 ^ length t + parse_dec t" if "x < y" for x y :: nat
  proof -
    have "(x + 1) * 10 ^ length t \<le> y * 10 ^ length t" using that by (intro mult_right_mono) auto
    then show ?thesis using b by (simp add: algebra_simps)
  qed
  have less': "\<not> x * 10 ^ length t + parse_dec s < y * 10 ^ length t + parse_dec t" if "y < x" for x y :: nat
  proof -
    have "(y + 1) * 10 ^ length t \<le> x * 10 ^ length t" using that by (intro mult_right_mono) auto
    then show ?thesis using b by (simp add: algebra_simps)
  qed
  show ?case
    using IH o Cons.hyps less [of "digit_nat c" "digit_nat d"] less' [of "digit_nat d" "digit_nat c"]
    by (cases "digit_nat c" "digit_nat d" rule: linorder_cases) (auto simp: parse_dec_Cons)
qed

lemma parse_dec_inject:
  assumes "length s = length t" "list_all is_digit s" "list_all is_digit t" "parse_dec s = parse_dec t"
  shows "s = t"
proof -
  have "\<not> str_less s t" "\<not> str_less t s" using assms str_less_parse [of s t] str_less_parse [of t s] by simp_all
  then have "map (of_char :: char \<Rightarrow> nat) s = map of_char t" unfolding str_less_def by (metis linorder_neqE)
  then show ?thesis by (simp add: inj_on_def inj_map_eq_map)
qed

lemma padded_of_parse:
  assumes "all_digits s"
  shows "padded (length s) (parse_dec s) = s"
proof -
  have d: "list_all is_digit s" "0 < length s" using assms by (auto simp: all_digits_def)
  then have "length (padded (length s) (parse_dec s)) = length s"
    using length_padded [of "length s" "parse_dec s"] parse_dec_bound [of s] by simp
  then show ?thesis using d padded_digits [of "length s" "parse_dec s"]
    by (intro parse_dec_inject) (simp_all add: all_digits_def)
qed

lemma padded_less: "m < 10 ^ w \<Longrightarrow> n < 10 ^ w \<Longrightarrow> 0 < w \<Longrightarrow> str_less (padded w m) (padded w n) \<longleftrightarrow> m < n"
  using str_less_parse [of "padded w m" "padded w n"] length_padded [of w m] length_padded [of w n]
    padded_digits [of w m] padded_digits [of w n]
  by (simp add: all_digits_def)

end
