(* ===== verification/SlaCalendar.thy ===== *)
theory SlaCalendar
  imports CaseSla DocketQuery Decimal
begin

section \<open>Due dates in business time\<close>

text \<open>
  The business calendar of \<open>src/services/caseSla.service.js\<close>: the normalisation of a firm's
  configuration and the computation of a due date.  The date arithmetic is luxon's, which is not
  part of the program; what the code uses of it on the instants of one time zone is the argument
  \<open>z\<close>: the weekday, the ISO date, \<open>set\<close> of hour and minute, and
  \<open>plus({ days: 1 }).startOf('day')\<close>.  Adding minutes and comparing are exact on instants.
\<close>

record zone =
  z_weekday :: "int \<Rightarrow> int"
  z_dateKey :: "int \<Rightarrow> string"
  z_at :: "int \<Rightarrow> int \<Rightarrow> int \<Rightarrow> int"
  z_nextDay :: "int \<Rightarrow> int"

subsection \<open>Configuration\<close>

record sla_config =
  sc_tatDurationMinutes :: int
  sc_businessStart :: "int \<times> int"
  sc_businessEnd :: "int \<times> int"
  sc_workingDays :: "int list"
  sc_holidayDates :: "string list"
  sc_workingDateOverrides :: "string list"

record raw_config =
  rc_tatDurationMinutes :: "rat option"
  rc_businessStartTime :: "string option"
  rc_businessEndTime :: "string option"
  rc_workingDays :: "rat list option"
  rc_holidayDates :: "string list option"
  rc_nonWorkingDates :: "string list option"
  rc_workingDateOverrides :: "string list option"

definition digit_value :: "char \<Rightarrow> int" where
  "digit_value c = int (of_char c :: nat) - 48"

definition two_digits :: "char \<Rightarrow> char \<Rightarrow> int" where
  "two_digits a b = 10 * digit_value a + digit_value b"

definition time_pattern :: "string \<Rightarrow> (int \<times> int) option" where
  "time_pattern s =
    (case s of [a, b, c, d, e] \<Rightarrow>
       if is_digit a \<and> is_digit b \<and> c = CHR '':'' \<and> is_digit d \<and> is_digit e
       then Some (two_digits a b, two_digits d e) else None
     | _ \<Rightarrow> None)"

text \<open>The fallback is given as a pair: the source splits the literals \<open>'10:00'\<close> and \<open>'18:00'\<close>.\<close>

definition parseTime :: "string option \<Rightarrow> int \<times> int \<Rightarrow> int \<times> int" where
  "parseTime v fallback =
    (case v of None \<Rightarrow> fallback
     | Some s \<Rightarrow>
        (case time_pattern s of None \<Rightarrow> fallback
         | Some (h, m) \<Rightarrow> if h < 0 \<or> h > 23 \<or> m < 0 \<or> m > 59 then fallback else (h, m)))"

definition default_workingDays :: "int list" where
  "default_workingDays = [1, 2, 3, 4, 5]"

text \<open>A day that is not a whole number never equals a weekday; it is kept as no day at all.\<close>

definition normalizeWorkingDays :: "rat list option \<Rightarrow> int list" where
  "normalizeWorkingDays days =
    (case days of None \<Rightarrow> default_workingDays
     | Some ds \<Rightarrow>
        (let normalized = js_unique (filter (\<lambda>d. 1 \<le> d \<and> d \<le> 7) ds)
         in if normalized = [] then default_workingDays
            else map floor (filter (\<lambda>d. of_int \<lfloor>d\<rfloor> = d) normalized)))"

definition iso_pattern :: "string \<Rightarrow> bool" where
  "iso_pattern s \<longleftrightarrow>
    (case s of [a, b, c, d, e, f, g, h, i, j] \<Rightarrow>
       is_digit a \<and> is_digit b \<and> is_digit c \<and> is_digit d \<and> e = CHR ''-'' \<and> is_digit f \<and> is_digit g
       \<and> h = CHR ''-'' \<and> is_digit i \<and> is_digit j
     | _ \<Rightarrow> False)"

text \<open>\<open>toKey\<close> is \<open>toDateKey\<close> of another spelling of a date, empty when luxon cannot read it.\<close>

definition normalizeDateKeyList :: "(string \<Rightarrow> string) \<Rightarrow> string list option \<Rightarrow> string list" where
  "normalizeDateKeyList toKey dates =
    (case dates of None \<Rightarrow> []
     | Some ds \<Rightarrow> js_unique (filter (\<lambda>k. k \<noteq> []) (map (\<lambda>d. if iso_pattern (js_trim d) then js_trim d else toKey d) ds)))"

definition minutes_of :: "int \<times> int \<Rightarrow> int" where
  "minutes_of t = fst t * 60 + snd t"

definition normalizeConfig :: "(string \<Rightarrow> string) \<Rightarrow> raw_config \<Rightarrow> sla_config" where
  "normalizeConfig toKey config =
    (let start = parseTime (rc_businessStartTime config) (10, 0);
         end_t = parseTime (rc_businessEndTime config) (18, 0);
         safeEnd = (if minutes_of end_t > minutes_of start then end_t else (18, 0))
     in \<lparr>sc_tatDurationMinutes = clampMinutes (case rc_tatDurationMinutes config of None \<Rightarrow> Some 480
             | Some q \<Rightarrow> if q = 0 then Some 480 else Some q),
         sc_businessStart = start, sc_businessEnd = safeEnd,
         sc_workingDays = normalizeWorkingDays (rc_workingDays config),
         sc_holidayDates = normalizeDateKeyList toKey
            (case rc_holidayDates config of Some h \<Rightarrow> Some h | None \<Rightarrow> rc_nonWorkingDates config),
         sc_workingDateOverrides = normalizeDateKeyList toKey (rc_workingDateOverrides config)\<rparr>)"

subsection \<open>Working time\<close>

definition isWorkingDateTime :: "zone \<Rightarrow> sla_config \<Rightarrow> int \<Rightarrow> bool" where
  "isWorkingDateTime z c t =
    (if z_dateKey z t \<in> set (sc_workingDateOverrides c) then True
     else if z_dateKey z t \<in> set (sc_holidayDates c) then False
     else z_weekday z t \<in> set (sc_workingDays c))"

definition atBusinessStart :: "zone \<Rightarrow> sla_config \<Rightarrow> int \<Rightarrow> int" where
  "atBusinessStart z c t = z_at z (fst (sc_businessStart c)) (snd (sc_businessStart c)) t"

definition atBusinessEnd :: "zone \<Rightarrow> sla_config \<Rightarrow> int \<Rightarrow> int" where
  "atBusinessEnd z c t = z_at z (fst (sc_businessEnd c)) (snd (sc_businessEnd c)) t"

fun next_working :: "zone \<Rightarrow> sla_config \<Rightarrow> nat \<Rightarrow> int \<Rightarrow> int" where
  "next_working z c 0 t = t"
| "next_working z c (Suc n) t =
    (if isWorkingDateTime z c t then t else next_working z c n (atBusinessStart z c (z_nextDay z t)))"

definition moveToNextWorkingDayStart :: "zone \<Rightarrow> sla_config \<Rightarrow> int \<Rightarrow> int" where
  "moveToNextWorkingDayStart z c t = next_working z c 370 (atBusinessStart z c (z_nextDay z t))"

definition MAX_CALENDAR_DAYS_LOOKAHEAD :: nat where
  "MAX_CALENDAR_DAYS_LOOKAHEAD = 370"

fun align_loop :: "zone \<Rightarrow> sla_config \<Rightarrow> nat \<Rightarrow> int \<Rightarrow> int" where
  "align_loop z c 0 t = atBusinessStart z c t"
| "align_loop z c (Suc n) t =
    (if \<not> isWorkingDateTime z c t then align_loop z c n (moveToNextWorkingDayStart z c t)
     else if t < atBusinessStart z c t then atBusinessStart z c t
     else if t \<ge> atBusinessEnd z c t then align_loop z c n (moveToNextWorkingDayStart z c t)
     else t)"

definition alignToBusinessTime :: "zone \<Rightarrow> sla_config \<Rightarrow> int \<Rightarrow> int" where
  "alignToBusinessTime z c t = align_loop z c MAX_CALENDAR_DAYS_LOOKAHEAD t"

definition available_minutes :: "zone \<Rightarrow> sla_config \<Rightarrow> int \<Rightarrow> int" where
  "available_minutes z c t = max 0 ((atBusinessEnd z c t - t) div MS_PER_MINUTE)"

text \<open>The loop of \<open>calculateDueDate\<close>; its fuel is the \<open>safetyCounter\<close> of the source.\<close>

fun due_loop :: "zone \<Rightarrow> sla_config \<Rightarrow> nat \<Rightarrow> int \<Rightarrow> int \<Rightarrow> int" where
  "due_loop z c 0 remaining t = t"
| "due_loop z c (Suc n) remaining t =
    (if remaining \<le> 0 then t
     else
      (let available = available_minutes z c t
       in if available = 0 then due_loop z c n remaining (moveToNextWorkingDayStart z c t)
          else
           (let consumed = min remaining available; t' = t + consumed * MS_PER_MINUTE;
                remaining' = remaining - consumed
            in due_loop z c n remaining'
                 (if remaining' > 0 then moveToNextWorkingDayStart z c t' else t'))))"

definition safety_counter :: "sla_config \<Rightarrow> int \<Rightarrow> nat" where
  "safety_counter c remaining =
    (let day = max 1 (minutes_of (sc_businessEnd c) - minutes_of (sc_businessStart c))
     in MAX_CALENDAR_DAYS_LOOKAHEAD + nat (- ((- remaining) div day)))"

definition due_date :: "zone \<Rightarrow> sla_config \<Rightarrow> int \<Rightarrow> rat option \<Rightarrow> int" where
  "due_date z c startTime durationMinutes =
    (let remainingMinutes = clampMinutes durationMinutes; current = alignToBusinessTime z c startTime
     in if remainingMinutes = 0 then current
        else due_loop z c (safety_counter c remainingMinutes) remainingMinutes current)"

definition calculateDueDate :: "zone \<Rightarrow> (string \<Rightarrow> string) \<Rightarrow> int \<Rightarrow> rat option \<Rightarrow> raw_config \<Rightarrow> int" where
  "calculateDueDate z toKey startTime durationMinutes configInput =
    due_date z (normalizeConfig toKey configInput) startTime durationMinutes"

text \<open>A normalised configuration as an input: the fields of lines 75 to 85.\<close>

definition pad2 :: "int \<Rightarrow> string" where
  "pad2 n = [char_of (nat (48 + n div 10)), char_of (nat (48 + n mod 10))]"

definition time_string :: "int \<times> int \<Rightarrow> string" where
  "time_string t = pad2 (fst t) @ '':'' @ pad2 (snd t)"

definition config_input :: "sla_config \<Rightarrow> raw_config" where
  "config_input c =
    \<lparr>rc_tatDurationMinutes = Some (of_int (sc_tatDurationMinutes c)),
     rc_businessStartTime = Some (time_string (sc_businessStart c)),
     rc_businessEndTime = Some (time_string (sc_businessEnd c)),
     rc_workingDays = Some (map of_int (sc_workingDays c)),
     rc_holidayDates = Some (sc_holidayDates c), rc_nonWorkingDates = None,
     rc_workingDateOverrides = Some (sc_workingDateOverrides c)\<rparr>"

definition initializeCaseSla :: "zone \<Rightarrow> (string \<Rightarrow> string) \<Rightarrow> raw_config \<Rightarrow> int \<Rightarrow> int \<times> tat_clock" where
  "initializeCaseSla z toKey dbConfig now =
    (let config = normalizeConfig toKey dbConfig
     in (calculateDueDate z toKey now (Some (of_int (sc_tatDurationMinutes config))) (config_input config),
         \<lparr>tat_paused = False, tat_lastStartedAt = Some now, tat_accumulatedMinutes = Some 0, tat_totalMinutes = Some 0\<rparr>))"

end
