(* ===== verification/SlaDueDate.thy ===== *)
theory SlaDueDate
  imports SlaCalendar
begin

section \<open>What a due date promises\<close>

text \<open>
  The computation of a due date against its specification: \<open>business\<close> is the set of business
  instants, and \<open>consumes z c t m u\<close> says that working \<open>m\<close> whole business minutes from
  \<open>t\<close> on ends at \<open>u\<close>.
\<close>

subsection \<open>What the code relies on\<close>

text \<open>
  \<open>calendar_laws z day\<close> is the documented behaviour of luxon the code needs, for the local day
  number \<open>day\<close> of an instant: setting a time stays on the day and depends on the day only, two
  times of one day lie as far apart as the clock says (so no clock change between them), adding a day
  leads to the next one, days come in order, and the weekday and the ISO date are those of the day.
\<close>

definition clock_time :: "int \<times> int \<Rightarrow> bool" where
  "clock_time t \<longleftrightarrow> 0 \<le> fst t \<and> fst t \<le> 23 \<and> 0 \<le> snd t \<and> snd t \<le> 59"

definition calendar_laws :: "zone \<Rightarrow> (int \<Rightarrow> int) \<Rightarrow> bool" where
  "calendar_laws z day \<longleftrightarrow>
    (\<forall>h m t. clock_time (h, m) \<longrightarrow> day (z_at z h m t) = day t)
    \<and> (\<forall>h m t u. clock_time (h, m) \<and> day t = day u \<longrightarrow> z_at z h m t = z_at z h m u)
    \<and> (\<forall>h m h' m' t. clock_time (h, m) \<and> clock_time (h', m') \<longrightarrow>
         z_at z h' m' t - z_at z h m t = (minutes_of (h', m') - minutes_of (h, m)) * MS_PER_MINUTE)
    \<and> (\<forall>t. day (z_nextDay z t) = day t + 1)
    \<and> (\<forall>t u. day t < day u \<longrightarrow> t < u)
    \<and> (\<forall>t u. day t = day u \<longrightarrow> z_weekday z t = z_weekday z u \<and> z_dateKey z t = z_dateKey z u)"

text \<open>
  The configuration has its times in order, and the lookahead of 370 days always reaches a working
  day.
\<close>

definition config_ok :: "sla_config \<Rightarrow> bool" where
  "config_ok c \<longleftrightarrow> clock_time (sc_businessStart c) \<and> clock_time (sc_businessEnd c)
    \<and> minutes_of (sc_businessStart c) < minutes_of (sc_businessEnd c)"

definition recurrent :: "zone \<Rightarrow> sla_config \<Rightarrow> bool" where
  "recurrent z c \<longleftrightarrow> (\<forall>t. isWorkingDateTime z c (moveToNextWorkingDayStart z c t))"

subsection \<open>The specification\<close>

definition business :: "zone \<Rightarrow> sla_config \<Rightarrow> int \<Rightarrow> bool" where
  "business z c t \<longleftrightarrow> isWorkingDateTime z c t \<and> atBusinessStart z c t \<le> t \<and> t < atBusinessEnd z c t"

inductive consumes :: "zone \<Rightarrow> sla_config \<Rightarrow> int \<Rightarrow> int \<Rightarrow> int \<Rightarrow> bool" for z c where
  finish: "consumes z c t 0 t"
| work: "0 < n \<Longrightarrow> isWorkingDateTime z c t \<Longrightarrow> atBusinessStart z c t \<le> t
    \<Longrightarrow> t + n * MS_PER_MINUTE \<le> atBusinessEnd z c t
    \<Longrightarrow> consumes z c (t + n * MS_PER_MINUTE) m u \<Longrightarrow> consumes z c t (n + m) u"
| skip: "0 < m \<Longrightarrow> atBusinessEnd z c t - t < MS_PER_MINUTE
    \<Longrightarrow> consumes z c (moveToNextWorkingDayStart z c t) m u \<Longrightarrow> consumes z c t m u"

inductive_cases consumes_zeroE: "consumes z c t 0 u"

subsection \<open>Days\<close>

lemma MS_pos [simp]: "0 < MS_PER_MINUTE"
  by (simp add: MS_PER_MINUTE_def)

lemma laws_day_order: "calendar_laws z day \<Longrightarrow> day t < day u \<Longrightarrow> t < u"
  by (simp add: calendar_laws_def)

lemma laws_day_mono: "calendar_laws z day \<Longrightarrow> t \<le> u \<Longrightarrow> day t \<le> day u"
  using laws_day_order [of z day u t] by linarith

lemma laws_next: "calendar_laws z day \<Longrightarrow> day (z_nextDay z t) = day t + 1"
  by (simp add: calendar_laws_def)

lemma laws_start:
  assumes "calendar_laws z day" and "config_ok c"
  shows "day (atBusinessStart z c t) = day t" "day (atBusinessEnd z c t) = day t"
    and "day t = day u \<Longrightarrow> atBusinessStart z c t = atBusinessStart z c u"
    and "day t = day u \<Longrightarrow> atBusinessEnd z c t = atBusinessEnd z c u"
    and "atBusinessEnd z c t - atBusinessStart z c t
      = (minutes_of (sc_businessEnd c) - minutes_of (sc_businessStart c)) * MS_PER_MINUTE"
  using assms unfolding calendar_laws_def config_ok_def atBusinessStart_def atBusinessEnd_def
  by (metis prod.collapse)+

lemma start_before_end:
  assumes "calendar_laws z day" and "config_ok c"
  shows "atBusinessStart z c t < atBusinessEnd z c t"
proof -
  have "0 < (minutes_of (sc_businessEnd c) - minutes_of (sc_businessStart c)) * MS_PER_MINUTE"
    using assms(2) by (simp add: config_ok_def)
  then show ?thesis using laws_start(5) [OF assms, of t] by linarith
qed

lemma working_day:
  assumes "calendar_laws z day" and "day t = day u"
  shows "isWorkingDateTime z c t = isWorkingDateTime z c u"
proof -
  have "z_weekday z t = z_weekday z u" "z_dateKey z t = z_dateKey z u"
    using assms unfolding calendar_laws_def by blast+
  then show ?thesis by (simp add: isWorkingDateTime_def)
qed

lemma start_idem:
  assumes "calendar_laws z day" and "config_ok c"
  shows "atBusinessStart z c (atBusinessStart z c t) = atBusinessStart z c t"
  using laws_start(1,3) [OF assms] by metis

lemma next_working_spec:
  assumes L: "calendar_laws z day" "config_ok c"
  shows "t = atBusinessStart z c t \<Longrightarrow> u = next_working z c n t \<Longrightarrow>
    u = atBusinessStart z c u \<and> day t \<le> day u
    \<and> (\<forall>v. day t \<le> day v \<and> day v < day u \<longrightarrow> \<not> isWorkingDateTime z c v)"
proof (induction n arbitrary: t)
  case 0
  then have "u = t" by simp
  then show ?case using 0 by auto
next
  case (Suc n)
  show ?case
  proof (cases "isWorkingDateTime z c t")
    case True
    then have "u = t" using Suc.prems by simp
    then show ?thesis using Suc.prems by auto
  next
    case False
    let ?s = "atBusinessStart z c (z_nextDay z t)"
    have d: "day ?s = day t + 1" using laws_start(1) [OF L] laws_next [OF L(1)] by simp
    have IH: "u = atBusinessStart z c u" "day ?s \<le> day u" "\<forall>v. day ?s \<le> day v \<and> day v < day u \<longrightarrow> \<not> isWorkingDateTime z c v"
      using Suc.IH [of ?s] Suc.prems False start_idem [OF L] by auto
    have "\<not> isWorkingDateTime z c v" if "day t \<le> day v" "day v < day u" for v
      using that IH(3) d False working_day [OF L(1), of v t c] by (cases "day v = day t") auto
    then show ?thesis using IH d by auto
  qed
qed

lemma move_spec:
  assumes L: "calendar_laws z day" "config_ok c"
  shows "moveToNextWorkingDayStart z c t = atBusinessStart z c (moveToNextWorkingDayStart z c t)"
    "day t < day (moveToNextWorkingDayStart z c t)" "t < moveToNextWorkingDayStart z c t"
    "day t < day v \<Longrightarrow> day v < day (moveToNextWorkingDayStart z c t) \<Longrightarrow> \<not> isWorkingDateTime z c v"
proof -
  let ?s = "atBusinessStart z c (z_nextDay z t)" and ?u = "moveToNextWorkingDayStart z c t"
  have d: "day ?s = day t + 1" using laws_start(1) [OF L] laws_next [OF L(1)] by simp
  have N: "?u = atBusinessStart z c ?u" "day ?s \<le> day ?u" "\<forall>v. day ?s \<le> day v \<and> day v < day ?u \<longrightarrow> \<not> isWorkingDateTime z c v"
    using next_working_spec [OF L, of ?s ?u 370] start_idem [OF L] by (auto simp: moveToNextWorkingDayStart_def)
  show "?u = atBusinessStart z c ?u" by (rule N(1))
  show "day t < day ?u" using N(2) d by linarith
  then show "t < ?u" by (rule laws_day_order [OF L(1)])
  show "\<not> isWorkingDateTime z c v" if "day t < day v" "day v < day ?u" using N(3) d that by auto
qed

subsection \<open>Alignment\<close>

lemma day_start_business:
  assumes L: "calendar_laws z day" "config_ok c" and "isWorkingDateTime z c t" "t = atBusinessStart z c t"
  shows "business z c t"
proof -
  have "atBusinessStart z c t \<le> t" using assms(4) by linarith
  moreover have "t < atBusinessEnd z c t" using start_before_end [OF L, of t] assms(4) by linarith
  ultimately show ?thesis using assms(3) by (simp add: business_def)
qed

lemma align_at_start:
  assumes L: "calendar_laws z day" "config_ok c" and "isWorkingDateTime z c t" "t = atBusinessStart z c t"
  shows "align_loop z c (Suc n) t = t"
  using day_start_business [OF assms] assms(3) by (simp add: business_def)

lemma align_eq:
  "alignToBusinessTime z c t =
    (if \<not> isWorkingDateTime z c t then align_loop z c 369 (moveToNextWorkingDayStart z c t)
     else if t < atBusinessStart z c t then atBusinessStart z c t
     else if t \<ge> atBusinessEnd z c t then align_loop z c 369 (moveToNextWorkingDayStart z c t)
     else t)"
  using align_loop.simps(2) [of z c 369 t] by (simp add: alignToBusinessTime_def MAX_CALENDAR_DAYS_LOOKAHEAD_def)

lemma no_business_between:
  assumes L: "calendar_laws z day" "config_ok c" and R: "recurrent z c"
    and none_today: "\<And>v. day v = day t \<Longrightarrow> t \<le> v \<Longrightarrow> \<not> business z c v"
    and "t \<le> v" "v < moveToNextWorkingDayStart z c t"
  shows "\<not> business z c v"
proof -
  let ?u = "moveToNextWorkingDayStart z c t"
  have "day t \<le> day v" "day v \<le> day ?u" using assms(5,6) laws_day_mono [OF L(1)] by auto
  then consider "day v = day t" | "day t < day v" "day v < day ?u" | "day v = day ?u" by linarith
  then show ?thesis
  proof cases
    case 1
    then show ?thesis using none_today assms(5) by simp
  next
    case 2
    then show ?thesis using move_spec(4) [OF L] by (auto simp: business_def)
  next
    case 3
    then have "atBusinessStart z c v = ?u" using laws_start(3) [OF L, of v ?u] move_spec(1) [OF L, of t] by simp
    then show ?thesis using assms(6) by (simp add: business_def)
  qed
qed

lemma align_spec:
  assumes L: "calendar_laws z day" "config_ok c" and R: "recurrent z c"
  shows "business z c (alignToBusinessTime z c t) \<and> t \<le> alignToBusinessTime z c t
    \<and> (\<forall>v. t \<le> v \<and> v < alignToBusinessTime z c t \<longrightarrow> \<not> business z c v)"
proof -
  let ?u = "moveToNextWorkingDayStart z c t"
  have w: "isWorkingDateTime z c ?u" using R by (simp add: recurrent_def)
  have moved: "align_loop z c 369 ?u = ?u"
    using align_at_start [OF L w move_spec(1) [OF L], of 368] by simp
  have bu: "business z c ?u" by (rule day_start_business [OF L w move_spec(1) [OF L]])
  have same: "isWorkingDateTime z c v = isWorkingDateTime z c t" "atBusinessStart z c v = atBusinessStart z c t"
    "atBusinessEnd z c v = atBusinessEnd z c t" if "day v = day t" for v
    using working_day [OF L(1) that] laws_start(3,4) [OF L that] by simp_all
  show ?thesis
  proof (cases "business z c t")
    case True
    then have "alignToBusinessTime z c t = t"
      by (simp add: align_eq business_def)
    then show ?thesis using True by (intro conjI allI impI) auto
  next
    case False
    show ?thesis
    proof (cases "isWorkingDateTime z c t \<and> t < atBusinessStart z c t")
      case True
      let ?s = "atBusinessStart z c t"
      have a: "alignToBusinessTime z c t = ?s" using True by (simp add: align_eq)
      have d: "day ?s = day t" by (rule laws_start(1) [OF L])
      have "business z c ?s"
        using True same [OF d] start_before_end [OF L, of t] by (simp add: business_def)
      moreover have "\<not> business z c v" if "t \<le> v" "v < ?s" for v
      proof -
        have "day v = day t" using that d laws_day_mono [OF L(1), of t v] laws_day_mono [OF L(1), of v ?s] by linarith
        then show ?thesis using same(2) [of v] that by (simp add: business_def)
      qed
      ultimately show ?thesis using True a by simp
    next
      case late: False
      have a: "alignToBusinessTime z c t = ?u"
        using False late moved by (auto simp: align_eq business_def)
      have "\<not> business z c v" if "day v = day t" "t \<le> v" for v
        using False late same [OF that(1)] that(2) by (auto simp: business_def)
      then have "\<not> business z c v" if "t \<le> v" "v < ?u" for v
        using no_business_between [OF L R] that by blast
      then show ?thesis using a bu move_spec(3) [OF L, of t] by simp
    qed
  qed
qed

subsection \<open>The loop\<close>

definition day_minutes :: "sla_config \<Rightarrow> int" where
  "day_minutes c = minutes_of (sc_businessEnd c) - minutes_of (sc_businessStart c)"

definition days_needed :: "sla_config \<Rightarrow> int \<Rightarrow> nat" where
  "days_needed c m = nat (- ((- m) div day_minutes c))"

lemma day_minutes_pos: "config_ok c \<Longrightarrow> 0 < day_minutes c"
  by (simp add: config_ok_def day_minutes_def)

lemma days_needed_zero [simp]: "days_needed c 0 = 0"
  by (simp add: days_needed_def)

lemma days_needed_pos: "config_ok c \<Longrightarrow> 0 < m \<Longrightarrow> 0 < days_needed c m"
  using day_minutes_pos [of c] by (simp add: days_needed_def pos_imp_zdiv_neg_iff)

lemma days_needed_less:
  assumes "config_ok c" and "day_minutes c < m"
  shows "days_needed c (m - day_minutes c) < days_needed c m"
proof -
  have "(- m + day_minutes c) div day_minutes c = (- m) div day_minutes c + 1"
    using day_minutes_pos [OF assms(1)] div_add_self2 [of "day_minutes c" "- m"] by simp
  then have "- ((- (m - day_minutes c)) div day_minutes c) = - ((- m) div day_minutes c) - 1"
    by (simp add: algebra_simps)
  moreover have "0 < days_needed c m" using assms day_minutes_pos [OF assms(1)] by (intro days_needed_pos) auto
  ultimately show ?thesis by (simp add: days_needed_def)
qed

lemma days_needed_mono:
  assumes "config_ok c" and "m \<le> n" shows "days_needed c m \<le> days_needed c n"
proof -
  have "(- n) div day_minutes c \<le> (- m) div day_minutes c"
    using day_minutes_pos [OF assms(1)] assms(2) by (intro zdiv_mono1) auto
  then show ?thesis by (simp add: days_needed_def)
qed

lemma same_day_between:
  assumes L: "calendar_laws z day" "config_ok c" and "t \<le> v" "v \<le> atBusinessEnd z c t"
  shows "day v = day t" "atBusinessEnd z c v = atBusinessEnd z c t" "isWorkingDateTime z c v = isWorkingDateTime z c t"
proof -
  show d: "day v = day t"
    using assms(3,4) laws_day_mono [OF L(1), of t v] laws_day_mono [OF L(1), of v "atBusinessEnd z c t"]
      laws_start(2) [OF L, of t] by simp
  show "atBusinessEnd z c v = atBusinessEnd z c t" by (rule laws_start(4) [OF L d])
  show "isWorkingDateTime z c v = isWorkingDateTime z c t" by (rule working_day [OF L(1) d])
qed

text \<open>One round of the loop: as many of the remaining minutes as the day has left.\<close>

lemma work_step:
  assumes L: "calendar_laws z day" "config_ok c"
    and t: "isWorkingDateTime z c t" "atBusinessStart z c t \<le> t"
    and a: "a = available_minutes z c t" "0 < a" and m: "0 < m"
    and rest: "m \<le> a \<Longrightarrow> u = t + m * MS_PER_MINUTE"
      "a < m \<Longrightarrow> consumes z c (moveToNextWorkingDayStart z c (t + a * MS_PER_MINUTE)) (m - a) u"
  shows "consumes z c t m u"
proof -
  have av: "a = (atBusinessEnd z c t - t) div MS_PER_MINUTE" using a by (simp add: available_minutes_def max_def split: if_splits)
  have eq: "a * MS_PER_MINUTE = (atBusinessEnd z c t - t) - (atBusinessEnd z c t - t) mod MS_PER_MINUTE"
    by (simp add: av minus_mod_eq_div_mult)
  have le: "a * MS_PER_MINUTE \<le> atBusinessEnd z c t - t"
    unfolding eq using pos_mod_sign [OF MS_pos, of "atBusinessEnd z c t - t"] by linarith
  show ?thesis
  proof (cases "m \<le> a")
    case True
    then have "m * MS_PER_MINUTE \<le> a * MS_PER_MINUTE" by (simp add: MS_PER_MINUTE_def)
    then have "t + m * MS_PER_MINUTE \<le> atBusinessEnd z c t" using le by linarith
    then have "consumes z c t (m + 0) u"
      using True rest(1) by (intro consumes.work [OF m t]) (simp_all add: consumes.finish)
    then show ?thesis by simp
  next
    case False
    let ?v = "t + a * MS_PER_MINUTE"
    have "t \<le> ?v" "?v \<le> atBusinessEnd z c t" using le a(2) by (simp_all add: MS_PER_MINUTE_def)
    then have e: "atBusinessEnd z c ?v = atBusinessEnd z c t" by (rule same_day_between(2) [OF L])
    have "atBusinessEnd z c ?v - ?v < MS_PER_MINUTE"
      using e eq pos_mod_bound [OF MS_pos, of "atBusinessEnd z c t - t"] by linarith
    then have "consumes z c ?v (m - a) u"
      by (rule consumes.skip [rotated]) (use False rest(2) in simp_all)
    then have "consumes z c t (a + (m - a)) u"
      using le by (intro consumes.work [OF a(2) t]) simp_all
    then show ?thesis by simp
  qed
qed

lemma available_day_start:
  assumes L: "calendar_laws z day" "config_ok c" and "t = atBusinessStart z c t"
  shows "available_minutes z c t = day_minutes c"
proof -
  have "atBusinessEnd z c t - t = day_minutes c * MS_PER_MINUTE"
    using laws_start(5) [OF L, of t] assms(3) by (simp add: day_minutes_def)
  then show ?thesis using day_minutes_pos [OF L(2)] by (simp add: available_minutes_def MS_PER_MINUTE_def)
qed

lemma due_loop_day_start:
  assumes L: "calendar_laws z day" "config_ok c" and R: "recurrent z c"
  shows "isWorkingDateTime z c t \<Longrightarrow> t = atBusinessStart z c t \<Longrightarrow> 0 \<le> m \<Longrightarrow> days_needed c m \<le> n
    \<Longrightarrow> consumes z c t m (due_loop z c n m t)"
proof (induction n arbitrary: t m)
  case 0
  have "\<not> 0 < m"
  proof
    assume "0 < m"
    from days_needed_pos [OF L(2) this] "0.prems"(4) show False by simp
  qed
  then have "m = 0" using "0.prems"(3) by linarith
  then show ?case by (simp add: consumes.finish)
next
  case (Suc n)
  show ?case
  proof (cases "m = 0")
    case True
    then show ?thesis by (simp add: consumes.finish)
  next
    case False
    then have m: "0 < m" using Suc.prems(3) by simp
    have a: "available_minutes z c t = day_minutes c" by (rule available_day_start [OF L Suc.prems(2)])
    have pos: "0 < day_minutes c" by (rule day_minutes_pos [OF L(2)])
    have "atBusinessStart z c t \<le> t" using Suc.prems(2) by linarith
    moreover have "due_loop z c (Suc n) m t = t + m * MS_PER_MINUTE" if "m \<le> day_minutes c"
      using that m pos by (cases n) (simp_all add: a Let_def)
    moreover have "consumes z c (moveToNextWorkingDayStart z c (t + day_minutes c * MS_PER_MINUTE)) (m - day_minutes c)
        (due_loop z c (Suc n) m t)" if "day_minutes c < m"
    proof -
      let ?v = "moveToNextWorkingDayStart z c (t + day_minutes c * MS_PER_MINUTE)"
      have "days_needed c (m - day_minutes c) \<le> n" using days_needed_less [OF L(2) that] Suc.prems(4) by simp
      then have "consumes z c ?v (m - day_minutes c) (due_loop z c n (m - day_minutes c) ?v)"
        using R that by (intro Suc.IH) (auto simp: recurrent_def intro: move_spec(1) [OF L])
      then show ?thesis using that m pos by (simp add: a Let_def min_def)
    qed
    ultimately show ?thesis using Suc.prems(1) pos m by (intro work_step [OF L _ _ a [symmetric]]) auto
  qed
qed

lemma due_loop_consumes:
  assumes L: "calendar_laws z day" "config_ok c" and R: "recurrent z c"
    and t: "isWorkingDateTime z c t" "atBusinessStart z c t \<le> t" and m: "0 < m" and fuel: "Suc (days_needed c m) \<le> Suc n"
  shows "consumes z c t m (due_loop z c (Suc n) m t)"
proof -
  define a where "a = available_minutes z c t"
  have a0: "0 \<le> a" by (simp add: a_def available_minutes_def)
  have next_ok: "consumes z c (moveToNextWorkingDayStart z c v) k (due_loop z c n k (moveToNextWorkingDayStart z c v))"
    if "0 \<le> k" "k \<le> m" for v k
    using R that fuel days_needed_mono [OF L(2) that(2)]
    by (intro due_loop_day_start [OF L R]) (auto simp: recurrent_def intro: move_spec(1) [OF L])
  show ?thesis
  proof (cases "a = 0")
    case True
    have "atBusinessEnd z c t - t < MS_PER_MINUTE"
    proof (rule ccontr)
      assume "\<not> atBusinessEnd z c t - t < MS_PER_MINUTE"
      then have "MS_PER_MINUTE div MS_PER_MINUTE \<le> (atBusinessEnd z c t - t) div MS_PER_MINUTE"
        by (intro zdiv_mono1) (auto simp: MS_PER_MINUTE_def)
      then show False using True by (simp add: a_def available_minutes_def MS_PER_MINUTE_def max_def split: if_splits)
    qed
    then have "consumes z c t m (due_loop z c n m (moveToNextWorkingDayStart z c t))"
      by (rule consumes.skip [OF m]) (use m next_ok [of m t] in simp)
    then show ?thesis using True m by (simp add: a_def)
  next
    case False
    then have pos: "0 < a" using a0 by simp
    have 1: "due_loop z c (Suc n) m t = t + m * MS_PER_MINUTE" if "m \<le> a"
      using that m pos by (cases n) (simp_all add: a_def [symmetric] Let_def)
    have 2: "due_loop z c (Suc n) m t
        = due_loop z c n (m - a) (moveToNextWorkingDayStart z c (t + a * MS_PER_MINUTE))" if "a < m"
      using that m pos by (simp add: a_def [symmetric] Let_def min_def)
    show ?thesis
    proof (rule work_step [OF L t a_def pos m])
      assume "m \<le> a"
      then show "due_loop z c (Suc n) m t = t + m * MS_PER_MINUTE" by (rule 1)
    next
      assume less: "a < m"
      show "consumes z c (moveToNextWorkingDayStart z c (t + a * MS_PER_MINUTE)) (m - a) (due_loop z c (Suc n) m t)"
        unfolding 2 [OF less] using less pos by (intro next_ok) simp_all
    qed
  qed
qed

subsection \<open>The due date\<close>

lemma consumes_advances:
  assumes L: "calendar_laws z day" "config_ok c" and "consumes z c t m u"
  shows "t + m * MS_PER_MINUTE \<le> u"
  using assms(3)
proof (induction rule: consumes.induct)
  case (work n t m u)
  then show ?case by (simp add: algebra_simps)
next
  case (skip m t u)
  then show ?case using move_spec(3) [OF L, of t] by linarith
qed simp

lemma consumes_nonneg: "consumes z c t m u \<Longrightarrow> 0 \<le> m"
  by (induction rule: consumes.induct) auto

lemma consumes_zero: "consumes z c t 0 u \<Longrightarrow> u = t"
  by (erule consumes_zeroE) (auto dest: consumes_nonneg)

lemma consumes_ends_working:
  assumes L: "calendar_laws z day" "config_ok c" and "consumes z c t m u"
  shows "0 \<le> m \<and> (m > 0 \<longrightarrow> isWorkingDateTime z c u \<and> atBusinessStart z c u < u \<and> u \<le> atBusinessEnd z c u)"
  using assms(3)
proof (induction rule: consumes.induct)
  case (finish t)
  then show ?case by simp
next
  case (work n t m u)
  let ?v = "t + n * MS_PER_MINUTE"
  have v: "t < ?v" "?v \<le> atBusinessEnd z c t" using work.hyps by (simp_all add: MS_PER_MINUTE_def)
  show ?case
  proof (cases "m = 0")
    case True
    then have "u = ?v" using work.hyps(5) by (simp add: consumes_zero)
    moreover have "atBusinessStart z c ?v = atBusinessStart z c t"
      by (rule laws_start(3) [OF L same_day_between(1) [OF L less_imp_le [OF v(1)] v(2)]])
    moreover have "isWorkingDateTime z c ?v" "atBusinessEnd z c ?v = atBusinessEnd z c t"
      using same_day_between(2,3) [OF L less_imp_le [OF v(1)] v(2)] work.hyps(2) by simp_all
    moreover have "atBusinessStart z c t < ?v" using work.hyps(3) v(1) by linarith
    ultimately show ?thesis using v(2) work.hyps(1) True by simp
  next
    case False
    then show ?thesis using work.IH work.hyps(1) by simp
  qed
next
  case (skip m t u)
  then show ?case by simp
qed

lemma due_date_consumes:
  assumes L: "calendar_laws z day" "config_ok c" and R: "recurrent z c"
  shows "consumes z c (alignToBusinessTime z c t) (clampMinutes dur) (due_date z c t dur)"
proof (cases "clampMinutes dur = 0")
  case True
  then show ?thesis by (simp add: due_date_def Let_def consumes.finish)
next
  case False
  then have m: "0 < clampMinutes dur" using clampMinutes_nonneg [of dur] by linarith
  have b: "business z c (alignToBusinessTime z c t)" using align_spec [OF L R] by blast
  have "safety_counter c (clampMinutes dur) = Suc (369 + days_needed c (clampMinutes dur))"
    using day_minutes_pos [OF L(2)]
    by (simp add: safety_counter_def days_needed_def Let_def MAX_CALENDAR_DAYS_LOOKAHEAD_def day_minutes_def max_def)
  moreover have "consumes z c (alignToBusinessTime z c t) (clampMinutes dur)
      (due_loop z c (Suc (369 + days_needed c (clampMinutes dur))) (clampMinutes dur) (alignToBusinessTime z c t))"
    using b m by (intro due_loop_consumes [OF L R]) (auto simp: business_def)
  ultimately show ?thesis using False by (simp add: due_date_def Let_def)
qed

text \<open>
  C6. A due date is the exact amount of business time away: in a calendar that behaves as
  documented, with business hours in order and a working day always within reach, the computation
  starts at the first business instant at or after the start, works exactly the asked number of whole
  minutes inside the business hours of working days and moves to the next working day only when less
  than a minute of the day is left; the counter that bounds its loop never stops it early; and the due
  date lies in the business hours of a working day, at least the asked time after the start.
\<close>

theorem due_date_exact:
  assumes "calendar_laws z day" and "config_ok (normalizeConfig k raw)" and "recurrent z (normalizeConfig k raw)"
  shows "let c = normalizeConfig k raw; a = alignToBusinessTime z c t; m = clampMinutes dur; u = calculateDueDate z k t dur raw
    in business z c a \<and> t \<le> a \<and> (\<forall>v. t \<le> v \<and> v < a \<longrightarrow> \<not> business z c v)
       \<and> consumes z c a m u
       \<and> t + m * MS_PER_MINUTE \<le> u
       \<and> (m > 0 \<longrightarrow> isWorkingDateTime z c u \<and> atBusinessStart z c u < u \<and> u \<le> atBusinessEnd z c u)"
proof -
  let ?c = "normalizeConfig k raw"
  have A: "business z ?c (alignToBusinessTime z ?c t)" "t \<le> alignToBusinessTime z ?c t"
    "\<forall>v. t \<le> v \<and> v < alignToBusinessTime z ?c t \<longrightarrow> \<not> business z ?c v"
    using align_spec [OF assms, of t] by blast+
  have C: "consumes z ?c (alignToBusinessTime z ?c t) (clampMinutes dur) (calculateDueDate z k t dur raw)"
    unfolding calculateDueDate_def by (rule due_date_consumes [OF assms])
  show ?thesis
    unfolding Let_def
    using A C consumes_advances [OF assms(1,2) C] consumes_ends_working [OF assms(1,2) C] by auto
qed

subsection \<open>UTC, with the default configuration\<close>

definition MS_PER_DAY :: int where
  "MS_PER_DAY = 24 * 60 * MS_PER_MINUTE"

definition utc_day :: "int \<Rightarrow> int" where
  "utc_day t = t div MS_PER_DAY"

text \<open>Time zone UTC; the ISO dates are left out, so the example has no holidays.\<close>

definition utc_zone :: zone where
  "utc_zone = \<lparr>z_weekday = (\<lambda>t. (utc_day t + 3) mod 7 + 1), z_dateKey = (\<lambda>_. []),
     z_at = (\<lambda>h m t. utc_day t * MS_PER_DAY + minutes_of (h, m) * MS_PER_MINUTE),
     z_nextDay = (\<lambda>t. (utc_day t + 1) * MS_PER_DAY)\<rparr>"

lemma utc_day_at:
  "clock_time (h, m) \<Longrightarrow> utc_day (utc_day t * MS_PER_DAY + minutes_of (h, m) * MS_PER_MINUTE) = utc_day t"
proof -
  assume "clock_time (h, m)"
  then have "0 \<le> minutes_of (h, m) * MS_PER_MINUTE" "minutes_of (h, m) * MS_PER_MINUTE < MS_PER_DAY"
    by (simp_all add: clock_time_def minutes_of_def MS_PER_DAY_def MS_PER_MINUTE_def)
  then have "minutes_of (h, m) * MS_PER_MINUTE div MS_PER_DAY = 0" by (rule div_pos_pos_trivial)
  then show ?thesis by (simp add: utc_day_def MS_PER_DAY_def MS_PER_MINUTE_def)
qed

lemma utc_laws: "calendar_laws utc_zone utc_day"
proof -
  have "utc_day ((utc_day t + 1) * MS_PER_DAY) = utc_day t + 1" for t
    by (simp add: utc_day_def MS_PER_DAY_def MS_PER_MINUTE_def)
  moreover have "t < u" if "utc_day t < utc_day u" for t u
  proof (rule ccontr)
    assume "\<not> t < u"
    then have "utc_day u \<le> utc_day t" by (simp add: utc_day_def MS_PER_DAY_def MS_PER_MINUTE_def zdiv_mono1)
    then show False using that by simp
  qed
  ultimately show ?thesis
    by (simp add: calendar_laws_def utc_zone_def utc_day_at left_diff_distrib)
qed

lemma next_working_found:
  "isWorkingDateTime z c (((\<lambda>t. atBusinessStart z c (z_nextDay z t)) ^^ k) t) \<Longrightarrow> k \<le> n
    \<Longrightarrow> isWorkingDateTime z c (next_working z c n t)"
proof (induction k arbitrary: n t)
  case 0
  then show ?case by (cases n) simp_all
next
  case (Suc k)
  then obtain m where n: "n = Suc m" "k \<le> m" by (cases n) auto
  show ?case using Suc.IH [of "atBusinessStart z c (z_nextDay z t)" m] Suc.prems(1) n
    by (simp add: funpow_Suc_right del: funpow.simps)
qed

definition default_raw :: raw_config where
  "default_raw = \<lparr>rc_tatDurationMinutes = None, rc_businessStartTime = Some ''10:00'', rc_businessEndTime = Some ''18:00'',
     rc_workingDays = None, rc_holidayDates = None, rc_nonWorkingDates = None, rc_workingDateOverrides = None\<rparr>"

lemma default_config:
  "normalizeConfig k default_raw = \<lparr>sc_tatDurationMinutes = 480, sc_businessStart = (10, 0), sc_businessEnd = (18, 0),
     sc_workingDays = [1, 2, 3, 4, 5], sc_holidayDates = [], sc_workingDateOverrides = []\<rparr>"
proof -
  have "parseTime (Some ''10:00'') (10, 0) = (10, 0)" "parseTime (Some ''18:00'') (18, 0) = (18, 0)" by code_simp+
  then show ?thesis
    by (simp add: normalizeConfig_def default_raw_def normalizeWorkingDays_def default_workingDays_def
        normalizeDateKeyList_def minutes_of_def clampMinutes_def Let_def)
qed

lemma default_config_ok: "config_ok (normalizeConfig k default_raw)"
  by (simp add: default_config config_ok_def clock_time_def minutes_of_def)

lemma utc_working: "isWorkingDateTime utc_zone (normalizeConfig k default_raw) t \<longleftrightarrow> (utc_day t + 3) mod 7 < 5"
proof -
  have "0 \<le> (utc_day t + 3) mod 7" "(utc_day t + 3) mod 7 < 7" by simp_all
  then show ?thesis by (simp add: isWorkingDateTime_def default_config utc_zone_def) presburger
qed

lemma utc_recurrent: "recurrent utc_zone (normalizeConfig k default_raw)"
proof -
  let ?c = "normalizeConfig k default_raw"
  let ?step = "\<lambda>t. atBusinessStart utc_zone ?c (z_nextDay utc_zone t)"
  have step: "utc_day (?step t) = utc_day t + 1" for t
    using laws_start(1) [OF utc_laws default_config_ok] laws_next [OF utc_laws] by simp
  have steps: "utc_day ((?step ^^ j) s) = utc_day s + int j" for j s
    by (induction j) (simp_all add: step)
  have "isWorkingDateTime utc_zone ?c (next_working utc_zone ?c 370 s)" for s
  proof -
    define w where "w = (utc_day s + 3) mod 7"
    have "w = 0 \<or> w = 1 \<or> w = 2 \<or> w = 3 \<or> w = 4 \<or> w = 5 \<or> w = 6" unfolding w_def by presburger
    then obtain j :: nat where "j \<le> 2" "(utc_day s + int j + 3) mod 7 < 5"
    proof -
      assume a: "\<And>j. j \<le> 2 \<Longrightarrow> (utc_day s + int j + 3) mod 7 < 5 \<Longrightarrow> thesis"
      show thesis
      proof (cases "w < 5")
        case True
        then show thesis using a [of 0] by (simp add: w_def)
      next
        case False
        then have "(utc_day s + int 2 + 3) mod 7 < 5" unfolding w_def by presburger
        then show thesis using a [of 2] by simp
      qed
    qed
    then have "isWorkingDateTime utc_zone ?c ((?step ^^ j) s)" by (simp only: utc_working steps)
    then show ?thesis by (rule next_working_found) (use \<open>j \<le> 2\<close> in simp)
  qed
  then show ?thesis by (simp add: recurrent_def moveToNextWorkingDayStart_def)
qed

text \<open>Two hours from Friday at 17:00: due on Monday at 11:00.\<close>

theorem due_date_exact_witness:
  "calculateDueDate utc_zone (\<lambda>_. []) 147600000 (Some 120) default_raw = 385200000
   \<and> consumes utc_zone (normalizeConfig (\<lambda>_. []) default_raw) 147600000 120 385200000"
proof -
  have v: "calculateDueDate utc_zone (\<lambda>_. []) 147600000 (Some 120) default_raw = 385200000"
    and a: "alignToBusinessTime utc_zone (normalizeConfig (\<lambda>_. []) default_raw) 147600000 = 147600000" by code_simp+
  have m: "clampMinutes (Some 120) = 120" by (simp add: clampMinutes_def)
  show ?thesis
    using due_date_exact [OF utc_laws default_config_ok utc_recurrent, of "\<lambda>_. []" 147600000 "Some 120"]
    by (simp add: Let_def v a m)
qed

subsection \<open>Business hours\<close>

lemma time_pattern_nonneg: "time_pattern s = Some (h, m) \<Longrightarrow> 0 \<le> h \<and> 0 \<le> m"
  by (auto simp: time_pattern_def two_digits_def digit_value_def is_digit_def split: list.splits if_splits)

lemma parseTime_clock: "clock_time fb \<Longrightarrow> clock_time (parseTime v fb)"
  by (auto simp: parseTime_def clock_time_def split: option.splits prod.splits)

text \<open>
  Fact. Business hours are in order exactly when the configured ones can be: after
  normalisation both times are times of day, and the start lies before the end unless the configured
  start is 18:00 or later and the configured end is not after it.  So hours that cross midnight from
  an evening start, such as 19:00 to 09:00, end before they start, and no instant is business time.
\<close>

theorem business_hours_in_order:
  "clock_time (sc_businessStart (normalizeConfig k raw)) \<and> clock_time (sc_businessEnd (normalizeConfig k raw))
   \<and> (minutes_of (sc_businessStart (normalizeConfig k raw)) < minutes_of (sc_businessEnd (normalizeConfig k raw))
      \<longleftrightarrow> minutes_of (parseTime (rc_businessStartTime raw) (10, 0)) < 18 * 60
         \<or> minutes_of (parseTime (rc_businessStartTime raw) (10, 0)) < minutes_of (parseTime (rc_businessEndTime raw) (18, 0)))
   \<and> (rc_businessStartTime raw = Some ''19:00'' \<and> rc_businessEndTime raw = Some ''09:00''
      \<longrightarrow> (\<forall>t. \<not> business utc_zone (normalizeConfig k raw) t))"
proof (intro conjI impI allI)
  show "clock_time (sc_businessStart (normalizeConfig k raw))" "clock_time (sc_businessEnd (normalizeConfig k raw))"
    using parseTime_clock by (simp_all add: normalizeConfig_def Let_def clock_time_def)
  show "minutes_of (sc_businessStart (normalizeConfig k raw)) < minutes_of (sc_businessEnd (normalizeConfig k raw))
      \<longleftrightarrow> minutes_of (parseTime (rc_businessStartTime raw) (10, 0)) < 18 * 60
         \<or> minutes_of (parseTime (rc_businessStartTime raw) (10, 0)) < minutes_of (parseTime (rc_businessEndTime raw) (18, 0))"
    by (auto simp: normalizeConfig_def Let_def minutes_of_def)
next
  fix t assume a: "rc_businessStartTime raw = Some ''19:00'' \<and> rc_businessEndTime raw = Some ''09:00''"
  have "parseTime (Some ''19:00'') (10, 0) = (19, 0)" "parseTime (Some ''09:00'') (18, 0) = (9, 0)" by code_simp+
  then show "\<not> business utc_zone (normalizeConfig k raw) t"
    using a by (simp add: business_def atBusinessStart_def atBusinessEnd_def normalizeConfig_def Let_def utc_zone_def
        minutes_of_def MS_PER_MINUTE_def)
qed

theorem business_hours_in_order_witness:
  "\<not> business utc_zone (normalizeConfig (\<lambda>_. []) (default_raw\<lparr>rc_businessStartTime := Some ''19:00'', rc_businessEndTime := Some ''09:00''\<rparr>)) 0"
  using business_hours_in_order [of "\<lambda>_. []" "default_raw\<lparr>rc_businessStartTime := Some ''19:00'', rc_businessEndTime := Some ''09:00''\<rparr>"]
  by simp

end
