(* ===== verification/ExpiringStore.thy ===== *)
theory ExpiringStore
  imports JsPrelude "HOL-Library.AList"
begin

section \<open>In-memory stores with expiry\<close>

text \<open>
  The JavaScript \<open>Map\<close> that several guards keep in memory: an association list in the order of
  insertion, whose entries carry the instant they expire; \<open>ex\<close> reads that instant.  A guard first
  removes what has expired (\<open>purge\<close>) and then looks a key up, which is \<open>live\<close>.
\<close>

definition keys_distinct :: "('k \<times> 'e) list \<Rightarrow> bool" where
  "keys_distinct m \<longleftrightarrow> distinct (map fst m)"

definition purge :: "('e \<Rightarrow> int) \<Rightarrow> int \<Rightarrow> ('k \<times> 'e) list \<Rightarrow> ('k \<times> 'e) list" where
  "purge ex now m = filter (\<lambda>(k, e). \<not> ex e \<le> now) m"

definition live :: "('e \<Rightarrow> int) \<Rightarrow> int \<Rightarrow> 'k \<Rightarrow> ('k \<times> 'e) list \<Rightarrow> 'e option" where
  "live ex now k m = (case map_of m k of Some e \<Rightarrow> if ex e \<le> now then None else Some e | None \<Rightarrow> None)"

lemma keys_distinct_Nil [simp]: "keys_distinct []"
  by (simp add: keys_distinct_def)

lemma keys_distinct_update [simp]: "keys_distinct m \<Longrightarrow> keys_distinct (AList.update k v m)"
  by (simp add: keys_distinct_def distinct_update)

lemma keys_distinct_delete [simp]: "keys_distinct m \<Longrightarrow> keys_distinct (AList.delete k m)"
  by (simp add: keys_distinct_def distinct_delete)

lemma keys_distinct_purge [simp]: "keys_distinct m \<Longrightarrow> keys_distinct (purge ex now m)"
  by (auto simp: purge_def keys_distinct_def distinct_map intro: inj_on_subset)

lemma map_of_filter_value:
  "distinct (map fst m) \<Longrightarrow> map_of (filter (\<lambda>(k, e). P e) m) k
     = (case map_of m k of Some e \<Rightarrow> if P e then Some e else None | None \<Rightarrow> None)"
  by (induction m) (auto split: option.splits simp: map_of_eq_None_iff intro: rev_image_eqI)

lemma map_of_purge [simp]: "keys_distinct m \<Longrightarrow> map_of (purge ex now m) k = live ex now k m"
  by (simp add: purge_def keys_distinct_def live_def map_of_filter_value split: option.split)

lemma live_purge [simp]:
  assumes "keys_distinct m" and "v \<le> now"
  shows "live ex now k (purge ex v m) = live ex now k m"
  using assms by (simp add: live_def [of ex now k "purge ex v m"]) (auto simp: live_def split: option.splits)

lemma live_update [simp]:
  "live ex now k (AList.update j e m) = (if k = j then (if ex e \<le> now then None else Some e) else live ex now k m)"
  by (simp add: live_def update_conv')

lemma live_delete [simp]: "live ex now k (AList.delete j m) = (if k = j then None else live ex now k m)"
  by (simp add: live_def delete_conv')

lemma live_Nil [simp]: "live ex now k [] = None"
  by (simp add: live_def)

lemma live_Some_iff: "live ex now k m = Some e \<longleftrightarrow> map_of m k = Some e \<and> now < ex e"
  by (auto simp: live_def split: option.splits if_splits)

lemma live_mono: "live ex now k m = None \<Longrightarrow> now \<le> now' \<Longrightarrow> live ex now' k m = None"
  by (auto simp: live_def split: option.splits if_splits)

end
