(* ===== verification/Idempotency.thy ===== *)
theory Idempotency
  imports ExpiringStore
begin

section \<open>Idempotent requests\<close>

text \<open>
  \<open>src/middleware/idempotency.middleware.js\<close>: a request that changes something carries a key; while
  its entry lives, a second request with the key is answered with the stored response or refused.
  The memory store is an association list from keys to entries, in the order of insertion; an instant
  is one reading of the clock.  What Redis answers is an argument (\<open>ie_call\<close>).
\<close>

definition IDEMPOTENCY_TTL_SECONDS :: int where
  "IDEMPOTENCY_TTL_SECONDS = 60"

definition mutatingMethods :: "string list" where
  "mutatingMethods = [''POST'', ''PUT'', ''PATCH'', ''DELETE'']"

record 'b stored_response =
  sr_statusCode :: int
  sr_body :: 'b

record 'b idem_entry =
  en_completed :: bool
  en_response :: "'b stored_response option"
  en_startedAt :: int
  en_expiresAt :: int

type_synonym 'b idem_store = "(string \<times> 'b idem_entry) list"

datatype 'b start_result = Started | Is_completed "'b stored_response option" | Is_in_progress

subsection \<open>The memory store\<close>

definition purgeExpired :: "int \<Rightarrow> 'b idem_store \<Rightarrow> 'b idem_store" where
  "purgeExpired now m = purge en_expiresAt now m"

definition mem_start :: "int \<Rightarrow> string \<Rightarrow> int \<Rightarrow> 'b idem_store \<Rightarrow> 'b idem_store \<times> 'b start_result" where
  "mem_start now key ttlSeconds m0 =
    (let m = purgeExpired now m0
     in case map_of m key of
          Some e \<Rightarrow> (m, if en_completed e then Is_completed (en_response e) else Is_in_progress)
        | None \<Rightarrow> (AList.update key \<lparr>en_completed = False, en_response = None, en_startedAt = now,
                      en_expiresAt = now + ttlSeconds * 1000\<rparr> m, Started))"

definition mem_complete :: "int \<Rightarrow> string \<Rightarrow> 'b stored_response option \<Rightarrow> int \<Rightarrow> 'b idem_store \<Rightarrow> 'b idem_store" where
  "mem_complete now key response ttlSeconds m0 =
    (let m = purgeExpired now m0
     in case map_of m key of
          None \<Rightarrow> m
        | Some e \<Rightarrow> AList.update key (e\<lparr>en_completed := True, en_response := response,
                       en_expiresAt := now + ttlSeconds * 1000\<rparr>) m)"

definition mem_fail :: "string \<Rightarrow> 'b idem_store \<Rightarrow> 'b idem_store" where
  "mem_fail key m = AList.delete key m"

definition mem_reset :: "'b idem_store \<Rightarrow> 'b idem_store" where
  "mem_reset m = []"

definition mem_size :: "int \<Rightarrow> 'b idem_store \<Rightarrow> 'b idem_store \<times> nat" where
  "mem_size now m = (purgeExpired now m, length (purgeExpired now m))"

subsection \<open>The Redis store\<close>

text \<open>
  \<open>set_ok\<close>: the conditional \<open>SET ... NX\<close> wrote; \<open>got\<close>: what \<open>GET\<close> returned, which
  may not be JSON.
\<close>

datatype 'b redis_value = Not_json | Redis_value (rv_state: string) (rv_response: "'b stored_response option")

definition redis_start :: "bool \<Rightarrow> 'b redis_value option \<Rightarrow> 'b start_result" where
  "redis_start set_ok got =
    (if set_ok then Started
     else (case got of None \<Rightarrow> Is_in_progress
       | Some Not_json \<Rightarrow> Is_in_progress
       | Some (Redis_value st response) \<Rightarrow> if st = ''completed'' then Is_completed response else Is_in_progress))"

datatype 'b redis_write = Redis_set string "'b stored_response option" int | Redis_del string

subsection \<open>The key of a request\<close>

record idem_req =
  ir_method :: string
  ir_get :: "string option"
  ir_headers_lower :: "string option"
  ir_headers_title :: "string option"
  ir_route :: "string option"
  ir_baseUrl :: "string option"
  ir_path :: "string option"
  ir_originalUrl :: "string option"
  ir_firmSlug :: "string option"
  ir_firm_firmSlug :: "string option"
  ir_params_firmSlug :: "string option"
  ir_user_firmSlug :: "string option"
  ir_user_firmId :: "string option"
  ir_firmId :: "string option"

definition resolveKey :: "idem_req \<Rightarrow> string option" where
  "resolveKey r = (if truthy (ir_get r) then ir_get r else js_or (ir_headers_lower r) (ir_headers_title r))"

definition resolveRouteSegment :: "idem_req \<Rightarrow> string" where
  "resolveRouteSegment r =
    (let route = js_or (ir_route r) (js_or (ir_baseUrl r) (js_or (ir_path r)
                   (js_or (ir_originalUrl r) (Some ''unknown-route''))))
     in map (\<lambda>c. if c = CHR ''/'' then CHR '':'' else c) (filter (\<lambda>c. \<not> js_space c) (str_or_empty route)))"

definition resolveFirmSlug :: "idem_req \<Rightarrow> string" where
  "resolveFirmSlug r =
    str_or_empty (js_or (ir_firmSlug r) (js_or (ir_firm_firmSlug r) (js_or (ir_params_firmSlug r)
      (js_or (ir_user_firmSlug r) (js_or (ir_user_firmId r) (js_or (ir_firmId r) (Some ''unknown-firm'')))))))"

definition buildDistributedKey :: "idem_req \<Rightarrow> string \<Rightarrow> string" where
  "buildDistributedKey r idempotencyKey =
    ''idempotency:'' @ resolveRouteSegment r @ '':'' @ resolveFirmSlug r @ '':'' @ js_trim idempotencyKey"

subsection \<open>The middleware\<close>

datatype store_kind = Memory | Redis

datatype 'b redis_call = Redis_error | Redis_reply bool "'b redis_value option"

record 'b idem_env =
  ie_now :: int
  ie_production :: bool
  ie_client :: bool
  ie_ready :: bool
  ie_call :: "'b redis_call"

datatype 'b idem_reply =
    Pass_on "(string \<times> store_kind) option"
  | Key_required
  | Replay "'b stored_response"
  | Duplicate_request
  | Store_unavailable

definition getStore :: "'b idem_env \<Rightarrow> store_kind option" where
  "getStore e = (if ie_client e \<and> (ie_ready e \<or> ie_production e) then Some Redis
                 else if ie_production e then None else Some Memory)"

definition replayResponse :: "'b stored_response \<Rightarrow> 'b idem_reply" where
  "replayResponse s = Replay (s\<lparr>sr_statusCode := (if sr_statusCode s = 0 then 200 else sr_statusCode s)\<rparr>)"

definition start_reply :: "string \<Rightarrow> store_kind \<Rightarrow> 'b start_result \<Rightarrow> 'b idem_reply" where
  "start_reply key kind result =
    (case result of Is_completed (Some response) \<Rightarrow> replayResponse response
     | Started \<Rightarrow> Pass_on (Some (key, kind))
     | _ \<Rightarrow> Duplicate_request)"

definition memory_reply :: "int \<Rightarrow> string \<Rightarrow> 'b idem_store \<Rightarrow> 'b idem_store \<times> 'b idem_reply" where
  "memory_reply now key m =
    (let (m', result) = mem_start now key IDEMPOTENCY_TTL_SECONDS m in (m', start_reply key Memory result))"

definition idempotencyMiddleware :: "'b idem_env \<Rightarrow> idem_req \<Rightarrow> 'b idem_store \<Rightarrow> 'b idem_store \<times> 'b idem_reply" where
  "idempotencyMiddleware e r m =
    (if ir_method r \<notin> set mutatingMethods then (m, Pass_on None)
     else if \<not> truthy (resolveKey r) then (m, Key_required)
     else
      (let key = buildDistributedKey r (str_or_empty (resolveKey r))
       in case getStore e of
            None \<Rightarrow> (m, Store_unavailable)
          | Some Memory \<Rightarrow> memory_reply (ie_now e) key m
          | Some Redis \<Rightarrow>
             (case ie_call e of
                Redis_reply set_ok got \<Rightarrow> (m, start_reply key Redis (redis_start set_ok got))
              | Redis_error \<Rightarrow> if \<not> ie_production e then memory_reply (ie_now e) key m else (m, Store_unavailable))))"

text \<open>
  \<open>patchResponseCapture\<close>: when the response of a guarded request is finished.  \<open>captured\<close>
  is its JSON body, if it had one.
\<close>

definition patchResponseCapture ::
  "int \<Rightarrow> string \<Rightarrow> store_kind \<Rightarrow> int \<Rightarrow> 'b option \<Rightarrow> 'b idem_store \<Rightarrow> 'b idem_store \<times> 'b redis_write list" where
  "patchResponseCapture now key kind status captured m =
    (let response = map_option (\<lambda>b. \<lparr>sr_statusCode = status, sr_body = b\<rparr>) captured
     in case kind of
          Memory \<Rightarrow> (if status \<ge> 500 then mem_fail key m else mem_complete now key response IDEMPOTENCY_TTL_SECONDS m, [])
        | Redis \<Rightarrow> (m, [if status \<ge> 500 then Redis_del key else Redis_set key response IDEMPOTENCY_TTL_SECONDS]))"

subsection \<open>Runs\<close>

text \<open>
  Requests arriving and responses finishing on one server with the memory store; a run returns the
  store and the replies with their keys.
\<close>

datatype 'b idem_event = Arrives (ev_at: int) idem_req | Finishes (ev_at: int) string int "'b option"

definition mem_env :: "int \<Rightarrow> 'b idem_env" where
  "mem_env now = \<lparr>ie_now = now, ie_production = False, ie_client = False, ie_ready = False, ie_call = Redis_error\<rparr>"

definition request_key :: "idem_req \<Rightarrow> string" where
  "request_key r = buildDistributedKey r (str_or_empty (resolveKey r))"

fun idem_run :: "'b idem_event list \<Rightarrow> 'b idem_store \<Rightarrow> 'b idem_store \<times> (string \<times> 'b idem_reply) list" where
  "idem_run [] m = (m, [])"
| "idem_run (Arrives now r # es) m =
    (let (m1, reply) = idempotencyMiddleware (mem_env now) r m; (m2, rs) = idem_run es m1
     in (m2, (request_key r, reply) # rs))"
| "idem_run (Finishes now key status captured # es) m =
    idem_run es (fst (patchResponseCapture now key Memory status captured m))"

text \<open>What is known of a started key after some events: nothing, or its last completion.\<close>

fun last_completion :: "string \<Rightarrow> 'b stored_response option option \<Rightarrow> 'b idem_event list \<Rightarrow> 'b stored_response option option" where
  "last_completion k c [] = c"
| "last_completion k c (Arrives now r # es) = last_completion k c es"
| "last_completion k c (Finishes now key status captured # es) =
    last_completion k (if key = k then Some (map_option (\<lambda>b. \<lparr>sr_statusCode = status, sr_body = b\<rparr>) captured) else c) es"

definition second_reply :: "'b stored_response option option \<Rightarrow> 'b idem_reply" where
  "second_reply c = (case c of Some (Some response) \<Rightarrow> replayResponse response | _ \<Rightarrow> Duplicate_request)"

fun undisturbed :: "string \<Rightarrow> int \<Rightarrow> 'b idem_event \<Rightarrow> bool" where
  "undisturbed k t (Arrives now r) \<longleftrightarrow> t \<le> now \<and> now < t + 60000"
| "undisturbed k t (Finishes now key status captured) \<longleftrightarrow> t \<le> now \<and> now < t + 60000 \<and> (key = k \<longrightarrow> status < 500)"

subsection \<open>Facts of the store\<close>

abbreviation lookup :: "int \<Rightarrow> string \<Rightarrow> 'b idem_store \<Rightarrow> 'b idem_entry option" where
  "lookup \<equiv> live en_expiresAt"

lemmas lookup_def = live_def [of en_expiresAt]

lemma distinct_ops [simp]:
  assumes "keys_distinct m"
  shows "keys_distinct (fst (mem_start now k ttl m))" "keys_distinct (mem_complete now k rsp ttl m)" "keys_distinct (mem_fail k m)"
  using assms by (auto simp: mem_start_def mem_complete_def mem_fail_def purgeExpired_def Let_def split: option.splits)

lemma mem_start_spec:
  assumes "keys_distinct m"
  shows "map_of (fst (mem_start now k ttl m)) k' =
      (if k' = k \<and> lookup now k m = None
       then Some \<lparr>en_completed = False, en_response = None, en_startedAt = now, en_expiresAt = now + ttl * 1000\<rparr>
       else lookup now k' m)"
    and "snd (mem_start now k ttl m) =
      (case lookup now k m of None \<Rightarrow> Started | Some e \<Rightarrow> if en_completed e then Is_completed (en_response e) else Is_in_progress)"
  using assms by (auto simp: mem_start_def purgeExpired_def Let_def update_conv' split: option.splits)

lemma mem_complete_spec:
  assumes "keys_distinct m"
  shows "map_of (mem_complete now k rsp ttl m) k' =
      (case lookup now k m of
         Some e \<Rightarrow> if k' = k then Some (e\<lparr>en_completed := True, en_response := rsp, en_expiresAt := now + ttl * 1000\<rparr>) else lookup now k' m
       | None \<Rightarrow> lookup now k' m)"
  using assms by (auto simp: mem_complete_def purgeExpired_def Let_def update_conv' split: option.splits)

lemma mem_fail_spec: "map_of (mem_fail k m) k' = (if k' = k then None else map_of m k')"
  by (simp add: mem_fail_def delete_conv')


subsection \<open>One request at a time\<close>

text \<open>
  Starting a key is a conditional update, in the sense of \<open>claim\<close>: of any number of simultaneous
  requests for a free key one starts.
\<close>

definition key_free :: "int \<Rightarrow> string \<Rightarrow> 'b idem_store \<Rightarrow> bool" where
  "key_free now k m \<longleftrightarrow> keys_distinct m \<and> lookup now k m = None"

definition start_key :: "int \<Rightarrow> string \<Rightarrow> 'r \<Rightarrow> 'b idem_store \<Rightarrow> 'b idem_store" where
  "start_key now k r m = fst (mem_start now k IDEMPOTENCY_TTL_SECONDS m)"

interpretation starts: claim "key_free now k" "start_key now k" for now :: int and k :: string
  by unfold_locales (auto simp: key_free_def start_key_def IDEMPOTENCY_TTL_SECONDS_def mem_start_spec lookup_def)

lemma started_iff: "keys_distinct m \<Longrightarrow> snd (mem_start now k ttl m) = Started \<longleftrightarrow> key_free now k m"
  by (simp add: mem_start_spec key_free_def split: option.split)

subsection \<open>What a run preserves\<close>

lemma mem_env_reply:
  "idempotencyMiddleware (mem_env now) r m =
    (if ir_method r \<notin> set mutatingMethods then (m, Pass_on None)
     else if \<not> truthy (resolveKey r) then (m, Key_required)
     else memory_reply now (request_key r) m)"
  by (simp add: idempotencyMiddleware_def mem_env_def getStore_def request_key_def Let_def)

lemma memory_reply_store: "fst (memory_reply now k m) = fst (mem_start now k 60 m)"
  by (simp add: memory_reply_def IDEMPOTENCY_TTL_SECONDS_def split_beta)

lemma memory_reply_reply: "snd (memory_reply now k m) = start_reply k Memory (snd (mem_start now k 60 m))"
  by (simp add: memory_reply_def IDEMPOTENCY_TTL_SECONDS_def split_beta)

definition holds_key :: "string \<Rightarrow> int \<Rightarrow> 'b stored_response option option \<Rightarrow> 'b idem_store \<Rightarrow> bool" where
  "holds_key k until c m \<longleftrightarrow> keys_distinct m \<and>
    (\<exists>e. map_of m k = Some e \<and> until \<le> en_expiresAt e \<and> en_completed e = (c \<noteq> None) \<and> (\<forall>r. c = Some r \<longrightarrow> en_response e = r))"

lemma holds_key_lookup:
  "holds_key k until c m \<Longrightarrow> now < until \<Longrightarrow>
    \<exists>e. lookup now k m = Some e \<and> until \<le> en_expiresAt e \<and> en_completed e = (c \<noteq> None) \<and> (\<forall>r. c = Some r \<longrightarrow> en_response e = r)"
  by (auto simp: holds_key_def lookup_def)

lemma holds_key_reply:
  assumes "holds_key k until c m" and "now < until"
  shows "snd (memory_reply now k m) = second_reply c"
proof -
  obtain e where e: "lookup now k m = Some e" "en_completed e = (c \<noteq> None)" "\<forall>r. c = Some r \<longrightarrow> en_response e = r"
    using holds_key_lookup [OF assms] by blast
  have "keys_distinct m" using assms by (simp add: holds_key_def)
  then show ?thesis using e
    by (cases c) (auto simp: memory_reply_reply mem_start_spec start_reply_def second_reply_def split: option.splits)
qed

lemma holds_key_start:
  assumes "holds_key k until c m" and "now < until"
  shows "holds_key k until c (fst (mem_start now k' ttl m))"
  using assms holds_key_lookup [OF assms] by (auto simp: holds_key_def mem_start_spec)

lemma holds_key_middleware:
  "holds_key k until c m \<Longrightarrow> now < until \<Longrightarrow> holds_key k until c (fst (idempotencyMiddleware (mem_env now) r m))"
  by (simp add: mem_env_reply memory_reply_store holds_key_start)

lemma holds_key_finish:
  assumes h: "holds_key k (t + 60000) c m" and "undisturbed k t (Finishes now key status captured)"
  shows "holds_key k (t + 60000) (last_completion k c [Finishes now key status captured])
           (fst (patchResponseCapture now key Memory status captured m))"
proof (cases "status \<ge> 500")
  case True
  then show ?thesis using assms
    by (auto simp: patchResponseCapture_def holds_key_def mem_fail_spec)
next
  case False
  have d: "keys_distinct m" using h by (simp add: holds_key_def)
  have "now < t + 60000" using assms(2) by simp
  from holds_key_lookup [OF h this] obtain e where "lookup now k m = Some e" "t + 60000 \<le> en_expiresAt e"
    "en_completed e = (c \<noteq> None)" "\<forall>r. c = Some r \<longrightarrow> en_response e = r" by blast
  then show ?thesis using False d assms(2)
    by (auto simp: patchResponseCapture_def holds_key_def mem_complete_spec IDEMPOTENCY_TTL_SECONDS_def split: option.split)
qed

lemma last_completion_append:
  "last_completion k c (es @ fs) = last_completion k (last_completion k c es) fs"
  by (induction k c es rule: last_completion.induct) auto

lemma holds_key_run:
  "holds_key k (t + 60000) c m \<Longrightarrow> \<forall>ev\<in>set es. undisturbed k t ev \<Longrightarrow>
    holds_key k (t + 60000) (last_completion k c es) (fst (idem_run es m))
    \<and> (\<forall>(k', reply) \<in> set (snd (idem_run es m)). k' = k \<longrightarrow> reply \<noteq> Pass_on (Some (k, Memory)))"
proof (induction es arbitrary: c m)
  case Nil
  then show ?case by simp
next
  case (Cons ev es)
  show ?case
  proof (cases ev)
    case (Arrives now r)
    let ?m = "fst (idempotencyMiddleware (mem_env now) r m)"
    have n: "now < t + 60000" using Cons.prems Arrives by simp
    have "holds_key k (t + 60000) c ?m" using Cons.prems(1) n by (rule holds_key_middleware)
    moreover have "snd (idempotencyMiddleware (mem_env now) r m) \<noteq> Pass_on (Some (k, Memory))" if "request_key r = k"
      using holds_key_reply [OF Cons.prems(1) n] that
      by (auto simp: mem_env_reply second_reply_def replayResponse_def split: option.splits)
    ultimately show ?thesis using Cons.IH [of c ?m] Cons.prems(2) Arrives by (auto simp: split_beta)
  next
    case (Finishes now key status captured)
    then have "holds_key k (t + 60000) (last_completion k c [ev]) (fst (patchResponseCapture now key Memory status captured m))"
      using holds_key_finish [OF Cons.prems(1)] Cons.prems(2) by simp
    then show ?thesis using Cons.IH Cons.prems(2) Finishes by simp
  qed
qed

subsection \<open>Properties\<close>



definition sample_idem_req :: idem_req where
  "sample_idem_req = \<lparr>ir_method = ''POST'', ir_get = Some '' k-1 '', ir_headers_lower = None, ir_headers_title = None,
     ir_route = None, ir_baseUrl = Some ''/api/cases'', ir_path = Some ''/7/resolve'', ir_originalUrl = Some ''/api/cases/7/resolve'',
     ir_firmSlug = Some ''acme'', ir_firm_firmSlug = None, ir_params_firmSlug = None, ir_user_firmSlug = None,
     ir_user_firmId = None, ir_firmId = None\<rparr>"

definition sample_idem_key :: string where
  "sample_idem_key = ''idempotency::api:cases:acme:k-1''"

lemma sample_idem_key: "request_key sample_idem_req = sample_idem_key" "ir_method sample_idem_req \<in> set mutatingMethods"
  "truthy (resolveKey sample_idem_req)"
  by code_simp+

definition sample_started :: "string idem_store" where
  "sample_started = [(sample_idem_key, \<lparr>en_completed = False, en_response = None, en_startedAt = 1000, en_expiresAt = 61000\<rparr>)]"

lemma sample_idem_start:
  "idempotencyMiddleware (mem_env 1000) sample_idem_req [] = (sample_started, Pass_on (Some (sample_idem_key, Memory)))"
  by code_simp

definition sample_finish :: "string idem_event list" where
  "sample_finish = [Arrives 2000 sample_idem_req, Finishes 3000 sample_idem_key 201 (Some ''created'')]"


text \<open>
  Fact. A key is given back: a response with a server error frees its key, so that the same
  request may run again; and so does the end of its sixty seconds, even when the first request is still
  running, in which case the completion of the first is stored as the response of the second.
\<close>

theorem idempotent_retry:
  assumes "keys_distinct m" and "ir_method r \<in> set mutatingMethods" and "truthy (resolveKey r)"
    and "idempotencyMiddleware (mem_env t) r m = (m1, Pass_on (Some (k, Memory)))"
  shows "(status \<ge> 500 \<longrightarrow> snd (idempotencyMiddleware (mem_env now) r (fst (patchResponseCapture u k Memory status c m1)))
            = Pass_on (Some (k, Memory)))
    \<and> (t + 60000 \<le> now \<and> now \<le> v \<and> v < now + 60000 \<longrightarrow>
        (\<exists>m2. idempotencyMiddleware (mem_env now) r m1 = (m2, Pass_on (Some (k, Memory)))
          \<and> snd (idempotencyMiddleware (mem_env v) r (fst (patchResponseCapture v k Memory 200 (Some b) m2)))
              = Replay \<lparr>sr_statusCode = 200, sr_body = b\<rparr>))"
proof -
  have e: "memory_reply t (request_key r) m = (m1, Pass_on (Some (k, Memory)))"
    using assms by (simp add: mem_env_reply)
  then have "start_reply (request_key r) Memory (snd (mem_start t (request_key r) 60 m)) = Pass_on (Some (k, Memory))"
    by (metis memory_reply_reply snd_conv)
  then have k: "k = request_key r" "snd (mem_start t k 60 m) = Started"
    by (auto simp: start_reply_def replayResponse_def split: start_result.splits option.splits)
  have m1: "m1 = fst (mem_start t k 60 m)" using e by (metis k(1) memory_reply_store fst_conv)
  have d: "keys_distinct m1" using assms(1) by (simp add: m1)
  have free: "lookup t k m = None" using k(2) started_iff [OF assms(1)] by (auto simp: key_free_def)
  then have m1k: "map_of m1 k = Some \<lparr>en_completed = False, en_response = None, en_startedAt = t, en_expiresAt = t + 60000\<rparr>"
    using assms(1) by (simp add: m1 mem_start_spec)
  have pass: "snd (memory_reply now k m') = Pass_on (Some (k, Memory))" if "keys_distinct m'" "lookup now k m' = None" for m' :: "'b idem_store"
    using that by (simp add: memory_reply_reply mem_start_spec start_reply_def)
  have "snd (idempotencyMiddleware (mem_env now) r (fst (patchResponseCapture u k Memory status c m1))) = Pass_on (Some (k, Memory))"
    if "status \<ge> 500"
    using that assms(2,3) d k(1) by (simp add: mem_env_reply patchResponseCapture_def pass mem_fail_spec lookup_def flip: k(1))
  moreover
  have "\<exists>m2. idempotencyMiddleware (mem_env now) r m1 = (m2, Pass_on (Some (k, Memory)))
      \<and> snd (idempotencyMiddleware (mem_env v) r (fst (patchResponseCapture v k Memory 200 (Some b) m2)))
          = Replay \<lparr>sr_statusCode = 200, sr_body = b\<rparr>"
    if v: "t + 60000 \<le> now" "now \<le> v" "v < now + 60000"
  proof -
    let ?m2 = "fst (memory_reply now k m1)"
    have free2: "lookup now k m1 = None" using m1k v by (simp add: lookup_def)
    have "holds_key k (now + 60000) None ?m2"
      using d free2 by (simp add: holds_key_def memory_reply_store mem_start_spec)
    then have "holds_key k (now + 60000) (Some (Some \<lparr>sr_statusCode = 200, sr_body = b\<rparr>)) (fst (patchResponseCapture v k Memory 200 (Some b) ?m2))"
      using holds_key_finish [of k now None ?m2 v k 200 "Some b"] v by simp
    from holds_key_reply [OF this v(3)]
    have "snd (memory_reply v k (fst (patchResponseCapture v k Memory 200 (Some b) ?m2))) = Replay \<lparr>sr_statusCode = 200, sr_body = b\<rparr>"
      by (simp add: second_reply_def replayResponse_def)
    moreover have "memory_reply now k m1 = (?m2, Pass_on (Some (k, Memory)))"
      using pass [OF d free2] by (simp add: prod_eq_iff)
    ultimately show ?thesis using assms(2,3) k(1) by (intro exI [of _ ?m2]) (simp add: mem_env_reply prod_eq_iff)
  qed
  ultimately show ?thesis by blast
qed

theorem idempotent_retry_witness:
  "snd (idempotencyMiddleware (mem_env 4000) sample_idem_req
      (fst (patchResponseCapture 3000 sample_idem_key Memory 503 (Some ''down'') sample_started)))
     = Pass_on (Some (sample_idem_key, Memory))"
  using idempotent_retry [OF keys_distinct_Nil sample_idem_key(2,3) sample_idem_start] by simp

text \<open>
  Fact. What the key of a request distinguishes: under one mount, where no route has matched yet,
  it is the mount, the firm and the trimmed header, and not the method, the rest of the path or the user;
  so a different request of the firm that reuses a header value gets the response of the first.  The
  parts are not quoted: with one mount inside another the keys of two firms can be equal.
\<close>

theorem idempotency_key_scope:
  assumes "ir_route r = None" and "ir_route r' = None" and "ir_baseUrl r = Some mount" and "ir_baseUrl r' = Some mount" and "mount \<noteq> []"
    and "resolveFirmSlug r = resolveFirmSlug r'" and "js_trim (str_or_empty (resolveKey r)) = js_trim (str_or_empty (resolveKey r'))"
  shows "request_key r = request_key r'
    \<and> (\<exists>a b. resolveFirmSlug a = ''cases'' \<and> resolveFirmSlug b = ''acme'' \<and> ir_baseUrl a = Some ''/api'' \<and> ir_baseUrl b = Some ''/api/cases''
         \<and> request_key a = request_key b)"
proof -
  have "truthy (Some mount)" using \<open>mount \<noteq> []\<close> by (simp add: truthy_def)
  then have "request_key r = request_key r'"
    using assms by (simp add: request_key_def buildDistributedKey_def resolveRouteSegment_def js_or_def)
  moreover
  let ?a = "sample_idem_req\<lparr>ir_baseUrl := Some ''/api'', ir_firmSlug := Some ''cases'', ir_get := Some ''acme:k-1''\<rparr>"
  have "resolveFirmSlug ?a = ''cases''" "resolveFirmSlug sample_idem_req = ''acme''" "ir_baseUrl ?a = Some ''/api''"
    "ir_baseUrl sample_idem_req = Some ''/api/cases''" "request_key ?a = request_key sample_idem_req" by code_simp+
  ultimately show ?thesis by blast
qed

theorem idempotency_key_scope_witness:
  "request_key (sample_idem_req\<lparr>ir_method := ''DELETE'', ir_path := Some ''/9''\<rparr>) = sample_idem_key"
proof -
  let ?r = "sample_idem_req\<lparr>ir_method := ''DELETE'', ir_path := Some ''/9''\<rparr>"
  have "ir_route ?r = None" "ir_route sample_idem_req = None" "ir_baseUrl ?r = Some ''/api/cases''"
    "ir_baseUrl sample_idem_req = Some ''/api/cases''" "''/api/cases'' \<noteq> []"
    "resolveFirmSlug ?r = resolveFirmSlug sample_idem_req"
    "js_trim (str_or_empty (resolveKey ?r)) = js_trim (str_or_empty (resolveKey sample_idem_req))" by code_simp+
  from conjunct1 [OF idempotency_key_scope [OF this]] show ?thesis by (simp only: sample_idem_key)
qed

text \<open>
  Fact. The guard fails closed: without a key a changing request is refused, in production one
  without a working store is refused with 503, and a request that passes unguarded changes nothing; a
  Redis reply other than a fresh write never lets a request pass.
\<close>

theorem idempotency_fails_closed:
  "(snd (idempotencyMiddleware e r m) = Pass_on None \<longleftrightarrow> ir_method r \<notin> set mutatingMethods)
   \<and> (snd (idempotencyMiddleware e r m) = Key_required \<longleftrightarrow> ir_method r \<in> set mutatingMethods \<and> \<not> truthy (resolveKey r))
   \<and> (ie_production e \<and> (\<not> ie_client e \<or> ie_call e = Redis_error) \<and> ir_method r \<in> set mutatingMethods \<and> truthy (resolveKey r)
        \<longrightarrow> idempotencyMiddleware e r m = (m, Store_unavailable))
   \<and> (snd (idempotencyMiddleware e r m) = Pass_on (Some (k, Redis))
        \<longrightarrow> (\<exists>got. ie_call e = Redis_reply True got) \<and> k = request_key r \<and> fst (idempotencyMiddleware e r m) = m)"
  by (auto simp: idempotencyMiddleware_def memory_reply_def start_reply_def replayResponse_def getStore_def redis_start_def
        request_key_def Let_def split_beta
      split: option.splits store_kind.splits redis_call.splits redis_value.splits start_result.splits if_splits)

theorem idempotency_fails_closed_witness:
  "idempotencyMiddleware (mem_env 0\<lparr>ie_production := True\<rparr>) sample_idem_req sample_started = (sample_started, Store_unavailable)
   \<and> (let e = mem_env 0\<lparr>ie_client := True, ie_ready := True, ie_call := Redis_reply True None\<rparr>
      in snd (idempotencyMiddleware e sample_idem_req sample_started) = Pass_on (Some (sample_idem_key, Redis))
         \<and> fst (idempotencyMiddleware e sample_idem_req sample_started) = sample_started)"
proof -
  let ?e = "mem_env 0\<lparr>ie_client := True, ie_ready := True, ie_call := Redis_reply True None\<rparr> :: string idem_env"
  have "snd (idempotencyMiddleware ?e sample_idem_req sample_started) = Pass_on (Some (sample_idem_key, Redis))" by code_simp
  then show ?thesis
    using idempotency_fails_closed [of ?e sample_idem_req sample_started sample_idem_key]
      idempotency_fails_closed [of "mem_env 0\<lparr>ie_production := True\<rparr>" sample_idem_req sample_started sample_idem_key] sample_idem_key
    by (simp add: Let_def mem_env_def)
qed

end
