(* ===== verification/CircuitBreaker.thy ===== *)
theory CircuitBreaker
  imports JsPrelude "HOL-Library.AList"
begin

section \<open>Circuit breakers and degraded mode\<close>

text \<open>
  \<open>src/services/circuitBreaker.service.js\<close>, \<open>src/services/systemState.service.js\<close> and
  \<open>src/middleware/degradedGuard.js\<close>: named breakers count failures of a dependency; a breaker that
  trips degrades the system, and a degraded system refuses writes.  The module variables of both
  services are one record; the breakers are in the order of their creation.
\<close>

subsection \<open>State\<close>

datatype circuit = CLOSED | OPEN | HALF_OPEN

record breaker =
  br_state :: circuit
  br_failureCount :: nat
  br_lastFailureAt :: "int option"
  br_openedAt :: "int option"
  br_failureThreshold :: nat
  br_cooldownMs :: int

datatype system_state = NORMAL | DEGRADED

record system_health =
  sh_state :: system_state
  sh_reasons :: "(string \<times> int) list"
  sh_breakers :: "(string \<times> breaker) list"

subsection \<open>The system state\<close>

definition resetState :: "system_health \<Rightarrow> system_health" where
  "resetState w = w\<lparr>sh_state := NORMAL, sh_reasons := []\<rparr>"

definition markDegraded :: "int \<Rightarrow> string \<Rightarrow> system_health \<Rightarrow> system_health" where
  "markDegraded now reason w =
    (let w1 = w\<lparr>sh_state := DEGRADED\<rparr>
     in if reason \<in> fst ` set (sh_reasons w1) then w1 else w1\<lparr>sh_reasons := sh_reasons w1 @ [(reason, now)]\<rparr>)"

definition setState :: "system_state \<Rightarrow> system_health \<Rightarrow> system_health" where
  "setState nextState w =
    (let w1 = w\<lparr>sh_state := nextState\<rparr> in if nextState = NORMAL then w1\<lparr>sh_reasons := []\<rparr> else w1)"

definition isDegraded :: "system_health \<Rightarrow> bool" where
  "isDegraded w \<longleftrightarrow> sh_state w = DEGRADED"

subsection \<open>Breakers\<close>

definition fresh_breaker :: breaker where
  "fresh_breaker = \<lparr>br_state = CLOSED, br_failureCount = 0, br_lastFailureAt = None, br_openedAt = None,
     br_failureThreshold = 3, br_cooldownMs = 30000\<rparr>"

definition put_breaker :: "string \<Rightarrow> breaker \<Rightarrow> system_health \<Rightarrow> system_health" where
  "put_breaker name b w = w\<lparr>sh_breakers := AList.update name b (sh_breakers w)\<rparr>"

definition ensureBreaker :: "string \<Rightarrow> system_health \<Rightarrow> breaker" where
  "ensureBreaker name w = (case map_of (sh_breakers w) name of Some b \<Rightarrow> b | None \<Rightarrow> fresh_breaker)"

definition isAnyOpen :: "system_health \<Rightarrow> bool" where
  "isAnyOpen w \<longleftrightarrow> list_ex (\<lambda>(k, b). br_state b = OPEN) (sh_breakers w)"

definition recordSuccess :: "string \<Rightarrow> system_health \<Rightarrow> system_health" where
  "recordSuccess name w =
    (let b = (ensureBreaker name w)\<lparr>br_failureCount := 0\<rparr>
     in if br_state b \<noteq> CLOSED
        then (let w1 = put_breaker name (b\<lparr>br_state := CLOSED, br_openedAt := None, br_lastFailureAt := None\<rparr>) w
              in if \<not> isAnyOpen w1 then setState NORMAL w1 else w1)
        else put_breaker name b w)"

definition tripBreaker :: "int \<Rightarrow> string \<Rightarrow> breaker \<Rightarrow> system_health \<Rightarrow> system_health" where
  "tripBreaker now name b w =
    markDegraded now (''circuit:'' @ name) (put_breaker name (b\<lparr>br_state := OPEN, br_openedAt := Some now\<rparr>) w)"

definition recordFailure :: "int \<Rightarrow> string \<Rightarrow> system_health \<Rightarrow> system_health" where
  "recordFailure now name w =
    (let b0 = ensureBreaker name w;
         b = b0\<lparr>br_failureCount := br_failureCount b0 + 1, br_lastFailureAt := Some now\<rparr>
     in if br_failureThreshold b \<le> br_failureCount b \<and> br_state b \<noteq> OPEN then tripBreaker now name b w
        else put_breaker name b w)"

definition allow :: "int \<Rightarrow> string \<Rightarrow> system_health \<Rightarrow> system_health \<times> bool" where
  "allow now name w =
    (let b = ensureBreaker name w
     in if br_state b = OPEN
        then (let elapsed = now - (case br_openedAt b of Some t \<Rightarrow> t | None \<Rightarrow> 0)
              in if br_cooldownMs b \<le> elapsed then (put_breaker name (b\<lparr>br_state := HALF_OPEN\<rparr>) w, True)
                 else (put_breaker name b w, False))
        else (put_breaker name b w, True))"

definition configureBreaker :: "string \<Rightarrow> nat option \<Rightarrow> int option \<Rightarrow> system_health \<Rightarrow> system_health" where
  "configureBreaker name failureThreshold cooldownMs w =
    (let b = ensureBreaker name w
     in put_breaker name
          (b\<lparr>br_failureThreshold := (case failureThreshold of Some n \<Rightarrow> n | None \<Rightarrow> br_failureThreshold b),
             br_cooldownMs := (case cooldownMs of Some c \<Rightarrow> c | None \<Rightarrow> br_cooldownMs b)\<rparr>) w)"

subsection \<open>The guard\<close>

definition READ_ONLY_METHODS :: "string list" where
  "READ_ONLY_METHODS = [''GET'', ''HEAD'', ''OPTIONS'', ''TRACE'']"

definition starts_with :: "string \<Rightarrow> string \<Rightarrow> bool" where
  "starts_with p s \<longleftrightarrow> take (length p) s = p"

text \<open>The result says whether the request goes on; otherwise it is answered with 503.\<close>

definition degradedGuard :: "string \<Rightarrow> string \<Rightarrow> system_health \<Rightarrow> bool" where
  "degradedGuard path method w =
    (if starts_with ''/health'' path \<or> starts_with ''/metrics'' path then True
     else if \<not> isDegraded w then True
     else method \<in> set READ_ONLY_METHODS)"

subsection \<open>Histories\<close>

datatype breaker_event = Succeeds string | Fails int string | Asks int string

fun breaker_apply :: "breaker_event \<Rightarrow> system_health \<Rightarrow> system_health" where
  "breaker_apply (Succeeds k) w = recordSuccess k w"
| "breaker_apply (Fails now k) w = recordFailure now k w"
| "breaker_apply (Asks now k) w = fst (allow now k w)"

definition breaker_run :: "breaker_event list \<Rightarrow> system_health \<Rightarrow> system_health" where
  "breaker_run es w = fold breaker_apply es w"

definition initial_health :: system_health where
  "initial_health = \<lparr>sh_state = NORMAL, sh_reasons = [], sh_breakers = []\<rparr>"

text \<open>The specification: the failures of a name since its last success.\<close>

fun failures_since_success :: "string \<Rightarrow> nat \<Rightarrow> breaker_event list \<Rightarrow> nat" where
  "failures_since_success k n [] = n"
| "failures_since_success k n (Succeeds j # es) = failures_since_success k (if j = k then 0 else n) es"
| "failures_since_success k n (Fails now j # es) = failures_since_success k (if j = k then n + 1 else n) es"
| "failures_since_success k n (Asks now j # es) = failures_since_success k n es"

subsection \<open>Facts\<close>

definition names_distinct :: "system_health \<Rightarrow> bool" where
  "names_distinct w \<longleftrightarrow> distinct (map fst (sh_breakers w))"

lemma put_simps [simp]:
  "sh_state (put_breaker k b w) = sh_state w" "sh_reasons (put_breaker k b w) = sh_reasons w"
  "names_distinct w \<Longrightarrow> names_distinct (put_breaker k b w)"
  "ensureBreaker j (put_breaker k b w) = (if j = k then b else ensureBreaker j w)"
  by (simp_all add: put_breaker_def names_distinct_def distinct_update ensureBreaker_def update_conv')

lemma state_simps [simp]:
  "ensureBreaker k (setState s w) = ensureBreaker k w" "ensureBreaker k (markDegraded t r w) = ensureBreaker k w"
  "names_distinct (setState s w) = names_distinct w" "names_distinct (markDegraded t r w) = names_distinct w"
  "sh_state (setState s w) = s" "sh_state (markDegraded t r w) = DEGRADED"
  "sh_breakers (setState s w) = sh_breakers w" "sh_breakers (markDegraded t r w) = sh_breakers w"
  by (simp_all add: setState_def markDegraded_def ensureBreaker_def names_distinct_def Let_def)

lemma ensure_in: "(k, b) \<in> set (sh_breakers w) \<Longrightarrow> names_distinct w \<Longrightarrow> ensureBreaker k w = b"
  by (simp add: ensureBreaker_def names_distinct_def)

lemma ensure_notin: "ensureBreaker k w \<noteq> fresh_breaker \<Longrightarrow> (k, ensureBreaker k w) \<in> set (sh_breakers w)"
  by (auto simp: ensureBreaker_def dest: map_of_SomeD split: option.splits)

lemma isAnyOpen_iff: "isAnyOpen w \<longleftrightarrow> (\<exists>(k, b)\<in>set (sh_breakers w). br_state b = OPEN)"
  by (simp add: isAnyOpen_def list_ex_iff)

lemma isAnyOpen_ensure:
  assumes "names_distinct w"
  shows "isAnyOpen w \<longleftrightarrow> (\<exists>k. br_state (ensureBreaker k w) = OPEN)"
proof
  assume "isAnyOpen w"
  then obtain k b where "(k, b) \<in> set (sh_breakers w)" "br_state b = OPEN" by (auto simp: isAnyOpen_iff)
  then have "br_state (ensureBreaker k w) = OPEN" using ensure_in [OF _ assms] by metis
  then show "\<exists>k. br_state (ensureBreaker k w) = OPEN" ..
next
  assume "\<exists>k. br_state (ensureBreaker k w) = OPEN"
  then obtain k where o: "br_state (ensureBreaker k w) = OPEN" ..
  then have "ensureBreaker k w \<noteq> fresh_breaker" by (auto simp: fresh_breaker_def)
  from ensure_notin [OF this] o show "isAnyOpen w" by (auto simp: isAnyOpen_iff)
qed

lemma recordSuccess_facts:
  assumes "names_distinct w"
  shows "names_distinct (recordSuccess k w)"
    and "ensureBreaker j (recordSuccess k w) =
      (if j \<noteq> k then ensureBreaker j w
       else if br_state (ensureBreaker k w) = CLOSED then (ensureBreaker k w)\<lparr>br_failureCount := 0\<rparr>
       else (ensureBreaker k w)\<lparr>br_failureCount := 0, br_state := CLOSED, br_openedAt := None, br_lastFailureAt := None\<rparr>)"
    and "sh_state (recordSuccess k w) =
      (if br_state (ensureBreaker k w) \<noteq> CLOSED \<and> (\<forall>j. j \<noteq> k \<longrightarrow> br_state (ensureBreaker j w) \<noteq> OPEN) then NORMAL else sh_state w)"
  using assms by (auto simp: recordSuccess_def Let_def isAnyOpen_ensure)

lemma recordFailure_facts:
  assumes "names_distinct w"
  shows "names_distinct (recordFailure now k w)"
    and "ensureBreaker j (recordFailure now k w) =
      (let b0 = ensureBreaker k w; b = b0\<lparr>br_failureCount := br_failureCount b0 + 1, br_lastFailureAt := Some now\<rparr>
       in if j \<noteq> k then ensureBreaker j w
          else if br_failureThreshold b0 \<le> br_failureCount b0 + 1 \<and> br_state b0 \<noteq> OPEN
          then b\<lparr>br_state := OPEN, br_openedAt := Some now\<rparr> else b)"
    and "sh_state (recordFailure now k w) =
      (if br_failureThreshold (ensureBreaker k w) \<le> br_failureCount (ensureBreaker k w) + 1 \<and> br_state (ensureBreaker k w) \<noteq> OPEN
       then DEGRADED else sh_state w)"
  using assms by (auto simp: recordFailure_def tripBreaker_def Let_def)

definition cooled :: "int \<Rightarrow> breaker \<Rightarrow> bool" where
  "cooled now b \<longleftrightarrow> br_cooldownMs b \<le> now - (case br_openedAt b of Some t \<Rightarrow> t | None \<Rightarrow> 0)"

lemma allow_facts:
  assumes "names_distinct w"
  shows "names_distinct (fst (allow now k w))"
    and "ensureBreaker j (fst (allow now k w)) =
      (if j = k \<and> br_state (ensureBreaker k w) = OPEN \<and> cooled now (ensureBreaker k w)
       then (ensureBreaker k w)\<lparr>br_state := HALF_OPEN\<rparr> else ensureBreaker j w)"
    and "sh_state (fst (allow now k w)) = sh_state w"
    and "snd (allow now k w) \<longleftrightarrow> \<not> (br_state (ensureBreaker k w) = OPEN \<and> \<not> cooled now (ensureBreaker k w))"
  using assms by (auto simp: allow_def cooled_def Let_def)

lemmas breaker_facts = recordSuccess_facts recordFailure_facts allow_facts

definition breaker_ok :: "breaker \<Rightarrow> bool" where
  "breaker_ok b \<longleftrightarrow> br_failureThreshold b = 3 \<and> br_cooldownMs b = 30000
     \<and> (br_state b = CLOSED \<longleftrightarrow> br_failureCount b < 3) \<and> (br_state b = OPEN \<longrightarrow> br_openedAt b \<noteq> None)"

definition health_ok :: "system_health \<Rightarrow> bool" where
  "health_ok w \<longleftrightarrow> names_distinct w \<and> (\<forall>k. breaker_ok (ensureBreaker k w))
     \<and> ((\<exists>k. br_state (ensureBreaker k w) = OPEN) \<longrightarrow> sh_state w = DEGRADED)
     \<and> (sh_state w = DEGRADED \<longrightarrow> (\<exists>k. br_state (ensureBreaker k w) \<noteq> CLOSED))"

lemma breaker_ok_updates:
  assumes "breaker_ok b"
  shows "br_state b = CLOSED \<Longrightarrow> breaker_ok (b\<lparr>br_failureCount := 0\<rparr>)"
    and "breaker_ok (b\<lparr>br_failureCount := 0, br_state := CLOSED, br_openedAt := None, br_lastFailureAt := None\<rparr>)"
    and "br_state b = OPEN \<Longrightarrow> breaker_ok (b\<lparr>br_state := HALF_OPEN\<rparr>)"
    and "breaker_ok (let c = b\<lparr>br_failureCount := br_failureCount b + 1, br_lastFailureAt := Some now\<rparr>
       in if br_failureThreshold b \<le> br_failureCount b + 1 \<and> br_state b \<noteq> OPEN
          then c\<lparr>br_state := OPEN, br_openedAt := Some now\<rparr> else c)"
  using assms by (cases "br_state b"; auto simp: breaker_ok_def Let_def)+

lemma health_ok_initial: "health_ok initial_health"
  by (simp add: health_ok_def initial_health_def names_distinct_def ensureBreaker_def fresh_breaker_def breaker_ok_def)

lemma healthE:
  assumes "health_ok w"
  obtains "names_distinct w" "\<And>k. breaker_ok (ensureBreaker k w)"
    "\<And>k. br_state (ensureBreaker k w) = OPEN \<Longrightarrow> sh_state w = DEGRADED"
    "sh_state w = DEGRADED \<Longrightarrow> \<exists>k. br_state (ensureBreaker k w) \<noteq> CLOSED"
  using assms by (auto simp: health_ok_def)

lemma breaker_apply_ok:
  assumes "health_ok w"
  shows "health_ok (breaker_apply ev w)"
proof -
  obtain d: "names_distinct w" and ok: "\<And>k. breaker_ok (ensureBreaker k w)"
    and o: "\<And>k. br_state (ensureBreaker k w) = OPEN \<Longrightarrow> sh_state w = DEGRADED"
    and c: "sh_state w = DEGRADED \<Longrightarrow> \<exists>k. br_state (ensureBreaker k w) \<noteq> CLOSED"
    using healthE [OF assms] by blast
  show ?thesis
  proof (cases ev)
    case (Succeeds k)
    have "\<exists>i. br_state (ensureBreaker i (recordSuccess k w)) \<noteq> CLOSED" if deg: "sh_state (recordSuccess k w) = DEGRADED"
    proof (cases "br_state (ensureBreaker k w) = CLOSED")
      case True
      then obtain i where "br_state (ensureBreaker i w) \<noteq> CLOSED" "i \<noteq> k" using deg c d by (auto simp: breaker_facts)
      then show ?thesis using d by (auto simp: breaker_facts intro!: exI [of _ i])
    next
      case False
      then obtain i where "br_state (ensureBreaker i w) = OPEN" "i \<noteq> k" using deg d by (auto simp: breaker_facts split: if_splits)
      then show ?thesis using d by (auto simp: breaker_facts intro!: exI [of _ i])
    qed
    then show ?thesis using d o ok breaker_ok_updates(1,2) [OF ok]
      by (auto simp: health_ok_def Succeeds breaker_facts)
  next
    case (Fails now k)
    have "\<exists>i. br_state (ensureBreaker i (recordFailure now k w)) \<noteq> CLOSED" if "sh_state (recordFailure now k w) = DEGRADED"
    proof (cases "sh_state w = DEGRADED")
      case True
      then obtain i where "br_state (ensureBreaker i w) \<noteq> CLOSED" using c by blast
      then show ?thesis using d by (auto simp: breaker_facts Let_def intro!: exI [of _ i])
    next
      case False
      then show ?thesis using that d by (auto simp: breaker_facts Let_def intro!: exI [of _ k] split: if_splits)
    qed
    moreover have "breaker_ok (ensureBreaker i (recordFailure now k w))" for i
      using ok breaker_ok_updates(4) [OF ok, of now k] by (simp add: breaker_facts d Let_def split: if_splits)
    moreover have "sh_state (recordFailure now k w) = DEGRADED" if "br_state (ensureBreaker i (recordFailure now k w)) = OPEN" for i
      using that o d by (auto simp: breaker_facts Let_def split: if_splits)
    ultimately show ?thesis using d by (auto simp: health_ok_def Fails breaker_facts(4))
  next
    case (Asks now k)
    have "\<exists>i. br_state (ensureBreaker i (fst (allow now k w))) \<noteq> CLOSED" if deg: "sh_state w = DEGRADED"
      proof -
      obtain i where "br_state (ensureBreaker i w) \<noteq> CLOSED" using c [OF deg] by blast
      then show ?thesis using d by (auto simp: breaker_facts intro!: exI [of _ i])
    qed
    then show ?thesis using d o ok breaker_ok_updates(3) [OF ok]
      by (auto simp: health_ok_def Asks breaker_facts)
  qed
qed


lemma breaker_run_simps [simp]:
  "breaker_run [] w = w" "breaker_run (ev # es) w = breaker_run es (breaker_apply ev w)"
  by (simp_all add: breaker_run_def)

lemma breaker_run_ok: "health_ok w \<Longrightarrow> health_ok (breaker_run es w)"
  by (induction es arbitrary: w) (simp_all add: breaker_apply_ok)

lemma breaker_run_count:
  "names_distinct w \<Longrightarrow>
    br_failureCount (ensureBreaker k (breaker_run es w)) = failures_since_success k (br_failureCount (ensureBreaker k w)) es"
proof (induction es arbitrary: w)
  case Nil
  then show ?case by simp
next
  case (Cons ev es)
  have "names_distinct (breaker_apply ev w)" using Cons.prems by (cases ev) (simp_all add: breaker_facts)
  with Cons show ?case by (cases ev) (auto simp: breaker_facts Let_def)
qed

subsection \<open>Properties\<close>



fun within_cooldown :: "string \<Rightarrow> int \<Rightarrow> breaker_event \<Rightarrow> bool" where
  "within_cooldown k t (Succeeds j) \<longleftrightarrow> j \<noteq> k"
| "within_cooldown k t (Fails now j) \<longleftrightarrow> True"
| "within_cooldown k t (Asks now j) \<longleftrightarrow> (j = k \<longrightarrow> now < t + 30000)"

lemma open_stays:
  "health_ok w \<Longrightarrow> br_state (ensureBreaker k w) = OPEN \<Longrightarrow> br_openedAt (ensureBreaker k w) = Some t \<Longrightarrow>
    \<forall>ev\<in>set es. within_cooldown k t ev \<Longrightarrow>
    br_state (ensureBreaker k (breaker_run es w)) = OPEN \<and> br_openedAt (ensureBreaker k (breaker_run es w)) = Some t"
proof (induction es arbitrary: w)
  case Nil
  then show ?case by simp
next
  case (Cons ev es)
  have "names_distinct w" "br_cooldownMs (ensureBreaker k w) = 30000" using Cons.prems(1) by (auto simp: health_ok_def breaker_ok_def)
  then have "br_state (ensureBreaker k (breaker_apply ev w)) = OPEN \<and> br_openedAt (ensureBreaker k (breaker_apply ev w)) = Some t"
    using Cons.prems by (cases ev) (auto simp: breaker_facts Let_def cooled_def)
  then show ?case using Cons.IH [OF breaker_apply_ok] Cons.prems by simp
qed


text \<open>
  Fact. The cooldown is exact: a breaker that opened at \<open>t\<close> refuses its name before
  \<open>t + 30000\<close>, and failures in the meantime do not extend that; from then on it lets its callers
  through, all of them and not only one, until the next failure, which opens it again at once.
\<close>

theorem breaker_cooldown:
  assumes "health_ok w" and "br_state (ensureBreaker k w) = OPEN" and "br_openedAt (ensureBreaker k w) = Some t"
    and "\<forall>ev\<in>set es. within_cooldown k t ev" and "w1 = breaker_run es w"
  shows "(snd (allow now k w1) \<longleftrightarrow> t + 30000 \<le> now)
    \<and> (t + 30000 \<le> now \<longrightarrow>
        (let w2 = fst (allow now k w1)
         in br_state (ensureBreaker k w2) = HALF_OPEN
            \<and> snd (allow u k w2) \<and> br_state (ensureBreaker k (fst (allow u k w2))) = HALF_OPEN
            \<and> br_state (ensureBreaker k (recordFailure v k w2)) = OPEN
            \<and> br_openedAt (ensureBreaker k (recordFailure v k w2)) = Some v))"
proof -
  have o: "br_state (ensureBreaker k w1) = OPEN" "br_openedAt (ensureBreaker k w1) = Some t"
    using open_stays [OF assms(1-4)] assms(5) by simp_all
  have h: "health_ok w1" using assms(1,5) breaker_run_ok by simp
  have d: "names_distinct w1" and k: "breaker_ok (ensureBreaker k w1)" using healthE [OF h] by blast+
  then have c: "cooled now (ensureBreaker k w1) \<longleftrightarrow> t + 30000 \<le> now"
    and n: "\<not> br_failureCount (ensureBreaker k w1) < 3" "br_failureThreshold (ensureBreaker k w1) = 3"
    using o by (auto simp: cooled_def breaker_ok_def)
  have d2: "names_distinct (fst (allow now k w1))" using d by (rule allow_facts)
  show ?thesis using o n by (simp add: allow_facts d d2 c recordFailure_facts Let_def)
qed

definition sample_tripped :: system_health where
  "sample_tripped = breaker_run [Fails 1 ''smtp'', Fails 2 ''smtp'', Fails 3 ''smtp''] initial_health"

theorem breaker_cooldown_witness:
  "\<not> snd (allow 30002 ''smtp'' (breaker_run [Fails 20000 ''smtp''] sample_tripped))
   \<and> snd (allow 30003 ''smtp'' (breaker_run [Fails 20000 ''smtp''] sample_tripped))"
proof -
  have 1: "health_ok sample_tripped" unfolding sample_tripped_def by (rule breaker_run_ok [OF health_ok_initial])
  have 2: "br_state (ensureBreaker ''smtp'' sample_tripped) = OPEN" "br_openedAt (ensureBreaker ''smtp'' sample_tripped) = Some 3"
    by code_simp+
  have 3: "\<forall>ev\<in>set [Fails 20000 ''smtp'']. within_cooldown ''smtp'' 3 ev" by simp
  show ?thesis using breaker_cooldown [OF 1 2 3 HOL.refl, of 30002] breaker_cooldown [OF 1 2 3 HOL.refl, of 30003] by simp
qed

lemma open_hidden:
  "\<lbrakk>names_distinct w; br_cooldownMs (ensureBreaker k w) = 30000; br_state (ensureBreaker k w) = OPEN;
    br_openedAt (ensureBreaker k w) = Some t; sh_state w = NORMAL;
    \<forall>ev\<in>set es. (\<exists>now. ev = Fails now k) \<or> (\<exists>now. ev = Asks now k \<and> now < t + 30000)\<rbrakk>
   \<Longrightarrow> br_state (ensureBreaker k (breaker_run es w)) = OPEN \<and> sh_state (breaker_run es w) = NORMAL"
proof (induction es arbitrary: w)
  case Nil
  then show ?case by simp
next
  case (Cons ev es)
  have "names_distinct (breaker_apply ev w)" "br_cooldownMs (ensureBreaker k (breaker_apply ev w)) = 30000"
    "br_state (ensureBreaker k (breaker_apply ev w)) = OPEN" "br_openedAt (ensureBreaker k (breaker_apply ev w)) = Some t"
    "sh_state (breaker_apply ev w) = NORMAL"
    using Cons.prems by (auto simp: breaker_facts Let_def cooled_def)
  then show ?case using Cons.IH [of "breaker_apply ev w"] Cons.prems(6) by simp
qed

text \<open>
  Fact. The readiness probe hides an open breaker: it sets the system to normal without asking the
  breakers, and further failures of the open breaker do not degrade it again, so writes are accepted until
  the cooldown has passed, although the dependency is still refused.
\<close>

theorem readiness_hides_open:
  assumes "health_ok w" and "br_state (ensureBreaker k w) = OPEN" and "br_openedAt (ensureBreaker k w) = Some t"
    and "\<forall>ev\<in>set es. (\<exists>now. ev = Fails now k) \<or> (\<exists>now. ev = Asks now k \<and> now < t + 30000)"
    and "w1 = breaker_run es (setState NORMAL w)"
  shows "br_state (ensureBreaker k w1) = OPEN \<and> \<not> isDegraded w1 \<and> degradedGuard path method w1"
proof -
  have "names_distinct w" "br_cooldownMs (ensureBreaker k w) = 30000"
    using assms(1) by (auto simp: health_ok_def breaker_ok_def)
  then show ?thesis
    using open_hidden [of "setState NORMAL w" k t es] assms(2-5) by (simp add: isDegraded_def degradedGuard_def)
qed

theorem readiness_hides_open_witness:
  "degradedGuard ''/api/cases'' ''POST'' (breaker_run [Fails 20000 ''smtp'', Asks 20001 ''smtp''] (setState NORMAL sample_tripped))"
proof -
  have 1: "health_ok sample_tripped" unfolding sample_tripped_def by (rule breaker_run_ok [OF health_ok_initial])
  have 2: "br_state (ensureBreaker ''smtp'' sample_tripped) = OPEN" "br_openedAt (ensureBreaker ''smtp'' sample_tripped) = Some 3"
    by code_simp+
  have 3: "\<forall>ev\<in>set [Fails 20000 ''smtp'', Asks 20001 ''smtp'']. (\<exists>now. ev = Fails now ''smtp'') \<or> (\<exists>now. ev = Asks now ''smtp'' \<and> now < 3 + 30000)"
    by simp
  from readiness_hides_open [OF 1 2 3 HOL.refl] show ?thesis by blast
qed

end
