(* ===== verification/AccountLockout.thy ===== *)
theory AccountLockout
  imports ExpiringStore
begin

section \<open>Lockout of accounts after failed logins\<close>

text \<open>
  \<open>src/middleware/accountLockout.middleware.js\<close>.  Failed logins of an identifier are counted in a
  window and lead to a temporary lock; without Redis both are kept in memory.  The digest of an
  identifier (\<open>hashIdentifier\<close>) is an argument, and so is what Redis answers.
\<close>

record lockout_config =
  lc_windowSeconds :: int
  lc_lockSeconds :: int
  lc_maxAttempts :: int

record attempts_entry =
  ae_count :: int
  ae_expiresAt :: int

record lockout_state =
  ls_attempts :: "(string \<times> attempts_entry) list"
  ls_lockouts :: "(string \<times> int) list"

text \<open>A lock is its instant \<open>lockedUntil\<close>.\<close>

definition lockedUntil :: "int \<Rightarrow> int" where
  "lockedUntil u = u"

lemma lockedUntil_simps [simp]:
  "lockedUntil u \<le> v \<longleftrightarrow> u \<le> v" "v < lockedUntil u \<longleftrightarrow> v < u" "lockedUntil u - v = u - v"
  by (simp_all add: lockedUntil_def)

definition pruneExpiredEntries :: "int \<Rightarrow> lockout_state \<Rightarrow> lockout_state" where
  "pruneExpiredEntries now s =
    s\<lparr>ls_attempts := purge ae_expiresAt now (ls_attempts s), ls_lockouts := purge lockedUntil now (ls_lockouts s)\<rparr>"

record login_body =
  lb_email :: "string option"
  lb_xid :: "string option"
  lb_xID :: "string option"
  lb_XID :: "string option"

definition getAuthIdentifier :: "login_body \<Rightarrow> string" where
  "getAuthIdentifier b =
    js_lower (js_trim (str_or_empty (js_or (lb_email b) (js_or (lb_xid b) (js_or (lb_xID b) (lb_XID b))))))"

datatype lockout_reply = Login_allowed | Temp_locked (tl_retryAfter: int)

definition ceil_seconds :: "int \<Rightarrow> int" where
  "ceil_seconds ms = - ((- ms) div 1000)"

subsection \<open>Without Redis\<close>

definition enforceAccountLockout :: "(string \<Rightarrow> string) \<Rightarrow> int \<Rightarrow> login_body \<Rightarrow> lockout_state \<Rightarrow> lockout_state \<times> lockout_reply" where
  "enforceAccountLockout hash now b s =
    (if getAuthIdentifier b = [] then (s, Login_allowed)
     else (let s1 = pruneExpiredEntries now s
           in case map_of (ls_lockouts s1) (hash (getAuthIdentifier b)) of
                Some u \<Rightarrow> (s1, if lockedUntil u > now then Temp_locked (ceil_seconds (lockedUntil u - now)) else Login_allowed)
              | None \<Rightarrow> (s1, Login_allowed)))"

text \<open>The second component is the identifier of the security event that is logged, if one is.\<close>

definition recordFailedLoginAttempt ::
  "lockout_config \<Rightarrow> (string \<Rightarrow> string) \<Rightarrow> int \<Rightarrow> login_body \<Rightarrow> lockout_state \<Rightarrow> lockout_state \<times> string option" where
  "recordFailedLoginAttempt c hash now b s =
    (let ident = getAuthIdentifier b
     in if ident = [] then (s, None)
        else (let s1 = pruneExpiredEntries now s; hashed = hash ident;
                  entry = (case map_of (ls_attempts s1) hashed of
                      Some e \<Rightarrow> if ae_expiresAt e \<le> now then \<lparr>ae_count = 0, ae_expiresAt = now + lc_windowSeconds c * 1000\<rparr> else e
                    | None \<Rightarrow> \<lparr>ae_count = 0, ae_expiresAt = now + lc_windowSeconds c * 1000\<rparr>);
                  entry1 = entry\<lparr>ae_count := ae_count entry + 1\<rparr>;
                  s2 = s1\<lparr>ls_attempts := AList.update hashed entry1 (ls_attempts s1)\<rparr>
              in if ae_count entry1 > lc_maxAttempts c
                 then (s2\<lparr>ls_lockouts := AList.update hashed (now + lc_lockSeconds c * 1000) (ls_lockouts s2)\<rparr>, Some ident)
                 else (s2, None)))"

definition clearFailedLoginAttempts :: "(string \<Rightarrow> string) \<Rightarrow> login_body \<Rightarrow> lockout_state \<Rightarrow> lockout_state" where
  "clearFailedLoginAttempts hash b s =
    (let ident = getAuthIdentifier b
     in if ident = [] then s
        else s\<lparr>ls_attempts := AList.delete (hash ident) (ls_attempts s), ls_lockouts := AList.delete (hash ident) (ls_lockouts s)\<rparr>)"

subsection \<open>With Redis\<close>

text \<open>
  \<open>rate_limit_script\<close> is the Lua script, on the value \<open>INCR\<close> returned: whether it sets the
  expiry, and its result.
\<close>

definition rate_limit_script :: "int \<Rightarrow> int \<Rightarrow> bool \<times> int" where
  "rate_limit_script current limit = (current = 1, if current > limit then 0 else 1)"

datatype lockout_write = Attempts_expire int | Set_lock_nx int | Del_attempts | Del_lock | Locked_event string

definition redis_enforce :: "login_body \<Rightarrow> int \<Rightarrow> lockout_reply" where
  "redis_enforce b ttl = (if getAuthIdentifier b = [] then Login_allowed
                          else if ttl > 0 then Temp_locked ttl else Login_allowed)"

definition redis_recordFailed :: "lockout_config \<Rightarrow> login_body \<Rightarrow> int \<Rightarrow> lockout_write list" where
  "redis_recordFailed c b current =
    (if getAuthIdentifier b = [] then []
     else (let (sets_expiry, result) = rate_limit_script current (lc_maxAttempts c)
           in (if sets_expiry then [Attempts_expire (lc_windowSeconds c)] else [])
              @ (if result \<noteq> 1 then [Set_lock_nx (lc_lockSeconds c), Locked_event (getAuthIdentifier b)] else [])))"

definition redis_clear :: "login_body \<Rightarrow> lockout_write list" where
  "redis_clear b = (if getAuthIdentifier b = [] then [] else [Del_attempts, Del_lock])"

subsection \<open>Histories\<close>

definition failures :: "lockout_config \<Rightarrow> (string \<Rightarrow> string) \<Rightarrow> (int \<times> login_body) list \<Rightarrow> lockout_state \<Rightarrow> lockout_state" where
  "failures c hash fs s = fold (\<lambda>(now, b) s. fst (recordFailedLoginAttempt c hash now b s)) fs s"

definition lockout_wf :: "lockout_state \<Rightarrow> bool" where
  "lockout_wf s \<longleftrightarrow> keys_distinct (ls_attempts s) \<and> keys_distinct (ls_lockouts s)"

lemma lockout_wf_prune [simp]: "lockout_wf s \<Longrightarrow> lockout_wf (pruneExpiredEntries now s)"
  by (simp add: lockout_wf_def pruneExpiredEntries_def)

lemma lockout_wf_ops [simp]:
  assumes "lockout_wf s"
  shows "lockout_wf (fst (recordFailedLoginAttempt c hash now b s))" "lockout_wf (clearFailedLoginAttempts hash b s)"
    "lockout_wf (fst (enforceAccountLockout hash now b s))"
  using assms
  by (auto simp: recordFailedLoginAttempt_def clearFailedLoginAttempts_def enforceAccountLockout_def lockout_wf_def
      pruneExpiredEntries_def Let_def split: option.split)

lemma ceil_seconds_pos:
  assumes "0 < ms"
  shows "0 < ceil_seconds ms \<and> (ceil_seconds ms - 1) * 1000 < ms \<and> ms \<le> ceil_seconds ms * 1000"
proof -
  obtain q where q: "q = (- ms) div 1000" by blast
  have "q * 1000 \<le> - ms" "- ms < q * 1000 + 1000" unfolding q by linarith+
  then show ?thesis using assms by (simp add: ceil_seconds_def flip: q)
qed

lemma enforce_reply:
  assumes "lockout_wf s" and "getAuthIdentifier b \<noteq> []"
  shows "snd (enforceAccountLockout hash now b s) =
    (case live lockedUntil now (hash (getAuthIdentifier b)) (ls_lockouts s) of
       Some u \<Rightarrow> Temp_locked (ceil_seconds (u - now)) | None \<Rightarrow> Login_allowed)"
proof (cases "live lockedUntil now (hash (getAuthIdentifier b)) (ls_lockouts s)")
  case None
  then show ?thesis using assms by (simp add: enforceAccountLockout_def pruneExpiredEntries_def lockout_wf_def)
next
  case (Some u)
  then have "now < u" by (simp add: live_Some_iff)
  with Some show ?thesis using assms by (simp add: enforceAccountLockout_def pruneExpiredEntries_def lockout_wf_def Let_def)
qed

definition current_entry :: "lockout_config \<Rightarrow> int \<Rightarrow> string \<Rightarrow> lockout_state \<Rightarrow> attempts_entry" where
  "current_entry c now h s =
    (case live ae_expiresAt now h (ls_attempts s) of Some e \<Rightarrow> e
     | None \<Rightarrow> \<lparr>ae_count = 0, ae_expiresAt = now + lc_windowSeconds c * 1000\<rparr>)"

lemma record_eq:
  assumes "lockout_wf s" and "getAuthIdentifier b \<noteq> []" and "h = hash (getAuthIdentifier b)" and "entry = current_entry c now h s"
  shows "recordFailedLoginAttempt c hash now b s =
    (let s2 = s\<lparr>ls_attempts := AList.update h (entry\<lparr>ae_count := ae_count entry + 1\<rparr>) (purge ae_expiresAt now (ls_attempts s)),
                ls_lockouts := purge lockedUntil now (ls_lockouts s)\<rparr>
     in if ae_count entry + 1 > lc_maxAttempts c
        then (s2\<lparr>ls_lockouts := AList.update h (now + lc_lockSeconds c * 1000) (ls_lockouts s2)\<rparr>, Some (getAuthIdentifier b))
        else (s2, None))"
proof (cases "live ae_expiresAt now h (ls_attempts s)")
  case None
  then show ?thesis using assms
    by (simp add: recordFailedLoginAttempt_def pruneExpiredEntries_def lockout_wf_def current_entry_def Let_def)
next
  case (Some e)
  then have "now < ae_expiresAt e" by (simp add: live_Some_iff)
  with Some show ?thesis using assms
    by (simp add: recordFailedLoginAttempt_def pruneExpiredEntries_def lockout_wf_def current_entry_def Let_def)
qed

text \<open>Failures of one identifier inside one window, from its first failure at \<open>t\<close> on.\<close>

lemma failures_count:
  assumes "0 < lc_windowSeconds c"
  shows "lockout_wf s \<Longrightarrow> getAuthIdentifier b \<noteq> [] \<Longrightarrow> live ae_expiresAt u (hash (getAuthIdentifier b)) (ls_attempts s) = Some e
     \<Longrightarrow> \<forall>v\<in>set ts. u \<le> v \<and> v < ae_expiresAt e \<and> v \<le> w \<Longrightarrow> sorted ts
     \<Longrightarrow> (let s' = failures c hash (map (\<lambda>v. (v, b)) ts) s
          in lockout_wf s' \<and> map_of (ls_attempts s') (hash (getAuthIdentifier b)) = Some (e\<lparr>ae_count := ae_count e + int (length ts)\<rparr>)
             \<and> (ts \<noteq> [] \<longrightarrow> ae_count e + int (length ts) > lc_maxAttempts c \<longrightarrow>
                  map_of (ls_lockouts s') (hash (getAuthIdentifier b)) = Some (last ts + lc_lockSeconds c * 1000))
             \<and> (ae_count e + int (length ts) \<le> lc_maxAttempts c \<longrightarrow>
                  live lockedUntil w (hash (getAuthIdentifier b)) (ls_lockouts s') = live lockedUntil w (hash (getAuthIdentifier b)) (ls_lockouts s)))"
proof (induction ts arbitrary: s e u)
  case Nil
  then show ?case by (simp add: failures_def live_Some_iff)
next
  case (Cons v ts)
  let ?h = "hash (getAuthIdentifier b)"
  let ?s = "fst (recordFailedLoginAttempt c hash v b s)"
  let ?e = "e\<lparr>ae_count := ae_count e + 1\<rparr>"
  have mo: "map_of (ls_attempts s) ?h = Some e" using Cons.prems(3) by (simp add: live_Some_iff)
  have v: "v < ae_expiresAt e" using Cons.prems(4) by simp
  then have le: "live ae_expiresAt v ?h (ls_attempts s) = Some e" using mo by (simp add: live_Some_iff)
  then have ce: "current_entry c v ?h s = e" by (simp add: current_entry_def)
  note eq = record_eq [OF Cons.prems(1,2) HOL.refl HOL.refl, of c hash v, unfolded ce]
  have wf: "lockout_wf ?s" using Cons.prems(1) by simp
  have att: "live ae_expiresAt v ?h (ls_attempts ?s) = Some ?e" using v by (simp add: eq Let_def)
  have "\<forall>x\<in>set ts. v \<le> x \<and> x < ae_expiresAt ?e \<and> x \<le> w" using Cons.prems(4,5) by simp
  from Cons.IH [OF wf Cons.prems(2) att this] Cons.prems(5)
  have IH: "let s' = failures c hash (map (\<lambda>v. (v, b)) ts) ?s
          in lockout_wf s' \<and> map_of (ls_attempts s') ?h = Some (?e\<lparr>ae_count := ae_count ?e + int (length ts)\<rparr>)
             \<and> (ts \<noteq> [] \<longrightarrow> ae_count ?e + int (length ts) > lc_maxAttempts c \<longrightarrow>
                  map_of (ls_lockouts s') ?h = Some (last ts + lc_lockSeconds c * 1000))
             \<and> (ae_count ?e + int (length ts) \<le> lc_maxAttempts c \<longrightarrow> live lockedUntil w ?h (ls_lockouts s') = live lockedUntil w ?h (ls_lockouts ?s))" by simp
  have f: "failures c hash (map (\<lambda>v. (v, b)) (v # ts)) s = failures c hash (map (\<lambda>v. (v, b)) ts) ?s"
    by (simp add: failures_def)
  have one: "map_of (ls_lockouts ?s) ?h = Some (v + lc_lockSeconds c * 1000)" if "ae_count e + 1 > lc_maxAttempts c"
    using that by (simp add: eq Let_def update_conv')
  have none: "live lockedUntil w ?h (ls_lockouts ?s) = live lockedUntil w ?h (ls_lockouts s)" if "\<not> ae_count e + 1 > lc_maxAttempts c"
    using that Cons.prems(1,4) by (simp add: eq Let_def lockout_wf_def)
  show ?case unfolding f using IH one none by (cases ts) (auto simp: Let_def failures_def algebra_simps)
qed


lemma failures_others:
  assumes "k \<noteq> hash (getAuthIdentifier b)"
  shows "lockout_wf s \<Longrightarrow> getAuthIdentifier b \<noteq> [] \<Longrightarrow> \<forall>v\<in>set ts. v \<le> w \<Longrightarrow>
    live lockedUntil w k (ls_lockouts (failures c hash (map (\<lambda>v. (v, b)) ts) s)) = live lockedUntil w k (ls_lockouts s)"
proof (induction ts arbitrary: s)
  case Nil
  then show ?case by (simp add: failures_def)
next
  case (Cons v ts)
  let ?s = "fst (recordFailedLoginAttempt c hash v b s)"
  have "live lockedUntil w k (ls_lockouts ?s) = live lockedUntil w k (ls_lockouts s)"
    using Cons.prems(1,3) assms by (simp add: record_eq [OF Cons.prems(1,2) HOL.refl HOL.refl] Let_def lockout_wf_def)
  then show ?case using Cons.IH [of ?s] Cons.prems by (simp add: failures_def)
qed

lemma failures_wf: "lockout_wf s \<Longrightarrow> lockout_wf (failures c hash fs s)"
  by (induction fs arbitrary: s) (auto simp: failures_def)

lemma failures_lock:
  assumes "lockout_wf s" and "getAuthIdentifier b \<noteq> []" and "h = hash (getAuthIdentifier b)"
    and "live ae_expiresAt t h (ls_attempts s) = None" and "live lockedUntil t h (ls_lockouts s) = None"
    and "sorted (t # ts)" and "\<forall>v\<in>set (t # ts). v < t + lc_windowSeconds c * 1000 \<and> v \<le> now"
    and "s' = failures c hash (map (\<lambda>v. (v, b)) (t # ts)) s" and "until = last (t # ts) + lc_lockSeconds c * 1000"
  shows "lockout_wf s' \<and> live lockedUntil now h (ls_lockouts s') =
      (if int (length (t # ts)) > lc_maxAttempts c \<and> now < until then Some until else None)"
proof -
  let ?s1 = "fst (recordFailedLoginAttempt c hash t b s)"
  let ?e = "\<lparr>ae_count = 1, ae_expiresAt = t + lc_windowSeconds c * 1000\<rparr>"
  have w: "0 < lc_windowSeconds c" using assms(7) by simp
  have ce: "current_entry c t h s = ?e\<lparr>ae_count := 0\<rparr>" using assms(4) by (simp add: current_entry_def)
  note eq = record_eq [OF assms(1,2) HOL.refl HOL.refl, of c hash t, folded assms(3), unfolded ce]
  have wf1: "lockout_wf ?s1" using assms(1) by simp
  have f: "s' = failures c hash (map (\<lambda>v. (v, b)) ts) ?s1" using assms(8) by (simp add: failures_def)
  have att: "live ae_expiresAt t h (ls_attempts ?s1) = Some ?e" using w by (simp add: eq Let_def)
  have ts: "\<forall>v\<in>set ts. t \<le> v \<and> v < ae_expiresAt ?e \<and> v \<le> now" "sorted ts" using assms(6,7) by auto
  note run = failures_count [where hash = hash and w = now, OF w wf1 assms(2) _ ts, folded f assms(3), OF att]
  have wf': "lockout_wf s'" using run by (simp add: Let_def)
  have l1: "map_of (ls_lockouts ?s1) h = Some (t + lc_lockSeconds c * 1000)" if "1 > lc_maxAttempts c"
    using that by (simp add: eq Let_def update_conv')
  have l0: "live lockedUntil now h (ls_lockouts ?s1) = None" if "\<not> 1 > lc_maxAttempts c"
    using that assms(1,5,7) live_mono [OF assms(5), of now] by (simp add: eq Let_def lockout_wf_def)
  have lock: "live lockedUntil now h (ls_lockouts s') =
      (if int (length (t # ts)) > lc_maxAttempts c \<and> now < until then Some until else None)"
  proof (cases "ts = []")
    case True
    then have "s' = ?s1" using f by (simp add: failures_def)
    then show ?thesis using True l1 l0 assms(9)
      by (cases "1 > lc_maxAttempts c") (simp_all add: live_def)
  next
    case False
    show ?thesis
    proof (cases "int (length (t # ts)) > lc_maxAttempts c")
      case True
      then have "map_of (ls_lockouts s') h = Some until" using run False assms(9) by (simp add: Let_def)
      then show ?thesis using True by (simp add: live_def)
    next
      case le: False
      then have "live lockedUntil now h (ls_lockouts s') = live lockedUntil now h (ls_lockouts ?s1)" using run by (simp add: Let_def)
      then show ?thesis using le l0 by simp
    qed
  qed
  show ?thesis using wf' lock by blast
qed

subsection \<open>Properties\<close>

text \<open>
  Fact. The lockout is exact: an account without an open count or lock that fails \<open>n\<close> times
  inside one window is refused exactly when \<open>n\<close> exceeds the allowed attempts and the lock has not
  run out since the last failure; the retry time is positive and the seconds left, rounded up.  A
  successful login clears both, and no other account is affected.
\<close>

theorem lockout_exact:
  assumes "lockout_wf s" and "getAuthIdentifier b \<noteq> []" and "h = hash (getAuthIdentifier b)"
    and "live ae_expiresAt t h (ls_attempts s) = None" and "live lockedUntil t h (ls_lockouts s) = None"
    and "sorted (t # ts)" and "\<forall>v\<in>set (t # ts). v < t + lc_windowSeconds c * 1000 \<and> v \<le> now"
    and "s' = failures c hash (map (\<lambda>v. (v, b)) (t # ts)) s" and "until = last (t # ts) + lc_lockSeconds c * 1000"
  shows "snd (enforceAccountLockout hash now b s') =
      (if int (length (t # ts)) > lc_maxAttempts c \<and> now < until then Temp_locked (ceil_seconds (until - now)) else Login_allowed)
    \<and> (now < until \<longrightarrow> 0 < ceil_seconds (until - now) \<and> until - now \<le> ceil_seconds (until - now) * 1000)
    \<and> snd (enforceAccountLockout hash now b (clearFailedLoginAttempts hash b s')) = Login_allowed
    \<and> (getAuthIdentifier b' \<noteq> [] \<and> hash (getAuthIdentifier b') \<noteq> h \<longrightarrow>
        snd (enforceAccountLockout hash now b' s') = snd (enforceAccountLockout hash now b' s))"
proof -
  note lock = failures_lock [OF assms]
  have clear: "live lockedUntil now h (ls_lockouts (clearFailedLoginAttempts hash b s')) = None"
    using assms(2,3) by (simp add: clearFailedLoginAttempts_def Let_def)
  have "live lockedUntil now (hash (getAuthIdentifier b')) (ls_lockouts s') = live lockedUntil now (hash (getAuthIdentifier b')) (ls_lockouts s)"
    if "hash (getAuthIdentifier b') \<noteq> h"
    unfolding assms(8) using failures_others [where hash = hash and b = b, OF that [unfolded assms(3)] assms(1,2)] assms(7) by blast
  then show ?thesis
    using assms(1,2,3) lock clear ceil_seconds_pos [of "until - now"] by (auto simp: enforce_reply)
qed

definition sample_lockout_config :: lockout_config where
  "sample_lockout_config = \<lparr>lc_windowSeconds = 60, lc_lockSeconds = 1800, lc_maxAttempts = 2\<rparr>"

definition sample_login :: login_body where
  "sample_login = \<lparr>lb_email = Some '' Ann@x.org'', lb_xid = None, lb_xID = None, lb_XID = None\<rparr>"

definition no_lockouts :: lockout_state where
  "no_lockouts = \<lparr>ls_attempts = [], ls_lockouts = []\<rparr>"

theorem lockout_exact_witness:
  "snd (enforceAccountLockout (\<lambda>x. x) 9500 sample_login
      (failures sample_lockout_config (\<lambda>x. x) (map (\<lambda>v. (v, sample_login)) [1000, 5000, 9000]) no_lockouts)) = Temp_locked 1800"
proof -
  have 1: "lockout_wf no_lockouts" by (simp add: lockout_wf_def no_lockouts_def)
  have 2: "getAuthIdentifier sample_login \<noteq> []" by code_simp
  have 3: "live ae_expiresAt 1000 h (ls_attempts no_lockouts) = None" "live lockedUntil 1000 h (ls_lockouts no_lockouts) = None" for h
    by (simp_all add: no_lockouts_def)
  have 4: "sorted [1000::int, 5000, 9000]" "\<forall>v\<in>set [1000::int, 5000, 9000]. v < 1000 + lc_windowSeconds sample_lockout_config * 1000 \<and> v \<le> 9500"
    by (simp_all add: sample_lockout_config_def)
  show ?thesis
    using lockout_exact [OF 1 2 HOL.refl 3 4 HOL.refl HOL.refl, of "\<lambda>x. x"]
    by (simp add: sample_lockout_config_def ceil_seconds_def)
qed

end
