(* ===== verification/Selection.thy ===== *)
theory Selection
  imports JsPrelude "HOL-Library.Multiset"
begin

section \<open>Sorting and picking the first\<close>

text \<open>
  \<open>Array.prototype.sort\<close>, which is stable, and \<open>findOne(...).sort(...)\<close>, which returns the first
  of a sorted result.  \<open>pr x y\<close> says that \<open>x\<close> goes before \<open>y\<close>.  The contract of such an order
  is that it is asymmetric and that what is not before stays not before along a chain: only then do
  sorting and picking mean what they say, and every order the program sorts by is shown to have it.
\<close>

fun insert_stable :: "('a \<Rightarrow> 'a \<Rightarrow> bool) \<Rightarrow> 'a \<Rightarrow> 'a list \<Rightarrow> 'a list" where
  "insert_stable pr x [] = [x]"
| "insert_stable pr x (y # ys) = (if pr y x then y # insert_stable pr x ys else x # y # ys)"

definition stable_sort :: "('a \<Rightarrow> 'a \<Rightarrow> bool) \<Rightarrow> 'a list \<Rightarrow> 'a list" where
  "stable_sort pr xs = foldr (insert_stable pr) xs []"

fun pick :: "('a \<Rightarrow> 'a \<Rightarrow> bool) \<Rightarrow> 'a list \<Rightarrow> 'a option" where
  "pick pr [] = None"
| "pick pr (x # xs) = (case pick pr xs of None \<Rightarrow> Some x | Some y \<Rightarrow> if pr y x then Some y else Some x)"

lemma stable_sort_simps [simp]:
  "stable_sort pr [] = []" "stable_sort pr (x # xs) = insert_stable pr x (stable_sort pr xs)"
  by (simp_all add: stable_sort_def)

lemma mset_insert_stable [simp]: "mset (insert_stable pr x ys) = add_mset x (mset ys)"
  by (induction ys) auto

lemma mset_stable_sort [simp]: "mset (stable_sort pr xs) = mset xs"
  by (induction xs) auto

lemma set_stable_sort [simp]: "set (stable_sort pr xs) = set xs"
  by (metis mset_stable_sort set_mset_mset)

lemma pick_None_iff [simp]: "pick pr xs = None \<longleftrightarrow> xs = []"
  by (cases xs) (auto split: option.split)

lemma pick_in: "pick pr xs = Some y \<Longrightarrow> y \<in> set xs"
  by (induction xs arbitrary: y) (auto split: option.splits if_splits)

lemma insert_stable_head: "insert_stable pr x ys = (case ys of [] \<Rightarrow> [x] | y # zs \<Rightarrow> if pr y x then y # insert_stable pr x zs else x # ys)"
  by (cases ys) simp_all

lemma pick_sort: "pick pr xs = (case stable_sort pr xs of [] \<Rightarrow> None | y # _ \<Rightarrow> Some y)"
  by (induction xs) (auto simp: insert_stable_head split: list.splits)

locale preference =
  fixes pr :: "'a \<Rightarrow> 'a \<Rightarrow> bool"
  assumes asym: "pr x y \<Longrightarrow> \<not> pr y x"
    and chain: "\<not> pr x y \<Longrightarrow> \<not> pr y z \<Longrightarrow> \<not> pr x z"
begin

lemma irrefl [simp]: "\<not> pr x x"
  using asym by blast

lemma best: "pick pr xs = Some y \<Longrightarrow> x \<in> set xs \<Longrightarrow> \<not> pr x y"
proof (induction xs arbitrary: y)
  case Nil
  then show ?case by simp
next
  case (Cons z xs)
  show ?case
  proof (cases "pick pr xs")
    case None
    then show ?thesis using Cons.prems by (auto split: if_splits)
  next
    case (Some w)
    then have "x \<in> set xs \<Longrightarrow> \<not> pr x w" using Cons.IH by blast
    then show ?thesis using Cons.prems Some chain [of x w z] asym by (auto split: if_splits)
  qed
qed

lemma first_of_equals:
  "pick pr xs = Some y \<Longrightarrow> \<exists>us vs. xs = us @ y # vs \<and> (\<forall>u\<in>set us. pr y u)"
proof (induction xs arbitrary: y)
  case Nil
  then show ?case by simp
next
  case (Cons z xs)
  show ?case
  proof (cases "pick pr xs")
    case None
    then show ?thesis using Cons.prems by (auto intro!: exI [of _ "[]"])
  next
    case (Some w)
    then obtain us vs where w: "xs = us @ w # vs" "\<forall>u\<in>set us. pr w u" using Cons.IH by blast
    show ?thesis
    proof (cases "pr w z")
      case True
      then have "z # xs = (z # us) @ y # vs" "\<forall>u\<in>set (z # us). pr y u" using Cons.prems Some w by simp_all
      then show ?thesis by blast
    next
      case False
      then have "z # xs = [] @ y # xs" using Cons.prems Some by simp
      then show ?thesis by (metis empty_iff list.set(1))
    qed
  qed
qed

lemma only_best: "y \<in> set xs \<Longrightarrow> (\<And>x. x \<in> set xs \<Longrightarrow> x \<noteq> y \<Longrightarrow> pr y x) \<Longrightarrow> pick pr xs = Some y"
  using best pick_in by (metis not_Some_eq pick_None_iff list.set_cases empty_iff list.set(1))

lemma sorted_insert: "sorted_wrt (\<lambda>a b. \<not> pr b a) ys \<Longrightarrow> sorted_wrt (\<lambda>a b. \<not> pr b a) (insert_stable pr x ys)"
proof (induction ys)
  case Nil
  then show ?case by simp
next
  case (Cons y ys)
  have "set (insert_stable pr x ys) = insert x (set ys)" by (metis mset_insert_stable set_mset_add_mset_insert set_mset_mset)
  moreover have "\<not> pr a x" if "\<not> pr y x" "a \<in> set ys" for a
    using chain [of a y x] that Cons.prems by simp
  ultimately show ?case using Cons asym [of y x] by (cases "pr y x") simp_all
qed

lemma sorted_sort: "sorted_wrt (\<lambda>a b. \<not> pr b a) (stable_sort pr xs)"
  by (induction xs) (simp_all add: sorted_insert)

end

text \<open>Any order by a key is one.\<close>

lemma preference_key: "preference (\<lambda>x y. (key x :: 'k :: linorder) < key y)"
  by unfold_locales auto

end
