(* ===== verification/Identifiers.thy ===== *)
theory Identifiers
  imports DocketQuery Decimal Selection
begin

section \<open>Counters and identifiers\<close>

text \<open>
  \<open>src/services/counter.service.js\<close> and the generators over it (\<open>caseIdGenerator.js\<close>,
  \<open>caseNameGenerator.js\<close>, \<open>xIDGenerator.js\<close>), the generator of client identifiers
  (\<open>clientIdGenerator.js\<close>), and the resolution of an identifier to a docket
  (\<open>src/utils/caseIdentifier.js\<close>).  The counters are a map from name and firm to the last number;
  the local date and random numbers are arguments.
\<close>

subsection \<open>Counters\<close>

type_synonym counters = "string \<times> string \<Rightarrow> nat option"

text \<open>
  How the database answers: the update succeeds, an upsert loses a race for the same new counter
  (error 11000) and is retried without upsert, or it fails otherwise.
\<close>

datatype counter_db = Counter_ok | Counter_duplicate | Counter_failed (cf_message: string)

definition counter_error :: "string \<Rightarrow> string \<Rightarrow> string \<Rightarrow> string \<Rightarrow> js_error" where
  "counter_error name firmId suffix msg =
    Thrown (''Error getting next sequence for '' @ name @ ''/'' @ firmId @ suffix @ '': '' @ msg) None None"

definition bump :: "string \<times> string \<Rightarrow> counters \<Rightarrow> counters \<times> nat" where
  "bump k m = (let n = (case m k of None \<Rightarrow> 1 | Some n \<Rightarrow> n + 1) in (m(k \<mapsto> n), n))"

definition getNextSequence :: "counter_db \<Rightarrow> string \<Rightarrow> string \<Rightarrow> counters \<Rightarrow> counters \<times> nat res" where
  "getNextSequence db name firmId m =
    (if name = [] then (m, Inl (Thrown ''Counter name is required and must be a string'' None None))
     else if firmId = [] then (m, Inl (Thrown ''Firm ID is required for tenant-scoped counters'' None None))
     else (case db of
        Counter_ok \<Rightarrow> (let (m', n) = bump (name, firmId) m in (m', Inr n))
      | Counter_duplicate \<Rightarrow>
          (case m (name, firmId) of
             None \<Rightarrow> (m, Inl (counter_error name firmId '' after retry'' ''Counter operation failed after retry - invalid response''))
           | Some _ \<Rightarrow> (let (m', n) = bump (name, firmId) m in (m', Inr n)))
      | Counter_failed msg \<Rightarrow> (m, Inl (counter_error name firmId [] msg))))"

definition getCurrentSequence :: "string \<Rightarrow> string \<Rightarrow> counters \<Rightarrow> nat option res" where
  "getCurrentSequence name firmId m =
    (if name = [] \<or> firmId = [] then Inl (Thrown ''Counter name and firm ID are required'' None None)
     else Inr (m (name, firmId)))"

definition initializeCounter :: "string \<Rightarrow> string \<Rightarrow> int \<Rightarrow> counters \<Rightarrow> counters \<times> unit res" where
  "initializeCounter name firmId startValue m =
    (if name = [] \<or> firmId = [] then (m, Inl (Thrown ''Counter name and firm ID are required'' None None))
     else if startValue < 0 then (m, Inl (Thrown ''Start value must be a non-negative number'' None None))
     else if m (name, firmId) \<noteq> None
     then (m, Inl (Thrown (''Counter '' @ name @ ''/'' @ firmId @ '' already exists. Cannot re-initialize.'') None None))
     else (m((name, firmId) \<mapsto> nat startValue), Inr ()))"

subsection \<open>Docket numbers\<close>

text \<open>A date is year, month (from 1) and day.\<close>

type_synonym ymd = "nat \<times> nat \<times> nat"

definition date_string :: "ymd \<Rightarrow> string" where
  "date_string t = (case t of (y, m, d) \<Rightarrow> decimal y @ padded 2 m @ padded 2 d)"

definition wrap_error :: "string \<Rightarrow> 'a res \<Rightarrow> 'a res" where
  "wrap_error msg r = (case r of Inl e \<Rightarrow> Inl (Thrown (msg @ '': '' @ err_message e) None None) | Inr x \<Rightarrow> Inr x)"

definition numbered :: "string \<Rightarrow> nat res \<Rightarrow> string res" where
  "numbered prefix r = res_bind r (\<lambda>n. Inr (prefix @ padded 5 n))"

definition generateCaseId :: "counter_db \<Rightarrow> ymd \<Rightarrow> string \<Rightarrow> counters \<Rightarrow> counters \<times> string res" where
  "generateCaseId db today firmId m =
    (if firmId = [] then (m, wrap_error ''Error generating case ID'' (Inl (Thrown ''Firm ID is required for case ID generation'' None None)))
     else (let datePrefix = date_string today;
               (m', r) = getNextSequence db (''case-'' @ datePrefix) firmId m
           in (m', wrap_error ''Error generating case ID'' (numbered (''CASE-'' @ datePrefix @ ''-'') r))))"

definition generateCaseName :: "counter_db \<Rightarrow> ymd \<Rightarrow> string \<Rightarrow> counters \<Rightarrow> counters \<times> string res" where
  "generateCaseName db today firmId m =
    (if firmId = [] then (m, wrap_error ''Error generating docket name'' (Inl (Thrown ''Firm ID is required for case name generation'' None None)))
     else (let datePrefix = date_string today;
               (m', r) = getNextSequence db (''docketName-'' @ datePrefix) firmId m
           in (m', wrap_error ''Error generating docket name'' (numbered (''Docket#'' @ datePrefix) r))))"

definition capital :: "char \<Rightarrow> bool" where
  "capital c \<longleftrightarrow> 65 \<le> (of_char c :: nat) \<and> (of_char c :: nat) \<le> 90"

text \<open>\<open>random\<close> is \<open>crypto.randomInt(1000, 10000)\<close>.\<close>

definition generateDocketId :: "ymd \<Rightarrow> nat \<Rightarrow> string option \<Rightarrow> string option \<Rightarrow> string res" where
  "generateDocketId today random firmId workTypePrefix =
    (if \<not> truthy firmId then Inl (Thrown ''Firm ID is required for docket ID generation'' None None)
     else if \<not> truthy workTypePrefix then Inl (Thrown ''Work type prefix is required for docket ID generation'' None None)
     else (let prefix = js_upper (js_trim (str_or_empty workTypePrefix))
           in if \<not> (2 \<le> length prefix \<and> length prefix \<le> 4 \<and> list_all capital prefix)
              then Inl (Thrown ''Work type prefix must be 2-4 uppercase letters'' None None)
              else Inr (prefix @ date_string today @ decimal random)))"

definition digits_of_length :: "nat \<Rightarrow> string \<Rightarrow> bool" where
  "digits_of_length n s \<longleftrightarrow> length s = n \<and> list_all is_digit s"

definition date_and_number :: "string \<Rightarrow> bool" where
  "date_and_number s \<longleftrightarrow>
    digits_of_length 8 (take 8 s) \<and> take 1 (drop 8 s) = ''-'' \<and> digits_of_length 5 (drop 9 s)"

definition isValidCaseIdFormat :: "string \<Rightarrow> bool" where
  "isValidCaseIdFormat s \<longleftrightarrow> (case strip_prefix ''CASE-'' s of Some b \<Rightarrow> date_and_number b | None \<Rightarrow> False)"

definition isValidDocketIdFormat :: "string \<Rightarrow> bool" where
  "isValidDocketIdFormat s \<longleftrightarrow>
    (let k = length (takeWhile capital s) in 2 \<le> k \<and> k \<le> 4 \<and> digits_of_length 12 (drop k s))"

definition isValidCaseNameFormat :: "string \<Rightarrow> bool" where
  "isValidCaseNameFormat s \<longleftrightarrow> (case strip_prefix ''Docket#'' s of Some b \<Rightarrow> digits_of_length 13 b | None \<Rightarrow> False)"

text \<open>The arguments of \<open>new Date(year, month, day)\<close>, with months from 0.\<close>

definition date_of_string :: "string \<Rightarrow> int \<times> int \<times> int" where
  "date_of_string s = (int (parse_dec (take 4 s)), int (parse_dec (take 2 (drop 4 s))) - 1, int (parse_dec (take 2 (drop 6 s))))"

definition extractDateFromCaseId :: "string \<Rightarrow> (int \<times> int \<times> int) option" where
  "extractDateFromCaseId s = (if isValidCaseIdFormat s then Some (date_of_string (take 8 (drop 5 s))) else None)"

definition extractDateFromCaseName :: "string \<Rightarrow> (int \<times> int \<times> int) option" where
  "extractDateFromCaseName s = (if isValidCaseNameFormat s then Some (date_of_string (take 8 (drop 7 s))) else None)"

subsection \<open>Users and clients\<close>

definition generateNextXID :: "bool \<Rightarrow> counters \<Rightarrow> counters \<times> string res" where
  "generateNextXID fails m =
    (if fails then (m, Inl (Thrown ''Failed to generate xID during firm provisioning'' None None))
     else (let (m', n) = bump (''user_xid'', ''GLOBAL'') m in (m', Inr (''X'' @ padded 6 n))))"

definition validateXIDFormat :: "string option \<Rightarrow> bool" where
  "validateXIDFormat v \<longleftrightarrow> (case v of Some (c # s) \<Rightarrow> c = CHR ''X'' \<and> digits_of_length 6 s | _ \<Rightarrow> False)"

text \<open>
  The next identifier of a firm's clients, given those the firm has: the query takes the greatest one,
  as strings, of those that match \<open>/^C\d+$/\<close>.
\<close>

definition client_pattern :: "string \<Rightarrow> bool" where
  "client_pattern s \<longleftrightarrow> (case s of c # ds \<Rightarrow> c = CHR ''C'' \<and> all_digits ds | [] \<Rightarrow> False)"

definition generateNextClientId :: "string \<Rightarrow> string list \<Rightarrow> string res" where
  "generateNextClientId firmId ids =
    (if firmId = [] then Inl (Thrown ''firmId is required for clientId generation'' None None)
     else (case pick (\<lambda>s t. str_less t s) (filter client_pattern ids) of
             None \<Rightarrow> Inr ''C000001''
           | Some s \<Rightarrow> Inr (''C'' @ padded 6 (parse_dec (drop 1 s) + 1))))"

definition validateClientIdFormat :: "string option \<Rightarrow> bool" where
  "validateClientIdFormat v \<longleftrightarrow> (case v of Some (c # s) \<Rightarrow> c = CHR ''C'' \<and> digits_of_length 6 s | _ \<Rightarrow> False)"


subsection \<open>Numbering a new docket\<close>

text \<open>
  The part of the schema's \<open>pre('validate')\<close> hook that gives a document its numbers;
  \<open>prefix_of\<close> is the lookup of a work type's prefix.
\<close>

record docket_numbers =
  dn_firmId :: "string option"
  dn_workTypeId :: "string option"
  dn_caseNumber :: "string option"
  dn_caseName :: "string option"
  dn_caseId :: "string option"

definition generate_number ::
  "counter_db \<Rightarrow> ymd \<Rightarrow> nat \<Rightarrow> (string \<Rightarrow> string option) \<Rightarrow> docket_numbers \<Rightarrow> counters \<Rightarrow> counters \<times> string res" where
  "generate_number db today random prefix_of d m =
    (case (if truthy (dn_workTypeId d) then prefix_of (str_or_empty (dn_workTypeId d)) else None) of
       Some p \<Rightarrow> if p = [] then generateCaseId db today (str_or_empty (dn_firmId d)) m
                 else (m, generateDocketId today random (dn_firmId d) (Some p))
     | None \<Rightarrow> generateCaseId db today (str_or_empty (dn_firmId d)) m)"

definition generation_failed :: "docket_numbers \<Rightarrow> js_error \<Rightarrow> js_error" where
  "generation_failed d e =
    Thrown (''Failed to generate docket/case ID for workTypeId='' @ str_or_empty (dn_workTypeId d) @ '', firmId=''
            @ str_or_empty (dn_firmId d) @ '': '' @ err_message e) None None"

definition assign_case_number ::
  "counter_db \<Rightarrow> ymd \<Rightarrow> nat \<Rightarrow> (string \<Rightarrow> string option) \<Rightarrow> docket_numbers \<Rightarrow> counters \<Rightarrow> counters \<times> docket_numbers res" where
  "assign_case_number db today random prefix_of d m =
    (if truthy (dn_caseNumber d) then (m, Inr d)
     else (case generate_number db today random prefix_of d m of
         (m', Inl e) \<Rightarrow> (m', Inl (generation_failed d e))
       | (m', Inr i) \<Rightarrow> (m', Inr (d\<lparr>dn_caseNumber := Some i\<rparr>))))"

definition assign_case_name :: "counter_db \<Rightarrow> ymd \<Rightarrow> docket_numbers \<Rightarrow> counters \<Rightarrow> counters \<times> docket_numbers res" where
  "assign_case_name db today d m =
    (if truthy (dn_caseName d) then (m, Inr d)
     else (case generateCaseName db today (str_or_empty (dn_firmId d)) m of
         (m', Inl e) \<Rightarrow> (m', Inl e)
       | (m', Inr i) \<Rightarrow> (m', Inr (d\<lparr>dn_caseName := Some i\<rparr>))))"

definition assign_numbers ::
  "counter_db \<Rightarrow> ymd \<Rightarrow> nat \<Rightarrow> (string \<Rightarrow> string option) \<Rightarrow> docket_numbers \<Rightarrow> counters \<Rightarrow> counters \<times> docket_numbers res" where
  "assign_numbers db today random prefix_of d m =
    (if \<not> truthy (dn_firmId d) then (m, Inl (Thrown ''Firm ID is required for case creation'' None None))
     else (case assign_case_number db today random prefix_of d m of
         (m1, Inl e) \<Rightarrow> (m1, Inl e)
       | (m1, Inr d1) \<Rightarrow>
          (case assign_case_name db today d1 m1 of
             (m2, Inl e) \<Rightarrow> (m2, Inl e)
           | (m2, Inr d2) \<Rightarrow>
               (m2, Inr (if \<not> truthy (dn_caseId d2) \<and> truthy (dn_caseNumber d2) then d2\<lparr>dn_caseId := dn_caseNumber d2\<rparr> else d2)))))"

subsection \<open>Resolving an identifier\<close>

definition is_hex :: "char \<Rightarrow> bool" where
  "is_hex c \<longleftrightarrow> is_digit c
     \<or> (65 \<le> (of_char c :: nat) \<and> (of_char c :: nat) \<le> 70) \<or> (97 \<le> (of_char c :: nat) \<and> (of_char c :: nat) \<le> 102)"

definition isValidObjectId :: "string \<Rightarrow> bool" where
  "isValidObjectId s \<longleftrightarrow> length s = 24 \<and> list_all is_hex s"

definition isValidCaseNumberFormat :: "string \<Rightarrow> bool" where
  "isValidCaseNumberFormat s \<longleftrightarrow> s \<noteq> [] \<and>
    (let normalized = collapse_runs run_char (js_trim s); up = js_upper normalized
     in (case strip_prefix ''CASE-'' up of Some b \<Rightarrow> date_and_number b | None \<Rightarrow> False)
        \<or> (case strip_prefix ''DOCKET-'' up of Some b \<Rightarrow> date_and_number b | None \<Rightarrow> False)
        \<or> date_and_number normalized)"

definition identifier_candidates :: "string \<Rightarrow> string list" where
  "identifier_candidates s =
    (let normalized = js_upper (collapse_runs run_char (js_trim s))
     in if normalized = [] then []
        else (case prefix_match normalized of
            Some (prefix, bare) \<Rightarrow>
              [prefix @ ''-'' @ bare, (if prefix = ''CASE'' then ''DOCKET'' else ''CASE'') @ ''-'' @ bare, bare]
          | None \<Rightarrow> [normalized, ''CASE-'' @ normalized, ''DOCKET-'' @ normalized]))"

text \<open>
  \<open>by_internal\<close>, \<open>by_number\<close> and \<open>by_id\<close> are the lookups of the repository for the firm and
  role of the caller.
\<close>

fun first_found :: "(string \<Rightarrow> docket option) \<Rightarrow> (string \<Rightarrow> docket option) \<Rightarrow> string list \<Rightarrow> docket option" where
  "first_found by_number by_id [] = None"
| "first_found by_number by_id (c # cs) =
    (case by_number c of Some d \<Rightarrow> Some d
     | None \<Rightarrow> (case by_id c of Some d \<Rightarrow> Some d | None \<Rightarrow> first_found by_number by_id cs))"

definition resolveCaseIdentifier ::
  "(string \<Rightarrow> docket option) \<Rightarrow> (string \<Rightarrow> docket option) \<Rightarrow> (string \<Rightarrow> docket option) \<Rightarrow> string option \<Rightarrow> string option \<Rightarrow> string res" where
  "resolveCaseIdentifier by_internal by_number by_id firmId identifier =
    (if \<not> truthy firmId then Inl (Thrown ''Firm ID is required for case resolution'' None None)
     else if \<not> truthy identifier then Inl (Thrown ''Case identifier is required'' None None)
     else (let i = str_or_empty identifier
           in if isValidObjectId i
              then (case by_internal i of None \<Rightarrow> Inl (Thrown ''Case not found'' None None) | Some d \<Rightarrow> Inr (d_caseInternalId d))
              else if isValidCaseNumberFormat i
              then (case first_found by_number by_id (identifier_candidates i) of
                      None \<Rightarrow> Inl (Thrown ''Case not found'' None None) | Some d \<Rightarrow> Inr (d_caseInternalId d))
              else Inl (Thrown ''Invalid case identifier format. Expected ObjectId, CASE-YYYYMMDD-XXXXX, or YYYYMMDD-XXXXX format.'' None None)))"

end
