(* ===== verification/IdentifierProperties.thy ===== *)
theory IdentifierProperties
  imports Identifiers
begin

section \<open>Properties of counters and identifiers\<close>

subsection \<open>Sequences\<close>

text \<open>The numbers that a series of calls returns, with their counters.\<close>

fun sequence_run :: "(counter_db \<times> string \<times> string) list \<Rightarrow> counters \<Rightarrow> counters \<times> ((string \<times> string) \<times> nat) list" where
  "sequence_run [] m = (m, [])"
| "sequence_run ((db, name, firmId) # calls) m =
    (let (m1, r) = getNextSequence db name firmId m; (m2, ns) = sequence_run calls m1
     in (m2, (case r of Inl _ \<Rightarrow> ns | Inr n \<Rightarrow> ((name, firmId), n) # ns)))"

definition counter_value :: "counters \<Rightarrow> string \<times> string \<Rightarrow> nat" where
  "counter_value m k = (case m k of None \<Rightarrow> 0 | Some n \<Rightarrow> n)"

lemma getNextSequence_cases:
  "(\<exists>e. getNextSequence db name firmId m = (m, Inl e))
   \<or> (\<exists>m'. getNextSequence db name firmId m = (m', Inr (counter_value m (name, firmId) + 1))
        \<and> m' = m((name, firmId) \<mapsto> counter_value m (name, firmId) + 1))"
  by (auto simp: getNextSequence_def bump_def Let_def counter_value_def split: counter_db.split option.split)

lemma sequence_run_numbers:
  "sequence_run calls m = (m', ns) \<Longrightarrow>
    map snd (filter (\<lambda>p. fst p = k) ns) = [counter_value m k + 1 ..< counter_value m' k + 1]
    \<and> counter_value m k \<le> counter_value m' k"
proof (induction calls arbitrary: m ns)
  case Nil
  then show ?case by simp
next
  case (Cons c calls)
  obtain db name firmId where c: "c = (db, name, firmId)" by (cases c)
  let ?v = "counter_value m (name, firmId) + 1"
  consider (err) e where "getNextSequence db name firmId m = (m, Inl e)"
    | (ok) m1 where "getNextSequence db name firmId m = (m1, Inr ?v)" "m1 = m((name, firmId) \<mapsto> ?v)"
    using getNextSequence_cases [of db name firmId m] by auto
  then show ?case
  proof cases
    case err
    then show ?thesis using Cons.IH [of m] Cons.prems c by (auto split: prod.splits)
  next
    case ok
    obtain ns' where run: "sequence_run calls m1 = (m', ns')" "ns = ((name, firmId), ?v) # ns'"
      using Cons.prems c ok(1) by (auto split: prod.splits)
    note IH = Cons.IH [OF run(1)]
    have v: "counter_value m1 k = (if k = (name, firmId) then ?v else counter_value m k)"
      by (simp add: ok(2) counter_value_def)
    show ?thesis
    proof (cases "k = (name, firmId)")
      case True
      then have "?v \<le> counter_value m' k" using IH v by simp
      then show ?thesis using IH v True run(2) by (simp add: upt_conv_Cons)
    next
      case False
      then show ?thesis using IH v run(2) by simp
    qed
  qed
qed


definition sample_calls :: "(counter_db \<times> string \<times> string) list" where
  "sample_calls = [(Counter_ok, ''case-20260108'', ''F1''), (Counter_failed ''down'', ''case-20260108'', ''F1''),
     (Counter_ok, ''case-20260108'', ''F2''), (Counter_duplicate, ''case-20260108'', ''F1'')]"


subsection \<open>Client identifiers\<close>

definition client_id :: "nat \<Rightarrow> string" where
  "client_id n = ''C'' @ padded 6 n"

interpretation client_order: preference "\<lambda>s t. str_less t s"
  by unfold_locales (auto simp: str_less_def)

lemma client_id_facts [simp]:
  "client_pattern (client_id n)" "drop 1 (client_id n) = padded 6 n" "client_id m = client_id n \<longleftrightarrow> m = n"
  "str_less (client_id m) (client_id n) \<longleftrightarrow> str_less (padded 6 m) (padded 6 n)"
  by (simp_all add: client_id_def client_pattern_def)

lemma client_id_literals:
  "client_id 1 = ''C000001''" "client_id 2 = ''C000002''" "client_id 3 = ''C000003''" "client_id 1000000 = ''C1000000''"
  "client_id 999999 = ''C999999''"
  by (simp_all add: client_id_def padded_eval)

lemma validate_client_id: "validateClientIdFormat (Some (client_id n)) \<longleftrightarrow> n < 1000000"
  using length_padded [of 6 n] padded_digits [of 6 n]
  by (simp add: client_id_def validateClientIdFormat_def digits_of_length_def all_digits_def)

lemma million_below: "n < 1000000 \<Longrightarrow> 0 < n \<Longrightarrow> str_less (padded 6 n) (padded 6 999999) \<longleftrightarrow> n \<noteq> 999999"
  using padded_less [of n 6 999999] by auto

lemma greatest_client_id:
  assumes "set (filter client_pattern ids) = client_id ` {1..n}" and "0 < n" and "n \<le> 1000000"
  shows "pick (\<lambda>s t. str_less t s) (filter client_pattern ids) = Some (client_id (min n 999999))"
proof (rule client_order.only_best)
  show "client_id (min n 999999) \<in> set (filter client_pattern ids)" using assms by (simp add: min_def)
next
  fix x
  assume "x \<in> set (filter client_pattern ids)" and ne: "x \<noteq> client_id (min n 999999)"
  then obtain i where i: "x = client_id i" "1 \<le> i" "i \<le> n" using assms(1) by (metis (no_types, lifting) atLeastAtMost_iff imageE)
  show "str_less x (client_id (min n 999999))"
  proof (cases "i = 1000000")
    case True
    have "padded 6 1000000 = ''1000000''" "padded 6 999999 = ''999999''" by (simp_all add: padded_eval)
    then have "str_less (padded 6 1000000) (padded 6 999999)" by simp
    then show ?thesis using True i assms(3) by (simp add: min_def)
  next
    case False
    then have "i < 1000000" "min n 999999 < 1000000" "i < min n 999999" using i ne assms(3) by (auto simp: min_def split: if_splits)
    then show ?thesis using i padded_less [of i 6 "min n 999999"] by simp
  qed
qed

text \<open>
  Fact. Client identifiers are sequential up to a million: a firm whose clients are numbered from 1
  to \<open>n\<close> gets number \<open>n + 1\<close>, which is new, and valid below one million.  But the greatest
  identifier is found by comparing strings, and \<open>C1000000\<close> comes before \<open>C999999\<close>: once the
  millionth client exists, its identifier is generated again for every further client.
\<close>

theorem client_ids_until_million:
  assumes "firmId \<noteq> []" and "set (filter client_pattern ids) = client_id ` {1..n}"
  shows "(n < 1000000 \<longrightarrow> generateNextClientId firmId ids = Inr (client_id (n + 1)) \<and> client_id (n + 1) \<notin> set ids
           \<and> (validateClientIdFormat (Some (client_id (n + 1))) \<longleftrightarrow> n + 1 < 1000000))
    \<and> (n = 1000000 \<longrightarrow> generateNextClientId firmId ids = Inr (client_id n) \<and> client_id n \<in> set ids)"
proof (cases "n = 0")
  case True
  then have "filter client_pattern ids = []" using assms(2) by auto
  moreover have "client_id 1 \<notin> set ids" using assms(2) True by (auto simp: filter_empty_conv)
  ultimately show ?thesis using True assms(1) validate_client_id [of 1] client_id_literals(1)
    by (simp add: generateNextClientId_def)
next
  case False
  have g: "pick (\<lambda>s t. str_less t s) (filter client_pattern ids) = Some (client_id (min n 999999))" if "n \<le> 1000000"
    using greatest_client_id [OF assms(2)] False that by simp
  have notin: "client_id (n + 1) \<notin> set ids"
  proof
    assume "client_id (n + 1) \<in> set ids"
    then have "client_id (n + 1) \<in> client_id ` {1..n}" unfolding assms(2) [symmetric] by simp
    then show False by auto
  qed
  have inn: "client_id n \<in> set ids"
  proof -
    have "client_id n \<in> set (filter client_pattern ids)" unfolding assms(2) using False by auto
    then show ?thesis by simp
  qed
  have next_id: "generateNextClientId firmId ids = Inr (client_id (min n 999999 + 1))" if "n \<le> 1000000"
    using g [OF that] assms(1) by (simp add: generateNextClientId_def client_id_def)
  show ?thesis using next_id notin inn by (auto simp: validate_client_id min_def)
qed

theorem client_ids_until_million_witness:
  "generateNextClientId ''F1'' [''C000002'', ''C000001'', ''VIP''] = Inr ''C000003''
   \<and> (\<exists>ids. generateNextClientId ''F1'' ids = Inr ''C1000000'' \<and> ''C1000000'' \<in> set ids)"
proof -
  note ids = client_id_literals
  have pats: "client_pattern ''C000002''" "client_pattern ''C000001''" "\<not> client_pattern ''VIP''" by code_simp+
  have 1: "set (filter client_pattern [''C000002'', ''C000001'', ''VIP'']) = client_id ` {1..2}"
    using pats ids by (auto simp: numeral_2_eq_2 atLeastAtMostSuc_conv)
  have 2: "set (filter client_pattern (map client_id [1..<1000001])) = client_id ` {1..1000000}" by auto
  show ?thesis
    using client_ids_until_million [OF _ 1, of "''F1''"] client_ids_until_million [OF _ 2, of "''F1''"] ids by auto
qed


subsection \<open>Docket numbers\<close>

definition date_ok :: "ymd \<Rightarrow> bool" where
  "date_ok t \<longleftrightarrow> (case t of (y, m, d) \<Rightarrow> 1000 \<le> y \<and> y \<le> 9999 \<and> 1 \<le> m \<and> m \<le> 12 \<and> 1 \<le> d \<and> d \<le> 31)"

lemma all_digits_list [simp]: "list_all is_digit (decimal n)" "list_all is_digit (padded w n)"
  using decimal_digits [of n] padded_digits [of w n] by (simp_all add: all_digits_def)

lemma date_string_facts:
  assumes "date_ok (y, m, d)"
  shows "length (decimal y) = 4" "length (padded 2 m) = 2" "length (padded 2 d) = 2"
    "digits_of_length 8 (date_string (y, m, d))" "date_of_string (date_string (y, m, d)) = (int y, int m - 1, int d)"
proof -
  have "length (decimal y) \<le> 4" "\<not> length (decimal y) \<le> 3"
    using assms length_decimal [of 4 y] length_decimal [of 3 y] by (simp_all add: date_ok_def)
  then show l: "length (decimal y) = 4" by simp
  show m: "length (padded 2 m) = 2" and d: "length (padded 2 d) = 2"
    using assms length_padded [of 2 m] length_padded [of 2 d] by (simp_all add: date_ok_def)
  show "digits_of_length 8 (date_string (y, m, d))" using l m d by (simp add: digits_of_length_def date_string_def)
  show "date_of_string (date_string (y, m, d)) = (int y, int m - 1, int d)"
    using l m d by (simp add: date_of_string_def date_string_def)
qed

lemma date_string_inject:
  assumes "date_ok t" and "date_ok u"
  shows "date_string t = date_string u \<longleftrightarrow> t = u"
proof -
  obtain y m d y' m' d' where t: "t = (y, m, d)" and u: "u = (y', m', d')" by (cases t, cases u) auto
  show ?thesis
    using date_string_facts(5) [of y m d] date_string_facts(5) [of y' m' d'] assms unfolding t u by (auto simp del: of_nat_eq_iff)
qed

lemma digits_no_space: "is_digit c \<Longrightarrow> \<not> js_space c \<and> \<not> run_char c \<and> upper_char c = c"
  by (auto simp: is_digit_def js_space_def run_char_def upper_char_def Let_def)

lemma date_and_number_padded:
  assumes "digits_of_length 8 s"
  shows "date_and_number (s @ ''-'' @ padded 5 n) \<longleftrightarrow> n < 100000"
  using assms length_padded [of 5 n] by (simp add: date_and_number_def digits_of_length_def)

lemma generated_case_id:
  assumes "generateCaseId db today firmId m = (m', Inr i)"
  obtains n where "i = ''CASE-'' @ date_string today @ ''-'' @ padded 5 n"
    "m' (''case-'' @ date_string today, firmId) = Some n" "n = counter_value m (''case-'' @ date_string today, firmId) + 1"
proof -
  have f: "firmId \<noteq> []" using assms by (auto simp: generateCaseId_def wrap_error_def)
  let ?k = "(''case-'' @ date_string today, firmId)"
  consider e where "getNextSequence db (fst ?k) firmId m = (m, Inl e)"
    | "getNextSequence db (fst ?k) firmId m = (m(?k \<mapsto> counter_value m ?k + 1), Inr (counter_value m ?k + 1))"
    using getNextSequence_cases [of db "fst ?k" firmId m] by auto
  then show ?thesis
  proof cases
    case 1
    then show ?thesis using assms f by (simp add: generateCaseId_def Let_def numbered_def wrap_error_def)
  next
    case 2
    then show ?thesis using assms f that [of "counter_value m ?k + 1"]
      by (auto simp: generateCaseId_def Let_def numbered_def wrap_error_def)
  qed
qed

text \<open>
  Fact. A generated docket number can be read back: up to 99999 dockets of a firm and a day it has
  the documented format, resolves as a docket number, and gives back its date; beyond that it is in no
  valid format.  Different days or counts give different numbers.
\<close>

theorem case_number_roundtrip:
  assumes "date_ok (y, mo, d)" and "generateCaseId db (y, mo, d) firmId m = (m', Inr i)"
    and "m' (''case-'' @ date_string (y, mo, d), firmId) = Some n"
  shows "(isValidCaseIdFormat i \<longleftrightarrow> n < 100000) \<and> (isValidCaseNumberFormat i \<longleftrightarrow> n < 100000)
    \<and> (n < 100000 \<longrightarrow> extractDateFromCaseId i = Some (int y, int mo - 1, int d) \<and> parse_dec (drop 14 i) = n)
    \<and> (date_ok t \<and> i = ''CASE-'' @ date_string t @ ''-'' @ padded 5 k \<longrightarrow> t = (y, mo, d) \<and> k = n)"
proof -
  let ?s = "date_string (y, mo, d)"
  note D = date_string_facts [OF assms(1)]
  have len: "length ?s = 8" "list_all is_digit ?s" using D(4) by (simp_all add: digits_of_length_def)
  have i: "i = ''CASE-'' @ ?s @ ''-'' @ padded 5 n"
    using generated_case_id [OF assms(2)] assms(3) by (metis option.inject)
  have v: "isValidCaseIdFormat i \<longleftrightarrow> n < 100000"
    using date_and_number_padded [OF D(4), of n] strip_prefix_append [of "''CASE-''" "?s @ ''-'' @ padded 5 n"]
    by (simp add: isValidCaseIdFormat_def i)
  have plain: "list_all (\<lambda>c. \<not> js_space c \<and> \<not> run_char c \<and> upper_char c = c) i"
  proof -
    have lit: "list_all (\<lambda>c. \<not> js_space c \<and> \<not> run_char c \<and> upper_char c = c) ''CASE-''" by code_simp
    have dig: "list_all (\<lambda>c. \<not> js_space c \<and> \<not> run_char c \<and> upper_char c = c) x" if "list_all is_digit x" for x
      using that digits_no_space by (auto simp: list_all_iff)
    show ?thesis using lit dig [OF len(2)] dig [of "padded 5 n"] by (simp add: i)
  qed
  then have n: "js_trim i = i" "collapse_runs run_char i = i" "js_upper i = i"
    by (auto simp: list_all_iff js_upper_def map_idI intro!: js_trim_none collapse_runs_id)
  have "\<not> date_and_number i"
  proof -
    have "\<not> list_all is_digit (take 8 i)" by (simp add: i) code_simp
    then show ?thesis by (simp add: date_and_number_def digits_of_length_def)
  qed
  moreover have "strip_prefix ''DOCKET-'' i = None" by (simp add: i strip_prefix_def)
  ultimately have c: "isValidCaseNumberFormat i \<longleftrightarrow> n < 100000"
    using v n by (auto simp: isValidCaseNumberFormat_def isValidCaseIdFormat_def i Let_def)
  have x: "extractDateFromCaseId i = Some (int y, int mo - 1, int d) \<and> parse_dec (drop 14 i) = n" if "n < 100000"
    using that v len D(5) by (simp add: extractDateFromCaseId_def) (simp add: i)
  have "t = (y, mo, d) \<and> k = n" if t: "date_ok t" "i = ''CASE-'' @ date_string t @ ''-'' @ padded 5 k"
  proof -
    obtain y' m' d' where u: "t = (y', m', d')" by (cases t)
    have "length (date_string t) = 8" using date_string_facts(4) t(1) by (simp add: u digits_of_length_def)
    then have "date_string t = ?s \<and> padded 5 k = padded 5 n" using t(2) len by (simp add: i)
    then show ?thesis using date_string_inject [OF t(1) assms(1)] by simp
  qed
  then show ?thesis using v c x by blast
qed


definition sample_counters :: counters where
  "sample_counters = [(''case-20260208'', ''F1'') \<mapsto> 11]"

theorem case_number_roundtrip_witness:
  "extractDateFromCaseId ''CASE-20260208-00012'' = Some (2026, 1, 8) \<and> isValidCaseNumberFormat ''CASE-20260208-00012''"
proof -
  have s: "date_string (2026, 2, 8) = ''20260208''" by (simp add: date_string_def padded_eval)
  have p: "padded 5 12 = ''00012''" by (simp add: padded_eval)
  have 1: "date_ok (2026, 2, 8)" by (simp add: date_ok_def)
  have 2: "generateCaseId Counter_ok (2026, 2, 8) ''F1'' sample_counters = (sample_counters((''case-20260208'', ''F1'') \<mapsto> 12), Inr ''CASE-20260208-00012'')"
    by (simp add: generateCaseId_def getNextSequence_def bump_def sample_counters_def s p numbered_def Let_def wrap_error_def)
  have 3: "(sample_counters((''case-20260208'', ''F1'') \<mapsto> 12)) (''case-'' @ date_string (2026, 2, 8), ''F1'') = Some 12"
    by (simp add: s)
  show ?thesis using case_number_roundtrip [OF 1 2 3] by simp
qed

lemma docket_id_facts:
  assumes "date_ok today" and "1000 \<le> random" and "random < 10000"
    and "generateDocketId today random firmId workTypePrefix = Inr i"
  shows "isValidDocketIdFormat i" "\<not> isValidCaseNumberFormat i" "\<not> isValidObjectId i"
proof -
  obtain y mo d where today: "today = (y, mo, d)" by (cases today)
  obtain p where i: "i = p @ date_string today @ decimal random" and p: "2 \<le> length p" "length p \<le> 4" "list_all capital p"
    using assms(4) by (auto simp: generateDocketId_def Let_def split: if_splits)
  have s: "digits_of_length 8 (date_string today)" using date_string_facts(4) assms(1) today by simp
  have "length (decimal random) = 4" using assms(2,3) length_decimal [of 4 random] length_decimal [of 3 random] by simp
  then have t: "digits_of_length 12 (date_string today @ decimal random)" using s by (simp add: digits_of_length_def)
  have nc: "\<not> capital c" if "is_digit c" for c using that by (auto simp: is_digit_def capital_def)
  obtain c u where cu: "date_string today @ decimal random = c # u" "is_digit c"
    using t by (cases "date_string today @ decimal random") (auto simp: digits_of_length_def)
  have "takeWhile capital i = p" using p(3) cu nc by (simp add: i takeWhile_append2 list_all_iff)
  then have v: "isValidDocketIdFormat i" using p t by (simp add: isValidDocketIdFormat_def Let_def i)
  have chars: "\<forall>c\<in>set i. capital c \<or> is_digit c"
    using p(3) t by (auto simp: i list_all_iff digits_of_length_def)
  have plain: "\<not> js_space c \<and> \<not> run_char c \<and> upper_char c = c" if "capital c \<or> is_digit c" for c
    using that digits_no_space [of c] by (auto simp: capital_def js_space_def run_char_def upper_char_def Let_def)
  then have n: "js_trim i = i" "collapse_runs run_char i = i" "js_upper i = i"
    using chars by (auto simp: list_all_iff js_upper_def map_idI intro!: js_trim_none collapse_runs_id)
  have "\<not> (capital CHR ''-'' \<or> is_digit CHR ''-'')" by code_simp
  then have dash: "CHR ''-'' \<notin> set i" using chars by blast
  have "\<not> date_and_number i"
  proof
    assume "date_and_number i"
    then have "CHR ''-'' \<in> set (take 1 (drop 8 i))" by (simp add: date_and_number_def)
    then show False using dash by (meson in_set_dropD in_set_takeD)
  qed
  moreover have "strip_prefix q i = None" if "CHR ''-'' \<in> set q" for q
    using dash that by (cases "strip_prefix q i") (auto simp: strip_prefix_Some)
  ultimately have c: "\<not> isValidCaseNumberFormat i" using n by (simp add: isValidCaseNumberFormat_def Let_def)
  have "length i \<noteq> 24" using p t by (simp add: i digits_of_length_def)
  with v c show "isValidDocketIdFormat i" "\<not> isValidCaseNumberFormat i" "\<not> isValidObjectId i"
    by (simp_all add: isValidObjectId_def)
qed

text \<open>
  Fact. A docket of a work type with a prefix cannot be looked up by its number: the generated number
  has the documented format of such dockets, but the resolution of identifiers accepts only object
  identifiers and the older format, so it fails for every such number, whatever is stored.
\<close>

theorem docket_ids_unresolvable:
  assumes "date_ok today" and "1000 \<le> random" and "random < 10000"
    and "generateDocketId today random firmId workTypePrefix = Inr i"
  shows "isValidDocketIdFormat i \<and> \<not> isValidCaseNumberFormat i
    \<and> (truthy callerFirm \<longrightarrow> is_error (resolveCaseIdentifier by_internal by_number by_id callerFirm (Some i)))"
  using docket_id_facts [OF assms] by (simp add: resolveCaseIdentifier_def Let_def)

theorem docket_ids_unresolvable_witness:
  "is_error (resolveCaseIdentifier (\<lambda>_. None) (\<lambda>_. Some sample_docket) (\<lambda>_. None) (Some ''F1'') (Some ''CO202603084821''))"
proof -
  have 1: "date_ok (2026, 3, 8)" by (simp add: date_ok_def)
  have s: "date_string (2026, 3, 8) = ''20260308''" "decimal 4821 = ''4821''" by (simp_all add: date_string_def padded_eval)
  have u: "js_upper (js_trim ''co'') = ''CO''" "list_all capital ''CO''" by code_simp+
  have 2: "generateDocketId (2026, 3, 8) 4821 (Some ''F1'') (Some ''co'') = Inr ''CO202603084821''"
    by (simp add: generateDocketId_def s u Let_def capital_def)
  show ?thesis using docket_ids_unresolvable [OF 1 _ _ 2, of "Some ''F1''"] by simp
qed

end
