(* ===== verification/Otp.thy ===== *)
theory Otp
  imports Decimal Selection
begin

section \<open>One-time passwords\<close>

text \<open>
  \<open>src/services/otp.service.js\<close>: a code is sent to an identifier for a purpose, at most once a
  minute, and verified at most once, within five minutes and with at most five attempts.  The collection
  is a list of documents; the lookup of a user's mail addresses, the random number and the presence of
  the signing secret are arguments.
\<close>

definition OTP_EXPIRY_MINUTES :: int where "OTP_EXPIRY_MINUTES = 5"
definition OTP_MAX_ATTEMPTS :: nat where "OTP_MAX_ATTEMPTS = 5"
definition OTP_RATE_LIMIT_SECONDS :: int where "OTP_RATE_LIMIT_SECONDS = 60"

record otp =
  otp_identifier :: string
  otp_code :: string
  otp_purpose :: string
  otp_expires_at :: int
  otp_attempts :: nat
  otp_is_used :: bool
  otp_created_at :: int

text \<open>\<open>primary_email\<close> and \<open>email\<close> of the user with an xID.\<close>

type_synonym user_lookup = "string \<Rightarrow> (string option \<times> string option) option"

record otp_ident =
  oi_email :: "string option"
  oi_xid :: "string option"
  oi_xID :: "string option"
  oi_XID :: "string option"
  oi_identifier :: "string option"

definition otp_error :: "string \<Rightarrow> js_error" where
  "otp_error msg = Thrown msg None None"

definition normalizeIdentifier :: "user_lookup \<Rightarrow> otp_ident \<Rightarrow> string res" where
  "normalizeIdentifier users a =
    (let raw = (if truthy (oi_identifier a) then Some (js_trim (str_or_empty (oi_identifier a))) else None)
     in if truthy (oi_email a) \<or> (truthy raw \<and> CHR ''@'' \<in> set (str_or_empty raw))
        then Inr (js_lower (js_trim (str_or_empty (js_or (oi_email a) raw))))
        else (let normalizedXid = js_upper (js_trim (str_or_empty
                    (js_or (oi_xID a) (js_or (oi_XID a) (js_or (oi_xid a) raw)))))
              in if normalizedXid = [] then Inl (otp_error ''IDENTIFIER_REQUIRED'')
                 else (case users normalizedXid of None \<Rightarrow> Inl (otp_error ''IDENTIFIER_NOT_FOUND'')
                   | Some (primary_email, email) \<Rightarrow>
                      (let canonicalEmail = js_lower (js_trim (str_or_empty (js_or primary_email email)))
                       in if canonicalEmail = [] then Inl (otp_error ''IDENTIFIER_NOT_FOUND'') else Inr canonicalEmail))))"

definition generateOtpCode :: "nat \<Rightarrow> string" where
  "generateOtpCode random = padStart 6 (decimal random)"

text \<open>\<open>findOne(...).sort({ created_at: -1 })\<close>.\<close>

definition newest :: "(otp \<Rightarrow> bool) \<Rightarrow> otp list \<Rightarrow> otp option" where
  "newest P os = pick (\<lambda>x y. otp_created_at y < otp_created_at x) (filter P os)"

definition sendOtp :: "user_lookup \<Rightarrow> int \<Rightarrow> nat \<Rightarrow> otp_ident \<Rightarrow> string \<Rightarrow> otp list \<Rightarrow> otp list \<times> (string \<times> int) res" where
  "sendOtp users now random a purpose os =
    (case normalizeIdentifier users a of Inl e \<Rightarrow> (os, Inl e)
     | Inr i \<Rightarrow>
        (case newest (\<lambda>c. otp_identifier c = i \<and> otp_purpose c = purpose) os of
           Some latest \<Rightarrow>
             if now - otp_created_at latest < OTP_RATE_LIMIT_SECONDS * 1000 then (os, Inl (otp_error ''OTP_RATE_LIMITED''))
             else (os @ [\<lparr>otp_identifier = i, otp_code = generateOtpCode random, otp_purpose = purpose,
                     otp_expires_at = now + OTP_EXPIRY_MINUTES * 60 * 1000, otp_attempts = 0, otp_is_used = False, otp_created_at = now\<rparr>],
                   Inr (i, now + OTP_EXPIRY_MINUTES * 60 * 1000))
         | None \<Rightarrow>
             (os @ [\<lparr>otp_identifier = i, otp_code = generateOtpCode random, otp_purpose = purpose,
                     otp_expires_at = now + OTP_EXPIRY_MINUTES * 60 * 1000, otp_attempts = 0, otp_is_used = False, otp_created_at = now\<rparr>],
              Inr (i, now + OTP_EXPIRY_MINUTES * 60 * 1000))))"

definition verified_identifier :: "user_lookup \<Rightarrow> string \<Rightarrow> string res" where
  "verified_identifier users identifier =
    (let raw = js_trim identifier
     in if CHR ''@'' \<in> set raw then Inr (js_lower raw)
        else (case users (js_upper raw) of None \<Rightarrow> Inl (otp_error ''IDENTIFIER_NOT_FOUND'')
          | Some (primary_email, email) \<Rightarrow> Inr (js_lower (str_or_empty (js_or primary_email email)))))"

text \<open>\<open>save()\<close> replaces the document that was loaded.\<close>

fun replace_first :: "otp \<Rightarrow> otp \<Rightarrow> otp list \<Rightarrow> otp list" where
  "replace_first old c [] = []"
| "replace_first old c (x # xs) = (if x = old then c # xs else x # replace_first old c xs)"

definition open_for :: "string \<Rightarrow> string \<Rightarrow> otp \<Rightarrow> bool" where
  "open_for i purpose c \<longleftrightarrow> otp_identifier c = i \<and> otp_purpose c = purpose \<and> \<not> otp_is_used c"

definition verifyOtp ::
  "user_lookup \<Rightarrow> bool \<Rightarrow> int \<Rightarrow> string \<Rightarrow> string \<Rightarrow> string \<Rightarrow> otp list \<Rightarrow> otp list \<times> string res" where
  "verifyOtp users has_secret now identifier code purpose os =
    (case verified_identifier users identifier of Inl e \<Rightarrow> (os, Inl e)
     | Inr i \<Rightarrow>
        (case newest (open_for i purpose) os of None \<Rightarrow> (os, Inl (otp_error ''OTP_NOT_FOUND''))
         | Some c \<Rightarrow>
            if otp_expires_at c < now then (os, Inl (otp_error ''OTP_EXPIRED''))
            else if otp_attempts c \<ge> OTP_MAX_ATTEMPTS then (os, Inl (otp_error ''OTP_ATTEMPTS_EXCEEDED''))
            else if otp_code c \<noteq> code
            then (replace_first c (c\<lparr>otp_attempts := otp_attempts c + 1\<rparr>) os, Inl (otp_error ''OTP_INVALID''))
            else (let os1 = replace_first c (c\<lparr>otp_is_used := True\<rparr>) os
                  in if \<not> has_secret then (os1, Inl (otp_error ''JWT_SECRET_MISSING'')) else (os1, Inr i))))"

subsection \<open>Facts\<close>

interpretation newest_first: preference "\<lambda>x y. otp_created_at y < otp_created_at x"
  by unfold_locales auto

lemma newest_in: "newest P os = Some c \<Longrightarrow> c \<in> set os \<and> P c"
  unfolding newest_def by (drule pick_in) simp

lemma newest_best: "newest P os = Some c \<Longrightarrow> d \<in> set os \<Longrightarrow> P d \<Longrightarrow> otp_created_at d \<le> otp_created_at c"
  using newest_first.best [of "filter P os" c d] by (auto simp: newest_def)

lemma newest_None: "newest P os = None \<longleftrightarrow> (\<forall>c\<in>set os. \<not> P c)"
  by (auto simp: newest_def filter_empty_conv)

lemma open_for_updates [simp]:
  "open_for i p (c\<lparr>otp_attempts := n\<rparr>) = open_for i p c" "\<not> open_for i p (c\<lparr>otp_is_used := True\<rparr>)"
  by (simp_all add: open_for_def)

lemma filter_replace:
  "filter P os = [c] \<Longrightarrow> filter P (replace_first c d os) = (if P d then [d] else [])"
proof -
  assume a: "filter P os = [c]"
  then have "c \<in> set (filter P os)" by simp
  then have "P c" by simp
  with a show ?thesis by (induction os) (auto split: if_splits simp: filter_empty_conv)
qed

lemma replace_in: "c \<in> set os \<Longrightarrow> d \<in> set (replace_first c d os)"
  by (induction os) auto

subsection \<open>The specification of one code\<close>

text \<open>
  What a code promises its owner: the state of a code is spent, or the number of wrong attempts so far.
\<close>

datatype code_state = Spent | Wrong nat

fun code_verify :: "string \<Rightarrow> int \<Rightarrow> int \<times> string \<Rightarrow> code_state \<Rightarrow> code_state \<times> bool" where
  "code_verify code expires (now, guess) Spent = (Spent, False)"
| "code_verify code expires (now, guess) (Wrong n) =
    (if expires < now \<or> n \<ge> 5 then (Wrong n, False)
     else if guess = code then (Spent, True) else (Wrong (n + 1), False))"

fun code_run :: "string \<Rightarrow> int \<Rightarrow> (int \<times> string) list \<Rightarrow> code_state \<Rightarrow> bool list" where
  "code_run code expires [] s = []"
| "code_run code expires (g # gs) s = (let (s', ok) = code_verify code expires g s in ok # code_run code expires gs s')"

fun verify_run :: "user_lookup \<Rightarrow> string \<Rightarrow> string \<Rightarrow> (int \<times> string) list \<Rightarrow> otp list \<Rightarrow> string res list" where
  "verify_run users identifier purpose [] os = []"
| "verify_run users identifier purpose ((now, guess) # gs) os =
    (let (os', r) = verifyOtp users True now identifier guess purpose os in r # verify_run users identifier purpose gs os')"

lemma verify_run_spent:
  assumes "verified_identifier users identifier = Inr i" and "\<forall>c\<in>set os. \<not> open_for i purpose c"
  shows "map (\<lambda>r. \<not> is_error r) (verify_run users identifier purpose gs os) = code_run code expires gs Spent"
proof -
  have "newest (open_for i purpose) os = None" using assms(2) by (simp add: newest_None)
  then show ?thesis using assms(1) by (induction gs) (auto simp: verifyOtp_def)
qed

lemma verify_run_open:
  assumes "verified_identifier users identifier = Inr i"
  shows "filter (open_for i purpose) os = [c] \<Longrightarrow> c \<in> set os \<Longrightarrow>
    map (\<lambda>r. \<not> is_error r) (verify_run users identifier purpose gs os)
      = code_run (otp_code c) (otp_expires_at c) gs (Wrong (otp_attempts c))"
proof (induction gs arbitrary: os c)
  case Nil
  then show ?case by simp
next
  case (Cons g gs)
  obtain now guess where g: "g = (now, guess)" by (cases g)
  have n: "newest (open_for i purpose) os = Some c" using Cons.prems(1) by (simp add: newest_def)
  have o: "open_for i purpose c" using newest_in [OF n] by blast
  show ?case
  proof (cases "otp_expires_at c < now \<or> otp_attempts c \<ge> 5")
    case True
    then have "fst (verifyOtp users True now identifier guess purpose os) = os" "is_error (snd (verifyOtp users True now identifier guess purpose os))"
      using n assms by (auto simp: verifyOtp_def OTP_MAX_ATTEMPTS_def)
    then show ?thesis using Cons True g by (simp add: split_beta)
  next
    case live: False
    show ?thesis
    proof (cases "guess = otp_code c")
      case True
      let ?os = "replace_first c (c\<lparr>otp_is_used := True\<rparr>) os"
      have "filter (open_for i purpose) ?os = []" using filter_replace [OF Cons.prems(1), of "c\<lparr>otp_is_used := True\<rparr>"] by simp
      then have "\<forall>c\<in>set ?os. \<not> open_for i purpose c" by (simp add: filter_empty_conv)
      moreover have "verifyOtp users True now identifier guess purpose os = (?os, Inr i)"
        using n assms live True by (simp add: verifyOtp_def OTP_MAX_ATTEMPTS_def Let_def)
      ultimately show ?thesis using verify_run_spent [OF assms] live True g by simp
    next
      case False
      let ?c = "c\<lparr>otp_attempts := otp_attempts c + 1\<rparr>"
      let ?os = "replace_first c ?c os"
      have "filter (open_for i purpose) ?os = [?c]" using filter_replace [OF Cons.prems(1), of ?c] o by simp
      moreover have "?c \<in> set ?os" using Cons.prems(2) by (rule replace_in)
      ultimately have "map (\<lambda>r. \<not> is_error r) (verify_run users identifier purpose gs ?os)
          = code_run (otp_code c) (otp_expires_at c) gs (Wrong (otp_attempts c + 1))" using Cons.IH by fastforce
      moreover have "verifyOtp users True now identifier guess purpose os = (?os, Inl (otp_error ''OTP_INVALID''))"
        using n assms live False by (simp add: verifyOtp_def OTP_MAX_ATTEMPTS_def)
      ultimately show ?thesis using live False g by simp
    qed
  qed
qed


lemma code_run_spent: "True \<notin> set (code_run code expires gs Spent)"
  by (induction gs) auto

lemma code_run_once: "length (filter (\<lambda>ok. ok) (code_run code expires gs s)) \<le> 1"
proof (induction gs arbitrary: s)
  case Nil
  then show ?case by simp
next
  case (Cons g gs)
  have "filter (\<lambda>ok. ok) (code_run code expires gs Spent) = []" using code_run_spent [of code expires gs] by (auto simp: filter_empty_conv)
  then show ?case using Cons by (cases g; cases s) (auto simp: Let_def)
qed

lemma code_run_wrong:
  "\<forall>(now, guess) \<in> set gs. now \<le> expires \<and> guess \<noteq> code \<Longrightarrow> 5 \<le> n + length gs \<Longrightarrow>
    True \<notin> set (code_run code expires (gs @ hs) (Wrong n))"
proof (induction gs arbitrary: n)
  case Nil
  have "True \<notin> set (code_run code expires hs (Wrong m))" if "5 \<le> m" for m
    using that by (induction hs) auto
  then show ?case using Nil by simp
next
  case (Cons g gs)
  obtain now guess where g: "g = (now, guess)" by (cases g)
  have stop: "True \<notin> set (code_run code expires hs (Wrong m))" if "5 \<le> m" for m hs
    using that by (induction hs) auto
  show ?case using Cons.IH [of "n + 1"] Cons.prems stop [of n "(gs @ hs)"] g by auto
qed

lemma sendOtp_cases:
  "snd (sendOtp users now random a purpose os) = Inr r \<Longrightarrow>
    \<exists>i. normalizeIdentifier users a = Inr i \<and> r = (i, now + 300000)
      \<and> fst (sendOtp users now random a purpose os) = os @ [\<lparr>otp_identifier = i, otp_code = generateOtpCode random, otp_purpose = purpose,
            otp_expires_at = now + 300000, otp_attempts = 0, otp_is_used = False, otp_created_at = now\<rparr>]"
  by (auto simp: sendOtp_def OTP_EXPIRY_MINUTES_def split: sum.splits option.splits if_splits)

subsection \<open>Properties\<close>


definition sample_ident :: otp_ident where
  "sample_ident = \<lparr>oi_email = Some '' Ann@x.org '', oi_xid = None, oi_xID = None, oi_XID = None, oi_identifier = None\<rparr>"

definition sample_otp :: otp where
  "sample_otp = \<lparr>otp_identifier = ''ann@x.org'', otp_code = ''004821'', otp_purpose = ''login'',
     otp_expires_at = 301000, otp_attempts = 0, otp_is_used = False, otp_created_at = 1000\<rparr>"

lemma sample_send: "sendOtp (\<lambda>_. None) 1000 4821 sample_ident ''login'' [] = ([sample_otp], Inr (''ann@x.org'', 301000))"
proof -
  have 1: "normalizeIdentifier (\<lambda>_. None) sample_ident = Inr ''ann@x.org''" by code_simp
  have 2: "generateOtpCode 4821 = ''004821''" by (simp add: generateOtpCode_def padded_eval)
  show ?thesis by (simp add: sendOtp_def 1 2 newest_def OTP_EXPIRY_MINUTES_def sample_otp_def)
qed


text \<open>
  Fact. An older code comes back: when a second code is sent before the first has expired, the first
  is set aside only until the second is used; then the first, unused and in time, verifies as well.
\<close>

theorem otp_old_code_revived:
  assumes "verified_identifier users identifier = Inr i" and "filter (open_for i purpose) os = [c1, c2]"
    and "otp_created_at c1 < otp_created_at c2" and "otp_attempts c1 < 5" and "otp_attempts c2 < 5"
    and "now \<le> otp_expires_at c2" and "u \<le> otp_expires_at c1"
  shows "(otp_code c1 \<noteq> otp_code c2 \<longrightarrow> snd (verifyOtp users True now identifier (otp_code c1) purpose os) = Inl (otp_error ''OTP_INVALID''))
    \<and> (\<exists>os1. verifyOtp users True now identifier (otp_code c2) purpose os = (os1, Inr i)
          \<and> snd (verifyOtp users True u identifier (otp_code c1) purpose os1) = Inr i)"
proof -
  have n: "newest (open_for i purpose) os = Some c2" using assms(2,3) by (simp add: newest_def)
  let ?os = "replace_first c2 (c2\<lparr>otp_is_used := True\<rparr>) os"
  have "filter P (replace_first d e xs) = filter P (remove1 d xs)" if "\<not> P e" for P d e and xs :: "otp list"
    using that by (induction xs) auto
  then have "filter (open_for i purpose) ?os = filter (open_for i purpose) (remove1 c2 os)" by simp
  also have "\<dots> = remove1 c2 [c1, c2]" by (simp add: filter_remove1 assms(2))
  also have "\<dots> = [c1]" using assms(3) by auto
  finally have "newest (open_for i purpose) ?os = Some c1" by (simp add: newest_def)
  then show ?thesis using assms n by (simp add: verifyOtp_def OTP_MAX_ATTEMPTS_def Let_def)
qed

definition sample_otp2 :: otp where
  "sample_otp2 = sample_otp\<lparr>otp_code := ''123456'', otp_expires_at := 362000, otp_created_at := 62000\<rparr>"

theorem otp_old_code_revived_witness:
  "\<exists>os1. verifyOtp (\<lambda>_. None) True 63000 ''ann@x.org'' ''123456'' ''login'' [sample_otp, sample_otp2] = (os1, Inr ''ann@x.org'')
     \<and> snd (verifyOtp (\<lambda>_. None) True 64000 ''ann@x.org'' ''004821'' ''login'' os1) = Inr ''ann@x.org''"
proof -
  have 1: "verified_identifier (\<lambda>_. None) ''ann@x.org'' = Inr ''ann@x.org''" by code_simp
  have 2: "filter (open_for ''ann@x.org'' ''login'') [sample_otp, sample_otp2] = [sample_otp, sample_otp2]"
    by (simp add: open_for_def sample_otp_def sample_otp2_def)
  show ?thesis
    using conjunct2 [OF otp_old_code_revived [OF 1 2, of 63000 64000]] by (simp add: sample_otp_def sample_otp2_def)
qed

text \<open>
  Fact. Sending is limited to once a minute for an identifier and a purpose, codes are six digits
  that determine the random number, and a refused request changes nothing.
\<close>

theorem otp_rate_limit:
  assumes "sendOtp users t random a purpose os = (os1, Inr (i, expires))" and "normalizeIdentifier users b = Inr i"
    and "\<forall>c\<in>set os. otp_created_at c \<le> t" and "random < 1000000"
  shows "(u < t + 60000 \<longrightarrow> sendOtp users u random' b purpose os1 = (os1, Inl (otp_error ''OTP_RATE_LIMITED'')))
    \<and> (t + 60000 \<le> u \<longrightarrow> (\<exists>c. sendOtp users u random' b purpose os1 = (os1 @ [c], Inr (i, u + 300000)) \<and> otp_created_at c = u))
    \<and> length (generateOtpCode random) = 6 \<and> all_digits (generateOtpCode random) \<and> parse_dec (generateOtpCode random) = random"
proof -
  let ?P = "\<lambda>c. otp_identifier c = i \<and> otp_purpose c = purpose"
  obtain c where c: "os1 = os @ [c]" "?P c" "otp_created_at c = t"
    using sendOtp_cases [of users t random a purpose os "(i, expires)"] assms(1) by auto
  obtain d where d: "newest ?P os1 = Some d" using newest_None [of ?P os1] c by (cases "newest ?P os1") auto
  have "otp_created_at d = t" using newest_in [OF d] newest_best [OF d, of c] assms(3) c by (auto intro: antisym)
  then have "u < t + 60000 \<Longrightarrow> sendOtp users u random' b purpose os1 = (os1, Inl (otp_error ''OTP_RATE_LIMITED''))"
    and "t + 60000 \<le> u \<Longrightarrow> \<exists>c. sendOtp users u random' b purpose os1 = (os1 @ [c], Inr (i, u + 300000)) \<and> otp_created_at c = u"
    using d assms(2) by (auto simp: sendOtp_def OTP_RATE_LIMIT_SECONDS_def OTP_EXPIRY_MINUTES_def)
  moreover have "length (generateOtpCode random) = 6" "all_digits (generateOtpCode random)" "parse_dec (generateOtpCode random) = random"
    using assms(4) length_padded [of 6 random] padded_digits [of 6 random] parse_padded [of 6 random]
    by (simp_all add: generateOtpCode_def padded_def)
  ultimately show ?thesis by blast
qed

theorem otp_rate_limit_witness:
  "sendOtp (\<lambda>_. None) 60999 7 sample_ident ''login'' [sample_otp] = ([sample_otp], Inl (otp_error ''OTP_RATE_LIMITED''))
   \<and> (\<exists>c. sendOtp (\<lambda>_. None) 61000 7 sample_ident ''login'' [sample_otp] = ([sample_otp] @ [c], Inr (''ann@x.org'', 361000)))"
proof -
  have 1: "normalizeIdentifier (\<lambda>_. None) sample_ident = Inr ''ann@x.org''" by code_simp
  have 2: "\<forall>c\<in>set []. otp_created_at c \<le> 1000" by simp
  show ?thesis
    using otp_rate_limit [OF sample_send 1 2, of 60999 7] otp_rate_limit [OF sample_send 1 2, of 61000 7] by auto
qed

end
