(* ===== verification/SlaRules.thy ===== *)
theory SlaRules
  imports SlaCalendar Selection
begin

section \<open>SLA rules and status\<close>

text \<open>
  \<open>src/services/sla.service.js\<close>: the choice of the rule that applies to a docket, its due date, and
  the traffic light of a docket against the weekly figures.  The rules of the firm are an argument; a
  missing timestamp counts as 0, as in the code.
\<close>

definition sla_normalizeString :: "string option \<Rightarrow> string option" where
  "sla_normalizeString v = (let s = js_trim (str_or_empty v) in if s = [] then None else Some (js_lower s))"

definition sla_normalizeIdentifier :: "string option \<Rightarrow> string option" where
  "sla_normalizeIdentifier v = (let s = js_trim (str_or_empty v) in if s = [] then None else Some s)"

record sla_docket =
  sd_firmId :: "string option"
  sd_category :: "string option"
  sd_subcategory :: "string option"
  sd_workbasketId :: "string option"
  sd_ownerTeamId :: "string option"
  sd_routedToTeamId :: "string option"
  sd_createdAt :: "int option"
  sd_updatedAt :: "int option"
  sd_status :: "string option"
  sd_slaDueAt :: "int option"
  sd_slaDueDate :: "int option"
  sd_assignedToXID :: "string option"
  sd_createdByXID :: "string option"
  sd_caseId :: "string option"

record sla_rule =
  sr_firmId :: string
  sr_isActive :: bool
  sr_category :: "string option"
  sr_subcategory :: "string option"
  sr_workbasketId :: "string option"
  sr_slaHours :: "rat option"
  sr_slaWorkingDays :: "rat option"
  sr_updatedAt :: "int option"
  sr_createdAt :: "int option"

definition or_else :: "'a option \<Rightarrow> 'a option \<Rightarrow> 'a option" where
  "or_else a b = (case a of Some x \<Rightarrow> Some x | None \<Rightarrow> b)"

definition getWorkbasketId :: "sla_docket \<Rightarrow> string option" where
  "getWorkbasketId d =
    or_else (sla_normalizeIdentifier (sd_workbasketId d))
      (or_else (sla_normalizeIdentifier (sd_ownerTeamId d)) (sla_normalizeIdentifier (sd_routedToTeamId d)))"

definition getRuleSelectorCount :: "sla_rule \<Rightarrow> int" where
  "getRuleSelectorCount r =
    int (length (filter (\<lambda>v. v \<noteq> None)
      [sla_normalizeString (sr_subcategory r), sla_normalizeString (sr_category r), sla_normalizeIdentifier (sr_workbasketId r)]))"

definition getRulePriority :: "sla_rule \<Rightarrow> int" where
  "getRulePriority r =
    (if sla_normalizeString (sr_subcategory r) \<noteq> None then 4
     else if sla_normalizeString (sr_category r) \<noteq> None then 3
     else if sla_normalizeIdentifier (sr_workbasketId r) \<noteq> None then 2 else 1)"

definition selector_agrees :: "string option \<Rightarrow> string option \<Rightarrow> bool" where
  "selector_agrees sel v \<longleftrightarrow> sel = None \<or> sel = v"

definition isRuleEligible :: "sla_docket \<Rightarrow> sla_rule \<Rightarrow> bool" where
  "isRuleEligible d r \<longleftrightarrow>
    selector_agrees (sla_normalizeString (sr_category r)) (sla_normalizeString (sd_category d))
    \<and> selector_agrees (sla_normalizeString (sr_subcategory r)) (sla_normalizeString (sd_subcategory d))
    \<and> selector_agrees (sla_normalizeIdentifier (sr_workbasketId r)) (getWorkbasketId d)"

definition stamp :: "int option \<Rightarrow> int" where
  "stamp v = (case v of Some t \<Rightarrow> t | None \<Rightarrow> 0)"

definition compareRules :: "sla_rule \<Rightarrow> sla_rule \<Rightarrow> int" where
  "compareRules left right =
    (let priorityDiff = getRulePriority right - getRulePriority left;
         selectorDiff = getRuleSelectorCount right - getRuleSelectorCount left;
         updatedAtDiff = stamp (sr_updatedAt right) - stamp (sr_updatedAt left)
     in if priorityDiff \<noteq> 0 then priorityDiff
        else if selectorDiff \<noteq> 0 then selectorDiff
        else if updatedAtDiff \<noteq> 0 then updatedAtDiff
        else stamp (sr_createdAt right) - stamp (sr_createdAt left))"

definition positive_number :: "rat option \<Rightarrow> rat option" where
  "positive_number v = (case v of Some q \<Rightarrow> if 0 < q then Some q else None | None \<Rightarrow> None)"

definition rule_before :: "sla_rule \<Rightarrow> sla_rule \<Rightarrow> bool" where
  "rule_before l r \<longleftrightarrow> compareRules l r < 0"

text \<open>\<open>given\<close> are \<open>options.rules\<close>, \<open>stored\<close> the collection.\<close>

definition resolveSlaRule :: "string option \<Rightarrow> sla_rule list option \<Rightarrow> sla_rule list \<Rightarrow> sla_docket \<Rightarrow> sla_rule option" where
  "resolveSlaRule optFirm given stored d =
    (case sla_normalizeIdentifier (js_or (sd_firmId d) optFirm) of None \<Rightarrow> None
     | Some firmId \<Rightarrow>
        (let rules = (case given of Some rs \<Rightarrow> rs
               | None \<Rightarrow> filter (\<lambda>r. sr_firmId r = firmId \<and> sr_isActive r) stored);
             eligible = filter (isRuleEligible d) rules
         in case stable_sort rule_before eligible of [] \<Rightarrow> None | r # _ \<Rightarrow> Some r))"

definition js_round :: "rat \<Rightarrow> int" where
  "js_round q = \<lfloor>q + 1 / 2\<rfloor>"

definition rule_minutes :: "sla_rule option \<Rightarrow> int option" where
  "rule_minutes rule =
    (case rule of None \<Rightarrow> None
     | Some r \<Rightarrow>
        (case positive_number (sr_slaWorkingDays r) of
           Some days \<Rightarrow> Some (js_round (days * 8 * 60))
         | None \<Rightarrow> (case positive_number (sr_slaHours r) of Some hours \<Rightarrow> Some (js_round (hours * 60)) | None \<Rightarrow> None)))"

definition calculateSlaDueDate ::
  "zone \<Rightarrow> (string \<Rightarrow> string) \<Rightarrow> raw_config \<Rightarrow> int \<Rightarrow> sla_rule option \<Rightarrow> sla_docket \<Rightarrow> int option" where
  "calculateSlaDueDate z toKey config now rule d =
    (let startAt = (case or_else (sd_createdAt d) (sd_updatedAt d) of Some t \<Rightarrow> t | None \<Rightarrow> now)
     in map_option (\<lambda>m. calculateDueDate z toKey startAt (Some (of_int m)) config) (rule_minutes rule))"

definition calculateFallbackDueDateFromDays ::
  "zone \<Rightarrow> (string \<Rightarrow> string) \<Rightarrow> raw_config \<Rightarrow> int \<Rightarrow> rat option \<Rightarrow> int option" where
  "calculateFallbackDueDateFromDays z toKey config startAt days =
    (case positive_number days of None \<Rightarrow> None
     | Some q \<Rightarrow> Some (calculateDueDate z toKey startAt (Some (of_int (js_round (q * 8 * 60)))) config))"

subsection \<open>Status\<close>

definition sla_TERMINAL :: "string list" where
  "sla_TERMINAL = [''RESOLVED'', ''FILED'', ''CLOSED'']"

definition MS_PER_HOUR :: int where
  "MS_PER_HOUR = 60 * 60 * 1000"

datatype sla_light = GREEN | YELLOW | RED

definition getSlaStatus :: "int \<Rightarrow> sla_docket \<Rightarrow> sla_light" where
  "getSlaStatus now d =
    (let status = js_upper (js_trim (str_or_empty (sd_status d)))
     in case or_else (sd_slaDueAt d) (sd_slaDueDate d) of None \<Rightarrow> GREEN
        | Some dueTs \<Rightarrow>
           if status \<in> set sla_TERMINAL then GREEN
           else if dueTs < now then RED
           else if dueTs - now < 24 * MS_PER_HOUR then YELLOW else GREEN)"

text \<open>
  \<open>syncSlaBreachNotifications\<close>: who is told of which docket.
\<close>

definition syncSlaBreachNotifications :: "string option \<Rightarrow> int \<Rightarrow> sla_docket list \<Rightarrow> (string \<times> string option) list" where
  "syncSlaBreachNotifications firm now ds =
    (if sla_normalizeIdentifier firm = None then []
     else concat (map (\<lambda>d. if getSlaStatus now d \<noteq> RED then []
            else map (\<lambda>u. (u, sd_caseId d))
                   (js_unique (List.map_filter sla_normalizeIdentifier [sd_assignedToXID d, sd_createdByXID d]))) ds))"

definition MS_DAY :: int where
  "MS_DAY = 86400000"

definition getWeekWindow :: "int \<Rightarrow> int \<times> int" where
  "getWeekWindow now = ((now div MS_DAY - 6) * MS_DAY, (now div MS_DAY + 1) * MS_DAY - 1)"

text \<open>The queries whose matches \<open>getWeeklySlaSummary\<close> counts; a missing date matches no bound.\<close>

definition active_query :: "string \<Rightarrow> sla_docket \<Rightarrow> bool" where
  "active_query firmId d \<longleftrightarrow> sd_firmId d = Some firmId \<and> (\<forall>s\<in>set sla_TERMINAL. sd_status d \<noteq> Some s)"

definition currentlyOverdue :: "string \<Rightarrow> int \<Rightarrow> sla_docket \<Rightarrow> bool" where
  "currentlyOverdue firmId now d \<longleftrightarrow> active_query firmId d \<and> (case sd_slaDueAt d of Some t \<Rightarrow> t < now | None \<Rightarrow> False)"

definition dueSoon :: "string \<Rightarrow> int \<Rightarrow> sla_docket \<Rightarrow> bool" where
  "dueSoon firmId now d \<longleftrightarrow> active_query firmId d
     \<and> (case sd_slaDueAt d of Some t \<Rightarrow> now \<le> t \<and> t < now + 24 * MS_PER_HOUR | None \<Rightarrow> False)"

definition onTrack :: "string \<Rightarrow> int \<Rightarrow> sla_docket \<Rightarrow> bool" where
  "onTrack firmId now d \<longleftrightarrow> active_query firmId d \<and> (case sd_slaDueAt d of Some t \<Rightarrow> now + 24 * MS_PER_HOUR \<le> t | None \<Rightarrow> False)"

definition createdThisWeek :: "string \<Rightarrow> int \<Rightarrow> sla_docket \<Rightarrow> bool" where
  "createdThisWeek firmId now d \<longleftrightarrow> sd_firmId d = Some firmId
     \<and> (case sd_createdAt d of Some t \<Rightarrow> fst (getWeekWindow now) \<le> t \<and> t \<le> snd (getWeekWindow now) | None \<Rightarrow> False)"

definition count_if :: "('a \<Rightarrow> bool) \<Rightarrow> 'a list \<Rightarrow> nat" where
  "count_if P xs = length (filter P xs)"

subsection \<open>Choosing a rule\<close>

definition rule_key :: "sla_rule \<Rightarrow> int \<times> int \<times> int \<times> int" where
  "rule_key r = (getRulePriority r, getRuleSelectorCount r, stamp (sr_updatedAt r), stamp (sr_createdAt r))"

fun key_less :: "int \<times> int \<times> int \<times> int \<Rightarrow> int \<times> int \<times> int \<times> int \<Rightarrow> bool" where
  "key_less (a, b, c, d) (a', b', c', d') \<longleftrightarrow>
    a < a' \<or> a = a' \<and> (b < b' \<or> b = b' \<and> (c < c' \<or> c = c' \<and> d < d'))"

lemma rule_before_key: "rule_before l r \<longleftrightarrow> key_less (rule_key r) (rule_key l)"
  by (auto simp: rule_before_def compareRules_def rule_key_def Let_def)

interpretation rules: preference rule_before
proof
  fix x y z
  show "rule_before x y \<Longrightarrow> \<not> rule_before y x"
    by (auto simp: rule_before_key rule_key_def)
  show "\<not> rule_before x y \<Longrightarrow> \<not> rule_before y z \<Longrightarrow> \<not> rule_before x z"
    by (auto simp: rule_before_key rule_key_def)
qed

text \<open>
  Fact. The most specific rule applies: a rule is chosen whenever one is eligible, it is eligible and
  of the docket's firm and active, and no other eligible rule is more specific, or as specific with more
  selectors, or as both and more recently updated or created; the first of equal ones is taken.
\<close>

theorem sla_rule_best:
  assumes "sla_normalizeIdentifier (js_or (sd_firmId d) optFirm) = Some firmId"
    and "eligible = filter (isRuleEligible d) (filter (\<lambda>r. sr_firmId r = firmId \<and> sr_isActive r) stored)"
  shows "(resolveSlaRule optFirm None stored d = None \<longleftrightarrow> eligible = [])
    \<and> (resolveSlaRule optFirm None stored d = Some r \<longrightarrow>
        r \<in> set stored \<and> isRuleEligible d r \<and> sr_firmId r = firmId \<and> sr_isActive r
        \<and> (\<forall>r' \<in> set eligible. \<not> key_less (rule_key r) (rule_key r'))
        \<and> (\<exists>us vs. eligible = us @ r # vs \<and> (\<forall>u \<in> set us. key_less (rule_key u) (rule_key r))))"
proof -
  have p: "resolveSlaRule optFirm None stored d = pick rule_before eligible"
    using assms by (simp add: resolveSlaRule_def pick_sort)
  show ?thesis
  proof (intro conjI impI)
    show "resolveSlaRule optFirm None stored d = None \<longleftrightarrow> eligible = []" by (simp add: p)
  next
    assume "resolveSlaRule optFirm None stored d = Some r"
    then have r: "pick rule_before eligible = Some r" by (simp add: p)
    from pick_in [OF r] show "r \<in> set stored" "isRuleEligible d r" "sr_firmId r = firmId" "sr_isActive r"
      by (simp_all add: assms(2))
    show "\<forall>r' \<in> set eligible. \<not> key_less (rule_key r) (rule_key r')"
      using rules.best [OF r] by (simp add: rule_before_key)
    show "\<exists>us vs. eligible = us @ r # vs \<and> (\<forall>u \<in> set us. key_less (rule_key u) (rule_key r))"
      using rules.first_of_equals [OF r] by (simp add: rule_before_key)
  qed
qed


definition sample_rule :: sla_rule where
  "sample_rule = \<lparr>sr_firmId = ''F1'', sr_isActive = True, sr_category = Some ''Tax'', sr_subcategory = None, sr_workbasketId = None,
     sr_slaHours = Some 16, sr_slaWorkingDays = None, sr_updatedAt = Some 5, sr_createdAt = Some 5\<rparr>"

definition sample_sla_docket :: sla_docket where
  "sample_sla_docket = \<lparr>sd_firmId = Some ''F1'', sd_category = Some '' tax '', sd_subcategory = Some ''GST'', sd_workbasketId = None,
     sd_ownerTeamId = Some ''T1'', sd_routedToTeamId = None, sd_createdAt = Some 0, sd_updatedAt = None, sd_status = Some ''OPEN'',
     sd_slaDueAt = Some 1000, sd_slaDueDate = None, sd_assignedToXID = Some ''X000001'', sd_createdByXID = None, sd_caseId = Some ''C1''\<rparr>"

definition sample_rules :: "sla_rule list" where
  "sample_rules = [sample_rule\<lparr>sr_category := None\<rparr>, sample_rule, sample_rule\<lparr>sr_workbasketId := Some ''T1'', sr_updatedAt := Some 2\<rparr>,
     sample_rule\<lparr>sr_subcategory := Some ''gst'', sr_isActive := False\<rparr>]"

theorem sla_rule_best_witness:
  "resolveSlaRule None None sample_rules sample_sla_docket = Some (sample_rule\<lparr>sr_workbasketId := Some ''T1'', sr_updatedAt := Some 2\<rparr>)
   \<and> isRuleEligible sample_sla_docket (sample_rule\<lparr>sr_workbasketId := Some ''T1'', sr_updatedAt := Some 2\<rparr>)"
proof -
  have 1: "sla_normalizeIdentifier (js_or (sd_firmId sample_sla_docket) None) = Some ''F1''" by code_simp
  have 2: "resolveSlaRule None None sample_rules sample_sla_docket = Some (sample_rule\<lparr>sr_workbasketId := Some ''T1'', sr_updatedAt := Some 2\<rparr>)"
    by code_simp
  show ?thesis using sla_rule_best [OF 1 HOL.refl, of sample_rules "sample_rule\<lparr>sr_workbasketId := Some ''T1'', sr_updatedAt := Some 2\<rparr>"] 2 by blast
qed

subsection \<open>The light and the weekly figures\<close>

lemma week_window:
  "fst (getWeekWindow now) \<le> now \<and> now \<le> snd (getWeekWindow now)
   \<and> snd (getWeekWindow now) - fst (getWeekWindow now) = 7 * MS_DAY - 1 \<and> MS_DAY dvd fst (getWeekWindow now)"
  by (simp add: getWeekWindow_def MS_DAY_def) (intro conjI; linarith)

lemma count_partition:
  assumes "\<And>x. x \<in> set xs \<Longrightarrow> R x \<longleftrightarrow> P x \<or> Q x" and "\<And>x. x \<in> set xs \<Longrightarrow> \<not> (P x \<and> Q x)"
  shows "count_if R xs = count_if P xs + count_if Q xs"
  using assms by (induction xs) (auto simp: count_if_def)

text \<open>
  Fact. The light of a docket agrees with the weekly figures: of the firm's active dockets with a
  due date each is counted once, as overdue exactly when its light is red, as due soon when it is yellow,
  and otherwise as on track, and the three figures add up to their number; the week is seven whole days
  in UTC that end with today.  A docket that has only the older field \<open>slaDueDate\<close> can be red and
  is counted nowhere.
\<close>

theorem sla_light_matches_summary:
  assumes "\<forall>d \<in> set ds. sd_firmId d = Some firmId \<and> sd_slaDueAt d \<noteq> None \<and> sd_status d = Some (js_upper (js_trim (str_or_empty (sd_status d))))"
  shows "(\<forall>d \<in> set ds. (currentlyOverdue firmId now d \<longleftrightarrow> getSlaStatus now d = RED) \<and> (dueSoon firmId now d \<longleftrightarrow> getSlaStatus now d = YELLOW)
       \<and> (onTrack firmId now d \<longleftrightarrow> active_query firmId d \<and> getSlaStatus now d = GREEN))
    \<and> count_if (currentlyOverdue firmId now) ds + count_if (dueSoon firmId now) ds + count_if (onTrack firmId now) ds = count_if (active_query firmId) ds
    \<and> fst (getWeekWindow now) \<le> now \<and> now \<le> snd (getWeekWindow now) \<and> snd (getWeekWindow now) - fst (getWeekWindow now) = 7 * MS_DAY - 1
    \<and> (sd_slaDueAt e = None \<and> sd_slaDueDate e = Some t \<and> t < now \<and> sd_status e = Some ''OPEN'' \<longrightarrow>
        getSlaStatus now e = RED \<and> \<not> currentlyOverdue firmId now e \<and> \<not> dueSoon firmId now e \<and> \<not> onTrack firmId now e)"
proof -
  have each: "(currentlyOverdue firmId now d \<longleftrightarrow> getSlaStatus now d = RED) \<and> (dueSoon firmId now d \<longleftrightarrow> getSlaStatus now d = YELLOW)
       \<and> (onTrack firmId now d \<longleftrightarrow> active_query firmId d \<and> getSlaStatus now d = GREEN)
       \<and> (getSlaStatus now d \<noteq> GREEN \<longrightarrow> active_query firmId d)" if m: "d \<in> set ds" for d
  proof -
    obtain s t where d: "sd_status d = Some s" "sd_slaDueAt d = Some t" "js_upper (js_trim s) = s" "sd_firmId d = Some firmId"
      using assms m by (metis not_None_eq str_or_empty_simps(2))
    then have "active_query firmId d \<longleftrightarrow> s \<notin> set sla_TERMINAL" by (auto simp: active_query_def)
    then show ?thesis using d
      by (auto simp: currentlyOverdue_def dueSoon_def onTrack_def getSlaStatus_def or_else_def MS_PER_HOUR_def)
  qed
  have "count_if (active_query firmId) ds = count_if (currentlyOverdue firmId now) ds + count_if (\<lambda>d. dueSoon firmId now d \<or> onTrack firmId now d) ds"
  proof (rule count_partition)
    fix x assume "x \<in> set ds"
    from each [OF this] show "active_query firmId x \<longleftrightarrow> currentlyOverdue firmId now x \<or> dueSoon firmId now x \<or> onTrack firmId now x"
      by (cases "getSlaStatus now x") simp_all
  next
    fix x assume "x \<in> set ds"
    from each [OF this] show "\<not> (currentlyOverdue firmId now x \<and> (dueSoon firmId now x \<or> onTrack firmId now x))" by auto
  qed
  moreover have "count_if (\<lambda>d. dueSoon firmId now d \<or> onTrack firmId now d) ds = count_if (dueSoon firmId now) ds + count_if (onTrack firmId now) ds"
    by (rule count_partition) (use each in auto)
  ultimately have sum: "count_if (currentlyOverdue firmId now) ds + count_if (dueSoon firmId now) ds + count_if (onTrack firmId now) ds
      = count_if (active_query firmId) ds" by simp
  have "js_upper (js_trim ''OPEN'') \<notin> set sla_TERMINAL" by code_simp
  then have "getSlaStatus now e = RED \<and> \<not> currentlyOverdue firmId now e \<and> \<not> dueSoon firmId now e \<and> \<not> onTrack firmId now e"
    if "sd_slaDueAt e = None" "sd_slaDueDate e = Some t" "t < now" "sd_status e = Some ''OPEN''"
    using that by (simp add: getSlaStatus_def or_else_def currentlyOverdue_def dueSoon_def onTrack_def)
  then show ?thesis using each sum week_window [of now] by blast
qed

theorem sla_light_matches_summary_witness:
  "count_if (currentlyOverdue ''F1'' 2000) [sample_sla_docket] + count_if (dueSoon ''F1'' 2000) [sample_sla_docket]
     + count_if (onTrack ''F1'' 2000) [sample_sla_docket] = count_if (active_query ''F1'') [sample_sla_docket]"
proof -
  have "js_upper (js_trim ''OPEN'') = ''OPEN''" by code_simp
  then have 1: "\<forall>d\<in>set [sample_sla_docket]. sd_firmId d = Some ''F1'' \<and> sd_slaDueAt d \<noteq> None \<and> sd_status d = Some (js_upper (js_trim (str_or_empty (sd_status d))))"
    by (simp add: sample_sla_docket_def)
  show ?thesis using sla_light_matches_summary [OF 1, of 2000] by blast
qed

end
