(* ===== verification/DocketRouting.thy ===== *)
theory DocketRouting
  imports DocketHandlers Selection
begin

section \<open>Routing a docket to another team\<close>

text \<open>
  \<open>src/services/docketRouting.service.js\<close>.  A docket is lent to another team (\<open>routeDocket\<close>), which
  works on it and returns it to the one who routed it (\<open>returnRoutedDocket\<close>).  The fields of the
  schema only routing uses are those of \<open>routed_docket\<close>; \<open>DocketRoute\<close> documents are
  \<open>docket_route\<close>.  What the lookup of the docket, of the target team, of the target user, and the upload
  of the comment returned are arguments.
\<close>

record routed_docket =
  rt_doc :: docket
  rt_routedByUserId :: "string option"
  rt_routedAt :: "int option"
  rt_routingNote :: "string option"
  rt_routeOriginatorUserXID :: "string option"
  rt_routeOriginatorTeamId :: "string option"
  rt_routeOriginatorWorkbasketId :: "string option"
  rt_routeReturnedAt :: "int option"

record docket_route =
  ro_docketId :: string
  ro_fromTeamId :: "string option"
  ro_toTeamId :: string
  ro_routedBy :: "string option"
  ro_routedAt :: int
  ro_returnedAt :: "int option"
  ro_note :: "string option"
  ro_firmId :: string

record route_actor =
  ra_xID :: "string option"
  ra_role :: "string option"
  ra_teamId :: "string option"
  ra_email :: "string option"

record team =
  tm_id :: string
  tm_firmId :: string
  tm_isActive :: bool
  tm_type :: string
  tm_name :: string

record team_member =
  mb_xID :: "string option"
  mb_firmId :: string
  mb_status :: "string option"
  mb_isActive :: bool
  mb_teamIds :: "string list"
  mb_teamId :: "string option"

datatype route_effect =
    Docket_saved routed_docket
  | Comment_created (cc_text: "string option") (cc_createdBy: string) (cc_createdByXID: "string option") (cc_cloud: bool)
  | History_logged (hl_action: string) (hl_by: "string option") (hl_from: "string option") (hl_to: "string option")
  | Route_created docket_route
  | Route_updated docket_route docket_route
  | Routing_notified (rn_user: "string option") (rn_type: string)

definition route_error :: "string \<Rightarrow> nat \<Rightarrow> js_error" where
  "route_error message statusCode = Thrown message (Some statusCode) None"

definition route_requireComment :: "string option \<Rightarrow> string \<Rightarrow> unit res" where
  "route_requireComment note context =
    check (js_trim (str_or_empty note) \<noteq> []) (route_error (context @ '' requires comment'') 400)"

definition findDocket :: "routed_docket option \<Rightarrow> routed_docket res" where
  "findDocket found = (case found of None \<Rightarrow> Inl (route_error ''Docket not found'' 404) | Some d \<Rightarrow> Inr d)"

definition isAdmin :: "string option \<Rightarrow> bool" where
  "isAdmin role \<longleftrightarrow> js_upper (str_or_empty role) \<in> {''ADMIN'', ''PRIMARY_ADMIN'', ''SUPER_ADMIN'', ''SUPERADMIN''}"

text \<open>The mutated document is validated and written; the other fields have no validator that can fail.\<close>

definition save_routed :: "bool \<Rightarrow> routed_docket \<Rightarrow> routed_docket \<Rightarrow> (route_effect, routed_docket) outcome" where
  "save_routed rv before after =
    seq (pure (save rv (rt_doc before) (rt_doc after))) (\<lambda>doc.
      let d = after\<lparr>rt_doc := doc\<rparr> in seq (emit [Docket_saved d]) (\<lambda>_. pure (Inr d)))"

subsection \<open>routeDocket\<close>

record route_req =
  rr_docketId :: string
  rr_actor :: route_actor
  rr_firmId :: string
  rr_toTeamId :: string
  rr_note :: "string option"

definition notified_members :: "string \<Rightarrow> string \<Rightarrow> team_member list \<Rightarrow> team_member list" where
  "notified_members firmId workbasketId users =
    filter (\<lambda>u. mb_firmId u = firmId \<and> mb_status u \<noteq> Some ''deleted'' \<and> mb_isActive u
              \<and> (workbasketId \<in> set (mb_teamIds u) \<or> mb_teamId u = Some workbasketId)) users"

definition notifyWorkbasketUsers :: "string \<Rightarrow> string \<Rightarrow> team_member list \<Rightarrow> route_effect list" where
  "notifyWorkbasketUsers firmId workbasketId users =
    map (\<lambda>u. Routing_notified (mb_xID u) ''DOCKET_ROUTED_TO_WORKBASKET'') (notified_members firmId workbasketId users)"

definition target_team :: "string \<Rightarrow> string \<Rightarrow> team list \<Rightarrow> team option" where
  "target_team firmId toTeamId teams =
    find (\<lambda>t. tm_id t = toTeamId \<and> tm_firmId t = firmId \<and> tm_isActive t \<and> tm_type t = ''PRIMARY'') teams"

definition route_guards :: "route_req \<Rightarrow> routed_docket \<Rightarrow> team list \<Rightarrow> team res" where
  "route_guards r d teams =
    (let actorTeam = str_or_empty (ra_teamId (rr_actor r)); doc = rt_doc d
     in res_bind (check (actorTeam \<noteq> []) (route_error ''User does not belong to any team'' 400)) (\<lambda>_.
        res_bind (route_requireComment (rr_note r) ''Route'') (\<lambda>_.
        res_bind (check (canonical_state doc \<notin> {RESOLVED, FILED}) (route_error ''Terminal dockets cannot be routed'' 409)) (\<lambda>_.
        res_bind (check (isAdmin (ra_role (rr_actor r)) \<or> str_or_empty (d_ownerTeamId doc) = actorTeam
              \<or> str_or_empty (d_routedToTeamId doc) = actorTeam)
            (route_error ''Only owner team, routed team, or admin can route docket'' 403)) (\<lambda>_.
        (case target_team (rr_firmId r) (rr_toTeamId r) teams of
           None \<Rightarrow> Inl (route_error ''Target workbasket must be an active PRIMARY team in this firm'' 404)
         | Some t \<Rightarrow> res_bind (check (str_or_empty (d_ownerTeamId doc) \<noteq> rr_toTeamId r)
                      (route_error ''Cannot route to owner team'' 400)) (\<lambda>_. Inr t)))))))"

definition route_fields :: "int \<Rightarrow> route_req \<Rightarrow> team \<Rightarrow> routed_docket \<Rightarrow> routed_docket" where
  "route_fields now r t d =
    (let doc = rt_doc d; by = xid_set (Some (js_upper (str_or_empty (ra_xID (rr_actor r)))))
     in d\<lparr>rt_doc := doc\<lparr>d_routedToTeamId := Some (tm_id t), d_ownerTeamId := Some (tm_id t), d_workbasketId := Some (tm_id t),
            d_status := Some ''ROUTED'', d_state := Some ''IN_WB'', d_queueType := Some ''GLOBAL'',
            d_assignedToXID := None, d_assignedTo := None\<rparr>,
          rt_routedByUserId := by, rt_routedAt := Some now,
          rt_routingNote := Some (js_trim (str_or_empty (rr_note r))), rt_routeOriginatorUserXID := by,
          rt_routeOriginatorTeamId := js_or (d_ownerTeamId doc) None,
          rt_routeOriginatorWorkbasketId := js_or (d_workbasketId doc) None\<rparr>)"

text \<open>\<open>models/DocketRoute.model.js\<close>: the required paths a created route may lack.\<close>

definition route_record_errors :: "docket_route \<Rightarrow> string list" where
  "route_record_errors ro =
    (if ro_docketId ro = [] then [''docketId''] else [])
    @ (if truthy (ro_fromTeamId ro) then [] else [''fromTeamId''])
    @ (if truthy (ro_routedBy ro) then [] else [''routedBy''])"

definition create_route :: "docket_route \<Rightarrow> (route_effect, unit) outcome" where
  "create_route ro =
    seq (pure (check (route_record_errors ro = []) (ValidationError (route_record_errors ro)))) (\<lambda>_. emit [Route_created ro])"

definition new_route :: "int \<Rightarrow> route_req \<Rightarrow> team \<Rightarrow> routed_docket \<Rightarrow> docket_route" where
  "new_route now r t d =
    \<lparr>ro_docketId = rr_docketId r, ro_fromTeamId = js_or (d_ownerTeamId (rt_doc d)) None, ro_toTeamId = tm_id t,
     ro_routedBy = xid_set (Some (js_upper (str_or_empty (ra_xID (rr_actor r))))), ro_routedAt = now, ro_returnedAt = None,
     ro_note = map_option js_trim (js_or (rr_note r) None), ro_firmId = rr_firmId r\<rparr>"

definition routeDocket ::
  "bool \<Rightarrow> int \<Rightarrow> bool \<Rightarrow> team list \<Rightarrow> team_member list \<Rightarrow> routed_docket option \<Rightarrow> route_req \<Rightarrow> (route_effect, routed_docket) outcome" where
  "routeDocket rv now uploaded teams users found r =
    seq (pure (findDocket found)) (\<lambda>d.
    seq (pure (route_guards r d teams)) (\<lambda>t.
    let previousOwnerTeamId = js_or (d_ownerTeamId (rt_doc d)) None; a = rr_actor r
    in seq (save_routed rv d (route_fields now r t d)) (\<lambda>d'.
       seq (emit [Comment_created (rr_note r) (if truthy (ra_email a) then js_lower (str_or_empty (ra_email a)) else ''system'')
                    (ra_xID a) uploaded,
                  History_logged ''CASE_MOVED_TO_WORKBASKET'' (ra_xID a) previousOwnerTeamId (Some (tm_id t))]) (\<lambda>_.
       seq (create_route (new_route now r t d)) (\<lambda>_.
       seq (emit (notifyWorkbasketUsers (rr_firmId r) (tm_id t) users)) (\<lambda>_. pure (Inr d')))))))"

subsection \<open>The routed team\<close>

definition of_routed_team :: "route_actor \<Rightarrow> routed_docket \<Rightarrow> bool" where
  "of_routed_team a d \<longleftrightarrow> truthy (d_routedToTeamId (rt_doc d)) \<and> d_routedToTeamId (rt_doc d) = Some (str_or_empty (ra_teamId a))"

definition set_status :: "string option \<Rightarrow> routed_docket \<Rightarrow> routed_docket" where
  "set_status s d = d\<lparr>rt_doc := (rt_doc d)\<lparr>d_status := s\<rparr>\<rparr>"

definition acceptRoutedDocket :: "bool \<Rightarrow> routed_docket option \<Rightarrow> route_actor \<Rightarrow> (route_effect, routed_docket) outcome" where
  "acceptRoutedDocket rv found a =
    seq (pure (findDocket found)) (\<lambda>d.
    seq (pure (check (of_routed_team a d) (route_error ''Only routed team can accept'' 403))) (\<lambda>_.
    save_routed rv d (set_status (Some ''IN_PROGRESS'') d)))"

definition transitionRoutedTeamStatus ::
  "bool \<Rightarrow> routed_docket option \<Rightarrow> route_actor \<Rightarrow> string option \<Rightarrow> (route_effect, routed_docket) outcome" where
  "transitionRoutedTeamStatus rv found a status =
    seq (pure (findDocket found)) (\<lambda>d.
    seq (pure (check (status \<in> {Some ''IN_PROGRESS'', Some ''PENDING''}) (route_error ''Invalid status for routed team'' 400))) (\<lambda>_.
    seq (pure (check (of_routed_team a d) (route_error ''Only routed team can update routed status'' 403))) (\<lambda>_.
    save_routed rv d (set_status status d))))"

subsection \<open>returnRoutedDocket\<close>

definition activeRoute :: "string \<Rightarrow> string \<Rightarrow> docket_route list \<Rightarrow> docket_route option" where
  "activeRoute docketId firmId routes =
    pick (\<lambda>x y. ro_routedAt y < ro_routedAt x)
      (filter (\<lambda>ro. ro_docketId ro = docketId \<and> ro_firmId ro = firmId \<and> ro_returnedAt ro = None) routes)"

definition closed_route :: "int \<Rightarrow> string option \<Rightarrow> docket_route \<Rightarrow> docket_route" where
  "closed_route now note ro =
    (let ro1 = ro\<lparr>ro_returnedAt := Some now\<rparr>
     in if truthy note
        then ro1\<lparr>ro_note := Some (js_trim (str_or_empty (ro_note ro) @ [CHR 0x0A] @ ''Return note: '' @ str_or_empty note))\<rparr>
        else ro1)"

definition return_fields :: "int \<Rightarrow> string option \<Rightarrow> string \<Rightarrow> routed_docket \<Rightarrow> routed_docket" where
  "return_fields now note originatorXID d =
    (let doc = rt_doc d
     in d\<lparr>rt_doc := doc\<lparr>d_routedToTeamId := None, d_ownerTeamId := js_or (rt_routeOriginatorTeamId d) (d_ownerTeamId doc),
            d_workbasketId := js_or (rt_routeOriginatorWorkbasketId d) (d_workbasketId doc),
            d_assignedToXID := xid_set (Some originatorXID), d_queueType := Some ''PERSONAL'',
            d_state := Some ''IN_PROGRESS'', d_status := Some ''IN_PROGRESS''\<rparr>,
          rt_routingNote := Some (js_trim (str_or_empty note)), rt_routeReturnedAt := Some now,
          rt_routeOriginatorUserXID := None, rt_routeOriginatorTeamId := None, rt_routeOriginatorWorkbasketId := None\<rparr>)"

definition originator :: "routed_docket \<Rightarrow> string" where
  "originator d = js_upper (str_or_empty (js_or (rt_routeOriginatorUserXID d) (rt_routedByUserId d)))"

definition returnRoutedDocket ::
  "bool \<Rightarrow> int \<Rightarrow> docket_route list \<Rightarrow> routed_docket option \<Rightarrow> string \<Rightarrow> string \<Rightarrow> route_actor \<Rightarrow> string option
     \<Rightarrow> (route_effect, routed_docket) outcome" where
  "returnRoutedDocket rv now routes found docketId firmId a note =
    seq (pure (findDocket found)) (\<lambda>d.
    seq (pure (route_requireComment note ''Submit'')) (\<lambda>_.
    seq (pure (check (of_routed_team a d) (route_error ''Only routed team can submit routed docket'' 403))) (\<lambda>_.
    seq (pure (check (js_upper (str_or_empty (d_assignedToXID (rt_doc d))) = js_upper (str_or_empty (ra_xID a)))
                (route_error ''Only assigned routed user can submit'' 403))) (\<lambda>_.
    seq (pure (check (originator d \<noteq> []) (route_error ''Routed docket is missing originator'' 409))) (\<lambda>_.
    seq (emit (case activeRoute docketId firmId routes of None \<Rightarrow> [] | Some ro \<Rightarrow> [Route_updated ro (closed_route now note ro)])) (\<lambda>_.
    save_routed rv d (return_fields now note (originator d) d)))))))"

subsection \<open>Restricted resolution and the manager\<close>

definition resolveDocketWithTeamRestriction :: "bool \<Rightarrow> routed_docket option \<Rightarrow> route_actor \<Rightarrow> (route_effect, routed_docket) outcome" where
  "resolveDocketWithTeamRestriction rv found a =
    seq (pure (findDocket found)) (\<lambda>d.
    seq (pure (check (str_or_empty (d_ownerTeamId (rt_doc d)) = str_or_empty (ra_teamId a)) (route_error ''Only owner team can resolve'' 403))) (\<lambda>_.
    seq (pure (check (\<not> truthy (d_routedToTeamId (rt_doc d))) (route_error ''Cannot resolve while docket is routed'' 409))) (\<lambda>_.
    save_routed rv d (set_status (Some ''RESOLVED'') d))))"

record move_target =
  mt_type :: "string option"
  mt_userXID :: "string option"

text \<open>
  \<open>colleague\<close> is the query of line 280: whether the firm has a user with the given identifier in the
  manager's team.
\<close>

definition move_guards :: "route_actor \<Rightarrow> routed_docket \<Rightarrow> move_target \<Rightarrow> string res" where
  "move_guards a d to =
    (let targetType = js_upper (str_or_empty (mt_type to))
     in res_bind (check (js_upper (str_or_empty (ra_role a)) = ''MANAGER'') (route_error ''Manager role required'' 403)) (\<lambda>_.
        res_bind (check (str_or_empty (d_ownerTeamId (rt_doc d)) = str_or_empty (ra_teamId a)) (route_error ''Cross-team movement is forbidden'' 403)) (\<lambda>_.
        res_bind (check (targetType \<in> {''WL'', ''WB''}) (route_error ''Invalid target type. Use WL or WB'' 400)) (\<lambda>_. Inr targetType))))"

definition moved :: "string option \<Rightarrow> string \<Rightarrow> routed_docket \<Rightarrow> routed_docket" where
  "moved assignee status d = d\<lparr>rt_doc := (rt_doc d)\<lparr>d_assignedToXID := assignee, d_status := Some status\<rparr>\<rparr>"

definition routed_to :: "string option \<Rightarrow> routed_docket \<Rightarrow> routed_docket" where
  "routed_to t d = d\<lparr>rt_doc := (rt_doc d)\<lparr>d_routedToTeamId := t\<rparr>\<rparr>"

definition managerMoveDocket ::
  "bool \<Rightarrow> (string \<Rightarrow> bool) \<Rightarrow> routed_docket option \<Rightarrow> route_actor \<Rightarrow> move_target \<Rightarrow> (route_effect, routed_docket) outcome" where
  "managerMoveDocket rv colleague found a to =
    seq (pure (findDocket found)) (\<lambda>d.
    seq (pure (move_guards a d to)) (\<lambda>targetType.
    let prevAssignee = d_assignedToXID (rt_doc d); target = js_upper (str_or_empty (mt_userXID to))
    in seq (if targetType = ''WL''
            then seq (pure (check (colleague target) (route_error ''Target user must be in manager team'' 400))) (\<lambda>_.
                 seq (emit [Routing_notified (Some target) ''DOCKET_ASSIGNED'',
                            History_logged ''CASE_ASSIGNED'' (ra_xID a) prevAssignee (Some target)]) (\<lambda>_.
                 pure (Inr (moved (xid_set (Some target)) ''IN_PROGRESS'' d))))
            else seq (emit [History_logged ''CASE_UNASSIGNED'' (ra_xID a) prevAssignee None]) (\<lambda>_.
                 pure (Inr (moved None ''UNASSIGNED'' d)))) (\<lambda>d1.
       save_routed rv d (routed_to (ra_teamId a) d1))))"

end
