(* ===== verification/RoutingProperties.thy ===== *)
theory RoutingProperties
  imports DocketRouting DocketInvariants CaseAssignment
begin

section \<open>Routing: properties\<close>

text \<open>
  What routing promises, over the handlers of \<open>DocketRouting\<close> and the assignment of
  \<open>CaseAssignment\<close>: a lent docket comes back (\<open>routing_roundtrip\<close>); what is written when routing fails
  half way; what acceptance and a manager's move leave behind.
\<close>

interpretation latest_route: preference "\<lambda>x y. ro_routedAt y < ro_routedAt x"
  by unfold_locales auto

subsection \<open>Facts\<close>

lemma snd_save_routed [simp]:
  "snd (save_routed rv b a) = map_sum (\<lambda>e. e) (\<lambda>doc. a\<lparr>rt_doc := doc\<rparr>) (save rv (rt_doc b) (rt_doc a))"
  by (cases "save rv (rt_doc b) (rt_doc a)") (simp_all add: save_routed_def Let_def)

lemma save_routed_Inr: "save rv (rt_doc b) (rt_doc a) = Inr doc \<Longrightarrow> save_routed rv b a = ([Docket_saved (a\<lparr>rt_doc := doc\<rparr>)], Inr (a\<lparr>rt_doc := doc\<rparr>))"
  by (simp add: save_routed_def Let_def seq_def pure_def emit_def)

lemma save_routed_Inl: "save rv (rt_doc b) (rt_doc a) = Inl e \<Longrightarrow> save_routed rv b a = ([], Inl e)"
  by (simp add: save_routed_def seq_def pure_def)

lemma map_sum_Inr_iff: "map_sum (\<lambda>e. e) f r = Inr y \<longleftrightarrow> (\<exists>x. r = Inr x \<and> y = f x)"
  by (cases r) auto

text \<open>A saved document: the hooks change the lifecycle and an empty state only.\<close>

lemma save_ok:
  assumes "truthy (d_firmId a)" and "normalize_str (d_queueType a) = ''PERSONAL'' \<longrightarrow> truthy (d_assignedToXID a)"
    and "d_status a \<in> {Some ''ROUTED'', Some ''IN_PROGRESS'', Some ''UNASSIGNED''}"
  shows "save rv b a = Inr (preValidate a)"
  using assms
  by (auto simp: save_def Let_def enforceAssignedUserForWorklistLifecycle_def enforceAssignedUserForWlOnSave_def
      status_errors_def status_validator_def CaseStatus_def)

lemmas saved_fields = preValidate_simps

lemma normalize_queue [simp]: "normalize_str (Some ''GLOBAL'') = ''GLOBAL''" "normalize_str (Some ''PERSONAL'') = ''PERSONAL''"
  by code_simp+

lemma xid_set_upper: "xid_set (Some (js_upper s)) = Some (js_upper (js_trim s))"
  by (simp add: xid_set_def js_trim_upper)

lemma js_or_None [simp]: "js_or v None = (if truthy v then v else None)"
  by (simp add: js_or_def)

lemma route_guards_InrE:
  assumes "route_guards r d teams = Inr t"
  obtains "tm_id t = rr_toTeamId r" "truthy (ra_teamId (rr_actor r))" "js_trim (str_or_empty (rr_note r)) \<noteq> []"
    "canonical_state (rt_doc d) \<notin> {RESOLVED, FILED}" "str_or_empty (d_ownerTeamId (rt_doc d)) \<noteq> rr_toTeamId r"
proof -
  from assms have "target_team (rr_firmId r) (rr_toTeamId r) teams = Some t"
    and "str_or_empty (ra_teamId (rr_actor r)) \<noteq> []" and "js_trim (str_or_empty (rr_note r)) \<noteq> []"
    and "canonical_state (rt_doc d) \<notin> {RESOLVED, FILED}" and "str_or_empty (d_ownerTeamId (rt_doc d)) \<noteq> rr_toTeamId r"
    unfolding route_guards_def Let_def route_requireComment_def
    by (auto simp: res_bind_Inr_iff split: option.splits)
  moreover have "tm_id t = rr_toTeamId r"
    using \<open>target_team _ _ _ = Some t\<close> by (auto simp: target_team_def find_Some_iff)
  ultimately show thesis using that by (cases "ra_teamId (rr_actor r)") auto
qed

definition routed_result :: "int \<Rightarrow> route_req \<Rightarrow> team \<Rightarrow> routed_docket \<Rightarrow> routed_docket" where
  "routed_result now r t d =
    (let d' = route_fields now r t d in d'\<lparr>rt_doc := preValidate (rt_doc d')\<rparr>)"

definition routed_trace :: "bool \<Rightarrow> route_req \<Rightarrow> team \<Rightarrow> routed_docket \<Rightarrow> route_effect list" where
  "routed_trace uploaded r t d =
    [Comment_created (rr_note r) (if truthy (ra_email (rr_actor r)) then js_lower (str_or_empty (ra_email (rr_actor r))) else ''system'')
       (ra_xID (rr_actor r)) uploaded,
     History_logged ''CASE_MOVED_TO_WORKBASKET'' (ra_xID (rr_actor r)) (js_or (d_ownerTeamId (rt_doc d)) None) (Some (tm_id t))]"

lemma routeDocket_eq:
  assumes "route_guards r d teams = Inr t" and "truthy (d_firmId (rt_doc d))"
  shows "routeDocket rv now uploaded teams users (Some d) r =
    (if route_record_errors (new_route now r t d) = []
     then (Docket_saved (routed_result now r t d) # routed_trace uploaded r t d
            @ Route_created (new_route now r t d) # notifyWorkbasketUsers (rr_firmId r) (tm_id t) users, Inr (routed_result now r t d))
     else (Docket_saved (routed_result now r t d) # routed_trace uploaded r t d,
           Inl (ValidationError (route_record_errors (new_route now r t d)))))"
proof -
  have "save rv (rt_doc d) (rt_doc (route_fields now r t d)) = Inr (preValidate (rt_doc (route_fields now r t d)))"
    by (rule save_ok) (use assms(2) in \<open>simp_all add: route_fields_def Let_def\<close>)
  from save_routed_Inr [OF this]
  have s: "save_routed rv d (route_fields now r t d) = ([Docket_saved (routed_result now r t d)], Inr (routed_result now r t d))"
    by (simp add: routed_result_def Let_def)
  show ?thesis
    unfolding routeDocket_def findDocket_def create_route_def
    by (simp add: assms(1) s routed_trace_def Let_def seq_def pure_def emit_def check_def del: js_or_None)
qed

subsection \<open>A lent docket comes back\<close>

text \<open>
  What may happen to a routed docket before it is returned: somebody takes it from the workbasket, the
  routed team accepts it or sets its status, a manager moves it.  A step that fails changes nothing.
\<close>

datatype routed_op =
    Takes int string "string option" "string option"
  | Accepts route_actor
  | Sets_status route_actor "string option"
  | Moves route_actor move_target

definition keep_or :: "routed_docket \<Rightarrow> (route_effect, routed_docket) outcome \<Rightarrow> routed_docket" where
  "keep_or d out = (case snd out of Inr d' \<Rightarrow> d' | Inl _ \<Rightarrow> d)"

fun routed_apply :: "bool \<Rightarrow> (string \<Rightarrow> bool) \<Rightarrow> routed_op \<Rightarrow> routed_docket \<Rightarrow> routed_docket" where
  "routed_apply rv colleague (Takes now xid assignee assigner) d =
    (if pull_case_filter (str_or_empty (d_firmId (rt_doc d))) (str_or_empty (d_caseId (rt_doc d))) (rt_doc d)
     then d\<lparr>rt_doc := assign_set now xid assignee assigner (rt_doc d)\<rparr> else d)"
| "routed_apply rv colleague (Accepts a) d = keep_or d (acceptRoutedDocket rv (Some d) a)"
| "routed_apply rv colleague (Sets_status a s) d = keep_or d (transitionRoutedTeamStatus rv (Some d) a s)"
| "routed_apply rv colleague (Moves a to) d = keep_or d (managerMoveDocket rv colleague (Some d) a to)"

definition lent :: "string \<Rightarrow> string \<Rightarrow> string option \<Rightarrow> string option \<Rightarrow> routed_docket \<Rightarrow> bool" where
  "lent t by owner basket d \<longleftrightarrow> t \<noteq> [] \<and> truthy (d_firmId (rt_doc d))
    \<and> d_routedToTeamId (rt_doc d) = Some t \<and> d_ownerTeamId (rt_doc d) = Some t \<and> d_workbasketId (rt_doc d) = Some t
    \<and> rt_routeOriginatorUserXID d = Some by \<and> rt_routeOriginatorTeamId d = owner \<and> rt_routeOriginatorWorkbasketId d = basket"

lemma save_Inr_fields: "save rv b a = Inr doc \<Longrightarrow> doc = preValidate a \<and> truthy (d_firmId a)"
  by (auto elim: saveE)

lemma lent_save:
  assumes "snd (save_routed rv b a) = Inr d'" and "lent t by owner basket a"
  shows "lent t by owner basket d'"
  using assms by (auto simp: map_sum_Inr_iff lent_def dest: save_Inr_fields)

lemma lent_updates [simp]:
  "lent t by owner basket (set_status s d) = lent t by owner basket d"
  "lent t by owner basket (moved x s' d) = lent t by owner basket d"
  by (simp_all add: lent_def set_status_def moved_def)

lemma routed_team_steps:
  "snd (acceptRoutedDocket rv (Some d) a) = Inr d' \<Longrightarrow> snd (save_routed rv d (set_status (Some ''IN_PROGRESS'') d)) = Inr d'"
  "snd (transitionRoutedTeamStatus rv (Some d) a s) = Inr d' \<Longrightarrow> snd (save_routed rv d (set_status s d)) = Inr d'"
  unfolding acceptRoutedDocket_def transitionRoutedTeamStatus_def findDocket_def by (auto simp: res_bind_Inr_iff)

lemma lent_apply: "lent t by owner basket d \<Longrightarrow> lent t by owner basket (routed_apply rv colleague op d)"
proof (cases op)
  case (Takes now xid assignee assigner)
  then show "lent t by owner basket d \<Longrightarrow> ?thesis" by (simp add: lent_def assign_set_def)
next
  case (Accepts a)
  then show "lent t by owner basket d \<Longrightarrow> ?thesis"
    by (auto simp: keep_or_def split: sum.split dest!: routed_team_steps intro: lent_save simp del: snd_save_routed)
next
  case (Sets_status a s)
  then show "lent t by owner basket d \<Longrightarrow> ?thesis"
    by (auto simp: keep_or_def split: sum.split dest!: routed_team_steps intro: lent_save simp del: snd_save_routed)
next
  case (Moves a to)
  assume l: "lent t by owner basket d"
  have "lent t by owner basket d'" if m: "snd (managerMoveDocket rv colleague (Some d) a to) = Inr d'" for d'
  proof -
    from m obtain d1 where d1: "snd (save_routed rv d (routed_to (ra_teamId a) d1)) = Inr d'"
      and g: "str_or_empty (d_ownerTeamId (rt_doc d)) = str_or_empty (ra_teamId a)" and "\<exists>x s. d1 = moved x s d"
      unfolding managerMoveDocket_def findDocket_def move_guards_def
      by (auto simp: Let_def res_bind_Inr_iff split: if_splits simp del: snd_save_routed)
    then have "lent t by owner basket (routed_to (ra_teamId a) d1)"
      using l by (cases "ra_teamId a") (auto simp: lent_def moved_def routed_to_def split: if_splits)
    then show ?thesis using lent_save d1 by blast
  qed
  with l Moves show ?thesis by (auto simp: keep_or_def split: sum.split)
qed

lemma lent_run: "lent t by owner basket d \<Longrightarrow> lent t by owner basket (fold (routed_apply rv colleague) ops d)"
  by (induction ops arbitrary: d) (auto intro: lent_apply)

text \<open>The collection of routes after the writes of a handler.\<close>

fun apply_route_effect :: "route_effect \<Rightarrow> docket_route list \<Rightarrow> docket_route list" where
  "apply_route_effect (Route_created ro) rs = rs @ [ro]"
| "apply_route_effect (Route_updated old new) rs = map (\<lambda>x. if x = old then new else x) rs"
| "apply_route_effect _ rs = rs"

definition routes_after :: "route_effect list \<Rightarrow> docket_route list \<Rightarrow> docket_route list" where
  "routes_after effs rs = fold apply_route_effect effs rs"

lemma routes_after_simps [simp]:
  "routes_after [] rs = rs" "routes_after (e # effs) rs = routes_after effs (apply_route_effect e rs)"
  "routes_after (es @ fs) rs = routes_after fs (routes_after es rs)"
  "routes_after (notifyWorkbasketUsers f w us) rs = rs"
proof -
  have "fold apply_route_effect (map (\<lambda>u. Routing_notified (g u) n) us) rs = rs" for g :: "team_member \<Rightarrow> string option" and n us
    by (induction us) simp_all
  then show "routes_after (notifyWorkbasketUsers f w us) rs = rs"
    by (simp add: routes_after_def notifyWorkbasketUsers_def)
qed (simp_all add: routes_after_def)

lemma activeRoute_latest:
  assumes "ro_docketId ro = i" and "ro_firmId ro = f" and "ro_returnedAt ro = None" and "\<forall>x\<in>set rs. ro_routedAt x < ro_routedAt ro"
  shows "activeRoute i f (rs @ [ro]) = Some ro"
proof -
  let ?P = "\<lambda>ro. ro_docketId ro = i \<and> ro_firmId ro = f \<and> ro_returnedAt ro = None"
  have mem: "ro \<in> set (filter ?P (rs @ [ro]))" using assms(1-3) by simp
  then obtain y where y: "activeRoute i f (rs @ [ro]) = Some y"
    unfolding activeRoute_def by (metis (no_types, lifting) not_Some_eq pick_None_iff empty_iff list.set(1))
  then have "\<not> ro_routedAt y < ro_routedAt ro" and "y \<in> set (filter ?P (rs @ [ro]))"
    using latest_route.best [OF _ mem] pick_in [OF y [unfolded activeRoute_def]] unfolding activeRoute_def by blast+
  then have "\<not> ro_routedAt y < ro_routedAt ro" and "y \<in> set (rs @ [ro])" by (simp_all only: set_filter mem_Collect_eq not_False_eq_True)
  then have "y = ro" using assms(4) by auto
  with y show ?thesis by simp
qed

lemma route_success:
  assumes "routeDocket rv now uploaded teams users (Some d) r = (effs, Inr d1)"
  obtains t where "route_guards r d teams = Inr t" "truthy (d_firmId (rt_doc d))" "d1 = routed_result now r t d"
    "route_record_errors (new_route now r t d) = []" "routes_after effs rs = rs @ [new_route now r t d]"
proof -
  from assms have "snd (routeDocket rv now uploaded teams users (Some d) r) = Inr d1" by simp
  then obtain t where g: "route_guards r d teams = Inr t" and "\<exists>doc. save rv (rt_doc d) (rt_doc (route_fields now r t d)) = Inr doc"
    unfolding routeDocket_def findDocket_def by (auto simp: res_bind_Inr_iff Let_def map_sum_Inr_iff)
  then have f: "truthy (d_firmId (rt_doc d))" by (auto dest!: save_Inr_fields simp: route_fields_def Let_def)
  from routeDocket_eq [OF g f] assms have "d1 = routed_result now r t d" "route_record_errors (new_route now r t d) = []"
    "routes_after effs rs = rs @ [new_route now r t d]"
    by (auto simp: routed_trace_def split: if_splits)
  with g f that show thesis by blast
qed

lemma routed_result_lent:
  assumes "route_guards r d teams = Inr t" and "truthy (d_firmId (rt_doc d))" and "rr_toTeamId r \<noteq> []"
  shows "lent (rr_toTeamId r) (js_upper (js_trim (str_or_empty (ra_xID (rr_actor r))))) (js_or (d_ownerTeamId (rt_doc d)) None)
           (js_or (d_workbasketId (rt_doc d)) None) (routed_result now r t d)"
  using assms by (auto elim!: route_guards_InrE simp: lent_def routed_result_def route_fields_def Let_def xid_set_upper)

lemma return_lent:
  assumes "lent t by owner basket d" and "by \<noteq> []" and "ra_teamId b = Some t" and "js_trim (str_or_empty note) \<noteq> []"
    and "js_upper (str_or_empty (d_assignedToXID (rt_doc d))) = js_upper (str_or_empty (ra_xID b))"
    and "js_upper (js_trim by) = by" and "activeRoute i f routes = Some ro"
  shows "\<exists>d3. returnRoutedDocket rv now routes (Some d) i f b note
      = ([Route_updated ro (closed_route now note ro), Docket_saved d3], Inr d3)
    \<and> d3 = (return_fields now note by d)\<lparr>rt_doc := preValidate (rt_doc (return_fields now note by d))\<rparr>"
proof -
  have up: "js_upper by = by" using assms(6) by (metis js_upper_idem)
  have o: "originator d = by" using assms(1,2) up by (simp add: originator_def lent_def)
  have x: "xid_set (Some by) = Some by" using assms(6) by (simp add: xid_set_def)
  have "save rv (rt_doc d) (rt_doc (return_fields now note by d)) = Inr (preValidate (rt_doc (return_fields now note by d)))"
    by (rule save_ok) (use assms(1,2) in \<open>simp_all add: return_fields_def Let_def lent_def x\<close>)
  from save_routed_Inr [OF this] show ?thesis
    using assms unfolding returnRoutedDocket_def findDocket_def
    by (simp add: o of_routed_team_def lent_def route_requireComment_def seq_def pure_def emit_def check_def del: js_or_None)
qed


text \<open>A docket of team \<open>T1\<close>, lent to \<open>T2\<close>.\<close>

definition sample_routed :: routed_docket where
  "sample_routed = \<lparr>rt_doc = sample_docket, rt_routedByUserId = None, rt_routedAt = None, rt_routingNote = None,
     rt_routeOriginatorUserXID = None, rt_routeOriginatorTeamId = None, rt_routeOriginatorWorkbasketId = None, rt_routeReturnedAt = None\<rparr>"

definition sample_team :: team where
  "sample_team = \<lparr>tm_id = ''T2'', tm_firmId = ''FIRM1'', tm_isActive = True, tm_type = ''PRIMARY'', tm_name = ''Tax''\<rparr>"

definition sample_route_req :: route_req where
  "sample_route_req = \<lparr>rr_docketId = ''CASE-20260108-00012'',
     rr_actor = \<lparr>ra_xID = Some ''x000009'', ra_role = Some ''Employee'', ra_teamId = Some ''T1'', ra_email = None\<rparr>,
     rr_firmId = ''FIRM1'', rr_toTeamId = ''T2'', rr_note = Some ''for review''\<rparr>"

definition sample_guest :: route_actor where
  "sample_guest = \<lparr>ra_xID = Some ''X000005'', ra_role = Some ''Employee'', ra_teamId = Some ''T2'', ra_email = None\<rparr>"

definition sample_lent :: routed_docket where
  "sample_lent = keep_or sample_routed (routeDocket True 1000 True [sample_team] [] (Some sample_routed) sample_route_req)"

lemma sample_route: "\<exists>effs. routeDocket True 1000 True [sample_team] [] (Some sample_routed) sample_route_req = (effs, Inr sample_lent)"
proof -
  have "\<not> is_error (snd (routeDocket True 1000 True [sample_team] [] (Some sample_routed) sample_route_req))" by code_simp
  then show ?thesis unfolding sample_lent_def keep_or_def
    by (cases "routeDocket True 1000 True [sample_team] [] (Some sample_routed) sample_route_req") (auto split: sum.split)
qed


subsection \<open>Half a routing\<close>

text \<open>
  Fact. What routing writes: a request that fails a guard writes nothing; one that passes writes the
  docket, the comment and the history, then the route, and notifies each active member of the target team.
  But the route of a docket that belonged to no team is refused by its schema, which is found only after the
  rest was written: the caller gets an error for a docket that has moved, without a route and unannounced.
\<close>

theorem route_partial_write:
  assumes "truthy (d_firmId (rt_doc d))" and "rr_docketId r \<noteq> []" and "js_trim (str_or_empty (ra_xID (rr_actor r))) \<noteq> []"
    and "out = routeDocket rv now uploaded teams users (Some d) r"
  shows "(is_error (route_guards r d teams) \<longrightarrow> fst out = [] \<and> is_error (snd out))
    \<and> (route_guards r d teams = Inr t \<longrightarrow>
        Docket_saved (routed_result now r t d) \<in> set (fst out)
        \<and> d_ownerTeamId (rt_doc (routed_result now r t d)) = Some (rr_toTeamId r) \<and> d_status (rt_doc (routed_result now r t d)) = Some ''ROUTED''
        \<and> (\<exists>text user xid cloud. Comment_created text user xid cloud \<in> set (fst out))
        \<and> (truthy (d_ownerTeamId (rt_doc d)) \<longrightarrow>
            snd out = Inr (routed_result now r t d) \<and> Route_created (new_route now r t d) \<in> set (fst out)
            \<and> (\<forall>u\<in>set users. mb_firmId u = rr_firmId r \<and> mb_isActive u \<and> mb_status u = None \<and> mb_teamId u = Some (rr_toTeamId r) \<longrightarrow>
                Routing_notified (mb_xID u) ''DOCKET_ROUTED_TO_WORKBASKET'' \<in> set (fst out)))
        \<and> (\<not> truthy (d_ownerTeamId (rt_doc d)) \<longrightarrow>
            snd out = Inl (ValidationError [''fromTeamId''])
            \<and> (\<forall>e\<in>set (fst out). (\<forall>ro. e \<noteq> Route_created ro) \<and> (\<forall>u n. e \<noteq> Routing_notified u n))))"
proof (intro conjI impI)
  assume "is_error (route_guards r d teams)"
  then show "fst out = []" and "is_error (snd out)"
    using assms(4) by (auto simp: routeDocket_def findDocket_def is_error_def seq_def pure_def split: sum.splits)
next
  assume g: "route_guards r d teams = Inr t"
  have errs: "route_record_errors (new_route now r t d) = (if truthy (d_ownerTeamId (rt_doc d)) then [] else [''fromTeamId''])"
    using assms(2,3) by (auto simp: route_record_errors_def new_route_def xid_set_upper)
  have id: "tm_id t = rr_toTeamId r" using g by (auto elim: route_guards_InrE)
  have fields: "d_ownerTeamId (rt_doc (routed_result now r t d)) = Some (rr_toTeamId r)" "d_status (rt_doc (routed_result now r t d)) = Some ''ROUTED''"
    by (simp_all add: routed_result_def route_fields_def Let_def id)
  note out = routeDocket_eq [OF g assms(1), of rv now uploaded users, folded assms(4), unfolded errs]
  show "Docket_saved (routed_result now r t d) \<in> set (fst out)"
    and "\<exists>text user xid cloud. Comment_created text user xid cloud \<in> set (fst out)"
    by (simp_all add: out routed_trace_def) blast+
  show "d_ownerTeamId (rt_doc (routed_result now r t d)) = Some (rr_toTeamId r)" "d_status (rt_doc (routed_result now r t d)) = Some ''ROUTED''"
    by (rule fields)+
  {
    assume o: "truthy (d_ownerTeamId (rt_doc d))"
    show "snd out = Inr (routed_result now r t d)" and "Route_created (new_route now r t d) \<in> set (fst out)"
      by (simp_all add: out o)
    show "\<forall>u\<in>set users. mb_firmId u = rr_firmId r \<and> mb_isActive u \<and> mb_status u = None \<and> mb_teamId u = Some (rr_toTeamId r) \<longrightarrow>
        Routing_notified (mb_xID u) ''DOCKET_ROUTED_TO_WORKBASKET'' \<in> set (fst out)"
      by (auto simp: out o id notifyWorkbasketUsers_def notified_members_def)
  next
    assume o: "\<not> truthy (d_ownerTeamId (rt_doc d))"
    show "snd out = Inl (ValidationError [''fromTeamId''])"
      and "\<forall>e\<in>set (fst out). (\<forall>ro. e \<noteq> Route_created ro) \<and> (\<forall>u n. e \<noteq> Routing_notified u n)"
      by (simp_all add: out o routed_trace_def)
  }
qed

definition sample_orphan :: routed_docket where
  "sample_orphan = sample_routed\<lparr>rt_doc := sample_docket\<lparr>d_ownerTeamId := None\<rparr>\<rparr>"

definition sample_admin_req :: route_req where
  "sample_admin_req = sample_route_req\<lparr>rr_actor := (rr_actor sample_route_req)\<lparr>ra_role := Some ''Admin''\<rparr>\<rparr>"

theorem route_partial_write_witness:
  "snd (routeDocket True 1000 True [sample_team] [] (Some sample_orphan) sample_admin_req) = Inl (ValidationError [''fromTeamId''])
   \<and> fst (routeDocket True 1000 True [sample_team] [] (Some sample_orphan) sample_admin_req) \<noteq> []"
proof -
  have g: "route_guards sample_admin_req sample_orphan [sample_team] = Inr sample_team" by code_simp
  have f: "truthy (d_firmId (rt_doc sample_orphan))" "rr_docketId sample_admin_req \<noteq> []"
    "js_trim (str_or_empty (ra_xID (rr_actor sample_admin_req))) \<noteq> []" "\<not> truthy (d_ownerTeamId (rt_doc sample_orphan))" by code_simp+
  show ?thesis
    using route_partial_write [OF f(1-3) HOL.refl, where teams = "[sample_team]" and t = sample_team and now = 1000 and rv = True and uploaded = True and users = "[]"] g f(4) by auto
qed

subsection \<open>Acceptance\<close>

text \<open>
  Fact. Accepting a routed docket takes it out of reach: after routing, every user can take the docket
  from the target workbasket; after the team has accepted it, its status is in progress without an owner,
  while the stored state still says that it lies in the workbasket, no pull or assignment applies to it any
  more, and nobody can submit it back.
\<close>

theorem accepted_docket_stuck:
  assumes "routeDocket rv now uploaded teams users (Some d) r = (effs, Inr d1)"
    and "rr_toTeamId r \<noteq> []" and "ra_teamId a = Some (rr_toTeamId r)"
    and "d_firmId (rt_doc d) = Some f" and "d_caseId (rt_doc d) = Some i"
  shows "pull_case_filter f i (rt_doc d1) \<and> assign_docket_filter f i (rt_doc d1)
    \<and> (\<exists>d2. acceptRoutedDocket rv (Some d1) a = ([Docket_saved d2], Inr d2)
          \<and> canonical_state (rt_doc d2) = IN_PROGRESS \<and> d_state (rt_doc d2) = Some ''IN_WB'' \<and> d_assignedToXID (rt_doc d2) = None
          \<and> \<not> pull_filter isObjectId j g (rt_doc d2) \<and> \<not> pull_case_filter g k (rt_doc d2)
          \<and> \<not> assign_docket_filter g k (rt_doc d2) \<and> \<not> bulk_filter g ks (rt_doc d2)
          \<and> (truthy (ra_xID b) \<longrightarrow> is_error (snd (returnRoutedDocket rv u routes (Some d2) k g b note))))"
proof -
  from assms(1) obtain t where gd: "route_guards r d teams = Inr t" and fi: "truthy (d_firmId (rt_doc d))"
    and d1: "d1 = routed_result now r t d" by (rule route_success [where rs = "[]"])
  have id: "tm_id t = rr_toTeamId r" using gd by (auto elim: route_guards_InrE)
  have f1: "d_status (rt_doc d1) = Some ''ROUTED''" "d_state (rt_doc d1) = Some ''IN_WB''" "d_assignedToXID (rt_doc d1) = None"
    "d_assignedTo (rt_doc d1) = None" "d_routedToTeamId (rt_doc d1) = Some (rr_toTeamId r)" "d_queueType (rt_doc d1) = Some ''GLOBAL''"
    "d_firmId (rt_doc d1) = Some f" "d_caseId (rt_doc d1) = Some i"
    using assms(4,5) by (simp_all add: d1 routed_result_def route_fields_def Let_def id preValidate_def set_lifecycle_def)
  define d2 where "d2 = (set_status (Some ''IN_PROGRESS'') d1)\<lparr>rt_doc := preValidate (rt_doc (set_status (Some ''IN_PROGRESS'') d1))\<rparr>"
  have "save rv (rt_doc d1) (rt_doc (set_status (Some ''IN_PROGRESS'') d1)) = Inr (preValidate (rt_doc (set_status (Some ''IN_PROGRESS'') d1)))"
    by (rule save_ok) (use fi f1 in \<open>simp_all add: set_status_def assms(4)\<close>)
  from save_routed_Inr [OF this] have acc: "acceptRoutedDocket rv (Some d1) a = ([Docket_saved d2], Inr d2)"
    using assms(2,3) f1(5) by (simp add: acceptRoutedDocket_def findDocket_def of_routed_team_def d2_def seq_def pure_def check_def)
  have f2: "d_status (rt_doc d2) = Some ''IN_PROGRESS''" "d_state (rt_doc d2) = Some ''IN_WB''" "d_assignedToXID (rt_doc d2) = None"
    by (simp_all add: d2_def set_status_def f1)
  have ret: "truthy (ra_xID b) \<longrightarrow> is_error (snd (returnRoutedDocket rv u routes (Some d2) k g b note))"
    by (cases "ra_xID b") (auto simp: returnRoutedDocket_def findDocket_def is_error_iff res_bind_Inr_iff f2 js_upper_def)
  show ?thesis
    using acc ret f1 f2
    by (auto simp: pull_case_filter_def assign_docket_filter_def bulk_filter_def pull_filter_def canonical_state_def toPersistence_literals)
qed

theorem accepted_docket_stuck_witness:
  "\<exists>d2. acceptRoutedDocket True (Some sample_lent) sample_guest = ([Docket_saved d2], Inr d2)
     \<and> \<not> pull_case_filter ''FIRM1'' ''CASE-20260108-00012'' (rt_doc d2)"
proof -
  from sample_route obtain effs where r: "routeDocket True 1000 True [sample_team] [] (Some sample_routed) sample_route_req = (effs, Inr sample_lent)" by blast
  have s: "rr_toTeamId sample_route_req \<noteq> []" "ra_teamId sample_guest = Some (rr_toTeamId sample_route_req)"
    "d_firmId (rt_doc sample_routed) = Some ''FIRM1''" "d_caseId (rt_doc sample_routed) = Some ''CASE-20260108-00012''"
    by (simp_all add: sample_route_req_def sample_guest_def sample_routed_def sample_docket_def)
  from accepted_docket_stuck [OF r s] show ?thesis by blast
qed

subsection \<open>The manager's move\<close>

text \<open>
  Fact. A manager cannot take a docket back from a user's own queue: the move to the workbasket clears
  the assignee but not the queue, so it is refused by the schema; the history, written before, says it
  was unassigned.  A move to a user of the team assigns the docket and sets it in progress; it marks the
  docket as routed to the manager's own team, after which the restricted resolution always fails, and leaves
  queue and stored state as they were.
\<close>

theorem manager_move_exact:
  assumes "js_upper (str_or_empty (ra_role a)) = ''MANAGER''" and "str_or_empty (d_ownerTeamId (rt_doc d)) = str_or_empty (ra_teamId a)"
    and "truthy (ra_teamId a)" and "truthy (d_firmId (rt_doc d))" and "js_upper (str_or_empty (mt_type to)) = w"
  shows "(w = ''WB'' \<and> normalize_str (d_queueType (rt_doc d)) = ''PERSONAL'' \<longrightarrow>
        managerMoveDocket rv colleague (Some d) a to
          = ([History_logged ''CASE_UNASSIGNED'' (ra_xID a) (d_assignedToXID (rt_doc d)) None], Inl (ValidationError [''assignedToXID''])))
    \<and> (w = ''WL'' \<and> snd (managerMoveDocket rv colleague (Some d) a to) = Inr d' \<longrightarrow>
        colleague (js_upper (str_or_empty (mt_userXID to)))
        \<and> d_assignedToXID (rt_doc d') = Some (js_upper (js_trim (str_or_empty (mt_userXID to)))) \<and> canonical_state (rt_doc d') = IN_PROGRESS
        \<and> d_queueType (rt_doc d') = d_queueType (rt_doc d) \<and> (truthy (d_state (rt_doc d)) \<longrightarrow> d_state (rt_doc d') = d_state (rt_doc d))
        \<and> d_routedToTeamId (rt_doc d') = ra_teamId a
        \<and> is_error (snd (resolveDocketWithTeamRestriction rv (Some d') b)))
    \<and> (w \<notin> {''WL'', ''WB''} \<longrightarrow> fst (managerMoveDocket rv colleague (Some d) a to) = [] \<and> is_error (snd (managerMoveDocket rv colleague (Some d) a to)))"
proof (intro conjI impI; (elim conjE)?)
  assume w: "w = ''WB''" and q: "normalize_str (d_queueType (rt_doc d)) = ''PERSONAL''"
  have "save rv (rt_doc d) (rt_doc (routed_to (ra_teamId a) (moved None ''UNASSIGNED'' d))) = Inl (ValidationError [''assignedToXID''])"
    using assms(4) q by (simp add: save_def Let_def routed_to_def moved_def enforceAssignedUserForWorklistLifecycle_def
        status_errors_def status_validator_def CaseStatus_def)
  from save_routed_Inl [OF this] show "managerMoveDocket rv colleague (Some d) a to
      = ([History_logged ''CASE_UNASSIGNED'' (ra_xID a) (d_assignedToXID (rt_doc d)) None], Inl (ValidationError [''assignedToXID'']))"
    using assms(1,2,5) w by (simp add: managerMoveDocket_def findDocket_def move_guards_def Let_def seq_def pure_def emit_def)
next
  assume w: "w = ''WL''" and m: "snd (managerMoveDocket rv colleague (Some d) a to) = Inr d'"
  let ?x = "js_upper (str_or_empty (mt_userXID to))"
  from m have c: "colleague ?x" and "\<exists>doc. d' = (routed_to (ra_teamId a) (moved (xid_set (Some ?x)) ''IN_PROGRESS'' d))\<lparr>rt_doc := doc\<rparr>
      \<and> doc = preValidate (rt_doc (routed_to (ra_teamId a) (moved (xid_set (Some ?x)) ''IN_PROGRESS'' d)))"
    using assms(5) w unfolding managerMoveDocket_def findDocket_def move_guards_def
    by (auto simp: Let_def res_bind_Inr_iff map_sum_Inr_iff dest: save_Inr_fields)
  then have d': "rt_doc d' = preValidate (rt_doc (routed_to (ra_teamId a) (moved (xid_set (Some ?x)) ''IN_PROGRESS'' d)))" by auto
  show "colleague ?x" by (rule c)
  show "d_assignedToXID (rt_doc d') = Some (js_upper (js_trim (str_or_empty (mt_userXID to))))"
    "canonical_state (rt_doc d') = IN_PROGRESS" "d_queueType (rt_doc d') = d_queueType (rt_doc d)"
    by (simp_all add: d' routed_to_def moved_def xid_set_upper canonical_state_def)
  show "truthy (d_state (rt_doc d)) \<Longrightarrow> d_state (rt_doc d') = d_state (rt_doc d)"
    by (simp add: d' routed_to_def moved_def)
  show t: "d_routedToTeamId (rt_doc d') = ra_teamId a" by (simp add: d' routed_to_def moved_def)
  show "is_error (snd (resolveDocketWithTeamRestriction rv (Some d') b))"
    using t assms(3) by (auto simp: resolveDocketWithTeamRestriction_def findDocket_def is_error_iff res_bind_Inr_iff)
next
  assume "w \<notin> {''WL'', ''WB''}"
  then show "fst (managerMoveDocket rv colleague (Some d) a to) = []" "is_error (snd (managerMoveDocket rv colleague (Some d) a to))"
    using assms(1,2,5) by (auto simp: managerMoveDocket_def findDocket_def move_guards_def Let_def seq_def pure_def is_error_iff)
qed

definition sample_manager :: route_actor where
  "sample_manager = \<lparr>ra_xID = Some ''X000001'', ra_role = Some ''Manager'', ra_teamId = Some ''T1'', ra_email = None\<rparr>"

theorem manager_move_exact_witness:
  "managerMoveDocket True (\<lambda>_. True)
      (Some (sample_routed\<lparr>rt_doc := sample_docket\<lparr>d_assignedToXID := Some ''X000005'', d_queueType := Some ''PERSONAL''\<rparr>\<rparr>))
      sample_manager \<lparr>mt_type = Some ''WB'', mt_userXID = None\<rparr>
     = ([History_logged ''CASE_UNASSIGNED'' (Some ''X000001'') (Some ''X000005'') None], Inl (ValidationError [''assignedToXID'']))"
proof -
  let ?d = "sample_routed\<lparr>rt_doc := sample_docket\<lparr>d_assignedToXID := Some ''X000005'', d_queueType := Some ''PERSONAL''\<rparr>\<rparr>"
  let ?to = "\<lparr>mt_type = Some ''WB'', mt_userXID = None\<rparr>"
  have h: "js_upper (str_or_empty (ra_role sample_manager)) = ''MANAGER''"
    "str_or_empty (d_ownerTeamId (rt_doc ?d)) = str_or_empty (ra_teamId sample_manager)" "truthy (ra_teamId sample_manager)"
    "truthy (d_firmId (rt_doc ?d))" "js_upper (str_or_empty (mt_type ?to)) = ''WB''" "ra_xID sample_manager = Some ''X000001''"
    "d_assignedToXID (rt_doc ?d) = Some ''X000005''" by code_simp+
  have q: "normalize_str (d_queueType (rt_doc ?d)) = ''PERSONAL''" by code_simp
  show ?thesis
    using manager_move_exact [OF h(1-5), THEN conjunct1, THEN mp, OF conjI [OF HOL.refl q], of True "\<lambda>_. True"]
    unfolding h(6,7) .
qed

end
