(* ===== verification/Tenancy.thy ===== *)
theory Tenancy
  imports DocketQuery
begin

section \<open>Tenants and the scope of queries\<close>

text \<open>
  Which firm a request belongs to: \<open>services/tenantIdentity.service.js\<close>, and the guards that keep
  queries inside it (\<open>utils/tenantScope.js\<close>, \<open>utils/firmScope.js\<close>, \<open>utils/tenantGuard.js\<close>,
  \<open>middleware/tenantScope.middleware.js\<close>, \<open>middleware/invariantGuard.js\<close>,
  \<open>middleware/domainInvariantGuard.js\<close>).  A firm is known by the identifier of its own document and by
  that of its default client; the two are mapped to one tenant.  The collections \<open>clients\<close> and
  \<open>firms\<close> are lists; the identifiers handed to them are well-formed, as the callers check.
\<close>

record tenant_client =
  tc_id :: string
  tc_firmId :: "string option"
  tc_isDefaultClient :: bool
  tc_firmSlug :: "string option"
  tc_status :: "string option"

record tenant_firm =
  tf_id :: string
  tf_defaultClientId :: "string option"
  tf_firmSlug :: "string option"
  tf_status :: "string option"

record tenant_context =
  tx_tenantId :: "string option"
  tx_defaultClientId :: "string option"
  tx_ownershipFirmId :: "string option"
  tx_legacyFirmId :: "string option"
  tx_firmSlug :: "string option"
  tx_status :: "string option"
  tx_source :: string

record tenant_db =
  td_clients :: "tenant_client list"
  td_firms :: "tenant_firm list"

definition find_default_client :: "string \<Rightarrow> tenant_db \<Rightarrow> tenant_client option" where
  "find_default_client i db = find (\<lambda>c. tc_id c = i \<and> tc_isDefaultClient c) (td_clients db)"

definition find_firm :: "string \<Rightarrow> tenant_db \<Rightarrow> tenant_firm option" where
  "find_firm i db = find (\<lambda>f. tf_id f = i) (td_firms db)"

definition toIdString :: "string option \<Rightarrow> string option" where
  "toIdString v = (if truthy v then v else None)"

definition resolveCanonicalTenantFromFirmId :: "tenant_db \<Rightarrow> string option \<Rightarrow> tenant_context option" where
  "resolveCanonicalTenantFromFirmId db firmId =
    (if \<not> truthy firmId then None
     else (let i = str_or_empty firmId
           in case find_default_client i db of
                Some c \<Rightarrow> Some \<lparr>tx_tenantId = Some (tc_id c), tx_defaultClientId = Some (tc_id c),
                    tx_ownershipFirmId = js_or (toIdString (tc_firmId c)) (Some (tc_id c)), tx_legacyFirmId = None,
                    tx_firmSlug = js_or (tc_firmSlug c) None, tx_status = js_or (tc_status c) None, tx_source = ''default_client''\<rparr>
              | None \<Rightarrow>
                 (case find_firm i db of None \<Rightarrow> None
                  | Some f \<Rightarrow>
                     (case (if truthy (tf_defaultClientId f) then find_default_client (str_or_empty (tf_defaultClientId f)) db else None) of
                        Some c \<Rightarrow> Some \<lparr>tx_tenantId = Some (tc_id c), tx_defaultClientId = Some (tc_id c),
                            tx_ownershipFirmId = Some (tf_id f), tx_legacyFirmId = Some (tf_id f),
                            tx_firmSlug = js_or (tc_firmSlug c) (js_or (tf_firmSlug f) None), tx_status = js_or (tc_status c) (js_or (tf_status f) None),
                            tx_source = ''legacy_firm_to_default_client''\<rparr>
                      | None \<Rightarrow> Some \<lparr>tx_tenantId = Some (tf_id f), tx_defaultClientId = None,
                            tx_ownershipFirmId = Some (tf_id f), tx_legacyFirmId = Some (tf_id f),
                            tx_firmSlug = js_or (tf_firmSlug f) None, tx_status = js_or (tf_status f) None,
                            tx_source = ''legacy_firm_only''\<rparr>))))"

text \<open>The user of a request, as far as the tenant is concerned.\<close>

record tenant_user =
  tu_role :: "string option"
  tu_firmId :: "string option"
  tu_defaultClientId :: "string option"

definition resolveCanonicalTenantForUser :: "tenant_db \<Rightarrow> tenant_user option \<Rightarrow> tenant_context option" where
  "resolveCanonicalTenantForUser db user =
    (case user of
       None \<Rightarrow> Some \<lparr>tx_tenantId = None, tx_defaultClientId = None, tx_ownershipFirmId = None, tx_legacyFirmId = None,
                  tx_firmSlug = None, tx_status = None, tx_source = ''super_admin''\<rparr>
     | Some u \<Rightarrow>
        if js_upper (str_or_empty (tu_role u)) = ''SUPER_ADMIN''
        then Some \<lparr>tx_tenantId = None, tx_defaultClientId = None, tx_ownershipFirmId = None, tx_legacyFirmId = None,
                  tx_firmSlug = None, tx_status = None, tx_source = ''super_admin''\<rparr>
        else (case (if truthy (tu_defaultClientId u) then find_default_client (str_or_empty (tu_defaultClientId u)) db else None) of
                Some c \<Rightarrow> Some \<lparr>tx_tenantId = Some (tc_id c), tx_defaultClientId = Some (tc_id c),
                    tx_ownershipFirmId = js_or (toIdString (tc_firmId c)) (Some (tc_id c)),
                    tx_legacyFirmId = (if truthy (tu_firmId u) \<and> tu_firmId u \<noteq> Some (tc_id c) then tu_firmId u else None),
                    tx_firmSlug = js_or (tc_firmSlug c) None, tx_status = js_or (tc_status c) None, tx_source = ''user_default_client''\<rparr>
              | None \<Rightarrow> resolveCanonicalTenantFromFirmId db (tu_firmId u)))"

definition resolveTenantBySlug :: "tenant_db \<Rightarrow> string option \<Rightarrow> tenant_context option" where
  "resolveTenantBySlug db firmSlug =
    (if \<not> truthy firmSlug then None
     else case find (\<lambda>c. tc_firmSlug c = firmSlug \<and> tc_isDefaultClient c) (td_clients db) of
       Some c \<Rightarrow> Some \<lparr>tx_tenantId = Some (tc_id c), tx_defaultClientId = Some (tc_id c),
           tx_ownershipFirmId = js_or (toIdString (tc_firmId c)) (Some (tc_id c)),
           tx_legacyFirmId = (if toIdString (tc_firmId c) \<noteq> Some (tc_id c) then toIdString (tc_firmId c) else None),
           tx_firmSlug = js_or (tc_firmSlug c) firmSlug, tx_status = js_or (tc_status c) None, tx_source = ''default_client_slug''\<rparr>
     | None \<Rightarrow>
        (case find (\<lambda>f. tf_firmSlug f = firmSlug) (td_firms db) of None \<Rightarrow> None
         | Some f \<Rightarrow>
            (let x = resolveCanonicalTenantFromFirmId db (Some (tf_id f))
             in Some \<lparr>tx_tenantId = js_or (Option.bind x tx_tenantId) (Some (tf_id f)),
                  tx_defaultClientId = js_or (Option.bind x tx_defaultClientId) (js_or (toIdString (tf_defaultClientId f)) None),
                  tx_ownershipFirmId = js_or (Option.bind x tx_ownershipFirmId) (Some (tf_id f)), tx_legacyFirmId = Some (tf_id f),
                  tx_firmSlug = js_or (Option.bind x tx_firmSlug) (js_or (tf_firmSlug f) None),
                  tx_status = js_or (Option.bind x tx_status) (js_or (tf_status f) None),
                  tx_source = (case x of Some x' \<Rightarrow> tx_source x' | None \<Rightarrow> ''legacy_firm_slug'')\<rparr>)))"

definition resolveFirmOwnershipFromTenantId :: "tenant_db \<Rightarrow> string option \<Rightarrow> string option" where
  "resolveFirmOwnershipFromTenantId db tenantId =
    js_or (Option.bind (resolveCanonicalTenantFromFirmId db tenantId) tx_ownershipFirmId) None"

text \<open>The storage context: tenant, owning firm, slug and source.\<close>

definition resolveStorageContextFromTenantId :: "tenant_db \<Rightarrow> string option \<Rightarrow> (string \<times> string \<times> string option \<times> string) option" where
  "resolveStorageContextFromTenantId db tenantId =
    (case resolveCanonicalTenantFromFirmId db tenantId of None \<Rightarrow> None
     | Some c \<Rightarrow> if \<not> truthy (tx_tenantId c) \<or> \<not> truthy (tx_ownershipFirmId c) then None
         else Some (str_or_empty (tx_tenantId c), str_or_empty (tx_ownershipFirmId c), js_or (tx_firmSlug c) None,
                    if tx_source c = [] then ''unknown'' else tx_source c))"

definition resolveClientOwnershipFirmId :: "(string \<Rightarrow> bool) \<Rightarrow> tenant_db \<Rightarrow> string option \<Rightarrow> string option" where
  "resolveClientOwnershipFirmId isObjectId db firmId =
    (if \<not> truthy firmId then None
     else if \<not> isObjectId (str_or_empty firmId) then toIdString firmId
     else js_or (Option.bind (resolveCanonicalTenantFromFirmId db firmId) tx_ownershipFirmId) (toIdString firmId))"

subsection \<open>Scoped queries\<close>

text \<open>
  A query is an association list of fields and values.  The spread \<open>{ ...query, firmId }\<close> sets the
  field whatever the query says, \<open>{ firmId, ...query }\<close> lets the query win.
\<close>

type_synonym mongo_query = "(string \<times> string) list"

definition enforceTenantScope :: "mongo_query \<Rightarrow> string option \<Rightarrow> mongo_query res" where
  "enforceTenantScope query userFirmId =
    (if \<not> truthy userFirmId then Inl (Thrown ''Firm context missing from authenticated user'' (Some 403) (Some ''TENANT_CONTEXT_REQUIRED''))
     else if truthy (map_of query ''firmId'') \<and> map_of query ''firmId'' \<noteq> userFirmId
     then Inl (Thrown ''Tenant scope tampering detected'' (Some 403) (Some ''TENANT_SCOPE_TAMPERING_DETECTED''))
     else Inr ((''firmId'', str_or_empty userFirmId) # filter (\<lambda>(k, v). k \<noteq> ''firmId'') query))"

definition requireFirmScopedQuery :: "mongo_query \<Rightarrow> string option \<Rightarrow> mongo_query res" where
  "requireFirmScopedQuery query firmId =
    (if \<not> truthy firmId then Inl (Thrown ''TenantId required'' None None)
     else if ''firmId'' \<in> fst ` set query
     then Inl (Thrown ''Do not provide firmId in query; pass firmId as a dedicated argument'' None None)
     else Inr ((''firmId'', str_or_empty firmId) # query))"

definition ensureFirmIdInQuery :: "mongo_query \<Rightarrow> string option \<Rightarrow> mongo_query res" where
  "ensureFirmIdInQuery query firmId =
    (if \<not> truthy firmId then Inl (Thrown ''firmId is required for tenant-scoped queries'' None None)
     else Inr ((''firmId'', str_or_empty firmId) # filter (\<lambda>(k, v). k \<noteq> ''firmId'') query))"

text \<open>The document is given by whether it exists and its \<open>firmId\<close>.\<close>

definition validateFirmAccess :: "string option option \<Rightarrow> string option \<Rightarrow> bool" where
  "validateFirmAccess document userFirmId =
    (case document of None \<Rightarrow> False | Some docFirm \<Rightarrow> truthy docFirm \<and> docFirm = userFirmId)"

definition assertFirmContext :: "tenant_user option \<Rightarrow> unit res" where
  "assertFirmContext user =
    check (truthy (Option.bind user tu_firmId) \<or> Option.bind user tu_role = Some ''SUPER_ADMIN'')
      (Thrown ''Firm context missing'' (Some 403) (Some ''TENANT_CONTEXT_REQUIRED''))"

text \<open>\<open>Inl\<close> is the status code of the refusal, \<open>Inr\<close> the firm the request is scoped to.\<close>

definition addTenantContext :: "tenant_user option \<Rightarrow> nat + string" where
  "addTenantContext user =
    (case user of None \<Rightarrow> Inl 401
     | Some u \<Rightarrow> if truthy (tu_firmId u) then Inr (str_or_empty (tu_firmId u)) else Inl 403)"

subsection \<open>Guards on requests that change data\<close>

record domain_req =
  dr_method :: string
  dr_firmId :: "string option"
  dr_body_firmId :: "string option"
  dr_params_firmId :: "string option"
  dr_user :: "string option option"
  dr_body_role :: "string option"
  dr_params_userId :: "string option"
  dr_previousStatus :: "string option"
  dr_currentStatus :: "string option"
  dr_status :: "string option"
  dr_nextStatus :: "string option"
  dr_client :: "(bool \<times> bool) option"

text \<open>
  \<open>dr_user\<close> is the identifier of the user (\<open>_id\<close>, \<open>id\<close> or \<open>xID\<close>) if there is one;
  \<open>dr_client\<close> says of the client of the request whether it is the default client and a system client.
\<close>

definition FINAL_STATES :: "string list" where
  "FINAL_STATES = [''CLOSED'', ''FILED'', ''ARCHIVED'']"

definition isInvalidTransition :: "string option \<Rightarrow> string option \<Rightarrow> bool" where
  "isInvalidTransition fromStatus toStatus =
    (if \<not> truthy fromStatus \<or> \<not> truthy toStatus then False
     else (let f = js_upper (str_or_empty fromStatus); t = js_upper (str_or_empty toStatus)
           in if f = ''CLOSED'' \<and> t = ''IN_PROGRESS'' then True
              else f \<in> set FINAL_STATES \<and> t \<notin> set FINAL_STATES))"

definition domainInvariantGuard :: "domain_req \<Rightarrow> (nat \<times> string) option" where
  "domainInvariantGuard r =
    (if dr_method r \<notin> {''POST'', ''PUT'', ''PATCH'', ''DELETE''} then None
     else if truthy (dr_firmId r) \<and> truthy (dr_body_firmId r) \<and> dr_body_firmId r \<noteq> dr_firmId r then Some (403, ''cross_firm_access_denied'')
     else if truthy (dr_firmId r) \<and> truthy (dr_params_firmId r) \<and> dr_params_firmId r \<noteq> dr_firmId r then Some (403, ''cross_firm_access_denied'')
     else if dr_user r \<noteq> None \<and> truthy (dr_body_role r) \<and> truthy (dr_params_userId r)
             \<and> truthy (Option.bind (dr_user r) (\<lambda>i. i)) \<and> dr_params_userId r = Option.bind (dr_user r) (\<lambda>i. i)
     then Some (403, ''immutable_role_self_change'')
     else if isInvalidTransition (js_or (dr_previousStatus r) (dr_currentStatus r)) (js_or (dr_status r) (dr_nextStatus r))
     then Some (400, ''invalid_state_transition'')
     else if (case dr_client r of Some (isDefault, isSystem) \<Rightarrow> isDefault \<and> dr_method r = ''DELETE'' | None \<Rightarrow> False)
     then Some (400, ''default_client_cannot_be_deleted'')
     else if (case dr_client r of Some (isDefault, isSystem) \<Rightarrow> isSystem | None \<Rightarrow> False) then Some (403, ''system_client_immutable'')
     else None)"

text \<open>
  \<open>invariantGuard\<close>: the rules ask for a firm and forbid the platform role; the request carries the
  derived flag \<open>isSuperAdmin\<close> and its firm.
\<close>

definition invariantGuard :: "bool \<Rightarrow> bool \<Rightarrow> bool \<Rightarrow> string option \<Rightarrow> nat option" where
  "invariantGuard requireFirm forbidSuperAdmin isSuperAdmin firmId =
    (if requireFirm \<and> \<not> truthy firmId then Some 400
     else if forbidSuperAdmin \<and> isSuperAdmin then Some 403
     else None)"

subsection \<open>One firm has one tenant\<close>

text \<open>
  A consistent collection: a default client that a firm refers to belongs to that firm, a default client with a
  firm is that firm's default client, and no client has the identifier of a firm.
\<close>

definition tenancy_ok :: "tenant_db \<Rightarrow> bool" where
  "tenancy_ok db \<longleftrightarrow>
    (\<forall>c\<in>set (td_clients db). tc_id c \<noteq> [] \<and> find_firm (tc_id c) db = None)
    \<and> (\<forall>f\<in>set (td_firms db). tf_id f \<noteq> [])
    \<and> (\<forall>i f. find_firm i db = Some f \<longrightarrow> (\<forall>j c. tf_defaultClientId f = Some j \<and> find_default_client j db = Some c \<longrightarrow> tc_firmId c = Some i))
    \<and> (\<forall>j c i. find_default_client j db = Some c \<and> tc_firmId c = Some i \<and> i \<noteq> [] \<longrightarrow>
          (\<exists>f. find_firm i db = Some f \<and> tf_defaultClientId f = Some j))"

lemma find_default_client_Some: "find_default_client i db = Some c \<Longrightarrow> tc_id c = i \<and> tc_isDefaultClient c \<and> c \<in> set (td_clients db)"
  by (auto simp: find_default_client_def find_Some_iff)

lemma find_firm_Some: "find_firm i db = Some f \<Longrightarrow> tf_id f = i \<and> f \<in> set (td_firms db)"
  by (auto simp: find_firm_def find_Some_iff)

lemma truthy_Some [simp]: "truthy v \<Longrightarrow> Some (str_or_empty v) = v"
  by (cases v) auto

lemma toIdString_simps [simp]: "truthy v \<Longrightarrow> toIdString v = v" "\<not> truthy v \<Longrightarrow> toIdString v = None"
  by (simp_all add: toIdString_def)

definition same_tenant :: "tenant_db \<Rightarrow> string option \<Rightarrow> string option \<Rightarrow> bool" where
  "same_tenant db i j \<longleftrightarrow>
    (case (resolveCanonicalTenantFromFirmId db i, resolveCanonicalTenantFromFirmId db j) of
       (Some x, Some y) \<Rightarrow> tx_tenantId x = tx_tenantId y \<and> tx_ownershipFirmId x = tx_ownershipFirmId y | _ \<Rightarrow> False)"

text \<open>
  Fact. One firm has one tenant: in a consistent collection every identifier that resolves, resolves to the
  same tenant and owner as the tenant and the owner it resolves to; so a firm's own identifier and that of its
  default client name one tenant, and resolving again changes nothing.
\<close>

theorem tenant_resolution_stable:
  assumes "tenancy_ok db" and "resolveCanonicalTenantFromFirmId db i = Some x"
  shows "same_tenant db i (tx_tenantId x) \<and> same_tenant db i (tx_ownershipFirmId x)
    \<and> (resolveFirmOwnershipFromTenantId db (tx_tenantId x) = tx_ownershipFirmId x)"
proof (cases "find_default_client (str_or_empty i) db")
  case (Some c)
  note c = find_default_client_Some [OF Some]
  from assms(2) have "truthy i" by (auto simp: resolveCanonicalTenantFromFirmId_def split: if_splits)
  with assms(2) Some c have x: "tx_tenantId x = i" "tx_ownershipFirmId x = js_or (toIdString (tc_firmId c)) (Some (tc_id c))"
    by (auto simp: resolveCanonicalTenantFromFirmId_def Let_def)
  have "same_tenant db i (tx_ownershipFirmId x)"
  proof (cases "truthy (tc_firmId c)")
    case False
    then show ?thesis using x assms(2) c \<open>truthy i\<close> by (cases i) (auto simp: same_tenant_def js_or_def)
  next
    case True
    then obtain k where k: "tc_firmId c = Some k" "k \<noteq> []" by (cases "tc_firmId c") auto
    from assms(1) Some k obtain f where f: "find_firm k db = Some f" "tf_defaultClientId f = Some (str_or_empty i)"
      unfolding tenancy_ok_def by blast
    have "find_default_client k db = None"
      using f(1) assms(1) find_default_client_Some unfolding tenancy_ok_def by (metis not_None_eq)
    with f k Some x c assms(2) \<open>truthy i\<close> find_firm_Some [OF f(1)] show ?thesis
      by (cases i) (auto simp: same_tenant_def resolveCanonicalTenantFromFirmId_def js_or_def)
  qed
  with x assms(2) show ?thesis
    using c \<open>truthy i\<close> by (auto simp: same_tenant_def resolveFirmOwnershipFromTenantId_def js_or_def toIdString_def)
next
  case None
  from assms(2) None obtain f where ti: "truthy i" and f: "find_firm (str_or_empty i) db = Some f"
    by (auto simp: resolveCanonicalTenantFromFirmId_def Let_def split: if_splits option.splits)
  note ff = find_firm_Some [OF f]
  have owner: "tx_ownershipFirmId x = i"
    using assms(2) None f ti ff
    by (cases i) (auto simp: resolveCanonicalTenantFromFirmId_def Let_def split: if_splits option.splits)
  have "same_tenant db i (tx_tenantId x) \<and> resolveFirmOwnershipFromTenantId db (tx_tenantId x) = i"
  proof (cases "if truthy (tf_defaultClientId f) then find_default_client (str_or_empty (tf_defaultClientId f)) db else None")
    case None': None
    then have "tx_tenantId x = i"
      using assms(2) None f ti ff by (cases i) (auto simp: resolveCanonicalTenantFromFirmId_def Let_def)
    then show ?thesis using assms(2) ti owner by (auto simp: same_tenant_def resolveFirmOwnershipFromTenantId_def js_or_def)
  next
    case (Some c)
    then obtain j where j: "tf_defaultClientId f = Some j" "j \<noteq> []" "find_default_client j db = Some c"
      by (cases "tf_defaultClientId f") (auto split: if_splits)
    note c = find_default_client_Some [OF j(3)]
    have cf: "tc_firmId c = Some (str_or_empty i)" using assms(1) f j unfolding tenancy_ok_def by blast
    have t: "tx_tenantId x = Some j" using assms(2) None f ti j c by (auto simp: resolveCanonicalTenantFromFirmId_def Let_def)
    have "resolveCanonicalTenantFromFirmId db (Some j) = Some y \<Longrightarrow> tx_tenantId y = Some j \<and> tx_ownershipFirmId y = i" for y
      using j c cf ti by (cases i) (auto simp: resolveCanonicalTenantFromFirmId_def Let_def)
    moreover have "resolveCanonicalTenantFromFirmId db (Some j) \<noteq> None"
      using j by (simp add: resolveCanonicalTenantFromFirmId_def Let_def)
    ultimately show ?thesis using t owner assms(2) ti
      by (auto simp: same_tenant_def resolveFirmOwnershipFromTenantId_def js_or_def split: option.split)
  qed
  with owner assms(2) show ?thesis by (simp add: same_tenant_def)
qed

definition sample_tenants :: tenant_db where
  "sample_tenants =
    \<lparr>td_clients = [\<lparr>tc_id = ''C1'', tc_firmId = Some ''F1'', tc_isDefaultClient = True, tc_firmSlug = Some ''acme'', tc_status = Some ''active''\<rparr>],
     td_firms = [\<lparr>tf_id = ''F1'', tf_defaultClientId = Some ''C1'', tf_firmSlug = Some ''acme'', tf_status = None\<rparr>]\<rparr>"

lemma sample_tenants_ok: "tenancy_ok sample_tenants"
  by (auto simp: tenancy_ok_def sample_tenants_def find_firm_def find_default_client_def split: if_splits)

theorem tenant_resolution_stable_witness:
  "same_tenant sample_tenants (Some ''F1'') (Some ''C1'')
   \<and> (\<exists>x. resolveCanonicalTenantFromFirmId sample_tenants (Some ''F1'') = Some x \<and> tx_tenantId x = Some ''C1'')"
proof -
  obtain x where x: "resolveCanonicalTenantFromFirmId sample_tenants (Some ''F1'') = Some x" and "tx_tenantId x = Some ''C1''"
    by (auto simp: resolveCanonicalTenantFromFirmId_def sample_tenants_def find_firm_def find_default_client_def Let_def)
  with tenant_resolution_stable [OF sample_tenants_ok x] show ?thesis by auto
qed

subsection \<open>Queries stay inside their firm\<close>

text \<open>A document is a function from fields to values.\<close>

definition selects :: "mongo_query \<Rightarrow> (string \<Rightarrow> string option) \<Rightarrow> bool" where
  "selects q doc \<longleftrightarrow> (\<forall>(k, v)\<in>set q. doc k = Some v)"

text \<open>
  What every scoping function promises the code that runs the query: the firm is part of it, whatever else
  it selects by; and without a firm there is no query.
\<close>

locale scoped_query =
  fixes scope :: "mongo_query \<Rightarrow> string option \<Rightarrow> mongo_query res"
  assumes needs_firm: "\<not> truthy f \<Longrightarrow> is_error (scope q f)"
    and scoped: "scope q f = Inr q' \<Longrightarrow> selects q' doc \<longleftrightarrow> doc ''firmId'' = f \<and> selects (filter (\<lambda>(k, v). k \<noteq> ''firmId'') q) doc"
begin

lemma firm_only: "scope q f = Inr q' \<Longrightarrow> selects q' doc \<Longrightarrow> doc ''firmId'' = f"
  using scoped by blast

lemma truthy_firm: "scope q f = Inr q' \<Longrightarrow> truthy f"
  using needs_firm by (metis is_error_simps(2))

lemma disjoint_firms: "scope q f = Inr q1 \<Longrightarrow> scope q' g = Inr q2 \<Longrightarrow> f \<noteq> g \<Longrightarrow> \<not> (selects q1 doc \<and> selects q2 doc)"
  using firm_only by metis

end

lemma selects_Cons [simp]: "selects ((k, v) # q) doc \<longleftrightarrow> doc k = Some v \<and> selects q doc"
  by (simp add: selects_def)

interpretation tenant_scope: scoped_query enforceTenantScope
  by unfold_locales (auto simp: enforceTenantScope_def split: if_splits)

interpretation dedicated_scope: scoped_query requireFirmScopedQuery
proof unfold_locales
  fix q f q' doc assume a: "requireFirmScopedQuery q f = Inr q'"
  then have "filter (\<lambda>(k, v). k \<noteq> ''firmId'') q = q" by (force simp: requireFirmScopedQuery_def filter_id_conv split: if_splits)
  with a show "selects q' doc \<longleftrightarrow> doc ''firmId'' = f \<and> selects (filter (\<lambda>(k, v). k \<noteq> ''firmId'') q) doc"
    by (auto simp: requireFirmScopedQuery_def split: if_splits)
qed (simp add: requireFirmScopedQuery_def)

interpretation injected_scope: scoped_query ensureFirmIdInQuery
  by unfold_locales (auto simp: ensureFirmIdInQuery_def split: if_splits)

text \<open>
  C37. A scoped query never leaves its firm: whatever the caller puts into a query, each of the three
  scoping functions either refuses it or returns one that selects only documents of the firm, so queries
  scoped to two firms have no document in common; a query that names another firm is refused, or answered
  for the caller's own firm; and one that names the caller's firm is not narrowed further.
\<close>

theorem scoped_queries_stay:
  "(enforceTenantScope q f = Inr q1 \<and> selects q1 doc \<longrightarrow> doc ''firmId'' = f)
   \<and> (requireFirmScopedQuery q f = Inr q2 \<and> selects q2 doc \<longrightarrow> doc ''firmId'' = f)
   \<and> (ensureFirmIdInQuery q f = Inr q3 \<and> selects q3 doc \<longrightarrow> doc ''firmId'' = f)
   \<and> (enforceTenantScope q f = Inr q1 \<and> enforceTenantScope q' g = Inr q4 \<and> f \<noteq> g \<longrightarrow> \<not> (selects q1 doc \<and> selects q4 doc))
   \<and> (map_of q ''firmId'' = Some other \<and> other \<noteq> [] \<and> Some other \<noteq> f \<longrightarrow> is_error (enforceTenantScope q f) \<and> is_error (requireFirmScopedQuery q f))
   \<and> (truthy f \<and> doc ''firmId'' = f \<longrightarrow>
        (\<exists>q5. ensureFirmIdInQuery q f = Inr q5 \<and> selects q5 doc = selects (filter (\<lambda>(k, v). k \<noteq> ''firmId'') q) doc))"
proof -
  have "is_error (enforceTenantScope q f)" "is_error (requireFirmScopedQuery q f)"
    if "map_of q ''firmId'' = Some other" "other \<noteq> []" "Some other \<noteq> f"
  proof -
    from that have "map_of q ''firmId'' \<noteq> None" by simp
    then have "''firmId'' \<in> fst ` set q" by (simp add: map_of_eq_None_iff)
    then show "is_error (enforceTenantScope q f)" "is_error (requireFirmScopedQuery q f)"
      using that by (auto simp: enforceTenantScope_def requireFirmScopedQuery_def)
  qed
  note refused = this
  have own: "\<exists>q5. ensureFirmIdInQuery q f = Inr q5 \<and> selects q5 doc = selects (filter (\<lambda>(k, v). k \<noteq> ''firmId'') q) doc"
    if "truthy f" "doc ''firmId'' = f"
  proof -
    from that(1) obtain q5 where "ensureFirmIdInQuery q f = Inr q5" by (simp add: ensureFirmIdInQuery_def)
    with injected_scope.scoped [OF this, of doc] that(2) show ?thesis by simp
  qed
  show ?thesis
  proof (intro conjI impI; (elim conjE)?)
    show "enforceTenantScope q f = Inr q1 \<Longrightarrow> selects q1 doc \<Longrightarrow> doc ''firmId'' = f" by (rule tenant_scope.firm_only)
    show "requireFirmScopedQuery q f = Inr q2 \<Longrightarrow> selects q2 doc \<Longrightarrow> doc ''firmId'' = f" by (rule dedicated_scope.firm_only)
    show "ensureFirmIdInQuery q f = Inr q3 \<Longrightarrow> selects q3 doc \<Longrightarrow> doc ''firmId'' = f" by (rule injected_scope.firm_only)
    show "enforceTenantScope q f = Inr q1 \<Longrightarrow> enforceTenantScope q' g = Inr q4 \<Longrightarrow> f \<noteq> g \<Longrightarrow> \<not> (selects q1 doc \<and> selects q4 doc)"
      by (rule tenant_scope.disjoint_firms)
  qed (rule refused own; assumption)+
qed

theorem scoped_queries_stay_witness:
  "is_error (enforceTenantScope [(''status'', ''OPEN''), (''firmId'', ''F2'')] (Some ''F1''))"
  using scoped_queries_stay [where q = "[(''status'', ''OPEN''), (''firmId'', ''F2'')]" and f = "Some ''F1''" and other = "''F2''"] by simp

end
