(* ===== verification/Roles.thy ===== *)
theory Roles
  imports DocketQuery
begin

section \<open>Roles, ranks and policies\<close>

text \<open>
  \<open>utils/role.utils.js\<close>, \<open>utils/hierarchy.utils.js\<close>, \<open>config/permissions.js\<close> and
  \<open>src/policies\<close>: how the spelling of a role is normalised, which role outranks which, who may invite
  whom, and the predicates the routes are guarded with.  A user of a request is an \<open>account\<close>; \<open>_id\<close> and
  \<open>id\<close> are \<open>us__id\<close> and \<open>us_id\<close>.
\<close>

record account =
  us__id :: "string option"
  us_id :: "string option"
  us_xID :: "string option"
  us_role :: "string option"
  us_firmId :: "string option"
  us_teamId :: "string option"
  us_isPrimaryAdmin :: bool
  us_primaryAdminId :: "string option"
  us_isActive :: bool
  us_permissions :: "string list option"
  us_restrictedClientIds :: "string list"

definition role_sep :: "char \<Rightarrow> bool" where
  "role_sep c \<longleftrightarrow> c = CHR ''-'' \<or> js_space c"

text \<open>\<open>replace(/[\s-]+/g, '_')\<close>: what \<open>collapse_runs\<close> leaves of the class is the single hyphens it put in.\<close>

definition underscored :: "string \<Rightarrow> string" where
  "underscored s = map (\<lambda>c. if c = CHR ''-'' then CHR ''_'' else c) (collapse_runs role_sep s)"

definition normalizeRole :: "string option \<Rightarrow> string option" where
  "normalizeRole role =
    (if \<not> truthy role then None
     else (let n = underscored (js_upper (js_trim (str_or_empty role)))
           in if n \<in> {''SUPERADMIN'', ''SUPER_ADMIN''} then Some ''SUPER_ADMIN''
              else if n \<in> {''PRIMARY_ADMIN'', ''PRIMARYADMIN''} then Some ''PRIMARY_ADMIN''
              else if n = ''ADMIN'' then Some ''ADMIN''
              else if n = ''MANAGER'' then Some ''MANAGER''
              else if n \<in> {''EMPLOYEE'', ''STAFF'', ''USER''} then Some ''USER''
              else Some n))"

definition isSuperAdminRole :: "string option \<Rightarrow> bool" where
  "isSuperAdminRole role \<longleftrightarrow> normalizeRole role = Some ''SUPER_ADMIN''"

definition isAdminRole :: "string option \<Rightarrow> bool" where
  "isAdminRole role \<longleftrightarrow> normalizeRole role \<in> {Some ''PRIMARY_ADMIN'', Some ''ADMIN''}"

definition FIRM_ROLE_RANK :: "(string \<times> nat) list" where
  "FIRM_ROLE_RANK = [(''USER'', 1), (''MANAGER'', 2), (''ADMIN'', 3), (''PRIMARY_ADMIN'', 4)]"

definition normalizeFirmRole :: "string option \<Rightarrow> string" where
  "normalizeFirmRole role =
    (let n = normalizeRole role
     in if n \<in> {Some ''PRIMARY_ADMIN'', Some ''ADMIN'', Some ''MANAGER'', Some ''USER''} then str_or_empty n else ''USER'')"

definition getFirmRoleRank :: "string option \<Rightarrow> nat" where
  "getFirmRoleRank role = (case map_of FIRM_ROLE_RANK (normalizeFirmRole role) of Some n \<Rightarrow> n | None \<Rightarrow> 0)"

definition hasFirmRoleAtLeast :: "string option \<Rightarrow> string option \<Rightarrow> bool" where
  "hasFirmRoleAtLeast role minimum \<longleftrightarrow> getFirmRoleRank minimum \<le> getFirmRoleRank role"

definition isPrimaryAdminActor :: "account option \<Rightarrow> bool" where
  "isPrimaryAdminActor user =
    (case user of None \<Rightarrow> False
     | Some u \<Rightarrow>
        if us_isPrimaryAdmin u then True
        else if normalizeRole (us_role u) = Some ''PRIMARY_ADMIN'' then True
        else (let userId = js_or (us__id u) (us_id u)
              in truthy (us_primaryAdminId u) \<and> truthy userId \<and> us_primaryAdminId u = userId))"

definition toLegacyUserRole :: "string option \<Rightarrow> string option" where
  "toLegacyUserRole role =
    (let n = normalizeRole role
     in if n = Some ''SUPER_ADMIN'' then Some ''SUPER_ADMIN''
        else if n \<in> {Some ''PRIMARY_ADMIN'', Some ''ADMIN''} then Some ''Admin''
        else if n \<in> {Some ''MANAGER'', Some ''USER''} then Some ''Employee''
        else role)"

subsection \<open>The hierarchy\<close>

definition INVITABLE_ROLE_MAP :: "(string \<times> string list) list" where
  "INVITABLE_ROLE_MAP =
    [(''PRIMARY_ADMIN'', [''ADMIN'', ''MANAGER'', ''USER'']), (''ADMIN'', [''MANAGER'', ''USER'']),
     (''MANAGER'', [''USER'']), (''USER'', [])]"

definition canInviteRole :: "string option \<Rightarrow> string option \<Rightarrow> bool" where
  "canInviteRole inviterRole targetRole =
    (case normalizeRole inviterRole of None \<Rightarrow> False
     | Some i \<Rightarrow> (case map_of INVITABLE_ROLE_MAP i of None \<Rightarrow> False
        | Some ts \<Rightarrow> (case normalizeRole targetRole of None \<Rightarrow> False | Some t \<Rightarrow> t \<in> set ts)))"

definition getTagValidationError :: "string option \<Rightarrow> string option \<Rightarrow> string option \<Rightarrow> string option \<Rightarrow> string option" where
  "getTagValidationError role primaryAdminId adminId managerId =
    (let n = normalizeRole role
     in if n \<noteq> Some ''PRIMARY_ADMIN'' \<and> \<not> truthy primaryAdminId then Some ''primaryAdminId is required for non-primary-admin users''
        else if n = Some ''PRIMARY_ADMIN'' \<and> (truthy adminId \<or> truthy managerId) then Some ''PRIMARY_ADMIN cannot have adminId or managerId''
        else if n = Some ''ADMIN'' \<and> (truthy adminId \<or> truthy managerId) then Some ''ADMIN cannot have adminId or managerId''
        else if n = Some ''MANAGER'' \<and> truthy managerId then Some ''MANAGER cannot have managerId''
        else None)"

definition assertPrimaryAdmin :: "account option \<Rightarrow> unit res" where
  "assertPrimaryAdmin user =
    check (normalizeRole (Option.bind user us_role) = Some ''PRIMARY_ADMIN'')
      (Thrown ''Only PRIMARY_ADMIN can perform this action'' None None)"

text \<open>\<open>coercePrimaryAdminCreationFields\<close>: the role of the account it creates.\<close>

definition coerced_primary_role :: "string option \<Rightarrow> string" where
  "coerced_primary_role role =
    (let n = normalizeRole role; coerced = (if n = Some ''ADMIN'' then Some ''PRIMARY_ADMIN'' else n)
     in str_or_empty (js_or coerced (Some ''PRIMARY_ADMIN'')))"

text \<open>\<open>config/permissions.js\<close>: what a role sees.\<close>

definition PERMISSIONS :: "(string \<times> string list) list" where
  "PERMISSIONS =
    [(''TEAM_MANAGEMENT'', [''PRIMARY_ADMIN'', ''ADMIN'']), (''CLIENT_MANAGEMENT'', [''PRIMARY_ADMIN'', ''ADMIN'']),
     (''WORK_SETTINGS'', [''PRIMARY_ADMIN'', ''ADMIN'']), (''FIRM_SETTINGS'', [''PRIMARY_ADMIN'', ''ADMIN'']),
     (''STORAGE_SETTINGS'', [''PRIMARY_ADMIN''])]"

definition hasPermission :: "string \<Rightarrow> string option \<Rightarrow> bool" where
  "hasPermission permissionKey role =
    (case normalizeRole role of None \<Rightarrow> False
     | Some n \<Rightarrow> (case map_of PERMISSIONS permissionKey of None \<Rightarrow> False | Some allowed \<Rightarrow> n \<in> set allowed))"

subsection \<open>Policies\<close>

definition policy :: "(account \<Rightarrow> bool) \<Rightarrow> account option \<Rightarrow> bool" where
  "policy P user = (case user of None \<Rightarrow> False | Some u \<Rightarrow> P u)"

definition case_canView :: "account option \<Rightarrow> bool" where
  "case_canView = policy (\<lambda>u. \<not> isSuperAdminRole (us_role u)
     \<and> normalizeRole (us_role u) \<in> {Some ''PRIMARY_ADMIN'', Some ''ADMIN'', Some ''MANAGER'', Some ''USER''})"

definition case_canDelete :: "account option \<Rightarrow> bool" where
  "case_canDelete = policy (\<lambda>u. \<not> isSuperAdminRole (us_role u) \<and> isAdminRole (us_role u))"

text \<open>Categories, clients and the user directory have the same two predicates.\<close>

definition directory_canView :: "account option \<Rightarrow> bool" where
  "directory_canView = policy (\<lambda>u. \<not> isSuperAdminRole (us_role u)
     \<and> normalizeRole (us_role u) \<in> {Some ''PRIMARY_ADMIN'', Some ''ADMIN'', Some ''MANAGER''})"

definition directory_canManage :: "account option \<Rightarrow> bool" where
  "directory_canManage = policy (\<lambda>u. \<not> isSuperAdminRole (us_role u) \<and> isAdminRole (us_role u))"

definition admin_isAdmin :: "account option \<Rightarrow> bool" where
  "admin_isAdmin = policy (\<lambda>u. if us_role u \<in> {Some ''SuperAdmin'', Some ''SUPER_ADMIN''} then False else us_role u = Some ''Admin'')"

definition reports_canGenerate :: "account option \<Rightarrow> bool" where
  "reports_canGenerate = policy (\<lambda>u. if us_role u \<in> {Some ''SuperAdmin'', Some ''SUPER_ADMIN''} then False
     else us_role u \<in> {Some ''Admin'', Some ''Employee''})"

definition firm_canManage :: "account option \<Rightarrow> bool" where
  "firm_canManage = policy (\<lambda>u. us_role u \<in> {Some ''SuperAdmin'', Some ''SUPER_ADMIN''})"

definition superadmin_isSuperAdmin :: "account option \<Rightarrow> bool" where
  "superadmin_isSuperAdmin = policy (\<lambda>u. isSuperAdminRole (us_role u))"

text \<open>
  \<open>middleware/authorize.js\<close>: the status code of the refusal, or \<open>None\<close> when the request goes on.  A policy
  that throws is the value \<open>None\<close>.
\<close>

definition authorize :: "(account \<Rightarrow> bool option) \<Rightarrow> account option \<Rightarrow> nat option" where
  "authorize policyFn user =
    (case user of None \<Rightarrow> Some 401
     | Some u \<Rightarrow> (case policyFn u of None \<Rightarrow> Some 403 | Some allowed \<Rightarrow> if allowed then None else Some 403))"

subsection \<open>Facts\<close>

definition firm_roles :: "string list" where
  "firm_roles = [''PRIMARY_ADMIN'', ''ADMIN'', ''MANAGER'', ''USER'']"

text \<open>
  Fact. Who may invite whom follows rank: a role may invite another exactly when both are roles of a firm,
  however they are spelled, and the invited one ranks strictly lower; so nobody invites their own rank or
  above, whoever may invite a role may invite everything it may, and the platform role neither invites nor is invited.
\<close>

theorem invite_follows_rank:
  "(canInviteRole a b \<longleftrightarrow>
      normalizeRole a \<in> Some ` set firm_roles \<and> normalizeRole b \<in> Some ` set firm_roles \<and> getFirmRoleRank b < getFirmRoleRank a)
   \<and> (canInviteRole a b \<and> canInviteRole b c \<longrightarrow> canInviteRole a c)
   \<and> \<not> canInviteRole a a
   \<and> (isSuperAdminRole a \<longrightarrow> \<not> canInviteRole a b \<and> \<not> canInviteRole b a)"
proof -
  have rank: "getFirmRoleRank r = (if normalizeRole r = Some ''PRIMARY_ADMIN'' then 4 else if normalizeRole r = Some ''ADMIN'' then 3
      else if normalizeRole r = Some ''MANAGER'' then 2 else 1)" for r
    by (auto simp: getFirmRoleRank_def normalizeFirmRole_def FIRM_ROLE_RANK_def Let_def)
  have invite: "canInviteRole a b \<longleftrightarrow>
      normalizeRole a \<in> Some ` set firm_roles \<and> normalizeRole b \<in> Some ` set firm_roles \<and> getFirmRoleRank b < getFirmRoleRank a" for a b
    unfolding rank
    by (cases "normalizeRole a"; cases "normalizeRole b")
      (auto simp: canInviteRole_def INVITABLE_ROLE_MAP_def firm_roles_def)
  have "isSuperAdminRole a \<longrightarrow> normalizeRole a \<notin> Some ` set firm_roles"
    by (auto simp: isSuperAdminRole_def firm_roles_def)
  with invite show ?thesis by (meson less_asym less_trans)
qed

theorem invite_follows_rank_witness:
  "canInviteRole (Some ''primary-admin'') (Some '' Staff '')"
proof -
  have "normalizeRole (Some ''primary-admin'') \<in> Some ` set firm_roles" "normalizeRole (Some '' Staff '') \<in> Some ` set firm_roles"
    "getFirmRoleRank (Some '' Staff '') < getFirmRoleRank (Some ''primary-admin'')" by code_simp+
  then show ?thesis using conjunct1 [OF invite_follows_rank] by blast
qed

end
