(* ===== verification/Access.thy ===== *)
theory Access
  imports Roles Tenancy IdentifierProperties
begin

section \<open>Access control\<close>

text \<open>
  \<open>services/authorization.service.js\<close> and the guards of the routes: \<open>middleware/permission\<close>,
  \<open>authorization\<close>, \<open>rbac\<close>, \<open>docketAccess\<close> and \<open>clientAccess\<close>.  A guard's result is the status
  code of its refusal (\<open>Inl\<close> or \<open>Some\<close>) or what the request goes on with.  The collection of users is a
  list; the object-id test is an argument.  \<open>us_permissions\<close> stands for a member's \<open>permissions\<close> or
  \<open>firmPermissions\<close>.
\<close>

definition ROLE_PERMISSIONS :: "(string \<times> string list) list" where
  "ROLE_PERMISSIONS =
    [(''PRIMARY_ADMIN'', [''CASE_VIEW'', ''CASE_CREATE'', ''CASE_UPDATE'', ''CASE_ACTION'', ''CASE_ASSIGN'', ''CASE_ADMIN_VIEW'',
        ''USER_VIEW'', ''USER_MANAGE'', ''CLIENT_VIEW'', ''CLIENT_MANAGE'', ''CLIENT_APPROVE'', ''CATEGORY_VIEW'', ''CATEGORY_MANAGE'',
        ''WORKTYPE_VIEW'', ''WORKTYPE_MANAGE'', ''REPORT_VIEW'', ''TASK_VIEW'', ''TASK_MANAGE'', ''ADMIN_STATS'', ''STORAGE_MANAGE'',
        ''TEAM_MANAGE'', ''FIRM_SETTINGS'', ''WORK_SETTINGS'', ''WORKBASKET_MANAGE'', ''FIRM_SETTINGS_MANAGE'', ''SLA_RULES_MANAGE'']),
     (''ADMIN'', [''CASE_VIEW'', ''CASE_CREATE'', ''CASE_UPDATE'', ''CASE_ACTION'', ''CASE_ASSIGN'', ''CASE_ADMIN_VIEW'',
        ''USER_VIEW'', ''USER_MANAGE'', ''CLIENT_VIEW'', ''CLIENT_MANAGE'', ''CLIENT_APPROVE'', ''CATEGORY_VIEW'', ''CATEGORY_MANAGE'',
        ''WORKTYPE_VIEW'', ''WORKTYPE_MANAGE'', ''REPORT_VIEW'', ''TASK_VIEW'', ''TASK_MANAGE'', ''ADMIN_STATS'',
        ''TEAM_MANAGE'', ''FIRM_SETTINGS'', ''WORK_SETTINGS'', ''FIRM_SETTINGS_MANAGE'', ''SLA_RULES_MANAGE'']),
     (''MANAGER'', [''CASE_VIEW'', ''CASE_ACTION'', ''USER_VIEW'', ''TEAM_MEMBER_MANAGE'', ''WORKBASKET_MANAGE'', ''CLIENT_VIEW'']),
     (''USER'', [''CASE_VIEW'', ''CASE_CREATE'', ''CASE_UPDATE'', ''CASE_ACTION'', ''USER_VIEW'', ''CLIENT_VIEW'', ''CATEGORY_VIEW'',
        ''WORKTYPE_VIEW'', ''TASK_VIEW''])]"

definition normalizePermissions :: "string list option \<Rightarrow> string list" where
  "normalizePermissions ps =
    (case ps of None \<Rightarrow> [] | Some xs \<Rightarrow> js_unique (map (\<lambda>p. js_upper (js_trim p)) (filter (\<lambda>p. js_trim p \<noteq> []) xs)))"

record role_context =
  rc_role :: "string option"
  rc_canonicalRole :: string
  rc_permissions :: "string list"

datatype role_or_user = Role "string option" | User account

fun role_of :: "role_or_user \<Rightarrow> string option" where
  "role_of (Role r) = r"
| "role_of (User u) = us_role u"

fun primary_of :: "role_or_user \<Rightarrow> bool" where
  "primary_of (Role r) = False"
| "primary_of (User u) = isPrimaryAdminActor (Some u)"

definition buildRoleContext :: "role_or_user \<Rightarrow> role_context option" where
  "buildRoleContext x =
    (let role = role_of x
     in if \<not> truthy role \<or> isSuperAdminRole role then None
        else (let n = (if primary_of x then ''PRIMARY_ADMIN'' else str_or_empty (normalizeRole role))
              in case map_of ROLE_PERMISSIONS n of None \<Rightarrow> None
                 | Some ps \<Rightarrow> Some \<lparr>rc_role = role, rc_canonicalRole = n, rc_permissions = normalizePermissions (Some ps)\<rparr>))"

definition add_permissions :: "string list option \<Rightarrow> role_context \<Rightarrow> role_context" where
  "add_permissions explicit c = c\<lparr>rc_permissions := normalizePermissions (Some (rc_permissions c @ normalizePermissions explicit))\<rparr>"

definition member_query :: "string \<Rightarrow> string option \<Rightarrow> string option \<Rightarrow> account \<Rightarrow> bool" where
  "member_query firmId userId xID u \<longleftrightarrow> us_firmId u = Some firmId \<and> us_isActive u
    \<and> (if truthy userId then us__id u = userId else us_xID u = xID)"

definition resolveFirmRole ::
  "(string \<Rightarrow> bool) \<Rightarrow> tenant_db \<Rightarrow> account list \<Rightarrow> string option \<Rightarrow> string option \<Rightarrow> string option \<Rightarrow> role_context option" where
  "resolveFirmRole isObjectId db users userId firmId xID =
    (if \<not> truthy firmId then None
     else (let normalizedXid = map_option js_trim xID; i = str_or_empty firmId;
               ctx = resolveCanonicalTenantFromFirmId db (Some i);
               queryFirmId = (if isObjectId i
                   then str_or_empty (js_or (Option.bind ctx tx_legacyFirmId) (js_or (Option.bind ctx tx_tenantId) (Some i))) else i)
           in if \<not> truthy userId \<and> \<not> truthy normalizedXid then None
              else (case find (member_query queryFirmId userId normalizedXid) users of None \<Rightarrow> None
                | Some m \<Rightarrow> if isSuperAdminRole (us_role m) then None
                     else map_option (add_permissions (us_permissions m)) (buildRoleContext (User m)))))"

record auth_req =
  aq_user :: "account option"
  aq_userId :: "string option"
  aq_identity_firmId :: "string option"
  aq_jwt_userId :: "string option"
  aq_jwt_xID :: "string option"
  aq_jwt_role :: "string option"
  aq_jwt_firmId :: "string option"
  aq_jwt_permissions :: "string list option"

definition user_field :: "auth_req \<Rightarrow> (account \<Rightarrow> string option) \<Rightarrow> string option" where
  "user_field r f = Option.bind (aq_user r) f"

definition request_userId :: "auth_req \<Rightarrow> string option" where
  "request_userId r = js_or (aq_userId r) (js_or (user_field r us__id) (js_or (user_field r us_id) (js_or (aq_jwt_userId r) None)))"

definition cached_firm :: "auth_req \<Rightarrow> string option" where
  "cached_firm r = js_or (aq_identity_firmId r) (js_or (user_field r us_firmId) (js_or (aq_jwt_firmId r) None))"

definition canonical_id :: "tenant_db \<Rightarrow> string option \<Rightarrow> string option" where
  "canonical_id db i = js_or (Option.bind (resolveCanonicalTenantFromFirmId db i) tx_tenantId) i"

definition same_firm :: "(string \<Rightarrow> bool) \<Rightarrow> tenant_db \<Rightarrow> string option \<Rightarrow> string option \<Rightarrow> bool" where
  "same_firm isObjectId db cached requested \<longleftrightarrow>
    (if isObjectId (str_or_empty cached) \<and> isObjectId (str_or_empty requested)
     then canonical_id db cached = canonical_id db requested else cached = requested)"

text \<open>The role context of a request, from its user or its token, and the permissions granted to it.\<close>

definition request_context :: "auth_req \<Rightarrow> role_context option" where
  "request_context r = buildRoleContext (case aq_user r of Some u \<Rightarrow> User u | None \<Rightarrow> Role (js_or (aq_jwt_role r) None))"

definition request_permissions :: "auth_req \<Rightarrow> string list option" where
  "request_permissions r = (case Option.bind (aq_user r) us_permissions of Some ps \<Rightarrow> Some ps | None \<Rightarrow> aq_jwt_permissions r)"

definition resolveRequestFirmRole ::
  "(string \<Rightarrow> bool) \<Rightarrow> tenant_db \<Rightarrow> account list \<Rightarrow> auth_req \<Rightarrow> string option \<Rightarrow> role_context option" where
  "resolveRequestFirmRole isObjectId db users r firmId =
    (let fromDb = (if \<not> truthy firmId then None
                   else resolveFirmRole isObjectId db users (request_userId r) firmId
                          (case user_field r us_xID of Some x \<Rightarrow> Some x | None \<Rightarrow> aq_jwt_xID r))
     in case request_context r of
          Some c \<Rightarrow> if truthy firmId \<and> truthy (cached_firm r) \<and> same_firm isObjectId db (cached_firm r) firmId
                    then Some (add_permissions (request_permissions r) c) else fromDb
        | None \<Rightarrow> fromDb)"

subsection \<open>Guards of the routes\<close>

definition requireSuperadmin :: "account option \<Rightarrow> nat option" where
  "requireSuperadmin user = (if policy (\<lambda>u. isSuperAdminRole (us_role u)) user then None else Some 403)"

definition blockSuperadmin :: "account option \<Rightarrow> nat option" where
  "blockSuperadmin user = (if policy (\<lambda>u. isSuperAdminRole (us_role u)) user then Some 403 else None)"

definition requireFirmContext :: "account option \<Rightarrow> nat option" where
  "requireFirmContext user =
    (if policy (\<lambda>u. isSuperAdminRole (us_role u)) user then None
     else if policy (\<lambda>u. truthy (us_firmId u)) user then None else Some 500)"

definition requireFirmUser :: "account option \<Rightarrow> nat option" where
  "requireFirmUser user = (if policy (\<lambda>u. \<not> isSuperAdminRole (us_role u)) user then None else Some 403)"

text \<open>\<open>firm\<close> is the identifier of \<open>req.firm\<close>; the arguments of the factory are strings.\<close>

definition required_permissions :: "string list \<Rightarrow> string list" where
  "required_permissions required = map (\<lambda>p. js_upper (js_trim p)) (filter (\<lambda>p. js_trim p \<noteq> []) required)"

definition fresh_role ::
  "(string \<Rightarrow> bool) \<Rightarrow> tenant_db \<Rightarrow> account list \<Rightarrow> auth_req \<Rightarrow> string option \<Rightarrow> role_context option" where
  "fresh_role isObjectId db users r firm =
    (if truthy (request_userId r) then resolveFirmRole isObjectId db users (request_userId r) firm None else None)"

definition authorizeFirmPermission ::
  "(string \<Rightarrow> bool) \<Rightarrow> tenant_db \<Rightarrow> account list \<Rightarrow> string list \<Rightarrow> auth_req \<Rightarrow> string option \<Rightarrow> nat + role_context" where
  "authorizeFirmPermission isObjectId db users required r firm =
    (if policy (\<lambda>u. isSuperAdminRole (us_role u)) (aq_user r) then Inl 403
     else if \<not> truthy firm then Inl 400
     else (case resolveRequestFirmRole isObjectId db users r firm of None \<Rightarrow> Inl 403
       | Some m \<Rightarrow>
          (let membership = (case fresh_role isObjectId db users r firm of Some f \<Rightarrow> f | None \<Rightarrow> m);
               needed = required_permissions required
           in if needed \<noteq> [] \<and> \<not> list_ex (\<lambda>p. p \<in> set (rc_permissions membership)) needed then Inl 403
              else Inr membership)))"

definition requireAdmin ::
  "(string \<Rightarrow> bool) \<Rightarrow> tenant_db \<Rightarrow> account list \<Rightarrow> string option \<Rightarrow> auth_req \<Rightarrow> nat + account" where
  "requireAdmin isObjectId db users tenantOfRequest r =
    (if \<not> policy (\<lambda>u. \<not> isSuperAdminRole (us_role u)) (aq_user r) then Inl 403
     else (let t = js_or tenantOfRequest (js_or (user_field r us_firmId) None)
           in if \<not> truthy t then Inl 403
              else (let tenantId = (if isObjectId (str_or_empty t)
                        then js_or (Option.bind (resolveCanonicalTenantFromFirmId db t) tx_ownershipFirmId) t else t);
                        userId = js_or (user_field r us__id) (js_or (user_field r us_id) (js_or (aq_userId r) None));
                        q = (\<lambda>u. us_firmId u = tenantId \<and> us_isActive u
                               \<and> (if truthy userId \<and> isObjectId (str_or_empty userId) then us__id u = userId
                                  else if truthy (user_field r us_xID) then us_xID u = user_field r us_xID else True))
                    in case find q users of None \<Rightarrow> Inl 403
                       | Some u \<Rightarrow> if isAdminRole (us_role u) then Inr u else Inl 403)))"

definition requireRole :: "string list \<Rightarrow> account option \<Rightarrow> nat option" where
  "requireRole roles user =
    (let current = normalizeRole (Option.bind user us_role)
     in if current = None \<or> current \<notin> set (map (\<lambda>r. normalizeRole (Some r)) roles) then Some 403 else None)"

definition requirePrimaryAdmin :: "account option \<Rightarrow> nat option" where
  "requirePrimaryAdmin user = (if isPrimaryAdminActor user then None else Some 403)"

definition requireManagerOrPrimaryAdmin :: "account option \<Rightarrow> nat option" where
  "requireManagerOrPrimaryAdmin user =
    (if hasFirmRoleAtLeast (normalizeRole (Option.bind user us_role)) (Some ''MANAGER'') then None else Some 403)"

text \<open>The firm or team of the resource and of the user.\<close>

definition requireSameScope :: "string option \<Rightarrow> string option \<Rightarrow> nat option" where
  "requireSameScope resource own = (if truthy resource \<and> truthy own \<and> resource = own then None else Some 403)"

subsection \<open>Dockets and clients\<close>

definition canAccessDocket :: "account option \<Rightarrow> docket option \<Rightarrow> bool" where
  "canAccessDocket user d =
    (case (user, d) of
       (Some u, Some d) \<Rightarrow>
         (let t = str_or_empty (us_teamId u)
          in truthy (d_ownerTeamId d) \<and> str_or_empty (d_ownerTeamId d) = t \<or> truthy (d_routedToTeamId d) \<and> str_or_empty (d_routedToTeamId d) = t)
     | _ \<Rightarrow> False)"

definition requireDocketAccess :: "account option \<Rightarrow> string option \<Rightarrow> docket list \<Rightarrow> nat + docket" where
  "requireDocketAccess user caseId dockets =
    (case find (\<lambda>d. d_caseId d = caseId \<and> d_firmId d = Option.bind user us_firmId) dockets of
       None \<Rightarrow> Inl 404
     | Some d \<Rightarrow> if canAccessDocket user (Some d) then Inr d else Inl 403)"

definition requireCaseAccess :: "(string \<Rightarrow> bool) \<Rightarrow> string option \<Rightarrow> string option \<Rightarrow> docket list \<Rightarrow> nat + docket" where
  "requireCaseAccess isObjectId tenantId rawCaseRef dockets =
    (let caseRef = js_trim (str_or_empty rawCaseRef)
     in if \<not> truthy tenantId \<or> caseRef = [] then Inl 404
        else (case find (\<lambda>d. d_firmId d = tenantId
                     \<and> (d_caseId d = Some caseRef \<or> d_caseNumber d = Some caseRef \<or> isObjectId caseRef \<and> d_id d = caseRef)) dockets of
                None \<Rightarrow> Inl 404 | Some d \<Rightarrow> Inr d))"

definition checkClientAccess :: "account \<Rightarrow> string option \<Rightarrow> string option \<Rightarrow> nat option" where
  "checkClientAccess u bodyClient paramsClient =
    (let clientId = js_or bodyClient paramsClient
     in if \<not> truthy clientId then None
        else if us_restrictedClientIds u = [] then None
        else if str_or_empty clientId \<in> set (us_restrictedClientIds u) then Some 403 else None)"

text \<open>
  \<open>client_of\<close> is the second lookup, by internal identifier: the client of the docket found, if any.
\<close>

definition checkCaseClientAccess ::
  "(string \<Rightarrow> docket option) \<Rightarrow> (string \<Rightarrow> docket option) \<Rightarrow> (string \<Rightarrow> docket option) \<Rightarrow> (string \<Rightarrow> string option option)
     \<Rightarrow> account \<Rightarrow> string option \<Rightarrow> nat option" where
  "checkCaseClientAccess by_internal by_number by_id client_of u caseId =
    (if \<not> truthy caseId then None
     else if us_restrictedClientIds u = [] then None
     else (case resolveCaseIdentifier by_internal by_number by_id (us_firmId u) caseId of
             Inl e \<Rightarrow> None
           | Inr i \<Rightarrow> (case client_of i of None \<Rightarrow> None
               | Some client \<Rightarrow> if client \<in> Some ` set (us_restrictedClientIds u) then Some 403 else None)))"

definition applyClientAccessFilter :: "account \<Rightarrow> (string option \<Rightarrow> bool) option" where
  "applyClientAccessFilter u =
    (if us_restrictedClientIds u = [] then None else Some (\<lambda>client. client \<notin> Some ` set (us_restrictedClientIds u)))"

end
