(* ===== verification/AccessProperties.thy ===== *)
theory AccessProperties
  imports Access
begin

section \<open>Access control: properties\<close>

text \<open>
  What the guards of \<open>Access\<close> and the policies of \<open>Roles\<close> promise: where a permission comes from, how the
  permissions of the roles are ordered, that platform and firm are apart, and what a restricted client is protected from.
\<close>

subsection \<open>Facts\<close>

lemma set_js_unique_simp: "set (js_unique xs) = set xs"
  by (rule set_js_unique)

lemma set_normalizePermissions:
  "set (normalizePermissions (Some ps)) = (\<lambda>p. js_upper (js_trim p)) ` {p \<in> set ps. js_trim p \<noteq> []}"
  by (auto simp: normalizePermissions_def set_js_unique_simp)

lemma normalizePermissions_None [simp]: "normalizePermissions None = []"
  by (simp add: normalizePermissions_def)

lemma js_trim_upper_Nil [simp]: "js_trim (js_upper s) = [] \<longleftrightarrow> js_trim s = []"
  by (simp add: js_trim_upper)

definition normal_permission :: "string \<Rightarrow> bool" where
  "normal_permission p \<longleftrightarrow> js_upper (js_trim p) = p \<and> p \<noteq> []"

lemma normalized_normal: "p \<in> set (normalizePermissions ps) \<Longrightarrow> normal_permission p"
  by (cases ps) (auto simp: set_normalizePermissions normal_permission_def js_trim_upper)

lemma set_add_permissions:
  assumes "\<forall>p\<in>set (rc_permissions c). normal_permission p"
  shows "set (rc_permissions (add_permissions explicit c)) = set (rc_permissions c) \<union> set (normalizePermissions explicit)"
proof -
  have n: "\<forall>p\<in>set (rc_permissions c) \<union> set (normalizePermissions explicit). js_upper (js_trim p) = p \<and> js_trim p \<noteq> []"
    using assms normalized_normal unfolding normal_permission_def by (metis Un_iff js_upper_Nil_iff)
  then have "(\<lambda>p. js_upper (js_trim p)) ` {p \<in> set (rc_permissions c) \<union> set (normalizePermissions explicit). js_trim p \<noteq> []}
      = (\<lambda>p. p) ` (set (rc_permissions c) \<union> set (normalizePermissions explicit))" by (intro image_cong) auto
  then show ?thesis by (simp add: add_permissions_def set_normalizePermissions)
qed

lemma find_SomeD: "find P xs = Some x \<Longrightarrow> x \<in> set xs \<and> P x"
  by (induction xs) (auto split: if_splits)

lemma buildRoleContext_Some:
  assumes "buildRoleContext x = Some c"
  shows "truthy (role_of x) \<and> \<not> isSuperAdminRole (role_of x) \<and> rc_role c = role_of x
    \<and> (\<exists>ps. map_of ROLE_PERMISSIONS (rc_canonicalRole c) = Some ps \<and> rc_permissions c = normalizePermissions (Some ps))"
  using assms by (auto simp: buildRoleContext_def Let_def split: if_splits option.splits)

definition member_firm :: "(string \<Rightarrow> bool) \<Rightarrow> tenant_db \<Rightarrow> string option \<Rightarrow> string option" where
  "member_firm isObjectId db firmId =
    (if isObjectId (str_or_empty firmId)
        then js_or (Option.bind (resolveCanonicalTenantFromFirmId db firmId) tx_legacyFirmId)
              (js_or (Option.bind (resolveCanonicalTenantFromFirmId db firmId) tx_tenantId) firmId) else firmId)"

lemma resolveFirmRole_Some:
  assumes "resolveFirmRole isObjectId db users userId firmId xID = Some c"
  obtains m where "m \<in> set users" "us_isActive m" "\<not> isSuperAdminRole (us_role m)"
    "us_firmId m = member_firm isObjectId db firmId"
    "truthy userId \<longrightarrow> us__id m = userId" "\<exists>c0. buildRoleContext (User m) = Some c0 \<and> c = add_permissions (us_permissions m) c0"
proof -
  from assms have f: "truthy firmId" by (auto simp: resolveFirmRole_def split: if_splits)
  then have e: "Some (str_or_empty firmId) = firmId" by simp
  have js: "truthy (js_or a (js_or b firmId))" for a b using f by (simp add: js_or_def)
  from assms f obtain m where "find (member_query (if isObjectId (str_or_empty firmId)
      then str_or_empty (js_or (Option.bind (resolveCanonicalTenantFromFirmId db firmId) tx_legacyFirmId)
        (js_or (Option.bind (resolveCanonicalTenantFromFirmId db firmId) tx_tenantId) firmId)) else str_or_empty firmId)
      userId (map_option js_trim xID)) users = Some m" "\<not> isSuperAdminRole (us_role m)"
    "\<exists>c0. buildRoleContext (User m) = Some c0 \<and> c = add_permissions (us_permissions m) c0"
    unfolding resolveFirmRole_def by (auto simp: Let_def e split: if_splits option.splits)
  then have "m \<in> set users" "us_isActive m" "\<not> isSuperAdminRole (us_role m)" "truthy userId \<longrightarrow> us__id m = userId"
    "\<exists>c0. buildRoleContext (User m) = Some c0 \<and> c = add_permissions (us_permissions m) c0"
    and "us_firmId m = member_firm isObjectId db firmId"
    using f js by (auto simp: member_query_def member_firm_def split: if_splits dest!: find_SomeD)
  then show thesis using that by blast
qed

lemma table_normal: "list_all (\<lambda>(r, ps). list_all normal_permission ps) ROLE_PERMISSIONS"
  by code_simp

lemma role_permissions:
  assumes "buildRoleContext x = Some c"
  obtains ps where "map_of ROLE_PERMISSIONS (rc_canonicalRole c) = Some ps" "set (rc_permissions c) = set ps" "\<forall>p\<in>set ps. normal_permission p"
proof -
  from buildRoleContext_Some [OF assms] obtain ps where ps: "map_of ROLE_PERMISSIONS (rc_canonicalRole c) = Some ps"
    and c: "rc_permissions c = normalizePermissions (Some ps)" by blast
  from map_of_SomeD [OF ps] table_normal have n: "\<forall>p\<in>set ps. normal_permission p" by (auto simp: list_all_iff)
  then have "\<forall>p\<in>set ps. js_upper (js_trim p) = p \<and> js_trim p \<noteq> []" unfolding normal_permission_def by (metis js_upper_Nil_iff)
  then have "(\<lambda>p. js_upper (js_trim p)) ` {p \<in> set ps. js_trim p \<noteq> []} = (\<lambda>p. p) ` set ps" by (intro image_cong) auto
  then have "set (rc_permissions c) = set ps" by (simp add: c set_normalizePermissions)
  with ps n that show thesis by blast
qed

lemma granted:
  assumes "buildRoleContext x = Some c"
  shows "set (rc_permissions (add_permissions e c)) = set (rc_permissions c) \<union> set (normalizePermissions e)"
    and "rc_canonicalRole (add_permissions e c) = rc_canonicalRole c"
proof -
  from role_permissions [OF assms] obtain ps where "set (rc_permissions c) = set ps" "\<forall>p\<in>set ps. normal_permission p" by blast
  then show "set (rc_permissions (add_permissions e c)) = set (rc_permissions c) \<union> set (normalizePermissions e)"
    using set_add_permissions [of c e] by simp
qed (simp add: add_permissions_def)

lemma resolveRequest_Some:
  assumes "resolveRequestFirmRole isObjectId db users r firm = Some c"
  shows "(\<exists>c0. request_context r = Some c0 \<and> c = add_permissions (request_permissions r) c0 \<and> same_firm isObjectId db (cached_firm r) firm)
    \<or> (\<exists>x. resolveFirmRole isObjectId db users (request_userId r) firm x = Some c)"
  using assms unfolding resolveRequestFirmRole_def Let_def
  by (cases "request_context r") (auto split: if_splits)

lemma authorize_refusal:
  "truthy firm \<Longrightarrow> authorizeFirmPermission isObjectId db users required r firm = Inl 403
     \<or> (\<exists>c. authorizeFirmPermission isObjectId db users required r firm = Inr c)"
  by (simp add: authorizeFirmPermission_def Let_def split: option.split)

lemma authorize_InrE:
  assumes "authorizeFirmPermission isObjectId db users required r firm = Inr c"
  obtains m where "resolveRequestFirmRole isObjectId db users r firm = Some m"
    "\<not> policy (\<lambda>u. isSuperAdminRole (us_role u)) (aq_user r)" "truthy firm"
    "required_permissions required \<noteq> [] \<longrightarrow> (\<exists>p\<in>set (required_permissions required). p \<in> set (rc_permissions c))"
    "c = (case fresh_role isObjectId db users r firm of Some f \<Rightarrow> f | None \<Rightarrow> m)"
proof (cases "resolveRequestFirmRole isObjectId db users r firm")
  case None
  then show thesis using assms by (simp add: authorizeFirmPermission_def split: if_splits)
next
  case (Some m)
  have "c = (case fresh_role isObjectId db users r firm of Some f \<Rightarrow> f | None \<Rightarrow> m)"
    using assms unfolding authorizeFirmPermission_def Let_def Some by (simp split: if_splits)
  then show thesis
    using assms that [OF Some] unfolding authorizeFirmPermission_def Let_def Some by (simp add: list_ex_iff split: if_splits) blast
qed

subsection \<open>Where a permission comes from\<close>


text \<open>A user of firm \<open>F1\<close> who may not see the client \<open>C000007\<close>.\<close>

definition sample_account :: account where
  "sample_account = \<lparr>us__id = Some ''U1'', us_id = None, us_xID = Some ''X000005'', us_role = Some ''Employee'', us_firmId = Some ''F1'',
     us_teamId = Some ''T1'', us_isPrimaryAdmin = False, us_primaryAdminId = None, us_isActive = True, us_permissions = None,
     us_restrictedClientIds = [''C000007'']\<rparr>"

definition sample_auth :: auth_req where
  "sample_auth = \<lparr>aq_user = Some sample_account, aq_userId = None, aq_identity_firmId = None, aq_jwt_userId = None, aq_jwt_xID = None,
     aq_jwt_role = None, aq_jwt_firmId = None, aq_jwt_permissions = None\<rparr>"

definition no_tenants :: tenant_db where
  "no_tenants = \<lparr>td_clients = [], td_firms = []\<rparr>"


subsection \<open>The order of the roles\<close>

definition permissions_of :: "string \<Rightarrow> string list" where
  "permissions_of role = (case map_of ROLE_PERMISSIONS role of Some ps \<Rightarrow> ps | None \<Rightarrow> [])"

lemma manager_row: "map_of ROLE_PERMISSIONS ''MANAGER'' = Some [''CASE_VIEW'', ''CASE_ACTION'', ''USER_VIEW'', ''TEAM_MEMBER_MANAGE'', ''WORKBASKET_MANAGE'', ''CLIENT_VIEW'']"
  by code_simp

lemma manager_context:
  assumes "normalizeRole (us_role u) = Some ''MANAGER''" and "\<not> isPrimaryAdminActor (Some u)" and "us_permissions u = None"
    and "buildRoleContext (User u) = Some c"
  shows "''CASE_UPDATE'' \<notin> set (rc_permissions (add_permissions None c))"
proof -
  have "rc_canonicalRole c = ''MANAGER''" using assms by (auto simp: buildRoleContext_def Let_def split: if_splits option.splits)
  with role_permissions [OF assms(4)] granted(1) [OF assms(4), of None] manager_row show ?thesis by auto
qed

text \<open>
  Fact. A manager ranks above a user and may do less: every permission of a user is one of an admin, and
  every one of an admin is one of the primary admin, but managers are out of this order; so a manager without
  explicit permissions is refused every route that asks for \<open>CASE_UPDATE\<close>, routing a docket included, although
  the rank is higher than a user's and the case policies admit managers.
\<close>

theorem manager_below_user:
  assumes "normalizeRole (us_role u) = Some ''MANAGER''" and "\<not> isPrimaryAdminActor (Some u)" and "us_permissions u = None"
    and "aq_user r = Some u" and "aq_jwt_permissions r = None" and "request_userId r = us__id u" and "truthy (us__id u)"
    and "\<forall>m\<in>set users. us__id m = us__id u \<longrightarrow> m = u"
    and "truthy firm"
  shows "authorizeFirmPermission isObjectId db users [''CASE_UPDATE''] r firm = Inl 403
    \<and> getFirmRoleRank (Some ''USER'') < getFirmRoleRank (us_role u) \<and> case_canView (Some u)
    \<and> set (permissions_of ''USER'') \<subseteq> set (permissions_of ''ADMIN'') \<and> set (permissions_of ''ADMIN'') \<subseteq> set (permissions_of ''PRIMARY_ADMIN'')
    \<and> ''CASE_UPDATE'' \<in> set (permissions_of ''USER'') - set (permissions_of ''MANAGER'')
    \<and> ''TEAM_MEMBER_MANAGE'' \<in> set (permissions_of ''MANAGER'') - set (permissions_of ''PRIMARY_ADMIN'')"
proof -
  have "authorizeFirmPermission isObjectId db users [''CASE_UPDATE''] r firm \<noteq> Inr c" for c
  proof
    assume a: "authorizeFirmPermission isObjectId db users [''CASE_UPDATE''] r firm = Inr c"
    then obtain m where m: "resolveRequestFirmRole isObjectId db users r firm = Some m"
      and p: "required_permissions [''CASE_UPDATE''] \<noteq> [] \<longrightarrow> (\<exists>p\<in>set (required_permissions [''CASE_UPDATE'']). p \<in> set (rc_permissions c))"
      and c: "c = (case fresh_role isObjectId db users r firm of Some f \<Rightarrow> f | None \<Rightarrow> m)" by (rule authorize_InrE)
    have "required_permissions [''CASE_UPDATE''] = [''CASE_UPDATE'']" by code_simp
    with p have up: "''CASE_UPDATE'' \<in> set (rc_permissions c)" by simp
    have db: False if "resolveFirmRole isObjectId db users (request_userId r) firm x = Some c" for x
      using that
    proof (rule resolveFirmRole_Some)
      fix k assume "k \<in> set users" and "truthy (request_userId r) \<longrightarrow> us__id k = request_userId r"
        and "\<exists>c0. buildRoleContext (User k) = Some c0 \<and> c = add_permissions (us_permissions k) c0"
      then show False using manager_context [OF assms(1-3)] up assms(3,6,7,8) by auto
    qed
    have session: False if "request_context r = Some c0" "c = add_permissions (request_permissions r) c0" for c0
    proof -
      have "buildRoleContext (User u) = Some c0" using that(1) assms(4) by (simp add: request_context_def)
      moreover have "request_permissions r = None" using assms(3,4,5) by (simp add: request_permissions_def)
      ultimately show False using manager_context [OF assms(1-3)] up that(2) by auto
    qed
    show False
    proof (cases "fresh_role isObjectId db users r firm")
      case (Some f)
      then show False using c db by (simp add: fresh_role_def split: if_splits)
    next
      case None
      then have "c = m" using c by simp
      with resolveRequest_Some [OF m] db session show False by blast
    qed
  qed
  then have "authorizeFirmPermission isObjectId db users [''CASE_UPDATE''] r firm = Inl 403"
    using authorize_refusal [OF assms(9)] by blast
  moreover have "getFirmRoleRank (Some ''USER'') < getFirmRoleRank (us_role u)"
    using assms(1) by (simp add: getFirmRoleRank_def normalizeFirmRole_def FIRM_ROLE_RANK_def) code_simp
  moreover have "case_canView (Some u)" using assms(1) by (simp add: case_canView_def policy_def isSuperAdminRole_def)
  moreover have "list_all (\<lambda>p. p \<in> set (permissions_of ''ADMIN'')) (permissions_of ''USER'')"
    "list_all (\<lambda>p. p \<in> set (permissions_of ''PRIMARY_ADMIN'')) (permissions_of ''ADMIN'')"
    "''CASE_UPDATE'' \<in> set (permissions_of ''USER'') - set (permissions_of ''MANAGER'')"
    "''TEAM_MEMBER_MANAGE'' \<in> set (permissions_of ''MANAGER'') - set (permissions_of ''PRIMARY_ADMIN'')" by code_simp+
  ultimately show ?thesis by (simp add: list_all_iff subset_iff)
qed

theorem manager_below_user_witness:
  "authorizeFirmPermission (\<lambda>_. False) no_tenants [sample_account\<lparr>us_role := Some ''Manager''\<rparr>] [''CASE_UPDATE'']
     (sample_auth\<lparr>aq_user := Some (sample_account\<lparr>us_role := Some ''Manager''\<rparr>)\<rparr>) (Some ''F1'') = Inl 403"
proof -
  let ?u = "sample_account\<lparr>us_role := Some ''Manager''\<rparr>"
  let ?r = "sample_auth\<lparr>aq_user := Some (sample_account\<lparr>us_role := Some ''Manager''\<rparr>)\<rparr>"
  have 1: "normalizeRole (us_role ?u) = Some ''MANAGER''" "\<not> isPrimaryAdminActor (Some ?u)" "us_permissions ?u = None"
    "aq_user ?r = Some ?u" "aq_jwt_permissions ?r = None" "request_userId ?r = us__id ?u" "truthy (us__id ?u)" by code_simp+
  have 2: "\<forall>m\<in>set [?u]. us__id m = us__id ?u \<longrightarrow> m = ?u" by simp
  show ?thesis using manager_below_user [OF 1 2, of "Some ''F1''"] by simp
qed

subsection \<open>Restricted clients\<close>

text \<open>
  Fact. A restricted client is hidden but not protected: the guard refuses a docket exactly when its
  identifier resolves to one of a restricted client, and lets everything else pass; the number of a docket whose
  work type has a prefix never resolves, so its routes are open to the restricted members of its team,
  while the docket lists leave it out.
\<close>

theorem restricted_client_bypass:
  assumes "us_restrictedClientIds u \<noteq> []"
  shows "(checkCaseClientAccess by_internal by_number by_id client_of u (Some j) = Some 403 \<longleftrightarrow>
      j \<noteq> [] \<and> (\<exists>k cl. resolveCaseIdentifier by_internal by_number by_id (us_firmId u) (Some j) = Inr k
          \<and> client_of k = Some (Some cl) \<and> cl \<in> set (us_restrictedClientIds u)))
    \<and> (date_ok today \<and> 1000 \<le> random \<and> random < 10000 \<and> generateDocketId today random firmId workTypePrefix = Inr i \<longrightarrow>
        checkCaseClientAccess by_internal by_number by_id client_of u (Some i) = None
        \<and> (d_caseId d = Some i \<and> d_firmId d = us_firmId u \<and> truthy (d_ownerTeamId d) \<and> d_ownerTeamId d = us_teamId u \<longrightarrow>
            requireDocketAccess (Some u) (Some i) [d] = Inr d))
    \<and> (\<exists>visible. applyClientAccessFilter u = Some visible \<and> (\<forall>cl\<in>set (us_restrictedClientIds u). \<not> visible (Some cl)))"
proof (intro conjI impI)
  show "checkCaseClientAccess by_internal by_number by_id client_of u (Some j) = Some 403 \<longleftrightarrow>
      j \<noteq> [] \<and> (\<exists>k cl. resolveCaseIdentifier by_internal by_number by_id (us_firmId u) (Some j) = Inr k
          \<and> client_of k = Some (Some cl) \<and> cl \<in> set (us_restrictedClientIds u))"
    using assms by (auto simp: checkCaseClientAccess_def split: sum.splits option.splits)
  show "\<exists>visible. applyClientAccessFilter u = Some visible \<and> (\<forall>cl\<in>set (us_restrictedClientIds u). \<not> visible (Some cl))"
    using assms by (auto simp: applyClientAccessFilter_def)
  assume "date_ok today \<and> 1000 \<le> random \<and> random < 10000 \<and> generateDocketId today random firmId workTypePrefix = Inr i"
  then have "\<not> isValidCaseNumberFormat i" "\<not> isValidObjectId i" using docket_id_facts by blast+
  then have "is_error (resolveCaseIdentifier by_internal by_number by_id (us_firmId u) (Some i))"
    by (auto simp: resolveCaseIdentifier_def Let_def)
  then show "checkCaseClientAccess by_internal by_number by_id client_of u (Some i) = None"
    by (auto simp: checkCaseClientAccess_def is_error_iff split: sum.splits)
  assume "d_caseId d = Some i \<and> d_firmId d = us_firmId u \<and> truthy (d_ownerTeamId d) \<and> d_ownerTeamId d = us_teamId u"
  then show "requireDocketAccess (Some u) (Some i) [d] = Inr d"
    by (auto simp: requireDocketAccess_def canAccessDocket_def)
qed

theorem restricted_client_bypass_witness:
  "checkCaseClientAccess (\<lambda>_. None) (\<lambda>_. Some sample_docket) (\<lambda>_. None) (\<lambda>_. Some (Some ''C000007'')) sample_account
     (Some ''CO202603084821'') = None
   \<and> checkCaseClientAccess (\<lambda>_. None) (\<lambda>_. Some sample_docket) (\<lambda>_. None) (\<lambda>_. Some (Some ''C000007'')) sample_account
     (Some ''CASE-20260108-00012'') = Some 403"
proof -
  have 1: "date_ok (2026, 3, 8)" by (simp add: date_ok_def)
  have s: "date_string (2026, 3, 8) = ''20260308''" "decimal 4821 = ''4821''" by (simp_all add: date_string_def padded_eval)
  have u: "js_upper (js_trim ''co'') = ''CO''" "list_all capital ''CO''" by code_simp+
  have 2: "generateDocketId (2026, 3, 8) 4821 (Some ''F1'') (Some ''co'') = Inr ''CO202603084821''"
    by (simp add: generateDocketId_def s u Let_def capital_def)
  have r: "us_restrictedClientIds sample_account \<noteq> []" "''C000007'' \<in> set (us_restrictedClientIds sample_account)"
    by (simp_all add: sample_account_def)
  have k: "resolveCaseIdentifier (\<lambda>_. None) (\<lambda>_. Some sample_docket) (\<lambda>_. None) (us_firmId sample_account) (Some ''CASE-20260108-00012'')
      = Inr (d_caseInternalId sample_docket)" by code_simp
  show ?thesis
    using restricted_client_bypass [OF r(1), where today = "(2026, 3, 8)" and random = 4821 and firmId = "Some ''F1''" and workTypePrefix = "Some ''co''"] 1 2 k r(2)
    by auto
qed

end
