(* ===== verification/CivilDate.thy ===== *)
theory CivilDate
  imports JsPrelude
begin

section \<open>Dates in UTC\<close>

text \<open>
  \<open>Date.UTC\<close>, \<open>getUTCFullYear\<close>, \<open>getUTCMonth\<close>, \<open>getUTCDate\<close> and \<open>setUTCDate\<close> of the language:
  an instant is a number of milliseconds, a day the number of days since 1970-01-01, and months count from 0.
\<close>

definition DAY_MS :: int where
  "DAY_MS = 86400000"

definition leap :: "int \<Rightarrow> bool" where
  "leap y \<longleftrightarrow> 4 dvd y \<and> (\<not> 100 dvd y \<or> 400 dvd y)"

text \<open>The day on which the year \<open>y\<close> begins.\<close>

definition year_start :: "int \<Rightarrow> int" where
  "year_start y = 365 * (y - 1970) + ((y - 1) div 4 - 492) - ((y - 1) div 100 - 19) + ((y - 1) div 400 - 4)"

definition month_lengths :: "bool \<Rightarrow> int list" where
  "month_lengths l = [31, if l then 29 else 28, 31, 30, 31, 30, 31, 31, 30, 31, 30, 31]"

definition month_length :: "int \<Rightarrow> int \<Rightarrow> int" where
  "month_length y m = month_lengths (leap y) ! nat m"

definition month_start :: "int \<Rightarrow> int \<Rightarrow> int" where
  "month_start y m = sum_list (take (nat m) (month_lengths (leap y)))"

text \<open>\<open>Date.UTC(y, m, d)\<close> in days: months outside 0 to 11 carry into the year.\<close>

definition date_utc :: "int \<Rightarrow> int \<Rightarrow> int \<Rightarrow> int" where
  "date_utc y m d = year_start (y + m div 12) + month_start (y + m div 12) (m mod 12) + (d - 1)"

definition year_of :: "int \<Rightarrow> int" where
  "year_of n =
    (let a = 1970 + (n * 400) div 146097
     in if n < year_start a then a - 1 else if year_start (a + 1) \<le> n then a + 1 else a)"

fun month_in :: "int \<Rightarrow> int list \<Rightarrow> int \<times> int" where
  "month_in k [] = (0, k)"
| "month_in k (l # ls) = (if k < l then (0, k) else (let (m, d) = month_in (k - l) ls in (m + 1, d)))"

text \<open>Year, month and day of the month.\<close>

definition civil :: "int \<Rightarrow> int \<times> int \<times> int" where
  "civil n =
    (let y = year_of n; (m, d) = month_in (n - year_start y) (month_lengths (leap y)) in (y, m, d + 1))"

definition valid_date :: "int \<times> int \<times> int \<Rightarrow> bool" where
  "valid_date t = (case t of (y, m, d) \<Rightarrow> 0 \<le> m \<and> m < 12 \<and> 1 \<le> d \<and> d \<le> month_length y m)"

subsection \<open>Facts\<close>

lemma leap_div: "y div 4 - y div 100 + y div 400 - ((y - 1) div 4 - (y - 1) div 100 + (y - 1) div 400) = (if leap y then 1 else 0)"
  for y :: int
proof -
  have d: "y div k - (y - 1) div k = (if k dvd y then 1 else 0)" if "k > 0" for k :: int
  proof -
    have "y = k * (y div k) + y mod k" "0 \<le> y mod k" "y mod k < k" using that by (simp_all add: pos_mod_bound)
    show ?thesis
    proof (cases "k dvd y")
      case True
      then obtain q where q: "y = k * q" by blast
      have "(k * q - 1) div k = q - 1"
        using that by (intro int_div_pos_eq [where r = "k - 1"]) (simp_all add: algebra_simps)
      then show ?thesis using True q that by simp
    next
      case False
      then have "y mod k \<noteq> 0" by (simp add: dvd_eq_mod_eq_0)
      then have "0 \<le> y mod k - 1" "y mod k - 1 < k" using \<open>0 \<le> y mod k\<close> \<open>y mod k < k\<close> by linarith+
      then have "(y - 1) div k = y div k"
        using that by (intro int_div_pos_eq [where r = "y mod k - 1"]) simp_all
      then show ?thesis using False by simp
    qed
  qed
  have 4: "100 dvd y \<Longrightarrow> 4 dvd y" "400 dvd y \<Longrightarrow> 100 dvd y"
    by (rule dvd_trans [of 4 100], simp, assumption) (rule dvd_trans [of 100 400], simp, assumption)
  have "y div 4 - y div 100 + y div 400 - ((y - 1) div 4 - (y - 1) div 100 + (y - 1) div 400)
      = (y div 4 - (y - 1) div 4) - (y div 100 - (y - 1) div 100) + (y div 400 - (y - 1) div 400)" by simp
  also have "\<dots> = (if 4 dvd y then 1 else 0) - (if 100 dvd y then 1 else 0) + (if 400 dvd y then 1 else 0)"
    by (simp only: d zero_less_numeral)
  also have "\<dots> = (if leap y then 1 else 0)" using 4 by (simp only: leap_def split: if_split) (simp, blast)
  finally show ?thesis .
qed

lemma year_length: "year_start (y + 1) = year_start y + (if leap y then 366 else 365)"
  using leap_div [of y] by (simp add: year_start_def algebra_simps)

lemma year_start_mono: "y < z \<Longrightarrow> year_start y < year_start z"
proof (induction "nat (z - y)" arbitrary: z)
  case 0
  then show ?case by simp
next
  case (Suc n)
  show ?case
  proof (cases "z = y + 1")
    case True
    then show ?thesis using year_length [of y] by simp
  next
    case False
    then have "year_start y < year_start (z - 1)" using Suc by (intro Suc.hyps(1)) auto
    then show ?thesis using year_length [of "z - 1"] by (simp split: if_splits)
  qed
qed

lemma year_start_bounds: "146097 * y - 287811596 \<le> 400 * year_start y" "400 * year_start y \<le> 146097 * y - 287810501"
proof -
  define a b c where "a = (y - 1) div 4" and "b = (y - 1) div 100" and "c = (y - 1) div 400"
  have q: "4 * a \<le> y - 1" "y - 1 < 4 * a + 4" "100 * b \<le> y - 1" "y - 1 < 100 * b + 100" "400 * c \<le> y - 1" "y - 1 < 400 * c + 400"
    unfolding a_def b_def c_def by linarith+
  have "400 * year_start y = 146000 * y - 287620000 + 400 * a - 400 * b + 400 * c - 190800" by (simp add: year_start_def a_def b_def c_def)
  moreover have "100 * y \<le> 400 * a + 400" "400 * b \<le> 4 * y - 4" "y \<le> 400 * c + 400" using q(2,3,6) by linarith+
  moreover have "400 * a \<le> 100 * y - 100" "4 * y \<le> 400 * b + 400" "400 * c \<le> y - 1" using q(1,4,5) by linarith+
  ultimately show "146097 * y - 287811596 \<le> 400 * year_start y" "400 * year_start y \<le> 146097 * y - 287810501" by linarith+
qed

lemma estimate: "146097 * ((n * 400) div 146097) \<le> n * 400" "n * 400 < 146097 * ((n * 400) div 146097) + 146097" for n :: int
  using pos_mod_bound [of 146097 "n * 400"] div_mult_mod_eq [of "n * 400" 146097] by (simp_all add: algebra_simps)

lemma year_bounds:
  assumes "year_start y \<le> n" and "n < year_start (y + 1)"
  shows "y - 1 \<le> 1970 + (n * 400) div 146097" and "1970 + (n * 400) div 146097 \<le> y + 1"
proof -
  define k where "k = (n * 400) div 146097"
  have k: "146097 * k \<le> n * 400" "n * 400 < 146097 * k + 146097" unfolding k_def by (rule estimate)+
  have t: "year_start (y + 1) \<le> year_start y + 366" using year_length [of y] by simp
  have "146097 * y - 287811596 \<le> n * 400" "n * 400 < 146097 * y - 287810501 + 146400"
    using year_start_bounds [of y] assms t by linarith+
  then have "146097 * y - 287811596 < 146097 * k + 146097" "146097 * k < 146097 * y - 287810501 + 146400" using k by linarith+
  then have "y - 1 \<le> 1970 + k" "1970 + k \<le> y + 1" by linarith+
  then show "y - 1 \<le> 1970 + (n * 400) div 146097" "1970 + (n * 400) div 146097 \<le> y + 1" by (simp_all add: k_def)
qed

lemma year_of_spec: "year_start (year_of n) \<le> n \<and> n < year_start (year_of n + 1)"
proof -
  define k where "k = (n * 400) div 146097"
  have k: "146097 * k \<le> n * 400" "n * 400 < 146097 * k + 146097" unfolding k_def by (rule estimate)+
  have "400 * year_start (k + 1969) \<le> 146097 * (k + 1969) - 287810501" "146097 * (k + 1972) - 287811596 \<le> 400 * year_start (k + 1972)"
    by (rule year_start_bounds)+
  then have "400 * year_start (k + 1969) \<le> 146097 * k - 145508" "146097 * k + 291688 \<le> 400 * year_start (k + 1972)"
    by (simp_all add: algebra_simps)
  then have "year_start (k + 1969) \<le> n" "n < year_start (k + 1972)" using k by linarith+
  then show ?thesis by (simp add: year_of_def Let_def k_def [symmetric] algebra_simps)
qed

lemma year_of_eq:
  assumes "year_start y \<le> n" and "n < year_start (y + 1)"
  shows "year_of n = y"
proof -
  let ?a = "1970 + (n * 400) div 146097"
  from year_bounds [OF assms] consider "?a = y - 1" | "?a = y" | "?a = y + 1" by linarith
  then show ?thesis
  proof cases
    case 1
    have "year_start (y - 1) < year_start y" by (rule year_start_mono) simp
    then show ?thesis using assms unfolding year_of_def Let_def 1 by simp
  next
    case 2
    show ?thesis using assms unfolding year_of_def Let_def 2 by simp
  next
    case 3
    show ?thesis using assms unfolding year_of_def Let_def 3 by simp
  qed
qed

lemma month_in_take:
  assumes "m < length ls" and "0 \<le> d" and "d < ls ! m" and "\<forall>l\<in>set ls. 0 < l"
  shows "month_in (sum_list (take m ls) + d) ls = (int m, d)"
  using assms
proof (induction m arbitrary: ls)
  case 0
  then show ?case by (cases ls) auto
next
  case (Suc m)
  then obtain l ls' where ls: "ls = l # ls'" by (cases ls) auto
  have pos: "0 \<le> sum_list (take m ls')" using Suc.prems(4) ls by (intro sum_list_nonneg) (metis in_set_takeD less_imp_le list.set_intros(2))
  have "month_in (sum_list (take m ls') + d) ls' = (int m, d)"
    using Suc.prems ls by (intro Suc.IH) auto
  then show ?case using ls pos Suc.prems(2) by (simp add: algebra_simps)
qed

lemma length_month_lengths [simp]: "length (month_lengths l) = 12"
  by (simp add: month_lengths_def)

lemma month_lengths_pos: "\<forall>k\<in>set (month_lengths l). 28 \<le> k \<and> k \<le> 31"
  by (simp add: month_lengths_def)

lemma month_length_bounds: "0 \<le> m \<Longrightarrow> m < 12 \<Longrightarrow> 28 \<le> month_length y m \<and> month_length y m \<le> 31"
  using month_lengths_pos [of "leap y"] by (auto simp: month_length_def)

lemma month_in_year:
  assumes "valid_date (y, m, d)"
  shows "0 \<le> month_start y m + (d - 1)" and "month_start y m + (d - 1) < (if leap y then 366 else 365)"
proof -
  from assms have r: "0 \<le> m" "m < 12" "1 \<le> d" "d \<le> month_length y m" by (auto simp: valid_date_def)
  show "0 \<le> month_start y m + (d - 1)"
    unfolding month_start_def using r(3) month_lengths_pos [of "leap y"] by (intro add_nonneg_nonneg sum_list_nonneg) (force dest: in_set_takeD)+
  have "m = 0 \<or> m = 1 \<or> m = 2 \<or> m = 3 \<or> m = 4 \<or> m = 5 \<or> m = 6 \<or> m = 7 \<or> m = 8 \<or> m = 9 \<or> m = 10 \<or> m = 11"
    using r(1,2) by arith
  then show "month_start y m + (d - 1) < (if leap y then 366 else 365)"
    using r(4) by (cases "leap y"; elim disjE) (simp_all add: month_start_def month_length_def month_lengths_def)
qed

text \<open>Reading back the date of a day that was composed from a date.\<close>

lemma civil_date_utc:
  assumes "valid_date (y, m, d)"
  shows "civil (date_utc y m d) = (y, m, d)"
proof -
  from assms have r: "0 \<le> m" "m < 12" "1 \<le> d" "d \<le> month_length y m" by (auto simp: valid_date_def)
  then have u: "date_utc y m d = year_start y + (month_start y m + (d - 1))" by (simp add: date_utc_def)
  have y: "year_of (date_utc y m d) = y"
    by (rule year_of_eq) (use month_in_year [OF assms] year_length [of y] in \<open>simp_all add: u split: if_splits\<close>)
  have "month_in (month_start y m + (d - 1)) (month_lengths (leap y)) = (int (nat m), d - 1)"
    unfolding month_start_def
    by (rule month_in_take) (use r month_lengths_pos [of "leap y"] in \<open>auto simp: month_length_def\<close>)
  with y r show ?thesis by (simp add: civil_def u)
qed

lemma month_in_spec:
  assumes "month_in k ls = (m, d)" and "0 \<le> k" and "k < sum_list ls" and "\<forall>l\<in>set ls. 0 < l"
  shows "0 \<le> m \<and> nat m < length ls \<and> 0 \<le> d \<and> d < ls ! nat m \<and> sum_list (take (nat m) ls) + d = k"
  using assms
proof (induction ls arbitrary: k m d)
  case Nil
  then show ?case by simp
next
  case (Cons l ls)
  show ?case
  proof (cases "k < l")
    case True
    then show ?thesis using Cons.prems by auto
  next
    case False
    obtain m' d' where md: "month_in (k - l) ls = (m', d')" by fastforce
    then have "0 \<le> m' \<and> nat m' < length ls \<and> 0 \<le> d' \<and> d' < ls ! nat m' \<and> sum_list (take (nat m') ls) + d' = k - l"
      using Cons.prems False by (intro Cons.IH) auto
    then show ?thesis using Cons.prems(1) False md by (auto simp: nat_add_distrib Let_def)
  qed
qed

lemma sum_month_lengths: "sum_list (month_lengths l) = (if l then 366 else 365)"
  by (simp add: month_lengths_def)

text \<open>Every day has a date, and is composed from it.\<close>

lemma civil_spec:
  assumes "civil n = (y, m, d)"
  shows "valid_date (y, m, d)" and "date_utc y m d = n"
proof -
  let ?ls = "month_lengths (leap (year_of n))"
  obtain m' d' where md: "month_in (n - year_start (year_of n)) ?ls = (m', d')" by fastforce
  have s: "0 \<le> m' \<and> nat m' < length ?ls \<and> 0 \<le> d' \<and> d' < ?ls ! nat m' \<and> sum_list (take (nat m') ?ls) + d' = n - year_start (year_of n)"
    by (rule month_in_spec [OF md])
      (use year_of_spec [of n] year_length [of "year_of n"] in \<open>simp_all add: sum_month_lengths month_lengths_def split: if_splits\<close>)
  from assms md have e: "y = year_of n" "m = m'" "d = d' + 1" by (auto simp: civil_def Let_def)
  show "valid_date (y, m, d)" using s by (auto simp: e valid_date_def month_length_def)
  show "date_utc y m d = n" using s by (auto simp: e date_utc_def month_start_def)
qed

subsection \<open>Counting months\<close>

text \<open>Months numbered through the years: month \<open>12 * y + m\<close>.\<close>

definition month_begin :: "int \<Rightarrow> int" where
  "month_begin k = date_utc (k div 12) (k mod 12) 1"

definition month_size :: "int \<Rightarrow> int" where
  "month_size k = month_length (k div 12) (k mod 12)"

lemma date_utc_month: "date_utc y m d = month_begin (12 * y + m) + (d - 1)"
proof -
  have "(12 * y + m) div 12 = y + m div 12" "(12 * y + m) mod 12 = m mod 12" by simp_all
  then show ?thesis by (simp add: month_begin_def date_utc_def)
qed

lemma month_size_bounds: "28 \<le> month_size k" "month_size k \<le> 31"
  using month_length_bounds [of "k mod 12" "k div 12"] by (auto simp: month_size_def)

lemma month_start_Suc: "m < 12 \<Longrightarrow> month_start y (int (Suc m)) = month_start y (int m) + month_length y (int m)"
  by (simp add: month_start_def month_length_def take_Suc_conv_app_nth del: of_nat_Suc)

lemma month_begin_Suc: "month_begin (k + 1) = month_begin k + month_size k"
proof (cases "k mod 12 = 11")
  case True
  then have "(k + 1) div 12 = k div 12 + 1" "(k + 1) mod 12 = 0" by presburger+
  then show ?thesis using True year_length [of "k div 12"]
    by (simp add: month_begin_def month_size_def date_utc_def month_start_def month_length_def month_lengths_def)
next
  case False
  define m where "m = nat (k mod 12)"
  have m: "m < 12" "k mod 12 = int m" unfolding m_def by (simp_all add: nat_less_iff)
  have s: "(k + 1) div 12 = k div 12" "(k + 1) mod 12 = int (Suc m)" using False m(2) by presburger+
  have z: "int n div 12 = 0" "int n mod 12 = int n" if "n < 12" for n using that by simp_all
  have "Suc m < 12" using False m by presburger
  then show ?thesis
    unfolding month_begin_def month_size_def s m(2) date_utc_def
    using month_start_Suc [OF m(1), of "k div 12"] z [of m] z [of "Suc m"] m(1) by simp
qed

lemma month_begin_mono: "j < k \<Longrightarrow> month_begin j + month_size j \<le> month_begin k"
proof (induction "nat (k - j)" arbitrary: k)
  case 0
  then show ?case by simp
next
  case (Suc n)
  show ?case
  proof (cases "k = j + 1")
    case True
    then show ?thesis by (simp add: month_begin_Suc)
  next
    case False
    then have "month_begin j + month_size j \<le> month_begin (k - 1)" using Suc by (intro Suc.hyps(1)) auto
    then show ?thesis using month_begin_Suc [of "k - 1"] month_size_bounds [of "k - 1"] by simp
  qed
qed

lemma civil_month:
  assumes "1 \<le> d" and "d \<le> month_size k"
  shows "civil (month_begin k + (d - 1)) = (k div 12, k mod 12, d)"
proof -
  have "valid_date (k div 12, k mod 12, d)" using assms by (auto simp: valid_date_def month_size_def)
  from civil_date_utc [OF this] show ?thesis by (simp add: date_utc_month)
qed

lemma civil_in_month:
  assumes "civil n = (y, m, d)"
  shows "month_begin (12 * y + m) \<le> n" and "n < month_begin (12 * y + m + 1)" and "1 \<le> d" and "d \<le> month_size (12 * y + m)"
    and "n = month_begin (12 * y + m) + (d - 1)"
proof -
  note s = civil_spec [OF assms]
  have "(12 * y + m) div 12 = y" "(12 * y + m) mod 12 = m" using s(1) by (auto simp: valid_date_def)
  then show 1: "1 \<le> d" "d \<le> month_size (12 * y + m)" using s(1) by (auto simp: valid_date_def month_size_def)
  show 2: "n = month_begin (12 * y + m) + (d - 1)" using s(2) by (simp add: date_utc_month)
  show "month_begin (12 * y + m) \<le> n" "n < month_begin (12 * y + m + 1)" using 1 2 by (auto simp: month_begin_Suc)
qed

end
