(* ===== verification/Deadlines.thy ===== *)
theory Deadlines
  imports CivilDate SlaRules SlaDueDate
begin

section \<open>Deadlines of a docket\<close>

text \<open>
  \<open>domain/deadlines/calculateDeadlineFromRule.js\<close>: the due date of a new docket from the rule of its
  category.  A date argument is absent, invalid, or an instant; a number that is not finite is \<open>None\<close>.
\<close>

datatype date_input = Absent | Invalid_date | At int

record deadline_rule =
  dr_mode :: "string option"
  dr_tatDays :: "rat option"
  dr_fixedDayOfMonth :: "rat option"
  dr_eventOffsetDays :: "rat option"

record deadline =
  dl_dueDate :: "int option"
  dl_source :: string
  dl_warnings :: "string list"

definition deadline_error :: "string \<Rightarrow> js_error" where
  "deadline_error message = Thrown message None (Some ''DEADLINE_VALIDATION_ERROR'')"

definition toDate :: "date_input \<Rightarrow> string \<Rightarrow> int option res" where
  "toDate value fieldName =
    (case value of Absent \<Rightarrow> Inr None | Invalid_date \<Rightarrow> Inl (deadline_error (fieldName @ '' must be a valid date''))
     | At t \<Rightarrow> Inr (Some t))"

text \<open>\<open>setUTCDate\<close> truncates the day it is given.\<close>

definition js_trunc :: "rat \<Rightarrow> int" where
  "js_trunc q = (if 0 \<le> q then \<lfloor>q\<rfloor> else \<lceil>q\<rceil>)"

definition addCalendarDays :: "int \<Rightarrow> rat option \<Rightarrow> int" where
  "addCalendarDays source days =
    (case civil (source div DAY_MS) of
       (y, m, d) \<Rightarrow> date_utc y m (js_trunc (of_int d + (case days of Some q \<Rightarrow> q | None \<Rightarrow> 0))) * DAY_MS + source mod DAY_MS)"

definition clamp_warning :: "int \<Rightarrow> int \<Rightarrow> string list" where
  "clamp_warning day clamped =
    (if clamped \<noteq> day
     then [''Fixed day '' @ decimal (nat day) @ '' exceeds target month length; clamped to '' @ decimal (nat clamped) @ ''.''] else [])"

text \<open>\<open>Date.UTC(y, m + 2, 0)\<close> is the last day of the next month.\<close>

definition fixed_day_next_month :: "int \<Rightarrow> int \<Rightarrow> deadline" where
  "fixed_day_next_month createdAt day =
    (case civil (createdAt div DAY_MS) of
       (y, m, d) \<Rightarrow>
         (case (civil (date_utc y (m + 1) 1), civil (date_utc y (m + 2) 0)) of
            ((y1, m1, d1), (y2, m2, lastDay)) \<Rightarrow>
              (let clamped = min day lastDay
               in \<lparr>dl_dueDate = Some (date_utc y1 m1 clamped * DAY_MS), dl_source = ''FIXED_DAY_NEXT_MONTH'',
                   dl_warnings = clamp_warning day clamped\<rparr>)))"

definition whole_day :: "rat option \<Rightarrow> int option" where
  "whole_day v =
    (case v of None \<Rightarrow> None
     | Some q \<Rightarrow> if q = of_int \<lfloor>q\<rfloor> \<and> 1 \<le> \<lfloor>q\<rfloor> \<and> \<lfloor>q\<rfloor> \<le> 31 then Some \<lfloor>q\<rfloor> else None)"

definition calculateDeadlineFromRule ::
  "zone \<Rightarrow> (string \<Rightarrow> string) \<Rightarrow> raw_config \<Rightarrow> int \<Rightarrow> deadline_rule \<Rightarrow> date_input \<Rightarrow> date_input \<Rightarrow> date_input \<Rightarrow> deadline res" where
  "calculateDeadlineFromRule z toKey config now rule createdAt manualDueDate eventDate =
    (let mode = str_or_empty (js_or (dr_mode rule) (Some ''NONE''))
     in if mode = ''NONE'' then Inr \<lparr>dl_dueDate = None, dl_source = ''NONE'', dl_warnings = []\<rparr>
        else res_bind (toDate createdAt ''createdAt'') (\<lambda>created.
          let createdAtDate = (case created of Some t \<Rightarrow> t | None \<Rightarrow> now)
          in if mode = ''TAT_DAYS'' then
               (case dr_tatDays rule of
                  Some q \<Rightarrow>
                    if q < 0 then Inl (deadline_error ''tatDays is required and must be >= 0 for TAT_DAYS'')
                    else Inr \<lparr>dl_dueDate = Some (case calculateFallbackDueDateFromDays z toKey config createdAtDate (Some q) of
                                  Some t \<Rightarrow> t | None \<Rightarrow> addCalendarDays createdAtDate (Some q)),
                              dl_source = ''TAT_DAYS'', dl_warnings = []\<rparr>
                | None \<Rightarrow> Inl (deadline_error ''tatDays is required and must be >= 0 for TAT_DAYS''))
             else if mode = ''FIXED_DAY_NEXT_MONTH'' then
               (case whole_day (dr_fixedDayOfMonth rule) of
                  None \<Rightarrow> Inl (deadline_error ''fixedDayOfMonth must be between 1 and 31 for FIXED_DAY_NEXT_MONTH'')
                | Some day \<Rightarrow> Inr (fixed_day_next_month createdAtDate day))
             else if mode = ''MANUAL_DATE_REQUIRED'' then
               res_bind (toDate manualDueDate ''manualDueDate'') (\<lambda>manual.
                 case manual of None \<Rightarrow> Inl (deadline_error ''Due date is required for MANUAL_DATE_REQUIRED'')
                 | Some t \<Rightarrow> Inr \<lparr>dl_dueDate = Some t, dl_source = ''MANUAL_DATE_REQUIRED'', dl_warnings = []\<rparr>)
             else if mode = ''EVENT_DATE_OFFSET'' then
               (case dr_eventOffsetDays rule of
                  None \<Rightarrow> Inl (deadline_error ''eventOffsetDays is required for EVENT_DATE_OFFSET'')
                | Some q \<Rightarrow>
                   res_bind (toDate eventDate ''eventDate'') (\<lambda>base.
                     case base of None \<Rightarrow> Inl (deadline_error ''Event date is required for EVENT_DATE_OFFSET'')
                     | Some t \<Rightarrow> Inr \<lparr>dl_dueDate = Some (addCalendarDays t (Some q)), dl_source = ''EVENT_DATE_OFFSET'', dl_warnings = []\<rparr>))
             else Inl (deadline_error (''Unsupported deadline mode: '' @ mode))))"

subsection \<open>Facts\<close>

lemma addCalendarDays_whole: "addCalendarDays t (Some (of_int k)) = t + k * DAY_MS"
proof -
  obtain y m d where c: "civil (t div DAY_MS) = (y, m, d)" by (cases "civil (t div DAY_MS)")
  have j: "js_trunc (of_int d + of_int k) = d + k" by (simp add: js_trunc_def flip: of_int_add)
  have "date_utc y m (d + k) = t div DAY_MS + k" using civil_in_month(5) [OF c] by (simp add: date_utc_month)
  then have "addCalendarDays t (Some (of_int k)) = (t div DAY_MS + k) * DAY_MS + t mod DAY_MS"
    by (simp add: addCalendarDays_def c j)
  then show ?thesis by (simp add: algebra_simps)
qed

text \<open>The number of the month of an instant.\<close>

definition month_of :: "int \<Rightarrow> int" where
  "month_of t = (case civil (t div DAY_MS) of (y, m, d) \<Rightarrow> 12 * y + m)"

lemma month_of_bounds: "month_begin (month_of t) * DAY_MS \<le> t \<and> t < month_begin (month_of t + 1) * DAY_MS"
proof -
  obtain y m d where c: "civil (t div DAY_MS) = (y, m, d)" by (cases "civil (t div DAY_MS)")
  have t: "t = 86400000 * (t div DAY_MS) + t mod 86400000" "0 \<le> t mod 86400000" "t mod 86400000 < 86400000"
    by (simp_all add: DAY_MS_def)
  have "month_of t = 12 * y + m" by (simp add: month_of_def c)
  then have "month_begin (month_of t) \<le> t div DAY_MS" "t div DAY_MS < month_begin (month_of t + 1)"
    using civil_in_month(1,2) [OF c] by simp_all
  then have "86400000 * month_begin (month_of t) \<le> 86400000 * (t div DAY_MS)"
    and "86400000 * (t div DAY_MS) + 86400000 \<le> 86400000 * month_begin (month_of t + 1)" by simp_all
  with t have "86400000 * month_begin (month_of t) \<le> t" "t < 86400000 * month_begin (month_of t + 1)" by linarith+
  then show ?thesis by (simp add: DAY_MS_def mult.commute)
qed

lemma month_of_mono: "t \<le> u \<Longrightarrow> month_of t \<le> month_of u"
proof (rule ccontr)
  assume "t \<le> u" and "\<not> month_of t \<le> month_of u"
  then have "month_begin (month_of u + 1) \<le> month_begin (month_of t)"
    using month_begin_mono [of "month_of u" "month_of t"] by (simp add: month_begin_Suc)
  then have "month_begin (month_of u + 1) * DAY_MS \<le> month_begin (month_of t) * DAY_MS" by (simp add: DAY_MS_def)
  with month_of_bounds [of t] month_of_bounds [of u] \<open>t \<le> u\<close> show False by linarith
qed

lemma fixed_day_eq:
  "fixed_day_next_month t day =
    \<lparr>dl_dueDate = Some ((month_begin (month_of t + 1) + (min day (month_size (month_of t + 1)) - 1)) * DAY_MS),
     dl_source = ''FIXED_DAY_NEXT_MONTH'', dl_warnings = clamp_warning day (min day (month_size (month_of t + 1)))\<rparr>"
proof -
  obtain y m d where c: "civil (t div DAY_MS) = (y, m, d)" by (cases "civil (t div DAY_MS)")
  then have k: "month_of t = 12 * y + m" by (simp add: month_of_def)
  let ?k = "12 * y + m + 1"
  have "date_utc y (m + 1) 1 = month_begin ?k + (1 - 1)" by (simp add: date_utc_month algebra_simps)
  then have 1: "civil (date_utc y (m + 1) 1) = (?k div 12, ?k mod 12, 1)"
    using civil_month [of 1 ?k] month_size_bounds [of ?k] by simp
  have "12 * y + (m + 2) = ?k + 1" "12 * y + (m + 1) = ?k" by simp_all
  then have "date_utc y (m + 2) 0 = month_begin (?k + 1) + (0 - 1)" by (simp only: date_utc_month)
  then have "date_utc y (m + 2) 0 = month_begin ?k + (month_size ?k - 1)" by (simp only: month_begin_Suc [of ?k])
  then have 2: "civil (date_utc y (m + 2) 0) = (?k div 12, ?k mod 12, month_size ?k)"
    using civil_month [of "month_size ?k" ?k] month_size_bounds [of ?k] by simp
  have "date_utc (?k div 12) (?k mod 12) e = month_begin ?k + (e - 1)" for e by (simp add: date_utc_month)
  then show ?thesis by (simp add: fixed_day_next_month_def c 1 2 k Let_def)
qed

text \<open>
  Fact. The fixed day of the next month: a deadline is always set, at midnight UTC, on the asked day of the
  month after the docket's creation or on its last day when it is shorter, with a warning exactly then; it
  is later than the creation and at most 62 days away; and of two dockets the later one is never due earlier.
\<close>

theorem fixed_day_deadline:
  assumes "dr_mode rule = Some ''FIXED_DAY_NEXT_MONTH''" and "whole_day (dr_fixedDayOfMonth rule) = Some day"
  shows "\<exists>n. calculateDeadlineFromRule z toKey config now rule (At t) manual event
        = Inr \<lparr>dl_dueDate = Some (n * DAY_MS), dl_source = ''FIXED_DAY_NEXT_MONTH'',
            dl_warnings = clamp_warning day (min day (month_size (month_of t + 1)))\<rparr>
      \<and> civil n = ((month_of t + 1) div 12, (month_of t + 1) mod 12, min day (month_size (month_of t + 1)))
      \<and> (clamp_warning day (min day (month_size (month_of t + 1))) = [] \<longleftrightarrow> day \<le> month_size (month_of t + 1))
      \<and> t < n * DAY_MS \<and> n * DAY_MS - t \<le> 62 * DAY_MS
      \<and> (t \<le> u \<longrightarrow> (\<exists>n'. dl_dueDate (fixed_day_next_month u day) = Some (n' * DAY_MS) \<and> n \<le> n'))"
proof -
  let ?k = "month_of t + 1" and ?n = "\<lambda>t. month_begin (month_of t + 1) + (min day (month_size (month_of t + 1)) - 1)"
  from assms(2) have day: "1 \<le> day" "day \<le> 31" by (auto simp: whole_day_def split: option.splits if_splits)
  have "calculateDeadlineFromRule z toKey config now rule (At t) manual event = Inr (fixed_day_next_month t day)"
    using assms by (simp add: calculateDeadlineFromRule_def toDate_def)
  moreover have "civil (?n t) = (?k div 12, ?k mod 12, min day (month_size ?k))"
    by (rule civil_month) (use day month_size_bounds [of ?k] in auto)
  moreover have "clamp_warning day (min day (month_size ?k)) = [] \<longleftrightarrow> day \<le> month_size ?k"
    by (auto simp: clamp_warning_def min_def)
  moreover have "t < ?n t * DAY_MS"
  proof -
    have "month_begin ?k \<le> ?n t" using day month_size_bounds [of ?k] by simp
    then have "month_begin ?k * DAY_MS \<le> ?n t * DAY_MS" by (simp add: DAY_MS_def)
    with month_of_bounds [of t] show ?thesis by linarith
  qed
  moreover have "?n t * DAY_MS - t \<le> 62 * DAY_MS"
  proof -
    have "?n t \<le> month_begin (month_of t) + 62"
      using month_size_bounds [of "month_of t"] month_size_bounds [of ?k] by (simp add: month_begin_Suc)
    then have "?n t * DAY_MS \<le> month_begin (month_of t) * DAY_MS + 62 * DAY_MS" by (simp add: DAY_MS_def)
    with month_of_bounds [of t] show ?thesis by linarith
  qed
  moreover have "t \<le> u \<Longrightarrow> ?n t \<le> ?n u"
  proof (cases "month_of t = month_of u")
    case False
    assume "t \<le> u"
    with False have "month_begin ?k + month_size ?k \<le> month_begin (month_of u + 1)"
      using month_of_mono [of t u] by (intro month_begin_mono) simp
    then show ?thesis using day month_size_bounds [of "month_of u + 1"] by simp
  qed simp
  ultimately show ?thesis unfolding fixed_day_eq by (intro exI [of _ "?n t"]) auto
qed

text \<open>1 January 2026 and a rule for the 31st.\<close>

definition sample_deadline_rule :: deadline_rule where
  "sample_deadline_rule = \<lparr>dr_mode = Some ''FIXED_DAY_NEXT_MONTH'', dr_tatDays = None, dr_fixedDayOfMonth = Some 31, dr_eventOffsetDays = None\<rparr>"

theorem fixed_day_deadline_witness:
  "\<exists>n. calculateDeadlineFromRule utc_zone (\<lambda>s. s) default_raw 0 sample_deadline_rule (At 1768435200000) Absent Absent
      = Inr \<lparr>dl_dueDate = Some (n * DAY_MS), dl_source = ''FIXED_DAY_NEXT_MONTH'',
          dl_warnings = [''Fixed day 31 exceeds target month length; clamped to 28.'']\<rparr>
     \<and> civil n = (2026, 1, 28)"
proof -
  have 1: "month_of 1768435200000 = 24312" "month_size 24313 = 28" by code_simp+
  have w: "clamp_warning 31 28 = [''Fixed day 31 exceeds target month length; clamped to 28.'']" by code_simp
  have "whole_day (dr_fixedDayOfMonth sample_deadline_rule) = Some 31" by (simp add: sample_deadline_rule_def whole_day_def)
  moreover have "dr_mode sample_deadline_rule = Some ''FIXED_DAY_NEXT_MONTH''" by (simp add: sample_deadline_rule_def)
  ultimately show ?thesis
    using fixed_day_deadline [of sample_deadline_rule 31 utc_zone "\<lambda>s. s" default_raw 0 1768435200000 Absent Absent 0]
    by (auto simp: 1 w)
qed

text \<open>
  Fact. The offset from an event: a whole number of days, negative ones included, moves the date by exactly
  that many days; without a finite offset or without a valid event date the rule is refused, and with it the
  creation of the docket.
\<close>

theorem event_offset_exact:
  assumes "dr_mode rule = Some ''EVENT_DATE_OFFSET''" and "createdAt \<noteq> Invalid_date"
  shows "calculateDeadlineFromRule z toKey config now rule createdAt manual event
    = (case (dr_eventOffsetDays rule, event) of
         (None, _) \<Rightarrow> Inl (deadline_error ''eventOffsetDays is required for EVENT_DATE_OFFSET'')
       | (_, Absent) \<Rightarrow> Inl (deadline_error ''Event date is required for EVENT_DATE_OFFSET'')
       | (_, Invalid_date) \<Rightarrow> Inl (deadline_error ''eventDate must be a valid date'')
       | (Some q, At t) \<Rightarrow> Inr \<lparr>dl_dueDate = Some (addCalendarDays t (Some q)), dl_source = ''EVENT_DATE_OFFSET'', dl_warnings = []\<rparr>)
    \<and> addCalendarDays t (Some (of_int k)) = t + k * DAY_MS"
proof -
  have "addCalendarDays t (Some (of_int k)) = t + k * DAY_MS"
    by (rule addCalendarDays_whole)
  with assms show ?thesis
    by (cases createdAt; cases "dr_eventOffsetDays rule"; cases event) (simp_all add: calculateDeadlineFromRule_def toDate_def)
qed

theorem event_offset_exact_witness:
  "calculateDeadlineFromRule utc_zone (\<lambda>s. s) default_raw 0
     \<lparr>dr_mode = Some ''EVENT_DATE_OFFSET'', dr_tatDays = None, dr_fixedDayOfMonth = None, dr_eventOffsetDays = Some (of_int (- 30))\<rparr>
     Absent Absent (At 1768435200000)
   = Inr \<lparr>dl_dueDate = Some 1765843200000, dl_source = ''EVENT_DATE_OFFSET'', dl_warnings = []\<rparr>"
  using event_offset_exact [where createdAt = Absent and event = "At 1768435200000" and t = 1768435200000 and k = "- 30"
      and rule = "\<lparr>dr_mode = Some ''EVENT_DATE_OFFSET'', dr_tatDays = None, dr_fixedDayOfMonth = None, dr_eventOffsetDays = Some (of_int (- 30))\<rparr>"
      and z = utc_zone and toKey = "\<lambda>s. s" and config = default_raw and now = 0 and manual = Absent]
  by (simp add: DAY_MS_def)

end
