(* ===== verification/UserModel.thy ===== *)
theory UserModel
  imports Roles
begin

section \<open>User accounts\<close>

text \<open>
  \<open>models/User.model.js\<close>: the fields that sign-in, password and hierarchy code uses, and the hooks that
  run when a document is validated and saved.  The six fields of a one-time code (the login code and the
  code of a forgotten password) are a \<open>code_state\<close>, a token's hash and its expiry are a
  \<open>token_state\<close>.
\<close>

record code_state =
  cs_hash :: "string option"
  cs_expiresAt :: "int option"
  cs_attempts :: nat
  cs_lastSentAt :: "int option"
  cs_resendCount :: nat
  cs_lockedUntil :: "int option"

record token_state =
  ts_hash :: "string option"
  ts_expiresAt :: "int option"

record user_doc =
  u_id :: string
  u_xID :: "string option"
  u_xid :: "string option"
  u_firmId :: "string option"
  u_defaultClientId :: "string option"
  u_email :: "string option"
  u_primary_email :: "string option"
  u_emailVerified :: bool
  u_is_verified :: bool
  u_role :: "string option"
  u_status :: "string option"
  u_isActive :: bool
  u_isPrimaryAdmin :: bool
  u_isSystem :: bool
  u_isOnboarded :: bool
  u_teamId :: "string option"
  u_teamIds :: "string list"
  u_qcExplicitTeamIds :: "string list"
  u_primaryAdminId :: "string option"
  u_adminId :: "string option"
  u_managerId :: "string option"
  u_reportsToUserId :: "string option"
  u_lockedByAdmin :: bool
  u_passwordHash :: "string option"
  u_passwordHistory :: "string list"
  u_passwordSet :: bool
  u_passwordSetAt :: "int option"
  u_passwordExpiresAt :: "int option"
  u_passwordLastChangedAt :: "int option"
  u_mustChangePassword :: bool
  u_mustSetPassword :: bool
  u_forcePasswordReset :: bool
  u_failedLoginAttempts :: nat
  u_lockUntil :: "int option"
  u_loginOtp :: code_state
  u_forgotOtp :: code_state
  u_passwordReset :: token_state
  u_forgotReset :: token_state
  u_passwordSetup :: token_state
  u_setup :: token_state
  u_setupTokenUsedAt :: "int option"

definition no_code :: code_state where
  "no_code = \<lparr>cs_hash = None, cs_expiresAt = None, cs_attempts = 0, cs_lastSentAt = None, cs_resendCount = 0, cs_lockedUntil = None\<rparr>"

definition no_token :: token_state where
  "no_token = \<lparr>ts_hash = None, ts_expiresAt = None\<rparr>"

text \<open>The virtual \<open>isLocked\<close>.\<close>

definition isLocked :: "int \<Rightarrow> user_doc \<Rightarrow> bool" where
  "isLocked now u \<longleftrightarrow> (case u_lockUntil u of None \<Rightarrow> False | Some t \<Rightarrow> now < t)"

definition user_ValidationError :: "string \<Rightarrow> js_error" where
  "user_ValidationError message = Thrown message None None"

text \<open>The hook before validation: \<open>/^X\d{6}$/\<close>.\<close>

definition canonical_xid :: "string \<Rightarrow> bool" where
  "canonical_xid s \<longleftrightarrow> length s = 7 \<and> hd s = CHR ''X'' \<and> list_all (\<lambda>c. c \<in> set ''0123456789'') (tl s)"

definition sync_xid :: "user_doc \<Rightarrow> user_doc" where
  "sync_xid u = (if truthy (u_xID u) \<and> canonical_xid (str_or_empty (u_xID u)) \<and> u_xid u \<noteq> u_xID u then u\<lparr>u_xid := u_xID u\<rparr> else u)"

subsection \<open>The hook before a save\<close>

definition alias_xid :: "user_doc \<Rightarrow> user_doc" where
  "alias_xid u = (if truthy (u_xID u) \<and> u_xid u \<noteq> u_xID u then u\<lparr>u_xid := u_xID u\<rparr> else u)"

definition tenant_guard :: "bool \<Rightarrow> user_doc \<Rightarrow> unit res" where
  "tenant_guard enforceTeam u =
    (if js_upper (str_or_empty (u_role u)) = ''SUPER_ADMIN'' then Inr ()
     else res_bind (check (truthy (u_firmId u)) (user_ValidationError ''Non-superadmin users must have firmId set'')) (\<lambda>_.
          res_bind (check (truthy (u_defaultClientId u)) (user_ValidationError ''DEFAULT_CLIENT_NOT_SET'')) (\<lambda>_.
          check (\<not> (enforceTeam \<and> u_isOnboarded u \<and> \<not> truthy (u_teamId u))) (user_ValidationError ''TEAM_NOT_SET''))))"

definition sync_email :: "user_doc \<Rightarrow> user_doc" where
  "sync_email u =
    (let u1 = (if truthy (u_email u) \<and> \<not> truthy (u_primary_email u)
               then u\<lparr>u_primary_email := Some (js_lower (str_or_empty (u_email u)))\<rparr> else u);
         u2 = (if truthy (u_primary_email u1) \<and> u_email u1 \<noteq> u_primary_email u1 then u1\<lparr>u_email := u_primary_email u1\<rparr> else u1)
     in if u_emailVerified u2 then u2\<lparr>u_is_verified := True\<rparr> else u2)"

text \<open>\<open>before\<close> is the stored document; \<open>None\<close> is a new one.\<close>

definition sync_status :: "user_doc option \<Rightarrow> user_doc \<Rightarrow> user_doc" where
  "sync_status before u =
    (if (case before of None \<Rightarrow> True | Some b \<Rightarrow> u_status b \<noteq> u_status u)
     then (let u1 = (if u_status u = Some ''suspended'' then u\<lparr>u_status := Some ''disabled''\<rparr> else u)
           in u1\<lparr>u_isActive := (u_status u1 = Some ''active'')\<rparr>)
     else u)"

definition sync_password :: "user_doc option \<Rightarrow> user_doc \<Rightarrow> user_doc" where
  "sync_password before u =
    (if u_mustSetPassword u
     then (let u1 = u\<lparr>u_passwordSet := False\<rparr>
           in if (case before of None \<Rightarrow> True | Some b \<Rightarrow> \<not> u_mustSetPassword b) then u1\<lparr>u_passwordSetAt := None\<rparr> else u1)
     else u\<lparr>u_passwordSet := (u_passwordSetAt u \<noteq> None)\<rparr>)"

definition sync_manager :: "user_doc \<Rightarrow> user_doc" where
  "sync_manager u =
    (let u1 = (if truthy (u_reportsToUserId u) \<and> \<not> truthy (u_managerId u) then u\<lparr>u_managerId := u_reportsToUserId u\<rparr> else u)
     in if truthy (u_managerId u1) \<and> \<not> truthy (u_reportsToUserId u1) then u1\<lparr>u_reportsToUserId := u_managerId u1\<rparr> else u1)"

definition normalizeId :: "string option \<Rightarrow> string option" where
  "normalizeId v = js_or v None"

definition tag_guard :: "user_doc \<Rightarrow> unit res" where
  "tag_guard u =
    (let role = normalizeRole (u_role u)
     in res_bind (check (role = Some ''PRIMARY_ADMIN'' \<or> normalizeId (u_primaryAdminId u) \<noteq> None)
            (user_ValidationError ''Invalid hierarchy: missing primaryAdminId'')) (\<lambda>_.
        res_bind (case getTagValidationError role (u_primaryAdminId u) (u_adminId u) (u_managerId u) of
            Some message \<Rightarrow> Inl (user_ValidationError message) | None \<Rightarrow> Inr ()) (\<lambda>_.
        check (\<not> (normalizeId (Some (u_id u)) \<noteq> None \<and> normalizeId (u_primaryAdminId u) \<noteq> None
                 \<and> normalizeId (Some (u_id u)) = normalizeId (u_primaryAdminId u) \<and> role \<noteq> Some ''PRIMARY_ADMIN''))
          (user_ValidationError ''Only PRIMARY_ADMIN may self-reference primaryAdminId''))))"

text \<open>\<open>ref\<close> looks up a user that is not deleted, by its identifier.\<close>

definition ref_guard :: "(string \<Rightarrow> user_doc option) \<Rightarrow> user_doc \<Rightarrow> string \<Rightarrow> string option \<Rightarrow> string \<Rightarrow> user_doc option res" where
  "ref_guard ref u field value expectedRole =
    (case normalizeId value of None \<Rightarrow> Inr None
     | Some i \<Rightarrow>
        if normalizeId (Some (u_id u)) = Some i then Inl (user_ValidationError (field @ '' cannot reference the same user''))
        else (case ref i of None \<Rightarrow> Inl (user_ValidationError (field @ '' references a missing user''))
          | Some r \<Rightarrow>
             if normalizeId (u_firmId r) \<noteq> normalizeId (u_firmId u)
             then Inl (user_ValidationError (field @ '' must reference a user from the same firm''))
             else if normalizeRole (u_role r) \<noteq> Some expectedRole
             then Inl (user_ValidationError (field @ '' must reference a '' @ expectedRole @ '' user''))
             else Inr (Some r)))"

definition hierarchy_guard :: "(string \<Rightarrow> user_doc option) \<Rightarrow> user_doc \<Rightarrow> unit res" where
  "hierarchy_guard ref u =
    (if normalizeRole (u_role u) = Some ''SUPER_ADMIN'' then Inr ()
     else res_bind (ref_guard ref u ''primaryAdminId'' (u_primaryAdminId u) ''PRIMARY_ADMIN'') (\<lambda>_.
          res_bind (ref_guard ref u ''adminId'' (u_adminId u) ''ADMIN'') (\<lambda>admin.
          res_bind (ref_guard ref u ''managerId'' (u_managerId u) ''MANAGER'') (\<lambda>manager.
          res_bind (check (case admin of None \<Rightarrow> True | Some a \<Rightarrow> normalizeId (u_primaryAdminId a) = normalizeId (u_primaryAdminId u))
              (user_ValidationError ''adminId must belong to the provided primaryAdminId'')) (\<lambda>_.
          case manager of None \<Rightarrow> Inr ()
          | Some m \<Rightarrow>
              res_bind (check (normalizeId (u_primaryAdminId m) = normalizeId (u_primaryAdminId u))
                (user_ValidationError ''managerId must belong to the provided primaryAdminId'')) (\<lambda>_.
              check (\<not> truthy (u_adminId u) \<or> normalizeId (u_adminId m) = normalizeId (u_adminId u))
                (user_ValidationError ''managerId must belong to the provided adminId'')))))))"

text \<open>The whole hook: what is stored, or the error a save throws.\<close>

definition save_user :: "bool \<Rightarrow> (string \<Rightarrow> user_doc option) \<Rightarrow> user_doc option \<Rightarrow> user_doc \<Rightarrow> user_doc res" where
  "save_user enforceTeam ref before u =
    (let u2 = alias_xid (sync_xid u)
     in res_bind (tenant_guard enforceTeam u2) (\<lambda>_.
        let u3 = sync_manager (sync_password before (sync_status before (sync_email u2)))
        in res_bind (tag_guard u3) (\<lambda>_. res_bind (hierarchy_guard ref u3) (\<lambda>_. Inr u3))))"

text \<open>\<open>assertHierarchyUpdatePayload\<close>, for updates that bypass the save hook: only the fields the update sets.\<close>

record hierarchy_update =
  hu_role :: "string option option"
  hu_primaryAdminId :: "string option option"
  hu_adminId :: "string option option"
  hu_managerId :: "string option option"

definition assertHierarchyUpdatePayload :: "hierarchy_update \<Rightarrow> unit res" where
  "assertHierarchyUpdatePayload p =
    (let value = (\<lambda>v. case v of Some x \<Rightarrow> x | None \<Rightarrow> None);
         nextRole = normalizeRole (value (hu_role p))
     in if hu_role p = None \<and> hu_primaryAdminId p = None \<and> hu_adminId p = None \<and> hu_managerId p = None then Inr ()
        else (case getTagValidationError (js_or nextRole (Some ''USER'')) (normalizeId (value (hu_primaryAdminId p)))
                     (normalizeId (value (hu_adminId p))) (normalizeId (value (hu_managerId p))) of
                Some message \<Rightarrow> Inl (user_ValidationError message) | None \<Rightarrow> Inr ()))"

subsection \<open>What a save keeps\<close>

lemmas sync_defs = sync_xid_def sync_email_def sync_status_def sync_password_def sync_manager_def

lemma sync_email_fields [simp]:
  "u_failedLoginAttempts (sync_email u) = u_failedLoginAttempts u" "u_lockUntil (sync_email u) = u_lockUntil u" "u_passwordHash (sync_email u) = u_passwordHash u"
  "u_lockedByAdmin (sync_email u) = u_lockedByAdmin u" "u_xID (sync_email u) = u_xID u"
  "u_id (sync_email u) = u_id u" "u_role (sync_email u) = u_role u" "u_firmId (sync_email u) = u_firmId u"
  "u_loginOtp (sync_email u) = u_loginOtp u" "u_forgotOtp (sync_email u) = u_forgotOtp u" "u_status (sync_email u) = u_status u"
  "u_primaryAdminId (sync_email u) = u_primaryAdminId u" "u_adminId (sync_email u) = u_adminId u" "u_managerId (sync_email u) = u_managerId u"
  by (simp_all add: sync_email_def Let_def)

lemma sync_status_fields [simp]:
  "u_failedLoginAttempts (sync_status b u) = u_failedLoginAttempts u" "u_lockUntil (sync_status b u) = u_lockUntil u" "u_passwordHash (sync_status b u) = u_passwordHash u"
  "u_lockedByAdmin (sync_status b u) = u_lockedByAdmin u" "u_xID (sync_status b u) = u_xID u"
  "u_id (sync_status b u) = u_id u" "u_role (sync_status b u) = u_role u" "u_firmId (sync_status b u) = u_firmId u"
  "u_loginOtp (sync_status b u) = u_loginOtp u" "u_forgotOtp (sync_status b u) = u_forgotOtp u"
  "u_primaryAdminId (sync_status b u) = u_primaryAdminId u" "u_adminId (sync_status b u) = u_adminId u" "u_managerId (sync_status b u) = u_managerId u"
  by (simp_all add: sync_status_def Let_def)

lemma sync_password_fields [simp]:
  "u_failedLoginAttempts (sync_password b u) = u_failedLoginAttempts u" "u_lockUntil (sync_password b u) = u_lockUntil u" "u_passwordHash (sync_password b u) = u_passwordHash u"
  "u_lockedByAdmin (sync_password b u) = u_lockedByAdmin u" "u_xID (sync_password b u) = u_xID u"
  "u_id (sync_password b u) = u_id u" "u_role (sync_password b u) = u_role u" "u_firmId (sync_password b u) = u_firmId u"
  "u_loginOtp (sync_password b u) = u_loginOtp u" "u_forgotOtp (sync_password b u) = u_forgotOtp u" "u_status (sync_password b u) = u_status u"
  "u_isActive (sync_password b u) = u_isActive u"
  "u_primaryAdminId (sync_password b u) = u_primaryAdminId u" "u_adminId (sync_password b u) = u_adminId u" "u_managerId (sync_password b u) = u_managerId u"
  by (simp_all add: sync_password_def Let_def)

lemma sync_manager_fields [simp]:
  "u_failedLoginAttempts (sync_manager u) = u_failedLoginAttempts u" "u_lockUntil (sync_manager u) = u_lockUntil u" "u_passwordHash (sync_manager u) = u_passwordHash u"
  "u_lockedByAdmin (sync_manager u) = u_lockedByAdmin u" "u_xID (sync_manager u) = u_xID u"
  "u_id (sync_manager u) = u_id u" "u_role (sync_manager u) = u_role u" "u_firmId (sync_manager u) = u_firmId u"
  "u_loginOtp (sync_manager u) = u_loginOtp u" "u_forgotOtp (sync_manager u) = u_forgotOtp u" "u_status (sync_manager u) = u_status u"
  "u_isActive (sync_manager u) = u_isActive u"
  "u_primaryAdminId (sync_manager u) = u_primaryAdminId u" "u_adminId (sync_manager u) = u_adminId u"
  by (simp_all add: sync_manager_def Let_def)

lemma sync_xid_fields [simp]:
  "u_failedLoginAttempts (sync_xid u) = u_failedLoginAttempts u" "u_lockUntil (sync_xid u) = u_lockUntil u" "u_passwordHash (sync_xid u) = u_passwordHash u"
  "u_lockedByAdmin (sync_xid u) = u_lockedByAdmin u" "u_xID (sync_xid u) = u_xID u"
  "u_id (sync_xid u) = u_id u" "u_role (sync_xid u) = u_role u" "u_firmId (sync_xid u) = u_firmId u"
  "u_loginOtp (sync_xid u) = u_loginOtp u" "u_forgotOtp (sync_xid u) = u_forgotOtp u" "u_status (sync_xid u) = u_status u"
  "u_primaryAdminId (sync_xid u) = u_primaryAdminId u" "u_adminId (sync_xid u) = u_adminId u" "u_managerId (sync_xid u) = u_managerId u"
  by (simp_all add: sync_xid_def)

lemma alias_xid_fields [simp]:
  "u_failedLoginAttempts (alias_xid u) = u_failedLoginAttempts u" "u_lockUntil (alias_xid u) = u_lockUntil u" "u_passwordHash (alias_xid u) = u_passwordHash u"
  "u_lockedByAdmin (alias_xid u) = u_lockedByAdmin u" "u_xID (alias_xid u) = u_xID u"
  "u_id (alias_xid u) = u_id u" "u_role (alias_xid u) = u_role u" "u_firmId (alias_xid u) = u_firmId u"
  "u_loginOtp (alias_xid u) = u_loginOtp u" "u_forgotOtp (alias_xid u) = u_forgotOtp u" "u_status (alias_xid u) = u_status u"
  "u_primaryAdminId (alias_xid u) = u_primaryAdminId u" "u_adminId (alias_xid u) = u_adminId u" "u_managerId (alias_xid u) = u_managerId u"
  by (simp_all add: alias_xid_def)

lemma save_userD:
  assumes "save_user e ref b u = Inr s"
  shows "u_id s = u_id u" "u_role s = u_role u" "u_firmId s = u_firmId u" "u_loginOtp s = u_loginOtp u" "u_forgotOtp s = u_forgotOtp u"
    "u_failedLoginAttempts s = u_failedLoginAttempts u" "u_lockUntil s = u_lockUntil u" "u_passwordHash s = u_passwordHash u"
    "u_lockedByAdmin s = u_lockedByAdmin u" "u_xID s = u_xID u"
    and "tag_guard s = Inr ()" and "hierarchy_guard ref s = Inr ()"
  using assms by (auto simp: save_user_def Let_def res_bind_Inr_iff)

end
