(* ===== verification/UserHierarchy.thy ===== *)
theory UserHierarchy
  imports UserModel
begin

section \<open>The hierarchy of a firm\<close>

text \<open>
  What the save hook of \<open>models/User.model.js\<close> keeps of the references from a user to the primary
  administrator, administrator and manager above.
\<close>

text \<open>The lookup of a reference in the collection.\<close>

definition find_ref :: "user_doc list \<Rightarrow> string \<Rightarrow> user_doc option" where
  "find_ref us i = find (\<lambda>r. u_id r = i \<and> u_status r \<noteq> Some ''deleted'') us"

definition reports_to :: "user_doc list \<Rightarrow> user_doc \<Rightarrow> user_doc \<Rightarrow> bool" where
  "reports_to us u r \<longleftrightarrow> (\<exists>v\<in>{u_primaryAdminId u, u_adminId u, u_managerId u}. \<exists>i. normalizeId v = Some i \<and> find_ref us i = Some r)"

definition level :: "user_doc \<Rightarrow> nat" where
  "level u = (if normalizeRole (u_role u) = Some ''PRIMARY_ADMIN'' then 3 else if normalizeRole (u_role u) = Some ''ADMIN'' then 2
              else if normalizeRole (u_role u) = Some ''MANAGER'' then 1 else 0)"

text \<open>A stored account of a firm: not deleted, and the result of some save.\<close>

definition stored_member :: "user_doc list \<Rightarrow> user_doc \<Rightarrow> bool" where
  "stored_member us u \<longleftrightarrow> u \<in> set us \<and> u_status u \<noteq> Some ''deleted'' \<and> normalizeRole (u_role u) \<noteq> Some ''SUPER_ADMIN''
    \<and> (\<exists>e b v. save_user e (find_ref us) b v = Inr u)"

lemma find_refD: "find_ref us i = Some r \<Longrightarrow> r \<in> set us \<and> u_id r = i \<and> u_status r \<noteq> Some ''deleted''"
  by (auto simp: find_ref_def find_Some_iff)

lemma normalizeId_iff: "normalizeId v = Some i \<longleftrightarrow> v = Some i \<and> i \<noteq> []"
  by (auto simp: normalizeId_def js_or_def truthy_def split: option.splits)

lemma ref_guardD:
  assumes "ref_guard ref u field v role = Inr x" and "normalizeId v = Some i"
  obtains r where "x = Some r" "ref i = Some r" "normalizeId (u_firmId r) = normalizeId (u_firmId u)"
    "normalizeRole (u_role r) = Some role" "i \<noteq> u_id u"
proof (cases "ref i")
  case None
  with assms show ?thesis by (simp add: ref_guard_def split: if_splits)
next
  case (Some r)
  with assms have "x = Some r" "normalizeId (u_firmId r) = normalizeId (u_firmId u)" "normalizeRole (u_role r) = Some role" "i \<noteq> u_id u"
    by (auto simp: ref_guard_def normalizeId_iff split: if_splits)
  with Some show ?thesis by (intro that) simp_all
qed

lemma hierarchy_guardD:
  assumes "hierarchy_guard ref u = Inr ()" and "normalizeRole (u_role u) \<noteq> Some ''SUPER_ADMIN''"
  shows "normalizeId (u_primaryAdminId u) = Some i \<Longrightarrow> \<exists>r. ref i = Some r \<and> normalizeId (u_firmId r) = normalizeId (u_firmId u) \<and> normalizeRole (u_role r) = Some ''PRIMARY_ADMIN'' \<and> i \<noteq> u_id u"
    and "normalizeId (u_adminId u) = Some i \<Longrightarrow> \<exists>r. ref i = Some r \<and> normalizeId (u_firmId r) = normalizeId (u_firmId u) \<and> normalizeRole (u_role r) = Some ''ADMIN'' \<and> i \<noteq> u_id u"
    and "normalizeId (u_managerId u) = Some i \<Longrightarrow> \<exists>r. ref i = Some r \<and> normalizeId (u_firmId r) = normalizeId (u_firmId u) \<and> normalizeRole (u_role r) = Some ''MANAGER'' \<and> i \<noteq> u_id u"
  using assms unfolding hierarchy_guard_def
  by (auto simp: res_bind_Inr_iff elim!: ref_guardD)

lemma normalizeRole_canonical [simp]:
  "normalizeRole (Some ''PRIMARY_ADMIN'') = Some ''PRIMARY_ADMIN''" "normalizeRole (Some ''ADMIN'') = Some ''ADMIN''"
  "normalizeRole (Some ''MANAGER'') = Some ''MANAGER''"
  by code_simp+

lemma tag_guardD:
  assumes "tag_guard u = Inr ()"
  shows "normalizeRole (u_role u) = Some ''PRIMARY_ADMIN'' \<Longrightarrow> \<not> truthy (u_adminId u) \<and> \<not> truthy (u_managerId u)"
    and "normalizeRole (u_role u) = Some ''ADMIN'' \<Longrightarrow> \<not> truthy (u_adminId u) \<and> \<not> truthy (u_managerId u)"
    and "normalizeRole (u_role u) = Some ''MANAGER'' \<Longrightarrow> \<not> truthy (u_managerId u)"
  using assms by (auto simp: tag_guard_def getTagValidationError_def Let_def res_bind_Inr_iff split: if_splits)

lemma stored_reports:
  assumes "stored_member us u" and "reports_to us u r"
  shows "r \<in> set us" "u_status r \<noteq> Some ''deleted''" "normalizeId (u_firmId r) = normalizeId (u_firmId u)" "u_id r \<noteq> u_id u"
    and "level u < level r \<or> normalizeRole (u_role u) = Some ''PRIMARY_ADMIN'' \<and> normalizeRole (u_role r) = Some ''PRIMARY_ADMIN''"
proof -
  from assms(1) have g: "tag_guard u = Inr ()" "hierarchy_guard (find_ref us) u = Inr ()" and role: "normalizeRole (u_role u) \<noteq> Some ''SUPER_ADMIN''"
    by (auto simp: stored_member_def dest: save_userD(11,12))
  from assms(2) obtain v i where v: "v \<in> {u_primaryAdminId u, u_adminId u, u_managerId u}" and i: "normalizeId v = Some i" "find_ref us i = Some r"
    by (auto simp: reports_to_def)
  note h = hierarchy_guardD [OF g(2) role, of i] and t = tag_guardD [OF g(1)] and f = find_refD [OF i(2)]
  have i': "truthy v" using i(1) by (simp add: normalizeId_iff)
  from v have "normalizeId (u_firmId r) = normalizeId (u_firmId u) \<and> u_id r \<noteq> u_id u
      \<and> (level u < level r \<or> normalizeRole (u_role u) = Some ''PRIMARY_ADMIN'' \<and> normalizeRole (u_role r) = Some ''PRIMARY_ADMIN'')"
  proof (elim insertE emptyE)
    assume "v = u_primaryAdminId u"
    with h(1) i f show ?thesis by (auto simp: level_def)
  next
    assume "v = u_adminId u"
    with h(2) i i' f t(1,2) show ?thesis by (auto simp: level_def)
  next
    assume "v = u_managerId u"
    with h(3) i i' f t show ?thesis by (auto simp: level_def)
  qed
  then show "normalizeId (u_firmId r) = normalizeId (u_firmId u)" "u_id r \<noteq> u_id u"
    and "level u < level r \<or> normalizeRole (u_role u) = Some ''PRIMARY_ADMIN'' \<and> normalizeRole (u_role r) = Some ''PRIMARY_ADMIN''" by simp_all
  show "r \<in> set us" "u_status r \<noteq> Some ''deleted''" using find_refD [OF i(2)] by simp_all
qed


text \<open>A firm with a primary administrator, a manager and a user.\<close>

definition blank_user :: user_doc where
  "blank_user = \<lparr>u_id = ''u1'', u_xID = Some ''X000001'', u_xid = Some ''X000001'', u_firmId = Some ''F1'', u_defaultClientId = Some ''F1'',
     u_email = Some ''a@b.c'', u_primary_email = Some ''a@b.c'', u_emailVerified = True, u_is_verified = True, u_role = Some ''PRIMARY_ADMIN'',
     u_status = Some ''active'', u_isActive = True, u_isPrimaryAdmin = False, u_isSystem = False, u_isOnboarded = True, u_teamId = Some ''T1'', u_teamIds = [''T1''], u_qcExplicitTeamIds = [],
     u_primaryAdminId = None, u_adminId = None, u_managerId = None, u_reportsToUserId = None, u_lockedByAdmin = False,
     u_passwordHash = Some ''h'', u_passwordHistory = [], u_passwordSet = True, u_passwordSetAt = Some 0, u_passwordExpiresAt = None,
     u_passwordLastChangedAt = None, u_mustChangePassword = False, u_mustSetPassword = False, u_forcePasswordReset = False,
     u_failedLoginAttempts = 0, u_lockUntil = None, u_loginOtp = no_code, u_forgotOtp = no_code, u_passwordReset = no_token,
     u_forgotReset = no_token, u_passwordSetup = no_token, u_setup = no_token, u_setupTokenUsedAt = None\<rparr>"

definition sample_manager_user :: user_doc where
  "sample_manager_user = blank_user\<lparr>u_id := ''u2'', u_role := Some ''MANAGER'', u_primaryAdminId := Some ''u1''\<rparr>"

definition sample_staff :: "user_doc list" where
  "sample_staff = [blank_user, sample_manager_user]"

lemma sample_manager_saved: "save_user False (find_ref sample_staff) (Some sample_manager_user) sample_manager_user = Inr sample_manager_user"
  by code_simp


end
