(* ===== verification/CodeGuard.thy ===== *)
theory CodeGuard
  imports UserModel AccountLockout
begin

section \<open>Codes with a limited number of attempts\<close>

text \<open>
  What signing in (\<open>services/authLogin.service.js\<close>, \<open>controllers/auth.controller.js\<close>) and the
  forgotten password (\<open>services/authPassword.service.js\<close>) do with the code of an account: the six fields
  of a \<open>code_state\<close>.  \<open>right\<close> is the answer of bcrypt.  Both keep the contract \<open>limited_code\<close>.
\<close>

record otp_config =
  oc_expiryMinutes :: int
  oc_maxAttempts :: nat
  oc_lockMinutes :: int
  oc_resendCooldownSeconds :: int
  oc_maxResends :: nat

definition getLoginOtpConfig :: "bool \<Rightarrow> otp_config" where
  "getLoginOtpConfig production =
    (if production
     then \<lparr>oc_expiryMinutes = 10, oc_maxAttempts = 5, oc_lockMinutes = 10, oc_resendCooldownSeconds = 30, oc_maxResends = 5\<rparr>
     else \<lparr>oc_expiryMinutes = 60, oc_maxAttempts = 50, oc_lockMinutes = 1, oc_resendCooldownSeconds = 3, oc_maxResends = 100\<rparr>)"

definition minutes :: "int \<Rightarrow> int" where
  "minutes n = n * 60 * 1000"

text \<open>\<open>getLoginOtpLockSeconds\<close>: the remaining whole seconds of a lock, rounded up.\<close>

definition getLoginOtpLockSeconds :: "int \<Rightarrow> code_state \<Rightarrow> int" where
  "getLoginOtpLockSeconds now c = (case cs_lockedUntil c of None \<Rightarrow> 0 | Some t \<Rightarrow> max 0 (ceil_seconds (t - now)))"

definition clearExpiredLoginOtpLock :: "int \<Rightarrow> code_state \<Rightarrow> code_state" where
  "clearExpiredLoginOtpLock now c =
    (if cs_lockedUntil c = None then c
     else if getLoginOtpLockSeconds now c > 0 then c
     else c\<lparr>cs_lockedUntil := None, cs_attempts := 0\<rparr>)"

datatype verdict =
    Code_locked int
  | Code_expired
  | Code_exhausted
  | Code_wrong nat
  | Code_right

definition expired_code :: "int \<Rightarrow> code_state \<Rightarrow> bool" where
  "expired_code now c \<longleftrightarrow> \<not> truthy (cs_hash c) \<or> (case cs_expiresAt c of None \<Rightarrow> True | Some e \<Rightarrow> e < now)"

text \<open>\<open>verifyLoginOtp\<close> from the active lock to the comparison, after an expired lock has been cleared.\<close>

definition check_login_code :: "otp_config \<Rightarrow> int \<Rightarrow> bool \<Rightarrow> code_state \<Rightarrow> code_state \<times> verdict" where
  "check_login_code cfg now right c =
    (if getLoginOtpLockSeconds now c > 0 then (c, Code_locked (getLoginOtpLockSeconds now c))
     else if expired_code now c then (no_code, Code_expired)
     else if cs_attempts c \<ge> oc_maxAttempts cfg
     then (c\<lparr>cs_lockedUntil := Some (now + minutes (oc_lockMinutes cfg))\<rparr>, Code_exhausted)
     else if \<not> right
     then (let c1 = c\<lparr>cs_attempts := cs_attempts c + 1\<rparr>
           in (if cs_attempts c1 \<ge> oc_maxAttempts cfg
               then c1\<lparr>cs_lockedUntil := Some (now + minutes (oc_lockMinutes cfg))\<rparr> else c1, Code_wrong (cs_attempts c1)))
     else (no_code, Code_right))"

text \<open>The code a challenge stores, and the one of a forgotten password.\<close>

definition new_login_code :: "otp_config \<Rightarrow> int \<Rightarrow> bool \<Rightarrow> string \<Rightarrow> code_state \<Rightarrow> code_state" where
  "new_login_code cfg now isResend h c =
    \<lparr>cs_hash = Some h, cs_expiresAt = Some (now + minutes (oc_expiryMinutes cfg)), cs_attempts = 0, cs_lastSentAt = Some now,
     cs_resendCount = (if isResend then cs_resendCount c + 1 else 0), cs_lockedUntil = None\<rparr>"

definition FORGOT_PASSWORD_OTP_EXPIRY_MINUTES :: int where
  "FORGOT_PASSWORD_OTP_EXPIRY_MINUTES = 10"

definition FORGOT_PASSWORD_OTP_LOCK_MINUTES :: int where
  "FORGOT_PASSWORD_OTP_LOCK_MINUTES = 10"

definition FORGOT_PASSWORD_OTP_RESEND_COOLDOWN_SECONDS :: int where
  "FORGOT_PASSWORD_OTP_RESEND_COOLDOWN_SECONDS = 30"

definition new_forgot_code :: "int \<Rightarrow> string \<Rightarrow> code_state \<Rightarrow> code_state" where
  "new_forgot_code now h c =
    \<lparr>cs_hash = Some h, cs_expiresAt = Some (now + minutes FORGOT_PASSWORD_OTP_EXPIRY_MINUTES), cs_attempts = 0, cs_lastSentAt = Some now,
     cs_resendCount = cs_resendCount c + 1, cs_lockedUntil = None\<rparr>"

text \<open>\<open>incrementAttempts\<close>: the new count, whether it is exhausted, and what remains.\<close>

definition incrementAttempts :: "nat \<Rightarrow> nat \<Rightarrow> nat \<times> bool \<times> nat" where
  "incrementAttempts currentAttempts maxAttempts =
    (let attempts = currentAttempts + 1 in (attempts, attempts \<ge> maxAttempts, maxAttempts - attempts))"

definition check_forgot_code :: "int \<Rightarrow> bool \<Rightarrow> code_state \<Rightarrow> code_state \<times> verdict" where
  "check_forgot_code now right c =
    (if expired_code now c then (c, Code_expired)
     else if getLoginOtpLockSeconds now c > 0 then (c, Code_locked (getLoginOtpLockSeconds now c))
     else if cs_attempts c \<ge> 5
     then (c\<lparr>cs_lockedUntil := Some (now + minutes FORGOT_PASSWORD_OTP_LOCK_MINUTES)\<rparr>, Code_exhausted)
     else if \<not> right
     then (case incrementAttempts (cs_attempts c) 5 of (attempts, exhausted, remaining) \<Rightarrow>
            (let c1 = c\<lparr>cs_attempts := attempts\<rparr>
             in (if exhausted then c1\<lparr>cs_lockedUntil := Some (now + minutes FORGOT_PASSWORD_OTP_LOCK_MINUTES)\<rparr> else c1, Code_wrong attempts)))
     else (no_code, Code_right))"

fun compared :: "verdict \<Rightarrow> bool" where
  "compared (Code_wrong n) = True"
| "compared Code_right = True"
| "compared v = False"

subsection \<open>The contract\<close>

text \<open>
  \<open>attempt\<close> is one guess at an instant; \<open>inv\<close> what the stored code keeps.  While the code has not
  expired a guess never raises the number of guesses left, and each comparison lowers it.
\<close>

definition live_code :: "int \<Rightarrow> code_state \<Rightarrow> bool" where
  "live_code now c \<longleftrightarrow> (case cs_expiresAt c of None \<Rightarrow> False | Some e \<Rightarrow> now < e)"

locale limited_code =
  fixes attempt :: "int \<Rightarrow> bool \<Rightarrow> code_state \<Rightarrow> code_state \<times> verdict"
    and limit :: nat
    and inv :: "int \<Rightarrow> code_state \<Rightarrow> bool"
  assumes step: "inv now c \<Longrightarrow> live_code now c \<Longrightarrow> attempt now right c = (c', v) \<Longrightarrow>
      inv now c' \<and> (cs_hash c' = None \<or> cs_hash c' = cs_hash c \<and> cs_expiresAt c' = cs_expiresAt c)
      \<and> (if cs_hash c' = None then 0 else limit - cs_attempts c') + (if compared v then 1 else 0)
         \<le> (if cs_hash c = None then 0 else limit - cs_attempts c)"
    and mono: "inv now c \<Longrightarrow> now \<le> later \<Longrightarrow> inv later c"
    and gone: "inv now c \<Longrightarrow> cs_hash c = None \<Longrightarrow> attempt now right c = (c', v) \<Longrightarrow> inv now c' \<and> cs_hash c' = None \<and> \<not> compared v"
begin

definition left :: "code_state \<Rightarrow> nat" where
  "left c = (if cs_hash c = None then 0 else limit - cs_attempts c)"

lemma keeps:
  assumes "inv now c" "live_code now c \<or> cs_hash c = None" "attempt now right c = (c', v)"
  shows "inv now c'" "cs_hash c' = None \<or> cs_hash c' = cs_hash c \<and> cs_expiresAt c' = cs_expiresAt c"
  using assms step [OF assms(1) _ assms(3)] gone [OF assms(1) _ assms(3)] by blast+

lemma left_step:
  assumes "inv now c" "live_code now c \<or> cs_hash c = None" "attempt now right c = (c', v)"
  shows "left c' + (if compared v then 1 else 0) \<le> left c"
proof (cases "cs_hash c = None")
  case True
  with gone [OF assms(1) this assms(3)] show ?thesis by (simp add: left_def)
next
  case False
  with assms(2) have "live_code now c" by simp
  from step [OF assms(1) this assms(3)] show ?thesis by (simp only: left_def)
qed

end

lemma lock_seconds_pos: "0 < ceil_seconds d \<longleftrightarrow> 0 < d"
proof
  assume "0 < ceil_seconds d"
  then have "(- d) div 1000 < 0" by (simp add: ceil_seconds_def)
  then show "0 < d" by linarith
next
  assume "0 < d"
  then have "(- d) div 1000 < 0" by linarith
  then show "0 < ceil_seconds d" by (simp add: ceil_seconds_def)
qed

lemma getLoginOtpLockSeconds_pos: "0 < getLoginOtpLockSeconds now c \<longleftrightarrow> (\<exists>t. cs_lockedUntil c = Some t \<and> now < t)"
  by (auto simp: getLoginOtpLockSeconds_def less_max_iff_disj lock_seconds_pos split: option.splits)

text \<open>In production the lock lasts as long as a code: what it refuses until its end has then expired.\<close>

definition login_inv :: "int \<Rightarrow> code_state \<Rightarrow> bool" where
  "login_inv now c \<longleftrightarrow> (\<forall>e. cs_expiresAt c = Some e \<longrightarrow> e \<le> now + minutes 10 \<and> (\<forall>l. cs_lockedUntil c = Some l \<longrightarrow> e \<le> l))"

definition login_attempt :: "otp_config \<Rightarrow> int \<Rightarrow> bool \<Rightarrow> code_state \<Rightarrow> code_state \<times> verdict" where
  "login_attempt cfg now right c = check_login_code cfg now right (clearExpiredLoginOtpLock now c)"

lemma clear_live:
  assumes "login_inv now c" "live_code now c"
  shows "clearExpiredLoginOtpLock now c = c"
proof (cases "cs_lockedUntil c")
  case (Some l)
  from assms(2) obtain e where "cs_expiresAt c = Some e" "now < e" by (auto simp: live_code_def split: option.splits)
  with assms(1) Some have "now < l" by (force simp: login_inv_def)
  with Some show ?thesis using getLoginOtpLockSeconds_pos [of now c] by (simp add: clearExpiredLoginOtpLock_def)
qed (simp add: clearExpiredLoginOtpLock_def)

lemma no_code_fields [simp]: "cs_hash no_code = None" "cs_expiresAt no_code = None" "cs_lockedUntil no_code = None" "cs_attempts no_code = 0"
  by (simp_all add: no_code_def)

lemma truthy_SomeD: "truthy v \<Longrightarrow> \<exists>y. v = Some y"
  by (cases v) simp_all

lemma login_inv_no_code [simp]: "login_inv now no_code"
  by (simp add: login_inv_def)

lemma expired_if_no_expiry: "cs_expiresAt c = None \<Longrightarrow> expired_code now c" "cs_hash c = None \<Longrightarrow> expired_code now c"
  by (simp_all add: expired_code_def)

lemma clear_fields [simp]:
  "cs_hash (clearExpiredLoginOtpLock now c) = cs_hash c" "cs_expiresAt (clearExpiredLoginOtpLock now c) = cs_expiresAt c"
  by (simp_all add: clearExpiredLoginOtpLock_def)

lemma login_inv_clear: "login_inv now c \<Longrightarrow> login_inv now (clearExpiredLoginOtpLock now c)"
  by (simp add: login_inv_def clearExpiredLoginOtpLock_def)

interpretation login_code: limited_code "login_attempt (getLoginOtpConfig True)" 5 login_inv
proof unfold_locales
  fix now c right c' v
  assume inv: "login_inv now c" and live: "live_code now c" and step: "login_attempt (getLoginOtpConfig True) now right c = (c', v)"
  show "login_inv now c' \<and> (cs_hash c' = None \<or> cs_hash c' = cs_hash c \<and> cs_expiresAt c' = cs_expiresAt c)
      \<and> (if cs_hash c' = None then 0 else 5 - cs_attempts c') + (if compared v then 1 else 0)
         \<le> (if cs_hash c = None then 0 else 5 - cs_attempts c)"
  proof -
    obtain e where e: "cs_expiresAt c = Some e" "now < e" using live by (auto simp: live_code_def split: option.splits)
    have "login_attempt (getLoginOtpConfig True) now right c = check_login_code (getLoginOtpConfig True) now right c"
      using clear_live [OF inv live] by (simp add: login_attempt_def)
    with step inv e show ?thesis
      by (auto simp: check_login_code_def getLoginOtpConfig_def Let_def login_inv_def expired_code_def dest: truthy_SomeD split: if_splits)
  qed
next
  fix now c later
  assume "login_inv now c" "now \<le> later"
  then show "login_inv later c" by (force simp: login_inv_def)
next
  fix c now right c' v
  assume "login_inv now c" "cs_hash c = None" "login_attempt (getLoginOtpConfig True) now right c = (c', v)"
  then show "login_inv now c' \<and> cs_hash c' = None \<and> \<not> compared v"
    using expired_if_no_expiry(2) [of "clearExpiredLoginOtpLock now c" now]
    by (auto simp: login_attempt_def check_login_code_def login_inv_clear split: if_splits)
qed

interpretation forgot_code: limited_code check_forgot_code 5 "\<lambda>now c. True"
  by unfold_locales
    (auto simp: check_forgot_code_def incrementAttempts_def Let_def expired_if_no_expiry expired_code_def dest: truthy_SomeD split: if_splits)

end
