(* ===== verification/SignIn.thy ===== *)
theory SignIn
  imports CodeGuard UserHierarchy Tenancy
begin

section \<open>Signing in\<close>

text \<open>
  \<open>services/authLogin.service.js\<close> with the steps of \<open>controllers/auth.controller.js\<close> it calls, and
  \<open>generateAndStoreRefreshToken\<close> of \<open>services/authSession.service.js\<close>.  The state \<open>auth_db\<close> holds
  the collections and the cache of code locks.  Third-party code is in \<open>auth_env\<close>: bcrypt
  (\<open>ae_compare\<close>, \<open>ae_bcrypt\<close>), SHA-256 (\<open>ae_sha\<close>), the object-id test and the reply of Redis to a
  conditional set, if Redis is used.  Random values are in \<open>fresh\<close>.  The instants one request reads are
  one instant \<open>now\<close>.  A handler returns the new state, its effects in order and the response.
\<close>

record login_session =
  ls_tokenHash :: string
  ls_userId :: string
  ls_firmId :: string
  ls_xID :: string
  ls_expiresAt :: int
  ls_consumedAt :: "int option"

record refresh_token =
  rk_tokenHash :: string
  rk_userId :: "string option"
  rk_firmId :: "string option"
  rk_scope :: "string option"
  rk_expiresAt :: int
  rk_isRevoked :: bool
  rk_lastUsedAt :: "int option"

record auth_db =
  ad_users :: "user_doc list"
  ad_sessions :: "login_session list"
  ad_tokens :: "refresh_token list"
  ad_tenants :: tenant_db
  ad_otpCache :: "string \<Rightarrow> int option"

record auth_env =
  ae_production :: bool
  ae_enforceTeam :: bool
  ae_compare :: "string \<Rightarrow> string \<Rightarrow> bool"
  ae_bcrypt :: "string \<Rightarrow> string"
  ae_sha :: "string \<Rightarrow> string"
  ae_isObjectId :: "string \<Rightarrow> bool"
  ae_redis :: "(bool \<times> int option) option"
  ae_maxFailed :: nat
  ae_lockMs :: int
  ae_refreshMs :: int
  ae_superadminXID :: "string option"
  ae_superadminHash :: "string option"
  ae_superadminId :: "string option"

record fresh =
  fr_otp :: string
  fr_loginToken :: string
  fr_refreshToken :: string
  fr_resetToken :: string
  fr_clientId :: string

record claims =
  ac_userId :: string
  ac_role :: "string option"
  ac_firmId :: "string option"
  ac_firmSlug :: "string option"
  ac_defaultClientId :: "string option"

datatype auth_effect =
    Audited string "string option"
  | Failed_login_recorded
  | Failed_logins_cleared
  | Login_failure_noted
  | Locked_attempt_noted
  | Code_compared string
  | Mail_sent string "string option" string
  | Cookies_set claims string
  | Cookies_cleared
  | Sockets_disconnected string
  | Refresh_noted
  | Refresh_failure_noted string

datatype reply =
    Refused nat string "int option" "nat option"
  | Otp_required string
  | Code_resent
  | Session_started claims bool
  | Ok string

type_synonym 'a step = "auth_db \<times> auth_effect list \<times> 'a"

subsection \<open>Documents\<close>

definition user_by_id :: "string \<Rightarrow> user_doc list \<Rightarrow> user_doc option" where
  "user_by_id i us = find (\<lambda>u. u_id u = i) us"

definition put_user :: "user_doc \<Rightarrow> auth_db \<Rightarrow> auth_db" where
  "put_user u db = db\<lparr>ad_users := map (\<lambda>x. if u_id x = u_id u then u else x) (ad_users db)\<rparr>"

text \<open>\<open>await user.save()\<close>: the stored state and the document after the hooks.\<close>

definition persist :: "auth_env \<Rightarrow> user_doc \<Rightarrow> auth_db \<Rightarrow> (auth_db \<times> user_doc) res" where
  "persist env u db =
    (case save_user (ae_enforceTeam env) (find_ref (ad_users db)) (user_by_id (u_id u) (ad_users db)) u of
       Inl e \<Rightarrow> Inl e | Inr s \<Rightarrow> Inr (put_user s db, s))"

definition isActiveStatus :: "string option \<Rightarrow> bool" where
  "isActiveStatus status \<longleftrightarrow> js_lower (js_trim (str_or_empty status)) = ''active''"

definition normalizeFirmSlug :: "string option \<Rightarrow> string option" where
  "normalizeFirmSlug s = (if truthy s then Some (js_trim (js_lower (str_or_empty s))) else None)"

subsection \<open>The default client of a user\<close>

definition normalizeFirmMongoId :: "string option \<Rightarrow> string option" where
  "normalizeFirmMongoId v = (let t = js_trim (str_or_empty v) in if t \<noteq> [] \<and> t \<noteq> ''[object Object]'' then Some t else None)"

definition findDefaultClient :: "string \<Rightarrow> tenant_db \<Rightarrow> tenant_client option" where
  "findDefaultClient firmId td = find (\<lambda>c. tc_firmId c = Some firmId \<and> tc_isDefaultClient c) (td_clients td)"

definition getOrCreateDefaultClient :: "(string \<Rightarrow> bool) \<Rightarrow> string \<Rightarrow> string option \<Rightarrow> tenant_db \<Rightarrow> (tenant_db \<times> tenant_client) res" where
  "getOrCreateDefaultClient isObjectId newId firmId td =
    (case normalizeFirmMongoId firmId of
       None \<Rightarrow> Inl (Thrown ''firmId is required to get or create the default client'' None None)
     | Some firm \<Rightarrow>
       (case normalizeFirmMongoId (resolveClientOwnershipFirmId isObjectId td (Some firm)) of
          None \<Rightarrow> Inl (Thrown ''firmId could not be normalized for default client resolution'' None None)
        | Some owner \<Rightarrow>
          (case findDefaultClient owner td of
             Some c \<Rightarrow> Inr (td, c)
           | None \<Rightarrow>
              (let c = \<lparr>tc_id = newId, tc_firmId = Some owner, tc_isDefaultClient = True, tc_firmSlug = None, tc_status = Some ''ACTIVE''\<rparr>
               in Inr (td\<lparr>td_clients := td_clients td @ [c]\<rparr>, c)))))"

definition ensureUserDefaultClientLink :: "auth_env \<Rightarrow> fresh \<Rightarrow> user_doc \<Rightarrow> auth_db \<Rightarrow> (auth_db \<times> user_doc) res" where
  "ensureUserDefaultClientLink env fr u db =
    (if \<not> truthy (u_firmId u) then Inl (Thrown ''MISSING_FIRM_CONTEXT'' None (Some ''MISSING_FIRM_CONTEXT''))
     else (let linked = (if truthy (u_defaultClientId u)
                         then find (\<lambda>c. tc_id c = str_or_empty (u_defaultClientId u)) (td_clients (ad_tenants db)) else None);
               needsRepair = (case linked of None \<Rightarrow> True | Some c \<Rightarrow> \<not> tc_isDefaultClient c \<or> normalizeId (tc_firmId c) \<noteq> u_firmId u)
           in if \<not> needsRepair then Inr (db, u)
              else (case getOrCreateDefaultClient (ae_isObjectId env) (fr_clientId fr) (u_firmId u) (ad_tenants db) of
                      Inl e \<Rightarrow> Inl e
                    | Inr (td, c) \<Rightarrow>
                        if tc_id c = [] then Inl (Thrown ''DEFAULT_CLIENT_REQUIRED'' None (Some ''DEFAULT_CLIENT_REQUIRED''))
                        else persist env (u\<lparr>u_defaultClientId := Some (tc_id c)\<rparr>) (db\<lparr>ad_tenants := td\<rparr>))))"

subsection \<open>Refresh tokens\<close>

definition resolveRefreshScope :: "string option \<Rightarrow> string option \<Rightarrow> string option \<Rightarrow> string option" where
  "resolveRefreshScope scope userId firmId =
    (let s = js_lower (js_trim (str_or_empty scope))
     in if s = ''superadmin'' then Some ''superadmin'' else if s = ''tenant'' then Some ''tenant''
        else if truthy userId \<or> truthy firmId then Some ''tenant'' else None)"

definition assertRefreshTokenContext :: "string \<Rightarrow> string option \<Rightarrow> string option \<Rightarrow> unit res" where
  "assertRefreshTokenContext scope userId firmId =
    (if scope = ''superadmin''
     then check (\<not> truthy userId \<and> \<not> truthy firmId)
       (Thrown ''[AUTH][refresh-token] superadmin scope must not include userId/firmId'' None None)
     else check (truthy userId \<and> truthy firmId)
       (Thrown ''[AUTH][refresh-token] tenant scope requires both userId and firmId'' None None))"

definition generateAndStoreRefreshToken ::
  "auth_env \<Rightarrow> string \<Rightarrow> int \<Rightarrow> string option \<Rightarrow> string option \<Rightarrow> string option \<Rightarrow> auth_db \<Rightarrow> auth_db res" where
  "generateAndStoreRefreshToken env token now userId firmId scope db =
    (case resolveRefreshScope scope userId firmId of
       None \<Rightarrow> Inl (Thrown ''[AUTH][refresh-token] Unable to determine token scope'' None None)
     | Some s \<Rightarrow>
        res_bind (assertRefreshTokenContext s userId firmId) (\<lambda>_.
          Inr (db\<lparr>ad_tokens := ad_tokens db @
            [\<lparr>rk_tokenHash = ae_sha env token, rk_userId = userId, rk_firmId = firmId, rk_scope = Some s,
              rk_expiresAt = now + ae_refreshMs env, rk_isRevoked = False, rk_lastUsedAt = None\<rparr>]\<rparr>)))"

subsection \<open>The lock between two codes\<close>

definition LOGIN_OTP_COOLDOWN_SECONDS :: int where
  "LOGIN_OTP_COOLDOWN_SECONDS = 30"

definition otp_key :: "string \<Rightarrow> user_doc \<Rightarrow> string" where
  "otp_key kind u = kind @ '':'' @ js_trim (str_or_empty (js_or (u_firmId u) (Some ''platform''))) @ '':'' @ js_trim (u_id u)"

definition cleanupExpiredCache :: "int \<Rightarrow> (string \<Rightarrow> int option) \<Rightarrow> string \<Rightarrow> int option" where
  "cleanupExpiredCache now m = (\<lambda>k. case m k of None \<Rightarrow> None | Some e \<Rightarrow> if e \<le> now then None else Some e)"

text \<open>\<open>Inl\<close> is the number of seconds to wait.\<close>

definition acquireLoginOtpCooldownLock :: "auth_env \<Rightarrow> int \<Rightarrow> user_doc \<Rightarrow> auth_db \<Rightarrow> int + auth_db" where
  "acquireLoginOtpCooldownLock env now u db =
    (case ae_redis env of
       Some (acquired, ttl) \<Rightarrow>
         if acquired then Inr db else Inl (case ttl of Some n \<Rightarrow> if n > 0 then n else LOGIN_OTP_COOLDOWN_SECONDS | None \<Rightarrow> LOGIN_OTP_COOLDOWN_SECONDS)
     | None \<Rightarrow>
        (let cache = cleanupExpiredCache now (ad_otpCache db); k = otp_key ''otp_lock'' u
         in case cache k of
              Some e \<Rightarrow> if e > now then Inl (max 1 (ceil_seconds (e - now)))
                 else Inr (db\<lparr>ad_otpCache := cache(k \<mapsto> now + LOGIN_OTP_COOLDOWN_SECONDS * 1000)\<rparr>)
            | None \<Rightarrow> Inr (db\<lparr>ad_otpCache := cache(k \<mapsto> now + LOGIN_OTP_COOLDOWN_SECONDS * 1000)\<rparr>)))"

definition cacheLoginOtpState :: "auth_env \<Rightarrow> int \<Rightarrow> int \<Rightarrow> user_doc \<Rightarrow> auth_db \<Rightarrow> auth_db" where
  "cacheLoginOtpState env now expiresAt u db =
    (if ae_redis env \<noteq> None then db
     else db\<lparr>ad_otpCache := (cleanupExpiredCache now (ad_otpCache db))(otp_key ''otp'' u \<mapsto> expiresAt)\<rparr>)"

definition clearCachedLoginOtpState :: "auth_env \<Rightarrow> user_doc \<Rightarrow> auth_db \<Rightarrow> auth_db" where
  "clearCachedLoginOtpState env u db =
    (if ae_redis env \<noteq> None then db
     else db\<lparr>ad_otpCache := (ad_otpCache db)(otp_key ''otp_lock'' u := None, otp_key ''otp'' u := None)\<rparr>)"

subsection \<open>The challenge\<close>

datatype challenge = Cooldown_active int | Challenge_failed | Challenge_sent "string option"

definition sendLoginOtpChallenge ::
  "auth_env \<Rightarrow> fresh \<Rightarrow> int \<Rightarrow> bool \<Rightarrow> bool \<Rightarrow> bool \<Rightarrow> user_doc \<Rightarrow> auth_db \<Rightarrow> challenge step" where
  "sendLoginOtpChallenge env fr now mail_ok isResend returnLoginToken u db =
    (let cfg = getLoginOtpConfig (ae_production env)
     in case acquireLoginOtpCooldownLock env now u db of
          Inl wait \<Rightarrow> (db, [], Cooldown_active wait)
        | Inr db1 \<Rightarrow>
          (case persist env (u\<lparr>u_loginOtp := new_login_code cfg now isResend (ae_bcrypt env (fr_otp fr)) (u_loginOtp u)\<rparr>) db1 of
             Inl e \<Rightarrow> (db1, [], Challenge_failed)
           | Inr (db2, u2) \<Rightarrow>
             (let db3 = cacheLoginOtpState env now (now + minutes (oc_expiryMinutes cfg)) u2 db2
              in if \<not> mail_ok
                 then (case persist env (u2\<lparr>u_loginOtp := no_code\<rparr>) db3 of
                         Inl e \<Rightarrow> (db3, [], Challenge_failed)
                       | Inr (db4, u4) \<Rightarrow> (clearCachedLoginOtpState env u4 db4, [], Challenge_failed))
                 else (let effs = [Mail_sent ''login code'' (u_email u2) (fr_otp fr), Audited ''OTP_SENT'' (Some (u_id u2))]
                       in if \<not> returnLoginToken then (db3, effs, Challenge_sent None)
                          else (let db5 = db3\<lparr>ad_sessions := filter (\<lambda>s. \<not> (ls_userId s = u_id u2 \<and> ls_consumedAt s = None)) (ad_sessions db3)\<rparr>
                                in if \<not> truthy (u_firmId u2) \<or> \<not> truthy (u_xID u2) then (db5, effs, Challenge_failed)
                                   else (db5\<lparr>ad_sessions := ad_sessions db5 @
                                       [\<lparr>ls_tokenHash = ae_sha env (fr_loginToken fr), ls_userId = u_id u2, ls_firmId = str_or_empty (u_firmId u2),
                                         ls_xID = str_or_empty (u_xID u2), ls_expiresAt = now + minutes (oc_expiryMinutes cfg), ls_consumedAt = None\<rparr>]\<rparr>,
                                     effs, Challenge_sent (Some (fr_loginToken fr))))))))"

subsection \<open>Who may try a password\<close>

text \<open>\<open>Inl\<close> is the response, \<open>Inr\<close> the user who goes on.\<close>

definition validateTenantUserPreconditions :: "auth_env \<Rightarrow> fresh \<Rightarrow> int \<Rightarrow> user_doc option \<Rightarrow> auth_db \<Rightarrow> (reply + user_doc) step" where
  "validateTenantUserPreconditions env fr now user db =
    (case user of
       None \<Rightarrow> (db, [Failed_login_recorded, Audited ''LoginFailed'' None, Login_failure_noted], Inl (Refused 401 ''Invalid xID or password'' None None))
     | Some u \<Rightarrow>
        if \<not> isActiveStatus (u_status u)
        then (db, [Failed_login_recorded, Audited ''LoginFailed'' None, Login_failure_noted], Inl (Refused 401 ''Invalid xID or password'' None None))
        else if u_role u \<noteq> Some ''SUPER_ADMIN'' \<and> td_firms (ad_tenants db) = []
        then (db, [], Inl (Refused 403 ''System not initialized. Contact SuperAdmin.'' None None))
        else if \<not> isSuperAdminRole (u_role u) \<and> \<not> truthy (u_firmId u)
        then (db, [], Inl (Refused 403 ''Account is not linked to a firm. Please complete onboarding or contact administrator.'' None None))
        else (case (if u_role u = Some ''Admin'' then ensureUserDefaultClientLink env fr u db else Inr (db, u)) of
                Inl e \<Rightarrow> (db, [], Inl (Refused 500 ''Account configuration error. Please contact administrator.'' None None))
              | Inr (db1, u1) \<Rightarrow>
                  if u_lockedByAdmin u1 then (db1, [], Inl (Refused 403 ''ACCOUNT_LOCKED_BY_ADMIN'' None None))
                  else if isLocked now u1
                  then (db1, [Locked_attempt_noted], Inl (Refused 403 ''ACCOUNT_TEMP_LOCKED''
                          (Some (max 1 (case u_lockUntil u1 of Some t \<Rightarrow> ceil_seconds (t - now) | None \<Rightarrow> 0))) None))
                  else if u_mustChangePassword u1 \<or> u_mustSetPassword u1 \<or> \<not> truthy (u_passwordHash u1)
                  then (db1, [], Inl (Refused 403 ''PASSWORD_SETUP_REQUIRED'' None None))
                  else (db1, [], Inr u1)))"

definition active_lock :: "int \<Rightarrow> user_doc \<Rightarrow> bool" where
  "active_lock now u = isLocked now u"

text \<open>The counter of failed passwords, and the lock at \<open>MAX_FAILED_ATTEMPTS\<close>.\<close>

definition count_failure :: "auth_env \<Rightarrow> int \<Rightarrow> user_doc \<Rightarrow> user_doc" where
  "count_failure env now u =
    (let u1 = u\<lparr>u_failedLoginAttempts := u_failedLoginAttempts u + 1\<rparr>
     in if u_failedLoginAttempts u1 \<ge> ae_maxFailed env \<and> \<not> active_lock now u1 then u1\<lparr>u_lockUntil := Some (now + ae_lockMs env)\<rparr> else u1)"

definition handlePasswordVerification :: "auth_env \<Rightarrow> int \<Rightarrow> user_doc \<Rightarrow> string \<Rightarrow> auth_db \<Rightarrow> (reply + user_doc) step" where
  "handlePasswordVerification env now u password db =
    (if \<not> ae_compare env password (str_or_empty (u_passwordHash u))
     then (case find (\<lambda>x. u_id x = u_id u \<and> u_firmId x = u_firmId u) (ad_users db) of
             None \<Rightarrow> (db, [Failed_login_recorded], Inl (Refused 401 ''Invalid xID or password'' None None))
           | Some stored \<Rightarrow>
              (let u1 = count_failure env now stored; db1 = put_user u1 db
               in if active_lock now u1 \<and> u_failedLoginAttempts u1 \<ge> ae_maxFailed env
                  then (db1, [Failed_login_recorded, Audited ''AccountLocked'' (Some (u_id u))],
                        Inl (Refused 403 ''ACCOUNT_TEMP_LOCKED'' (Some (ae_lockMs env div 1000)) None))
                  else (db1, [Failed_login_recorded, Audited ''LOGIN_FAILED'' (Some (u_id u)), Login_failure_noted],
                        Inl (Refused 401 ''Invalid xID or password'' None (Some (ae_maxFailed env - u_failedLoginAttempts u1))))))
     else (case (if u_failedLoginAttempts u > 0 \<or> u_lockUntil u \<noteq> None
                 then persist env (u\<lparr>u_failedLoginAttempts := 0, u_lockUntil := None\<rparr>) db else Inr (db, u)) of
             Inl e \<Rightarrow> (db, [], Inl (Refused 500 ''AUTH_LOGIN_FAILED'' None None))
           | Inr (db1, u1) \<Rightarrow> (db1, [Failed_logins_cleared], Inr u1)))"

definition PASSWORD_SETUP_TOKEN_EXPIRY_HOURS :: int where
  "PASSWORD_SETUP_TOKEN_EXPIRY_HOURS = 24"

text \<open>A token that cannot be saved stays in the document in memory only.\<close>

definition handlePostPasswordChecks :: "auth_env \<Rightarrow> fresh \<Rightarrow> int \<Rightarrow> bool \<Rightarrow> user_doc \<Rightarrow> auth_db \<Rightarrow> (reply + user_doc) step" where
  "handlePostPasswordChecks env fr now reset_mail_ok u db =
    (if (case u_passwordExpiresAt u of None \<Rightarrow> False | Some t \<Rightarrow> t < now)
     then (db, [Audited ''PasswordExpired'' (Some (u_id u))], Inl (Refused 403 ''Password has expired. Please change your password.'' None None))
     else if u_forcePasswordReset u
     then (let u1 = u\<lparr>u_passwordReset := \<lparr>ts_hash = Some (ae_sha env (fr_resetToken fr)), ts_expiresAt = Some (now + minutes (60 * PASSWORD_SETUP_TOKEN_EXPIRY_HOURS))\<rparr>\<rparr>;
               effs = (if reset_mail_ok then [Mail_sent ''password reset'' (u_email u) (fr_resetToken fr)] else [])
                      @ [Audited ''PasswordResetEmailSent'' (Some (u_id u))]
           in case persist env u1 db of Inl e \<Rightarrow> (db, effs, Inr u1) | Inr (db1, u2) \<Rightarrow> (db1, effs, Inr u2))
     else (db, [], Inr u))"

end
