(* ===== verification/SignInHandlers.thy ===== *)
theory SignInHandlers
  imports SignIn
begin

section \<open>The handlers of signing in\<close>

text \<open>
  \<open>login\<close>, \<open>resendLoginOtp\<close> and \<open>verifyLoginOtp\<close> of \<open>services/authLogin.service.js\<close>, and
  \<open>handleSuperadminLogin\<close>, \<open>buildTokenResponse\<close> and \<open>buildSuccessfulLoginPayload\<close> of
  \<open>controllers/auth.controller.js\<close>.
\<close>

record signin_req =
  sq_loginScope :: "string option"
  sq_firmId :: "string option"
  sq_firm_id :: "string option"
  sq_firm_defaultClientId :: "string option"
  sq_firm_legacyFirmId :: "string option"
  sq_firmSlug :: "string option"
  sq_paramSlug :: "string option"
  sq_xid :: "string option"
  sq_password :: "string option"
  sq_loginToken :: "string option"
  sq_otp :: "string option"
  sq_mail_ok :: bool
  sq_reset_mail_ok :: bool

definition buildTenantCandidateIds :: "signin_req \<Rightarrow> string list" where
  "buildTenantCandidateIds r =
    js_unique (map str_or_empty (filter truthy [sq_firmId r, sq_firm_id r, sq_firm_defaultClientId r, sq_firm_legacyFirmId r]))"

definition in_tenant :: "string list \<Rightarrow> user_doc \<Rightarrow> bool" where
  "in_tenant ids u \<longleftrightarrow> (\<exists>i\<in>set ids. u_firmId u = Some i \<or> u_defaultClientId u = Some i)"

definition buildTenantScopedUserQuery :: "string \<Rightarrow> string list \<Rightarrow> user_doc \<Rightarrow> bool" where
  "buildTenantScopedUserQuery userId ids u \<longleftrightarrow> u_id u = userId \<and> u_status u = Some ''active'' \<and> u_isActive u \<and> in_tenant ids u"

text \<open>The candidates of a login: the user of the firm itself, then of its default client, then any.\<close>

definition login_candidates :: "string list \<Rightarrow> string \<Rightarrow> user_doc list \<Rightarrow> user_doc list" where
  "login_candidates ids xid us = filter (\<lambda>u. u_xID u = Some xid \<and> u_status u \<noteq> Some ''deleted'' \<and> in_tenant ids u) us"

definition choose_candidate :: "string \<Rightarrow> user_doc list \<Rightarrow> user_doc option" where
  "choose_candidate tenant us =
    (case find (\<lambda>u. u_firmId u = Some tenant) us of Some u \<Rightarrow> Some u
     | None \<Rightarrow> (case find (\<lambda>u. u_defaultClientId u = Some tenant) us of Some u \<Rightarrow> Some u
       | None \<Rightarrow> (case us of u # _ \<Rightarrow> Some u | [] \<Rightarrow> None)))"

definition handleSuperadminLogin :: "auth_env \<Rightarrow> fresh \<Rightarrow> int \<Rightarrow> string \<Rightarrow> string option \<Rightarrow> auth_db \<Rightarrow> reply step" where
  "handleSuperadminLogin env fr now password loginScope db =
    (if loginScope \<noteq> Some ''superadmin'' then (db, [], Refused 401 ''Invalid xID or password'' None None)
     else if \<not> truthy (ae_superadminHash env) then (db, [], Refused 500 ''SuperAdmin authentication not configured'' None None)
     else if \<not> ae_compare env password (str_or_empty (ae_superadminHash env))
     then (db, [Failed_login_recorded, Audited ''LoginFailed'' None], Refused 401 ''Invalid xID or password'' None None)
     else (let effs = [Failed_logins_cleared, Audited ''LOGIN_SUCCESS'' None];
               cl = \<lparr>ac_userId = str_or_empty (ae_superadminId env), ac_role = Some ''SUPERADMIN'', ac_firmId = None, ac_firmSlug = None, ac_defaultClientId = None\<rparr>
           in case generateAndStoreRefreshToken env (fr_refreshToken fr) now None None (Some ''superadmin'') db of
                Inl e \<Rightarrow> (db, effs, Refused 500 ''Authentication succeeded but response generation failed'' None None)
              | Inr db1 \<Rightarrow> (db1, effs @ [Cookies_set cl (fr_refreshToken fr)], Session_started cl False)))"

text \<open>The four steps on the chosen user.\<close>

definition login_steps :: "auth_env \<Rightarrow> fresh \<Rightarrow> int \<Rightarrow> signin_req \<Rightarrow> string \<Rightarrow> user_doc option \<Rightarrow> auth_db \<Rightarrow> reply step" where
  "login_steps env fr now r password user db =
    (case validateTenantUserPreconditions env fr now user db of
       (db1, effs1, Inl reply) \<Rightarrow> (db1, effs1, reply)
     | (db1, effs1, Inr u1) \<Rightarrow>
        (case handlePasswordVerification env now u1 password db1 of
           (db2, effs2, Inl reply) \<Rightarrow> (db2, effs1 @ effs2, reply)
         | (db2, effs2, Inr u2) \<Rightarrow>
           (case handlePostPasswordChecks env fr now (sq_reset_mail_ok r) u2 db2 of
              (db3, effs3, Inl reply) \<Rightarrow> (db3, effs1 @ effs2 @ effs3, reply)
            | (db3, effs3, Inr u3) \<Rightarrow>
              (case sendLoginOtpChallenge env fr now (sq_mail_ok r) False True u3 db3 of
                 (db4, effs4, c) \<Rightarrow>
                   (db4, effs1 @ effs2 @ effs3 @ effs4,
                    (case c of
                       Cooldown_active wait \<Rightarrow> Refused 429 ''OTP recently sent. Please wait before requesting a new code.'' (Some wait) None
                     | Challenge_failed \<Rightarrow> Refused 500 ''Unable to send login verification code. Please try again.'' None None
                     | Challenge_sent t \<Rightarrow> Otp_required (str_or_empty t)))))))"

definition login :: "auth_env \<Rightarrow> fresh \<Rightarrow> int \<Rightarrow> signin_req \<Rightarrow> auth_db \<Rightarrow> reply step" where
  "login env fr now r db =
    (let scope = js_or (sq_loginScope r) (Some ''tenant''); xid = js_upper (js_trim (str_or_empty (sq_xid r)));
         password = str_or_empty (sq_password r); ids = buildTenantCandidateIds r
     in if xid = [] \<or> password = [] then (db, [], Refused 400 ''xID and password are required'' None None)
        else if truthy (ae_superadminXID env) \<and> Some xid = ae_superadminXID env then handleSuperadminLogin env fr now password scope db
        else if scope = Some ''superadmin'' then (db, [], Refused 401 ''Invalid xID or password'' None None)
        else if \<not> truthy (sq_firmId r) then (db, [], Refused 400 ''Firm context is required for login.'' None None)
        else login_steps env fr now r password (choose_candidate (str_or_empty (sq_firmId r)) (login_candidates ids xid (ad_users db))) db)"

subsection \<open>The pending login\<close>

definition invalid_login_token :: reply where
  "invalid_login_token = Refused 401 ''Invalid or expired login token'' None None"

text \<open>The session of a token, unless it has expired or belongs to another tenant.\<close>

definition find_login_session :: "auth_env \<Rightarrow> int \<Rightarrow> signin_req \<Rightarrow> string \<Rightarrow> auth_db \<Rightarrow> login_session option" where
  "find_login_session env now r loginToken db =
    (case find (\<lambda>s. ls_tokenHash s = ae_sha env loginToken \<and> ls_consumedAt s = None) (ad_sessions db) of
       None \<Rightarrow> None
     | Some s \<Rightarrow>
        if ls_expiresAt s < now then None
        else if buildTenantCandidateIds r \<noteq> [] \<and> ls_firmId s \<notin> set (buildTenantCandidateIds r) then None
        else Some s)"

definition session_user :: "signin_req \<Rightarrow> login_session \<Rightarrow> auth_db \<Rightarrow> user_doc option" where
  "session_user r s db =
    find (buildTenantScopedUserQuery (ls_userId s) (js_unique (buildTenantCandidateIds r @ (if ls_firmId s = [] then [] else [ls_firmId s])))) (ad_users db)"

text \<open>\<open>clearExpiredLoginOtpLock\<close> saves the user when it clears the lock.\<close>

definition clear_lock_step :: "auth_env \<Rightarrow> int \<Rightarrow> user_doc \<Rightarrow> auth_db \<Rightarrow> (auth_db \<times> user_doc) res" where
  "clear_lock_step env now u db =
    (if cs_lockedUntil (u_loginOtp u) = None \<or> getLoginOtpLockSeconds now (u_loginOtp u) > 0 then Inr (db, u)
     else persist env (u\<lparr>u_loginOtp := clearExpiredLoginOtpLock now (u_loginOtp u)\<rparr>) db)"

definition too_many :: "int option \<Rightarrow> reply" where
  "too_many retryAfter = Refused 429 ''Too many attempts. Try again later.'' retryAfter None"

definition resendLoginOtp :: "auth_env \<Rightarrow> fresh \<Rightarrow> int \<Rightarrow> signin_req \<Rightarrow> auth_db \<Rightarrow> reply step" where
  "resendLoginOtp env fr now r db =
    (let cfg = getLoginOtpConfig (ae_production env); loginToken = js_trim (str_or_empty (sq_loginToken r))
     in if loginToken = [] then (db, [], Refused 400 ''loginToken is required'' None None)
        else (case find_login_session env now r loginToken db of
                None \<Rightarrow> (db, [], invalid_login_token)
              | Some s \<Rightarrow>
                (case session_user r s db of
                   None \<Rightarrow> (db, [], invalid_login_token)
                 | Some u0 \<Rightarrow>
                   (case clear_lock_step env now u0 db of
                      Inl e \<Rightarrow> (db, [], Refused 500 ''Unable to resend OTP right now. Please try again.'' None None)
                    | Inr (db1, u) \<Rightarrow>
                      (let c = u_loginOtp u; lastSentAt = (case cs_lastSentAt c of Some t \<Rightarrow> t | None \<Rightarrow> 0);
                           retryAfter = max 0 (ceil_seconds (lastSentAt + oc_resendCooldownSeconds cfg * 1000 - now))
                       in if getLoginOtpLockSeconds now c > 0 then (db1, [], too_many None)
                          else if retryAfter > 0 then (db1, [], too_many (Some retryAfter))
                          else if cs_resendCount c \<ge> oc_maxResends cfg then (db1, [], too_many None)
                          else (case sendLoginOtpChallenge env fr now (sq_mail_ok r) True False u db1 of
                                  (db2, effs, Cooldown_active wait) \<Rightarrow>
                                    (db2, effs, Refused 429 ''OTP recently sent. Please wait before requesting a new code.'' (Some wait) None)
                                | (db2, effs, Challenge_failed) \<Rightarrow>
                                    (db2, effs, Refused 500 ''Unable to resend OTP right now. Please try again.'' None None)
                                | (db2, effs, Challenge_sent t) \<Rightarrow> (db2, effs, Code_resent)))))))"

subsection \<open>The session after the code\<close>

definition ensureCanonicalXid :: "auth_env \<Rightarrow> user_doc \<Rightarrow> auth_db \<Rightarrow> (auth_db \<times> user_doc) res" where
  "ensureCanonicalXid env u db =
    (if \<not> truthy (u_xID u) \<or> u_xid u = u_xID u then Inr (db, u) else persist env (u\<lparr>u_xid := u_xID u\<rparr>) db)"

definition tenant_of_user :: "user_doc \<Rightarrow> tenant_user" where
  "tenant_of_user u = \<lparr>tu_role = u_role u, tu_firmId = u_firmId u, tu_defaultClientId = u_defaultClientId u\<rparr>"

text \<open>The tenant a token is issued for.\<close>

definition runtime_tenant :: "tenant_db \<Rightarrow> user_doc \<Rightarrow> string option" where
  "runtime_tenant td u =
    js_or (Option.bind (resolveCanonicalTenantForUser td (Some (tenant_of_user u))) tx_tenantId) (js_or (u_firmId u) None)"

definition user_claims :: "tenant_db \<Rightarrow> user_doc \<Rightarrow> claims" where
  "user_claims td u =
    (let x = resolveCanonicalTenantForUser td (Some (tenant_of_user u))
     in \<lparr>ac_userId = u_id u, ac_role = u_role u, ac_firmId = runtime_tenant td u, ac_firmSlug = js_or (Option.bind x tx_firmSlug) None,
         ac_defaultClientId = js_or (Option.bind x tx_defaultClientId) (js_or (u_defaultClientId u) None)\<rparr>)"

definition buildTokenResponse :: "auth_env \<Rightarrow> fresh \<Rightarrow> int \<Rightarrow> user_doc \<Rightarrow> auth_db \<Rightarrow> auth_db \<times> (claims \<times> user_doc) res" where
  "buildTokenResponse env fr now u db =
    (case (if u_role u \<noteq> Some ''SUPER_ADMIN'' \<and> truthy (u_firmId u) then ensureUserDefaultClientLink env fr u db else Inr (db, u)) of
       Inl e \<Rightarrow> (db, Inl e)
     | Inr (db1, u1) \<Rightarrow>
       (case ensureCanonicalXid env u1 db1 of
          Inl e \<Rightarrow> (db1, Inl e)
        | Inr (db2, u2) \<Rightarrow>
          (case generateAndStoreRefreshToken env (fr_refreshToken fr) now (Some (u_id u2)) (runtime_tenant (ad_tenants db1) u1) (Some ''tenant'') db2 of
             Inl e \<Rightarrow> (db2, Inl e)
           | Inr db3 \<Rightarrow> (db3, Inr (user_claims (ad_tenants db1) u1, u2)))))"

definition buildSuccessfulLoginPayload :: "auth_env \<Rightarrow> fresh \<Rightarrow> int \<Rightarrow> user_doc \<Rightarrow> auth_db \<Rightarrow> reply step" where
  "buildSuccessfulLoginPayload env fr now u db =
    (case buildTokenResponse env fr now u db of
       (db1, Inl e) \<Rightarrow> (db1, [], Refused 500 ''Error verifying login OTP'' None None)
     | (db1, Inr (cl, u1)) \<Rightarrow>
        (db1, [Audited ''Login'' (Some (u_id u1)), Audited ''LOGIN_SUCCESS'' (Some (u_id u1)), Cookies_set cl (fr_refreshToken fr)],
         Session_started cl (u_forcePasswordReset u1)))"

definition consume_session :: "int \<Rightarrow> login_session \<Rightarrow> auth_db \<Rightarrow> auth_db" where
  "consume_session now s db =
    db\<lparr>ad_sessions := map (\<lambda>x. if ls_tokenHash x = ls_tokenHash s \<and> ls_consumedAt x = None then x\<lparr>ls_consumedAt := Some now\<rparr> else x) (ad_sessions db)\<rparr>"

definition six_digits :: "string \<Rightarrow> bool" where
  "six_digits s \<longleftrightarrow> length s = 6 \<and> list_all (\<lambda>c. c \<in> set ''0123456789'') s"

text \<open>The comparison and what follows, on the user whose expired lock has been cleared.\<close>

definition verify_user_code :: "auth_env \<Rightarrow> fresh \<Rightarrow> int \<Rightarrow> string \<Rightarrow> login_session \<Rightarrow> user_doc \<Rightarrow> auth_db \<Rightarrow> reply step" where
  "verify_user_code env fr now otp s u db =
    (let cfg = getLoginOtpConfig (ae_production env);
         right = ae_compare env otp (str_or_empty (cs_hash (u_loginOtp u)));
         (c, v) = check_login_code cfg now right (u_loginOtp u);
         effs = (if compared v then [Code_compared (u_id u)] else [])
     in case v of
          Code_locked secs \<Rightarrow> (db, effs, too_many (Some secs))
        | _ \<Rightarrow>
          (case persist env (u\<lparr>u_loginOtp := c\<rparr>) db of
             Inl e \<Rightarrow> (db, effs, Refused 500 ''Error verifying login OTP'' None None)
           | Inr (db1, u1) \<Rightarrow>
             (case v of
                Code_expired \<Rightarrow> (db1, effs, Refused 401 ''OTP expired. Please request a new one.'' None None)
              | Code_exhausted \<Rightarrow> (db1, effs, too_many (Some (getLoginOtpLockSeconds now c)))
              | Code_wrong n \<Rightarrow>
                  (db1, effs @ [Audited ''LOGIN_FAILURE'' (Some (u_id u1)), Login_failure_noted],
                   if n \<ge> oc_maxAttempts cfg
                   then Refused 429 ''Too many attempts. Try again later.'' (Some (getLoginOtpLockSeconds now c)) (Some 0)
                   else Refused 401 ''Invalid OTP. Please try again.'' None (Some (oc_maxAttempts cfg - n)))
              | _ \<Rightarrow>
                 (let db2 = consume_session now s (clearCachedLoginOtpState env u1 db1)
                  in case buildSuccessfulLoginPayload env fr now u1 db2 of
                       (db3, effs3, reply) \<Rightarrow> (db3, effs @ [Audited ''OTP_VERIFIED'' (Some (u_id u1))] @ effs3, reply)))))"

definition verifyLoginOtp :: "auth_env \<Rightarrow> fresh \<Rightarrow> int \<Rightarrow> signin_req \<Rightarrow> auth_db \<Rightarrow> reply step" where
  "verifyLoginOtp env fr now r db =
    (let otp = js_trim (str_or_empty (sq_otp r)); loginToken = js_trim (str_or_empty (sq_loginToken r));
         requested = normalizeFirmSlug (js_or (sq_paramSlug r) (js_or (sq_firmSlug r) None))
     in if \<not> six_digits otp then (db, [], Refused 400 ''OTP must be a 6 digit code'' None None)
        else if loginToken = [] then (db, [], Refused 400 ''loginToken is required'' None None)
        else (case find_login_session env now r loginToken db of
                None \<Rightarrow> (db, [], invalid_login_token)
              | Some s \<Rightarrow>
                 if truthy requested \<and> truthy (normalizeFirmSlug (sq_firmSlug r)) \<and> requested \<noteq> normalizeFirmSlug (sq_firmSlug r)
                 then (db, [], invalid_login_token)
                 else (case session_user r s db of
                    None \<Rightarrow> (db, [], Refused 401 ''Invalid authentication token'' None None)
                  | Some u0 \<Rightarrow>
                    (case clear_lock_step env now u0 db of
                       Inl e \<Rightarrow> (db, [], Refused 500 ''Error verifying login OTP'' None None)
                     | Inr (db1, u) \<Rightarrow> verify_user_code env fr now otp s u db1))))"

end
