(* ===== verification/SignInProperties.thy ===== *)
theory SignInProperties
  imports SignInHandlers
begin

section \<open>Guessing login codes\<close>

text \<open>
  How often the code of one login challenge can be tried, whatever requests arrive: an instance of the
  contract \<open>limited_code\<close> carried through the handler.
\<close>

definition code_of :: "string \<Rightarrow> auth_db \<Rightarrow> code_state option" where
  "code_of i db = map_option u_loginOtp (user_by_id i (ad_users db))"

definition distinct_users :: "auth_db \<Rightarrow> bool" where
  "distinct_users db \<longleftrightarrow> distinct (map u_id (ad_users db))"

subsection \<open>What the steps change\<close>

lemma put_user_ids [simp]: "map u_id (ad_users (put_user s db)) = map u_id (ad_users db)"
  by (simp add: put_user_def comp_def cong: map_cong)

lemma distinct_put_user [simp]: "distinct_users (put_user s db) = distinct_users db"
  by (simp add: distinct_users_def)

lemma user_by_id_put:
  "user_by_id i (map (\<lambda>x. if u_id x = u_id s then s else x) us)
    = (if i = u_id s then (if i \<in> u_id ` set us then Some s else None) else user_by_id i us)"
  by (induction us) (auto simp: user_by_id_def)

lemma user_by_idD: "user_by_id i us = Some u \<Longrightarrow> u \<in> set us \<and> u_id u = i"
  by (auto simp: user_by_id_def find_Some_iff)

lemma user_by_id_distinct: "distinct (map u_id us) \<Longrightarrow> u \<in> set us \<Longrightarrow> user_by_id (u_id u) us = Some u"
  by (induction us) (auto simp: user_by_id_def)

lemma code_of_put:
  "u_id s \<in> u_id ` set (ad_users db) \<Longrightarrow> code_of i (put_user s db) = (if i = u_id s then Some (u_loginOtp s) else code_of i db)"
  by (simp add: code_of_def put_user_def user_by_id_put)

lemma known_user: "code_of i db = Some c \<Longrightarrow> i \<in> u_id ` set (ad_users db)"
  by (force simp: code_of_def dest: user_by_idD)

lemma persistD:
  assumes "persist env u db = Inr (db1, s)"
  shows "db1 = put_user s db" "u_id s = u_id u" "u_loginOtp s = u_loginOtp u" "distinct_users db1 = distinct_users db"
    and "u_id u \<in> u_id ` set (ad_users db) \<Longrightarrow> code_of i db1 = (if i = u_id u then Some (u_loginOtp u) else code_of i db)"
proof -
  from assms have p: "db1 = put_user s db" and s: "save_user (ae_enforceTeam env) (find_ref (ad_users db)) (user_by_id (u_id u) (ad_users db)) u = Inr s"
    by (auto simp: persist_def split: sum.splits)
  show "db1 = put_user s db" "u_id s = u_id u" "u_loginOtp s = u_loginOtp u" "distinct_users db1 = distinct_users db"
    using p save_userD(1,4) [OF s] by simp_all
  then show "u_id u \<in> u_id ` set (ad_users db) \<Longrightarrow> code_of i db1 = (if i = u_id u then Some (u_loginOtp u) else code_of i db)"
    using code_of_put [of s db i] by simp
qed

lemma ids_put_user [simp]: "u_id ` set (ad_users (put_user s db)) = u_id ` set (ad_users db)"
  by (metis put_user_ids set_map)

lemma code_of_otpCache [simp]:
  "code_of i (clearCachedLoginOtpState env u db) = code_of i db" "distinct_users (clearCachedLoginOtpState env u db) = distinct_users db"
  "ad_users (clearCachedLoginOtpState env u db) = ad_users db"
  by (simp_all add: clearCachedLoginOtpState_def code_of_def distinct_users_def)

lemma code_of_consume [simp]:
  "code_of i (consume_session now s db) = code_of i db" "distinct_users (consume_session now s db) = distinct_users db"
  "ad_users (consume_session now s db) = ad_users db"
  by (simp_all add: consume_session_def code_of_def distinct_users_def)

text \<open>Steps that leave every code alone and no account out.\<close>

definition same_codes :: "auth_db \<Rightarrow> auth_db \<Rightarrow> bool" where
  "same_codes db db' \<longleftrightarrow> (\<forall>i. code_of i db' = code_of i db) \<and> distinct_users db' = distinct_users db \<and> u_id ` set (ad_users db') = u_id ` set (ad_users db)"

lemma same_codes_refl [simp]: "same_codes db db"
  by (simp add: same_codes_def)

lemma same_codes_trans: "same_codes a b \<Longrightarrow> same_codes b c \<Longrightarrow> same_codes a c"
  by (simp add: same_codes_def)

lemma persist_same:
  assumes "persist env u db = Inr (db1, s)" "code_of (u_id u) db = Some (u_loginOtp u)"
  shows "same_codes db db1"
proof -
  from assms(2) have "u_id u \<in> u_id ` set (ad_users db)" by (rule known_user)
  with assms(2) persistD [OF assms(1)] show ?thesis by (auto simp: same_codes_def)
qed

lemma ensureLink_same:
  assumes "ensureUserDefaultClientLink env fr u db = Inr (db1, u1)" "code_of (u_id u) db = Some (u_loginOtp u)"
  shows "same_codes db db1" "u_id u1 = u_id u" "u_loginOtp u1 = u_loginOtp u"
proof -
  have tenants: "same_codes db (db\<lparr>ad_tenants := td\<rparr>)" "code_of i (db\<lparr>ad_tenants := td\<rparr>) = code_of i db" for td i
    by (simp_all add: same_codes_def code_of_def distinct_users_def)
  have *: "same_codes db db1 \<and> u_id u1 = u_id u \<and> u_loginOtp u1 = u_loginOtp u"
    if "persist env (u\<lparr>u_defaultClientId := Some c\<rparr>) (db\<lparr>ad_tenants := td\<rparr>) = Inr (db1, u1)" for c td
    using persist_same [OF that] tenants assms(2) persistD(2,3) [OF that] by (auto intro: same_codes_trans)
  show "same_codes db db1" "u_id u1 = u_id u" "u_loginOtp u1 = u_loginOtp u"
    using assms(1) * by (auto simp: ensureUserDefaultClientLink_def Let_def split: if_splits sum.splits)
qed

lemma canonicalXid_same:
  assumes "ensureCanonicalXid env u db = Inr (db1, u1)" "code_of (u_id u) db = Some (u_loginOtp u)"
  shows "same_codes db db1"
  using assms persist_same [of env "u\<lparr>u_xid := u_xID u\<rparr>" db db1 u1] by (auto simp: ensureCanonicalXid_def split: if_splits)

lemma refreshToken_same: "generateAndStoreRefreshToken env t now i f sc db = Inr db1 \<Longrightarrow> same_codes db db1"
  by (auto simp: generateAndStoreRefreshToken_def res_bind_Inr_iff same_codes_def code_of_def distinct_users_def split: option.splits)

lemma tokenResponse_same:
  assumes "buildTokenResponse env fr now u db = (db1, x)" "code_of (u_id u) db = Some (u_loginOtp u)"
  shows "same_codes db db1"
proof -
  have link: "same_codes db d \<and> code_of (u_id v) d = Some (u_loginOtp v)"
    if "(if u_role u \<noteq> Some ''SUPER_ADMIN'' \<and> truthy (u_firmId u) then ensureUserDefaultClientLink env fr u db else Inr (db, u)) = Inr (d, v)" for d v
    using that assms(2) ensureLink_same by (auto simp: same_codes_def split: if_splits)
  show ?thesis using assms(1) link
    by (auto simp: buildTokenResponse_def split: sum.splits prod.splits
        dest!: canonicalXid_same refreshToken_same intro: same_codes_trans)
qed

lemma payload_same:
  assumes "buildSuccessfulLoginPayload env fr now u db = (db1, effs, rep)" "code_of (u_id u) db = Some (u_loginOtp u)"
  shows "same_codes db db1" "Code_compared i \<notin> set effs"
  using assms tokenResponse_same by (auto simp: buildSuccessfulLoginPayload_def split: sum.splits prod.splits)

subsection \<open>One verification\<close>

text \<open>A guess is answered when the code was compared and the response is not a failure of the server.\<close>

definition answered :: "string \<Rightarrow> auth_effect list \<times> reply \<Rightarrow> bool" where
  "answered i er \<longleftrightarrow> Code_compared i \<in> set (fst er) \<and> (case snd er of Refused n m a b \<Rightarrow> n \<noteq> 500 | _ \<Rightarrow> True)"

definition guess_outcome :: "otp_config \<Rightarrow> int \<Rightarrow> string \<Rightarrow> code_state \<Rightarrow> auth_db \<Rightarrow> bool \<Rightarrow> bool" where
  "guess_outcome cfg now i c db' ans \<longleftrightarrow>
    (\<exists>right c' v. login_attempt cfg now right c = (c', v) \<and> code_of i db' = Some c' \<and> (ans \<longrightarrow> compared v))
    \<or> code_of i db' \<in> {Some c, Some (clearExpiredLoginOtpLock now c)} \<and> \<not> ans"

lemma clear_again [simp]: "clearExpiredLoginOtpLock now (clearExpiredLoginOtpLock now c) = clearExpiredLoginOtpLock now c"
  by (simp add: clearExpiredLoginOtpLock_def)

lemma verify_user_code_other:
  assumes "verify_user_code env fr now otp s u db = (db', effs, rep)" "code_of (u_id u) db = Some (u_loginOtp u)"
  shows "distinct_users db' = distinct_users db" "i \<noteq> u_id u \<Longrightarrow> code_of i db' = code_of i db \<and> \<not> answered i (effs, rep)"
proof -
  let ?k = "check_login_code (getLoginOtpConfig (ae_production env)) now (ae_compare env otp (str_or_empty (cs_hash (u_loginOtp u)))) (u_loginOtp u)"
  obtain c v where k: "?k = (c, v)" by (cases ?k)
  have known: "u_id u \<in> u_id ` set (ad_users db)" using assms(2) by (rule known_user)
  have "distinct_users db' = distinct_users db \<and> (i \<noteq> u_id u \<longrightarrow> code_of i db' = code_of i db \<and> Code_compared i \<notin> set effs)"
  proof (cases "persist env (u\<lparr>u_loginOtp := c\<rparr>) db")
    case (Inl e)
    then show ?thesis using assms(1) k by (auto simp: verify_user_code_def Let_def split: verdict.splits)
  next
    case (Inr p)
    then obtain db1 u1 where p: "persist env (u\<lparr>u_loginOtp := c\<rparr>) db = Inr (db1, u1)" by (cases p) auto
    note d = persistD [OF p]
    have u1: "code_of (u_id u1) (consume_session now s (clearCachedLoginOtpState env u1 db1)) = Some (u_loginOtp u1)"
      using d known by simp
    show ?thesis using assms(1) k p d known payload_same [OF _ u1]
      by (auto simp: verify_user_code_def Let_def same_codes_def split: verdict.splits prod.splits)
  qed
  then show "distinct_users db' = distinct_users db" "i \<noteq> u_id u \<Longrightarrow> code_of i db' = code_of i db \<and> \<not> answered i (effs, rep)"
    by (simp_all add: answered_def)
qed

lemma verify_user_code_self:
  assumes "verify_user_code env fr now otp s u db = (db', effs, rep)" "code_of (u_id u) db = Some (u_loginOtp u)"
    and "u_loginOtp u = clearExpiredLoginOtpLock now c"
  shows "guess_outcome (getLoginOtpConfig (ae_production env)) now (u_id u) c db' (answered (u_id u) (effs, rep))"
proof -
  define right where "right = ae_compare env otp (str_or_empty (cs_hash (u_loginOtp u)))"
  let ?k = "check_login_code (getLoginOtpConfig (ae_production env)) now right (u_loginOtp u)"
  obtain c' v where k: "?k = (c', v)" by (cases ?k)
  then have a: "login_attempt (getLoginOtpConfig (ae_production env)) now right c = (c', v)"
    using assms(3) by (simp add: login_attempt_def)
  have known: "u_id u \<in> u_id ` set (ad_users db)" using assms(2) by (rule known_user)
  show ?thesis
  proof (cases "\<exists>n. v = Code_locked n")
    case True
    then obtain n where v: "v = Code_locked n" by blast
    with k have "c' = u_loginOtp u" by (auto simp: check_login_code_def Let_def split: if_splits)
    moreover have "db' = db" "effs = []" using assms(1) k v right_def by (auto simp: verify_user_code_def Let_def)
    ultimately show ?thesis using a assms(2) v by (auto simp: guess_outcome_def answered_def)
  next
    case False
    show ?thesis
    proof (cases "persist env (u\<lparr>u_loginOtp := c'\<rparr>) db")
      case (Inl e)
      then have "db' = db" "rep = Refused 500 ''Error verifying login OTP'' None None"
        using assms(1) k False right_def by (auto simp: verify_user_code_def Let_def split: verdict.splits)
      then show ?thesis using assms(2,3) by (simp add: guess_outcome_def answered_def)
    next
      case (Inr p)
      then obtain db1 u1 where p: "persist env (u\<lparr>u_loginOtp := c'\<rparr>) db = Inr (db1, u1)" by (cases p) auto
      note d = persistD [OF p]
      have u1: "code_of (u_id u1) (consume_session now s (clearCachedLoginOtpState env u1 db1)) = Some (u_loginOtp u1)"
        using d known by simp
      have "code_of (u_id u) db' = Some c' \<and> (answered (u_id u) (effs, rep) \<longrightarrow> compared v)"
        using assms(1) k p d known False payload_same [OF _ u1] right_def
        by (cases v) (auto simp: verify_user_code_def Let_def answered_def same_codes_def split: prod.splits)
      with a show ?thesis unfolding guess_outcome_def by blast
    qed
  qed
qed

lemma verifyLoginOtp_step:
  assumes "verifyLoginOtp env fr now r db = (db', effs, rep)" "distinct_users db" "code_of i db = Some c"
  shows "distinct_users db' \<and> guess_outcome (getLoginOtpConfig (ae_production env)) now i c db' (answered i (effs, rep))"
proof -
  have idle: "distinct_users db \<and> guess_outcome (getLoginOtpConfig (ae_production env)) now i c db (answered i ([], rep))" for rep
    using assms(2,3) by (simp add: guess_outcome_def answered_def)
  have busy: "distinct_users db' \<and> guess_outcome (getLoginOtpConfig (ae_production env)) now i c db' (answered i (effs, rep))"
    if u0: "session_user r s db = Some u0" and cl: "clear_lock_step env now u0 db = Inr (db1, u)"
      and v: "verify_user_code env fr now otp s u db1 = (db', effs, rep)" for s u0 db1 u otp
  proof -
    from u0 have "u0 \<in> set (ad_users db)" by (auto simp: session_user_def find_Some_iff)
    with assms(2) have c0: "code_of (u_id u0) db = Some (u_loginOtp u0)"
      by (simp add: code_of_def distinct_users_def user_by_id_distinct)
    have known: "u_id u0 \<in> u_id ` set (ad_users db)" using c0 by (rule known_user)
    have u: "u_id u = u_id u0 \<and> u_loginOtp u = clearExpiredLoginOtpLock now (u_loginOtp u0) \<and> distinct_users db1
      \<and> (\<forall>j. code_of j db1 = (if j = u_id u0 then Some (u_loginOtp u) else code_of j db))"
    proof (cases "cs_lockedUntil (u_loginOtp u0) = None \<or> getLoginOtpLockSeconds now (u_loginOtp u0) > 0")
      case True
      with cl have "u = u0" "db1 = db" by (auto simp: clear_lock_step_def)
      moreover have "clearExpiredLoginOtpLock now (u_loginOtp u0) = u_loginOtp u0" using True by (auto simp: clearExpiredLoginOtpLock_def)
      ultimately show ?thesis using c0 assms(2) by simp
    next
      case False
      with cl have p: "persist env (u0\<lparr>u_loginOtp := clearExpiredLoginOtpLock now (u_loginOtp u0)\<rparr>) db = Inr (db1, u)"
        by (simp add: clear_lock_step_def)
      show ?thesis using persistD [OF p] known assms(2) by simp
    qed
    have c1: "code_of (u_id u) db1 = Some (u_loginOtp u)" using u by simp
    show ?thesis
    proof (cases "i = u_id u0")
      case True
      with c0 assms(3) have "u_loginOtp u = clearExpiredLoginOtpLock now c" using u by simp
      with verify_user_code_self [OF v c1] verify_user_code_other(1) [OF v c1] u True show ?thesis by simp
    next
      case False
      with verify_user_code_other(1) [OF v c1] verify_user_code_other(2) [OF v c1, of i] u assms(3) show ?thesis by (simp add: guess_outcome_def)
    qed
  qed
  show ?thesis using assms(1) idle busy
    by (auto simp: verifyLoginOtp_def Let_def split: if_splits option.splits sum.splits prod.splits)
qed

subsection \<open>Any sequence of verifications\<close>

fun run_verify :: "auth_env \<Rightarrow> (int \<times> fresh \<times> signin_req) list \<Rightarrow> auth_db \<Rightarrow> (auth_effect list \<times> reply) list" where
  "run_verify env [] db = []"
| "run_verify env ((now, fr, r) # rs) db = (case verifyLoginOtp env fr now r db of (db', er) \<Rightarrow> er # run_verify env rs db')"

lemma guess_bound:
  assumes "ae_production env" "distinct_users db" "code_of i db = Some c" "login_inv t c"
    and "cs_hash c = None \<or> cs_expiresAt c = Some e"
    and "sorted (t # map fst rs)" "\<forall>q\<in>set rs. fst q < e"
  shows "length (filter (answered i) (run_verify env rs db)) \<le> login_code.left c"
  using assms
proof (induction rs arbitrary: db c t)
  case Nil
  then show ?case by simp
next
  case (Cons q rs)
  obtain now fr r where q: "q = (now, fr, r)" by (cases q)
  obtain db' effs rep where v: "verifyLoginOtp env fr now r db = (db', effs, rep)"
    by (cases "verifyLoginOtp env fr now r db") auto
  have inv: "login_inv now c" using login_code.mono [OF Cons.prems(4)] Cons.prems(6) q by simp
  have live: "live_code now c \<or> cs_hash c = None" using Cons.prems(5,7) q by (auto simp: live_code_def)
  from verifyLoginOtp_step [OF v Cons.prems(2,3)] Cons.prems(1)
  have d: "distinct_users db'" and g: "guess_outcome (getLoginOtpConfig True) now i c db' (answered i (effs, rep))" by simp_all
  from g obtain c' where c': "code_of i db' = Some c'" "login_inv now c'" "cs_hash c' = None \<or> cs_expiresAt c' = Some e"
    "login_code.left c' + (if answered i (effs, rep) then 1 else 0) \<le> login_code.left c"
  proof (cases rule: guess_outcome_def [THEN iffD1, THEN disjE, consumes 1])
    case 1
    then obtain right c' w where w: "login_attempt (getLoginOtpConfig True) now right c = (c', w)" "code_of i db' = Some c'"
      "answered i (effs, rep) \<longrightarrow> compared w" by blast
    have l: "login_code.left c' + (if compared w then 1 else 0) \<le> login_code.left c"
      by (rule login_code.left_step [OF inv live w(1)])
    have "login_inv now c'" "cs_hash c' = None \<or> cs_expiresAt c' = Some e"
      using login_code.keeps [OF inv live w(1)] Cons.prems(5) by auto
    with that [OF w(2)] l w(3) show ?thesis by (auto split: if_splits)
  next
    case 2
    then obtain c' where c': "code_of i db' = Some c'" "c' = c \<or> c' = clearExpiredLoginOtpLock now c" "\<not> answered i (effs, rep)" by blast
    have "login_code.left c' \<le> login_code.left c"
      using c'(2) live clear_live [OF inv] by (auto simp: login_code.left_def)
    moreover have "login_inv now c'" "cs_hash c' = None \<or> cs_expiresAt c' = Some e"
      using c'(2) inv login_inv_clear [OF inv] Cons.prems(5) by auto
    ultimately show ?thesis using that [OF c'(1)] c'(3) by simp
  qed
  have "length (filter (answered i) (run_verify env rs db')) \<le> login_code.left c'"
    using Cons.prems(6,7) q by (intro Cons.IH [OF Cons.prems(1) d c'(1,2,3)]) auto
  with c'(4) v q show ?case by (auto split: if_splits)
qed


text \<open>Six wrong guesses on a fresh code: the sixth is not answered.\<close>

definition sample_env :: auth_env where
  "sample_env = \<lparr>ae_production = True, ae_enforceTeam = False, ae_compare = (\<lambda>p h. h = CHR ''#'' # p), ae_bcrypt = (\<lambda>p. CHR ''#'' # p),
     ae_sha = (\<lambda>t. CHR ''$'' # t), ae_isObjectId = (\<lambda>_. True), ae_redis = None, ae_maxFailed = 5, ae_lockMs = 1800000,
     ae_refreshMs = 604800000, ae_superadminXID = None, ae_superadminHash = None, ae_superadminId = None\<rparr>"

definition sample_challenged :: user_doc where
  "sample_challenged = blank_user\<lparr>u_loginOtp := new_login_code (getLoginOtpConfig True) 0 False ''#123456'' no_code\<rparr>"

definition sample_auth_db :: auth_db where
  "sample_auth_db = \<lparr>ad_users = [sample_challenged],
     ad_sessions = [\<lparr>ls_tokenHash = ''$token'', ls_userId = ''u1'', ls_firmId = ''F1'', ls_xID = ''X000001'', ls_expiresAt = 600000, ls_consumedAt = None\<rparr>],
     ad_tokens = [], ad_tenants = \<lparr>td_clients = [\<lparr>tc_id = ''F1'', tc_firmId = Some ''F1'', tc_isDefaultClient = True, tc_firmSlug = Some ''acme'', tc_status = None\<rparr>], td_firms = []\<rparr>,
     ad_otpCache = (\<lambda>_. None)\<rparr>"

definition sample_fresh :: fresh where
  "sample_fresh = \<lparr>fr_otp = ''654321'', fr_loginToken = ''login'', fr_refreshToken = ''refresh'', fr_resetToken = ''reset'', fr_clientId = ''C9''\<rparr>"

definition sample_guess :: "string \<Rightarrow> signin_req" where
  "sample_guess otp = \<lparr>sq_loginScope = None, sq_firmId = Some ''F1'', sq_firm_id = None, sq_firm_defaultClientId = None, sq_firm_legacyFirmId = None,
     sq_firmSlug = None, sq_paramSlug = None, sq_xid = None, sq_password = None, sq_loginToken = Some ''token'', sq_otp = Some otp,
     sq_mail_ok = True, sq_reset_mail_ok = True\<rparr>"

definition sample_attack :: "(int \<times> fresh \<times> signin_req) list" where
  "sample_attack = map (\<lambda>k. (int k * 1000, sample_fresh, sample_guess ''000000'')) [1..<7]"


end
