(* ===== verification/SignInPasswords.thy ===== *)
theory SignInPasswords
  imports SignInProperties
begin

section \<open>Guessing passwords\<close>

text \<open>
  How often the password of an account can be tried through \<open>login\<close>: the counter of failures and the
  lock of \<open>handlePasswordVerification\<close>, carried through the handler.
\<close>

definition pw_of :: "string \<Rightarrow> auth_db \<Rightarrow> (nat \<times> int option) option" where
  "pw_of i db = map_option (\<lambda>u. (u_failedLoginAttempts u, u_lockUntil u)) (user_by_id i (ad_users db))"

text \<open>A refused password of the account, as the audit records it.\<close>

definition refused_password :: "string \<Rightarrow> auth_effect list \<times> reply \<Rightarrow> bool" where
  "refused_password i er \<longleftrightarrow> Audited ''LOGIN_FAILED'' (Some i) \<in> set (fst er) \<or> Audited ''AccountLocked'' (Some i) \<in> set (fst er)"

lemma pw_of_put:
  "u_id s \<in> u_id ` set (ad_users db) \<Longrightarrow>
    pw_of i (put_user s db) = (if i = u_id s then Some (u_failedLoginAttempts s, u_lockUntil s) else pw_of i db)"
  by (simp add: pw_of_def put_user_def user_by_id_put)

lemma pw_known: "pw_of i db = Some c \<Longrightarrow> i \<in> u_id ` set (ad_users db)"
  by (force simp: pw_of_def dest: user_by_idD)

lemma find_put_user:
  "user_by_id i (ad_users (put_user s db)) = (if i = u_id s then (if i \<in> u_id ` set (ad_users db) then Some s else None) else user_by_id i (ad_users db))"
  by (simp add: put_user_def user_by_id_put)

lemma persist_pw:
  assumes "persist env u db = Inr (db1, s)" "u_id u \<in> u_id ` set (ad_users db)"
  shows "pw_of i db1 = (if i = u_id u then Some (u_failedLoginAttempts u, u_lockUntil u) else pw_of i db)"
    and "user_by_id (u_id u) (ad_users db1) = Some s" and "u_id s = u_id u" "u_failedLoginAttempts s = u_failedLoginAttempts u"
    "u_lockUntil s = u_lockUntil u" "u_firmId s = u_firmId u"
proof -
  from assms(1) have p: "db1 = put_user s db" and s: "save_user (ae_enforceTeam env) (find_ref (ad_users db)) (user_by_id (u_id u) (ad_users db)) u = Inr s"
    by (auto simp: persist_def split: sum.splits)
  note f = save_userD(1,3,6,7) [OF s]
  show "u_id s = u_id u" "u_failedLoginAttempts s = u_failedLoginAttempts u" "u_lockUntil s = u_lockUntil u" "u_firmId s = u_firmId u" using f by simp_all
  show "pw_of i db1 = (if i = u_id u then Some (u_failedLoginAttempts u, u_lockUntil u) else pw_of i db)"
    using f assms(2) p by (simp add: pw_of_put)
  show "user_by_id (u_id u) (ad_users db1) = Some s" using f assms(2) p by (simp add: find_put_user)
qed

text \<open>What looking for the default client keeps of the password state.\<close>

definition keeps_passwords :: "user_doc \<Rightarrow> auth_db \<Rightarrow> user_doc \<Rightarrow> auth_db \<Rightarrow> bool" where
  "keeps_passwords u db u1 db1 \<longleftrightarrow> (\<forall>i. pw_of i db1 = pw_of i db) \<and> distinct_users db1 = distinct_users db
    \<and> u_id u1 = u_id u \<and> user_by_id (u_id u) (ad_users db1) = Some u1"

lemma link_pw:
  assumes "ensureUserDefaultClientLink env fr u db = Inr (db1, u1)" "user_by_id (u_id u) (ad_users db) = Some u"
  shows "keeps_passwords u db u1 db1"
proof -
  have known: "u_id u \<in> u_id ` set (ad_users db)" using user_by_idD [OF assms(2)] by blast
  have *: "keeps_passwords u db u1 db1"
    if p: "persist env (u\<lparr>u_defaultClientId := Some c\<rparr>) (db\<lparr>ad_tenants := td\<rparr>) = Inr (db1, u1)" for c td
  proof -
    have t: "pw_of i (db\<lparr>ad_tenants := td\<rparr>) = pw_of i db" "distinct_users (db\<lparr>ad_tenants := td\<rparr>) = distinct_users db" for i
      by (simp_all add: pw_of_def distinct_users_def)
    have "pw_of (u_id u) db = Some (u_failedLoginAttempts u, u_lockUntil u)" using assms(2) by (simp add: pw_of_def)
    with persist_pw [OF p] persistD(4) [OF p] known t show ?thesis by (auto simp: keeps_passwords_def)
  qed
  show ?thesis using assms * by (auto simp: ensureUserDefaultClientLink_def Let_def keeps_passwords_def split: if_splits sum.splits)
qed

lemma preconditions_Inr:
  assumes "validateTenantUserPreconditions env fr now user db = (db1, effs, Inr u1)"
    and "\<And>u. user = Some u \<Longrightarrow> user_by_id (u_id u) (ad_users db) = Some u"
  shows "\<exists>u. user = Some u \<and> keeps_passwords u db u1 db1" "effs = []" "\<not> isLocked now u1"
proof -
  from assms(1) obtain u where u: "user = Some u" and e: "effs = []" and l: "\<not> isLocked now u1"
    and d: "(if u_role u = Some ''Admin'' then ensureUserDefaultClientLink env fr u db else Inr (db, u)) = Inr (db1, u1)"
    by (auto simp: validateTenantUserPreconditions_def split: option.splits if_splits sum.splits prod.splits)
  have "keeps_passwords u db u1 db1"
    using d link_pw [OF _ assms(2) [OF u]] assms(2) [OF u] by (auto simp: keeps_passwords_def split: if_splits)
  with u e l show "\<exists>u. user = Some u \<and> keeps_passwords u db u1 db1" "effs = []" "\<not> isLocked now u1" by simp_all
qed

lemma preconditions_Inl:
  assumes "validateTenantUserPreconditions env fr now user db = (db1, effs, Inl rep)"
    and "\<And>u. user = Some u \<Longrightarrow> user_by_id (u_id u) (ad_users db) = Some u"
  shows "pw_of i db1 = pw_of i db" "distinct_users db1 = distinct_users db" "\<not> refused_password i (effs, rep)"
proof -
  have "db1 = db \<or> (\<exists>u u1. user = Some u \<and> ensureUserDefaultClientLink env fr u db = Inr (db1, u1))"
    using assms(1) by (auto simp: validateTenantUserPreconditions_def split: option.splits if_splits sum.splits prod.splits)
  then show "pw_of i db1 = pw_of i db" "distinct_users db1 = distinct_users db"
    using link_pw assms(2) by (auto simp: keeps_passwords_def)
  show "\<not> refused_password i (effs, rep)"
    using assms(1) by (auto simp: validateTenantUserPreconditions_def refused_password_def split: option.splits if_splits sum.splits prod.splits)
qed

subsection \<open>One login with a wrong password\<close>

lemma choose_candidate_in: "choose_candidate t us = Some u \<Longrightarrow> u \<in> set us"
  by (auto simp: choose_candidate_def find_Some_iff split: option.splits list.splits)

lemma find_same_id:
  "distinct (map u_id us) \<Longrightarrow> user_by_id (u_id u) us = Some u \<Longrightarrow> find (\<lambda>x. u_id x = u_id u \<and> u_firmId x = u_firmId u) us = Some u"
proof (induction us)
  case (Cons x us)
  then show ?case by (cases "u_id x = u_id u") (simp_all add: user_by_id_def)
qed (simp add: user_by_id_def)

lemma wrong_password:
  assumes "handlePasswordVerification env now u1 password db1 = (db2, effs, x)" "\<not> ae_compare env password (str_or_empty (u_passwordHash u1))"
    and "user_by_id (u_id u1) (ad_users db1) = Some u1" "distinct_users db1" "\<not> isLocked now u1"
  shows "\<exists>rep. x = Inl rep \<and> distinct_users db2 \<and> (i = u_id u1 \<or> pw_of i db2 = pw_of i db1 \<and> \<not> refused_password i (effs, rep))
    \<and> pw_of (u_id u1) db2 = Some (u_failedLoginAttempts u1 + 1,
        if u_failedLoginAttempts u1 + 1 \<ge> ae_maxFailed env then Some (now + ae_lockMs env) else u_lockUntil u1)"
proof -
  have found: "find (\<lambda>x. u_id x = u_id u1 \<and> u_firmId x = u_firmId u1) (ad_users db1) = Some u1"
    using assms(3,4) by (simp add: find_same_id distinct_users_def)
  have known: "u_id u1 \<in> u_id ` set (ad_users db1)" using user_by_idD [OF assms(3)] by blast
  have c: "u_id (count_failure env now u1) = u_id u1" "u_failedLoginAttempts (count_failure env now u1) = u_failedLoginAttempts u1 + 1"
    "u_lockUntil (count_failure env now u1) = (if u_failedLoginAttempts u1 + 1 \<ge> ae_maxFailed env then Some (now + ae_lockMs env) else u_lockUntil u1)"
    using assms(5) by (simp_all add: count_failure_def Let_def active_lock_def isLocked_def)
  have h: "handlePasswordVerification env now u1 password db1 =
      (let v = count_failure env now u1
       in if active_lock now v \<and> u_failedLoginAttempts v \<ge> ae_maxFailed env
          then (put_user v db1, [Failed_login_recorded, Audited ''AccountLocked'' (Some (u_id u1))], Inl (Refused 403 ''ACCOUNT_TEMP_LOCKED'' (Some (ae_lockMs env div 1000)) None))
          else (put_user v db1, [Failed_login_recorded, Audited ''LOGIN_FAILED'' (Some (u_id u1)), Login_failure_noted],
                 Inl (Refused 401 ''Invalid xID or password'' None (Some (ae_maxFailed env - u_failedLoginAttempts v)))))"
    using assms(2) found by (simp add: handlePasswordVerification_def Let_def)
  have "\<exists>rep es. handlePasswordVerification env now u1 password db1 = (put_user (count_failure env now u1) db1, es, Inl rep)
      \<and> (i \<noteq> u_id u1 \<longrightarrow> \<not> refused_password i (es, rep))"
    unfolding h Let_def by (cases "active_lock now (count_failure env now u1) \<and> ae_maxFailed env \<le> u_failedLoginAttempts (count_failure env now u1)")
      (simp_all add: refused_password_def)
  with assms(1) obtain rep where r: "x = Inl rep" "db2 = put_user (count_failure env now u1) db1"
    "i \<noteq> u_id u1 \<longrightarrow> \<not> refused_password i (effs, rep)" by auto
  have "i \<noteq> u_id u1 \<Longrightarrow> pw_of i db2 = pw_of i db1" using r(2) c(1) known by (simp add: pw_of_put)
  moreover have "pw_of (u_id u1) db2 = Some (u_failedLoginAttempts u1 + 1,
        if u_failedLoginAttempts u1 + 1 \<ge> ae_maxFailed env then Some (now + ae_lockMs env) else u_lockUntil u1)"
    using r(2) c known by (simp add: pw_of_put)
  moreover have "distinct_users db2" using r(2) assms(4) by simp
  ultimately show ?thesis using r(1,3) by blast
qed

text \<open>The effect of one login on the password state of the account \<open>i\<close>.\<close>

definition pw_outcome :: "auth_env \<Rightarrow> int \<Rightarrow> nat \<times> int option \<Rightarrow> (nat \<times> int option) option \<Rightarrow> bool \<Rightarrow> bool" where
  "pw_outcome env now st st' refused \<longleftrightarrow>
    st' = Some st \<and> \<not> refused
    \<or> (case snd st of None \<Rightarrow> True | Some l \<Rightarrow> l \<le> now)
      \<and> st' = Some (fst st + 1, if fst st + 1 \<ge> ae_maxFailed env then Some (now + ae_lockMs env) else snd st)"

lemma login_steps_pw:
  assumes l: "login_steps env fr now r password user db = (db', effs, rep)" and "distinct_users db" "pw_of i db = Some st"
    and "\<And>h. \<not> ae_compare env password h" and user: "\<And>u. user = Some u \<Longrightarrow> user_by_id (u_id u) (ad_users db) = Some u"
  shows "distinct_users db' \<and> pw_outcome env now st (pw_of i db') (refused_password i (effs, rep))"
proof -
  obtain db1 effs1 x where v: "validateTenantUserPreconditions env fr now user db = (db1, effs1, x)"
    by (cases "validateTenantUserPreconditions env fr now user db") auto
  show ?thesis
  proof (cases x)
    case (Inl rep1)
    with v l have "db' = db1" "effs = effs1" "rep = rep1" by (auto simp: login_steps_def)
    with preconditions_Inl [OF v [unfolded Inl] user] assms(2,3) show ?thesis by (simp add: pw_outcome_def)
  next
    case (Inr u1)
    from preconditions_Inr [OF v [unfolded Inr] user]
    obtain u where u: "user = Some u" "keeps_passwords u db u1 db1" and e: "effs1 = []" and nl: "\<not> isLocked now u1" by blast
    obtain db2 effs2 y where h: "handlePasswordVerification env now u1 password db1 = (db2, effs2, y)"
      by (cases "handlePasswordVerification env now u1 password db1") auto
    have k: "user_by_id (u_id u1) (ad_users db1) = Some u1" "distinct_users db1" "pw_of i db1 = Some st"
      using u(2) assms(2,3) by (auto simp: keeps_passwords_def)
    from wrong_password [OF h assms(4) k(1,2) nl, of i]
    obtain rep2 where w: "y = Inl rep2" "distinct_users db2" "i = u_id u1 \<or> pw_of i db2 = pw_of i db1 \<and> \<not> refused_password i (effs2, rep2)"
      "pw_of (u_id u1) db2 = Some (u_failedLoginAttempts u1 + 1,
        if u_failedLoginAttempts u1 + 1 \<ge> ae_maxFailed env then Some (now + ae_lockMs env) else u_lockUntil u1)" by blast
    have r: "db' = db2" "effs = effs2" "rep = rep2" using l v Inr h w(1) e by (auto simp: login_steps_def)
    show ?thesis
    proof (cases "i = u_id u1")
      case True
      with k(1,3) have "st = (u_failedLoginAttempts u1, u_lockUntil u1)" by (simp add: pw_of_def)
      with True w(2,4) r nl show ?thesis by (auto simp: pw_outcome_def isLocked_def split: option.splits)
    next
      case False
      with w r k(3) show ?thesis by (auto simp: pw_outcome_def)
    qed
  qed
qed

lemma login_cases:
  assumes "login env fr now r db = (db', effs, rep)" "\<And>h. \<not> ae_compare env (str_or_empty (sq_password r)) h"
  shows "db' = db \<and> \<not> refused_password i (effs, rep)
    \<or> login_steps env fr now r (str_or_empty (sq_password r)) (choose_candidate (str_or_empty (sq_firmId r))
         (login_candidates (buildTenantCandidateIds r) (js_upper (js_trim (str_or_empty (sq_xid r)))) (ad_users db))) db = (db', effs, rep)"
  using assms by (simp add: login_def handleSuperadminLogin_def Let_def split: if_splits) (auto simp: refused_password_def)

lemma login_pw:
  assumes "login env fr now r db = (db', effs, rep)" "distinct_users db" "pw_of i db = Some st"
    and "\<And>h. \<not> ae_compare env (str_or_empty (sq_password r)) h"
  shows "distinct_users db' \<and> pw_outcome env now st (pw_of i db') (refused_password i (effs, rep))"
proof -
  let ?user = "choose_candidate (str_or_empty (sq_firmId r))
     (login_candidates (buildTenantCandidateIds r) (js_upper (js_trim (str_or_empty (sq_xid r)))) (ad_users db))"
  have user: "user_by_id (u_id u) (ad_users db) = Some u" if "?user = Some u" for u
  proof -
    have "u \<in> set (ad_users db)" using choose_candidate_in [OF that] by (simp add: login_candidates_def)
    with assms(2) show ?thesis by (simp add: distinct_users_def user_by_id_distinct)
  qed
  from login_cases [OF assms(1,4), of i] show ?thesis
  proof
    assume "db' = db \<and> \<not> refused_password i (effs, rep)"
    with assms(2,3) show ?thesis by (simp add: pw_outcome_def)
  next
    assume "login_steps env fr now r (str_or_empty (sq_password r)) ?user db = (db', effs, rep)"
    from login_steps_pw [OF this assms(2,3,4) user] show ?thesis .
  qed
qed

subsection \<open>Any sequence of logins\<close>

fun run_login :: "auth_env \<Rightarrow> (int \<times> fresh \<times> signin_req) list \<Rightarrow> auth_db \<Rightarrow> (auth_effect list \<times> reply) list" where
  "run_login env [] db = []"
| "run_login env ((now, fr, r) # rs) db = (case login env fr now r db of (db', er) \<Rightarrow> er # run_login env rs db')"

text \<open>The refusals still possible before the instant \<open>e\<close>.\<close>

definition refusals_left :: "auth_env \<Rightarrow> int \<Rightarrow> nat \<times> int option \<Rightarrow> nat" where
  "refusals_left env e st =
    (if (case snd st of None \<Rightarrow> False | Some l \<Rightarrow> e \<le> l) then 0 else max 1 (ae_maxFailed env - fst st))"

lemma refusals_left_step:
  assumes "pw_outcome env now st x refused" "t \<le> now" "now < t + ae_lockMs env"
  obtains st' where "x = Some st'"
    "refusals_left env (t + ae_lockMs env) st' + (if refused then 1 else 0) \<le> refusals_left env (t + ae_lockMs env) st"
proof (cases "x = Some st \<and> \<not> refused")
  case True
  with that [of st] show ?thesis by simp
next
  case False
  define st' where "st' = (fst st + 1, if fst st + 1 \<ge> ae_maxFailed env then Some (now + ae_lockMs env) else snd st)"
  from False assms(1) have x: "x = Some st'" and open': "case snd st of None \<Rightarrow> True | Some l \<Rightarrow> l \<le> now"
    by (auto simp: pw_outcome_def st'_def)
  have "refusals_left env (t + ae_lockMs env) st = max 1 (ae_maxFailed env - fst st)"
    using open' assms(3) by (auto simp: refusals_left_def split: option.splits)
  moreover have "refusals_left env (t + ae_lockMs env) st' + 1 \<le> max 1 (ae_maxFailed env - fst st)"
  proof (cases "fst st + 1 \<ge> ae_maxFailed env")
    case True
    with assms(2) show ?thesis by (simp add: st'_def refusals_left_def)
  next
    case False
    then show ?thesis by (auto simp: st'_def refusals_left_def)
  qed
  ultimately show ?thesis using that [OF x] by simp
qed

lemma password_bound:
  assumes "distinct_users db" "pw_of i db = Some st"
    and "\<forall>q\<in>set rs. t \<le> fst q \<and> fst q < t + ae_lockMs env \<and> (\<forall>h. \<not> ae_compare env (str_or_empty (sq_password (snd (snd q)))) h)"
  shows "length (filter (refused_password i) (run_login env rs db)) \<le> refusals_left env (t + ae_lockMs env) st"
  using assms
proof (induction rs arbitrary: db st)
  case Nil
  then show ?case by simp
next
  case (Cons q rs)
  obtain now fr r where q: "q = (now, fr, r)" by (cases q)
  obtain db' effs rep where v: "login env fr now r db = (db', effs, rep)" by (cases "login env fr now r db") auto
  have now: "t \<le> now" "now < t + ae_lockMs env" and wrong: "\<And>h. \<not> ae_compare env (str_or_empty (sq_password r)) h"
    using Cons.prems(3) q by auto
  from login_pw [OF v Cons.prems(1,2) wrong]
  have d: "distinct_users db'" and o: "pw_outcome env now st (pw_of i db') (refused_password i (effs, rep))" by simp_all
  from o obtain st' where st': "pw_of i db' = Some st'"
    "refusals_left env (t + ae_lockMs env) st' + (if refused_password i (effs, rep) then 1 else 0) \<le> refusals_left env (t + ae_lockMs env) st"
    using now by (elim refusals_left_step) blast
  have "length (filter (refused_password i) (run_login env rs db')) \<le> refusals_left env (t + ae_lockMs env) st'"
    using Cons.prems(3) by (intro Cons.IH [OF d st'(1)]) auto
  with st'(2) v q show ?case by (auto split: if_splits)
qed


text \<open>Seven wrong passwords: five are answered.\<close>

definition sample_signin :: "string \<Rightarrow> signin_req" where
  "sample_signin password = (sample_guess [])\<lparr>sq_xid := Some ''x000001'', sq_password := Some password\<rparr>"

definition sample_account_db :: auth_db where
  "sample_account_db = sample_auth_db\<lparr>ad_users := [blank_user\<lparr>u_passwordHash := Some ''#Secret1!''\<rparr>],
     ad_tenants := \<lparr>td_clients = [\<lparr>tc_id = ''F1'', tc_firmId = Some ''F1'', tc_isDefaultClient = True, tc_firmSlug = Some ''acme'', tc_status = None\<rparr>],
       td_firms = [\<lparr>tf_id = ''F0'', tf_defaultClientId = None, tf_firmSlug = None, tf_status = None\<rparr>]\<rparr>\<rparr>"

definition sample_wrong_env :: auth_env where
  "sample_wrong_env = sample_env\<lparr>ae_compare := (\<lambda>p h. h = CHR ''#'' # p \<and> p = ''Secret1!'')\<rparr>"

definition sample_logins :: "(int \<times> fresh \<times> signin_req) list" where
  "sample_logins = map (\<lambda>k. (int k * 60000, sample_fresh, sample_signin ''guess'')) [1..<8]"


end
