(* ===== verification/AuthSession.thy ===== *)
theory AuthSession
  imports SignInHandlers Decimal
begin

section \<open>Sessions\<close>

text \<open>
  \<open>services/authSession.service.js\<close> (cookies, refresh, logout), the parts of \<open>services/jwt.service.js\<close>
  that are not the signature, \<open>utils/requestCookies.js\<close> and \<open>middleware/auth.middleware.js\<close>.  The
  verification of a signed token and \<open>decodeURIComponent\<close> are arguments.  A setting of the cookie age
  that is not a number is outside the model.
\<close>

subsection \<open>Cookies\<close>

record cookie_env =
  ce_production :: bool
  ce_sameSite :: "string option"
  ce_crossSite :: "string option"
  ce_domain :: "string option"
  ce_refreshMs :: int

record cookie_options =
  co_httpOnly :: bool
  co_secure :: bool
  co_sameSite :: string
  co_path :: string
  co_domain :: "string option"
  co_maxAge :: "int option"

definition setting :: "string option \<Rightarrow> string" where
  "setting v = js_lower (js_trim (str_or_empty v))"

definition normalizedCookieSameSite :: "cookie_env \<Rightarrow> string" where
  "normalizedCookieSameSite e =
    (let configured = setting (ce_sameSite e)
     in if configured = ''strict'' \<or> configured = ''lax'' then configured
        else if configured = ''none'' then ''none''
        else if ce_production e \<and> setting (ce_crossSite e) = ''true'' then ''none''
        else ''lax'')"

text \<open>\<open>replace(/^https?:\/\//i, '').replace(/\/.*$/, '')\<close>.\<close>

definition drop_scheme :: "string \<Rightarrow> string" where
  "drop_scheme s =
    (if js_lower (take 8 s) = ''https://'' then drop 8 s else if js_lower (take 7 s) = ''http://'' then drop 7 s else s)"

definition ends_with :: "string \<Rightarrow> string \<Rightarrow> bool" where
  "ends_with suf s \<longleftrightarrow> length suf \<le> length s \<and> drop (length s - length suf) s = suf"

definition normalizedCookieDomain :: "cookie_env \<Rightarrow> string option" where
  "normalizedCookieDomain e =
    (let configured = js_trim (str_or_empty (ce_domain e))
     in if configured = [] then None
        else (let n = js_lower (js_trim (takeWhile (\<lambda>c. c \<noteq> CHR ''/'') (drop_scheme configured)))
              in if n = [] \<or> CHR '':'' \<in> set n then None
                 else if n = ''localhost'' \<or> ends_with ''.onrender.com'' n \<or> n = ''onrender.com'' then None
                 else Some n))"

definition getAuthCookieOptions :: "cookie_env \<Rightarrow> int option \<Rightarrow> cookie_options" where
  "getAuthCookieOptions e maxAge =
    \<lparr>co_httpOnly = True, co_secure = (ce_production e \<or> normalizedCookieSameSite e = ''none''), co_sameSite = normalizedCookieSameSite e,
     co_path = ''/'', co_domain = normalizedCookieDomain e, co_maxAge = maxAge\<rparr>"

definition SESSION_IDLE_TIMEOUT_MS :: int where
  "SESSION_IDLE_TIMEOUT_MS = 3 * 60 * 60 * 1000"

text \<open>The cookies a response sets: name, value, options.\<close>

definition setAuthCookies :: "cookie_env \<Rightarrow> string option \<Rightarrow> string option \<Rightarrow> int option \<Rightarrow> (string \<times> string \<times> cookie_options) list" where
  "setAuthCookies e accessToken refreshToken refreshMaxAge =
    (let refreshMs = max (case refreshMaxAge of Some n \<Rightarrow> n | None \<Rightarrow> ce_refreshMs e) SESSION_IDLE_TIMEOUT_MS
     in (if truthy accessToken then [(''accessToken'', str_or_empty accessToken, getAuthCookieOptions e (Some (15 * 60 * 1000)))] else [])
        @ (if truthy refreshToken then [(''refreshToken'', str_or_empty refreshToken, getAuthCookieOptions e (Some refreshMs))] else []))"

definition clearAuthCookies :: "cookie_env \<Rightarrow> (string \<times> cookie_options) list" where
  "clearAuthCookies e = [(''accessToken'', getAuthCookieOptions e None), (''refreshToken'', getAuthCookieOptions e None)]"

text \<open>\<open>parseCookieHeader\<close>: the first value of each name; assigning a string to \<open>__proto__\<close> leaves no own property.\<close>

fun split_on :: "char \<Rightarrow> string \<Rightarrow> string list" where
  "split_on c [] = [[]]"
| "split_on c (x # xs) = (if x = c then [] # split_on c xs else (case split_on c xs of [] \<Rightarrow> [[x]] | y # ys \<Rightarrow> (x # y) # ys))"

definition cookie_entry :: "(string \<Rightarrow> string option) \<Rightarrow> string \<Rightarrow> (string \<times> string) option" where
  "cookie_entry decode entry =
    (let cookie = js_trim entry; key = js_trim (takeWhile (\<lambda>c. c \<noteq> CHR ''='') cookie);
         rawValue = js_trim (drop 1 (dropWhile (\<lambda>c. c \<noteq> CHR ''='') cookie))
     in if cookie = [] \<or> key = [] then None
        else Some (key, case decode rawValue of Some v \<Rightarrow> v | None \<Rightarrow> rawValue))"

definition parseCookieHeader :: "(string \<Rightarrow> string option) \<Rightarrow> string option \<Rightarrow> (string \<times> string) list" where
  "parseCookieHeader decode header =
    (if \<not> truthy header then []
     else fold (\<lambda>e cs. case cookie_entry decode e of None \<Rightarrow> cs | Some (k, v) \<Rightarrow> if k \<in> fst ` set cs \<or> k = ''__proto__'' then cs else cs @ [(k, v)])
            (split_on CHR '';'' (str_or_empty header)) [])"

definition getCookieValue :: "(string \<Rightarrow> string option) \<Rightarrow> string option \<Rightarrow> string \<Rightarrow> string option" where
  "getCookieValue decode header name = (if name = [] then None else map_of (parseCookieHeader decode header) name)"

subsection \<open>Tokens\<close>

text \<open>\<open>parseRefreshExpiryMs\<close>: \<open>/^(\d+)\s*([smhd])?$/i\<close>.\<close>

definition default_refresh_ms :: int where
  "default_refresh_ms = 7 * 24 * 60 * 60 * 1000"

definition TIME_UNIT_MS :: "(string \<times> int) list" where
  "TIME_UNIT_MS = [(''s'', 1000), (''m'', 60 * 1000), (''h'', 60 * 60 * 1000), (''d'', 24 * 60 * 60 * 1000)]"

definition parseRefreshExpiryMs :: "string option \<Rightarrow> int" where
  "parseRefreshExpiryMs raw =
    (if \<not> truthy raw then default_refresh_ms
     else (let s = js_trim (str_or_empty raw); digits = takeWhile is_digit s;
               rest = js_lower (dropWhile js_space (dropWhile is_digit s));
               unit = (if rest = [] then ''d'' else rest); value = int (parse_dec digits)
           in if digits = [] then default_refresh_ms
              else (case map_of TIME_UNIT_MS unit of None \<Rightarrow> default_refresh_ms
                | Some ms \<Rightarrow> if value \<le> 0 then default_refresh_ms else value * ms)))"

definition extractTokenFromHeader :: "string option \<Rightarrow> string option" where
  "extractTokenFromHeader authHeader =
    (if \<not> truthy authHeader then None
     else case split_on CHR '' '' (str_or_empty authHeader) of [scheme, token] \<Rightarrow> if scheme = ''Bearer'' then Some token else None
       | _ \<Rightarrow> None)"

subsection \<open>Refresh\<close>

datatype refresh_plan = Plan_refused reply | Plan_superadmin refresh_token | Plan_tenant refresh_token user_doc

definition refresh_refused :: "string \<Rightarrow> string \<Rightarrow> auth_effect list \<times> refresh_plan" where
  "refresh_refused reason message = ([Refresh_failure_noted reason, Cookies_cleared], Plan_refused (Refused 401 message None None))"

definition find_token :: "string \<Rightarrow> auth_db \<Rightarrow> refresh_token option" where
  "find_token h db = find (\<lambda>t. rk_tokenHash t = h) (ad_tokens db)"

text \<open>What a refresh reads and decides, before it writes.\<close>

definition refresh_read :: "auth_env \<Rightarrow> int \<Rightarrow> string option \<Rightarrow> auth_db \<Rightarrow> auth_effect list \<times> refresh_plan" where
  "refresh_read env now cookie db =
    (if \<not> truthy cookie then ([Cookies_cleared], Plan_refused (Refused 401 ''Authentication required'' None None))
     else (case find_token (ae_sha env (str_or_empty cookie)) db of
       None \<Rightarrow> refresh_refused ''invalid_refresh_token'' ''Invalid or expired refresh token''
     | Some t \<Rightarrow>
        if rk_expiresAt t \<le> now then refresh_refused ''invalid_refresh_token'' ''Invalid or expired refresh token''
        else if rk_isRevoked t then refresh_refused ''revoked_refresh_token'' ''Invalid or expired refresh token''
        else (let scope = js_lower (js_trim (str_or_empty (rk_scope t)))
              in if scope = ''superadmin''
                 then (if \<not> truthy (ae_superadminId env) then refresh_refused ''refresh_not_supported'' ''Session refresh is not supported for SuperAdmin accounts''
                       else ([Refresh_noted], Plan_superadmin t))
                 else if scope \<noteq> [] \<and> scope \<noteq> ''tenant''
                 then refresh_refused ''refresh_not_supported'' ''Session refresh is not supported for this token scope''
                 else if \<not> truthy (rk_userId t) \<or> \<not> truthy (rk_firmId t)
                 then refresh_refused ''refresh_missing_context'' ''Invalid refresh token scope''
                 else (case find (\<lambda>u. Some (u_id u) = rk_userId t \<and> u_firmId u = rk_firmId t) (ad_users db) of
                         None \<Rightarrow> refresh_refused ''refresh_user_not_found'' ''User not found or inactive''
                       | Some u \<Rightarrow>
                          if \<not> isActiveStatus (u_status u) then refresh_refused ''refresh_user_not_found'' ''User not found or inactive''
                          else ([Refresh_noted], Plan_tenant t u)))))"

definition revoke_token :: "int \<Rightarrow> string \<Rightarrow> auth_db \<Rightarrow> auth_db" where
  "revoke_token now h db =
    db\<lparr>ad_tokens := map (\<lambda>t. if rk_tokenHash t = h then t\<lparr>rk_isRevoked := True, rk_lastUsedAt := Some now\<rparr> else t) (ad_tokens db)\<rparr>"

definition getFirmSlug :: "tenant_db \<Rightarrow> string option \<Rightarrow> string option" where
  "getFirmSlug td firmId = (if \<not> truthy firmId then None else js_or (Option.bind (resolveCanonicalTenantFromFirmId td firmId) tx_firmSlug) None)"

text \<open>What it writes: the old token is revoked, whatever became of it since it was read, and a new one issued.\<close>

definition refresh_write :: "auth_env \<Rightarrow> fresh \<Rightarrow> int \<Rightarrow> refresh_plan \<Rightarrow> auth_db \<Rightarrow> reply step" where
  "refresh_write env fr now p db =
    (case p of
       Plan_refused r \<Rightarrow> (db, [], r)
     | Plan_superadmin t \<Rightarrow>
        (let db1 = revoke_token now (rk_tokenHash t) db;
             cl = \<lparr>ac_userId = str_or_empty (ae_superadminId env), ac_role = Some ''SUPERADMIN'', ac_firmId = None, ac_firmSlug = None, ac_defaultClientId = None\<rparr>
         in case generateAndStoreRefreshToken env (fr_refreshToken fr) now None None (Some ''superadmin'') db1 of
              Inl e \<Rightarrow> (db1, [], Refused 500 ''Error refreshing token'' None None)
            | Inr db2 \<Rightarrow> (db2, [Cookies_set cl (fr_refreshToken fr)], Session_started cl False))
     | Plan_tenant t u \<Rightarrow>
        (let db1 = revoke_token now (rk_tokenHash t) db;
             cl = \<lparr>ac_userId = u_id u, ac_role = u_role u, ac_firmId = js_or (u_firmId u) None,
                   ac_firmSlug = getFirmSlug (ad_tenants db) (u_firmId u), ac_defaultClientId = js_or (u_defaultClientId u) None\<rparr>
         in case generateAndStoreRefreshToken env (fr_refreshToken fr) now (Some (u_id u)) (u_firmId u) (Some ''tenant'') db1 of
              Inl e \<Rightarrow> (db1, [], Refused 500 ''Error refreshing token'' None None)
            | Inr db2 \<Rightarrow> (db2, [Cookies_set cl (fr_refreshToken fr), Audited ''TokenRefreshed'' (Some (u_id u))], Session_started cl False)))"

definition refreshAccessToken :: "auth_env \<Rightarrow> fresh \<Rightarrow> int \<Rightarrow> string option \<Rightarrow> auth_db \<Rightarrow> reply step" where
  "refreshAccessToken env fr now cookie db =
    (case refresh_read env now cookie db of
       (effs, p) \<Rightarrow> (case refresh_write env fr now p db of (db', effs', r) \<Rightarrow> (db', effs @ effs', r)))"

subsection \<open>Logout\<close>

text \<open>The platform administrator has no stored user and keeps the stored token.\<close>

definition logoutHandler :: "user_doc \<Rightarrow> auth_db \<Rightarrow> reply step" where
  "logoutHandler u db =
    (if isSuperAdminRole (u_role u) then (db, [Cookies_cleared], Ok ''Logout successful'')
     else (db\<lparr>ad_tokens := map (\<lambda>t. if rk_userId t = Some (u_id u) \<and> \<not> rk_isRevoked t then t\<lparr>rk_isRevoked := True\<rparr> else t) (ad_tokens db)\<rparr>,
           [Sockets_disconnected (u_id u), Audited ''Logout'' (Some (u_id u)), Cookies_cleared], Ok ''Logout successful''))"

subsection \<open>Authentication of a request\<close>

record auth_http =
  ah_method :: string
  ah_cookie :: "string option"
  ah_cookieHeader :: "string option"
  ah_authorization :: "string option"
  ah_rawPath :: string
  ah_path :: string
  ah_basePath :: string
  ah_impersonation :: bool

definition MUST_SET_ALLOWED_PATHS :: "string list" where
  "MUST_SET_ALLOWED_PATHS =
    [''/auth/profile'', ''/api/auth/profile'', ''/auth/setup-account'', ''/api/auth/setup-account'', ''/auth/reset-password'',
     ''/api/auth/reset-password'', ''/auth/reset-password-with-token'', ''/api/auth/reset-password-with-token'']"

record auth_context =
  ax_userId :: string
  ax_role :: "string option"
  ax_userFirmId :: "string option"
  ax_tenantId :: "string option"
  ax_defaultClientId :: "string option"
  ax_firmSlug :: "string option"

datatype auth_result = Unauthenticated_pass | Denied nat string | Platform_admin string | Authenticated auth_context

definition request_token :: "(string \<Rightarrow> string option) \<Rightarrow> auth_http \<Rightarrow> string option" where
  "request_token decode r =
    (let auth = str_or_empty (ah_authorization r);
         bearer = (if take 7 auth = ''Bearer '' then js_trim (drop 7 auth) else [])
     in js_or (js_or (ah_cookie r) (getCookieValue decode (ah_cookieHeader r) ''accessToken'')) (Some bearer))"

definition getFirmInactiveCode :: "string option \<Rightarrow> string" where
  "getFirmInactiveCode status =
    (let n = setting status in if n = ''suspended'' then ''FIRM_SUSPENDED'' else if n = ''inactive'' then ''FIRM_INACTIVE'' else ''FIRM_NOT_ACTIVE'')"

text \<open>The status of the firm the token is for: its default client, else the legacy firm.\<close>

definition firm_blocked :: "tenant_db \<Rightarrow> tenant_context option \<Rightarrow> string \<Rightarrow> string option" where
  "firm_blocked td x tenantId =
    (case find_default_client tenantId td of
       Some c \<Rightarrow> if truthy (tc_status c) \<and> \<not> isActiveStatus (tc_status c) then Some (getFirmInactiveCode (tc_status c)) else None
     | None \<Rightarrow>
        (case Option.bind x tx_legacyFirmId of None \<Rightarrow> None
         | Some f \<Rightarrow> (case find_firm f td of None \<Rightarrow> None
             | Some firm \<Rightarrow> if \<not> isActiveStatus (tf_status firm) then Some (getFirmInactiveCode (tf_status firm)) else None)))"

definition path_candidates :: "auth_http \<Rightarrow> string list" where
  "path_candidates r = filter (\<lambda>p. p \<noteq> []) [ah_rawPath r, ah_path r, ah_basePath r @ ah_path r]"

definition ends_path :: "auth_http \<Rightarrow> string \<Rightarrow> bool" where
  "ends_path r suf \<longleftrightarrow> ends_with suf (ah_rawPath r) \<or> ends_with suf (ah_path r)"

definition effective_role :: "string option \<Rightarrow> string option \<Rightarrow> string option" where
  "effective_role tokenRole databaseRole =
    (if truthy tokenRole \<and> truthy databaseRole \<and> normalizeRole tokenRole \<noteq> normalizeRole databaseRole then databaseRole
     else js_or tokenRole (js_or databaseRole None))"

definition authenticate_user :: "auth_http \<Rightarrow> claims \<Rightarrow> user_doc \<Rightarrow> tenant_db \<Rightarrow> auth_result" where
  "authenticate_user r cl u td =
    (let x = resolveCanonicalTenantForUser td (Some (tenant_of_user u)); tenantId = runtime_tenant td u;
         clientId = js_or (Option.bind x tx_defaultClientId) (js_or (u_defaultClientId u) None);
         slug = js_or (Option.bind x tx_firmSlug) (js_or (ac_firmSlug cl) None)
     in if u_lockedByAdmin u then Denied 403 ''ACCOUNT_LOCKED_BY_ADMIN''
        else if \<not> isActiveStatus (u_status u) then Denied 403 ''Account is deactivated. Please contact administrator.''
        else if u_mustSetPassword u \<and> \<not> (\<exists>p\<in>set (path_candidates r). p \<in> set MUST_SET_ALLOWED_PATHS) then Denied 403 ''PASSWORD_SETUP_REQUIRED''
        else if u_role u \<noteq> Some ''SUPER_ADMIN'' \<and> truthy tenantId \<and> truthy (ac_firmId cl) \<and> tenantId \<noteq> ac_firmId cl
        then Denied 403 ''Firm access violation detected.''
        else if u_role u \<noteq> Some ''SUPER_ADMIN'' \<and> truthy tenantId \<and> firm_blocked td x (str_or_empty tenantId) \<noteq> None
        then Denied 403 (str_or_empty (firm_blocked td x (str_or_empty tenantId)))
        else if u_mustChangePassword u \<and> \<not> ends_path r ''/change-password'' \<and> \<not> ends_path r ''/profile'' \<and> \<not> ends_path r ''/refresh''
                \<and> u_role u \<noteq> Some ''Admin''
        then Denied 403 ''You must change your password before accessing other resources.''
        else if \<not> truthy (u_role u) \<and> \<not> truthy (ac_role cl) then Denied 401 ''AUTH_ROLE_MISSING''
        else if u_role u \<noteq> Some ''SUPER_ADMIN'' \<and> (\<not> truthy tenantId \<or> \<not> truthy clientId) then Denied 403 ''TENANT_CONTEXT_REQUIRED''
        else Authenticated \<lparr>ax_userId = u_id u, ax_role = effective_role (ac_role cl) (u_role u),
               ax_userFirmId = js_or (Option.bind x tx_ownershipFirmId) (js_or tenantId (js_or (ac_firmId cl) None)),
               ax_tenantId = js_or tenantId (js_or (ac_firmId cl) None),
               ax_defaultClientId = js_or clientId (js_or (ac_defaultClientId cl) None), ax_firmSlug = slug\<rparr>)"

text \<open>\<open>verify\<close> is \<open>verifyAccessToken\<close>: the message of its error or the claims.\<close>

definition authenticate ::
  "(string \<Rightarrow> string option) \<Rightarrow> (string \<Rightarrow> string + claims) \<Rightarrow> auth_env \<Rightarrow> auth_http \<Rightarrow> auth_db \<Rightarrow> auth_result" where
  "authenticate decode verify env r db =
    (if ah_method r = ''OPTIONS'' then Unauthenticated_pass
     else if \<not> truthy (request_token decode r) then Denied 401 ''Authentication required. Please provide a valid token.''
     else (case verify (str_or_empty (request_token decode r)) of
             Inl e \<Rightarrow> Denied 401 (if e = ''Token expired'' then ''TOKEN_EXPIRED'' else ''Invalid token. Please log in again.'')
           | Inr cl \<Rightarrow>
              if Some (ac_userId cl) = ae_superadminId env \<and> isSuperAdminRole (ac_role cl)
              then (if ah_impersonation r then Denied 403 ''impersonation_disabled_no_session_store'' else Platform_admin (ac_userId cl))
              else (case user_by_id (ac_userId cl) (ad_users db) of
                      None \<Rightarrow> Denied 401 ''Invalid authentication credentials.''
                    | Some u \<Rightarrow> authenticate_user r cl u (ad_tenants db))))"

end
