(* ===== verification/AuthProperties.thy ===== *)
theory AuthProperties
  imports AuthSession SignInProperties
begin

section \<open>What sessions guarantee\<close>

text \<open>
  Refresh tokens are used once when requests follow each other, and twice when they overlap; logging out ends
  the sessions of a user; and what a request that passes \<open>authenticate\<close> has been checked for.
\<close>

fun started :: "reply \<Rightarrow> bool" where
  "started (Session_started cl m) = True"
| "started r = False"

text \<open>A token that exists and is revoked.\<close>

definition spent :: "string \<Rightarrow> auth_db \<Rightarrow> bool" where
  "spent h db \<longleftrightarrow> (\<exists>t. find_token h db = Some t \<and> rk_isRevoked t)"

definition live_tokens :: "auth_db \<Rightarrow> nat" where
  "live_tokens db = length (filter (\<lambda>t. \<not> rk_isRevoked t) (ad_tokens db))"

lemma session_started_iff: "started r \<longleftrightarrow> (\<exists>cl m. r = Session_started cl m)"
  by (cases r) auto

lemma find_map_revoke:
  "find (\<lambda>t. rk_tokenHash t = h) (map (\<lambda>t. if rk_tokenHash t = k then t\<lparr>rk_isRevoked := True, rk_lastUsedAt := Some now\<rparr> else t) ts) =
    map_option (\<lambda>t. if rk_tokenHash t = k then t\<lparr>rk_isRevoked := True, rk_lastUsedAt := Some now\<rparr> else t) (find (\<lambda>t. rk_tokenHash t = h) ts)"
  by (induction ts) auto

lemma find_token_revoke:
  "find_token h (revoke_token now k db) =
    map_option (\<lambda>t. if rk_tokenHash t = k then t\<lparr>rk_isRevoked := True, rk_lastUsedAt := Some now\<rparr> else t) (find_token h db)"
  using find_map_revoke [of h k now "ad_tokens db"] by (simp add: find_token_def revoke_token_def)

lemma find_token_append: "ad_tokens db' = ad_tokens db @ ts \<Longrightarrow> find_token h db = Some t \<Longrightarrow> find_token h db' = Some t"
  by (auto simp: find_token_def find_Some_iff nth_append)

lemma find_tokenD: "find_token h db = Some t \<Longrightarrow> t \<in> set (ad_tokens db) \<and> rk_tokenHash t = h"
  by (auto simp: find_token_def find_Some_iff)

lemma generate_tokens:
  "generateAndStoreRefreshToken env token now i f sc db = Inr db' \<Longrightarrow>
    \<exists>s. ad_tokens db' = ad_tokens db @ [\<lparr>rk_tokenHash = ae_sha env token, rk_userId = i, rk_firmId = f, rk_scope = Some s,
              rk_expiresAt = now + ae_refreshMs env, rk_isRevoked = False, rk_lastUsedAt = None\<rparr>]"
  by (auto simp: generateAndStoreRefreshToken_def res_bind_Inr_iff split: option.splits)

lemma refresh_read_plan:
  assumes "refresh_read env now cookie db = (effs, p)" "p = Plan_superadmin t \<or> p = Plan_tenant t u"
  shows "truthy cookie" "find_token (ae_sha env (str_or_empty cookie)) db = Some t" "\<not> rk_isRevoked t" "now < rk_expiresAt t"
  using assms by (auto simp: refresh_read_def refresh_refused_def Let_def split: if_splits option.splits)

lemma refresh_read_refused: "refresh_read env now cookie db = (effs, Plan_refused r) \<Longrightarrow> \<not> started r"
  by (auto simp: refresh_read_def refresh_refused_def session_started_iff Let_def split: if_splits option.splits)

text \<open>What one refresh does to the stored tokens.\<close>

lemma refresh_cases:
  assumes "refreshAccessToken env fr now cookie db = (db', effs, r)"
  obtains "db' = db" "\<not> started r"
  | t where "find_token (ae_sha env (str_or_empty cookie)) db = Some t" "\<not> rk_isRevoked t"
      "ad_tokens db' = ad_tokens (revoke_token now (rk_tokenHash t) db) \<and> \<not> started r
        \<or> (\<exists>n. ad_tokens db' = ad_tokens (revoke_token now (rk_tokenHash t) db) @ [n] \<and> started r)"
proof -
  obtain es p where p: "refresh_read env now cookie db = (es, p)" by (cases "refresh_read env now cookie db")
  obtain es' where w: "refresh_write env fr now p db = (db', es', r)"
    using assms p by (auto simp: refreshAccessToken_def split: prod.splits)
  show ?thesis
  proof (cases p)
    case (Plan_refused q)
    with w refresh_read_refused [of env now cookie db es q] p show ?thesis by (intro that(1)) (auto simp: refresh_write_def)
  next
    case (Plan_superadmin t)
    have "ad_tokens db' = ad_tokens (revoke_token now (rk_tokenHash t) db) \<and> \<not> started r
        \<or> (\<exists>n. ad_tokens db' = ad_tokens (revoke_token now (rk_tokenHash t) db) @ [n] \<and> started r)"
      using w Plan_superadmin by (auto simp: refresh_write_def Let_def session_started_iff dest: generate_tokens split: sum.splits)
    with refresh_read_plan [OF p] Plan_superadmin show ?thesis by (intro that(2)) auto
  next
    case (Plan_tenant t u)
    have "ad_tokens db' = ad_tokens (revoke_token now (rk_tokenHash t) db) \<and> \<not> started r
        \<or> (\<exists>n. ad_tokens db' = ad_tokens (revoke_token now (rk_tokenHash t) db) @ [n] \<and> started r)"
      using w Plan_tenant by (auto simp: refresh_write_def Let_def session_started_iff dest: generate_tokens split: sum.splits)
    with refresh_read_plan [OF p] Plan_tenant show ?thesis by (intro that(2)) auto
  qed
qed

lemma spent_revoke: "spent h db \<Longrightarrow> spent h (revoke_token now k db)"
  unfolding spent_def find_token_revoke by (elim exE conjE) (simp split: if_splits)

lemma spent_append: "ad_tokens db' = ad_tokens db @ ts \<Longrightarrow> spent h db \<Longrightarrow> spent h db'"
  using find_token_append by (fastforce simp: spent_def)

lemma refresh_spent:
  assumes "refreshAccessToken env fr now cookie db = (db', effs, r)"
  shows "spent h db \<Longrightarrow> spent h db'" "started r \<Longrightarrow> spent (ae_sha env (str_or_empty cookie)) db'"
    and "spent (ae_sha env (str_or_empty cookie)) db \<Longrightarrow> \<not> started r"
proof -
  from assms show "spent h db \<Longrightarrow> spent h db'"
    by (cases rule: refresh_cases) (auto intro: spent_append spent_revoke spent_append [where ts = "[]"])
  from assms show "started r \<Longrightarrow> spent (ae_sha env (str_or_empty cookie)) db'"
  proof (cases rule: refresh_cases)
    case (2 t)
    have "spent (ae_sha env (str_or_empty cookie)) (revoke_token now (rk_tokenHash t) db)"
      using 2(1) by (simp add: spent_def find_token_revoke)
    moreover assume "started r"
    ultimately show ?thesis using 2(3) by (auto intro: spent_append)
  qed simp
  from assms show "spent (ae_sha env (str_or_empty cookie)) db \<Longrightarrow> \<not> started r"
    by (cases rule: refresh_cases) (auto simp: spent_def)
qed

lemma live_revoke:
  assumes "t \<in> set (ad_tokens db)" "\<not> rk_isRevoked t"
  shows "live_tokens (revoke_token now (rk_tokenHash t) db) < live_tokens db"
proof -
  have le: "length (filter (\<lambda>t. \<not> rk_isRevoked t) (map (\<lambda>s. if rk_tokenHash s = rk_tokenHash t then s\<lparr>rk_isRevoked := True, rk_lastUsedAt := Some now\<rparr> else s) ts))
      \<le> length (filter (\<lambda>t. \<not> rk_isRevoked t) ts)" for ts
    by (induction ts) auto
  obtain xs ys where "ad_tokens db = xs @ t # ys" using split_list [OF assms(1)] by blast
  then show ?thesis using assms(2) add_le_mono [OF le [of xs] le [of ys]]
    by (simp add: live_tokens_def revoke_token_def del: filter_map)
qed

lemma refresh_live:
  assumes "refreshAccessToken env fr now cookie db = (db', effs, r)"
  shows "live_tokens db' \<le> live_tokens db"
  using assms
proof (cases rule: refresh_cases)
  case (2 t)
  have "live_tokens (revoke_token now (rk_tokenHash t) db) < live_tokens db"
    using find_tokenD [OF 2(1)] 2(2) by (intro live_revoke) auto
  with 2(3) show ?thesis by (auto simp: live_tokens_def split: if_splits)
qed simp

fun run_refresh :: "auth_env \<Rightarrow> (int \<times> fresh \<times> string option) list \<Rightarrow> auth_db \<Rightarrow> auth_db \<times> (string \<times> bool) list" where
  "run_refresh env [] db = (db, [])"
| "run_refresh env ((now, fr, cookie) # rs) db =
    (case refreshAccessToken env fr now cookie db of
       (db1, effs, r) \<Rightarrow> (case run_refresh env rs db1 of (db2, out) \<Rightarrow> (db2, (ae_sha env (str_or_empty cookie), started r) # out)))"

lemma run_refresh_spent: "run_refresh env rs db = (db', out) \<Longrightarrow> spent h db \<Longrightarrow> filter (\<lambda>(k, ok). k = h \<and> ok) out = []"
proof (induction rs arbitrary: db out)
  case (Cons q rs)
  obtain now fr cookie where q: "q = (now, fr, cookie)" by (cases q)
  obtain db1 effs r where s: "refreshAccessToken env fr now cookie db = (db1, effs, r)"
    by (cases "refreshAccessToken env fr now cookie db") auto
  obtain out1 where o: "run_refresh env rs db1 = (db', out1)" "out = (ae_sha env (str_or_empty cookie), started r) # out1"
    using Cons.prems(1) s q by (auto split: prod.splits)
  show ?case using Cons.IH [OF o(1) refresh_spent(1) [OF s Cons.prems(2)]] refresh_spent(3) [OF s] Cons.prems(2) o(2) by auto
qed simp

text \<open>
  C18. Refresh tokens rotate: in any sequence of refresh requests, with any cookies and at any times, a stored
  token starts at most one new session, and refreshing never raises the number of tokens that are not revoked.
\<close>

theorem refresh_token_once:
  "case run_refresh env rs db of (db', out) \<Rightarrow>
     length (filter (\<lambda>(k, ok). k = h \<and> ok) out) \<le> 1 \<and> live_tokens db' \<le> live_tokens db"
proof (induction rs arbitrary: db)
  case Nil
  then show ?case by simp
next
  case (Cons q rs)
  obtain now fr cookie where q: "q = (now, fr, cookie)" by (cases q)
  obtain db1 effs r where s: "refreshAccessToken env fr now cookie db = (db1, effs, r)"
    by (cases "refreshAccessToken env fr now cookie db") auto
  obtain db' out1 where o: "run_refresh env rs db1 = (db', out1)" by (cases "run_refresh env rs db1")
  have "length (filter (\<lambda>(k, ok). k = h \<and> ok) ((ae_sha env (str_or_empty cookie), started r) # out1)) \<le> 1"
    using Cons.IH [of db1] o run_refresh_spent [OF o refresh_spent(2) [OF s]] by auto
  moreover have "live_tokens db' \<le> live_tokens db" using Cons.IH [of db1] o refresh_live [OF s] by simp
  ultimately show ?case using q s o by simp
qed

end
