(* ===== verification/SessionProperties.thy ===== *)
theory SessionProperties
  imports AuthProperties
begin

section \<open>Ending and using a session\<close>

text \<open>
  Overlapping refreshes, logout, what \<open>authenticate\<close> has checked when it lets a request through, whether the
  session a sign-in starts can be refreshed, and the shape of the cookies.
\<close>

subsection \<open>Overlapping refreshes\<close>

lemma tenant_scope: "js_lower (js_trim ''tenant'') = ''tenant''"
  by code_simp

lemma refresh_write_tenant:
  assumes "refresh_read env now cookie db0 = (effs, Plan_tenant t u)"
    and "refresh_write env fr m (Plan_tenant t u) db = (db', es, r)"
  shows "started r" "\<exists>n. ad_tokens db' = ad_tokens (revoke_token m (rk_tokenHash t) db) @ [n] \<and> \<not> rk_isRevoked n \<and> rk_tokenHash n = ae_sha env (fr_refreshToken fr)"
proof -
  have "truthy (rk_userId t)" "truthy (rk_firmId t)" "Some (u_id u) = rk_userId t" "u_firmId u = rk_firmId t"
    using assms(1) by (auto simp: refresh_read_def refresh_refused_def Let_def find_Some_iff split: if_splits option.splits)
  then have "generateAndStoreRefreshToken env (fr_refreshToken fr) m (Some (u_id u)) (u_firmId u) (Some ''tenant'') (revoke_token m (rk_tokenHash t) db)
      = Inr ((revoke_token m (rk_tokenHash t) db)\<lparr>ad_tokens := ad_tokens (revoke_token m (rk_tokenHash t) db) @
            [\<lparr>rk_tokenHash = ae_sha env (fr_refreshToken fr), rk_userId = Some (u_id u), rk_firmId = u_firmId u, rk_scope = Some ''tenant'',
              rk_expiresAt = m + ae_refreshMs env, rk_isRevoked = False, rk_lastUsedAt = None\<rparr>]\<rparr>)"
    by (simp add: generateAndStoreRefreshToken_def resolveRefreshScope_def assertRefreshTokenContext_def check_def tenant_scope Let_def)
  with assms(2) show "started r" "\<exists>n. ad_tokens db' = ad_tokens (revoke_token m (rk_tokenHash t) db) @ [n] \<and> \<not> rk_isRevoked n \<and> rk_tokenHash n = ae_sha env (fr_refreshToken fr)"
    by (auto simp: refresh_write_def Let_def session_started_iff)
qed

text \<open>
  Fact. Refresh tokens are not single-use when requests overlap: when two requests read the stored token before
  either writes, both start a session, and the two tokens they issue are both stored and not revoked.  The write
  that revokes the token does not ask whether it has been revoked since it was read.
\<close>

theorem refresh_race:
  assumes "refresh_read env now cookie db = (effs, Plan_tenant t u)"
    and "refresh_write env fr1 t1 (Plan_tenant t u) db = (db1, es1, r1)"
    and "refresh_write env fr2 t2 (Plan_tenant t u) db1 = (db2, es2, r2)"
    and "ae_sha env (fr_refreshToken fr1) \<noteq> rk_tokenHash t"
  shows "started r1 \<and> started r2 \<and>
    (\<exists>a b ts. ad_tokens db2 = ts @ [a, b] \<and> length ts = length (ad_tokens db) \<and> \<not> rk_isRevoked a \<and> \<not> rk_isRevoked b
       \<and> rk_tokenHash a = ae_sha env (fr_refreshToken fr1) \<and> rk_tokenHash b = ae_sha env (fr_refreshToken fr2))"
proof -
  obtain a where a: "ad_tokens db1 = ad_tokens (revoke_token t1 (rk_tokenHash t) db) @ [a]" "\<not> rk_isRevoked a"
      "rk_tokenHash a = ae_sha env (fr_refreshToken fr1)"
    using refresh_write_tenant(2) [OF assms(1,2)] by blast
  obtain b where b: "ad_tokens db2 = ad_tokens (revoke_token t2 (rk_tokenHash t) db1) @ [b]" "\<not> rk_isRevoked b"
      "rk_tokenHash b = ae_sha env (fr_refreshToken fr2)"
    using refresh_write_tenant(2) [OF assms(1,3)] by blast
  have "ad_tokens db2 = ad_tokens (revoke_token t2 (rk_tokenHash t) (revoke_token t1 (rk_tokenHash t) db)) @ [a, b]"
    using a b assms(4) by (simp add: revoke_token_def)
  moreover have "length (ad_tokens (revoke_token t2 (rk_tokenHash t) (revoke_token t1 (rk_tokenHash t) db))) = length (ad_tokens db)"
    by (simp add: revoke_token_def)
  ultimately show ?thesis using a b refresh_write_tenant(1) [OF assms(1,2)] refresh_write_tenant(1) [OF assms(1,3)] by blast
qed

definition sample_session_db :: auth_db where
  "sample_session_db = sample_auth_db\<lparr>ad_tokens := [\<lparr>rk_tokenHash = ''$old'', rk_userId = Some ''u1'', rk_firmId = Some ''F1'',
     rk_scope = Some ''tenant'', rk_expiresAt = 1000, rk_isRevoked = False, rk_lastUsedAt = None\<rparr>]\<rparr>"

definition sample_other_fresh :: fresh where
  "sample_other_fresh = sample_fresh\<lparr>fr_refreshToken := ''other''\<rparr>"

lemma sample_refresh_read:
  "refresh_read sample_env 5 (Some ''old'') sample_session_db = ([Refresh_noted], Plan_tenant (hd (ad_tokens sample_session_db)) sample_challenged)"
  by code_simp

theorem refresh_race_witness:
  "let p = Plan_tenant (hd (ad_tokens sample_session_db)) sample_challenged; (db1, _, r1) = refresh_write sample_env sample_fresh 6 p sample_session_db;
       (db2, _, r2) = refresh_write sample_env sample_other_fresh 7 p db1
   in started r1 \<and> started r2 \<and> live_tokens sample_session_db = 1 \<and> live_tokens db2 = 2"
proof -
  let ?p = "Plan_tenant (hd (ad_tokens sample_session_db)) sample_challenged"
  obtain db1 es1 r1 where 1: "refresh_write sample_env sample_fresh 6 ?p sample_session_db = (db1, es1, r1)"
    by (cases "refresh_write sample_env sample_fresh 6 ?p sample_session_db") auto
  obtain db2 es2 r2 where 2: "refresh_write sample_env sample_other_fresh 7 ?p db1 = (db2, es2, r2)"
    by (cases "refresh_write sample_env sample_other_fresh 7 ?p db1") auto
  have h: "ae_sha sample_env (fr_refreshToken sample_fresh) \<noteq> rk_tokenHash (hd (ad_tokens sample_session_db))" by code_simp
  have "live_tokens (fst (refresh_write sample_env sample_other_fresh 7 ?p (fst (refresh_write sample_env sample_fresh 6 ?p sample_session_db)))) = 2"
    "live_tokens sample_session_db = 1" by code_simp+
  with refresh_race [OF sample_refresh_read 1 2 h] 1 2 show ?thesis by (simp add: Let_def)
qed

subsection \<open>Logout\<close>

lemma find_logged_out:
  "find (\<lambda>t. rk_tokenHash t = h) (map (\<lambda>t. if rk_userId t = Some i \<and> \<not> rk_isRevoked t then t\<lparr>rk_isRevoked := True\<rparr> else t) ts) =
    map_option (\<lambda>t. if rk_userId t = Some i \<and> \<not> rk_isRevoked t then t\<lparr>rk_isRevoked := True\<rparr> else t) (find (\<lambda>t. rk_tokenHash t = h) ts)"
  by (induction ts) auto

text \<open>
  Fact. Logging out ends every session of the user and no other: afterwards no token of the user is live, a
  refresh with any of them starts no session, and the token of any other user is as it was.  The platform
  administrator is the exception: logging out leaves the stored tokens unchanged, so that the old refresh token
  reads the same plan as before.
\<close>

theorem logout_ends_sessions:
  assumes "logoutHandler u db = (db', effs, r)"
  shows "r = Ok ''Logout successful'' \<and> Cookies_cleared \<in> set effs
    \<and> (\<not> isSuperAdminRole (u_role u) \<longrightarrow>
        (\<forall>t\<in>set (ad_tokens db'). rk_userId t = Some (u_id u) \<longrightarrow> rk_isRevoked t)
        \<and> (\<forall>h t. find_token h db = Some t \<longrightarrow> find_token h db' =
             Some (if rk_userId t = Some (u_id u) then t\<lparr>rk_isRevoked := True\<rparr> else t))
        \<and> (\<forall>env fr now cookie t. find_token (ae_sha env (str_or_empty cookie)) db = Some t \<longrightarrow> rk_userId t = Some (u_id u) \<longrightarrow>
             (\<not> started (snd (snd (refreshAccessToken env fr now cookie db'))))))
    \<and> (isSuperAdminRole (u_role u) \<longrightarrow> (\<forall>env now cookie. refresh_read env now cookie db' = refresh_read env now cookie db))"
proof (cases "isSuperAdminRole (u_role u)")
  case True
  then show ?thesis using assms by (auto simp: logoutHandler_def)
next
  case False
  then have db': "ad_tokens db' = map (\<lambda>t. if rk_userId t = Some (u_id u) \<and> \<not> rk_isRevoked t then t\<lparr>rk_isRevoked := True\<rparr> else t) (ad_tokens db)"
    and r: "r = Ok ''Logout successful''" "Cookies_cleared \<in> set effs"
    using assms by (auto simp: logoutHandler_def)
  have find: "find_token h db' = Some (if rk_userId t = Some (u_id u) then t\<lparr>rk_isRevoked := True\<rparr> else t)" if "find_token h db = Some t" for h t
    using that by (cases "rk_isRevoked t") (auto simp: find_token_def db' find_logged_out)
  have refused: "\<not> started (snd (snd (refreshAccessToken env fr now cookie db')))"
    if "find_token (ae_sha env (str_or_empty cookie)) db = Some t" "rk_userId t = Some (u_id u)" for env fr now cookie t
    using refresh_spent(3) [of env fr now cookie db'] find [OF that(1)] that(2)
    by (cases "refreshAccessToken env fr now cookie db'") (auto simp: spent_def)
  have "\<forall>t\<in>set (ad_tokens db'). rk_userId t = Some (u_id u) \<longrightarrow> rk_isRevoked t" by (auto simp: db')
  then show ?thesis using r find refused False by blast
qed

theorem logout_ends_sessions_witness:
  "(case logoutHandler sample_challenged sample_session_db of (db', effs, r) \<Rightarrow>
      (\<not> started (snd (snd (refreshAccessToken sample_env sample_fresh 5 (Some ''old'') db')))))
   \<and> (started (snd (snd (refreshAccessToken sample_env sample_fresh 5 (Some ''old'') sample_session_db))))"
proof -
  obtain db' effs r where l: "logoutHandler sample_challenged sample_session_db = (db', effs, r)"
    by (cases "logoutHandler sample_challenged sample_session_db") auto
  have u: "\<not> isSuperAdminRole (u_role sample_challenged)" by code_simp
  have f: "find_token (ae_sha sample_env (str_or_empty (Some ''old''))) sample_session_db = Some (hd (ad_tokens sample_session_db))"
    "rk_userId (hd (ad_tokens sample_session_db)) = Some (u_id sample_challenged)" by code_simp+
  have s: "started (snd (snd (refreshAccessToken sample_env sample_fresh 5 (Some ''old'') sample_session_db)))"
    by code_simp
  have "\<not> started (snd (snd (refreshAccessToken sample_env sample_fresh 5 (Some ''old'') db')))"
    using logout_ends_sessions [OF l] u f by blast
  with l s show ?thesis by simp
qed

end
