(* ===== verification/SessionUse.thy ===== *)
theory SessionUse
  imports SessionProperties
begin

section \<open>Using a session\<close>

text \<open>
  What \<open>authenticate\<close> has checked when it lets a request through, whether the session a sign-in starts can be
  refreshed, and the cookies that carry it.
\<close>

subsection \<open>Requests that pass\<close>

lemma if_Denied: "((if c then Denied n m else x) = Authenticated k) = (\<not> c \<and> x = Authenticated k)"
  by simp

lemma js_or_truthy: "truthy a \<Longrightarrow> js_or a b = a"
  by (simp add: js_or_def)

lemma authenticated_user:
  assumes "authenticate_user r cl u td = Authenticated ctx"
  shows "\<not> u_lockedByAdmin u" and "isActiveStatus (u_status u)"
    and "u_mustSetPassword u \<Longrightarrow> \<exists>p\<in>set (path_candidates r). p \<in> set MUST_SET_ALLOWED_PATHS"
    and "u_role u \<noteq> Some ''SUPER_ADMIN'' \<Longrightarrow> truthy (runtime_tenant td u) \<and> ax_tenantId ctx = runtime_tenant td u
      \<and> (truthy (ac_firmId cl) \<longrightarrow> ac_firmId cl = runtime_tenant td u)
      \<and> firm_blocked td (resolveCanonicalTenantForUser td (Some (tenant_of_user u))) (str_or_empty (runtime_tenant td u)) = None"
    and "ax_userId ctx = u_id u \<and> ax_role ctx = effective_role (ac_role cl) (u_role u)"
proof -
  note u = assms [unfolded authenticate_user_def Let_def if_Denied auth_result.inject]
  from u show "\<not> u_lockedByAdmin u" and "isActiveStatus (u_status u)"
    and "u_mustSetPassword u \<Longrightarrow> \<exists>p\<in>set (path_candidates r). p \<in> set MUST_SET_ALLOWED_PATHS" by blast+
  note eq = u [THEN conjunct2, THEN conjunct2, THEN conjunct2, THEN conjunct2, THEN conjunct2, THEN conjunct2, THEN conjunct2, THEN conjunct2]
  have c: "ax_tenantId ctx = js_or (runtime_tenant td u) (js_or (ac_firmId cl) None)"
    "ax_userId ctx = u_id u \<and> ax_role ctx = effective_role (ac_role cl) (u_role u)"
    by (simp_all only: eq [symmetric] auth_context.simps)
  show "ax_userId ctx = u_id u \<and> ax_role ctx = effective_role (ac_role cl) (u_role u)" by (rule c(2))
  show "truthy (runtime_tenant td u) \<and> ax_tenantId ctx = runtime_tenant td u
      \<and> (truthy (ac_firmId cl) \<longrightarrow> ac_firmId cl = runtime_tenant td u)
      \<and> firm_blocked td (resolveCanonicalTenantForUser td (Some (tenant_of_user u))) (str_or_empty (runtime_tenant td u)) = None"
    if r: "u_role u \<noteq> Some ''SUPER_ADMIN''"
  proof -
    from u r have t: "truthy (runtime_tenant td u)" by blast
    from u r t have f: "truthy (ac_firmId cl) \<Longrightarrow> ac_firmId cl = runtime_tenant td u"
      "firm_blocked td (resolveCanonicalTenantForUser td (Some (tenant_of_user u))) (str_or_empty (runtime_tenant td u)) = None"
      by metis+
    show ?thesis using t f c(1) js_or_truthy by simp
  qed
qed

lemma effective_role_stored:
  "truthy stored \<Longrightarrow> normalizeRole (effective_role claimed stored) = normalizeRole stored"
  by (auto simp: effective_role_def js_or_def)

text \<open>
  C16. A request passes \<open>authenticate\<close> only with an access token that verifies and names a stored user who is
  active, not locked by an administrator and, when a password must still be set, is on one of the few paths for
  it.  For everyone but the stored role \<open>SUPER_ADMIN\<close>, the request then carries the tenant the user resolves to
  now, that tenant is not suspended, and a tenant named in the token is the same one; and the role the request
  carries is the stored role, whatever the token claims.
\<close>

theorem authenticate_sound:
  assumes "authenticate decode verify env r db = Authenticated ctx"
  shows "\<exists>cl u. verify (str_or_empty (request_token decode r)) = Inr cl \<and> u \<in> set (ad_users db) \<and> u_id u = ac_userId cl
     \<and> ax_userId ctx = u_id u \<and> isActiveStatus (u_status u) \<and> \<not> u_lockedByAdmin u
     \<and> (u_mustSetPassword u \<longrightarrow> (\<exists>p\<in>set (path_candidates r). p \<in> set MUST_SET_ALLOWED_PATHS))
     \<and> (u_role u \<noteq> Some ''SUPER_ADMIN'' \<longrightarrow>
          truthy (ax_tenantId ctx) \<and> ax_tenantId ctx = runtime_tenant (ad_tenants db) u
          \<and> (truthy (ac_firmId cl) \<longrightarrow> ac_firmId cl = ax_tenantId ctx)
          \<and> firm_blocked (ad_tenants db) (resolveCanonicalTenantForUser (ad_tenants db) (Some (tenant_of_user u))) (str_or_empty (ax_tenantId ctx)) = None)
     \<and> (truthy (u_role u) \<longrightarrow> normalizeRole (ax_role ctx) = normalizeRole (u_role u))"
proof -
  obtain cl u where v: "verify (str_or_empty (request_token decode r)) = Inr cl"
    and f: "user_by_id (ac_userId cl) (ad_users db) = Some u" and a: "authenticate_user r cl u (ad_tenants db) = Authenticated ctx"
    using assms by (auto simp: authenticate_def split: if_splits sum.splits option.splits)
  have m: "u \<in> set (ad_users db)" "u_id u = ac_userId cl" using f by (auto simp: user_by_id_def find_Some_iff)
  have "truthy (u_role u) \<longrightarrow> normalizeRole (ax_role ctx) = normalizeRole (u_role u)"
    using authenticated_user(5) [OF a] effective_role_stored [of "u_role u" "ac_role cl"] by simp
  moreover have "u_role u \<noteq> Some ''SUPER_ADMIN'' \<longrightarrow>
          truthy (ax_tenantId ctx) \<and> ax_tenantId ctx = runtime_tenant (ad_tenants db) u
          \<and> (truthy (ac_firmId cl) \<longrightarrow> ac_firmId cl = ax_tenantId ctx)
          \<and> firm_blocked (ad_tenants db) (resolveCanonicalTenantForUser (ad_tenants db) (Some (tenant_of_user u))) (str_or_empty (ax_tenantId ctx)) = None"
    using authenticated_user(4) [OF a] by metis
  ultimately show ?thesis using v m authenticated_user(1,2,3,5) [OF a] by blast
qed

definition sample_http :: auth_http where
  "sample_http = \<lparr>ah_method = ''GET'', ah_cookie = None, ah_cookieHeader = Some ''theme=dark; accessToken=signed'', ah_authorization = None,
     ah_rawPath = ''/api/cases'', ah_path = ''/cases'', ah_basePath = ''/api'', ah_impersonation = False\<rparr>"

definition sample_claims :: claims where
  "sample_claims = \<lparr>ac_userId = ''u1'', ac_role = Some ''SUPER_ADMIN'', ac_firmId = Some ''F1'', ac_firmSlug = None, ac_defaultClientId = None\<rparr>"

definition sample_verify :: "string \<Rightarrow> string + claims" where
  "sample_verify t = (if t = ''signed'' then Inr sample_claims else Inl ''Invalid token'')"

definition sample_context :: auth_context where
  "sample_context = \<lparr>ax_userId = ''u1'', ax_role = Some ''PRIMARY_ADMIN'', ax_userFirmId = Some ''F1'', ax_tenantId = Some ''F1'',
     ax_defaultClientId = Some ''F1'', ax_firmSlug = Some ''acme''\<rparr>"

theorem authenticate_sound_witness:
  "normalizeRole (ax_role sample_context) = normalizeRole (u_role sample_challenged) \<and>
   (\<exists>cl. sample_verify (str_or_empty (request_token Some sample_http)) = Inr cl \<and> normalizeRole (ac_role cl) \<noteq> normalizeRole (ax_role sample_context))"
proof -
  have a: "authenticate Some sample_verify sample_env sample_http sample_session_db = Authenticated sample_context" by code_simp
  have us: "ad_users sample_session_db = [sample_challenged]" by (simp add: sample_session_db_def sample_auth_db_def)
  have t: "truthy (u_role sample_challenged)" by code_simp
  have v: "sample_verify (str_or_empty (request_token Some sample_http)) = Inr sample_claims" by code_simp
  have n: "normalizeRole (ac_role sample_claims) \<noteq> normalizeRole (ax_role sample_context)" by code_simp
  from authenticate_sound [OF a] us t v n show ?thesis by auto
qed

subsection \<open>The session a sign-in starts\<close>

lemma persist_tokens: "persist env u db = Inr (d, v) \<Longrightarrow> ad_tokens d = ad_tokens db"
  by (auto simp: put_user_def dest: persistD(1))

lemma link_tokens: "ensureUserDefaultClientLink env fr u db = Inr (d, v) \<Longrightarrow> ad_tokens d = ad_tokens db"
  by (auto simp: ensureUserDefaultClientLink_def Let_def split: if_splits sum.splits dest!: persist_tokens)

lemma canonicalXid_tokens: "ensureCanonicalXid env u db = Inr (d, v) \<Longrightarrow> ad_tokens d = ad_tokens db"
  by (auto simp: ensureCanonicalXid_def split: if_splits dest: persist_tokens)

lemma generate_tenant:
  assumes "generateAndStoreRefreshToken env token now (Some i) f (Some ''tenant'') db = Inr db'"
  shows "truthy (Some i)" "truthy f" "ad_tokens db' = ad_tokens db @ [\<lparr>rk_tokenHash = ae_sha env token, rk_userId = Some i,
      rk_firmId = f, rk_scope = Some ''tenant'', rk_expiresAt = now + ae_refreshMs env, rk_isRevoked = False, rk_lastUsedAt = None\<rparr>]"
  using assms by (auto simp: generateAndStoreRefreshToken_def resolveRefreshScope_def tenant_scope Let_def assertRefreshTokenContext_def
      res_bind_Inr_iff check_def split: if_splits)

lemma find_append: "find P (xs @ ys) = (case find P xs of None \<Rightarrow> find P ys | Some x \<Rightarrow> Some x)"
  by (induction xs) auto

lemma tokenResponse_token:
  assumes "buildTokenResponse env fr now u db = (db', Inr (cl, u'))"
  shows "ad_tokens db' = ad_tokens db @ [\<lparr>rk_tokenHash = ae_sha env (fr_refreshToken fr), rk_userId = Some (u_id u'),
      rk_firmId = ac_firmId cl, rk_scope = Some ''tenant'', rk_expiresAt = now + ae_refreshMs env, rk_isRevoked = False, rk_lastUsedAt = None\<rparr>]"
    and "truthy (Some (u_id u'))" and "truthy (ac_firmId cl)"
proof -
  obtain d v where 1: "(if u_role u \<noteq> Some ''SUPER_ADMIN'' \<and> truthy (u_firmId u) then ensureUserDefaultClientLink env fr u db else Inr (db, u)) = Inr (d, v)"
    and rest: "(case ensureCanonicalXid env v d of Inl e \<Rightarrow> (d, Inl e) | Inr (db2, u2) \<Rightarrow>
          (case generateAndStoreRefreshToken env (fr_refreshToken fr) now (Some (u_id u2)) (runtime_tenant (ad_tenants d) v) (Some ''tenant'') db2 of
             Inl e \<Rightarrow> (db2, Inl e) | Inr db3 \<Rightarrow> (db3, Inr (user_claims (ad_tenants d) v, u2)))) = (db', Inr (cl, u'))"
    using assms by (auto simp: buildTokenResponse_def split: sum.splits prod.splits)
  from rest obtain d2 where 2: "ensureCanonicalXid env v d = Inr (d2, u')"
    and 3: "generateAndStoreRefreshToken env (fr_refreshToken fr) now (Some (u_id u')) (runtime_tenant (ad_tenants d) v) (Some ''tenant'') d2 = Inr db'"
    and cl: "cl = user_claims (ad_tenants d) v"
    by (auto split: sum.splits prod.splits)
  have t: "ad_tokens d2 = ad_tokens db" using 1 link_tokens canonicalXid_tokens [OF 2] by (auto split: if_splits)
  have f: "ac_firmId cl = runtime_tenant (ad_tenants d) v" by (simp add: cl user_claims_def Let_def)
  note g = generate_tenant [OF 3]
  show "ad_tokens db' = ad_tokens db @ [\<lparr>rk_tokenHash = ae_sha env (fr_refreshToken fr), rk_userId = Some (u_id u'),
      rk_firmId = ac_firmId cl, rk_scope = Some ''tenant'', rk_expiresAt = now + ae_refreshMs env, rk_isRevoked = False, rk_lastUsedAt = None\<rparr>]"
    and "truthy (Some (u_id u'))" and "truthy (ac_firmId cl)"
    using g t unfolding f by simp_all
qed

lemma find_absent: "i \<notin> u_id ` set us \<Longrightarrow> find (\<lambda>u. u_id u = i \<and> u_firmId u = f) us = None"
  by (induction us) auto

lemma find_same_user:
  "distinct (map u_id us) \<Longrightarrow> user_by_id i us = Some w \<Longrightarrow>
    find (\<lambda>u. u_id u = i \<and> u_firmId u = f) us = (if u_firmId w = f then Some w else None)"
proof (induction us)
  case (Cons a us)
  show ?case
  proof (cases "u_id a = i")
    case True
    with Cons.prems have "w = a" "i \<notin> u_id ` set us" by (auto simp: user_by_id_def)
    with True show ?thesis by (simp add: find_absent)
  next
    case False
    with Cons show ?thesis by (simp add: user_by_id_def)
  qed
qed (simp add: user_by_id_def)

text \<open>
  C33. The session a sign-in starts can be refreshed, as long as its refresh token has not expired, exactly when
  the user is still active and the stored \<open>firmId\<close> of the user is the tenant the token was issued for.  So a
  user of a legacy firm, whose tenant is the default client and not the stored firm, can sign in but never refresh.
\<close>

theorem session_refreshable:
  assumes "buildTokenResponse env fr now u db = (db', Inr (cl, u'))"
    and "fr_refreshToken fr \<noteq> []" and "find_token (ae_sha env (fr_refreshToken fr)) db = None"
    and "distinct_users db'" and "user_by_id (u_id u') (ad_users db') = Some w"
    and "later < now + ae_refreshMs env"
  shows "started (snd (snd (refreshAccessToken env fr2 later (Some (fr_refreshToken fr)) db')))
    \<longleftrightarrow> isActiveStatus (u_status w) \<and> u_firmId w = ac_firmId cl"
proof -
  let ?t = "\<lparr>rk_tokenHash = ae_sha env (fr_refreshToken fr), rk_userId = Some (u_id u'),
      rk_firmId = ac_firmId cl, rk_scope = Some ''tenant'', rk_expiresAt = now + ae_refreshMs env, rk_isRevoked = False, rk_lastUsedAt = None\<rparr>"
  note t = tokenResponse_token [OF assms(1)]
  have f: "find_token (ae_sha env (fr_refreshToken fr)) db' = Some ?t"
    using assms(3) t(1) by (simp add: find_token_def find_append)
  have k: "find (\<lambda>x. u_id x = u_id u' \<and> u_firmId x = ac_firmId cl) (ad_users db') = (if u_firmId w = ac_firmId cl then Some w else None)"
    using find_same_user [OF assms(4) [unfolded distinct_users_def] assms(5)] by simp
  let ?read = "refresh_read env later (Some (fr_refreshToken fr)) db'"
  show ?thesis
  proof (cases "isActiveStatus (u_status w) \<and> u_firmId w = ac_firmId cl")
    case True
    have r: "?read = ([Refresh_noted], Plan_tenant ?t w)"
      using assms(2,6) f k t True by (simp add: refresh_read_def truthy_def tenant_scope Let_def)
    obtain d es rep where w: "refresh_write env fr2 later (Plan_tenant ?t w) db' = (d, es, rep)"
      by (cases "refresh_write env fr2 later (Plan_tenant ?t w) db'") auto
    show ?thesis using True refresh_write_tenant(1) [OF r w] by (simp add: refreshAccessToken_def r w)
  next
    case False
    have "\<exists>es m. ?read = (es, Plan_refused (Refused 401 m None None))"
      using assms(2,6) f k t False by (auto simp: refresh_read_def refresh_refused_def truthy_def tenant_scope Let_def)
    then show ?thesis using False by (auto simp: refreshAccessToken_def refresh_write_def)
  qed
qed

text \<open>A user of a legacy firm signs in and is then refused.\<close>

definition sample_legacy_user :: user_doc where
  "sample_legacy_user = blank_user\<lparr>u_firmId := Some ''L1''\<rparr>"

definition sample_legacy_db :: auth_db where
  "sample_legacy_db = sample_auth_db\<lparr>ad_users := [sample_legacy_user],
     ad_tenants := \<lparr>td_clients = [\<lparr>tc_id = ''F1'', tc_firmId = Some ''L1'', tc_isDefaultClient = True, tc_firmSlug = Some ''acme'', tc_status = None\<rparr>], td_firms = []\<rparr>\<rparr>"

definition sample_legacy_after :: auth_db where
  "sample_legacy_after = sample_legacy_db\<lparr>ad_tokens := [\<lparr>rk_tokenHash = ''$refresh'', rk_userId = Some ''u1'', rk_firmId = Some ''F1'',
     rk_scope = Some ''tenant'', rk_expiresAt = 604800000, rk_isRevoked = False, rk_lastUsedAt = None\<rparr>]\<rparr>"

theorem session_refreshable_witness:
  "\<not> started (snd (snd (refreshAccessToken sample_env sample_other_fresh 1000 (Some (fr_refreshToken sample_fresh)) sample_legacy_after)))"
proof -
  let ?cl = "\<lparr>ac_userId = ''u1'', ac_role = Some ''PRIMARY_ADMIN'', ac_firmId = Some ''F1'', ac_firmSlug = Some ''acme'', ac_defaultClientId = Some ''F1''\<rparr>"
  have parts: "ensureUserDefaultClientLink sample_env sample_fresh sample_legacy_user sample_legacy_db = Inr (sample_legacy_db, sample_legacy_user)"
    "ensureCanonicalXid sample_env sample_legacy_user sample_legacy_db = Inr (sample_legacy_db, sample_legacy_user)"
    "u_role sample_legacy_user = Some ''PRIMARY_ADMIN''" "truthy (u_firmId sample_legacy_user)"
    by (simp_all add: ensureUserDefaultClientLink_def ensureCanonicalXid_def sample_legacy_user_def sample_legacy_db_def blank_user_def truthy_def
        sample_auth_db_def normalizeId_def Let_def) code_simp?
  have "runtime_tenant (ad_tenants sample_legacy_db) sample_legacy_user = Some ''F1''"
    "user_claims (ad_tenants sample_legacy_db) sample_legacy_user = ?cl" by code_simp+
  moreover have "ae_sha sample_env (fr_refreshToken sample_fresh) = ''$refresh''" "ad_tokens sample_legacy_db = []" by code_simp+
  ultimately have b: "buildTokenResponse sample_env sample_fresh 0 sample_legacy_user sample_legacy_db = (sample_legacy_after, Inr (?cl, sample_legacy_user))"
    using parts by (simp add: buildTokenResponse_def generateAndStoreRefreshToken_def resolveRefreshScope_def assertRefreshTokenContext_def check_def tenant_scope
        sample_legacy_after_def Let_def truthy_def) (simp add: sample_legacy_user_def blank_user_def sample_env_def)
  have c: "fr_refreshToken sample_fresh \<noteq> []" "find_token (ae_sha sample_env (fr_refreshToken sample_fresh)) sample_legacy_db = None"
    "(1000::int) < 0 + ae_refreshMs sample_env" by code_simp+
  have d: "distinct_users sample_legacy_after" "user_by_id (u_id sample_legacy_user) (ad_users sample_legacy_after) = Some sample_legacy_user"
    by (simp_all add: distinct_users_def sample_legacy_after_def sample_legacy_db_def user_by_id_def)
  have "u_firmId sample_legacy_user \<noteq> ac_firmId ?cl" by (simp add: sample_legacy_user_def)
  with session_refreshable [OF b c(1,2) d c(3)] show ?thesis by simp
qed

end
