(* ===== verification/CookieProperties.thy ===== *)
theory CookieProperties
  imports AuthSession
begin

section \<open>The cookies of a session\<close>

subsection \<open>What is set\<close>

text \<open>The attributes a browser accepts and the application needs.\<close>

definition cookie_ok :: "cookie_env \<Rightarrow> cookie_options \<Rightarrow> bool" where
  "cookie_ok e c \<longleftrightarrow>
     co_httpOnly c \<and> co_path c = ''/'' \<and> co_sameSite c \<in> {''strict'', ''lax'', ''none''}
     \<and> (co_sameSite c = ''none'' \<longrightarrow> co_secure c) \<and> (ce_production e \<longrightarrow> co_secure c)
     \<and> (\<forall>d. co_domain c = Some d \<longrightarrow> d \<noteq> [] \<and> CHR '':'' \<notin> set d \<and> d \<noteq> ''localhost'' \<and> js_lower d = d)
     \<and> (\<forall>ms. co_maxAge c = Some ms \<longrightarrow> ms \<ge> 15 * 60 * 1000)"

lemma sameSite_range: "normalizedCookieSameSite e \<in> {''strict'', ''lax'', ''none''}"
  by (simp add: normalizedCookieSameSite_def Let_def)

lemma domain_ok: "normalizedCookieDomain e = Some d \<Longrightarrow> d \<noteq> [] \<and> CHR '':'' \<notin> set d \<and> d \<noteq> ''localhost'' \<and> js_lower d = d"
  by (auto simp: normalizedCookieDomain_def Let_def split: if_splits)

lemma cookie_options_ok:
  assumes "\<And>ms. m = Some ms \<Longrightarrow> ms \<ge> 15 * 60 * 1000"
  shows "cookie_ok e (getAuthCookieOptions e m)"
proof -
  have d: "\<forall>d. normalizedCookieDomain e = Some d \<longrightarrow> d \<noteq> [] \<and> CHR '':'' \<notin> set d \<and> d \<noteq> ''localhost'' \<and> js_lower d = d"
    using domain_ok by blast
  show ?thesis
    unfolding cookie_ok_def getAuthCookieOptions_def cookie_options.simps using sameSite_range [of e] d assms by blast
qed


definition sample_cookie_env :: cookie_env where
  "sample_cookie_env = \<lparr>ce_production = True, ce_sameSite = Some '' None '', ce_crossSite = None,
     ce_domain = Some ''https://App.Docketra.com/x'', ce_refreshMs = 5\<rparr>"


subsection \<open>What is read back\<close>

text \<open>The header a browser sends for its cookies, oldest first.\<close>

fun cookie_header :: "(string \<times> string) list \<Rightarrow> string" where
  "cookie_header [] = []"
| "cookie_header [(n, v)] = n @ CHR ''='' # v"
| "cookie_header ((n, v) # cs) = n @ CHR ''='' # v @ CHR '';'' # CHR '' '' # cookie_header cs"

definition plain_text :: "string \<Rightarrow> bool" where
  "plain_text s \<longleftrightarrow> (\<forall>c\<in>set s. c \<noteq> CHR '';'' \<and> \<not> js_space c)"

definition plain_name :: "string \<Rightarrow> bool" where
  "plain_name n \<longleftrightarrow> plain_text n \<and> n \<noteq> [] \<and> CHR ''='' \<notin> set n \<and> n \<noteq> ''__proto__''"

definition decoded :: "(string \<Rightarrow> string option) \<Rightarrow> string \<Rightarrow> string" where
  "decoded decode v = (case decode v of Some w \<Rightarrow> w | None \<Rightarrow> v)"

lemma split_on_none: "c \<notin> set s \<Longrightarrow> split_on c s = [s]"
  by (induction s) auto

lemma split_on_sep: "c \<notin> set s \<Longrightarrow> split_on c (s @ c # t) = s # split_on c t"
  by (induction s) auto

lemma split_on_nonempty: "split_on c s \<noteq> []"
  by (induction s) (auto split: list.splits)

lemma trim_plain: "plain_text s \<Longrightarrow> js_trim s = s"
  by (rule js_trim_none) (auto simp: plain_text_def list_all_iff)

lemma trim_space: "js_trim (CHR '' '' # s) = js_trim s"
proof -
  have "js_space (CHR '' '')" by code_simp
  then show ?thesis by (simp add: js_trim_def)
qed

lemma equals_plain: "\<not> js_space (CHR ''='')"
  by code_simp

lemma cookie_entry_plain:
  assumes "plain_name n" "plain_text v"
  shows "cookie_entry decode (n @ CHR ''='' # v) = Some (n, decoded decode v)"
    and "cookie_entry decode (CHR '' '' # n @ CHR ''='' # v) = Some (n, decoded decode v)"
proof -
  have p: "plain_text (n @ CHR ''='' # v)" "plain_text n" "CHR ''='' \<notin> set n" "n \<noteq> []"
    using assms equals_plain by (auto simp: plain_name_def plain_text_def)
  have t: "takeWhile (\<lambda>c. c \<noteq> CHR ''='') (n @ CHR ''='' # v) = n" "dropWhile (\<lambda>c. c \<noteq> CHR ''='') (n @ CHR ''='' # v) = CHR ''='' # v"
    using p(3) by (induction n) auto
  from p t assms(2) show "cookie_entry decode (n @ CHR ''='' # v) = Some (n, decoded decode v)"
    by (simp add: cookie_entry_def Let_def trim_plain decoded_def del: takeWhile_append dropWhile_append split: option.split)
  then show "cookie_entry decode (CHR '' '' # n @ CHR ''='' # v) = Some (n, decoded decode v)"
    by (simp add: cookie_entry_def Let_def trim_space)
qed

abbreviation plain_cookies :: "(string \<times> string) list \<Rightarrow> bool" where
  "plain_cookies cs \<equiv> (\<forall>(n, v)\<in>set cs. plain_name n \<and> plain_text v)"

lemma header_entries:
  "plain_cookies cs \<Longrightarrow> cs \<noteq> [] \<Longrightarrow>
    List.map_filter (cookie_entry decode) (split_on CHR '';'' (cookie_header cs)) = map (\<lambda>(n, v). (n, decoded decode v)) cs
    \<and> List.map_filter (cookie_entry decode) (split_on CHR '';'' (CHR '' '' # cookie_header cs)) = map (\<lambda>(n, v). (n, decoded decode v)) cs"
proof (induction cs rule: cookie_header.induct)
  case (2 n v)
  then have "CHR '';'' \<notin> set (n @ CHR ''='' # v)" by (auto simp: plain_name_def plain_text_def)
  then have "CHR '';'' \<notin> set (n @ CHR ''='' # v)" "CHR '';'' \<notin> set (CHR '' '' # n @ CHR ''='' # v)" by auto
  from this [THEN split_on_none] have "split_on CHR '';'' (n @ CHR ''='' # v) = [n @ CHR ''='' # v]" "split_on CHR '';'' (CHR '' '' # n @ CHR ''='' # v) = [CHR '' '' # n @ CHR ''='' # v]"
    by blast+
  with 2 show ?case by (simp add: cookie_entry_plain map_filter_simps)
next
  case (3 n v c cs)
  let ?rest = "CHR '' '' # cookie_header (c # cs)"
  from 3 have "CHR '';'' \<notin> set (n @ CHR ''='' # v)" by (auto simp: plain_name_def plain_text_def)
  then have "split_on CHR '';'' ((n @ CHR ''='' # v) @ CHR '';'' # ?rest) = (n @ CHR ''='' # v) # split_on CHR '';'' ?rest"
    "split_on CHR '';'' ((CHR '' '' # n @ CHR ''='' # v) @ CHR '';'' # ?rest) = (CHR '' '' # n @ CHR ''='' # v) # split_on CHR '';'' ?rest"
    by (intro split_on_sep; simp)+
  with 3 show ?case by (simp add: cookie_entry_plain map_filter_simps)
qed simp

lemma fold_entries:
  "fold (\<lambda>e cs. case f e of None \<Rightarrow> cs | Some (k, v) \<Rightarrow> if k \<in> fst ` set cs \<or> k = p then cs else cs @ [(k, v)]) es acc =
   fold (\<lambda>(k, v) cs. if k \<in> fst ` set cs \<or> k = p then cs else cs @ [(k, v)]) (List.map_filter f es) acc"
  by (induction es arbitrary: acc) (auto simp: map_filter_simps split: option.splits)

lemma fold_first:
  "\<forall>(k, v)\<in>set kvs. k \<noteq> p \<Longrightarrow>
   map_of (fold (\<lambda>(k, v) cs. if k \<in> fst ` set cs \<or> k = p then cs else cs @ [(k, v)]) kvs acc) = map_of kvs ++ map_of acc"
proof (induction kvs arbitrary: acc)
  case (Cons kv kvs)
  obtain k v where kv: "kv = (k, v)" by (cases kv)
  with Cons.prems have k: "k \<noteq> p" and rest: "\<forall>(k, v)\<in>set kvs. k \<noteq> p" by auto
  show ?case
  proof (cases "k \<in> fst ` set acc")
    case True
    then have "map_of acc k \<noteq> None" by (simp add: map_of_eq_None_iff)
    then have "map_of kvs ++ map_of acc = map_of (kv # kvs) ++ map_of acc"
      using kv by (auto simp: map_add_def fun_eq_iff split: option.splits)
    with True kv Cons.IH [OF rest] show ?thesis by (simp add: fun_upd_def)
  next
    case False
    then have "map_of acc k = None" by (simp add: map_of_eq_None_iff)
    then have "map_of kvs ++ map_of (acc @ [kv]) = map_of (kv # kvs) ++ map_of acc"
      using kv by (auto simp: map_add_def fun_eq_iff split: option.splits)
    with False k kv Cons.IH [OF rest] show ?thesis by (simp add: fun_upd_def)
  qed
qed simp

text \<open>
  Fact. What the server reads from the \<open>Cookie\<close> header is what the browser holds: for a header that lists
  cookies with plain names and values, each name gives the first value listed for it, decoded when it decodes and
  as it stands when not, and a name that is not listed gives nothing.
\<close>

theorem cookie_header_roundtrip:
  assumes "\<forall>(n, v)\<in>set cs. plain_name n \<and> plain_text v"
  shows "getCookieValue decode (Some (cookie_header cs)) name = map_option (decoded decode) (if name = [] then None else map_of cs name)"
proof (cases cs)
  case Nil
  then show ?thesis by (simp add: getCookieValue_def parseCookieHeader_def truthy_def)
next
  case (Cons c rest)
  obtain n v where c: "c = (n, v)" by (cases c)
  have h: "cookie_header cs \<noteq> []" using Cons c assms by (cases rest) (auto simp: plain_name_def)
  let ?kvs = "map (\<lambda>(n, v). (n, decoded decode v)) cs"
  have p: "\<forall>(k, v)\<in>set ?kvs. k \<noteq> ''__proto__''" using assms by (auto simp: plain_name_def)
  have "map_of (parseCookieHeader decode (Some (cookie_header cs))) = map_of ?kvs"
    using header_entries [OF assms, of decode] Cons h fold_first [OF p, of "[]"]
    by (simp add: parseCookieHeader_def truthy_def fold_entries del: split_on.simps list.map)
  moreover have "map_of ?kvs name = map_option (decoded decode) (map_of cs name)" by (simp add: map_of_map)
  ultimately show ?thesis by (simp add: getCookieValue_def)
qed

theorem cookie_header_roundtrip_witness:
  "getCookieValue Some (Some ''theme=dark; accessToken=a=b; theme=light'') ''theme'' = Some ''dark''
   \<and> getCookieValue Some (Some ''theme=dark; accessToken=a=b; theme=light'') ''accessToken'' = Some ''a=b''"
proof -
  let ?cs = "[(''theme'', ''dark''), (''accessToken'', ''a=b''), (''theme'', ''light'')]"
  have ok: "\<forall>(n, v)\<in>set ?cs. plain_name n \<and> plain_text v" by code_simp
  have h: "cookie_header ?cs = ''theme=dark; accessToken=a=b; theme=light''" by simp
  show ?thesis
    using cookie_header_roundtrip [OF ok, of Some "''theme''"] cookie_header_roundtrip [OF ok, of Some "''accessToken''"]
    unfolding h by (simp add: decoded_def)
qed

end
