(* ===== verification/AuthPassword.thy ===== *)
theory AuthPassword
  imports AuthSession
begin

section \<open>Passwords\<close>

text \<open>
  \<open>services/authPassword.service.js\<close> and the password handlers of \<open>controllers/auth.controller.js\<close>.  Both
  SHA-256 helpers are \<open>ae_sha\<close>.  \<open>wq_mail_ok\<close> is the answer of the mail provider; an error a handler does not
  catch is the response 500.  \<open>setupAccount\<close> is in two steps, its read and its conditional update, so that
  requests can overlap.
\<close>

subsection \<open>The policy\<close>

text \<open>\<open>/^(?=.*[a-z])(?=.*[A-Z])(?=.*\d)(?=.*[^A-Za-z\d]).{8,}$/\<close>; a dot is any character but a line end.\<close>

definition is_upper_letter :: "char \<Rightarrow> bool" where
  "is_upper_letter c \<longleftrightarrow> c \<in> set ''ABCDEFGHIJKLMNOPQRSTUVWXYZ''"

definition is_lower_letter :: "char \<Rightarrow> bool" where
  "is_lower_letter c \<longleftrightarrow> c \<in> set ''abcdefghijklmnopqrstuvwxyz''"

definition line_end :: "char \<Rightarrow> bool" where
  "line_end c \<longleftrightarrow> of_char c \<in> {10, 13 :: nat}"

definition has_before_line_end :: "(char \<Rightarrow> bool) \<Rightarrow> string \<Rightarrow> bool" where
  "has_before_line_end P s \<longleftrightarrow> list_ex P (takeWhile (\<lambda>c. \<not> line_end c) s) \<or>
     (case dropWhile (\<lambda>c. \<not> line_end c) s of c # _ \<Rightarrow> P c | [] \<Rightarrow> False)"

definition validatePasswordStrength :: "string option \<Rightarrow> bool" where
  "validatePasswordStrength password =
    (let s = str_or_empty password
     in has_before_line_end is_lower_letter s \<and> has_before_line_end is_upper_letter s \<and> has_before_line_end is_digit s
        \<and> has_before_line_end (\<lambda>c. \<not> is_lower_letter c \<and> \<not> is_upper_letter c \<and> \<not> is_digit c) s
        \<and> length s \<ge> 8 \<and> list_all (\<lambda>c. \<not> line_end c) s)"

definition PASSWORD_HISTORY_LIMIT :: nat where
  "PASSWORD_HISTORY_LIMIT = 5"

definition PASSWORD_EXPIRY_DAYS :: int where
  "PASSWORD_EXPIRY_DAYS = 60"

definition FORGOT_PASSWORD_TOKEN_EXPIRY_MINUTES :: int where
  "FORGOT_PASSWORD_TOKEN_EXPIRY_MINUTES = 30"

definition INVITE_TOKEN_EXPIRY_HOURS :: int where
  "INVITE_TOKEN_EXPIRY_HOURS = 48"

text \<open>\<open>xs.slice(-n)\<close>, for a positive n.\<close>

definition last_n :: "nat \<Rightarrow> 'a list \<Rightarrow> 'a list" where
  "last_n n xs = drop (length xs - n) xs"

subsection \<open>Requests\<close>

record reset_firm =
  rf_id :: "string option"
  rf_defaultClientId :: "string option"
  rf_legacyFirmId :: "string option"
  rf_firmSlug :: "string option"

record password_req =
  wq_firmId :: "string option"
  wq_firm :: "reset_firm option"
  wq_slugs :: "string option list"
  wq_bodySlug :: "string option"
  wq_identifiers :: "string option list"
  wq_otp :: "string option"
  wq_resetToken :: "string option"
  wq_token :: "string option"
  wq_password :: "string option"
  wq_currentPassword :: "string option"
  wq_mail_ok :: bool

datatype password_reply = Pw_refused nat string "int option" | Pw_ok string | Reset_allowed string

definition first_truthy :: "string option list \<Rightarrow> string option" where
  "first_truthy vs = (case find truthy vs of Some v \<Rightarrow> v | None \<Rightarrow> None)"

definition request_identifier :: "password_req \<Rightarrow> string" where
  "request_identifier r = js_trim (str_or_empty (first_truthy (wq_identifiers r)))"

text \<open>The users an identifier names: an address by mail, anything else by xID.\<close>

definition by_identifier :: "string \<Rightarrow> user_doc \<Rightarrow> bool" where
  "by_identifier identifier u \<longleftrightarrow>
    (if CHR ''@'' \<in> set identifier then u_email u = Some (js_lower identifier) else u_xID u = Some (js_upper identifier))"

definition resetCandidateIds :: "password_req \<Rightarrow> reset_firm \<Rightarrow> string list" where
  "resetCandidateIds r f =
    js_unique (map str_or_empty (filter truthy
      [wq_firmId r, Option.bind (wq_firm r) rf_id, Option.bind (wq_firm r) rf_defaultClientId, Option.bind (wq_firm r) rf_legacyFirmId,
       rf_id f, rf_defaultClientId f, rf_legacyFirmId f]))"

record reset_context =
  rx_user :: "user_doc option"
  rx_firm :: "reset_firm option"
  rx_ambiguous :: bool
  rx_invalidFirm :: bool

definition firm_view :: "tenant_firm \<Rightarrow> reset_firm" where
  "firm_view f = \<lparr>rf_id = Some (tf_id f), rf_defaultClientId = tf_defaultClientId f, rf_legacyFirmId = None, rf_firmSlug = tf_firmSlug f\<rparr>"

definition resolveForgotPasswordContext :: "password_req \<Rightarrow> string \<Rightarrow> auth_db \<Rightarrow> reset_context" where
  "resolveForgotPasswordContext r identifier db =
    (let i = js_trim identifier; slug = normalizeFirmSlug (first_truthy (wq_slugs r));
         named = filter (\<lambda>u. by_identifier i u \<and> u_status u = Some ''active'' \<and> u_isActive u) (ad_users db);
         looked_up = find (\<lambda>f. tf_firmSlug f = slug \<and> tf_status f = Some ''active'') (td_firms (ad_tenants db));
         firm = (case wq_firm r of Some f \<Rightarrow> Some f | None \<Rightarrow> if truthy slug then map_option firm_view looked_up else None)
     in if wq_firm r = None \<and> truthy slug \<and> looked_up = None
        then \<lparr>rx_user = None, rx_firm = None, rx_ambiguous = False, rx_invalidFirm = True\<rparr>
        else if (case firm of None \<Rightarrow> False | Some f \<Rightarrow> truthy (rf_id f))
        then (case filter (in_tenant (resetCandidateIds r (the firm))) named of
                [u] \<Rightarrow> \<lparr>rx_user = Some u, rx_firm = firm, rx_ambiguous = False, rx_invalidFirm = False\<rparr>
              | us \<Rightarrow> \<lparr>rx_user = None, rx_firm = firm, rx_ambiguous = (length us > 1), rx_invalidFirm = False\<rparr>)
        else (case named of
                [u] \<Rightarrow>
                  (case Option.bind (u_firmId u) (\<lambda>f. find_firm f (ad_tenants db)) of
                     Some f \<Rightarrow> \<lparr>rx_user = Some u, rx_firm = Some (firm_view f), rx_ambiguous = False, rx_invalidFirm = False\<rparr>
                   | None \<Rightarrow> \<lparr>rx_user = None, rx_firm = None, rx_ambiguous = False, rx_invalidFirm = False\<rparr>)
              | us \<Rightarrow> \<lparr>rx_user = None, rx_firm = None, rx_ambiguous = (length us > 1), rx_invalidFirm = False\<rparr>))"

subsection \<open>Reset by link\<close>

definition link_reply :: password_reply where
  "link_reply = Pw_ok ''If an account exists with this identifier, you will receive a password reset link.''"

definition forgotPassword :: "auth_env \<Rightarrow> fresh \<Rightarrow> int \<Rightarrow> password_req \<Rightarrow> auth_db \<Rightarrow> password_reply step" where
  "forgotPassword env fr now r db =
    (let i = request_identifier r; slug = normalizeFirmSlug (wq_bodySlug r);
         firm = find (\<lambda>f. tf_firmSlug f = slug) (td_firms (ad_tenants db));
         firmId = (if truthy (wq_firmId r) then wq_firmId r else if truthy slug then map_option tf_id firm else None);
         named = filter (\<lambda>u. by_identifier i u \<and> u_status u \<noteq> Some ''deleted'') (ad_users db);
         chosen = (if truthy firmId then find (\<lambda>u. u_firmId u = firmId) named else case named of [u] \<Rightarrow> Some u | _ \<Rightarrow> None)
     in if i = [] then (db, [], Pw_refused 400 ''Email or xID is required'' None)
        else if \<not> truthy (wq_firmId r) \<and> truthy slug \<and> firm = None
        then (db, [], Pw_refused 404 ''Firm not found. Please check your firm login URL.'' None)
        else (case chosen of
                None \<Rightarrow> (db, [], link_reply)
              | Some u \<Rightarrow>
                 if \<not> isActiveStatus (u_status u) then (db, [], link_reply)
                 else (case persist env (u\<lparr>u_passwordReset := \<lparr>ts_hash = Some (ae_sha env (fr_resetToken fr)),
                                ts_expiresAt = Some (now + minutes FORGOT_PASSWORD_TOKEN_EXPIRY_MINUTES)\<rparr>\<rparr>) db of
                         Inl e \<Rightarrow> (db, [], Pw_refused 500 ''Error processing password reset request'' None)
                       | Inr (db1, u1) \<Rightarrow>
                          (db1, (if wq_mail_ok r then [Mail_sent ''forgot password'' (u_email u1) (fr_resetToken fr)] else [])
                                @ [Audited ''ForgotPasswordRequested'' (Some (u_id u1))], link_reply))))"

text \<open>The user a link token names: a reset or a setup token that has not expired.\<close>

definition token_live :: "int \<Rightarrow> string \<Rightarrow> token_state \<Rightarrow> bool" where
  "token_live now h t \<longleftrightarrow> ts_hash t = Some h \<and> (case ts_expiresAt t of None \<Rightarrow> False | Some e \<Rightarrow> now < e)"

definition link_owner :: "int \<Rightarrow> string option \<Rightarrow> string \<Rightarrow> auth_db \<Rightarrow> user_doc option" where
  "link_owner now firmId h db =
    find (\<lambda>u. (truthy firmId \<longrightarrow> u_firmId u = firmId) \<and> (token_live now h (u_passwordReset u) \<or> token_live now h (u_passwordSetup u))) (ad_users db)"

definition push_history :: "string option \<Rightarrow> string list \<Rightarrow> string list" where
  "push_history old hs =
    (if \<not> truthy old then hs
     else (let hs1 = hs @ [str_or_empty old] in if length hs1 > PASSWORD_HISTORY_LIMIT then last_n PASSWORD_HISTORY_LIMIT hs1 else hs1))"

definition link_update :: "auth_env \<Rightarrow> int \<Rightarrow> string \<Rightarrow> user_doc \<Rightarrow> user_doc" where
  "link_update env now p u =
    u\<lparr>u_passwordHistory := push_history (u_passwordHash u) (u_passwordHistory u), u_passwordHash := Some (ae_bcrypt env p), u_passwordSet := True,
      u_mustSetPassword := False, u_passwordReset := no_token, u_passwordSetup := no_token, u_passwordLastChangedAt := Some now,
      u_passwordSetAt := Some now, u_passwordExpiresAt := Some (now + PASSWORD_EXPIRY_DAYS * 24 * 60 * 60 * 1000), u_mustChangePassword := False,
      u_forcePasswordReset := False, u_status := Some ''active'', u_failedLoginAttempts := 0, u_lockUntil := None\<rparr>"

definition resetPasswordWithToken :: "auth_env \<Rightarrow> int \<Rightarrow> password_req \<Rightarrow> auth_db \<Rightarrow> password_reply step" where
  "resetPasswordWithToken env now r db =
    (let p = str_or_empty (wq_password r)
     in if \<not> truthy (wq_token r) \<or> \<not> truthy (wq_password r) then (db, [], Pw_refused 400 ''Token and password are required'' None)
        else if \<not> validatePasswordStrength (wq_password r) then (db, [], Pw_refused 400 ''password policy'' None)
        else (case link_owner now (wq_firmId r) (ae_sha env (str_or_empty (wq_token r))) db of
                None \<Rightarrow> (db, [], Pw_refused 400 ''Invalid or expired password reset token'' None)
              | Some u \<Rightarrow>
                 if list_ex (ae_compare env p) (last_n PASSWORD_HISTORY_LIMIT (u_passwordHistory u))
                 then (db, [], Pw_refused 400 ''Cannot reuse any of your last 5 passwords'' None)
                 else if truthy (u_passwordHash u) \<and> ae_compare env p (str_or_empty (u_passwordHash u))
                 then (db, [], Pw_refused 400 ''New password must be different from current password'' None)
                 else (case persist env (link_update env now p u) db of
                         Inl e \<Rightarrow> (db, [], Pw_refused 500 ''Error resetting password'' None)
                       | Inr (db1, u1) \<Rightarrow> (db1, [Audited ''PasswordReset'' (Some (u_id u1))],
                            Pw_ok ''Password reset successfully. You can now log in with your new password.''))))"

subsection \<open>Reset by code\<close>

definition code_sent_reply :: password_reply where
  "code_sent_reply = Pw_ok ''If the account exists, an OTP has been sent to email.''"

definition forgotPasswordInit :: "auth_env \<Rightarrow> fresh \<Rightarrow> int \<Rightarrow> password_req \<Rightarrow> auth_db \<Rightarrow> password_reply step" where
  "forgotPasswordInit env fr now r db =
    (let i = request_identifier r; x = resolveForgotPasswordContext r i db
     in if i = [] then (db, [], Pw_refused 400 ''email or xID is required'' None)
        else if rx_invalidFirm x \<or> rx_ambiguous x \<or> \<not> truthy (Option.bind (rx_firm x) rf_id) then (db, [], code_sent_reply)
        else (case rx_user x of
                None \<Rightarrow> (db, [], code_sent_reply)
              | Some u \<Rightarrow>
                 (let ends = (case cs_lastSentAt (u_forgotOtp u) of Some t \<Rightarrow> t | None \<Rightarrow> 0) + FORGOT_PASSWORD_OTP_RESEND_COOLDOWN_SECONDS * 1000
                  in if now < ends then (db, [], Pw_refused 429 ''Too many attempts'' (Some (ceil_seconds (ends - now))))
                     else (case persist env (u\<lparr>u_forgotOtp := new_forgot_code now (ae_bcrypt env (fr_otp fr)) (u_forgotOtp u), u_forgotReset := no_token\<rparr>) db of
                             Inl e \<Rightarrow> (db, [], Pw_refused 500 ''Internal server error'' None)
                           | Inr (db1, u1) \<Rightarrow>
                              (db1, (if wq_mail_ok r then [Mail_sent ''forgot password code'' (u_email u1) (fr_otp fr)] else [])
                                    @ [Audited ''FORGOT_PASSWORD_OTP_SENT'' (Some (u_id u1))], code_sent_reply)))))"

definition bad_code :: password_reply where
  "bad_code = Pw_refused 401 ''Invalid or expired OTP'' None"

text \<open>What a failed or successful comparison stores and answers, on the user found.\<close>

definition verify_forgot_user :: "auth_env \<Rightarrow> fresh \<Rightarrow> int \<Rightarrow> string \<Rightarrow> user_doc \<Rightarrow> auth_db \<Rightarrow> password_reply step" where
  "verify_forgot_user env fr now otp u db =
    (let right = ae_compare env otp (str_or_empty (cs_hash (u_forgotOtp u)));
         (c, v) = check_forgot_code now right (u_forgotOtp u);
         effs = (if compared v then [Code_compared (u_id u)] else []);
         u1 = u\<lparr>u_forgotOtp := c\<rparr>;
         u2 = (case v of Code_right \<Rightarrow> u1\<lparr>u_forgotReset := \<lparr>ts_hash = Some (ae_sha env (fr_resetToken fr)),
                 ts_expiresAt = Some (now + minutes FORGOT_PASSWORD_OTP_EXPIRY_MINUTES)\<rparr>\<rparr> | _ \<Rightarrow> u1)
     in case v of
          Code_expired \<Rightarrow> (db, effs, bad_code)
        | Code_locked secs \<Rightarrow> (db, effs, Pw_refused 429 ''Too many attempts'' (Some secs))
        | _ \<Rightarrow>
          (case persist env u2 db of
             Inl e \<Rightarrow> (db, effs, bad_code)
           | Inr (db1, u3) \<Rightarrow>
             (case v of
                Code_exhausted \<Rightarrow> (db1, effs, Pw_refused 429 ''Too many attempts'' None)
              | Code_wrong n \<Rightarrow> (db1, effs @ [Audited ''FORGOT_PASSWORD_OTP_FAILED'' (Some (u_id u3))],
                  if n \<ge> 5 then Pw_refused 429 ''Too many attempts'' None else bad_code)
              | _ \<Rightarrow> (db1, effs @ [Audited ''FORGOT_PASSWORD_OTP_VERIFIED'' (Some (u_id u3))], Reset_allowed (fr_resetToken fr)))))"

definition forgotPasswordVerify :: "auth_env \<Rightarrow> fresh \<Rightarrow> int \<Rightarrow> password_req \<Rightarrow> auth_db \<Rightarrow> password_reply step" where
  "forgotPasswordVerify env fr now r db =
    (let i = request_identifier r; otp = js_trim (str_or_empty (wq_otp r)); x = resolveForgotPasswordContext r i db
     in if i = [] \<or> \<not> six_digits otp then (db, [], Pw_refused 400 ''email/xID and valid OTP are required'' None)
        else if rx_invalidFirm x then (db, [], bad_code)
        else (case rx_user x of None \<Rightarrow> (db, [], bad_code) | Some u \<Rightarrow> verify_forgot_user env fr now otp u db))"

definition bad_reset_session :: password_reply where
  "bad_reset_session = Pw_refused 401 ''Invalid or expired reset session'' None"

definition code_reset_update :: "auth_env \<Rightarrow> int \<Rightarrow> string \<Rightarrow> user_doc \<Rightarrow> user_doc" where
  "code_reset_update env now p u =
    u\<lparr>u_passwordHash := Some (ae_bcrypt env p), u_passwordSet := True, u_passwordSetAt := Some now, u_forcePasswordReset := False,
      u_forgotOtp := no_code, u_forgotReset := no_token\<rparr>"

definition forgotPasswordResetWithOtp :: "auth_env \<Rightarrow> int \<Rightarrow> password_req \<Rightarrow> auth_db \<Rightarrow> password_reply step" where
  "forgotPasswordResetWithOtp env now r db =
    (let i = request_identifier r; token = js_trim (str_or_empty (wq_resetToken r)); p = str_or_empty (wq_password r);
         x = resolveForgotPasswordContext r i db
     in if i = [] \<or> token = [] \<or> p = [] then (db, [], Pw_refused 400 ''email/xID, resetToken, and password are required'' None)
        else if \<not> validatePasswordStrength (wq_password r) then (db, [], Pw_refused 400 ''password policy'' None)
        else if rx_invalidFirm x then (db, [], bad_reset_session)
        else (case rx_user x of
                None \<Rightarrow> (db, [], bad_reset_session)
              | Some u \<Rightarrow>
                 if \<not> truthy (ts_hash (u_forgotReset u)) \<or> (case ts_expiresAt (u_forgotReset u) of None \<Rightarrow> True | Some e \<Rightarrow> e < now)
                    \<or> Some (ae_sha env token) \<noteq> ts_hash (u_forgotReset u)
                 then (db, [], bad_reset_session)
                 else (case persist env (code_reset_update env now p u) db of
                         Inl e \<Rightarrow> (db, [], Pw_refused 500 ''Internal server error'' None)
                       | Inr (db1, u1) \<Rightarrow> (db1, [Audited ''FORGOT_PASSWORD_RESET_SUCCESS'' (Some (u_id u1))], Pw_ok ''Password reset successful''))))"

subsection \<open>Setting up an account\<close>

definition setup_token_of :: "string \<Rightarrow> user_doc \<Rightarrow> bool" where
  "setup_token_of h u \<longleftrightarrow> ts_hash (u_setup u) = Some h \<or> ts_hash (u_passwordSetup u) = Some h"

datatype setup_plan = Setup_refused password_reply | Setup_user user_doc string string

definition setup_read :: "auth_env \<Rightarrow> int \<Rightarrow> password_req \<Rightarrow> auth_db \<Rightarrow> setup_plan" where
  "setup_read env now r db =
    (if \<not> truthy (wq_token r) \<or> \<not> truthy (wq_password r) then Setup_refused (Pw_refused 400 ''token and password are required'' None)
     else if \<not> validatePasswordStrength (wq_password r) then Setup_refused (Pw_refused 400 ''password policy'' None)
     else (let h = ae_sha env (str_or_empty (wq_token r))
           in case find (\<lambda>u. (truthy (wq_firmId r) \<longrightarrow> u_firmId u = wq_firmId r) \<and> setup_token_of h u) (ad_users db) of
                None \<Rightarrow> Setup_refused (Pw_refused 400 ''Invalid setup token'' None)
              | Some u \<Rightarrow>
                 if u_setupTokenUsedAt u \<noteq> None then Setup_refused (Pw_refused 400 ''This setup link has already been used.'' None)
                 else (case (case ts_expiresAt (u_setup u) of Some e \<Rightarrow> Some e | None \<Rightarrow> ts_expiresAt (u_passwordSetup u)) of
                         None \<Rightarrow> Setup_refused (Pw_refused 400 ''Setup token expired. This link will expire in 48 hours.'' None)
                       | Some e \<Rightarrow> if e < now then Setup_refused (Pw_refused 400 ''Setup token expired. This link will expire in 48 hours.'' None)
                           else Setup_user u h (str_or_empty (wq_password r)))))"

definition setup_update :: "auth_env \<Rightarrow> int \<Rightarrow> string \<Rightarrow> user_doc \<Rightarrow> user_doc" where
  "setup_update env now p u =
    u\<lparr>u_status := Some ''active'', u_isActive := True, u_setupTokenUsedAt := Some now, u_setup := no_token, u_passwordSetup := no_token,
      u_mustSetPassword := False, u_mustChangePassword := False, u_passwordSetAt := Some now, u_passwordHash := Some (ae_bcrypt env p),
      u_passwordSet := True\<rparr>"

definition setup_matches :: "int \<Rightarrow> string \<Rightarrow> user_doc \<Rightarrow> user_doc \<Rightarrow> bool" where
  "setup_matches now h seen u \<longleftrightarrow>
    u_id u = u_id seen \<and> u_firmId u = u_firmId seen \<and> u_setupTokenUsedAt u = None
    \<and> (case ts_expiresAt (u_setup u) of None \<Rightarrow> False | Some e \<Rightarrow> now < e) \<and> setup_token_of h u"

definition activate_firm :: "string option \<Rightarrow> tenant_db \<Rightarrow> tenant_db" where
  "activate_firm firmId td =
    td\<lparr>td_firms := map (\<lambda>f. if Some (tf_id f) = firmId \<and> tf_status f = Some ''pending_setup'' then f\<lparr>tf_status := Some ''active''\<rparr> else f) (td_firms td)\<rparr>"

text \<open>The conditional update at the instant of the read, on whatever is stored by then.\<close>

definition setup_write :: "auth_env \<Rightarrow> int \<Rightarrow> setup_plan \<Rightarrow> auth_db \<Rightarrow> password_reply step" where
  "setup_write env now p db =
    (case p of
       Setup_refused reply \<Rightarrow> (db, [], reply)
     | Setup_user seen h pass \<Rightarrow>
        (case find (setup_matches now h seen) (ad_users db) of
           Some u \<Rightarrow>
             (let db1 = put_user (setup_update env now pass u) db
              in (db1\<lparr>ad_tenants := activate_firm (u_firmId u) (ad_tenants db1)\<rparr>, [], Pw_ok ''Account setup completed''))
         | None \<Rightarrow>
             (case find (\<lambda>u. u_id u = u_id seen \<and> u_firmId u = u_firmId seen) (ad_users db) of
                None \<Rightarrow> (db, [], Pw_refused 400 ''Invalid setup token'' None)
              | Some u \<Rightarrow>
                 if u_setupTokenUsedAt u \<noteq> None then (db, [], Pw_refused 400 ''This setup link has already been used.'' None)
                 else if (case ts_expiresAt (u_setup u) of None \<Rightarrow> False | Some e \<Rightarrow> e \<le> now)
                 then (db, [], Pw_refused 400 ''Setup token expired. This link will expire in 48 hours.'' None)
                 else (db, [], Pw_refused 400 ''Invalid setup token'' None))))"

definition setupAccount :: "auth_env \<Rightarrow> int \<Rightarrow> password_req \<Rightarrow> auth_db \<Rightarrow> password_reply step" where
  "setupAccount env now r db = setup_write env now (setup_read env now r db) db"

text \<open>\<open>recent\<close> is the number of links sent to the user in the last hour, from the audit.\<close>

definition setup_sent_reply :: password_reply where
  "setup_sent_reply = Pw_ok ''If the account exists, a setup email has been sent.''"

definition resendSetup :: "auth_env \<Rightarrow> fresh \<Rightarrow> int \<Rightarrow> (string \<Rightarrow> nat) \<Rightarrow> string option \<Rightarrow> string option \<Rightarrow> auth_db \<Rightarrow> password_reply step" where
  "resendSetup env fr now recent firmId email db =
    (if \<not> truthy email then (db, [], Pw_refused 400 ''email is required'' None)
     else (case find (\<lambda>u. u_email u = Some (js_trim (js_lower (str_or_empty email))) \<and> (truthy firmId \<longrightarrow> u_firmId u = firmId)) (ad_users db) of
             None \<Rightarrow> (db, [], setup_sent_reply)
           | Some u \<Rightarrow>
              if recent (u_id u) \<ge> 3 then (db, [], Pw_refused 429 ''Rate limit exceeded. Max 3 setup links per hour.'' None)
              else (let t = \<lparr>ts_hash = Some (ae_sha env (fr_resetToken fr)), ts_expiresAt = Some (now + minutes (60 * INVITE_TOKEN_EXPIRY_HOURS))\<rparr>
                    in case persist env (u\<lparr>u_setup := t, u_passwordSetup := t, u_setupTokenUsedAt := None\<rparr>) db of
                         Inl e \<Rightarrow> (db, [], Pw_refused 500 ''Internal server error'' None)
                       | Inr (db1, u1) \<Rightarrow> (db1, [Mail_sent ''password setup'' (u_email u1) (fr_resetToken fr), Audited ''SetupLinkResent'' (Some (u_id u1))],
                           setup_sent_reply))))"

subsection \<open>Changing the password of a session\<close>

text \<open>
  \<open>req.user\<close>: \<open>authenticate\<close> passes a plain copy of the user without the hash and the history
  (\<open>utils/userSerialization.js\<close>) and without \<open>save\<close>; the handler is written for a document.
\<close>

datatype request_user = Plain_copy user_doc | Document user_doc

definition mustSetPassword_of :: "request_user \<Rightarrow> bool" where
  "mustSetPassword_of s = (case s of Plain_copy u \<Rightarrow> u_mustSetPassword u | Document u \<Rightarrow> u_mustSetPassword u)"

definition change_update :: "auth_env \<Rightarrow> int \<Rightarrow> string \<Rightarrow> user_doc \<Rightarrow> user_doc" where
  "change_update env now p u =
    u\<lparr>u_passwordHistory := push_history (u_passwordHash u) (u_passwordHistory u), u_passwordHash := Some (ae_bcrypt env p),
      u_passwordLastChangedAt := Some now, u_passwordExpiresAt := Some (now + PASSWORD_EXPIRY_DAYS * 24 * 60 * 60 * 1000),
      u_mustChangePassword := False, u_mustSetPassword := False, u_passwordSetAt := Some now\<rparr>"

definition changePassword :: "auth_env \<Rightarrow> int \<Rightarrow> password_req \<Rightarrow> request_user \<Rightarrow> auth_db \<Rightarrow> password_reply step" where
  "changePassword env now r s db =
    (let p = str_or_empty (wq_password r); cur = str_or_empty (wq_currentPassword r)
     in if \<not> truthy (wq_currentPassword r) \<or> \<not> truthy (wq_password r) then (db, [], Pw_refused 400 ''currentPassword and newPassword are required'' None)
        else if \<not> validatePasswordStrength (wq_password r) then (db, [], Pw_refused 400 ''password policy'' None)
        else if mustSetPassword_of s then (db, [], Pw_refused 403 ''PASSWORD_SETUP_REQUIRED'' None)
        else (case s of
                Plain_copy u \<Rightarrow> (db, [], Pw_refused 500 ''Error changing password'' None)
              | Document u \<Rightarrow>
                 if \<not> truthy (u_passwordHash u) then (db, [], Pw_refused 500 ''Error changing password'' None)
                 else if \<not> ae_compare env cur (str_or_empty (u_passwordHash u)) then (db, [], Pw_refused 401 ''Current password is incorrect'' None)
                 else if list_ex (ae_compare env p) (last_n PASSWORD_HISTORY_LIMIT (u_passwordHistory u))
                 then (db, [], Pw_refused 400 ''Cannot reuse any of your last 5 passwords'' None)
                 else if ae_compare env p (str_or_empty (u_passwordHash u))
                 then (db, [], Pw_refused 400 ''New password must be different from current password'' None)
                 else (case persist env (change_update env now p u) db of
                         Inl e \<Rightarrow> (db, [], Pw_refused 500 ''Error changing password'' None)
                       | Inr (db1, u1) \<Rightarrow>
                          (db1\<lparr>ad_tokens := map (\<lambda>t. if rk_userId t = Some (u_id u1) \<and> \<not> rk_isRevoked t then t\<lparr>rk_isRevoked := True\<rparr> else t) (ad_tokens db1)\<rparr>,
                           [Audited ''PasswordChanged'' (Some (u_id u1))], Pw_ok ''Password changed successfully''))))"

end
