(* ===== verification/PasswordProperties.thy ===== *)
theory PasswordProperties
  imports AuthPassword SessionUse
begin

section \<open>What the password flows guarantee\<close>

text \<open>
  The policy spelled out; the window of passwords a reset by link refuses; what a reset by code leaves as it was;
  the setup link, which is used once even when requests overlap, and which a disabled user can ask for.
\<close>

subsection \<open>The policy\<close>

lemma has_before_line_end_plain: "list_all (\<lambda>c. \<not> line_end c) s \<Longrightarrow> has_before_line_end P s \<longleftrightarrow> list_ex P s"
proof -
  assume "list_all (\<lambda>c. \<not> line_end c) s"
  then have t: "takeWhile (\<lambda>c. \<not> line_end c) s = s" "dropWhile (\<lambda>c. \<not> line_end c) s = []"
    by (simp_all add: list_all_iff takeWhile_eq_all_conv dropWhile_eq_Nil_conv)
  show ?thesis unfolding has_before_line_end_def t by simp
qed

text \<open>
  Fact. The password policy accepts exactly the passwords of at least eight characters, none of them a line end,
  with a lower-case letter, an upper-case letter, a digit and a character that is none of these.
\<close>

theorem password_policy:
  "validatePasswordStrength (Some s) \<longleftrightarrow>
     8 \<le> length s \<and> list_all (\<lambda>c. \<not> line_end c) s \<and> list_ex is_lower_letter s \<and> list_ex is_upper_letter s \<and> list_ex is_digit s
     \<and> list_ex (\<lambda>c. \<not> is_lower_letter c \<and> \<not> is_upper_letter c \<and> \<not> is_digit c) s"
  by (auto simp: validatePasswordStrength_def Let_def has_before_line_end_plain)

subsection \<open>What a save keeps\<close>

lemma sync_xid_keeps [simp]:
  "u_passwordHistory (sync_xid u) = u_passwordHistory u" "u_passwordExpiresAt (sync_xid u) = u_passwordExpiresAt u" "u_setup (sync_xid u) = u_setup u"
  "u_passwordSetup (sync_xid u) = u_passwordSetup u" "u_setupTokenUsedAt (sync_xid u) = u_setupTokenUsedAt u" "u_passwordReset (sync_xid u) = u_passwordReset u"
  "u_mustSetPassword (sync_xid u) = u_mustSetPassword u"
  by (simp_all add: sync_xid_def)

lemma alias_xid_keeps [simp]:
  "u_passwordHistory (alias_xid u) = u_passwordHistory u" "u_passwordExpiresAt (alias_xid u) = u_passwordExpiresAt u" "u_setup (alias_xid u) = u_setup u"
  "u_passwordSetup (alias_xid u) = u_passwordSetup u" "u_setupTokenUsedAt (alias_xid u) = u_setupTokenUsedAt u" "u_passwordReset (alias_xid u) = u_passwordReset u"
  "u_mustSetPassword (alias_xid u) = u_mustSetPassword u"
  by (simp_all add: alias_xid_def)

lemma sync_email_keeps [simp]:
  "u_passwordHistory (sync_email u) = u_passwordHistory u" "u_passwordExpiresAt (sync_email u) = u_passwordExpiresAt u" "u_setup (sync_email u) = u_setup u"
  "u_passwordSetup (sync_email u) = u_passwordSetup u" "u_setupTokenUsedAt (sync_email u) = u_setupTokenUsedAt u" "u_passwordReset (sync_email u) = u_passwordReset u"
  "u_mustSetPassword (sync_email u) = u_mustSetPassword u"
  by (simp_all add: sync_email_def Let_def)

lemma sync_status_keeps [simp]:
  "u_passwordHistory (sync_status b u) = u_passwordHistory u" "u_passwordExpiresAt (sync_status b u) = u_passwordExpiresAt u" "u_setup (sync_status b u) = u_setup u"
  "u_passwordSetup (sync_status b u) = u_passwordSetup u" "u_setupTokenUsedAt (sync_status b u) = u_setupTokenUsedAt u" "u_passwordReset (sync_status b u) = u_passwordReset u"
  "u_mustSetPassword (sync_status b u) = u_mustSetPassword u"
  by (simp_all add: sync_status_def Let_def)

lemma sync_password_keeps [simp]:
  "u_passwordHistory (sync_password b u) = u_passwordHistory u" "u_passwordExpiresAt (sync_password b u) = u_passwordExpiresAt u" "u_setup (sync_password b u) = u_setup u"
  "u_passwordSetup (sync_password b u) = u_passwordSetup u" "u_setupTokenUsedAt (sync_password b u) = u_setupTokenUsedAt u" "u_passwordReset (sync_password b u) = u_passwordReset u"
  "u_mustSetPassword (sync_password b u) = u_mustSetPassword u"
  by (simp_all add: sync_password_def Let_def)

lemma sync_manager_keeps [simp]:
  "u_passwordHistory (sync_manager u) = u_passwordHistory u" "u_passwordExpiresAt (sync_manager u) = u_passwordExpiresAt u" "u_setup (sync_manager u) = u_setup u"
  "u_passwordSetup (sync_manager u) = u_passwordSetup u" "u_setupTokenUsedAt (sync_manager u) = u_setupTokenUsedAt u" "u_passwordReset (sync_manager u) = u_passwordReset u"
  "u_mustSetPassword (sync_manager u) = u_mustSetPassword u"
  by (simp_all add: sync_manager_def Let_def)

lemma save_user_keeps:
  assumes "save_user e ref b u = Inr s"
  shows "u_passwordHistory s = u_passwordHistory u" "u_passwordExpiresAt s = u_passwordExpiresAt u" "u_setup s = u_setup u"
    "u_passwordSetup s = u_passwordSetup u" "u_setupTokenUsedAt s = u_setupTokenUsedAt u" "u_passwordReset s = u_passwordReset u"
    "u_mustSetPassword s = u_mustSetPassword u"
  using assms by (auto simp: save_user_def Let_def res_bind_Inr_iff)

lemma persist_stored:
  assumes "persist env u db = Inr (db1, s)" "u_id u \<in> u_id ` set (ad_users db)"
  shows "user_by_id (u_id u) (ad_users db1) = Some s" "u_id s = u_id u" "ad_tokens db1 = ad_tokens db"
    "u_passwordHash s = u_passwordHash u" "u_passwordHistory s = u_passwordHistory u" "u_passwordExpiresAt s = u_passwordExpiresAt u"
    "u_setup s = u_setup u" "u_passwordSetup s = u_passwordSetup u" "u_setupTokenUsedAt s = u_setupTokenUsedAt u"
    "u_firmId s = u_firmId u" "u_mustSetPassword s = u_mustSetPassword u" "u_passwordReset s = u_passwordReset u"
proof -
  from assms(1) have p: "db1 = put_user s db" and s: "save_user (ae_enforceTeam env) (find_ref (ad_users db)) (user_by_id (u_id u) (ad_users db)) u = Inr s"
    by (auto simp: persist_def split: sum.splits)
  note k = save_userD(1,3,8) [OF s] save_user_keeps [OF s]
  show "user_by_id (u_id u) (ad_users db1) = Some s" using assms(2) user_by_id_put [of "u_id u" s "ad_users db"] k(1) by (simp add: p put_user_def)
  show "u_id s = u_id u" "ad_tokens db1 = ad_tokens db"
    "u_passwordHash s = u_passwordHash u" "u_passwordHistory s = u_passwordHistory u" "u_passwordExpiresAt s = u_passwordExpiresAt u"
    "u_setup s = u_setup u" "u_passwordSetup s = u_passwordSetup u" "u_setupTokenUsedAt s = u_setupTokenUsedAt u"
    "u_firmId s = u_firmId u" "u_mustSetPassword s = u_mustSetPassword u" "u_passwordReset s = u_passwordReset u"
    using k by (simp_all add: p put_user_def)
qed

subsection \<open>The window of a reset by link\<close>

text \<open>The current password and the ones before it, oldest first.\<close>

definition recent_hashes :: "user_doc \<Rightarrow> string list" where
  "recent_hashes u = u_passwordHistory u @ [str_or_empty (u_passwordHash u)]"

lemma last_n_all: "length xs \<le> n \<Longrightarrow> last_n n xs = xs"
  by (simp add: last_n_def)

lemma push_history_window:
  "truthy old \<Longrightarrow> length hs \<le> 5 \<Longrightarrow> push_history old hs = last_n 5 (hs @ [str_or_empty old])"
  by (auto simp: push_history_def PASSWORD_HISTORY_LIMIT_def last_n_def Let_def)

lemma last_n_snoc: "last_n (Suc n) (xs @ [x]) = last_n n xs @ [x]"
  by (simp add: last_n_def)

lemma link_owner_in: "link_owner now f h db = Some u \<Longrightarrow> u \<in> set (ad_users db)"
  by (auto simp: link_owner_def find_Some_iff)

text \<open>
  Fact. A reset by link refuses the current password and the five before it, and keeps exactly the last six: when
  it succeeds, the new password matches none of the stored ones, and the six most recent of these with the new
  one are what the next reset will refuse; the link does not work again and no more than five old passwords are
  kept.
\<close>

theorem link_reset_window:
  assumes "resetPasswordWithToken env now r db = (db', effs, Pw_ok m)"
    and "link_owner now (wq_firmId r) (ae_sha env (str_or_empty (wq_token r))) db = Some u"
    and "truthy (u_passwordHash u)" and "length (u_passwordHistory u) \<le> 5"
  shows "\<exists>s. user_by_id (u_id u) (ad_users db') = Some s
    \<and> u_passwordHash s = Some (ae_bcrypt env (str_or_empty (wq_password r)))
    \<and> list_all (\<lambda>h. \<not> ae_compare env (str_or_empty (wq_password r)) h) (recent_hashes u)
    \<and> recent_hashes s = last_n 6 (recent_hashes u @ [ae_bcrypt env (str_or_empty (wq_password r))])
    \<and> length (u_passwordHistory s) \<le> 5
    \<and> \<not> token_live later (ae_sha env (str_or_empty (wq_token r))) (u_passwordSetup s)
    \<and> \<not> token_live later (ae_sha env (str_or_empty (wq_token r))) (u_passwordReset s)"
proof -
  let ?p = "str_or_empty (wq_password r)"
  from assms(1,2) obtain s where s: "persist env (link_update env now ?p u) db = Inr (db', s)"
    and h: "\<not> list_ex (ae_compare env ?p) (last_n PASSWORD_HISTORY_LIMIT (u_passwordHistory u))" "\<not> ae_compare env ?p (str_or_empty (u_passwordHash u))"
    using assms(3) by (auto simp: resetPasswordWithToken_def Let_def split: if_splits sum.splits)
  have i: "u_id (link_update env now ?p u) = u_id u" by (simp add: link_update_def)
  have "u_id (link_update env now ?p u) \<in> u_id ` set (ad_users db)" using link_owner_in [OF assms(2)] i by simp
  note k = persist_stored [OF s this]
  have hash: "u_passwordHash s = Some (ae_bcrypt env ?p)" using k(4) by (simp add: link_update_def)
  have hist: "u_passwordHistory s = last_n 5 (recent_hashes u)"
    using k(5) assms(3,4) by (simp add: link_update_def push_history_window recent_hashes_def)
  have "list_all (\<lambda>h. \<not> ae_compare env ?p h) (recent_hashes u)"
    using h assms(4) by (simp add: recent_hashes_def last_n_all PASSWORD_HISTORY_LIMIT_def list_all_iff list_ex_iff)
  moreover have "recent_hashes s = last_n 6 (recent_hashes u @ [ae_bcrypt env ?p])"
    using hash hist last_n_snoc [of 5 "recent_hashes u"] by (simp add: recent_hashes_def)
  moreover have "length (u_passwordHistory s) \<le> 5" by (simp add: hist last_n_def)
  moreover have "\<not> token_live later h (u_passwordSetup s)" "\<not> token_live later h (u_passwordReset s)" for h
    using k(8,12) by (simp_all add: link_update_def no_token_def token_live_def)
  ultimately show ?thesis using k(1) hash i by auto
qed

definition sample_reset_user :: user_doc where
  "sample_reset_user = blank_user\<lparr>u_passwordHistory := [''h1'', ''h2'', ''h3'', ''h4'', ''h5''], u_passwordHash := Some ''h6'',
     u_passwordReset := \<lparr>ts_hash = Some ''$link'', ts_expiresAt = Some 100\<rparr>\<rparr>"

definition sample_reset_db :: auth_db where
  "sample_reset_db = sample_auth_db\<lparr>ad_users := [sample_reset_user]\<rparr>"

definition sample_reset_req :: password_req where
  "sample_reset_req = \<lparr>wq_firmId = None, wq_firm = None, wq_slugs = [], wq_bodySlug = None, wq_identifiers = [Some ''X000001''], wq_otp = None,
     wq_resetToken = Some ''code'', wq_token = Some ''link'', wq_password = Some ''Passw0rd!'', wq_currentPassword = None, wq_mail_ok = True\<rparr>"

definition sample_reset_after :: user_doc where
  "sample_reset_after = sample_reset_user\<lparr>u_passwordHistory := [''h2'', ''h3'', ''h4'', ''h5'', ''h6''], u_passwordHash := Some ''#Passw0rd!'',
     u_passwordReset := no_token, u_passwordLastChangedAt := Some 7, u_passwordSetAt := Some 7, u_passwordExpiresAt := Some 5184000007\<rparr>"

lemma sample_reset_saved:
  "save_user False (find_ref [sample_reset_user]) (Some sample_reset_user) sample_reset_after = Inr sample_reset_after"
  by code_simp

theorem link_reset_window_witness:
  "\<exists>db' effs m s. resetPasswordWithToken sample_env 7 sample_reset_req sample_reset_db = (db', effs, Pw_ok m)
    \<and> user_by_id ''u1'' (ad_users db') = Some s \<and> recent_hashes s = [''h2'', ''h3'', ''h4'', ''h5'', ''h6'', ''#Passw0rd!'']"
proof -
  have o: "link_owner 7 (wq_firmId sample_reset_req) (ae_sha sample_env (str_or_empty (wq_token sample_reset_req))) sample_reset_db = Some sample_reset_user"
    by code_simp
  have g: "truthy (wq_token sample_reset_req)" "truthy (wq_password sample_reset_req)" "validatePasswordStrength (wq_password sample_reset_req)"
    "list_ex (ae_compare sample_env ''Passw0rd!'') (last_n PASSWORD_HISTORY_LIMIT (u_passwordHistory sample_reset_user)) = False"
    "ae_compare sample_env ''Passw0rd!'' (str_or_empty (u_passwordHash sample_reset_user)) = False"
    by code_simp+
  have p: "str_or_empty (wq_password sample_reset_req) = ''Passw0rd!''" by (simp add: sample_reset_req_def)
  have l: "link_update sample_env 7 ''Passw0rd!'' sample_reset_user = sample_reset_after" by code_simp
  have u: "user_by_id (u_id sample_reset_after) [sample_reset_user] = Some sample_reset_user" by code_simp
  have s: "persist sample_env sample_reset_after sample_reset_db = Inr (put_user sample_reset_after sample_reset_db, sample_reset_after)"
    using sample_reset_saved u by (simp add: persist_def sample_reset_db_def sample_env_def)
  obtain db' effs m where r: "resetPasswordWithToken sample_env 7 sample_reset_req sample_reset_db = (db', effs, Pw_ok m)"
    using o g p l s by (simp add: resetPasswordWithToken_def Let_def)
  have t: "truthy (u_passwordHash sample_reset_user)" "length (u_passwordHistory sample_reset_user) \<le> 5"
    "u_id sample_reset_user = ''u1''"
    "last_n 6 (recent_hashes sample_reset_user @ [ae_bcrypt sample_env ''Passw0rd!'']) = [''h2'', ''h3'', ''h4'', ''h5'', ''h6'', ''#Passw0rd!'']"
    by code_simp+
  from link_reset_window [OF r o t(1,2)] r t(3,4) p show ?thesis by metis
qed

subsection \<open>What a reset by code leaves\<close>

text \<open>The user a reset by code is for.\<close>

definition code_owner :: "password_req \<Rightarrow> auth_db \<Rightarrow> user_doc option" where
  "code_owner r db = rx_user (resolveForgotPasswordContext r (request_identifier r) db)"

lemma code_owner_in: "code_owner r db = Some u \<Longrightarrow> u \<in> set (ad_users db)"
proof -
  assume a: "code_owner r db = Some u"
  have m: "x \<in> set (ad_users db)" if "filter P (ad_users db) = [x]" for P x
  proof -
    have "x \<in> set (filter P (ad_users db))" by (simp only: that list.set_intros)
    then show ?thesis by simp
  qed
  show ?thesis using a
    by (auto simp: code_owner_def resolveForgotPasswordContext_def Let_def split: if_splits list.splits option.splits dest: m)
qed

text \<open>
  Fact. A reset by code changes the password and nothing that stands in its way: when it succeeds the stored hash is
  that of the new password, but the date the password expires, the history and every session are as they were.
  So a user whose password has expired can reset it and is still refused at the next sign-in, and a session
  opened with the old password goes on.
\<close>

theorem code_reset_leaves:
  assumes "forgotPasswordResetWithOtp env now r db = (db', effs, Pw_ok m)" and "code_owner r db = Some u"
  shows "\<exists>s. user_by_id (u_id u) (ad_users db') = Some s \<and> u_passwordHash s = Some (ae_bcrypt env (str_or_empty (wq_password r)))
    \<and> u_passwordExpiresAt s = u_passwordExpiresAt u \<and> u_passwordHistory s = u_passwordHistory u \<and> ad_tokens db' = ad_tokens db
    \<and> (\<forall>env2 fr later mail d. (case u_passwordExpiresAt u of None \<Rightarrow> False | Some e \<Rightarrow> e < later) \<longrightarrow>
         snd (snd (handlePostPasswordChecks env2 fr later mail s d)) = Inl (Refused 403 ''Password has expired. Please change your password.'' None None))"
proof -
  let ?p = "str_or_empty (wq_password r)"
  from assms obtain s where s: "persist env (code_reset_update env now ?p u) db = Inr (db', s)"
    by (auto simp: forgotPasswordResetWithOtp_def code_owner_def bad_reset_session_def Let_def split: if_splits sum.splits)
  have i: "u_id (code_reset_update env now ?p u) = u_id u" by (simp add: code_reset_update_def)
  have "u_id (code_reset_update env now ?p u) \<in> u_id ` set (ad_users db)" using code_owner_in [OF assms(2)] i by simp
  note k = persist_stored [OF s this]
  have e: "u_passwordExpiresAt s = u_passwordExpiresAt u" using k(6) by (simp add: code_reset_update_def)
  have "snd (snd (handlePostPasswordChecks env2 fr later mail s d)) = Inl (Refused 403 ''Password has expired. Please change your password.'' None None)"
    if "case u_passwordExpiresAt u of None \<Rightarrow> False | Some e \<Rightarrow> e < later" for env2 fr later mail d
    using that by (simp add: handlePostPasswordChecks_def e)
  moreover have "u_passwordHash s = Some (ae_bcrypt env ?p)" "u_passwordHistory s = u_passwordHistory u"
    using k(4,5) by (simp_all add: code_reset_update_def)
  ultimately show ?thesis using k(1,3) e i by auto
qed

definition sample_expired_user :: user_doc where
  "sample_expired_user = blank_user\<lparr>u_passwordExpiresAt := Some 3, u_forgotReset := \<lparr>ts_hash = Some ''$code'', ts_expiresAt = Some 100\<rparr>\<rparr>"

definition sample_expired_db :: auth_db where
  "sample_expired_db = sample_session_db\<lparr>ad_users := [sample_expired_user],
     ad_tenants := \<lparr>td_clients = [], td_firms = [\<lparr>tf_id = ''F1'', tf_defaultClientId = None, tf_firmSlug = Some ''acme'', tf_status = Some ''active''\<rparr>]\<rparr>\<rparr>"

definition sample_expired_after :: user_doc where
  "sample_expired_after = sample_expired_user\<lparr>u_passwordHash := Some ''#Passw0rd!'', u_passwordSetAt := Some 7, u_forgotReset := no_token\<rparr>"

lemma sample_expired_saved:
  "save_user False (find_ref [sample_expired_user]) (Some sample_expired_user) sample_expired_after = Inr sample_expired_after"
  by code_simp

theorem code_reset_leaves_witness:
  "\<exists>db' effs m s. forgotPasswordResetWithOtp sample_env 7 sample_reset_req sample_expired_db = (db', effs, Pw_ok m)
    \<and> user_by_id ''u1'' (ad_users db') = Some s \<and> u_passwordHash s = Some ''#Passw0rd!'' \<and> length (filter (\<lambda>t. \<not> rk_isRevoked t) (ad_tokens db')) = 1
    \<and> snd (snd (handlePostPasswordChecks sample_env sample_fresh 8 True s db')) = Inl (Refused 403 ''Password has expired. Please change your password.'' None None)"
proof -
  have o: "code_owner sample_reset_req sample_expired_db = Some sample_expired_user" by code_simp
  have g: "request_identifier sample_reset_req = ''X000001''" "js_trim (str_or_empty (wq_resetToken sample_reset_req)) = ''code''"
    "wq_password sample_reset_req = Some ''Passw0rd!''" "validatePasswordStrength (Some ''Passw0rd!'')"
    "rx_invalidFirm (resolveForgotPasswordContext sample_reset_req ''X000001'' sample_expired_db) = False"
    "u_forgotReset sample_expired_user = \<lparr>ts_hash = Some ''$code'', ts_expiresAt = Some 100\<rparr>" "ae_sha sample_env ''code'' = ''$code''"
    by code_simp+
  have l: "code_reset_update sample_env 7 ''Passw0rd!'' sample_expired_user = sample_expired_after" by code_simp
  have u: "user_by_id (u_id sample_expired_after) [sample_expired_user] = Some sample_expired_user" by code_simp
  have s: "persist sample_env sample_expired_after sample_expired_db = Inr (put_user sample_expired_after sample_expired_db, sample_expired_after)"
    using sample_expired_saved u by (simp add: persist_def sample_expired_db_def sample_env_def)
  obtain db' effs m where r: "forgotPasswordResetWithOtp sample_env 7 sample_reset_req sample_expired_db = (db', effs, Pw_ok m)"
    using o g l s by (simp add: forgotPasswordResetWithOtp_def code_owner_def truthy_def Let_def)
  have t: "u_id sample_expired_user = ''u1''" "length (filter (\<lambda>t. \<not> rk_isRevoked t) (ad_tokens sample_expired_db)) = 1"
    "case u_passwordExpiresAt sample_expired_user of None \<Rightarrow> False | Some e \<Rightarrow> e < (8::int)" "str_or_empty (wq_password sample_reset_req) = ''Passw0rd!''"
    "ae_bcrypt sample_env ''Passw0rd!'' = ''#Passw0rd!''"
    by code_simp+
  from code_reset_leaves [OF r o] r t show ?thesis by metis
qed

subsection \<open>The setup link\<close>

fun pw_done :: "password_reply \<Rightarrow> bool" where
  "pw_done (Pw_ok m) = True"
| "pw_done r = False"

fun plan_user :: "setup_plan \<Rightarrow> string option" where
  "plan_user (Setup_refused r) = None"
| "plan_user (Setup_user u h p) = Some (u_id u)"

text \<open>Updates of requests that have all been read, in the order they reach the store.\<close>

fun run_setup :: "auth_env \<Rightarrow> (int \<times> setup_plan) list \<Rightarrow> auth_db \<Rightarrow> (string option \<times> bool) list" where
  "run_setup env [] db = []"
| "run_setup env ((now, p) # ps) db =
    (case setup_write env now p db of (db', effs, r) \<Rightarrow> (plan_user p, p \<noteq> Setup_refused r \<and> pw_done r) # run_setup env ps db')"

definition link_used :: "string \<Rightarrow> auth_db \<Rightarrow> bool" where
  "link_used i db \<longleftrightarrow> (\<exists>u. user_by_id i (ad_users db) = Some u \<and> u_setupTokenUsedAt u \<noteq> None)"

lemma setup_write_cases:
  assumes "setup_write env now p db = (db', effs, r)"
  obtains "db' = db" "\<not> pw_done r \<or> p = Setup_refused r"
  | seen h pass u where "p = Setup_user seen h pass" "u \<in> set (ad_users db)" "setup_matches now h seen u"
      "ad_users db' = ad_users (put_user (setup_update env now pass u) db)" "pw_done r"
proof (cases p)
  case (Setup_refused reply)
  with assms show ?thesis by (intro that(1)) (auto simp: setup_write_def)
next
  case (Setup_user seen h pass)
  show ?thesis
  proof (cases "find (setup_matches now h seen) (ad_users db)")
    case None
    with assms Setup_user show ?thesis by (intro that(1)) (auto simp: setup_write_def split: option.splits if_splits)
  next
    case (Some u)
    then have "u \<in> set (ad_users db)" "setup_matches now h seen u" by (auto simp: find_Some_iff)
    with assms Setup_user Some show ?thesis by (intro that(2)) (auto simp: setup_write_def Let_def)
  qed
qed

lemma setup_write_used:
  assumes "setup_write env now p db = (db', effs, r)" "distinct_users db"
  shows "distinct_users db'" "link_used i db \<Longrightarrow> link_used i db'" "link_used i db \<Longrightarrow> plan_user p = Some i \<Longrightarrow> \<not> pw_done r"
    "plan_user p = Some i \<Longrightarrow> pw_done r \<Longrightarrow> link_used i db'"
proof -
  have upd: "u_id (setup_update env now pass u) = u_id u" "u_setupTokenUsedAt (setup_update env now pass u) = Some now" for pass u
    by (simp_all add: setup_update_def)
  have "distinct_users db' \<and> (link_used i db \<longrightarrow> link_used i db') \<and> (link_used i db \<longrightarrow> plan_user p = Some i \<longrightarrow> \<not> pw_done r)
    \<and> (plan_user p = Some i \<longrightarrow> pw_done r \<longrightarrow> link_used i db')"
    using assms(1)
  proof (cases rule: setup_write_cases)
    case 1
    then show ?thesis using assms(2) by (cases p) auto
  next
    case (2 seen h pass u)
    have m: "u_id u = u_id seen" "u_setupTokenUsedAt u = None" using 2(3) by (auto simp: setup_matches_def)
    have by_id: "user_by_id (u_id u) (ad_users db) = Some u"
      using user_by_id_distinct [OF assms(2) [unfolded distinct_users_def] 2(2)] .
    have stored: "user_by_id i (ad_users db') = (if i = u_id u then Some (setup_update env now pass u) else user_by_id i (ad_users db))"
      using 2(2) user_by_id_put [of i "setup_update env now pass u" "ad_users db"] by (simp add: 2(4) put_user_def upd(1))
    have d: "distinct_users db'" using assms(2) by (simp add: distinct_users_def 2(4))
    show ?thesis
    proof (cases "i = u_id u")
      case True
      then have "\<not> link_used i db" "link_used i db'" using by_id m(2) stored upd(2) by (simp_all add: link_used_def)
      then show ?thesis using d by blast
    next
      case False
      then have "link_used i db' = link_used i db" "plan_user p \<noteq> Some i" using stored 2(1) m(1) by (simp_all add: link_used_def)
      then show ?thesis using d by blast
    qed
  qed
  then show "distinct_users db'" "link_used i db \<Longrightarrow> link_used i db'" "link_used i db \<Longrightarrow> plan_user p = Some i \<Longrightarrow> \<not> pw_done r"
    "plan_user p = Some i \<Longrightarrow> pw_done r \<Longrightarrow> link_used i db'" by blast+
qed

lemma run_setup_used: "distinct_users db \<Longrightarrow> link_used i db \<Longrightarrow> filter (\<lambda>(k, ok). k = Some i \<and> ok) (run_setup env ps db) = []"
proof (induction ps arbitrary: db)
  case (Cons q ps)
  obtain now p where q: "q = (now, p)" by (cases q)
  obtain db' effs r where w: "setup_write env now p db = (db', effs, r)" by (cases "setup_write env now p db") auto
  show ?case using Cons.IH [OF setup_write_used(1) [OF w Cons.prems(1)] setup_write_used(2) [OF w Cons.prems]]
      setup_write_used(3) [OF w Cons.prems] q w by auto
qed simp


definition sample_invited :: user_doc where
  "sample_invited = blank_user\<lparr>u_status := Some ''disabled'', u_isActive := False, u_passwordHash := Some ''h'', u_mustSetPassword := False\<rparr>"

definition sample_linked :: user_doc where
  "sample_linked = sample_invited\<lparr>u_setup := \<lparr>ts_hash = Some ''$reset'', ts_expiresAt = Some 172800000\<rparr>,
     u_passwordSetup := \<lparr>ts_hash = Some ''$reset'', ts_expiresAt = Some 172800000\<rparr>\<rparr>"

definition sample_linked_db :: auth_db where
  "sample_linked_db = sample_auth_db\<lparr>ad_users := [sample_linked]\<rparr>"

definition sample_setup_req :: "string \<Rightarrow> password_req" where
  "sample_setup_req p = sample_reset_req\<lparr>wq_token := Some ''reset'', wq_password := Some p\<rparr>"


definition mail_owner :: "string \<Rightarrow> auth_db \<Rightarrow> user_doc option" where
  "mail_owner mail db = find (\<lambda>u. u_email u = Some (js_trim (js_lower mail))) (ad_users db)"

lemma resendSetup_sent:
  assumes "resendSetup env fr now recent None (Some mail) db = (db1, effs, rep)" "effs \<noteq> []" "mail_owner mail db = Some u"
  shows "\<exists>s. user_by_id (u_id u) (ad_users db1) = Some s \<and> u_firmId s = u_firmId u \<and> u_setupTokenUsedAt s = None \<and> db1 = put_user s db \<and> u_id s = u_id u
    \<and> u_setup s = \<lparr>ts_hash = Some (ae_sha env (fr_resetToken fr)), ts_expiresAt = Some (now + minutes (60 * INVITE_TOKEN_EXPIRY_HOURS))\<rparr>"
proof -
  let ?t = "\<lparr>ts_hash = Some (ae_sha env (fr_resetToken fr)), ts_expiresAt = Some (now + minutes (60 * INVITE_TOKEN_EXPIRY_HOURS))\<rparr>"
  from assms obtain s where s: "persist env (u\<lparr>u_setup := ?t, u_passwordSetup := ?t, u_setupTokenUsedAt := None\<rparr>) db = Inr (db1, s)"
    by (auto simp: resendSetup_def mail_owner_def truthy_def Let_def split: if_splits sum.splits)
  have "u \<in> set (ad_users db)" using assms(3) by (auto simp: mail_owner_def find_Some_iff)
  then have "u_id (u\<lparr>u_setup := ?t, u_passwordSetup := ?t, u_setupTokenUsedAt := None\<rparr>) \<in> u_id ` set (ad_users db)" by simp
  from persist_stored [OF s this] persistD(1) [OF s] show ?thesis by auto
qed

text \<open>
  Fact. Deactivating a user does not keep the user out: whatever the status of the account, when the public request
  for a setup link is answered with a mail, the link in it sets a new password and makes the account active, until
  it expires after 48 hours.
\<close>

theorem setup_link_reactivates:
  assumes "resendSetup env fr now recent None (Some mail) db = (db1, effs, rep)" and "effs \<noteq> []" and "mail_owner mail db = Some u"
    and "distinct_users db" and "\<forall>v\<in>set (ad_users db). u_id v \<noteq> u_id u \<longrightarrow> \<not> setup_token_of (ae_sha env (fr_resetToken fr)) v"
    and "later < now + minutes (60 * INVITE_TOKEN_EXPIRY_HOURS)"
    and "wq_firmId r = None" and "wq_token r = Some (fr_resetToken fr)" and "fr_resetToken fr \<noteq> []" and "validatePasswordStrength (wq_password r)"
  shows "case setupAccount env later r db1 of (db2, effs2, rep2) \<Rightarrow> rep2 = Pw_ok ''Account setup completed'' \<and>
    (\<exists>s. user_by_id (u_id u) (ad_users db2) = Some s \<and> isActiveStatus (u_status s) \<and> u_isActive s
      \<and> u_passwordHash s = Some (ae_bcrypt env (str_or_empty (wq_password r))))"
proof -
  let ?h = "ae_sha env (fr_resetToken fr)" and ?p = "str_or_empty (wq_password r)"
  obtain s where s: "user_by_id (u_id u) (ad_users db1) = Some s" "u_setupTokenUsedAt s = None" "db1 = put_user s db" "u_id s = u_id u"
    "u_setup s = \<lparr>ts_hash = Some ?h, ts_expiresAt = Some (now + minutes (60 * INVITE_TOKEN_EXPIRY_HOURS))\<rparr>"
    using resendSetup_sent [OF assms(1-3)] by blast
  have d: "distinct_users db1" using assms(4) s(3) by simp
  have in1: "s \<in> set (ad_users db1)" using user_by_idD [OF s(1)] by blast
  have tok: "setup_token_of ?h s" using s(5) by (simp add: setup_token_of_def)
  have other: "v = s" if "v \<in> set (ad_users db1)" "setup_token_of ?h v" for v
    using that assms(5) s(4) by (auto simp: s(3) put_user_def split: if_splits)
  have unique: "find P (ad_users db1) = Some s" if "P s" "\<And>v. P v \<Longrightarrow> setup_token_of ?h v" for P
  proof (cases "find P (ad_users db1)")
    case None
    with that(1) in1 show ?thesis by (simp add: find_None_iff)
  next
    case (Some v)
    then have "v \<in> set (ad_users db1)" "P v" by (auto simp: find_Some_iff)
    with other that(2) Some show ?thesis by blast
  qed
  have strong: "truthy (wq_password r)"
    using assms(10) by (cases "wq_password r") (auto simp: validatePasswordStrength_def truthy_def Let_def)
  have read: "setup_read env later r db1 = Setup_user s ?h ?p"
    using assms(6-10) strong tok s(2,5) unique [of "\<lambda>v. setup_token_of ?h v"] by (simp add: setup_read_def truthy_def Let_def)
  have match: "find (setup_matches later ?h s) (ad_users db1) = Some s"
    by (rule unique) (use assms(6) tok s(2,5) in \<open>auto simp: setup_matches_def\<close>)
  have upd: "u_id (setup_update env later ?p s) = u_id u" "u_status (setup_update env later ?p s) = Some ''active''"
    "u_isActive (setup_update env later ?p s)" "u_passwordHash (setup_update env later ?p s) = Some (ae_bcrypt env ?p)"
    by (simp_all add: setup_update_def s(4))
  have stored: "user_by_id (u_id u) (ad_users (put_user (setup_update env later ?p s) db1)) = Some (setup_update env later ?p s)"
    using user_by_id_put [of "u_id u" "setup_update env later ?p s" "ad_users db1"] imageI [OF in1, of u_id] s(4) upd(1) by (simp add: put_user_def)
  have "isActiveStatus (Some ''active'')" by code_simp
  with match stored upd show ?thesis by (simp add: setupAccount_def read setup_write_def Let_def)
qed

definition sample_disabled_db :: auth_db where
  "sample_disabled_db = sample_auth_db\<lparr>ad_users := [sample_invited]\<rparr>"

lemma sample_linked_saved: "save_user False (find_ref [sample_invited]) (Some sample_invited) sample_linked = Inr sample_linked"
  by code_simp

theorem setup_link_reactivates_witness:
  "u_status sample_invited = Some ''disabled'' \<and>
   (\<exists>db1 effs rep. resendSetup sample_env sample_fresh 0 (\<lambda>_. 0) None (Some ''A@b.c'') sample_disabled_db = (db1, effs, rep) \<and>
     (case setupAccount sample_env 60000 (sample_setup_req ''Passw0rd!'') db1 of (db2, effs2, rep2) \<Rightarrow>
       \<exists>s. user_by_id ''u1'' (ad_users db2) = Some s \<and> isActiveStatus (u_status s) \<and> u_passwordHash s = Some ''#Passw0rd!''))"
proof -
  have l: "sample_invited\<lparr>u_setup := \<lparr>ts_hash = Some (ae_sha sample_env (fr_resetToken sample_fresh)), ts_expiresAt = Some (0 + minutes (60 * INVITE_TOKEN_EXPIRY_HOURS))\<rparr>,
     u_passwordSetup := \<lparr>ts_hash = Some (ae_sha sample_env (fr_resetToken sample_fresh)), ts_expiresAt = Some (0 + minutes (60 * INVITE_TOKEN_EXPIRY_HOURS))\<rparr>,
     u_setupTokenUsedAt := None\<rparr> = sample_linked" by code_simp
  have i: "user_by_id (u_id sample_linked) [sample_invited] = Some sample_invited" by code_simp
  have s: "persist sample_env sample_linked sample_disabled_db = Inr (put_user sample_linked sample_disabled_db, sample_linked)"
    using sample_linked_saved i by (simp add: persist_def sample_disabled_db_def sample_env_def)
  have o: "mail_owner ''A@b.c'' sample_disabled_db = Some sample_invited" by code_simp
  obtain db1 effs rep where r: "resendSetup sample_env sample_fresh 0 (\<lambda>_. 0) None (Some ''A@b.c'') sample_disabled_db = (db1, effs, rep)" "effs \<noteq> []"
    using o l s by (simp add: resendSetup_def mail_owner_def truthy_def Let_def)
  have d: "distinct_users sample_disabled_db" by (simp add: distinct_users_def sample_disabled_db_def)
  have f: "\<forall>v\<in>set (ad_users sample_disabled_db). u_id v \<noteq> u_id sample_invited \<longrightarrow> \<not> setup_token_of (ae_sha sample_env (fr_resetToken sample_fresh)) v"
    by (simp add: sample_disabled_db_def)
  have c: "(60000::int) < 0 + minutes (60 * INVITE_TOKEN_EXPIRY_HOURS)" "wq_firmId (sample_setup_req ''Passw0rd!'') = None"
    "wq_token (sample_setup_req ''Passw0rd!'') = Some (fr_resetToken sample_fresh)" "fr_resetToken sample_fresh \<noteq> []"
    "validatePasswordStrength (wq_password (sample_setup_req ''Passw0rd!''))" by code_simp+
  have t: "u_id sample_invited = ''u1''" "u_status sample_invited = Some ''disabled''"
    "ae_bcrypt sample_env (str_or_empty (wq_password (sample_setup_req ''Passw0rd!''))) = ''#Passw0rd!''" by code_simp+
  from setup_link_reactivates [OF r o d f c] t r(1) show ?thesis by (auto split: prod.splits)
qed

end
