(* ===== verification/AccountAdmin.thy ===== *)
theory AccountAdmin
  imports AuthPassword Otp DocketSchedulers
begin

section \<open>Administration of accounts\<close>

text \<open>
  The handlers of \<open>controllers/auth.controller.js\<close> by which an administrator activates, deactivates, locks,
  unlocks and resets accounts, with the services they call: \<open>services/user.service.js\<close> (limits of the plan,
  protected accounts), \<open>services/userWorkbasketMembership.service.js\<close>, \<open>resetUserToInvitedState\<close> of
  \<open>services/adminController.service.js\<close>, the one-time passwords (\<open>Otp\<close>) and, on deactivation, the
  hand-over of the user's dockets (\<open>DocketSchedulers\<close>).  Numbers of users are integers.
\<close>

subsection \<open>Limits of the plan\<close>

record firm_plan =
  fp_id :: string
  fp_plan :: "string option"
  fp_maxUsers :: "int option"
  fp_planId :: "string option"

record plan_doc =
  pl_id :: string
  pl_maxUsers :: "int option"

datatype capacity_error = Firm_not_found | Plan_limit_exceeded int | Plan_admin_limit_exceeded int

definition counted_user :: "string option \<Rightarrow> user_doc \<Rightarrow> bool" where
  "counted_user firmId u \<longleftrightarrow> u_firmId u = firmId \<and> (u_status u = Some ''active'' \<or> u_status u = Some ''invited'')"

definition user_count :: "string option \<Rightarrow> user_doc list \<Rightarrow> int" where
  "user_count firmId us = int (length (filter (counted_user firmId) us))"

definition admin_count :: "string option \<Rightarrow> user_doc list \<Rightarrow> int" where
  "admin_count firmId us =
    int (length (filter (\<lambda>u. counted_user firmId u \<and> (u_role u = Some ''ADMIN'' \<or> u_role u = Some ''PRIMARY_ADMIN'')) us))"

definition assertFirmPlanCapacity ::
  "firm_plan list \<Rightarrow> plan_doc list \<Rightarrow> user_doc list \<Rightarrow> string option \<Rightarrow> int \<Rightarrow> string option \<Rightarrow> capacity_error + unit" where
  "assertFirmPlanCapacity firms plans us firmId incrementBy role =
    (case find (\<lambda>f. Some (fp_id f) = firmId) firms of
       None \<Rightarrow> Inl Firm_not_found
     | Some firm \<Rightarrow>
        (let count = user_count firmId us; normalizedPlan = js_lower (str_or_empty (js_or (fp_plan firm) (Some ''starter'')));
             firmMaxUsers = (case fp_maxUsers firm of Some n \<Rightarrow> n | None \<Rightarrow> 0)
         in if firmMaxUsers > 0 \<and> count + incrementBy > firmMaxUsers then Inl (Plan_limit_exceeded firmMaxUsers)
            else if normalizedPlan = ''starter''
            then (if js_upper (str_or_empty role) \<in> {''ADMIN'', ''PRIMARY_ADMIN''} \<and> incrementBy > 0 \<and> admin_count firmId us + incrementBy > 1
                  then Inl (Plan_admin_limit_exceeded 1) else Inr ())
            else if \<not> truthy (fp_planId firm) then Inr ()
            else (case find (\<lambda>p. Some (pl_id p) = fp_planId firm) plans of
                    None \<Rightarrow> Inr ()
                  | Some p \<Rightarrow> (case pl_maxUsers p of None \<Rightarrow> Inr ()
                      | Some m \<Rightarrow> if count + incrementBy > m then Inl (Plan_limit_exceeded m) else Inr ()))))"

subsection \<open>Protected accounts\<close>

definition can_deactivate :: "user_doc \<Rightarrow> bool" where
  "can_deactivate u \<longleftrightarrow>
    \<not> (u_isPrimaryAdmin u \<or> u_isSystem u
       \<or> (js_upper (str_or_empty (u_role u)) \<in> {''ADMIN'', ''PRIMARY_ADMIN''} \<and> truthy (u_defaultClientId u) \<and> truthy (u_firmId u)
          \<and> u_defaultClientId u = u_firmId u))"

definition can_delete :: "user_doc \<Rightarrow> bool" where
  "can_delete u \<longleftrightarrow> \<not> (u_isPrimaryAdmin u \<or> u_isSystem u)"

subsection \<open>Workbaskets of a user\<close>

record workbasket =
  wb_id :: string
  wb_firmId :: "string option"
  wb_isActive :: bool
  wb_type :: "string option"

record membership =
  mb_teamId :: "string option"
  mb_teamIds :: "string list"
  mb_primaryTeamIds :: "string list"
  mb_qcTeamIds :: "string list"
  mb_qcExplicitTeamIds :: "string list"

definition normalizeObjectIdStrings :: "string list \<Rightarrow> string list" where
  "normalizeObjectIdStrings ids = js_unique (filter (\<lambda>i. i \<noteq> []) (map js_trim ids))"

definition membership_error :: "string \<Rightarrow> js_error" where
  "membership_error m = Thrown m (Some 400) None"

definition resolveFirmScopedTeams :: "(string \<Rightarrow> bool) \<Rightarrow> workbasket list \<Rightarrow> string option \<Rightarrow> string list \<Rightarrow> workbasket list res" where
  "resolveFirmScopedTeams isOid wbs firmId teamIds =
    (let ids = normalizeObjectIdStrings teamIds;
         teams = filter (\<lambda>w. wb_id w \<in> set ids \<and> wb_firmId w = firmId \<and> wb_isActive w) wbs
     in if ids = [] then Inr []
        else if \<not> list_all isOid ids \<or> length teams \<noteq> length ids
        then Inl (membership_error ''One or more selected workbaskets are invalid or inactive'')
        else Inr teams)"

definition is_qc_basket :: "workbasket \<Rightarrow> bool" where
  "is_qc_basket w \<longleftrightarrow> js_upper (str_or_empty (js_or (wb_type w) (Some ''PRIMARY''))) = ''QC''"

definition normalizeMembership :: "string option \<Rightarrow> workbasket list \<Rightarrow> string list \<Rightarrow> bool \<Rightarrow> membership res" where
  "normalizeMembership role teams qcExplicit requirePrimary =
    (let primary = map wb_id (filter (\<lambda>w. \<not> is_qc_basket w) teams); qc = map wb_id (filter is_qc_basket teams)
     in if requirePrimary \<and> js_upper (str_or_empty role) \<noteq> ''SUPER_ADMIN'' \<and> primary = []
        then Inl (membership_error ''At least one PRIMARY workbasket is required for active users'')
        else Inr \<lparr>mb_teamId = (case primary of i # _ \<Rightarrow> Some i | [] \<Rightarrow> None), mb_teamIds = normalizeObjectIdStrings (primary @ qc),
               mb_primaryTeamIds = primary, mb_qcTeamIds = qc,
               mb_qcExplicitTeamIds = filter (\<lambda>i. i \<in> set qc) (normalizeObjectIdStrings qcExplicit)\<rparr>)"

datatype visibility = Deny_all | Firm_wide | Linked "string list" "string option"

definition buildWorkbasketVisibilityQuery :: "user_doc \<Rightarrow> visibility" where
  "buildWorkbasketVisibilityQuery u =
    (let role = normalizeRole (u_role u);
         linkedIds = normalizeObjectIdStrings (if u_teamIds u \<noteq> [] then u_teamIds u else if truthy (u_teamId u) then [str_or_empty (u_teamId u)] else [])
     in if role = Some ''SUPER_ADMIN'' then Deny_all
        else if role = Some ''PRIMARY_ADMIN'' \<or> role = Some ''ADMIN'' then Firm_wide
        else if role = Some ''MANAGER'' then Linked linkedIds (Some (u_id u))
        else Linked linkedIds None)"

subsection \<open>The state the handlers share\<close>

record account_env =
  av_env :: auth_env
  av_firms :: "firm_plan list"
  av_plans :: "plan_doc list"
  av_workbaskets :: "workbasket list"
  av_categories :: "category list"
  av_primary :: "string \<Rightarrow> bool"

record account_db =
  ab_auth :: auth_db
  ab_otps :: "otp list"
  ab_dockets :: "docket list"

record acting_admin =
  aa_id :: string
  aa_xID :: "string option"
  aa_firmId :: "string option"
  aa_role :: "string option"
  aa_email :: "string option"
  aa_isPrimaryAdmin :: bool

datatype account_reply = Acct_refused nat string | Acct_ok string

definition users_of :: "account_db \<Rightarrow> user_doc list" where
  "users_of db = ad_users (ab_auth db)"

definition firm_user :: "string \<Rightarrow> string option \<Rightarrow> account_db \<Rightarrow> user_doc option" where
  "firm_user xid firmId db = find (\<lambda>u. u_xID u = Some (js_upper xid) \<and> u_firmId u = firmId) (users_of db)"

subsection \<open>Activation and deactivation\<close>

definition activateUser :: "account_env \<Rightarrow> acting_admin \<Rightarrow> string \<Rightarrow> account_db \<Rightarrow> account_db \<times> account_reply" where
  "activateUser ev admin xid db =
    (if normalizeRole (aa_role admin) \<noteq> Some ''PRIMARY_ADMIN'' then (db, Acct_refused 500 ''Error activating user'')
     else (case firm_user xid (aa_firmId admin) db of
             None \<Rightarrow> (db, Acct_refused 404 ''User not found'')
           | Some u \<Rightarrow>
              if u_mustSetPassword u \<or> u_passwordSetAt u = None then (db, Acct_refused 400 ''PASSWORD_SETUP_REQUIRED'')
              else (let incrementBy = (if u_status u = Some ''active'' \<or> u_status u = Some ''invited'' then 0 else 1)
                    in case assertFirmPlanCapacity (av_firms ev) (av_plans ev) (users_of db) (aa_firmId admin) incrementBy (u_role u) of
                         Inl Firm_not_found \<Rightarrow> (db, Acct_refused 500 ''Error activating user'')
                       | Inl e \<Rightarrow> (db, Acct_refused 403 ''PLAN_LIMIT_EXCEEDED'')
                       | Inr _ \<Rightarrow>
                         (case res_bind (resolveFirmScopedTeams (ae_isObjectId (av_env ev)) (av_workbaskets ev) (aa_firmId admin) (u_teamIds u))
                                 (\<lambda>teams. normalizeMembership (u_role u) teams (u_qcExplicitTeamIds u) (js_upper (str_or_empty (u_role u)) \<noteq> ''SUPER_ADMIN'')) of
                            Inl e \<Rightarrow> (db, Acct_refused 500 ''Error activating user'')
                          | Inr m \<Rightarrow>
                            (case persist (av_env ev) (u\<lparr>u_teamId := mb_teamId m, u_teamIds := mb_teamIds m, u_status := Some ''active''\<rparr>) (ab_auth db) of
                               Inl e \<Rightarrow> (db, Acct_refused 500 ''Error activating user'')
                             | Inr (a, u1) \<Rightarrow> (db\<lparr>ab_auth := a\<rparr>, Acct_ok ''User activated successfully''))))))"

text \<open>The end of a deactivation: the status is stored and the dockets handed over.\<close>

definition disable_user :: "account_env \<Rightarrow> acting_admin \<Rightarrow> user_doc \<Rightarrow> account_db \<Rightarrow> account_db option" where
  "disable_user ev admin u db =
    (case persist (av_env ev) (u\<lparr>u_status := Some ''disabled''\<rparr>) (ab_auth db) of
       Inl e \<Rightarrow> None
     | Inr (a, u1) \<Rightarrow>
        Some (db\<lparr>ab_auth := a,
              ab_dockets := fst (handleUserDeactivation (str_or_empty (aa_firmId admin)) (u_xID u1) (av_categories ev) (av_primary ev) (ab_dockets db))\<rparr>))"

definition deactivateUser :: "account_env \<Rightarrow> acting_admin \<Rightarrow> string \<Rightarrow> account_db \<Rightarrow> account_db \<times> account_reply" where
  "deactivateUser ev admin xid db =
    (if normalizeRole (aa_role admin) \<noteq> Some ''PRIMARY_ADMIN'' then (db, Acct_refused 500 ''Error deactivating user'')
     else if aa_xID admin = Some (js_upper xid) then (db, Acct_refused 400 ''You cannot deactivate your own account'')
     else (case firm_user xid (aa_firmId admin) db of
             None \<Rightarrow> (db, Acct_refused 404 ''User not found'')
           | Some u \<Rightarrow>
              if \<not> can_deactivate u then (db, Acct_refused 403 ''Primary admin cannot be deactivated'')
              else (case disable_user ev admin u db of None \<Rightarrow> (db, Acct_refused 500 ''Error deactivating user'')
                    | Some db1 \<Rightarrow> (db1, Acct_ok ''User deactivated successfully''))))"

definition updateUserStatus :: "account_env \<Rightarrow> acting_admin \<Rightarrow> string \<Rightarrow> bool option \<Rightarrow> string option \<Rightarrow> account_db \<Rightarrow> account_db \<times> account_reply" where
  "updateUserStatus ev admin xid active status db =
    (let resolved = (case active of Some b \<Rightarrow> if b then ''active'' else ''disabled'' | None \<Rightarrow> js_lower (str_or_empty status))
     in if normalizeRole (aa_role admin) \<noteq> Some ''PRIMARY_ADMIN'' then (db, Acct_refused 500 ''Error updating user status'')
        else if active = None \<and> \<not> truthy status then (db, Acct_refused 400 ''Either active (boolean) or status is required'')
        else if resolved \<noteq> ''active'' \<and> resolved \<noteq> ''disabled'' then (db, Acct_refused 400 ''status must be either active or disabled'')
        else if resolved = ''disabled'' \<and> aa_xID admin = Some (js_upper xid) then (db, Acct_refused 400 ''You cannot deactivate your own account'')
        else (case firm_user xid (aa_firmId admin) db of
                None \<Rightarrow> (db, Acct_refused 404 ''User not found'')
              | Some u \<Rightarrow>
                 if resolved = ''disabled''
                 then (if \<not> can_deactivate u then (db, Acct_refused 403 ''Primary admin cannot be deactivated'')
                       else (case disable_user ev admin u db of None \<Rightarrow> (db, Acct_refused 500 ''Error updating user status'')
                             | Some db1 \<Rightarrow> (db1, Acct_ok ''User deactivated successfully'')))
                 else (case persist (av_env ev) (u\<lparr>u_status := Some ''active''\<rparr>) (ab_auth db) of
                         Inl e \<Rightarrow> (db, Acct_refused 500 ''Error updating user status'')
                       | Inr (a, u1) \<Rightarrow> (db\<lparr>ab_auth := a\<rparr>, Acct_ok ''User activated successfully''))))"

subsection \<open>Locks\<close>

text \<open>The sessions deleted are the ones between password and code; refresh tokens stay.\<close>

definition lockAccount :: "account_env \<Rightarrow> acting_admin \<Rightarrow> string option \<Rightarrow> account_db \<Rightarrow> account_db \<times> account_reply" where
  "lockAccount ev admin xid db =
    (if \<not> truthy xid then (db, Acct_refused 400 ''xID is required'')
     else (case firm_user (str_or_empty xid) (aa_firmId admin) db of
             None \<Rightarrow> (db, Acct_refused 404 ''User not found'')
           | Some u \<Rightarrow>
              if u_isPrimaryAdmin u \<or> u_role u = Some ''PRIMARY_ADMIN'' then (db, Acct_refused 403 ''Primary admin account cannot be locked'')
              else (case persist (av_env ev) (u\<lparr>u_lockedByAdmin := True\<rparr>) (ab_auth db) of
                      Inl e \<Rightarrow> (db, Acct_refused 500 ''Error locking account'')
                    | Inr (a, u1) \<Rightarrow>
                       (db\<lparr>ab_auth := a\<lparr>ad_sessions := filter (\<lambda>s. ls_userId s \<noteq> u_id u1) (ad_sessions a)\<rparr>\<rparr>, Acct_ok ''Account locked successfully''))))"

definition find_for_admin :: "bool \<Rightarrow> string \<Rightarrow> string option \<Rightarrow> account_db \<Rightarrow> user_doc option" where
  "find_for_admin superadmin xid firmId db =
    find (\<lambda>u. u_xID u = Some (js_upper xid) \<and> (superadmin \<or> u_firmId u = firmId)) (users_of db)"

definition unlock_message :: "js_error \<Rightarrow> string" where
  "unlock_message e =
    (case e of
       Thrown m _ _ \<Rightarrow> if m = ''OTP_INVALID'' then ''Invalid OTP code. Please try again.''
         else if m = ''OTP_EXPIRED'' then ''OTP has expired. Please request a new code.''
         else ''OTP verification failed. Please try again.''
     | _ \<Rightarrow> ''OTP verification failed. Please try again.'')"

definition unlockAccount ::
  "account_env \<Rightarrow> user_lookup \<Rightarrow> bool \<Rightarrow> int \<Rightarrow> bool \<Rightarrow> string option \<Rightarrow> acting_admin \<Rightarrow> string option \<Rightarrow> string option \<Rightarrow> account_db
   \<Rightarrow> account_db \<times> account_reply" where
  "unlockAccount ev lookup has_secret now superadmin firmId admin xid otp db =
    (if \<not> truthy xid then (db, Acct_refused 400 ''xID is required'')
     else if \<not> truthy otp then (db, Acct_refused 400 ''OTP verification code is required to unlock user accounts.'')
     else (case verifyOtp lookup has_secret now (str_or_empty (aa_email admin)) (str_or_empty otp) ''unlock_user'' (ab_otps db) of
             (os, Inl e) \<Rightarrow> (db\<lparr>ab_otps := os\<rparr>, Acct_refused 400 (unlock_message e))
           | (os, Inr i) \<Rightarrow>
              (let db1 = db\<lparr>ab_otps := os\<rparr>
               in case find_for_admin superadmin (str_or_empty xid) firmId db1 of
                    None \<Rightarrow> (db1, Acct_refused 404 ''User not found'')
                  | Some u \<Rightarrow>
                     (case persist (av_env ev) (u\<lparr>u_failedLoginAttempts := 0, u_lockUntil := None, u_lockedByAdmin := False\<rparr>) (ab_auth db1) of
                        Inl e \<Rightarrow> (db1, Acct_refused 500 ''Error unlocking account'')
                      | Inr (a, u1) \<Rightarrow> (db1\<lparr>ab_auth := a\<rparr>, Acct_ok ''Account unlocked successfully'')))))"

definition sendUnlockOtp :: "user_lookup \<Rightarrow> int \<Rightarrow> nat \<Rightarrow> acting_admin \<Rightarrow> account_db \<Rightarrow> account_db \<times> account_reply" where
  "sendUnlockOtp lookup now random admin db =
    (if \<not> aa_isPrimaryAdmin admin \<and> aa_role admin \<noteq> Some ''PRIMARY_ADMIN''
     then (db, Acct_refused 403 ''Only the primary admin can authorize unlocking accounts.'')
     else (case sendOtp lookup now random \<lparr>oi_email = aa_email admin, oi_xid = None, oi_xID = None, oi_XID = None, oi_identifier = None\<rparr> ''unlock_user'' (ab_otps db) of
             (os, Inl e) \<Rightarrow> (db\<lparr>ab_otps := os\<rparr>,
                if e = otp_error ''OTP_RATE_LIMITED'' then Acct_refused 429 ''Please wait before requesting another OTP.'' else Acct_refused 500 ''Error sending OTP.'')
           | (os, Inr s) \<Rightarrow> (db\<lparr>ab_otps := os\<rparr>, Acct_ok ''OTP sent successfully to your registered email.'')))"

subsection \<open>Reset by an administrator\<close>

definition resetUserToInvitedState :: "string \<Rightarrow> int \<Rightarrow> user_doc \<Rightarrow> user_doc" where
  "resetUserToInvitedState tokenHash tokenExpiry u =
    (let t = \<lparr>ts_hash = Some tokenHash, ts_expiresAt = Some tokenExpiry\<rparr>
     in u\<lparr>u_setup := t, u_setupTokenUsedAt := None, u_passwordSetup := t, u_mustSetPassword := True, u_mustChangePassword := True,
          u_status := Some ''invited'', u_isActive := False\<rparr>)"

definition resetPassword ::
  "account_env \<Rightarrow> fresh \<Rightarrow> int \<Rightarrow> bool \<Rightarrow> bool \<Rightarrow> string option \<Rightarrow> string option \<Rightarrow> account_db \<Rightarrow> account_db \<times> account_reply" where
  "resetPassword ev fr now mail_ok superadmin firmId xid db =
    (if \<not> truthy xid then (db, Acct_refused 400 ''xID is required'')
     else (case find_for_admin superadmin (str_or_empty xid) firmId db of
             None \<Rightarrow> (db, Acct_refused 404 ''User not found'')
           | Some u \<Rightarrow>
              (let u1 = resetUserToInvitedState (ae_sha (av_env ev) (fr_resetToken fr)) (now + minutes (60 * PASSWORD_SETUP_TOKEN_EXPIRY_HOURS))
                          (u\<lparr>u_passwordHash := None, u_passwordSet := False\<rparr>)
               in case persist (av_env ev) (u1\<lparr>u_passwordExpiresAt := None, u_failedLoginAttempts := 0, u_lockUntil := None, u_passwordSetAt := None\<rparr>) (ab_auth db) of
                    Inl e \<Rightarrow> (db, Acct_refused 500 ''Error resetting password'')
                  | Inr (a, u2) \<Rightarrow>
                     (db\<lparr>ab_auth := a\<rparr>, if mail_ok then Acct_ok ''Password reset successfully. User will receive an email with setup instructions.''
                        else Acct_refused 500 ''Failed to send password reset link. Please check email service configuration.''))))"

end
