(* ===== verification/AccountProperties.thy ===== *)
theory AccountProperties
  imports AccountAdmin PasswordProperties
begin

section \<open>What the administration of accounts guarantees\<close>

text \<open>
  Each handler changes at most one account, by a save; from this follow that the primary administrator cannot be
  locked out by them, that activation respects the limits of the plan where a plain change of status does not, and
  what deactivation ends.
\<close>

subsection \<open>Saves\<close>

lemma sync_admin [simp]:
  "u_isPrimaryAdmin (sync_xid u) = u_isPrimaryAdmin u" "u_isPrimaryAdmin (alias_xid u) = u_isPrimaryAdmin u"
  "u_isPrimaryAdmin (sync_email u) = u_isPrimaryAdmin u" "u_isPrimaryAdmin (sync_status b u) = u_isPrimaryAdmin u"
  "u_isPrimaryAdmin (sync_password b u) = u_isPrimaryAdmin u" "u_isPrimaryAdmin (sync_manager u) = u_isPrimaryAdmin u"
  "u_status (sync_xid u) = u_status u" "u_status (alias_xid u) = u_status u" "u_isActive (sync_manager u) = u_isActive u"
  by (simp_all add: sync_xid_def alias_xid_def sync_email_def sync_status_def sync_password_def sync_manager_def Let_def)

lemma sync_status_stored:
  "u_status u \<noteq> Some ''suspended'' \<Longrightarrow> u_status (sync_status b u) = u_status u"
  by (simp add: sync_status_def Let_def)

lemma save_user_admin:
  assumes "save_user e ref b u = Inr s"
  shows "u_isPrimaryAdmin s = u_isPrimaryAdmin u" "u_status u \<noteq> Some ''suspended'' \<Longrightarrow> u_status s = u_status u"
  using assms by (auto simp: save_user_def Let_def res_bind_Inr_iff sync_status_stored)

lemma persist_admin:
  assumes "persist env u db = Inr (db1, s)"
  shows "u_isPrimaryAdmin s = u_isPrimaryAdmin u" "u_status u \<noteq> Some ''suspended'' \<Longrightarrow> u_status s = u_status u"
    "u_lockedByAdmin s = u_lockedByAdmin u" "u_firmId s = u_firmId u" "u_id s = u_id u" "db1 = put_user s db" "u_xID s = u_xID u"
proof -
  from assms have s: "save_user (ae_enforceTeam env) (find_ref (ad_users db)) (user_by_id (u_id u) (ad_users db)) u = Inr s" "db1 = put_user s db"
    by (auto simp: persist_def split: sum.splits)
  from save_user_admin [OF s(1)] save_userD [OF s(1)] s(2)
  show "u_isPrimaryAdmin s = u_isPrimaryAdmin u" "u_status u \<noteq> Some ''suspended'' \<Longrightarrow> u_status s = u_status u"
    "u_lockedByAdmin s = u_lockedByAdmin u" "u_firmId s = u_firmId u" "u_id s = u_id u" "db1 = put_user s db" "u_xID s = u_xID u" by auto
qed

subsection \<open>The primary administrator\<close>

text \<open>What one request of these handlers does to the accounts.\<close>

inductive account_step :: "account_env \<Rightarrow> account_db \<Rightarrow> account_db \<Rightarrow> bool" for ev where
  Activate: "activateUser ev admin xid db = (db', r) \<Longrightarrow> account_step ev db db'"
| Deactivate: "deactivateUser ev admin xid db = (db', r) \<Longrightarrow> account_step ev db db'"
| Set_status: "updateUserStatus ev admin xid active status db = (db', r) \<Longrightarrow> account_step ev db db'"
| Lock: "lockAccount ev admin xid' db = (db', r) \<Longrightarrow> account_step ev db db'"
| Unlock: "unlockAccount ev lookup secret now super firmId admin xid' otp db = (db', r) \<Longrightarrow> account_step ev db db'"
| Send_code: "sendUnlockOtp lookup now random admin db = (db', r) \<Longrightarrow> account_step ev db db'"

text \<open>The change of one account: never one that disables or locks a primary administrator.\<close>

definition one_save :: "account_env \<Rightarrow> account_db \<Rightarrow> account_db \<Rightarrow> bool" where
  "one_save ev db db' \<longleftrightarrow> users_of db' = users_of db \<or>
    (\<exists>u u1 s a. u \<in> set (users_of db) \<and> persist (av_env ev) u1 (ab_auth db) = Inr (a, s) \<and> users_of db' = ad_users a
       \<and> u_id u1 = u_id u \<and> u_isPrimaryAdmin u1 = u_isPrimaryAdmin u
       \<and> (u_isPrimaryAdmin u \<longrightarrow> (u_status u1 = u_status u \<or> u_status u1 = Some ''active'') \<and> (u_lockedByAdmin u1 \<longrightarrow> u_lockedByAdmin u)))"

lemma one_saveI:
  assumes "u \<in> set (users_of db)" "persist (av_env ev) u1 (ab_auth db) = Inr (a, s)" "users_of db' = ad_users a"
    "u_id u1 = u_id u" "u_isPrimaryAdmin u1 = u_isPrimaryAdmin u"
    "u_isPrimaryAdmin u \<Longrightarrow> u_status u1 = u_status u \<or> u_status u1 = Some ''active''"
    "u_isPrimaryAdmin u \<Longrightarrow> u_lockedByAdmin u1 \<Longrightarrow> u_lockedByAdmin u"
  shows "one_save ev db db'"
  using assms unfolding one_save_def by blast

lemma firm_user_in: "firm_user xid f db = Some u \<Longrightarrow> u \<in> set (users_of db)"
  by (auto simp: firm_user_def find_Some_iff)

lemma find_for_admin_in: "find_for_admin super xid f db = Some u \<Longrightarrow> u \<in> set (users_of db)"
  by (auto simp: find_for_admin_def find_Some_iff)

lemma activate_cases:
  assumes "activateUser ev admin xid db = (db', r)"
  obtains "db' = db" "\<forall>m. r \<noteq> Acct_ok m"
  | u m a s where "firm_user xid (aa_firmId admin) db = Some u"
      "assertFirmPlanCapacity (av_firms ev) (av_plans ev) (users_of db) (aa_firmId admin) (if u_status u = Some ''active'' \<or> u_status u = Some ''invited'' then 0 else 1) (u_role u) = Inr ()"
      "persist (av_env ev) (u\<lparr>u_teamId := mb_teamId (m :: membership), u_teamIds := mb_teamIds m, u_status := Some ''active''\<rparr>) (ab_auth db) = Inr (a, s)"
      "db' = db\<lparr>ab_auth := a\<rparr>"
proof -
  let ?incr = "\<lambda>u. if u_status u = Some ''active'' \<or> u_status u = Some ''invited'' then 0 else 1"
  let ?cap = "\<lambda>u. assertFirmPlanCapacity (av_firms ev) (av_plans ev) (users_of db) (aa_firmId admin) (?incr u) (u_role u)"
  let ?mb = "\<lambda>u. res_bind (resolveFirmScopedTeams (ae_isObjectId (av_env ev)) (av_workbaskets ev) (aa_firmId admin) (u_teamIds u))
     (\<lambda>teams. normalizeMembership (u_role u) teams (u_qcExplicitTeamIds u) (js_upper (str_or_empty (u_role u)) \<noteq> ''SUPER_ADMIN''))"
  note def = assms [unfolded activateUser_def Let_def]
  show ?thesis
  proof (cases "normalizeRole (aa_role admin) = Some ''PRIMARY_ADMIN''")
    case False
    with def show ?thesis by (intro that(1)) auto
  next
    case role: True
    show ?thesis
    proof (cases "firm_user xid (aa_firmId admin) db")
      case None
      with def role show ?thesis by (intro that(1)) auto
    next
      case (Some u)
      show ?thesis
      proof (cases "u_mustSetPassword u \<or> u_passwordSetAt u = None \<or> ?cap u \<noteq> Inr ()")
        case True
        with def role Some show ?thesis by (intro that(1)) (auto split: sum.splits capacity_error.splits if_splits)
      next
        case ok: False
        show ?thesis
        proof (cases "?mb u")
          case (Inl e)
          with def role Some ok show ?thesis by (intro that(1)) auto
        next
          case (Inr m)
          show ?thesis
          proof (cases "persist (av_env ev) (u\<lparr>u_teamId := mb_teamId m, u_teamIds := mb_teamIds m, u_status := Some ''active''\<rparr>) (ab_auth db)")
            case (Inl e)
            with def role Some ok Inr show ?thesis by (intro that(1)) auto
          next
            case p: (Inr as)
            obtain a s where "as = (a, s)" by (cases as)
            with def role Some ok Inr p show ?thesis by (intro that(2) [of u m a s]) auto
          qed
        qed
      qed
    qed
  qed
qed

lemma disable_one_save:
  assumes "disable_user ev admin u db = Some db'" "firm_user xid f db = Some u" "can_deactivate u"
  shows "one_save ev db db'"
proof -
  from assms(1) obtain a s where "persist (av_env ev) (u\<lparr>u_status := Some ''disabled''\<rparr>) (ab_auth db) = Inr (a, s)" "users_of db' = ad_users a"
    by (auto simp: disable_user_def users_of_def split: sum.splits)
  moreover have "\<not> u_isPrimaryAdmin u" using assms(3) by (simp add: can_deactivate_def)
  ultimately show ?thesis using one_saveI [OF firm_user_in [OF assms(2)]] by simp
qed

lemma deactivate_cases:
  assumes "deactivateUser ev admin xid db = (db', r)"
  obtains "db' = db" "\<forall>m. r \<noteq> Acct_ok m"
  | u where "firm_user xid (aa_firmId admin) db = Some u" "can_deactivate u" "disable_user ev admin u db = Some db'"
  using assms unfolding deactivateUser_def by (auto split: if_splits option.splits)

lemma status_cases:
  assumes "updateUserStatus ev admin xid active status db = (db', r)"
  obtains "db' = db" "\<forall>m. r \<noteq> Acct_ok m"
  | u where "firm_user xid (aa_firmId admin) db = Some u" "can_deactivate u" "disable_user ev admin u db = Some db'"
  | u a s where "firm_user xid (aa_firmId admin) db = Some u" "persist (av_env ev) (u\<lparr>u_status := Some ''active''\<rparr>) (ab_auth db) = Inr (a, s)"
      "db' = db\<lparr>ab_auth := a\<rparr>"
proof -
  define res where "res = (case active of Some b \<Rightarrow> if b then ''active'' else ''disabled'' | None \<Rightarrow> js_lower (str_or_empty status))"
  note def = assms [unfolded updateUserStatus_def Let_def, folded res_def]
  show ?thesis
  proof (cases "normalizeRole (aa_role admin) \<noteq> Some ''PRIMARY_ADMIN'' \<or> (active = None \<and> \<not> truthy status) \<or> (res \<noteq> ''active'' \<and> res \<noteq> ''disabled'')
      \<or> (res = ''disabled'' \<and> aa_xID admin = Some (js_upper xid)) \<or> firm_user xid (aa_firmId admin) db = None")
    case True
    with def show ?thesis by (intro that(1)) (auto split: if_splits)
  next
    case False
    then obtain u where u: "firm_user xid (aa_firmId admin) db = Some u" by auto
    show ?thesis
    proof (cases "res = ''disabled''")
      case True
      with False u def show ?thesis
        by (cases "can_deactivate u"; cases "disable_user ev admin u db") (auto intro: that)
    next
      case act: False
      show ?thesis
      proof (cases "persist (av_env ev) (u\<lparr>u_status := Some ''active''\<rparr>) (ab_auth db)")
        case (Inl e)
        with False act u def show ?thesis by (intro that(1)) auto
      next
        case (Inr as)
        obtain a s where "as = (a, s)" by (cases as)
        with False act u def Inr show ?thesis by (intro that(3) [of u a s]) auto
      qed
    qed
  qed
qed

lemma lock_one_save: "lockAccount ev admin xid db = (db', r) \<Longrightarrow> one_save ev db db'"
proof -
  assume "lockAccount ev admin xid db = (db', r)"
  then consider "db' = db" | u a s where "firm_user (str_or_empty xid) (aa_firmId admin) db = Some u" "\<not> u_isPrimaryAdmin u"
      "persist (av_env ev) (u\<lparr>u_lockedByAdmin := True\<rparr>) (ab_auth db) = Inr (a, s)" "users_of db' = ad_users a"
    unfolding lockAccount_def by (auto simp: users_of_def split: if_splits option.splits sum.splits)
  then show ?thesis
  proof cases
    case 2
    from one_saveI [OF firm_user_in [OF 2(1)] 2(3,4)] 2(2) show ?thesis by simp
  qed (simp add: one_save_def)
qed

lemma unlock_one_save: "unlockAccount ev lookup secret now super firmId admin xid otp db = (db', r) \<Longrightarrow> one_save ev db db'"
proof -
  assume "unlockAccount ev lookup secret now super firmId admin xid otp db = (db', r)"
  then consider "users_of db' = users_of db" | u a s where "u \<in> set (users_of db)"
      "persist (av_env ev) (u\<lparr>u_failedLoginAttempts := 0, u_lockUntil := None, u_lockedByAdmin := False\<rparr>) (ab_auth db) = Inr (a, s)" "users_of db' = ad_users a"
    unfolding unlockAccount_def
    by (auto simp: users_of_def Let_def split: if_splits option.splits sum.splits prod.splits dest!: find_for_admin_in)
  then show ?thesis
  proof cases
    case 2
    from one_saveI [OF 2] show ?thesis by simp
  qed (simp add: one_save_def)
qed

lemma step_one_save: "account_step ev db db' \<Longrightarrow> one_save ev db db'"
proof (induction rule: account_step.induct)
  case (Activate admin xid db db' r)
  then show ?case
  proof (cases rule: activate_cases)
    case (2 u m a s)
    from one_saveI [OF firm_user_in [OF 2(1)] 2(3)] 2(4) show ?thesis by (simp add: users_of_def)
  qed (simp add: one_save_def)
next
  case (Deactivate admin xid db db' r)
  then show ?case by (cases rule: deactivate_cases) (auto simp: one_save_def [of ev db db] intro: disable_one_save)
next
  case (Set_status admin xid active status db db' r)
  then show ?case
  proof (cases rule: status_cases)
    case (2 u)
    then show ?thesis by (blast intro: disable_one_save)
  next
    case (3 u a s)
    from one_saveI [OF firm_user_in [OF 3(1)] 3(2)] 3(3) show ?thesis by (simp add: users_of_def)
  qed (simp add: one_save_def)
next
  case (Send_code lookup now random admin db db' r)
  then show ?case by (auto simp: sendUnlockOtp_def one_save_def users_of_def split: if_splits prod.splits sum.splits)
qed (blast intro: lock_one_save unlock_one_save)+

definition admin_in_charge :: "string \<Rightarrow> account_db \<Rightarrow> bool" where
  "admin_in_charge i db \<longleftrightarrow> distinct_users (ab_auth db) \<and>
    (\<exists>u. user_by_id i (users_of db) = Some u \<and> u_isPrimaryAdmin u \<and> u_status u = Some ''active'' \<and> \<not> u_lockedByAdmin u)"

lemma one_save_in_charge:
  assumes "one_save ev db db'" "admin_in_charge i db"
  shows "admin_in_charge i db'"
proof -
  from assms(2) obtain p where p: "user_by_id i (users_of db) = Some p" "u_isPrimaryAdmin p" "u_status p = Some ''active''" "\<not> u_lockedByAdmin p"
    and d: "distinct_users (ab_auth db)" by (auto simp: admin_in_charge_def)
  show ?thesis
  proof (cases "users_of db' = users_of db")
    case True
    then show ?thesis using assms(2) by (simp add: admin_in_charge_def distinct_users_def users_of_def)
  next
    case False
    with assms(1) obtain u u1 s a where u: "u \<in> set (users_of db)" "persist (av_env ev) u1 (ab_auth db) = Inr (a, s)" "users_of db' = ad_users a"
      "u_id u1 = u_id u" "u_isPrimaryAdmin u1 = u_isPrimaryAdmin u"
      "u_isPrimaryAdmin u \<longrightarrow> (u_status u1 = u_status u \<or> u_status u1 = Some ''active'') \<and> (u_lockedByAdmin u1 \<longrightarrow> u_lockedByAdmin u)"
      unfolding one_save_def by blast
    note k = persist_admin [OF u(2)]
    have d': "distinct_users (ab_auth db')" using d u(3) k(6) by (simp add: distinct_users_def users_of_def)
    have stored: "user_by_id i (users_of db') = (if i = u_id u then Some s else Some p)"
      using u(1,3,4) k(5,6) p(1) user_by_id_put [of i s "users_of db"] by (simp add: put_user_def users_of_def)
    show ?thesis
    proof (cases "i = u_id u")
      case True
      have "u = p" using user_by_id_distinct [of "users_of db" u] d u(1) p(1) True by (simp add: distinct_users_def users_of_def)
      then have st: "u_status u1 = Some ''active''" "\<not> u_lockedByAdmin u1" "u_isPrimaryAdmin u1" using u(5,6) p by auto
      then have "u_isPrimaryAdmin s \<and> u_status s = Some ''active'' \<and> \<not> u_lockedByAdmin s" using k(1-3) by simp
      then show ?thesis using d' stored True by (simp add: admin_in_charge_def)
    next
      case False
      then show ?thesis using d' stored p by (simp add: admin_in_charge_def)
    qed
  qed
qed

text \<open>
  C20. No sequence of activations, deactivations, changes of status, locks and unlocks, by any administrators and
  in any order, puts the primary administrator of a firm out of action: one who is active and not locked stays
  active and not locked.
\<close>

theorem primary_admin_protected:
  assumes "(account_step ev)\<^sup>*\<^sup>* db db'" and "admin_in_charge i db"
  shows "admin_in_charge i db'"
  using assms
proof (induction rule: rtranclp_induct)
  case (step db1 db2)
  then show ?case by (blast intro: one_save_in_charge step_one_save)
qed

definition sample_account_env :: account_env where
  "sample_account_env = \<lparr>av_env = sample_env, av_firms = [\<lparr>fp_id = ''F1'', fp_plan = Some ''pilot'', fp_maxUsers = Some 2, fp_planId = None\<rparr>], av_plans = [],
     av_workbaskets = [\<lparr>wb_id = ''T1'', wb_firmId = Some ''F1'', wb_isActive = True, wb_type = Some ''PRIMARY''\<rparr>], av_categories = [], av_primary = (\<lambda>_. False)\<rparr>"

definition sample_chief :: user_doc where
  "sample_chief = blank_user\<lparr>u_isPrimaryAdmin := True\<rparr>"

definition sample_member :: "string \<Rightarrow> string \<Rightarrow> string \<Rightarrow> user_doc" where
  "sample_member i x st = blank_user\<lparr>u_id := i, u_xID := Some x, u_xid := Some x, u_role := Some ''USER'', u_primaryAdminId := Some ''u1'',
     u_status := Some st, u_isActive := (st = ''active'')\<rparr>"

definition sample_account :: account_db where
  "sample_account = \<lparr>ab_auth = sample_auth_db\<lparr>ad_users := [sample_chief, sample_member ''u2'' ''X000002'' ''active'', sample_member ''u3'' ''X000003'' ''disabled'']\<rparr>,
     ab_otps = [], ab_dockets = []\<rparr>"

definition sample_acting :: acting_admin where
  "sample_acting = \<lparr>aa_id = ''u1'', aa_xID = Some ''X000009'', aa_firmId = Some ''F1'', aa_role = Some ''PRIMARY_ADMIN'', aa_email = Some ''a@b.c'', aa_isPrimaryAdmin = True\<rparr>"

theorem primary_admin_protected_witness:
  "admin_in_charge ''u1'' (fst (deactivateUser sample_account_env sample_acting ''x000001'' sample_account))
   \<and> snd (deactivateUser sample_account_env sample_acting ''x000001'' sample_account) = Acct_refused 403 ''Primary admin cannot be deactivated''"
proof -
  obtain db' r where d: "deactivateUser sample_account_env sample_acting ''x000001'' sample_account = (db', r)"
    by (cases "deactivateUser sample_account_env sample_acting ''x000001'' sample_account") auto
  have "admin_in_charge ''u1'' sample_account"
    by (simp add: admin_in_charge_def distinct_users_def users_of_def sample_account_def sample_member_def sample_chief_def blank_user_def user_by_id_def)
  moreover have "(account_step sample_account_env)\<^sup>*\<^sup>* sample_account db'"
    by (rule r_into_rtranclp) (rule account_step.Deactivate [OF d])
  ultimately have "admin_in_charge ''u1'' db'" using primary_admin_protected by blast
  moreover have "snd (deactivateUser sample_account_env sample_acting ''x000001'' sample_account) = Acct_refused 403 ''Primary admin cannot be deactivated''"
    by code_simp
  ultimately show ?thesis by (simp add: d)
qed

subsection \<open>Limits of the plan\<close>

lemma filter_put_length:
  assumes "distinct (map u_id us)" "u \<in> set us" "u_id s = u_id u"
  shows "int (length (filter P (map (\<lambda>x. if u_id x = u_id s then s else x) us)))
    = int (length (filter P us)) + (if P s then 1 else 0) - (if P u then 1 else 0)"
  using assms(1,2)
proof (induction us)
  case (Cons a us)
  show ?case
  proof (cases "u_id a = u_id u")
    case True
    with Cons.prems have "a = u" "u_id u \<notin> u_id ` set us" by auto
    then have "map (\<lambda>x. if u_id x = u_id s then s else x) us = us" using assms(3) by (intro map_idI) (metis imageI)
    with True \<open>a = u\<close> assms(3) show ?thesis by simp
  next
    case False
    with Cons have "u \<in> set us" by auto
    with Cons.IH Cons.prems(1) False assms(3) show ?thesis by (auto split: if_splits)
  qed
qed simp

lemma user_count_persist:
  assumes "persist env u1 db = Inr (a, s)" "distinct_users db" "u \<in> set (ad_users db)" "u_id u1 = u_id u" "u_firmId u1 = u_firmId u"
    "u_status u1 = Some ''active''" "u_firmId u = f"
  shows "user_count f (ad_users a) = user_count f (ad_users db) + (if counted_user f u then 0 else 1)"
proof -
  note k = persist_admin [OF assms(1)]
  have "counted_user f s" using k(2,4) assms(5-7) by (simp add: counted_user_def)
  then show ?thesis
    using filter_put_length [OF assms(2) [unfolded distinct_users_def] assms(3), of s "counted_user f"] k(5,6) assms(4)
    by (simp add: user_count_def put_user_def)
qed

lemma firm_user_firm: "firm_user xid f db = Some u \<Longrightarrow> u_firmId u = f"
  by (auto simp: firm_user_def find_Some_iff)

text \<open>
  Fact. Activation respects the limit of the firm: a firm within its maximum number of users is within it after any
  request to activate a user, whether it succeeds or not.
\<close>

theorem activation_within_plan:
  assumes "activateUser ev admin xid db = (db', r)" and "distinct_users (ab_auth db)"
    and "find (\<lambda>f. Some (fp_id f) = aa_firmId admin) (av_firms ev) = Some firm" and "fp_maxUsers firm = Some n" and "0 < n"
    and "user_count (aa_firmId admin) (users_of db) \<le> n"
  shows "user_count (aa_firmId admin) (users_of db') \<le> n"
  using assms(1)
proof (cases rule: activate_cases)
  case 1
  then show ?thesis using assms(6) by simp
next
  case (2 u m a s)
  have c: "counted_user (aa_firmId admin) u \<longleftrightarrow> u_status u = Some ''active'' \<or> u_status u = Some ''invited''"
    using firm_user_firm [OF 2(1)] by (simp add: counted_user_def)
  have u: "u \<in> set (ad_users (ab_auth db))" "u_firmId u = aa_firmId admin"
    using firm_user_in [OF 2(1)] firm_user_firm [OF 2(1)] by (simp_all add: users_of_def)
  have "user_count (aa_firmId admin) (ad_users a) = user_count (aa_firmId admin) (users_of db) + (if counted_user (aa_firmId admin) u then 0 else 1)"
    using user_count_persist [OF 2(3) assms(2) u(1)] u(2) by (simp add: users_of_def)
  moreover have "user_count (aa_firmId admin) (users_of db) + (if counted_user (aa_firmId admin) u then 0 else 1) \<le> n"
    using 2(2) assms(3-5) unfolding c by (auto simp: assertFirmPlanCapacity_def Let_def split: if_splits)
  ultimately show ?thesis using 2(4) by (simp add: users_of_def)
qed

text \<open>
  Fact. The status endpoint does not know the limit: it activates a user whom the activation endpoint refuses
  because the plan is full, and the firm then has one user more.
\<close>

theorem status_update_ignores_plan:
  assumes "activateUser ev admin xid db = (db, Acct_refused 403 ''PLAN_LIMIT_EXCEEDED'')"
    and "updateUserStatus ev admin xid (Some True) status db = (db', Acct_ok m)" and "distinct_users (ab_auth db)"
    and "firm_user xid (aa_firmId admin) db = Some u" and "u_status u = Some ''disabled''"
  shows "user_count (aa_firmId admin) (users_of db') = user_count (aa_firmId admin) (users_of db) + 1"
proof -
  obtain a s where p: "persist (av_env ev) (u\<lparr>u_status := Some ''active''\<rparr>) (ab_auth db) = Inr (a, s)" "db' = db\<lparr>ab_auth := a\<rparr>"
    using assms(2,4) by (auto simp: updateUserStatus_def Let_def split: if_splits sum.splits)
  have u: "u \<in> set (ad_users (ab_auth db))" "u_firmId u = aa_firmId admin"
    using firm_user_in [OF assms(4)] firm_user_firm [OF assms(4)] by (simp_all add: users_of_def)
  have "\<not> counted_user (aa_firmId admin) u" using assms(5) by (simp add: counted_user_def)
  then show ?thesis using user_count_persist [OF p(1) assms(3) u(1)] u(2) p(2) by (simp add: users_of_def)
qed

theorem activation_within_plan_witness:
  "user_count (Some ''F1'') (users_of sample_account) = 2
   \<and> user_count (Some ''F1'') (users_of (fst (activateUser sample_account_env sample_acting ''x000003'' sample_account))) \<le> 2"
proof -
  obtain db' r where d: "activateUser sample_account_env sample_acting ''x000003'' sample_account = (db', r)"
    by (cases "activateUser sample_account_env sample_acting ''x000003'' sample_account") auto
  have u: "distinct_users (ab_auth sample_account)"
    by (simp add: distinct_users_def sample_account_def sample_member_def sample_chief_def blank_user_def)
  have c: "user_count (aa_firmId sample_acting) (users_of sample_account) = 2" "aa_firmId sample_acting = Some ''F1''" by code_simp+
  have f: "find (\<lambda>f. Some (fp_id f) = aa_firmId sample_acting) (av_firms sample_account_env) = Some \<lparr>fp_id = ''F1'', fp_plan = Some ''pilot'', fp_maxUsers = Some 2, fp_planId = None\<rparr>"
    by (simp add: sample_account_env_def sample_acting_def)
  have "user_count (aa_firmId sample_acting) (users_of db') \<le> 2" using activation_within_plan [OF d u f, of 2] c(1) by simp
  then show ?thesis using c d by simp
qed

definition sample_activated :: user_doc where
  "sample_activated = (sample_member ''u3'' ''X000003'' ''active'')"

lemma sample_activation_saved:
  "save_user False (find_ref [sample_chief, sample_member ''u2'' ''X000002'' ''active'', sample_member ''u3'' ''X000003'' ''disabled''])
     (Some (sample_member ''u3'' ''X000003'' ''disabled'')) ((sample_member ''u3'' ''X000003'' ''disabled'')\<lparr>u_status := Some ''active''\<rparr>) = Inr sample_activated"
  by code_simp

theorem status_update_ignores_plan_witness:
  "\<exists>db' m. activateUser sample_account_env sample_acting ''x000003'' sample_account = (sample_account, Acct_refused 403 ''PLAN_LIMIT_EXCEEDED'')
     \<and> updateUserStatus sample_account_env sample_acting ''x000003'' (Some True) None sample_account = (db', Acct_ok m)
     \<and> user_count (Some ''F1'') (users_of db') = 3"
proof -
  let ?u = "sample_member ''u3'' ''X000003'' ''disabled''"
  have fu: "firm_user ''x000003'' (aa_firmId sample_acting) sample_account = Some ?u" by code_simp
  have ad: "normalizeRole (aa_role sample_acting) = Some ''PRIMARY_ADMIN''" by code_simp
  have st: "u_status ?u = Some ''disabled''" "\<not> u_mustSetPassword ?u" "u_passwordSetAt ?u \<noteq> None" by (simp_all add: sample_member_def blank_user_def)
  have cap: "assertFirmPlanCapacity (av_firms sample_account_env) (av_plans sample_account_env) (users_of sample_account) (aa_firmId sample_acting) 1 (u_role ?u)
    = Inl (Plan_limit_exceeded 2)" by code_simp
  have act: "activateUser sample_account_env sample_acting ''x000003'' sample_account = (sample_account, Acct_refused 403 ''PLAN_LIMIT_EXCEEDED'')"
    using fu ad st cap by (simp add: activateUser_def Let_def)
  have i: "user_by_id (u_id (?u\<lparr>u_status := Some ''active''\<rparr>)) (ad_users (ab_auth sample_account)) = Some ?u" by code_simp
  have p: "persist (av_env sample_account_env) (?u\<lparr>u_status := Some ''active''\<rparr>) (ab_auth sample_account) = Inr (put_user sample_activated (ab_auth sample_account), sample_activated)"
    using sample_activation_saved i by (simp add: persist_def sample_account_def sample_account_env_def sample_env_def)
  obtain db' m where up: "updateUserStatus sample_account_env sample_acting ''x000003'' (Some True) None sample_account = (db', Acct_ok m)"
    using fu ad p by (simp add: updateUserStatus_def Let_def)
  have u: "distinct_users (ab_auth sample_account)"
    by (simp add: distinct_users_def sample_account_def sample_member_def sample_chief_def blank_user_def)
  have c: "user_count (aa_firmId sample_acting) (users_of sample_account) = 2" "aa_firmId sample_acting = Some ''F1''" by code_simp+
  from status_update_ignores_plan [OF act up u fu st(1)] c act up show ?thesis by auto
qed

subsection \<open>What deactivation ends\<close>

lemma disabled_not_active: "\<not> isActiveStatus (Some ''disabled'')"
  by code_simp

lemma disable_userD:
  assumes "disable_user ev admin u db = Some db'" "u \<in> set (users_of db)"
  shows "\<exists>s. user_by_id (u_id u) (users_of db') = Some s \<and> u_status s = Some ''disabled''"
    and "ad_tokens (ab_auth db') = ad_tokens (ab_auth db)" "distinct_users (ab_auth db) \<Longrightarrow> distinct_users (ab_auth db')"
    and "ab_dockets db' = fst (handleUserDeactivation (str_or_empty (aa_firmId admin)) (u_xID u) (av_categories ev) (av_primary ev) (ab_dockets db))"
proof -
  from assms(1) obtain a s where p: "persist (av_env ev) (u\<lparr>u_status := Some ''disabled''\<rparr>) (ab_auth db) = Inr (a, s)"
    and db': "ab_auth db' = a"
      "ab_dockets db' = fst (handleUserDeactivation (str_or_empty (aa_firmId admin)) (u_xID s) (av_categories ev) (av_primary ev) (ab_dockets db))"
    by (auto simp: disable_user_def split: sum.splits)
  note k = persist_admin [OF p]
  have "user_by_id (u_id u) (ad_users a) = Some s"
    using assms(2) k(5,6) user_by_id_put [of "u_id u" s "users_of db"] by (simp add: put_user_def users_of_def)
  then show "\<exists>s. user_by_id (u_id u) (users_of db') = Some s \<and> u_status s = Some ''disabled''"
    using k(2) db'(1) by (auto simp: users_of_def)
  show "ad_tokens (ab_auth db') = ad_tokens (ab_auth db)" using k(6) db'(1) by (simp add: put_user_def)
  show "distinct_users (ab_auth db')" if "distinct_users (ab_auth db)" using that k(6) db'(1) by simp
  show "ab_dockets db' = fst (handleUserDeactivation (str_or_empty (aa_firmId admin)) (u_xID u) (av_categories ev) (av_primary ev) (ab_dockets db))"
    using db'(2) k(7) by simp
qed

lemma refresh_needs_active:
  assumes "distinct (map u_id (ad_users db))" "user_by_id i (ad_users db) = Some s" "\<not> isActiveStatus (u_status s)"
    and "find_token (ae_sha env (str_or_empty cookie)) db = Some t" "rk_userId t = Some i" "rk_scope t = Some ''tenant''"
  shows "\<not> started (snd (snd (refreshAccessToken env fr now cookie db)))"
proof -
  have f: "find (\<lambda>u. Some (u_id u) = rk_userId t \<and> u_firmId u = rk_firmId t) (ad_users db) = (if u_firmId s = rk_firmId t then Some s else None)"
    using find_same_user [OF assms(1,2), of "rk_firmId t"] assms(5) by simp
  have "\<exists>es m. refresh_read env now cookie db = (es, Plan_refused (Refused 401 m None None))"
    using assms(3,4,6) f unfolding refresh_read_def
    by (simp add: refresh_refused_def tenant_scope Let_def)
  then show ?thesis by (auto simp: refreshAccessToken_def refresh_write_def)
qed

text \<open>
  C17. Deactivating a user takes effect at once: whatever tokens the user holds, no request of the user is let
  through and no session can be refreshed, and the dockets still open in the user's name are only those whose
  category leads to no active primary workbasket.
\<close>

theorem deactivated_user_out:
  assumes "deactivateUser ev admin xid db = (db', Acct_ok m)" and "distinct_users (ab_auth db)" and "distinct (map d_id (ab_dockets db))"
    and "js_trim xid \<noteq> []"
  shows "\<exists>u. firm_user xid (aa_firmId admin) db = Some u
    \<and> (\<forall>decode verify env r cl ctx. verify (str_or_empty (request_token decode r)) = Inr cl \<longrightarrow> ac_userId cl = u_id u \<longrightarrow>
         authenticate decode verify env r (ab_auth db') \<noteq> Authenticated ctx)
    \<and> (\<forall>env fr now cookie t. find_token (ae_sha env (str_or_empty cookie)) (ab_auth db') = Some t \<longrightarrow> rk_userId t = Some (u_id u) \<longrightarrow>
         rk_scope t = Some ''tenant'' \<longrightarrow> \<not> started (snd (snd (refreshAccessToken env fr now cookie (ab_auth db')))))
    \<and> (\<forall>d\<in>set (ab_dockets db'). deactivation_filter (str_or_empty (aa_firmId admin)) (js_upper (str_or_empty (u_xID u))) d \<longrightarrow>
         handoff_team (av_categories ev) (av_primary ev) d = None)"
proof -
  from assms(1) obtain u where u: "firm_user xid (aa_firmId admin) db = Some u" "disable_user ev admin u db = Some db'"
    by (cases rule: deactivate_cases) auto
  have x: "u_xID u = Some (js_upper xid)" using u(1) by (auto simp: firm_user_def find_Some_iff)
  note d = disable_userD [OF u(2) firm_user_in [OF u(1)]]
  obtain s where s: "user_by_id (u_id u) (ad_users (ab_auth db')) = Some s" "\<not> isActiveStatus (u_status s)"
    using d(1) disabled_not_active by (auto simp: users_of_def)
  have auth: "authenticate decode verify env r (ab_auth db') \<noteq> Authenticated ctx"
    if "verify (str_or_empty (request_token decode r)) = Inr cl" "ac_userId cl = u_id u" for decode verify env r cl ctx
  proof
    assume "authenticate decode verify env r (ab_auth db') = Authenticated ctx"
    then have "authenticate_user r cl s (ad_tenants (ab_auth db')) = Authenticated ctx"
      using that s(1) by (auto simp: authenticate_def split: if_splits)
    from authenticated_user(2) [OF this] s(2) show False by simp
  qed
  have refresh: "\<not> started (snd (snd (refreshAccessToken env fr now cookie (ab_auth db'))))"
    if "find_token (ae_sha env (str_or_empty cookie)) (ab_auth db') = Some t" "rk_userId t = Some (u_id u)" "rk_scope t = Some ''tenant''"
    for env fr now cookie t
    using refresh_needs_active [OF d(3) [OF assms(2), unfolded distinct_users_def] s that] .
  have dockets: "handoff_team (av_categories ev) (av_primary ev) d = None"
    if "d \<in> set (ab_dockets db')" "deactivation_filter (str_or_empty (aa_firmId admin)) (js_upper (str_or_empty (u_xID u))) d" for d
  proof (rule ccontr)
    assume h: "handoff_team (av_categories ev) (av_primary ev) d \<noteq> None"
    have "truthy (xid_set (Some (js_upper (js_upper xid))))" using assms(4) by (simp add: xid_set_truthy js_trim_upper)
    then have n: "d_assignedToXID d \<noteq> None" using that(2) x by (auto simp: deactivation_filter_def xid_set_def)
    from that(1) obtain d0 where "d0 \<in> set (ab_dockets db)" and e: "d = (if deactivation_filter (str_or_empty (aa_firmId admin)) (js_upper (str_or_empty (u_xID u))) d0
         \<and> handoff_team (av_categories ev) (av_primary ev) d0 \<noteq> None
       then deactivation_set (handoff_team (av_categories ev) (av_primary ev) d0) d0 else d0)"
      unfolding d(4) deactivation_coll [OF assms(3)] by auto
    with n h that(2) show False by (auto simp: deactivation_set_def split: if_splits)
  qed
  show ?thesis using u(1) auth refresh dockets by blast
qed

definition sample_leaving :: account_db where
  "sample_leaving = sample_account\<lparr>ab_auth := (ab_auth sample_account)\<lparr>ad_tokens := [\<lparr>rk_tokenHash = ''$old'', rk_userId = Some ''u2'', rk_firmId = Some ''F1'',
     rk_scope = Some ''tenant'', rk_expiresAt = 1000, rk_isRevoked = False, rk_lastUsedAt = None\<rparr>]\<rparr>\<rparr>"

lemma sample_leaving_saved:
  "save_user False (find_ref [sample_chief, sample_member ''u2'' ''X000002'' ''active'', sample_member ''u3'' ''X000003'' ''disabled''])
     (Some (sample_member ''u2'' ''X000002'' ''active'')) ((sample_member ''u2'' ''X000002'' ''active'')\<lparr>u_status := Some ''disabled''\<rparr>)
   = Inr (sample_member ''u2'' ''X000002'' ''disabled'')"
  by code_simp

theorem deactivated_user_out_witness:
  "started (snd (snd (refreshAccessToken sample_env sample_fresh 5 (Some ''old'') (ab_auth sample_leaving)))) \<and>
   (\<exists>db' m. deactivateUser sample_account_env sample_acting ''x000002'' sample_leaving = (db', Acct_ok m) \<and>
     \<not> started (snd (snd (refreshAccessToken sample_env sample_fresh 5 (Some ''old'') (ab_auth db')))))"
proof -
  let ?u = "sample_member ''u2'' ''X000002'' ''active''"
  have fu: "firm_user ''x000002'' (aa_firmId sample_acting) sample_leaving = Some ?u" by code_simp
  have ad: "normalizeRole (aa_role sample_acting) = Some ''PRIMARY_ADMIN''" "aa_xID sample_acting \<noteq> Some (js_upper ''x000002'')" "can_deactivate ?u" by code_simp+
  have i: "user_by_id (u_id (?u\<lparr>u_status := Some ''disabled''\<rparr>)) (ad_users (ab_auth sample_leaving)) = Some ?u" by code_simp
  have us: "ad_users (ab_auth sample_leaving) = [sample_chief, ?u, sample_member ''u3'' ''X000003'' ''disabled'']"
    by (simp add: sample_leaving_def sample_account_def)
  have p: "persist (av_env sample_account_env) (?u\<lparr>u_status := Some ''disabled''\<rparr>) (ab_auth sample_leaving)
      = Inr (put_user (sample_member ''u2'' ''X000002'' ''disabled'') (ab_auth sample_leaving), sample_member ''u2'' ''X000002'' ''disabled'')"
    using sample_leaving_saved i us by (simp add: persist_def sample_account_env_def sample_env_def)
  obtain db' m where d: "deactivateUser sample_account_env sample_acting ''x000002'' sample_leaving = (db', Acct_ok m)"
    using fu ad p by (simp add: deactivateUser_def disable_user_def)
  have t: "ad_tokens (ab_auth sample_leaving) = [\<lparr>rk_tokenHash = ''$old'', rk_userId = Some ''u2'', rk_firmId = Some ''F1'',
     rk_scope = Some ''tenant'', rk_expiresAt = 1000, rk_isRevoked = False, rk_lastUsedAt = None\<rparr>]"
    by (simp add: sample_leaving_def)
  have k: "u_id ?u = ''u2''" "js_trim ''x000002'' \<noteq> []" "ae_sha sample_env (str_or_empty (Some ''old'')) = ''$old''"
    "started (snd (snd (refreshAccessToken sample_env sample_fresh 5 (Some ''old'') (ab_auth sample_leaving))))" by code_simp+
  have ds: "distinct_users (ab_auth sample_leaving)" "distinct (map d_id (ab_dockets sample_leaving))"
    by (simp_all add: distinct_users_def us) (simp_all add: sample_member_def sample_chief_def blank_user_def sample_leaving_def sample_account_def)
  have tok: "ad_tokens (ab_auth db') = ad_tokens (ab_auth sample_leaving)"
    using d fu ad p by (auto simp: deactivateUser_def disable_user_def put_user_def)
  have "find_token (ae_sha sample_env (str_or_empty (Some ''old''))) (ab_auth db') = Some (hd (ad_tokens (ab_auth sample_leaving)))"
    by (simp add: find_token_def tok t k(3) [simplified])
  then show ?thesis using deactivated_user_out [OF d ds k(2)] fu k(1,4) t d by fastforce
qed

end
