(* ===== verification/Recurrence.thy ===== *)
theory Recurrence
  imports Deadlines
begin

section \<open>Recurring obligations\<close>

text \<open>
  The calendar part of \<open>services/complianceTemplateGeneration.service.js\<close>: the periods of a recurrence
  pattern in a range, the statutory and the internal due date of a period, and its label.  Instants are
  milliseconds; a number the template does not set is \<open>None\<close>.
\<close>

record recurrence =
  rc_frequency :: "string option"
  rc_interval :: "rat option"
  rc_startMonth :: "rat option"

record due_rule =
  du_mode :: "string option"
  du_dayOfMonth :: "rat option"
  du_monthOffset :: "rat option"
  du_fixedMonth :: "rat option"

text \<open>\<open>Number(v || d)\<close>.\<close>

definition num_or :: "rat option \<Rightarrow> rat \<Rightarrow> rat" where
  "num_or v d = (case v of None \<Rightarrow> d | Some q \<Rightarrow> if q = 0 then d else q)"

definition civil_at :: "int \<Rightarrow> int \<times> int \<times> int" where
  "civil_at t = civil (t div DAY_MS)"

definition utc_ms :: "int \<Rightarrow> int \<Rightarrow> int \<Rightarrow> int" where
  "utc_ms y m d = date_utc y m d * DAY_MS"

definition startOfUtcMonth :: "int \<Rightarrow> int" where
  "startOfUtcMonth t = (case civil_at t of (y, m, d) \<Rightarrow> utc_ms y m 1)"

definition endOfUtcMonth :: "int \<Rightarrow> int" where
  "endOfUtcMonth t = (case civil_at t of (y, m, d) \<Rightarrow> utc_ms y (m + 1) 0)"

definition addUtcDays :: "int \<Rightarrow> rat \<Rightarrow> int" where
  "addUtcDays t days = (case civil_at t of (y, m, d) \<Rightarrow> utc_ms y m (js_trunc (of_int d + days)))"

definition addUtcMonths :: "int \<Rightarrow> rat \<Rightarrow> int" where
  "addUtcMonths t months = (case civil_at t of (y, m, d) \<Rightarrow> utc_ms y (js_trunc (of_int m + months)) 1)"

definition clampDay :: "int \<Rightarrow> rat \<Rightarrow> rat \<Rightarrow> int" where
  "clampDay y m dayOfMonth =
    (case civil_at (endOfUtcMonth (utc_ms y (js_trunc m) 1)) of
       (y1, m1, lastDay) \<Rightarrow> utc_ms y (js_trunc m) (js_trunc (max 1 (min dayOfMonth (of_int lastDay)))))"

subsection \<open>Periods\<close>

definition frequency_of :: "recurrence \<Rightarrow> string" where
  "frequency_of p = js_lower (str_or_empty (js_or (rc_frequency p) (Some ''monthly'')))"

definition interval_of :: "recurrence \<Rightarrow> rat" where
  "interval_of p = max 1 (num_or (rc_interval p) 1)"

definition monthsSpan :: "recurrence \<Rightarrow> rat" where
  "monthsSpan p =
    (if frequency_of p = ''quarterly'' then 3 * interval_of p
     else if frequency_of p = ''yearly'' then 12 * interval_of p
     else interval_of p)"

definition first_cursor :: "recurrence \<Rightarrow> int \<Rightarrow> int" where
  "first_cursor p normalizedStart =
    (case civil_at normalizedStart of
       (y, m, d) \<Rightarrow>
         (let configuredStartMonth = max 1 (min 12 (num_or (rc_startMonth p) 1)) - 1
          in if frequency_of p = ''quarterly'' then utc_ms y (m div 3 * 3) 1
             else if frequency_of p = ''yearly''
             then utc_ms (if of_int m > configuredStartMonth then y + 1 else y) (js_trunc configuredStartMonth) 1
             else normalizedStart))"

text \<open>What makes the loop end: a span is at least a month.\<close>

lemma js_trunc_add: "0 \<le> of_int m + q \<Longrightarrow> js_trunc (of_int m + q) = m + \<lfloor>q\<rfloor>"
  by (simp add: js_trunc_def)

lemma monthsSpan_ge: "1 \<le> monthsSpan p"
  by (auto simp: monthsSpan_def interval_of_def)

lemma civil_at_month: "civil_at t = (y, m, d) \<Longrightarrow> month_of t = 12 * y + m"
  by (simp add: civil_at_def month_of_def)

lemma utc_ms_month: "utc_ms y m d = (month_begin (12 * y + m) + (d - 1)) * DAY_MS"
  by (simp add: utc_ms_def date_utc_month)

lemma civil_at_range: "civil_at t = (y, m, d) \<Longrightarrow> 0 \<le> m \<and> m < 12 \<and> 1 \<le> d"
  using civil_spec(1) by (fastforce simp: civil_at_def valid_date_def)

lemma addUtcMonths_eq:
  assumes "0 \<le> q"
  shows "addUtcMonths t q = month_begin (month_of t + \<lfloor>q\<rfloor>) * DAY_MS"
proof -
  obtain y m d where c: "civil_at t = (y, m, d)" by (cases "civil_at t")
  have "js_trunc (of_int m + q) = m + \<lfloor>q\<rfloor>" using civil_at_range [OF c] assms by (intro js_trunc_add) simp
  then show ?thesis by (simp add: addUtcMonths_def c utc_ms_month civil_at_month [OF c] algebra_simps)
qed

lemma addUtcMonths_later:
  assumes "1 \<le> q"
  shows "t < addUtcMonths t q"
proof -
  have one: "1 \<le> \<lfloor>q\<rfloor>" using assms by (simp add: le_floor_iff)
  have "month_begin (month_of t + 1) \<le> month_begin (month_of t + \<lfloor>q\<rfloor>)"
  proof (cases "\<lfloor>q\<rfloor> = 1")
    case False
    then have "month_of t + 1 < month_of t + \<lfloor>q\<rfloor>" using one by linarith
    from month_begin_mono [OF this] show ?thesis using month_size_bounds(1) [of "month_of t + 1"] by linarith
  qed simp
  then have "month_begin (month_of t + 1) * DAY_MS \<le> month_begin (month_of t + \<lfloor>q\<rfloor>) * DAY_MS"
    by (simp add: DAY_MS_def)
  then show ?thesis using month_of_bounds [of t] assms by (simp add: addUtcMonths_eq)
qed

function expand_loop :: "recurrence \<Rightarrow> int \<Rightarrow> int \<Rightarrow> int \<Rightarrow> (int \<times> int) list" where
  "expand_loop p normalizedStart normalizedEnd cursor =
    (if normalizedEnd < cursor then []
     else (let nextPeriodStart = addUtcMonths cursor (monthsSpan p); periodEnd = addUtcDays nextPeriodStart (- 1)
           in (if cursor \<ge> normalizedStart then [(cursor, periodEnd)] else [])
              @ expand_loop p normalizedStart normalizedEnd nextPeriodStart))"
  by pat_completeness auto
termination
proof (relation "measure (\<lambda>(p, s, e, c). nat (e + 1 - c))")
  fix p and s e c x :: int
  assume "\<not> e < c" and x: "x = addUtcMonths c (monthsSpan p)"
  moreover have "c < x" using addUtcMonths_later [OF monthsSpan_ge] x by simp
  ultimately show "((p, s, e, x), p, s, e, c) \<in> measure (\<lambda>(p, s, e, c). nat (e + 1 - c))" by simp
qed simp

declare expand_loop.simps [simp del]

definition expandRecurringPeriods :: "recurrence \<Rightarrow> int \<Rightarrow> int \<Rightarrow> (int \<times> int) list" where
  "expandRecurringPeriods p rangeStart rangeEnd =
    (let normalizedStart = startOfUtcMonth rangeStart; normalizedEnd = startOfUtcMonth rangeEnd
     in expand_loop p normalizedStart normalizedEnd (first_cursor p normalizedStart))"

subsection \<open>Due dates and labels\<close>

definition computeStatutoryDueDate :: "due_rule \<Rightarrow> int \<Rightarrow> int" where
  "computeStatutoryDueDate r periodEnd =
    (case civil_at periodEnd of
       (y, m, d) \<Rightarrow>
         (let mode = js_lower (str_or_empty (js_or (du_mode r) (Some ''day_of_next_month'')));
              dayOfMonth = max 1 (min 28 (num_or (du_dayOfMonth r) 20))
          in if mode = ''fixed_day_month''
             then clampDay y (max 1 (min 12 (num_or (du_fixedMonth r) (of_int (m + 1)))) - 1) dayOfMonth
             else (let monthOffset = (if mode = ''day_of_month_after_period'' then max 0 (num_or (du_monthOffset r) 1) else 1)
                   in case civil_at (addUtcMonths (utc_ms y m 1) monthOffset) of
                        (y2, m2, d2) \<Rightarrow> clampDay y2 (of_int m2) dayOfMonth)))"

definition computeInternalDueDate :: "int \<Rightarrow> rat option \<Rightarrow> int" where
  "computeInternalDueDate statutoryDueDate internalBufferDays =
    addUtcDays statutoryDueDate (- max 0 (num_or internalBufferDays 0))"

definition year_string :: "int \<Rightarrow> string" where
  "year_string y = (if y < 0 then ''-'' @ decimal (nat (- y)) else decimal (nat y))"

definition periodKeyFromStart :: "int \<Rightarrow> string" where
  "periodKeyFromStart t = (case civil_at t of (y, m, d) \<Rightarrow> year_string y @ ''-'' @ padded 2 (nat (m + 1)))"

definition MONTH_NAMES :: "string list" where
  "MONTH_NAMES = [''Jan'', ''Feb'', ''Mar'', ''Apr'', ''May'', ''Jun'', ''Jul'', ''Aug'', ''Sep'', ''Oct'', ''Nov'', ''Dec'']"

definition formatMonthPeriod :: "int \<Rightarrow> string" where
  "formatMonthPeriod t = (case civil_at t of (y, m, d) \<Rightarrow> MONTH_NAMES ! nat m @ ''-'' @ year_string y)"

definition buildObligationPeriodLabel :: "recurrence \<Rightarrow> int \<Rightarrow> string" where
  "buildObligationPeriodLabel p periodStart =
    (case civil_at periodStart of
       (y, m, d) \<Rightarrow>
         if frequency_of p = ''quarterly'' then ''Q'' @ decimal (nat (m div 3 + 1)) @ ''-'' @ year_string y
         else if frequency_of p = ''yearly''
         then (let s = year_string (y + 1) in ''FY '' @ year_string y @ ''-'' @ drop (length s - 2) s)
         else formatMonthPeriod periodStart)"

end
