(* ===== verification/RecurrenceProperties.thy ===== *)
theory RecurrenceProperties
  imports Recurrence
begin

section \<open>The calendar of obligations\<close>

text \<open>
  What \<open>expandRecurringPeriods\<close> returns, in months: the periods adjoin, with an interval of one they are
  exactly the months, quarters or years that start in the range, and with a longer interval they depend on
  where the range begins.  Where a due date lies.
\<close>

lemma DAY_MS_pos [simp]: "0 < DAY_MS" "0 \<le> DAY_MS" "DAY_MS \<noteq> 0"
  by (simp_all add: DAY_MS_def)

lemma month_begin_less: "month_begin j < month_begin k \<longleftrightarrow> j < k"
  using month_begin_mono [of j k] month_begin_mono [of k j] month_size_bounds(1) [of j] month_size_bounds(1) [of k]
  by (cases j k rule: linorder_cases) auto

lemma month_begin_le: "month_begin j \<le> month_begin k \<longleftrightarrow> j \<le> k"
  by (simp add: month_begin_less flip: not_less)

lemma civil_at_day:
  assumes "1 \<le> d" and "d \<le> month_size k"
  shows "civil_at ((month_begin k + (d - 1)) * DAY_MS) = (k div 12, k mod 12, d)"
  using assms by (simp add: civil_at_def civil_month)

lemma civil_at_begin [simp]: "civil_at (month_begin k * DAY_MS) = (k div 12, k mod 12, 1)"
  using civil_at_day [of 1 k] month_size_bounds(1) [of k] by simp

lemma month_of_begin [simp]: "month_of (month_begin k * DAY_MS) = k"
  using civil_at_month [OF civil_at_begin [of k]] by simp

lemma startOfUtcMonth_eq: "startOfUtcMonth t = month_begin (month_of t) * DAY_MS"
  by (cases "civil_at t") (simp add: startOfUtcMonth_def utc_ms_month civil_at_month)

lemma addUtcDays_whole: "addUtcDays (n * DAY_MS) (of_int k) = (n + k) * DAY_MS"
proof -
  obtain y m d where c: "civil n = (y, m, d)" by (cases "civil n")
  have "js_trunc (of_int d + of_int k) = d + k" by (simp add: js_trunc_def flip: of_int_add)
  moreover have "date_utc y m (d + k) = date_utc y m d + k" by (simp add: date_utc_def)
  ultimately show ?thesis using civil_spec(2) [OF c] c by (simp add: addUtcDays_def civil_at_def utc_ms_def)
qed

lemma addUtcDays_minus_one: "addUtcDays (n * DAY_MS) (- 1) = (n - 1) * DAY_MS"
  using addUtcDays_whole [of n "- 1"] by simp

subsection \<open>The loop in months\<close>

definition step_months :: "recurrence \<Rightarrow> int" where
  "step_months p = \<lfloor>monthsSpan p\<rfloor>"

definition period_at :: "int \<Rightarrow> int \<Rightarrow> int \<times> int" where
  "period_at s k = (month_begin k * DAY_MS, (month_begin (k + s) - 1) * DAY_MS)"

lemma step_months_pos: "1 \<le> step_months p"
  using monthsSpan_ge [of p] by (simp add: step_months_def le_floor_iff)

definition loop_at :: "recurrence \<Rightarrow> int \<Rightarrow> int \<Rightarrow> int \<Rightarrow> (int \<times> int) list" where
  "loop_at p a b k = expand_loop p (month_begin a * DAY_MS) (month_begin b * DAY_MS) (month_begin k * DAY_MS)"

lemma loop_at_rec:
  "loop_at p a b k = (if b < k then [] else (if a \<le> k then [period_at (step_months p) k] else []) @ loop_at p a b (k + step_months p))"
proof -
  have "addUtcMonths (month_begin k * DAY_MS) (monthsSpan p) = month_begin (k + step_months p) * DAY_MS"
    using monthsSpan_ge [of p] by (simp add: addUtcMonths_eq step_months_def)
  then show ?thesis
    unfolding loop_at_def by (subst expand_loop.simps)
      (simp add: month_begin_less month_begin_le addUtcDays_minus_one period_at_def Let_def)
qed

lemma set_loop_at:
  "set (loop_at p a b k) = {period_at (step_months p) (k + int j * step_months p) | j. a \<le> k + int j * step_months p \<and> k + int j * step_months p \<le> b}"
proof (induction "nat (b + 1 - k)" arbitrary: k rule: less_induct)
  case less
  show ?case
  proof (cases "b < k")
    case True
    then have "\<not> k + int j * step_months p \<le> b" for j using step_months_pos [of p] by (smt (verit) mult_nonneg_nonneg of_nat_0_le_iff)
    then show ?thesis using True by (simp add: loop_at_rec [of p a b k])
  next
    case False
    have IH: "set (loop_at p a b (k + step_months p)) = {period_at (step_months p) (k + int (Suc j) * step_months p) | j. a \<le> k + int (Suc j) * step_months p \<and> k + int (Suc j) * step_months p \<le> b}"
      using less [of "k + step_months p"] False step_months_pos [of p] by (simp add: algebra_simps)
    have "{period_at (step_months p) (k + int j * step_months p) | j. a \<le> k + int j * step_months p \<and> k + int j * step_months p \<le> b}
        = (if a \<le> k then {period_at (step_months p) k} else {})
          \<union> {period_at (step_months p) (k + int (Suc j) * step_months p) | j. a \<le> k + int (Suc j) * step_months p \<and> k + int (Suc j) * step_months p \<le> b}" (is "?l = ?r")
    proof (intro equalityI subsetI)
      fix x assume "x \<in> ?l"
      then obtain j where j: "x = period_at (step_months p) (k + int j * step_months p)" "a \<le> k + int j * step_months p" "k + int j * step_months p \<le> b" by blast
      show "x \<in> ?r"
      proof (cases j)
        case 0
        then show ?thesis using j by simp
      next
        case (Suc i)
        then show ?thesis using j by blast
      qed
    next
      fix x assume x: "x \<in> ?r"
      show "x \<in> ?l"
      proof (cases "a \<le> k \<and> x = period_at (step_months p) k")
        case True
        then show ?thesis using False by (intro CollectI exI [of _ 0]) simp
      next
        case no: False
        then obtain j where "x = period_at (step_months p) (k + int (Suc j) * step_months p)" "a \<le> k + int (Suc j) * step_months p"
          "k + int (Suc j) * step_months p \<le> b" using x by (auto split: if_splits)
        then show ?thesis by blast
      qed
    qed
    then show ?thesis using False by (subst loop_at_rec) (simp add: IH)
  qed
qed

fun adjoining :: "(int \<times> int) list \<Rightarrow> bool" where
  "adjoining (x # y # zs) = (fst y = snd x + DAY_MS \<and> adjoining (y # zs))"
| "adjoining _ = True"

lemma loop_at_head: "a \<le> k \<Longrightarrow> loop_at p a b k = [] \<or> (\<exists>e xs. loop_at p a b k = (month_begin k * DAY_MS, e) # xs)"
  by (subst (1 2) loop_at_rec) (simp add: period_at_def)

lemma adjoining_Cons: "adjoining xs \<Longrightarrow> xs = [] \<or> (\<exists>e ys. xs = (snd x + DAY_MS, e) # ys) \<Longrightarrow> adjoining (x # xs)"
  by (cases xs) auto

lemma adjoining_loop: "adjoining (loop_at p a b k)"
proof (induction "nat (b + 1 - k)" arbitrary: k rule: less_induct)
  case less
  have IH: "\<not> b < k \<Longrightarrow> adjoining (loop_at p a b (k + step_months p))" using less step_months_pos [of p] by simp
  show ?case
  proof (cases "b < k \<or> k < a")
    case True
    then show ?thesis using IH by (subst loop_at_rec) auto
  next
    case False
    have "snd (period_at (step_months p) k) + DAY_MS = month_begin (k + step_months p) * DAY_MS" by (simp add: period_at_def algebra_simps)
    then have "adjoining (period_at (step_months p) k # loop_at p a b (k + step_months p))"
      using False IH loop_at_head [of a "k + step_months p" p b] step_months_pos [of p] by (intro adjoining_Cons) auto
    then show ?thesis using False by (subst loop_at_rec) simp
  qed
qed

subsection \<open>Where the loop starts\<close>

definition start_month :: "recurrence \<Rightarrow> int" where
  "start_month p = \<lfloor>max 1 (min 12 (num_or (rc_startMonth p) 1))\<rfloor> - 1"

lemma start_month_range: "0 \<le> start_month p" "start_month p < 12"
proof -
  have "1 \<le> max 1 (min 12 (num_or (rc_startMonth p) 1))" "max 1 (min 12 (num_or (rc_startMonth p) 1)) \<le> 12" by auto
  then have "1 \<le> \<lfloor>max 1 (min 12 (num_or (rc_startMonth p) 1))\<rfloor>" "\<lfloor>max 1 (min 12 (num_or (rc_startMonth p) 1))\<rfloor> \<le> 12"
    by (simp_all add: le_floor_iff floor_le_iff)
  then show "0 \<le> start_month p" "start_month p < 12" by (simp_all add: start_month_def)
qed

text \<open>The length of the cycle of a frequency in months, and the position of its starts.\<close>

definition cycle :: "recurrence \<Rightarrow> int \<times> int" where
  "cycle p = (if frequency_of p = ''quarterly'' then (3, 0) else if frequency_of p = ''yearly'' then (12, start_month p) else (1, 0))"

definition first_month :: "recurrence \<Rightarrow> int \<Rightarrow> int" where
  "first_month p a =
    (if frequency_of p = ''quarterly'' then a div 3 * 3
     else if frequency_of p = ''yearly'' then 12 * (if start_month p < a mod 12 then a div 12 + 1 else a div 12) + start_month p
     else a)"

lemma trunc_start: "js_trunc (max 1 (min 12 q) - 1) = \<lfloor>max 1 (min 12 q)\<rfloor> - 1"
  by (simp add: js_trunc_def)

lemma first_cursor_eq: "first_cursor p (month_begin a * DAY_MS) = month_begin (first_month p a) * DAY_MS"
proof -
  let ?c = "max 1 (min 12 (num_or (rc_startMonth p) 1)) - 1 :: rat"
  have "(12 * x + y) div 3 = 4 * x + y div 3" for x y :: int by presburger
  from this [of "a div 12" "a mod 12"] have "a div 3 = 4 * (a div 12) + a mod 12 div 3" by (simp only: mult_div_mod_eq)
  then have quarter: "12 * (a div 12) + a mod 12 div 3 * 3 = a div 3 * 3" by simp
  have year: "?c < of_int (a mod 12) \<longleftrightarrow> start_month p < a mod 12"
    unfolding start_month_def by (metis floor_diff_one floor_less_iff)
  consider "frequency_of p = ''quarterly''" | "frequency_of p = ''yearly''" | "frequency_of p \<noteq> ''quarterly''" "frequency_of p \<noteq> ''yearly''"
    by blast
  then show ?thesis
  proof cases
    case 1
    then show ?thesis using quarter by (simp add: first_cursor_def first_month_def utc_ms_month Let_def)
  next
    case 2
    then show ?thesis using year by (simp add: first_cursor_def first_month_def utc_ms_month trunc_start start_month_def Let_def)
  next
    case 3
    then show ?thesis by (simp add: first_cursor_def first_month_def Let_def)
  qed
qed

lemma expand_eq: "expandRecurringPeriods p t u = loop_at p (month_of t) (month_of u) (first_month p (month_of t))"
  by (simp add: expandRecurringPeriods_def startOfUtcMonth_eq loop_at_def first_cursor_eq Let_def)

lemma first_month_near:
  assumes "cycle p = (s, r)"
  shows "first_month p a mod s = r" and "first_month p a < a + s" and "a < first_month p a + s" and "0 < s"
proof -
  consider "frequency_of p = ''quarterly''" | "frequency_of p = ''yearly''" | "frequency_of p \<noteq> ''quarterly''" "frequency_of p \<noteq> ''yearly''"
    by blast
  then have "first_month p a mod s = r \<and> first_month p a < a + s \<and> a < first_month p a + s \<and> 0 < s"
  proof cases
    case 1
    then have s: "s = 3" "r = 0" using assms by (simp_all add: cycle_def)
    have "a div 3 * 3 mod 3 = 0" "a div 3 * 3 < a + 3" "a < a div 3 * 3 + 3" by presburger+
    then show ?thesis unfolding s first_month_def using 1 by simp
  next
    case 2
    then have s: "s = 12" "r = start_month p" and m: "first_month p a = 12 * (if start_month p < a mod 12 then a div 12 + 1 else a div 12) + start_month p"
      using assms by (simp_all add: cycle_def first_month_def)
    define x y where "x = a div 12" and "y = a mod 12"
    have a: "a = 12 * x + y" "0 \<le> y" "y < 12" by (simp_all add: x_def y_def)
    have r: "(12 * x + start_month p) mod 12 = start_month p" for x using start_month_range [of p] by simp
    show ?thesis using a start_month_range [of p] unfolding s m x_def [symmetric] y_def [symmetric]
      by (auto simp: r)
  next
    case 3
    then show ?thesis using assms by (auto simp: cycle_def first_month_def)
  qed
  then show "first_month p a mod s = r" "first_month p a < a + s" "a < first_month p a + s" "0 < s" by blast+
qed

lemma step_months_cycle: "interval_of p = 1 \<Longrightarrow> step_months p = fst (cycle p)"
  by (simp add: step_months_def monthsSpan_def cycle_def)

lemma same_residue:
  fixes s :: int
  assumes "k mod s = m mod s" and "m < k + s" and "0 < s"
  shows "(\<exists>j. k = m + int j * s)"
proof -
  have "s dvd k - m" using assms(1) by (simp add: mod_eq_dvd_iff)
  then obtain q where q: "k - m = s * q" by (elim dvdE)
  have "s * - 1 < s * q" using assms(2) q by simp
  then have "- 1 < q" using assms(3) by (simp only: mult_less_cancel_left_pos)
  then show ?thesis using q by (intro exI [of _ "nat q"]) (simp add: algebra_simps)
qed

subsection \<open>The properties\<close>



text \<open>
  Fact. With an interval of two months or more the periods are counted from the first month of the range and
  not from a fixed month: of the requests for two successive months each yields a period, and the two
  periods overlap.
\<close>

theorem interval_follows_range:
  assumes "fst (cycle p) = 1" and "2 \<le> interval_of p" and "month_of u = month_of t + 1"
  shows "\<exists>s e s' e'. expandRecurringPeriods p t t = [(s, e)] \<and> expandRecurringPeriods p u u = [(s', e')] \<and> s < s' \<and> s' \<le> e"
proof -
  have first: "first_month p a = a" for a using assms(1) by (auto simp: cycle_def first_month_def split: if_splits)
  have "step_months p = \<lfloor>interval_of p\<rfloor>" using assms(1) by (auto simp: step_months_def monthsSpan_def cycle_def split: if_splits)
  then have two: "2 \<le> step_months p" using assms(2) by (simp add: le_floor_iff)
  have single: "expandRecurringPeriods p v v = [period_at (step_months p) (month_of v)]" for v
    using two by (simp add: expand_eq first loop_at_rec [of p _ _ "month_of v"] loop_at_rec [of p _ _ "month_of v + step_months p"])
  have "month_begin (month_of t + 1) < month_begin (month_of t + step_months p)" using two by (simp add: month_begin_less)
  then have "month_begin (month_of t + 1) * DAY_MS \<le> (month_begin (month_of t + step_months p) - 1) * DAY_MS"
    using DAY_MS_pos(1) by (intro mult_right_mono) auto
  then show ?thesis using single [of t] single [of u] assms(3) by (simp add: period_at_def month_begin_less)
qed

theorem interval_follows_range_witness:
  "\<exists>s e s' e'. expandRecurringPeriods \<lparr>rc_frequency = Some ''monthly'', rc_interval = Some 2, rc_startMonth = None\<rparr> 1704067200000 1704067200000 = [(s, e)]
    \<and> expandRecurringPeriods \<lparr>rc_frequency = Some ''monthly'', rc_interval = Some 2, rc_startMonth = None\<rparr> 1706745600000 1706745600000 = [(s', e')]
    \<and> s < s' \<and> s' \<le> e"
  by (rule interval_follows_range) code_simp+

subsection \<open>Due dates\<close>

lemma civil_at_civil: "civil_at t = (y, m, d) \<Longrightarrow> month_of t div 12 = y \<and> month_of t mod 12 = m"
  using civil_at_range [of t y m d] by (simp add: civil_at_month)

lemma month_end: "civil_at ((month_begin (k + 1) - 1) * DAY_MS) = (k div 12, k mod 12, month_size k)"
proof -
  have "month_begin (k + 1) - 1 = month_begin k + (month_size k - 1)" by (simp add: month_begin_Suc)
  moreover have "1 \<le> month_size k" using month_size_bounds(1) [of k] by linarith
  ultimately show ?thesis using civil_at_day [of "month_size k" k] by (simp only: order_refl)
qed

lemma endOfUtcMonth_begin: "endOfUtcMonth (month_begin k * DAY_MS) = (month_begin (k + 1) - 1) * DAY_MS"
proof -
  have "12 * (k div 12) + (k mod 12 + 1) = k + 1" by presburger
  then show ?thesis by (simp add: endOfUtcMonth_def utc_ms_month)
qed

definition due_day :: "due_rule \<Rightarrow> int" where
  "due_day r = \<lfloor>max 1 (min 28 (num_or (du_dayOfMonth r) 20))\<rfloor>"

lemma due_day_range: "1 \<le> due_day r" "due_day r \<le> 28"
  by (auto simp: due_day_def le_floor_iff floor_le_iff)

lemma clampDay_eq:
  assumes "0 \<le> m"
  shows "clampDay y m (max 1 (min 28 (num_or (du_dayOfMonth r) 20))) = (month_begin (12 * y + \<lfloor>m\<rfloor>) + (due_day r - 1)) * DAY_MS"
proof -
  let ?k = "12 * y + \<lfloor>m\<rfloor>"
  have "js_trunc m = \<lfloor>m\<rfloor>" using assms by (simp add: js_trunc_def)
  then have "utc_ms y (js_trunc m) 1 = month_begin ?k * DAY_MS" by (simp add: utc_ms_month)
  then have e: "civil_at (endOfUtcMonth (utc_ms y (js_trunc m) 1)) = (?k div 12, ?k mod 12, month_size ?k)"
    by (simp only: endOfUtcMonth_begin month_end)
  have "(of_int 28 :: rat) \<le> of_int (month_size ?k)" using month_size_bounds(1) [of ?k] by (simp only: of_int_le_iff)
  then have size: "(28::rat) \<le> of_int (month_size ?k)" by simp
  define q :: rat where "q = max 1 (min 28 (num_or (du_dayOfMonth r) 20))"
  have "1 \<le> q" "q \<le> 28" by (simp_all add: q_def)
  then have "min q (of_int (month_size ?k)) = q" "max 1 q = q" using size by (simp_all add: min_absorb1 max_absorb2)
  moreover have "js_trunc q = due_day r" using \<open>1 \<le> q\<close> by (simp add: js_trunc_def due_day_def q_def)
  moreover have "utc_ms y (js_trunc m) d = (month_begin ?k + (d - 1)) * DAY_MS" for d using assms by (simp add: utc_ms_month js_trunc_def)
  ultimately show ?thesis unfolding clampDay_def e prod.case q_def [symmetric] by simp
qed

definition due_mode :: "due_rule \<Rightarrow> string" where
  "due_mode r = js_lower (str_or_empty (js_or (du_mode r) (Some ''day_of_next_month'')))"

definition due_month :: "due_rule \<Rightarrow> int \<Rightarrow> int" where
  "due_month r k =
    (if due_mode r = ''fixed_day_month'' then 12 * (k div 12) + \<lfloor>max 1 (min 12 (num_or (du_fixedMonth r) (of_int (k mod 12 + 1))))\<rfloor> - 1
     else if due_mode r = ''day_of_month_after_period'' then k + \<lfloor>max 0 (num_or (du_monthOffset r) 1)\<rfloor>
     else k + 1)"

lemma statutory_eq: "computeStatutoryDueDate r e = (month_begin (due_month r (month_of e)) + (due_day r - 1)) * DAY_MS"
proof -
  obtain y m d where c: "civil_at e = (y, m, d)" by (cases "civil_at e")
  note k = civil_at_civil [OF c]
  let ?q = "max 1 (min 12 (num_or (du_fixedMonth r) (of_int (m + 1)))) :: rat"
  have fixed: "clampDay y (?q - 1) (max 1 (min 28 (num_or (du_dayOfMonth r) 20)))
      = (month_begin (12 * y + \<lfloor>?q\<rfloor> - 1) + (due_day r - 1)) * DAY_MS"
    by (subst clampDay_eq) (simp_all add: algebra_simps)
  have offset: "clampDay ((month_of e + \<lfloor>q\<rfloor>) div 12) (of_int ((month_of e + \<lfloor>q\<rfloor>) mod 12)) (max 1 (min 28 (num_or (du_dayOfMonth r) 20)))
      = (month_begin (month_of e + \<lfloor>q\<rfloor>) + (due_day r - 1)) * DAY_MS" for q :: rat
    by (subst clampDay_eq) simp_all
  have start: "utc_ms y m 1 = month_begin (month_of e) * DAY_MS" by (simp add: utc_ms_month civil_at_month [OF c])
  have "civil_at (addUtcMonths (utc_ms y m 1) q) = ((month_of e + \<lfloor>q\<rfloor>) div 12, (month_of e + \<lfloor>q\<rfloor>) mod 12, 1)" if "0 \<le> q" for q
    using that by (simp add: start addUtcMonths_eq)
  then have start_offset: "(case civil_at (addUtcMonths (utc_ms y m 1) q) of (y2, m2, d2) \<Rightarrow> clampDay y2 (of_int m2) (max 1 (min 28 (num_or (du_dayOfMonth r) 20))))
      = (month_begin (month_of e + \<lfloor>q\<rfloor>) + (due_day r - 1)) * DAY_MS" if "0 \<le> q" for q
    using that offset [of q] by simp
  have eq: "computeStatutoryDueDate r e =
      (if due_mode r = ''fixed_day_month'' then clampDay y (?q - 1) (max 1 (min 28 (num_or (du_dayOfMonth r) 20)))
       else (case civil_at (addUtcMonths (utc_ms y m 1) (if due_mode r = ''day_of_month_after_period'' then max 0 (num_or (du_monthOffset r) 1) else 1)) of
               (y2, m2, d2) \<Rightarrow> clampDay y2 (of_int m2) (max 1 (min 28 (num_or (du_dayOfMonth r) 20)))))"
    by (simp add: computeStatutoryDueDate_def c due_mode_def Let_def)
  show ?thesis
  proof (cases "due_mode r = ''fixed_day_month''")
    case True
    then show ?thesis using k by (simp only: eq if_True fixed due_month_def) simp
  next
    case False
    then show ?thesis unfolding eq if_not_P [OF False] by (subst start_offset) (simp_all add: due_month_def)
  qed
qed

declare statutory_eq [code]

lemma addUtcDays_back: "0 \<le> q \<Longrightarrow> addUtcDays (n * DAY_MS) (- q) \<le> n * DAY_MS"
proof -
  assume q: "0 \<le> q"
  obtain y m d where c: "civil n = (y, m, d)" by (cases "civil n")
  then have d: "1 \<le> d" using civil_spec(1) [OF c] by (simp add: valid_date_def)
  have "\<lfloor>of_int d - q\<rfloor> \<le> d" "\<lceil>of_int d - q\<rceil> \<le> d" using q by (simp_all add: floor_le_iff ceiling_le_iff)
  then have "js_trunc (of_int d + - q) \<le> d" by (simp add: js_trunc_def)
  then have "date_utc y m (js_trunc (of_int d + - q)) \<le> date_utc y m d" by (simp add: date_utc_def)
  then show ?thesis using civil_spec(2) [OF c] c by (simp add: addUtcDays_def civil_at_def utc_ms_def)
qed

text \<open>
  Fact. The due dates of a period.  The statutory date is the given day, limited to the days every month has,
  of the month the rule names, and the internal one is never after it.  Counted from the end of the period
  with an offset of a month or more it is after the period; with a fixed month earlier in the year than the
  month in which the period ends it is before the end of the period.
\<close>

theorem statutory_due_exact:
  "computeStatutoryDueDate r e = (month_begin (due_month r (month_of e)) + (due_day r - 1)) * DAY_MS
   \<and> 1 \<le> due_day r \<and> due_day r \<le> 28
   \<and> computeInternalDueDate (computeStatutoryDueDate r e) buffer \<le> computeStatutoryDueDate r e
   \<and> (month_of e < due_month r (month_of e) \<longrightarrow> e < computeStatutoryDueDate r e)
   \<and> (due_month r (month_of e) < month_of e \<longrightarrow> computeStatutoryDueDate r e < e)"
proof (intro conjI impI statutory_eq due_day_range)
  let ?k = "due_month r (month_of e)"
  show "computeInternalDueDate (computeStatutoryDueDate r e) buffer \<le> computeStatutoryDueDate r e"
    unfolding statutory_eq computeInternalDueDate_def by (rule addUtcDays_back) simp
  show "e < computeStatutoryDueDate r e" if "month_of e < ?k"
  proof -
    have "month_begin (month_of e + 1) \<le> month_begin ?k + (due_day r - 1)"
      using that due_day_range(1) [of r] month_begin_le [of "month_of e + 1" ?k] by simp
    then have "month_begin (month_of e + 1) * DAY_MS \<le> (month_begin ?k + (due_day r - 1)) * DAY_MS" by (rule mult_right_mono) simp
    with month_of_bounds [of e] show ?thesis unfolding statutory_eq by linarith
  qed
  show "computeStatutoryDueDate r e < e" if "?k < month_of e"
  proof -
    have "month_begin ?k + (due_day r - 1) < month_begin (month_of e)"
      using month_begin_mono [OF that] due_day_range(2) [of r] month_size_bounds(1) [of ?k] by simp
    then have "(month_begin ?k + (due_day r - 1)) * DAY_MS < month_begin (month_of e) * DAY_MS" by (rule mult_strict_right_mono) simp
    with month_of_bounds [of e] show ?thesis unfolding statutory_eq by linarith
  qed
qed

theorem statutory_due_exact_witness:
  "month_of 1735603200000 = 24299
   \<and> computeStatutoryDueDate \<lparr>du_mode = Some ''fixed_day_month'', du_dayOfMonth = Some 30, du_monthOffset = None, du_fixedMonth = Some 10\<rparr> 1735603200000 < 1735603200000"
proof -
  let ?r = "\<lparr>du_mode = Some ''fixed_day_month'', du_dayOfMonth = Some 30, du_monthOffset = None, du_fixedMonth = Some 10\<rparr>"
  have "month_of 1735603200000 = 24299" "due_month ?r 24299 = 24297" by code_simp+
  then show ?thesis using statutory_due_exact [of ?r 1735603200000 None] by simp
qed

end
