(* ===== verification/ComplianceGeneration.thy ===== *)
theory ComplianceGeneration
  imports Recurrence DocketWorkflow
begin

section \<open>Dockets from compliance templates\<close>

text \<open>
  \<open>services/complianceTemplateGeneration.service.js\<close> on the collections it reads: the templates, the clients,
  the categories and the dockets of all firms.  A docket is stored with the key the schema makes of
  \<open>idempotencyKey\<close> (trimmed, lower case), under the unique index on firm and key.  What else may stop a save
  (validation, the other indexes, the numbering) is the argument \<open>save_error\<close>.  Random identifiers and the
  fields of a docket with a constant value are left out.
\<close>

subsection \<open>Templates and clients\<close>

record template_item =
  ti_title :: "string option"
  ti_description :: "string option"
  ti_required :: bool
  ti_dueOffsetDays :: "rat option"
  ti_sortOrder :: "rat option"

record sop_link =
  lk_title :: "string option"
  lk_url :: "string option"
  lk_description :: "string option"
  lk_type :: "string option"
  lk_sortOrder :: "rat option"

record sop_template =
  so_title :: "string option"
  so_body :: "string option"
  so_format :: "string option"
  so_links :: "sop_link list"

record obligation_template =
  tm_id :: string
  tm_firmId :: string
  tm_name :: string
  tm_obligationType :: "string option"
  tm_applicableEntityTypes :: "string list"
  tm_recurrence :: recurrence
  tm_dueDateRule :: due_rule
  tm_internalBufferDays :: "rat option"
  tm_checklist :: "template_item list"
  tm_sop :: sop_template
  tm_assignee :: "string option"
  tm_reviewer :: "string option"
  tm_approver :: "string option"
  tm_categoryId :: "string option"
  tm_subcategoryId :: "string option"
  tm_isActive :: bool
  tm_isSample :: bool
  tm_expectedMinutes :: rat
  tm_estimatedBudget :: rat

record compliance_client =
  kc_clientId :: string
  kc_firmId :: string
  kc_businessName :: "string option"
  kc_entityType :: "string option"
  kc_status :: "string option"
  kc_isInternal :: bool

record subcategory_doc =
  sd_id :: "string option"
  sd_name :: "string option"
  sd_isActive :: "bool option"

record category_doc =
  cd_id :: string
  cd_firmId :: string
  cd_name :: "string option"
  cd_isActive :: bool
  cd_subcategories :: "subcategory_doc list"

definition normalizeEntityType :: "string option \<Rightarrow> string" where
  "normalizeEntityType v = js_lower (js_trim (str_or_empty v))"

definition isTemplateApplicableToEntityType :: "obligation_template \<Rightarrow> string option \<Rightarrow> bool" where
  "isTemplateApplicableToEntityType t entityType =
    (let configured = filter (\<lambda>s. s \<noteq> []) (map (\<lambda>s. normalizeEntityType (Some s)) (tm_applicableEntityTypes t))
     in configured = [] \<or> ''all'' \<in> set configured \<or> normalizeEntityType entityType \<in> set configured)"

definition loadTemplates :: "obligation_template list \<Rightarrow> string \<Rightarrow> string list \<Rightarrow> bool \<Rightarrow> obligation_template list" where
  "loadTemplates ts firmId templateIds includeInactive =
    stable_sort (\<lambda>a b. \<not> str_less (tm_name b) (tm_name a))
      (filter (\<lambda>t. tm_firmId t = firmId \<and> (includeInactive \<or> tm_isActive t) \<and> (templateIds = [] \<or> tm_id t \<in> set templateIds)) ts)"

definition loadClientsForGeneration :: "compliance_client list \<Rightarrow> string \<Rightarrow> string list \<Rightarrow> compliance_client list" where
  "loadClientsForGeneration cs firmId clientIds =
    filter (\<lambda>c. kc_firmId c = firmId \<and> kc_status c \<noteq> Some ''inactive'' \<and> \<not> kc_isInternal c
                \<and> (clientIds = [] \<or> kc_clientId c \<in> set clientIds)) cs"

record fallback_category =
  fb_categoryId :: string
  fb_subcategoryId :: string
  fb_categoryName :: string
  fb_subcategoryName :: string

definition resolveFallbackCategoryConfig :: "category_doc list \<Rightarrow> string \<Rightarrow> fallback_category option" where
  "resolveFallbackCategoryConfig cs firmId =
    (case find (\<lambda>c. cd_firmId c = firmId \<and> cd_isActive c) cs of
       None \<Rightarrow> None
     | Some c \<Rightarrow>
        (case find (\<lambda>s. sd_isActive s \<noteq> Some False) (cd_subcategories c) of
           None \<Rightarrow> None
         | Some s \<Rightarrow>
            if \<not> truthy (sd_id s) then None
            else Some \<lparr>fb_categoryId = cd_id c, fb_subcategoryId = str_or_empty (sd_id s),
                       fb_categoryName = str_or_empty (js_or (cd_name c) (Some ''Compliance'')),
                       fb_subcategoryName = str_or_empty (js_or (sd_name s) (Some ''Compliance Obligation''))\<rparr>))"

subsection \<open>Candidates\<close>

record candidate =
  ca_template :: obligation_template
  ca_client :: compliance_client
  ca_periodStart :: int
  ca_periodLabel :: string
  ca_statutoryDueDate :: int
  ca_internalDueDate :: int
  ca_idempotencyKey :: string

definition obligation_key :: "compliance_client \<Rightarrow> obligation_template \<Rightarrow> int \<Rightarrow> string" where
  "obligation_key c t periodStart =
    ''compliance:'' @ kc_clientId c @ '':'' @ js_lower (str_or_empty (js_or (tm_obligationType t) (Some ''OTHER'')))
      @ '':'' @ periodKeyFromStart periodStart"

definition candidate_of :: "obligation_template \<Rightarrow> compliance_client \<Rightarrow> int \<times> int \<Rightarrow> candidate" where
  "candidate_of t c period =
    (case period of (periodStart, periodEnd) \<Rightarrow>
       (let due = computeStatutoryDueDate (tm_dueDateRule t) periodEnd
        in \<lparr>ca_template = t, ca_client = c, ca_periodStart = periodStart,
            ca_periodLabel = buildObligationPeriodLabel (tm_recurrence t) periodStart, ca_statutoryDueDate = due,
            ca_internalDueDate = computeInternalDueDate due (tm_internalBufferDays t),
            ca_idempotencyKey = obligation_key c t periodStart\<rparr>))"

definition buildGenerationCandidates ::
  "obligation_template list \<Rightarrow> compliance_client list \<Rightarrow> int \<Rightarrow> int \<Rightarrow> candidate list" where
  "buildGenerationCandidates ts cs rangeStart rangeEnd =
    concat (map (\<lambda>t. let periods = expandRecurringPeriods (tm_recurrence t) rangeStart rangeEnd
                     in concat (map (\<lambda>c. if isTemplateApplicableToEntityType t (kc_entityType c)
                                          then map (candidate_of t c) periods else []) cs)) ts)"

subsection \<open>The docket of a candidate\<close>

record checklist_entry =
  ce_title :: string
  ce_description :: string
  ce_required :: bool
  ce_dueDate :: int
  ce_status :: string
  ce_sortOrder :: rat

definition buildChecklistSnapshot :: "template_item list \<Rightarrow> int \<Rightarrow> checklist_entry list" where
  "buildChecklistSnapshot checklist internalDueDate =
    (let items = filter (\<lambda>i. js_trim (str_or_empty (ti_title i)) \<noteq> []) checklist
     in map (\<lambda>(idx, i).
          \<lparr>ce_title = take 200 (js_trim (str_or_empty (ti_title i))),
           ce_description = take 1000 (js_trim (str_or_empty (ti_description i))), ce_required = ti_required i,
           ce_dueDate = addUtcDays internalDueDate (case ti_dueOffsetDays i of Some q \<Rightarrow> q | None \<Rightarrow> 0),
           ce_status = ''requested'', ce_sortOrder = (case ti_sortOrder i of Some q \<Rightarrow> q | None \<Rightarrow> of_nat idx)\<rparr>)
        (zip [0..<length items] items))"

definition one_of :: "string list \<Rightarrow> string option \<Rightarrow> string \<Rightarrow> string" where
  "one_of allowed v dflt =
    (let s = str_or_empty (js_or v (Some dflt)) in if s \<in> set allowed then (case v of Some x \<Rightarrow> x | None \<Rightarrow> ''undefined'') else dflt)"

record sop_snapshot =
  ss_title :: string
  ss_body :: string
  ss_format :: string
  ss_links :: "(string \<times> string \<times> string \<times> string \<times> rat) list"
  ss_subcategoryId :: string

definition buildSopSnapshot :: "sop_template \<Rightarrow> string \<Rightarrow> sop_snapshot" where
  "buildSopSnapshot s subcategoryId =
    \<lparr>ss_title = js_trim (str_or_empty (so_title s)), ss_body = js_trim (str_or_empty (so_body s)),
     ss_format = one_of [''plain_text'', ''markdown''] (so_format s) ''markdown'',
     ss_links = filter (\<lambda>(title, url, r). title \<noteq> [] \<and> url \<noteq> [])
       (map (\<lambda>(idx, l). (js_trim (str_or_empty (lk_title l)), js_trim (str_or_empty (lk_url l)), js_trim (str_or_empty (lk_description l)),
               one_of [''portal'', ''reference'', ''template'', ''internal'', ''other''] (lk_type l) ''reference'',
               case lk_sortOrder l of Some q \<Rightarrow> q | None \<Rightarrow> of_nat idx))
         (zip [0..<length (so_links s)] (so_links s))),
     ss_subcategoryId = subcategoryId\<rparr>"

record compliance_docket =
  kd_firmId :: string
  kd_idempotencyKey :: "string option"
  kd_title :: string
  kd_description :: string
  kd_categoryId :: string
  kd_subcategoryId :: string
  kd_category :: string
  kd_subcategory :: string
  kd_clientId :: string
  kd_status :: string
  kd_dueDate :: int
  kd_slaDueAt :: int
  kd_compliance_state :: string
  kd_obligation_type :: "string option"
  kd_obligation_period :: string
  kd_reviewer_xid :: "string option"
  kd_approver_xid :: "string option"
  kd_assignedToXID :: "string option"
  kd_queueType :: string
  kd_createdByXID :: string
  kd_createdBy :: "string option"
  kd_checklist :: "checklist_entry list"
  kd_sop :: sop_snapshot
  kd_expectedMinutes :: rat
  kd_estimatedBudget :: rat

record generation_actor =
  ga_xID :: "string option"
  ga_xid :: "string option"
  ga_email :: "string option"

definition OBLIGATION_TYPE_LABEL :: "(string \<times> string) list" where
  "OBLIGATION_TYPE_LABEL = [(''GST'', ''GST''), (''TDS'', ''TDS''), (''ROC'', ''ROC''), (''ANNUAL_FILING'', ''Annual Filing''), (''OTHER'', ''Other'')]"

text \<open>The category and subcategory of a candidate, from the template or the fallback: identifiers and names.\<close>

definition candidate_category :: "fallback_category option \<Rightarrow> obligation_template \<Rightarrow> string option \<times> string option" where
  "candidate_category fb t = (js_or (tm_categoryId t) (map_option fb_categoryId fb), js_or (tm_subcategoryId t) (map_option fb_subcategoryId fb))"

definition category_names :: "fallback_category option \<Rightarrow> obligation_template \<Rightarrow> string \<times> string" where
  "category_names fb t =
    (case fb of
       Some f \<Rightarrow> (fb_categoryName f, fb_subcategoryName f)
     | None \<Rightarrow>
        (str_or_empty (js_or (Option.bind (tm_obligationType t) (map_of OBLIGATION_TYPE_LABEL)) (Some ''Compliance'')) @ '' Docket'',
         if tm_name t \<noteq> [] then tm_name t else ''Compliance Obligation''))"

definition docket_of :: "fallback_category option \<Rightarrow> generation_actor \<Rightarrow> string \<Rightarrow> candidate \<Rightarrow> compliance_docket" where
  "docket_of fb actor firmId c =
    (let t = ca_template c; cl = ca_client c; ids = candidate_category fb t; names = category_names fb t
     in \<lparr>kd_firmId = firmId, kd_idempotencyKey = Some (ca_idempotencyKey c),
         kd_title = tm_name t @ [CHR '' '', CHR 0xB7, CHR '' ''] @ ca_periodLabel c,
         kd_description = tm_name t @ '' for '' @ str_or_empty (js_or (kc_businessName cl) (Some (kc_clientId cl))) @ '' ('' @ ca_periodLabel c @ '')'',
         kd_categoryId = str_or_empty (fst ids), kd_subcategoryId = str_or_empty (snd ids), kd_category = fst names, kd_subcategory = snd names,
         kd_clientId = kc_clientId cl, kd_status = ''OPEN'', kd_dueDate = ca_statutoryDueDate c, kd_slaDueAt = ca_internalDueDate c,
         kd_compliance_state = ''NOT_STARTED'', kd_obligation_type = tm_obligationType t, kd_obligation_period = ca_periodLabel c,
         kd_reviewer_xid = js_or (tm_reviewer t) None, kd_approver_xid = js_or (tm_approver t) None,
         kd_assignedToXID = js_or (tm_assignee t) None, kd_queueType = (if truthy (tm_assignee t) then ''PERSONAL'' else ''GLOBAL''),
         kd_createdByXID = js_upper (str_or_empty (js_or (ga_xID actor) (js_or (ga_xid actor) (Some ''SYSTEM'')))),
         kd_createdBy = js_or (Some (js_lower (str_or_empty (ga_email actor)))) None,
         kd_checklist = buildChecklistSnapshot (tm_checklist t) (ca_internalDueDate c),
         kd_sop = buildSopSnapshot (tm_sop t) (str_or_empty (snd ids)),
         kd_expectedMinutes = tm_expectedMinutes t, kd_estimatedBudget = tm_estimatedBudget t\<rparr>)"

subsection \<open>Saving and generating\<close>

text \<open>An error of a save: whether its code is 11000, and its message.\<close>

definition stored_key :: "string \<Rightarrow> string" where
  "stored_key k = js_lower (js_trim k)"

definition save_docket ::
  "(compliance_docket \<Rightarrow> (bool \<times> string) option) \<Rightarrow> compliance_docket \<Rightarrow> compliance_docket list \<Rightarrow> (bool \<times> string) + compliance_docket list" where
  "save_docket save_error d ds =
    (let d1 = d\<lparr>kd_idempotencyKey := map_option stored_key (kd_idempotencyKey d)\<rparr>
     in case save_error d1 of
          Some e \<Rightarrow> Inl e
        | None \<Rightarrow>
           if kd_idempotencyKey d1 \<noteq> None \<and> list_ex (\<lambda>x. kd_firmId x = kd_firmId d1 \<and> kd_idempotencyKey x = kd_idempotencyKey d1) ds
           then Inl (True, ''E11000 duplicate key error: firmId_1_idempotencyKey_1'')
           else Inr (ds @ [d1]))"

datatype item_status = Failed string | Skipped_duplicate string | Ready_to_generate int int | Generated

record generation_summary =
  gs_totalCandidates :: nat
  gs_generated :: nat
  gs_skippedDuplicate :: nat
  gs_failed :: nat

record generation_run =
  gr_keys :: "string list"
  gr_summary :: generation_summary
  gr_items :: "(candidate \<times> item_status) list"
  gr_dockets :: "compliance_docket list"

definition add_item :: "candidate \<Rightarrow> item_status \<Rightarrow> (generation_summary \<Rightarrow> generation_summary) \<Rightarrow> generation_run \<Rightarrow> generation_run" where
  "add_item c s f r = r\<lparr>gr_items := gr_items r @ [(c, s)], gr_summary := f (gr_summary r)\<rparr>"

text \<open>One turn of the loop over the candidates.\<close>

definition generate_one ::
  "(compliance_docket \<Rightarrow> (bool \<times> string) option) \<Rightarrow> fallback_category option \<Rightarrow> generation_actor \<Rightarrow> string \<Rightarrow> bool \<Rightarrow> candidate
   \<Rightarrow> generation_run \<Rightarrow> generation_run" where
  "generate_one save_error fb actor firmId execute c r =
    (case candidate_category fb (ca_template c) of (cat, sub) \<Rightarrow>
       if \<not> truthy cat \<or> \<not> truthy sub
       then add_item c (Failed ''Template category/subcategory mapping is missing'') (\<lambda>s. s\<lparr>gs_failed := gs_failed s + 1\<rparr>) r
       else if ca_idempotencyKey c \<in> set (gr_keys r)
       then add_item c (Skipped_duplicate ''Existing docket found for this entity/obligation/period'')
              (\<lambda>s. s\<lparr>gs_skippedDuplicate := gs_skippedDuplicate s + 1\<rparr>) r
       else if \<not> execute then add_item c (Ready_to_generate (ca_statutoryDueDate c) (ca_internalDueDate c)) id r
       else (case save_docket save_error (docket_of fb actor firmId c) (gr_dockets r) of
               Inr ds \<Rightarrow> add_item c Generated (\<lambda>s. s\<lparr>gs_generated := gs_generated s + 1\<rparr>)
                  (r\<lparr>gr_dockets := ds, gr_keys := ca_idempotencyKey c # gr_keys r\<rparr>)
             | Inl (code11000, message) \<Rightarrow>
                if code11000 \<or> js_includes ''idempotencyKey'' message
                then add_item c (Skipped_duplicate ''Duplicate prevented by idempotency key'') (\<lambda>s. s\<lparr>gs_skippedDuplicate := gs_skippedDuplicate s + 1\<rparr>) r
                else add_item c (Failed (if message \<noteq> [] then message else ''Failed to generate docket'')) (\<lambda>s. s\<lparr>gs_failed := gs_failed s + 1\<rparr>) r))"

definition is_failed :: "item_status \<Rightarrow> bool" where
  "is_failed s = (case s of Failed m \<Rightarrow> True | _ \<Rightarrow> False)"

definition is_skipped :: "item_status \<Rightarrow> bool" where
  "is_skipped s = (case s of Skipped_duplicate m \<Rightarrow> True | _ \<Rightarrow> False)"

record generation_db =
  gd_templates :: "obligation_template list"
  gd_clients :: "compliance_client list"
  gd_categories :: "category_doc list"
  gd_dockets :: "compliance_docket list"

text \<open>
  The keys found are the stored ones.  Whether the query is made with the keys as built or as the schema
  writes them is the argument \<open>cast\<close> (\<open>id\<close> or \<open>stored_key\<close>): how Mongoose casts a query.
\<close>

definition existing_keys :: "(string \<Rightarrow> string) \<Rightarrow> string \<Rightarrow> candidate list \<Rightarrow> compliance_docket list \<Rightarrow> string list" where
  "existing_keys cast firmId cs ds =
    (if cs = [] then []
     else map (\<lambda>d. str_or_empty (kd_idempotencyKey d))
            (filter (\<lambda>d. kd_firmId d = firmId \<and> (case kd_idempotencyKey d of None \<Rightarrow> False | Some k \<Rightarrow> k \<in> cast ` ca_idempotencyKey ` set cs)) ds))"

definition generation_candidates :: "string \<Rightarrow> int \<Rightarrow> int \<Rightarrow> string list \<Rightarrow> string list \<Rightarrow> generation_db \<Rightarrow> candidate list" where
  "generation_candidates firmId start stop templateIds clientIds db =
    buildGenerationCandidates (loadTemplates (gd_templates db) firmId templateIds False)
      (loadClientsForGeneration (gd_clients db) firmId clientIds) start stop"

definition previewOrGenerate ::
  "(compliance_docket \<Rightarrow> (bool \<times> string) option) \<Rightarrow> (string \<Rightarrow> string) \<Rightarrow> string \<Rightarrow> generation_actor \<Rightarrow> date_input \<Rightarrow> date_input
   \<Rightarrow> string list \<Rightarrow> string list \<Rightarrow> bool \<Rightarrow> generation_db \<Rightarrow> (generation_db \<times> generation_summary \<times> (candidate \<times> item_status) list) res" where
  "previewOrGenerate save_error cast firmId actor rangeStart rangeEnd templateIds clientIds execute db =
    (case (rangeStart, rangeEnd) of
       (At start, At stop) \<Rightarrow>
         if start > stop then Inl (Thrown ''rangeStart cannot be after rangeEnd'' None None)
         else (let candidates = generation_candidates firmId start stop templateIds clientIds db;
                   fb = resolveFallbackCategoryConfig (gd_categories db) firmId;
                   r = fold (generate_one save_error fb actor firmId execute) candidates
                         \<lparr>gr_keys = existing_keys cast firmId candidates (gd_dockets db),
                          gr_summary = \<lparr>gs_totalCandidates = length candidates, gs_generated = 0, gs_skippedDuplicate = 0, gs_failed = 0\<rparr>,
                          gr_items = [], gr_dockets = gd_dockets db\<rparr>;
                   s = (if execute then gr_summary r
                        else (gr_summary r)\<lparr>gs_generated := 0, gs_failed := length (filter (\<lambda>(c, s). is_failed s) (gr_items r)),
                               gs_skippedDuplicate := length (filter (\<lambda>(c, s). is_skipped s) (gr_items r))\<rparr>)
               in Inr (db\<lparr>gd_dockets := gr_dockets r\<rparr>, s, gr_items r))
     | _ \<Rightarrow> Inl (Thrown ''Valid rangeStart and rangeEnd are required'' None None))"

subsection \<open>Sample templates\<close>

text \<open>The limits of the schema (\<open>models/ComplianceObligationTemplate.model.js\<close>); a value that is not set is not checked.\<close>

definition in_range :: "rat \<Rightarrow> rat \<Rightarrow> rat option \<Rightarrow> bool" where
  "in_range lo hi v \<longleftrightarrow> (case v of None \<Rightarrow> True | Some q \<Rightarrow> lo \<le> q \<and> q \<le> hi)"

definition enum_ok :: "string list \<Rightarrow> string option \<Rightarrow> bool" where
  "enum_ok allowed v \<longleftrightarrow> (case v of None \<Rightarrow> True | Some s \<Rightarrow> s \<in> set allowed)"

definition valid_item :: "template_item \<Rightarrow> bool" where
  "valid_item i \<longleftrightarrow> js_trim (str_or_empty (ti_title i)) \<noteq> [] \<and> length (js_trim (str_or_empty (ti_title i))) \<le> 200
     \<and> length (js_trim (str_or_empty (ti_description i))) \<le> 1000 \<and> in_range (- 120) 120 (ti_dueOffsetDays i)
     \<and> (case ti_sortOrder i of None \<Rightarrow> True | Some q \<Rightarrow> 0 \<le> q)"

definition valid_template :: "obligation_template \<Rightarrow> bool" where
  "valid_template t \<longleftrightarrow>
     tm_firmId t \<noteq> [] \<and> js_trim (tm_name t) \<noteq> [] \<and> length (js_trim (tm_name t)) \<le> 180
     \<and> enum_ok [''GST'', ''TDS'', ''ROC'', ''ANNUAL_FILING'', ''OTHER''] (tm_obligationType t)
     \<and> enum_ok [''monthly'', ''quarterly'', ''yearly''] (rc_frequency (tm_recurrence t))
     \<and> in_range 1 12 (rc_interval (tm_recurrence t)) \<and> in_range 1 12 (rc_startMonth (tm_recurrence t))
     \<and> enum_ok [''day_of_next_month'', ''day_of_month_after_period'', ''fixed_day_month''] (du_mode (tm_dueDateRule t))
     \<and> in_range 1 28 (du_dayOfMonth (tm_dueDateRule t)) \<and> in_range 0 24 (du_monthOffset (tm_dueDateRule t))
     \<and> in_range 1 12 (du_fixedMonth (tm_dueDateRule t)) \<and> in_range 0 120 (tm_internalBufferDays t)
     \<and> list_all valid_item (tm_checklist t) \<and> 0 \<le> tm_expectedMinutes t \<and> 0 \<le> tm_estimatedBudget t"

definition base_checklist :: "template_item list" where
  "base_checklist =
    [\<lparr>ti_title = Some ''Collect supporting documents'', ti_description = Some ''Ask client for source documents and reconciliations'',
      ti_required = True, ti_dueOffsetDays = Some (- 2), ti_sortOrder = Some 0\<rparr>,
     \<lparr>ti_title = Some ''Perform internal review'', ti_description = Some ''Validate completeness before submission'',
      ti_required = True, ti_dueOffsetDays = Some (- 1), ti_sortOrder = Some 1\<rparr>]"

definition sample_template ::
  "string \<Rightarrow> fallback_category option \<Rightarrow> string \<Rightarrow> string \<Rightarrow> string list \<Rightarrow> string \<times> rat \<Rightarrow> string \<times> rat \<times> rat option \<times> rat option \<Rightarrow> rat
   \<Rightarrow> string \<Rightarrow> string \<Rightarrow> obligation_template" where
  "sample_template firmId fb name obligationType entityTypes pattern rule buffer sopTitle sopBody =
    (case (pattern, rule) of ((frequency, startMonth), (mode, dayOfMonth, monthOffset, fixedMonth)) \<Rightarrow>
      \<lparr>tm_id = name, tm_firmId = firmId, tm_name = name, tm_obligationType = Some obligationType, tm_applicableEntityTypes = entityTypes,
       tm_recurrence = \<lparr>rc_frequency = Some frequency, rc_interval = Some 1, rc_startMonth = Some startMonth\<rparr>,
       tm_dueDateRule = \<lparr>du_mode = Some mode, du_dayOfMonth = Some dayOfMonth, du_monthOffset = monthOffset, du_fixedMonth = fixedMonth\<rparr>,
       tm_internalBufferDays = Some buffer, tm_checklist = base_checklist,
       tm_sop = \<lparr>so_title = Some sopTitle, so_body = Some sopBody, so_format = Some ''markdown'', so_links = []\<rparr>,
       tm_assignee = None, tm_reviewer = None, tm_approver = None,
       tm_categoryId = map_option fb_categoryId fb, tm_subcategoryId = map_option fb_subcategoryId fb,
       tm_isActive = True, tm_isSample = True, tm_expectedMinutes = 0, tm_estimatedBudget = 0\<rparr>)"

definition sampleTemplates :: "string \<Rightarrow> fallback_category option \<Rightarrow> obligation_template list" where
  "sampleTemplates firmId fb =
    [sample_template firmId fb ''Sample GST Monthly Return (Configurable)'' ''GST'' [''private limited company'', ''llp'', ''proprietorship'']
       (''monthly'', 1) (''day_of_next_month'', 20, Some 1, None) 3 ''GST monthly return SOP''
       ''Validate books and reconcile sales/purchase data before filing.'',
     sample_template firmId fb ''Sample TDS Quarterly Return (Configurable)'' ''TDS'' [''private limited company'', ''llp'', ''partnership'']
       (''quarterly'', 1) (''day_of_month_after_period'', 31, Some 1, None) 5 ''TDS quarterly return SOP''
       ''Validate challans and deductee details before upload.'',
     sample_template firmId fb ''Sample ROC Annual Filing (Configurable)'' ''ANNUAL_FILING'' [''private limited company'', ''public limited company'']
       (''yearly'', 4) (''fixed_day_month'', 30, None, Some 10) 10 ''ROC annual filing SOP''
       ''Collect board approvals and audited financials before filing.'']"

text \<open>
  An ordered \<open>insertMany\<close> validates all documents first and inserts none when one is invalid; a duplicate name of the firm
  stops it at that document.
\<close>

definition seedSampleTemplates :: "string \<Rightarrow> generation_db \<Rightarrow> generation_db \<times> (nat \<times> nat) res" where
  "seedSampleTemplates firmId db =
    (if list_ex (\<lambda>t. tm_firmId t = firmId \<and> tm_isSample t) (gd_templates db) then (db, Inr (0, 1))
     else (let payload = sampleTemplates firmId (resolveFallbackCategoryConfig (gd_categories db) firmId);
               fresh = takeWhile (\<lambda>t. \<not> list_ex (\<lambda>x. tm_firmId x = firmId \<and> tm_name x = tm_name t) (gd_templates db)) payload
           in if \<not> list_all valid_template payload then (db, Inl (Thrown ''ComplianceObligationTemplate validation failed'' None None))
              else (db\<lparr>gd_templates := gd_templates db @ fresh\<rparr>,
                    if length fresh = length payload then Inr (length payload, 0) else Inl (Thrown ''E11000 duplicate key error'' None None))))"

end
