(* ===== verification/ComplianceProperties.thy ===== *)
theory ComplianceProperties
  imports ComplianceGeneration RecurrenceProperties
begin

section \<open>Properties of generated obligations\<close>

text \<open>
  One docket per firm and key as an invariant, what a run adds and counts, repetition, what a preview
  misses, and the sample templates.
\<close>

definition keyed :: "compliance_docket \<Rightarrow> string \<times> string option" where
  "keyed d = (kd_firmId d, kd_idempotencyKey d)"

definition one_per_key :: "compliance_docket list \<Rightarrow> bool" where
  "one_per_key ds \<longleftrightarrow> distinct (map keyed (filter (\<lambda>d. kd_idempotencyKey d \<noteq> None) ds))"

definition keys_stored :: "compliance_docket list \<Rightarrow> bool" where
  "keys_stored ds \<longleftrightarrow> (\<forall>d\<in>set ds. \<forall>k. kd_idempotencyKey d = Some k \<longrightarrow> stored_key k = k)"

definition has_docket :: "string \<Rightarrow> string \<Rightarrow> compliance_docket list \<Rightarrow> bool" where
  "has_docket firmId k ds \<longleftrightarrow> (\<exists>d\<in>set ds. kd_firmId d = firmId \<and> kd_idempotencyKey d = Some k)"

definition generated_keys :: "(candidate \<times> item_status) list \<Rightarrow> string list" where
  "generated_keys items = map (\<lambda>(c, s). stored_key (ca_idempotencyKey c)) (filter (\<lambda>(c, s). s = Generated) items)"

lemma js_space_lower [simp]: "js_space (lower_char c) = js_space c"
  by (simp add: js_space_def lower_char_def Let_def)

lemma dropWhile_lower: "dropWhile js_space (map lower_char s) = map lower_char (dropWhile js_space s)"
  by (induction s) simp_all

lemma js_trim_lower: "js_trim (js_lower s) = js_lower (js_trim s)"
  by (simp add: js_trim_def js_lower_def dropWhile_lower rev_map)

lemma stored_key_idem [simp]: "stored_key (stored_key k) = stored_key k"
  by (simp add: stored_key_def js_trim_lower)

lemma docket_of_key [simp]:
  "kd_idempotencyKey (docket_of fb actor firmId c) = Some (ca_idempotencyKey c)" "kd_firmId (docket_of fb actor firmId c) = firmId"
  by (simp_all add: docket_of_def Let_def)

lemma save_docketD:
  assumes "save_docket e (docket_of fb actor firmId c) ds = Inr ds'"
  shows "\<exists>d. ds' = ds @ [d] \<and> kd_firmId d = firmId \<and> kd_idempotencyKey d = Some (stored_key (ca_idempotencyKey c))
    \<and> \<not> has_docket firmId (stored_key (ca_idempotencyKey c)) ds"
  using assms by (auto simp: save_docket_def Let_def has_docket_def list_ex_iff split: option.splits if_splits)

lemma save_docket_Inl:
  assumes "save_docket (\<lambda>d. None) (docket_of fb actor firmId c) ds = Inl e"
  shows "has_docket firmId (stored_key (ca_idempotencyKey c)) ds \<and> fst e"
  using assms by (auto simp: save_docket_def Let_def has_docket_def list_ex_iff split: if_splits)

lemma in_keyed: "(f, Some k) \<in> keyed ` {x \<in> set ds. kd_idempotencyKey x \<noteq> None} \<longleftrightarrow> has_docket f k ds"
proof -
  have "(f, Some k) = keyed x \<longleftrightarrow> kd_firmId x = f \<and> kd_idempotencyKey x = Some k" for x by (auto simp: keyed_def)
  then show ?thesis by (auto simp: has_docket_def image_iff)
qed

lemma one_per_key_snoc:
  "one_per_key (ds @ [d]) \<longleftrightarrow> one_per_key ds \<and> (\<forall>k. kd_idempotencyKey d = Some k \<longrightarrow> \<not> has_docket (kd_firmId d) k ds)"
proof (cases "kd_idempotencyKey d")
  case (Some k)
  then have "keyed d = (kd_firmId d, Some k)" by (simp add: keyed_def)
  then show ?thesis using Some in_keyed [of "kd_firmId d" k ds] by (simp add: one_per_key_def)
qed (simp add: one_per_key_def)

subsection \<open>One turn of the loop\<close>

lemma generate_one_cases:
  obtains (same) s f where "generate_one e fb actor firmId execute c r = add_item c s f r" "s \<noteq> Generated"
      "gs_totalCandidates (f (gr_summary r)) = gs_totalCandidates (gr_summary r)" "gs_generated (f (gr_summary r)) = gs_generated (gr_summary r)"
      "execute \<Longrightarrow> gs_skippedDuplicate (f (gr_summary r)) + gs_failed (f (gr_summary r))
         = Suc (gs_skippedDuplicate (gr_summary r) + gs_failed (gr_summary r))"
  | (new) d where "execute" "generate_one e fb actor firmId execute c r
        = add_item c Generated (\<lambda>s. s\<lparr>gs_generated := gs_generated s + 1\<rparr>) (r\<lparr>gr_dockets := gr_dockets r @ [d], gr_keys := ca_idempotencyKey c # gr_keys r\<rparr>)"
      "kd_firmId d = firmId" "kd_idempotencyKey d = Some (stored_key (ca_idempotencyKey c))"
      "\<not> has_docket firmId (stored_key (ca_idempotencyKey c)) (gr_dockets r)"
proof -
  obtain cat sub where cat: "candidate_category fb (ca_template c) = (cat, sub)" by (cases "candidate_category fb (ca_template c)")
  note unfold = generate_one_def cat
  show thesis
  proof (cases "\<not> truthy cat \<or> \<not> truthy sub")
    case True
    then show thesis
      by (intro same [of "Failed ''Template category/subcategory mapping is missing''" "\<lambda>s. s\<lparr>gs_failed := gs_failed s + 1\<rparr>"]) (simp_all add: unfold)
  next
    case ok: False
    show thesis
    proof (cases "ca_idempotencyKey c \<in> set (gr_keys r)")
      case True
      then show thesis using ok
        by (intro same [of "Skipped_duplicate ''Existing docket found for this entity/obligation/period''" "\<lambda>s. s\<lparr>gs_skippedDuplicate := gs_skippedDuplicate s + 1\<rparr>"])
          (simp_all add: unfold)
    next
      case fresh: False
      show thesis
      proof (cases execute)
        case False
        then show thesis using ok fresh
          by (intro same [of "Ready_to_generate (ca_statutoryDueDate c) (ca_internalDueDate c)" id]) (simp_all add: unfold)
      next
        case True
        show thesis
        proof (cases "save_docket e (docket_of fb actor firmId c) (gr_dockets r)")
          case (Inr ds)
          from save_docketD [OF this] show thesis using new True ok fresh Inr by (auto simp: unfold)
        next
          case (Inl x)
          obtain b m where x: "x = (b, m)" by (cases x)
          show thesis
          proof (cases "b \<or> js_includes ''idempotencyKey'' m")
            case True
            then show thesis using ok fresh \<open>execute\<close> Inl x
              by (intro same [of "Skipped_duplicate ''Duplicate prevented by idempotency key''" "\<lambda>s. s\<lparr>gs_skippedDuplicate := gs_skippedDuplicate s + 1\<rparr>"])
                (simp_all add: unfold)
          next
            case False
            then show thesis using ok fresh \<open>execute\<close> Inl x
              by (intro same [of "Failed (if m \<noteq> [] then m else ''Failed to generate docket'')" "\<lambda>s. s\<lparr>gs_failed := gs_failed s + 1\<rparr>"]) (simp_all add: unfold)
          qed
        qed
      qed
    qed
  qed
qed

subsection \<open>A whole run\<close>

definition run_ok :: "compliance_docket list \<Rightarrow> string \<Rightarrow> generation_run \<Rightarrow> bool" where
  "run_ok ds0 firmId r \<longleftrightarrow>
    (\<exists>new. gr_dockets r = ds0 @ new \<and> map kd_idempotencyKey new = map Some (generated_keys (gr_items r))
       \<and> length new = gs_generated (gr_summary r) \<and> (\<forall>d\<in>set new. kd_firmId d = firmId))
    \<and> (one_per_key ds0 \<longrightarrow> one_per_key (gr_dockets r))"

lemma add_item_simps [simp]:
  "gr_items (add_item c s f r) = gr_items r @ [(c, s)]" "gr_summary (add_item c s f r) = f (gr_summary r)"
  "gr_dockets (add_item c s f r) = gr_dockets r" "gr_keys (add_item c s f r) = gr_keys r"
  by (simp_all add: add_item_def)

lemma generated_keys_snoc [simp]:
  "generated_keys (items @ [(c, s)]) = generated_keys items @ (if s = Generated then [stored_key (ca_idempotencyKey c)] else [])"
  by (simp add: generated_keys_def)

lemma generate_one_ok: "run_ok ds0 firmId r \<Longrightarrow> run_ok ds0 firmId (generate_one e fb actor firmId execute c r)"
proof (cases rule: generate_one_cases [of e fb actor firmId execute c r])
  case (same s f)
  then show "run_ok ds0 firmId r \<Longrightarrow> ?thesis" by (simp add: run_ok_def)
next
  case (new d)
  assume ok: "run_ok ds0 firmId r"
  then obtain xs where xs: "gr_dockets r = ds0 @ xs" "map kd_idempotencyKey xs = map Some (generated_keys (gr_items r))"
    "length xs = gs_generated (gr_summary r)" "\<forall>x\<in>set xs. kd_firmId x = firmId"
    by (auto simp: run_ok_def)
  have "one_per_key ds0 \<longrightarrow> one_per_key (gr_dockets r @ [d])"
    using ok new by (simp add: run_ok_def one_per_key_snoc)
  then show ?thesis using xs new by (simp add: run_ok_def)
qed

definition counts :: "generation_summary \<Rightarrow> nat" where
  "counts s = gs_generated s + gs_skippedDuplicate s + gs_failed s"

lemma generate_one_counts:
  "gs_totalCandidates (gr_summary (generate_one e fb actor firmId execute c r)) = gs_totalCandidates (gr_summary r)
   \<and> length (gr_items (generate_one e fb actor firmId execute c r)) = Suc (length (gr_items r))
   \<and> (execute \<longrightarrow> counts (gr_summary (generate_one e fb actor firmId execute c r)) = Suc (counts (gr_summary r)))"
  by (cases rule: generate_one_cases [of e fb actor firmId execute c r]) (auto simp: counts_def)

lemma fold_counts:
  "gs_totalCandidates (gr_summary (fold (generate_one e fb actor firmId execute) cs r)) = gs_totalCandidates (gr_summary r)
   \<and> length (gr_items (fold (generate_one e fb actor firmId execute) cs r)) = length cs + length (gr_items r)
   \<and> (execute \<longrightarrow> counts (gr_summary (fold (generate_one e fb actor firmId execute) cs r)) = length cs + counts (gr_summary r))"
proof (induction cs arbitrary: r)
  case (Cons c cs)
  then show ?case using generate_one_counts [of e fb actor firmId execute c r] by simp
qed simp

definition start_run :: "(string \<Rightarrow> string) \<Rightarrow> string \<Rightarrow> candidate list \<Rightarrow> generation_db \<Rightarrow> generation_run" where
  "start_run cast firmId cs db =
    \<lparr>gr_keys = existing_keys cast firmId cs (gd_dockets db),
     gr_summary = \<lparr>gs_totalCandidates = length cs, gs_generated = 0, gs_skippedDuplicate = 0, gs_failed = 0\<rparr>,
     gr_items = [], gr_dockets = gd_dockets db\<rparr>"

lemma start_run_simps [simp]:
  "gr_items (start_run cast firmId cs db) = []" "gr_dockets (start_run cast firmId cs db) = gd_dockets db"
  "gr_keys (start_run cast firmId cs db) = existing_keys cast firmId cs (gd_dockets db)"
  "gs_totalCandidates (gr_summary (start_run cast firmId cs db)) = length cs" "gs_generated (gr_summary (start_run cast firmId cs db)) = 0"
  "counts (gr_summary (start_run cast firmId cs db)) = 0"
  by (simp_all add: start_run_def counts_def)

definition finished_run ::
  "(compliance_docket \<Rightarrow> (bool \<times> string) option) \<Rightarrow> (string \<Rightarrow> string) \<Rightarrow> string \<Rightarrow> generation_actor \<Rightarrow> candidate list \<Rightarrow> bool \<Rightarrow> generation_db \<Rightarrow> generation_run" where
  "finished_run e cast firmId actor cs execute db =
    fold (generate_one e (resolveFallbackCategoryConfig (gd_categories db) firmId) actor firmId execute) cs (start_run cast firmId cs db)"

lemma previewOrGenerateD:
  assumes "previewOrGenerate e cast firmId actor rs re ti ci execute db = Inr (db', s, items)"
  shows "\<exists>a b. rs = At a \<and> re = At b \<and>
    (let r = finished_run e cast firmId actor (generation_candidates firmId a b ti ci db) execute db
     in db' = db\<lparr>gd_dockets := gr_dockets r\<rparr> \<and> items = gr_items r
        \<and> gs_totalCandidates s = gs_totalCandidates (gr_summary r)
        \<and> (if execute then s = gr_summary r
           else gs_generated s = 0 \<and> gs_skippedDuplicate s = length (filter (\<lambda>(c, s). is_skipped s) (gr_items r))))"
proof -
  obtain a b where ab: "rs = At a" "re = At b" "a \<le> b"
    using assms by (auto simp: previewOrGenerate_def split: date_input.splits if_splits)
  show ?thesis using assms ab by (auto simp: previewOrGenerate_def finished_run_def start_run_def Let_def)
qed

lemma run_ok_fold: "run_ok ds0 firmId r \<Longrightarrow> run_ok ds0 firmId (fold (generate_one e fb actor firmId execute) cs r)"
  by (induction cs arbitrary: r) (simp_all add: generate_one_ok)

lemma preview_dockets:
  "gr_dockets (fold (generate_one e fb actor firmId False) cs r) = gr_dockets r"
proof (induction cs arbitrary: r)
  case (Cons c cs)
  have "gr_dockets (generate_one e fb actor firmId False c r) = gr_dockets r"
    by (cases rule: generate_one_cases [of e fb actor firmId False c r]) simp_all
  then show ?case using Cons by simp
qed simp

text \<open>
  C38. A run over any templates, clients and range, whatever else may stop a save.  If every firm has at most
  one docket per obligation key, that stays so; the dockets added are those of the items reported as
  generated, in their order, and no key is generated twice; each candidate is counted exactly once; a
  preview changes nothing.
\<close>

theorem obligation_once:
  assumes "one_per_key (gd_dockets db)"
    and "previewOrGenerate save_error cast firmId actor rangeStart rangeEnd templateIds clientIds execute db = Inr (db', s, items)"
  shows "one_per_key (gd_dockets db')
    \<and> (\<exists>new. gd_dockets db' = gd_dockets db @ new \<and> map kd_idempotencyKey new = map Some (generated_keys items)
         \<and> (\<forall>d\<in>set new. kd_firmId d = firmId) \<and> distinct (generated_keys items))
    \<and> length items = gs_totalCandidates s
    \<and> (if execute then gs_generated s = length (generated_keys items) \<and> gs_generated s + gs_skippedDuplicate s + gs_failed s = gs_totalCandidates s
       else db' = db)"
proof -
  obtain a b where run: "let r = finished_run save_error cast firmId actor (generation_candidates firmId a b templateIds clientIds db) execute db
     in db' = db\<lparr>gd_dockets := gr_dockets r\<rparr> \<and> items = gr_items r \<and> gs_totalCandidates s = gs_totalCandidates (gr_summary r)
        \<and> (if execute then s = gr_summary r
           else gs_generated s = 0 \<and> gs_skippedDuplicate s = length (filter (\<lambda>(c, s). is_skipped s) (gr_items r)))"
    using previewOrGenerateD [OF assms(2)] by blast
  let ?cs = "generation_candidates firmId a b templateIds clientIds db"
  define r where "r = finished_run save_error cast firmId actor ?cs execute db"
  have db': "db' = db\<lparr>gd_dockets := gr_dockets r\<rparr>" and items: "items = gr_items r"
    and s: "gs_totalCandidates s = gs_totalCandidates (gr_summary r)" "execute \<Longrightarrow> s = gr_summary r"
    using run unfolding Let_def r_def [symmetric] by (simp_all only: if_True)
  have ok: "run_ok (gd_dockets db) firmId r" unfolding r_def finished_run_def by (rule run_ok_fold) (simp add: run_ok_def generated_keys_def)
  then obtain new where new: "gr_dockets r = gd_dockets db @ new" "map kd_idempotencyKey new = map Some (generated_keys items)"
    "length new = gs_generated (gr_summary r)" "\<forall>d\<in>set new. kd_firmId d = firmId" by (auto simp: run_ok_def items)
  have one: "one_per_key (gr_dockets r)" using ok assms(1) by (simp add: run_ok_def)
  have "kd_idempotencyKey ` set new = Some ` set (generated_keys items)" using arg_cong [OF new(2), of set] by (simp only: set_map)
  then have some: "\<forall>d\<in>set new. kd_idempotencyKey d \<noteq> None" by (metis imageE imageI option.distinct(1))
  then have "filter (\<lambda>d. kd_idempotencyKey d \<noteq> None) new = new" by (rule filter_True)
  then have "distinct (map keyed new)" using one new(1) unfolding one_per_key_def by simp
  moreover have "map keyed new = map (Pair firmId) (map kd_idempotencyKey new)" using new(4) by (simp add: keyed_def)
  ultimately have "distinct (map (Pair firmId) (map Some (generated_keys items)))" using new(2) by simp
  then have keys: "distinct (generated_keys items)" by (simp only: distinct_map)
  have n: "length new = length (generated_keys items)" using new(2) by (metis length_map)
  note counted = fold_counts [of save_error "resolveFallbackCategoryConfig (gd_categories db) firmId" actor firmId execute ?cs "start_run cast firmId ?cs db",
      folded finished_run_def, folded r_def]
  have "execute \<Longrightarrow> gs_generated s + gs_skippedDuplicate s + gs_failed s = gs_totalCandidates s"
  proof -
    assume execute
    then have "counts (gr_summary r) = gs_totalCandidates s" using counted s(1) by simp
    then show ?thesis using s(2) [OF \<open>execute\<close>] by (simp add: counts_def)
  qed
  moreover have "\<not> execute \<Longrightarrow> db' = db" by (simp add: db' r_def finished_run_def preview_dockets)
  moreover have "length items = gs_totalCandidates s" using counted s by (simp add: items)
  moreover have "gd_dockets db' = gd_dockets db @ new" using new(1) by (simp add: db')
  ultimately show ?thesis using one new(2-4) n keys s(2) assms(1) by (cases execute) (simp_all add: db')
qed

subsection \<open>Repetition\<close>

text \<open>What is known of a candidate in a collection: it cannot be generated, or its docket is there.\<close>

definition unmapped :: "fallback_category option \<Rightarrow> candidate \<Rightarrow> bool" where
  "unmapped fb c \<longleftrightarrow> \<not> truthy (fst (candidate_category fb (ca_template c))) \<or> \<not> truthy (snd (candidate_category fb (ca_template c)))"

definition settled :: "fallback_category option \<Rightarrow> string \<Rightarrow> compliance_docket list \<Rightarrow> candidate \<Rightarrow> bool" where
  "settled fb firmId ds c \<longleftrightarrow> unmapped fb c \<or> has_docket firmId (stored_key (ca_idempotencyKey c)) ds"

definition keys_known :: "string \<Rightarrow> generation_run \<Rightarrow> bool" where
  "keys_known firmId r \<longleftrightarrow> (\<forall>k\<in>set (gr_keys r). has_docket firmId (stored_key k) (gr_dockets r))"

lemma has_docket_append [simp]: "has_docket f k (ds @ ds') \<longleftrightarrow> has_docket f k ds \<or> has_docket f k ds'"
  by (auto simp: has_docket_def)

lemma settled_append: "settled fb f ds c \<Longrightarrow> settled fb f (ds @ ds') c"
  by (auto simp: settled_def)

lemma generate_one_unmapped: "unmapped fb c \<Longrightarrow> gr_dockets (generate_one e fb actor firmId execute c r) = gr_dockets r"
  by (cases "candidate_category fb (ca_template c)") (simp add: generate_one_def unmapped_def)

lemma generate_one_settles:
  assumes "keys_known firmId r"
  shows "keys_known firmId (generate_one (\<lambda>d. None) fb actor firmId True c r)
    \<and> settled fb firmId (gr_dockets (generate_one (\<lambda>d. None) fb actor firmId True c r)) c"
proof (cases rule: generate_one_cases [of "\<lambda>d. None" fb actor firmId True c r])
  case (same s f)
  have "settled fb firmId (gr_dockets r) c"
  proof (cases "unmapped fb c \<or> ca_idempotencyKey c \<in> set (gr_keys r)")
    case True
    then show ?thesis using assms by (auto simp: settled_def keys_known_def)
  next
    case False
    obtain cat sub where cat: "candidate_category fb (ca_template c) = (cat, sub)" by (cases "candidate_category fb (ca_template c)")
    show ?thesis
    proof (cases "save_docket (\<lambda>d. None) (docket_of fb actor firmId c) (gr_dockets r)")
      case (Inl x)
      from save_docket_Inl [OF this] show ?thesis by (simp add: settled_def)
    next
      case (Inr ds)
      then have "(c, Generated) \<in> set (gr_items (generate_one (\<lambda>d. None) fb actor firmId True c r))"
        using False cat by (simp add: generate_one_def unmapped_def)
      moreover have "length (gr_items (generate_one (\<lambda>d. None) fb actor firmId True c r)) = Suc (length (gr_items r))" using same(1) by simp
      moreover have "last (gr_items (generate_one (\<lambda>d. None) fb actor firmId True c r)) = (c, Generated)"
        using Inr False cat by (simp add: generate_one_def unmapped_def)
      ultimately show ?thesis using same(1,2) by simp
    qed
  qed
  then show ?thesis using assms same(1) by (simp add: keys_known_def)
next
  case (new d)
  then have "has_docket firmId (stored_key (ca_idempotencyKey c)) [d]" by (simp add: has_docket_def)
  then show ?thesis using assms new(2) by (auto simp: keys_known_def settled_def)
qed

lemma fold_append_dockets: "\<exists>new. gr_dockets (fold (generate_one e fb actor firmId execute) cs r) = gr_dockets r @ new"
proof (induction cs arbitrary: r)
  case (Cons c cs)
  have "\<exists>new. gr_dockets (generate_one e fb actor firmId execute c r) = gr_dockets r @ new"
    by (cases rule: generate_one_cases [of e fb actor firmId execute c r]) simp_all
  then show ?case using Cons [of "generate_one e fb actor firmId execute c r"] by fastforce
qed simp

lemma fold_settles:
  "keys_known firmId r \<Longrightarrow> \<forall>c\<in>set cs. settled fb firmId (gr_dockets (fold (generate_one (\<lambda>d. None) fb actor firmId True) cs r)) c"
proof (induction cs arbitrary: r)
  case (Cons c cs)
  let ?r = "generate_one (\<lambda>d. None) fb actor firmId True c r"
  obtain new where "gr_dockets (fold (generate_one (\<lambda>d. None) fb actor firmId True) cs ?r) = gr_dockets ?r @ new"
    using fold_append_dockets by blast
  then show ?case using Cons.IH [of ?r] generate_one_settles [OF Cons.prems, of fb actor c] settled_append by auto
qed simp

lemma generate_one_settled:
  assumes "settled fb firmId (gr_dockets r) c"
  shows "gr_dockets (generate_one e fb actor firmId execute c r) = gr_dockets r
    \<and> gs_generated (gr_summary (generate_one e fb actor firmId execute c r)) = gs_generated (gr_summary r)"
proof (cases rule: generate_one_cases [of e fb actor firmId execute c r])
  case (same s f)
  then show ?thesis by simp
next
  case (new d)
  then have "unmapped fb c" using assms by (simp add: settled_def)
  from generate_one_unmapped [OF this, of e actor firmId execute r] show ?thesis using new(2) by simp
qed

lemma fold_settled:
  assumes "\<forall>c\<in>set cs. settled fb firmId (gr_dockets r) c"
  shows "gr_dockets (fold (generate_one e fb actor firmId execute) cs r) = gr_dockets r
    \<and> gs_generated (gr_summary (fold (generate_one e fb actor firmId execute) cs r)) = gs_generated (gr_summary r)"
  using assms
proof (induction cs arbitrary: r)
  case (Cons c cs)
  then show ?case using generate_one_settled [of fb firmId r c e actor execute] by simp
qed simp

lemma start_keys_known: "keys_stored (gd_dockets db) \<Longrightarrow> keys_known firmId (start_run cast firmId cs db)"
  by (fastforce simp: keys_known_def existing_keys_def keys_stored_def has_docket_def split: option.splits if_splits)

lemma candidates_dockets [simp]:
  "generation_candidates firmId a b ti ci (db\<lparr>gd_dockets := ds\<rparr>) = generation_candidates firmId a b ti ci db"
  by (simp add: generation_candidates_def)


subsection \<open>What a preview misses\<close>

definition has_upper :: "string \<Rightarrow> bool" where
  "has_upper s \<longleftrightarrow> (\<exists>c\<in>set s. lower_char c \<noteq> c)"

lemma upper_key_not_stored:
  assumes "has_upper (kc_clientId c)"
  shows "stored_key k \<noteq> obligation_key c t p"
proof
  assume "stored_key k = obligation_key c t p"
  then have "js_lower (obligation_key c t p) = obligation_key c t p" by (metis stored_key_def js_lower_idem)
  then have "map lower_char (obligation_key c t p) = map id (obligation_key c t p)" by (simp add: js_lower_def)
  then have "\<forall>x\<in>set (obligation_key c t p). lower_char x = x" by (simp only: map_eq_conv) simp
  then have "\<forall>x\<in>set (kc_clientId c). lower_char x = x" by (simp add: obligation_key_def)
  then show False using assms by (auto simp: has_upper_def)
qed

lemma candidate_key: "ca_idempotencyKey (candidate_of t c p) = obligation_key c t (fst p)" "ca_client (candidate_of t c p) = c"
  by (cases p, simp add: candidate_of_def Let_def)+

lemma candidates_keys:
  "x \<in> set (generation_candidates firmId a b ti ci db) \<Longrightarrow>
    (\<exists>t p. ca_idempotencyKey x = obligation_key (ca_client x) t p) \<and> ca_client x \<in> set (gd_clients db) \<and> kc_firmId (ca_client x) = firmId"
  by (auto simp: generation_candidates_def buildGenerationCandidates_def loadClientsForGeneration_def Let_def candidate_key split: if_splits) blast+

lemma preview_fresh:
  assumes "\<forall>c\<in>set cs. ca_idempotencyKey c \<notin> set (gr_keys r)" and "\<forall>x\<in>set (gr_items r). \<not> is_skipped (snd x)"
  shows "\<forall>x\<in>set (gr_items (fold (generate_one e fb actor firmId False) cs r)). \<not> is_skipped (snd x)"
  using assms
proof (induction cs arbitrary: r)
  case (Cons c cs)
  let ?r = "generate_one e fb actor firmId False c r"
  have "gr_keys ?r = gr_keys r" "\<forall>x\<in>set (gr_items ?r). \<not> is_skipped (snd x)"
    using Cons.prems by (auto simp: generate_one_def is_skipped_def split: prod.splits)
  then show ?case using Cons.IH [of ?r] Cons.prems(1) by simp
qed simp

text \<open>
  Fact. A preview never reports a duplicate for clients whose identifier has a capital letter, which all
  generated identifiers have (C000001): keys are stored in lower case and compared as they were built.
\<close>

theorem preview_misses_duplicates:
  assumes "keys_stored (gd_dockets db)" and "\<forall>c\<in>set (gd_clients db). kc_firmId c = firmId \<longrightarrow> has_upper (kc_clientId c)"
    and "previewOrGenerate save_error cast firmId actor rangeStart rangeEnd templateIds clientIds False db = Inr (db', s, items)"
  shows "gs_skippedDuplicate s = 0 \<and> (\<forall>x\<in>set items. \<not> is_skipped (snd x))"
proof -
  obtain a b where r: "let r = finished_run save_error cast firmId actor (generation_candidates firmId a b templateIds clientIds db) False db
     in items = gr_items r \<and> gs_skippedDuplicate s = length (filter (\<lambda>(c, s). is_skipped s) (gr_items r))"
    using previewOrGenerateD [OF assms(3)] by (auto simp: Let_def)
  let ?cs = "generation_candidates firmId a b templateIds clientIds db"
  have "ca_idempotencyKey x \<notin> set (existing_keys cast firmId ?cs (gd_dockets db))" if x: "x \<in> set ?cs" for x
  proof
    assume "ca_idempotencyKey x \<in> set (existing_keys cast firmId ?cs (gd_dockets db))"
    then have "stored_key (ca_idempotencyKey x) = ca_idempotencyKey x"
      using assms(1) by (fastforce simp: existing_keys_def keys_stored_def split: option.splits if_splits)
    then show False using candidates_keys [OF x] assms(2) upper_key_not_stored by metis
  qed
  then have "\<forall>x\<in>set (gr_items (finished_run save_error cast firmId actor ?cs False db)). \<not> is_skipped (snd x)"
    unfolding finished_run_def by (intro preview_fresh) simp_all
  then show ?thesis using r by (auto simp: Let_def filter_empty_conv)
qed

subsection \<open>Sample templates\<close>

text \<open>
  Fact. The sample templates are never inserted: the one for TDS has the day 31, which the schema refuses, and
  an ordered insert of documents of which one is invalid inserts none.
\<close>

theorem samples_never_seeded:
  "fst (seedSampleTemplates firmId db) = db
   \<and> (snd (seedSampleTemplates firmId db) = Inr (0, 1) \<or> is_error (snd (seedSampleTemplates firmId db)))"
proof -
  have "\<not> list_all valid_template (sampleTemplates f fb)" for f fb
    by (simp add: sampleTemplates_def sample_template_def valid_template_def in_range_def)
  then show ?thesis by (simp add: seedSampleTemplates_def Let_def)
qed

subsection \<open>Witnesses\<close>

definition sample_obligation :: "string \<Rightarrow> obligation_template" where
  "sample_obligation name = sample_template ''f1'' None name ''GST'' [] (''monthly'', 1) (''day_of_next_month'', 20, Some 1, None) 3 ''SOP'' ''File it.''"

definition sample_client :: compliance_client where
  "sample_client = \<lparr>kc_clientId = ''C000001'', kc_firmId = ''f1'', kc_businessName = Some ''Apex'', kc_entityType = None,
     kc_status = Some ''active'', kc_isInternal = False\<rparr>"

definition sample_generation_db :: generation_db where
  "sample_generation_db =
    \<lparr>gd_templates = [sample_obligation ''GSTR-1''], gd_clients = [sample_client],
     gd_categories = [\<lparr>cd_id = ''k1'', cd_firmId = ''f1'', cd_name = Some ''GST'', cd_isActive = True,
       cd_subcategories = [\<lparr>sd_id = Some ''s1'', sd_name = Some ''Returns'', sd_isActive = None\<rparr>]\<rparr>],
     gd_dockets = []\<rparr>"

definition sample_actor :: generation_actor where
  "sample_actor = \<lparr>ga_xID = Some ''X000001'', ga_xid = None, ga_email = None\<rparr>"

definition sample_candidate :: candidate where
  "sample_candidate = candidate_of (sample_obligation ''GSTR-1'') sample_client (1704067200000, 1706659200000)"

lemma sample_periods: "expandRecurringPeriods (tm_recurrence (sample_obligation n)) 1704067200000 1706659200000 = [(1704067200000, 1706659200000)]"
proof -
  have "tm_recurrence (sample_obligation n) = \<lparr>rc_frequency = Some ''monthly'', rc_interval = Some 1, rc_startMonth = Some 1\<rparr>"
    by (simp add: sample_obligation_def sample_template_def)
  moreover have "expandRecurringPeriods \<lparr>rc_frequency = Some ''monthly'', rc_interval = Some 1, rc_startMonth = Some 1\<rparr> 1704067200000 1706659200000
      = [(1704067200000, 1706659200000)]" by code_simp
  ultimately show ?thesis by simp
qed

lemma sample_candidates:
  "generation_candidates ''f1'' 1704067200000 1706659200000 [] [] sample_generation_db = [sample_candidate]"
  "generation_candidates ''f1'' 1704067200000 1706659200000 [] [] (sample_generation_db\<lparr>gd_dockets := ds\<rparr>) = [sample_candidate]"
proof -
  have "loadTemplates [sample_obligation n] ''f1'' [] False = [sample_obligation n]" for n
    by (simp add: loadTemplates_def sample_obligation_def sample_template_def)
  moreover have "isTemplateApplicableToEntityType (sample_obligation n) v" for n v
    by (simp add: isTemplateApplicableToEntityType_def sample_obligation_def sample_template_def)
  moreover have "loadClientsForGeneration [sample_client] ''f1'' [] = [sample_client]"
    by (simp add: loadClientsForGeneration_def sample_client_def)
  ultimately show "generation_candidates ''f1'' 1704067200000 1706659200000 [] [] sample_generation_db = [sample_candidate]"
    by (simp add: generation_candidates_def buildGenerationCandidates_def sample_generation_db_def sample_periods sample_candidate_def)
  then show "generation_candidates ''f1'' 1704067200000 1706659200000 [] [] (sample_generation_db\<lparr>gd_dockets := ds\<rparr>) = [sample_candidate]"
    by simp
qed

lemma sample_key:
  "ca_idempotencyKey sample_candidate = ''compliance:C000001:gst:2024-01''"
  "stored_key ''compliance:C000001:gst:2024-01'' = ''compliance:c000001:gst:2024-01''"
proof -
  have "tm_obligationType (sample_obligation n) = Some ''GST''" for n by (simp add: sample_obligation_def sample_template_def)
  moreover have "periodKeyFromStart 1704067200000 = ''2024-01''" "js_lower ''GST'' = ''gst''" by code_simp+
  ultimately show "ca_idempotencyKey sample_candidate = ''compliance:C000001:gst:2024-01''"
    by (simp add: sample_candidate_def candidate_key obligation_key_def sample_client_def)
qed code_simp

lemma sample_mapped: "\<not> unmapped (resolveFallbackCategoryConfig (gd_categories sample_generation_db) ''f1'') sample_candidate"
  by (simp add: unmapped_def candidate_category_def resolveFallbackCategoryConfig_def sample_generation_db_def sample_candidate_def candidate_of_def
      sample_obligation_def sample_template_def Let_def)

definition sample_generate :: "bool \<Rightarrow> generation_db \<Rightarrow> (generation_db \<times> generation_summary \<times> (candidate \<times> item_status) list) res" where
  "sample_generate execute db = previewOrGenerate (\<lambda>d. None) stored_key ''f1'' sample_actor (At 1704067200000) (At 1706659200000) [] [] execute db"

definition sample_docket :: compliance_docket where
  "sample_docket = (docket_of (resolveFallbackCategoryConfig (gd_categories sample_generation_db) ''f1'') sample_actor ''f1'' sample_candidate)
     \<lparr>kd_idempotencyKey := Some ''compliance:c000001:gst:2024-01''\<rparr>"

lemma sample_generated:
  "\<exists>s. sample_generate True sample_generation_db
     = Inr (sample_generation_db\<lparr>gd_dockets := [sample_docket]\<rparr>, s, [(sample_candidate, Generated)]) \<and> gs_generated s = 1"
proof -
  have none: "gd_dockets sample_generation_db = []" by (simp add: sample_generation_db_def)
  then show ?thesis using sample_mapped
    by (cases "candidate_category (resolveFallbackCategoryConfig (gd_categories sample_generation_db) ''f1'') (ca_template sample_candidate)")
      (simp add: sample_generate_def previewOrGenerate_def sample_candidates generate_one_def existing_keys_def save_docket_def
        sample_key sample_docket_def unmapped_def add_item_def Let_def)
qed

lemma sample_previewed:
  "\<exists>s st. sample_generate False (sample_generation_db\<lparr>gd_dockets := [sample_docket]\<rparr>)
     = Inr (sample_generation_db\<lparr>gd_dockets := [sample_docket]\<rparr>, s, [(sample_candidate, st)])"
proof -
  have "gd_categories (sample_generation_db\<lparr>gd_dockets := ds\<rparr>) = gd_categories sample_generation_db" for ds by simp
  then show ?thesis using sample_mapped
    by (cases "candidate_category (resolveFallbackCategoryConfig (gd_categories sample_generation_db) ''f1'') (ca_template sample_candidate)")
      (simp add: sample_generate_def previewOrGenerate_def sample_candidates generate_one_def existing_keys_def
        sample_key sample_docket_def unmapped_def add_item_def Let_def)
qed

lemma sample_stored: "keys_stored [sample_docket]" "keys_stored (gd_dockets sample_generation_db)" "one_per_key (gd_dockets sample_generation_db)"
  using stored_key_idem [of "''compliance:C000001:gst:2024-01''"]
  by (simp_all add: keys_stored_def sample_docket_def sample_key sample_generation_db_def one_per_key_def)

theorem obligation_once_witness:
  "\<exists>db s. sample_generate True sample_generation_db = Inr (db, s, [(sample_candidate, Generated)])
     \<and> one_per_key (gd_dockets db) \<and> gs_generated s = 1 \<and> gs_generated s + gs_skippedDuplicate s + gs_failed s = gs_totalCandidates s"
proof -
  obtain s where s: "sample_generate True sample_generation_db
     = Inr (sample_generation_db\<lparr>gd_dockets := [sample_docket]\<rparr>, s, [(sample_candidate, Generated)])" "gs_generated s = 1"
    using sample_generated by blast
  from obligation_once [OF sample_stored(3) s(1) [unfolded sample_generate_def]] show ?thesis using s by simp
qed


theorem preview_misses_duplicates_witness:
  "has_docket ''f1'' (stored_key (ca_idempotencyKey sample_candidate)) [sample_docket]
   \<and> (\<exists>db s st. sample_generate False (sample_generation_db\<lparr>gd_dockets := [sample_docket]\<rparr>) = Inr (db, s, [(sample_candidate, st)])
        \<and> gs_skippedDuplicate s = 0 \<and> \<not> is_skipped st)"
proof -
  obtain s st where s: "sample_generate False (sample_generation_db\<lparr>gd_dockets := [sample_docket]\<rparr>)
     = Inr (sample_generation_db\<lparr>gd_dockets := [sample_docket]\<rparr>, s, [(sample_candidate, st)])"
    using sample_previewed by blast
  have "has_upper ''C000001''" by code_simp
  then have upper: "\<forall>c\<in>set (gd_clients (sample_generation_db\<lparr>gd_dockets := [sample_docket]\<rparr>)). kc_firmId c = ''f1'' \<longrightarrow> has_upper (kc_clientId c)"
    by (simp add: sample_generation_db_def sample_client_def)
  have stored: "keys_stored (gd_dockets (sample_generation_db\<lparr>gd_dockets := [sample_docket]\<rparr>))" using sample_stored(1) by simp
  have "has_docket ''f1'' (stored_key (ca_idempotencyKey sample_candidate)) [sample_docket]"
    by (simp add: has_docket_def sample_docket_def sample_key)
  then show ?thesis using preview_misses_duplicates [OF stored upper s [unfolded sample_generate_def]] s by simp
qed

end
