(* ===== verification/Base64.thy ===== *)
theory Base64
  imports JsPrelude
begin

section \<open>Base 64 and hexadecimal text of a buffer\<close>

text \<open>
  What \<open>buffer.toString('base64')\<close>, \<open>Buffer.from(s, 'base64')\<close> and \<open>Buffer.from(s, 'hex')\<close> of the runtime do.  A buffer
  is the list of its bytes.  Decoding ends at the first padding character and ignores characters outside the
  alphabet; the two characters of the URL alphabet are accepted.
\<close>

definition b64_char :: "nat \<Rightarrow> char" where
  "b64_char n = char_of (if n < 26 then 65 + n else if n < 52 then 71 + n else if n < 62 then n - 4 else if n = 62 then 43 else 47)"

definition b64_index :: "char \<Rightarrow> nat option" where
  "b64_index c =
    (let k = (of_char c :: nat)
     in if 65 \<le> k \<and> k \<le> 90 then Some (k - 65)
        else if 97 \<le> k \<and> k \<le> 122 then Some (k - 71)
        else if 48 \<le> k \<and> k \<le> 57 then Some (k + 4)
        else if k = 43 \<or> k = 45 then Some 62
        else if k = 47 \<or> k = 95 then Some 63
        else None)"

definition b64_quad :: "nat \<Rightarrow> nat \<Rightarrow> nat \<Rightarrow> nat list" where
  "b64_quad a b c = [a div 4, a mod 4 * 16 + b div 16, b mod 16 * 4 + c div 64, c mod 64]"

fun to_base64 :: "string \<Rightarrow> string" where
  "to_base64 [] = []"
| "to_base64 [a] = map b64_char (take 2 (b64_quad (of_char a) 0 0)) @ ''==''"
| "to_base64 [a, b] = map b64_char (take 3 (b64_quad (of_char a) (of_char b) 0)) @ ''=''"
| "to_base64 (a # b # c # r) = map b64_char (b64_quad (of_char a) (of_char b) (of_char c)) @ to_base64 r"

fun b64_bytes :: "nat list \<Rightarrow> string" where
  "b64_bytes (w # x # y # z # r) =
    char_of (w * 4 + x div 16) # char_of (x mod 16 * 16 + y div 4) # char_of (y mod 4 * 64 + z) # b64_bytes r"
| "b64_bytes [w, x, y] = [char_of (w * 4 + x div 16), char_of (x mod 16 * 16 + y div 4)]"
| "b64_bytes [w, x] = [char_of (w * 4 + x div 16)]"
| "b64_bytes _ = []"

definition from_base64 :: "string \<Rightarrow> string" where
  "from_base64 s = b64_bytes (List.map_filter b64_index (takeWhile (\<lambda>c. c \<noteq> CHR ''='') s))"

definition hex_digit :: "char \<Rightarrow> nat option" where
  "hex_digit c =
    (let k = (of_char c :: nat)
     in if 48 \<le> k \<and> k \<le> 57 then Some (k - 48)
        else if 65 \<le> k \<and> k \<le> 70 then Some (k - 55)
        else if 97 \<le> k \<and> k \<le> 102 then Some (k - 87)
        else None)"

fun from_hex :: "string \<Rightarrow> string" where
  "from_hex (a # b # r) =
    (case (hex_digit a, hex_digit b) of (Some x, Some y) \<Rightarrow> char_of (16 * x + y) # from_hex r | _ \<Rightarrow> [])"
| "from_hex _ = []"

subsection \<open>The round trip\<close>

lemma b64_index_char [simp]: "n < 64 \<Longrightarrow> b64_index (b64_char n) = Some n"
  by (auto simp: b64_index_def b64_char_def Let_def)

lemma b64_char_plain: "n < 64 \<Longrightarrow> b64_char n \<noteq> CHR ''=''"
proof
  assume n: "n < 64" and eq: "b64_char n = CHR ''=''"
  have "b64_index (CHR ''='') = None" by (simp add: b64_index_def Let_def)
  then show False using b64_index_char [OF n] eq by simp
qed

lemma pack_less: "x < 4 \<Longrightarrow> y < 16 \<Longrightarrow> x * 16 + y < (64::nat)" "x < 16 \<Longrightarrow> y < 4 \<Longrightarrow> x * 4 + y < (64::nat)"
  by simp_all

lemma b64_quad_less:
  assumes "a < 256" and "b < 256" and "c < 256"
  shows "\<forall>n\<in>set (b64_quad a b c). n < 64"
proof -
  have "a div 4 < 64" "b div 16 < 16" "c div 64 < 4" using assms by (simp_all add: less_mult_imp_div_less)
  then have "a mod 4 * 16 + b div 16 < 64" "b mod 16 * 4 + c div 64 < 64" by (intro pack_less; simp)+
  then show ?thesis using \<open>a div 4 < 64\<close> by (simp add: b64_quad_def)
qed

lemma of_char_less [simp]: "(of_char c :: nat) < 256"
  by (metis nat_of_char_less_256)

lemma takeWhile_b64: "\<forall>n\<in>set ns. n < 64 \<Longrightarrow> takeWhile (\<lambda>c. c \<noteq> CHR ''='') (map b64_char ns @ r) = map b64_char ns @ takeWhile (\<lambda>c. c \<noteq> CHR ''='') r"
  by (induction ns) (simp_all add: b64_char_plain)

lemma map_filter_b64: "\<forall>n\<in>set ns. n < 64 \<Longrightarrow> List.map_filter b64_index (map b64_char ns @ r) = ns @ List.map_filter b64_index r"
  by (induction ns) (simp_all add: List.map_filter_simps)

lemma pack_div: "k < d \<Longrightarrow> (r * d + k) div d = (r::nat)" "k < d \<Longrightarrow> (r * d + k) mod d = (k::nat)"
  by simp_all

lemma quad_back:
  assumes "a < 256" and "b < 256" and "c < 256"
  shows "a div 4 * 4 + (a mod 4 * 16 + b div 16) div 16 = (a::nat)"
    and "(a mod 4 * 16 + b div 16) mod 16 * 16 + (b mod 16 * 4 + c div 64) div 4 = (b::nat)"
    and "(b mod 16 * 4 + c div 64) mod 4 * 64 + c mod 64 = (c::nat)"
proof -
  have "b div 16 < 16" "c div 64 < 4" using assms by (simp_all add: less_mult_imp_div_less)
  then show "a div 4 * 4 + (a mod 4 * 16 + b div 16) div 16 = (a::nat)"
    and "(a mod 4 * 16 + b div 16) mod 16 * 16 + (b mod 16 * 4 + c div 64) div 4 = (b::nat)"
    and "(b mod 16 * 4 + c div 64) mod 4 * 64 + c mod 64 = (c::nat)"
    by (simp_all only: pack_div div_mult_mod_eq)
qed

text \<open>Encoding a buffer and decoding the text gives the buffer back.\<close>

lemma base64_roundtrip [simp]: "from_base64 (to_base64 s) = s"
proof (induction s rule: to_base64.induct)
  case 1
  show ?case by (simp add: from_base64_def List.map_filter_simps)
next
  case (2 a)
  let ?q = "take 2 (b64_quad (of_char a) 0 0)"
  have "\<forall>n\<in>set ?q. n < 64" using b64_quad_less [of "of_char a" 0 0] by (auto dest: in_set_takeD)
  then show ?case using quad_back(1) [of "of_char a" 0 0]
    by (simp add: from_base64_def takeWhile_b64 map_filter_b64 List.map_filter_simps) (simp add: b64_quad_def)
next
  case (3 a b)
  let ?q = "take 3 (b64_quad (of_char a) (of_char b) 0)"
  have "\<forall>n\<in>set ?q. n < 64" using b64_quad_less [of "of_char a" "of_char b" 0] by (auto dest: in_set_takeD)
  then show ?case using quad_back(1,2) [of "of_char a" "of_char b" 0]
    by (simp add: from_base64_def takeWhile_b64 map_filter_b64 List.map_filter_simps) (simp add: b64_quad_def numeral_3_eq_3)
next
  case (4 a b c r)
  have "\<forall>n\<in>set (b64_quad (of_char a) (of_char b) (of_char c)). n < 64" by (rule b64_quad_less) simp_all
  then show ?case using 4 quad_back [of "of_char a" "of_char b" "of_char c"]
    by (simp add: from_base64_def takeWhile_b64 map_filter_b64) (simp add: b64_quad_def)
qed

text \<open>The characters of the text, and when it is empty.\<close>

definition b64_text :: "char \<Rightarrow> bool" where
  "b64_text c \<longleftrightarrow> (b64_index c \<noteq> None \<and> c \<noteq> CHR ''-'' \<and> c \<noteq> CHR ''_'') \<or> c = CHR ''=''"

lemma b64_char_text: "n < 64 \<Longrightarrow> b64_text (b64_char n)"
proof -
  assume n: "n < 64"
  have "b64_index (CHR ''-'') = Some 62" "b64_index (CHR ''_'') = Some 63" by (simp_all add: b64_index_def Let_def)
  moreover have "b64_char 62 \<noteq> CHR ''-''" "b64_char 63 \<noteq> CHR ''_''" by code_simp+
  ultimately have "b64_char n \<noteq> CHR ''-''" "b64_char n \<noteq> CHR ''_''" using b64_index_char [OF n] by auto
  then show "b64_text (b64_char n)" using b64_index_char [OF n] by (simp add: b64_text_def)
qed

lemma to_base64_text: "list_all b64_text (to_base64 s)"
proof (induction s rule: to_base64.induct)
  case (2 a)
  then show ?case using b64_quad_less [of "of_char a" 0 0] by (auto simp: list_all_iff b64_char_text dest: in_set_takeD) (simp_all add: b64_text_def)
next
  case (3 a b)
  then show ?case using b64_quad_less [of "of_char a" "of_char b" 0]
    by (auto simp: list_all_iff b64_char_text dest: in_set_takeD) (simp_all add: b64_text_def)
next
  case (4 a b c r)
  then show ?case using b64_quad_less [of "of_char a" "of_char b" "of_char c"] by (auto simp: list_all_iff b64_char_text)
qed simp

lemma to_base64_Nil [simp]: "to_base64 s = [] \<longleftrightarrow> s = []"
  by (induction s rule: to_base64.induct) (simp_all add: b64_quad_def)

lemma length_to_base64: "length (to_base64 s) mod 4 = 0"
  by (induction s rule: to_base64.induct) (simp_all add: b64_quad_def mod_Suc)

end
