(* ===== verification/Encryption.thy ===== *)
theory Encryption
  imports Base64 Decimal CookieProperties CaseAction
begin

section \<open>Encryption of tenant data\<close>

text \<open>
  \<open>security/encryption.utils.js\<close>, \<open>security/encryption.local.provider.js\<close>, \<open>security/encryption.service.js\<close>, the
  hooks of \<open>models/Case.model.js\<close> and \<open>models/Client.model.js\<close> that encrypt before a save, and the decryption in the
  repositories.  AES-256-GCM is the argument \<open>crypto\<close>, random bytes are arguments.  Text is given by its UTF-8 bytes.
  The buffers with plain keys are objects of a store, because they are copied, shared with the cache and overwritten with zeros.
\<close>

record crypto =
  cy_encrypt :: "string \<Rightarrow> string \<Rightarrow> string \<Rightarrow> string \<times> string"
  cy_decrypt :: "string \<Rightarrow> string \<Rightarrow> string \<Rightarrow> string \<Rightarrow> string option"

definition plain_error :: "string \<Rightarrow> js_error" where
  "plain_error message = Thrown message None None"

subsection \<open>Payloads\<close>

definition KEY_LENGTH :: nat where
  "KEY_LENGTH = 32"

definition PAYLOAD_VERSION :: string where
  "PAYLOAD_VERSION = ''v1''"

definition TENANT_KEY_CACHE_MAX_SIZE :: nat where
  "TENANT_KEY_CACHE_MAX_SIZE = 500"

definition master_key_missing :: js_error where
  "master_key_missing = plain_error (''MASTER_ENCRYPTION_KEY environment variable is required but not set. ''
    @ ''Generate one with: node -e '' @ CHR 0x22 # ''process.stdout.write(require('' @ CHR 0x27 # ''crypto'' @ CHR 0x27
    # '').randomBytes(32).toString('' @ CHR 0x27 # ''base64'' @ CHR 0x27 # ''))'' @ [CHR 0x22])"

definition loadMasterKey :: "string option \<Rightarrow> string res" where
  "loadMasterKey raw =
    (if \<not> truthy raw then Inl master_key_missing
     else (let r = str_or_empty raw; buf = (if length r = 64 \<and> list_all (\<lambda>c. hex_digit c \<noteq> None) r then from_hex r else from_base64 r)
           in if length buf \<noteq> KEY_LENGTH
              then Inl (plain_error (''MASTER_ENCRYPTION_KEY must decode to exactly '' @ decimal KEY_LENGTH @ '' bytes. Got '' @ decimal (length buf) @ '' bytes.''))
              else Inr buf))"

definition encodePayload :: "string \<Rightarrow> string \<Rightarrow> string \<Rightarrow> string option \<Rightarrow> string" where
  "encodePayload iv authTag ciphertext version =
    (let payload = to_base64 iv @ '':'' @ to_base64 authTag @ '':'' @ to_base64 ciphertext
     in if \<not> truthy version then payload else str_or_empty version @ '':'' @ payload)"

definition payload_parts :: "string \<Rightarrow> string list" where
  "payload_parts encoded =
    (let parts = split_on CHR '':'' encoded in if hd parts = PAYLOAD_VERSION then tl parts else parts)"

definition decodePayload :: "string \<Rightarrow> (string \<times> string \<times> string) res" where
  "decodePayload encoded =
    (case payload_parts encoded of
       [iv, authTag, ciphertext] \<Rightarrow> Inr (from_base64 iv, from_base64 authTag, from_base64 ciphertext)
     | _ \<Rightarrow> Inl (plain_error ''Invalid encrypted payload format. Expected [v1:]iv:authTag:ciphertext''))"

definition looksEncrypted :: "string \<Rightarrow> bool" where
  "looksEncrypted value \<longleftrightarrow>
    length (payload_parts value) = 3 \<and> list_all (\<lambda>p. p \<noteq> [] \<and> list_all b64_text p) (payload_parts value)"

definition decryption_error :: js_error where
  "decryption_error = plain_error ''Unsupported state or unable to authenticate data''"

definition aesgcmDecrypt :: "crypto \<Rightarrow> string \<Rightarrow> string \<times> string \<times> string \<Rightarrow> string res" where
  "aesgcmDecrypt cy key payload =
    (case payload of (iv, authTag, ciphertext) \<Rightarrow>
       (case cy_decrypt cy key iv authTag ciphertext of None \<Rightarrow> Inl decryption_error | Some p \<Rightarrow> Inr p))"

definition encrypted_payload :: "crypto \<Rightarrow> string \<Rightarrow> string \<Rightarrow> string \<Rightarrow> string option \<Rightarrow> string" where
  "encrypted_payload cy key iv plain version =
    (case cy_encrypt cy key iv plain of (ciphertext, authTag) \<Rightarrow> encodePayload iv authTag ciphertext version)"

subsection \<open>Keys, buffers and the cache\<close>

text \<open>The collection \<open>tenantkeys\<close>, the store of buffers, and the cache in insertion order, the oldest entry first.\<close>

record key_state =
  ks_keys :: "(string \<times> string) list"
  ks_heap :: "nat \<Rightarrow> string"
  ks_next :: nat
  ks_cache :: "(string \<times> nat) list"

definition alloc :: "string \<Rightarrow> key_state \<Rightarrow> key_state \<times> nat" where
  "alloc bytes s = (s\<lparr>ks_heap := (ks_heap s)(ks_next s := bytes), ks_next := ks_next s + 1\<rparr>, ks_next s)"

definition zeroBuffer :: "nat \<Rightarrow> key_state \<Rightarrow> key_state" where
  "zeroBuffer a s = s\<lparr>ks_heap := (ks_heap s)(a := replicate (length (ks_heap s a)) CHR 0x00)\<rparr>"

definition cache_delete :: "string \<Rightarrow> key_state \<Rightarrow> key_state" where
  "cache_delete tenantId s = s\<lparr>ks_cache := filter (\<lambda>(t, a). t \<noteq> tenantId) (ks_cache s)\<rparr>"

definition getCachedDek :: "string \<Rightarrow> key_state \<Rightarrow> key_state \<times> nat option" where
  "getCachedDek tenantId s =
    (case map_of (ks_cache s) tenantId of
       None \<Rightarrow> (s, None)
     | Some a \<Rightarrow>
        (let s1 = cache_delete tenantId s; s2 = s1\<lparr>ks_cache := ks_cache s1 @ [(tenantId, a)]\<rparr>; (s3, copy) = alloc (ks_heap s2 a) s2
         in (s3, Some copy)))"

fun evict :: "(string \<times> nat) list \<Rightarrow> key_state \<Rightarrow> key_state" where
  "evict [] s = s\<lparr>ks_cache := []\<rparr>"
| "evict ((t, a) # c) s =
    (if length ((t, a) # c) > TENANT_KEY_CACHE_MAX_SIZE then evict c (zeroBuffer a s) else s\<lparr>ks_cache := (t, a) # c\<rparr>)"

definition drop_previous :: "string \<Rightarrow> key_state \<Rightarrow> key_state" where
  "drop_previous tenantId s =
    (case map_of (ks_cache s) tenantId of None \<Rightarrow> s | Some previous \<Rightarrow> cache_delete tenantId (zeroBuffer previous s))"

definition setCachedDek :: "string \<Rightarrow> nat \<Rightarrow> key_state \<Rightarrow> key_state" where
  "setCachedDek tenantId dek s =
    (let s1 = drop_previous tenantId s;
         (s2, cached) = alloc (ks_heap s1 dek) s1;
         s3 = s2\<lparr>ks_cache := ks_cache s2 @ [(tenantId, cached)]\<rparr>
     in evict (ks_cache s3) s3)"

text \<open>The second half of \<open>_unwrapDek\<close>, after the query.\<close>

definition plain_dek :: "crypto \<Rightarrow> string option \<Rightarrow> (string \<times> string) list \<Rightarrow> string \<Rightarrow> string res" where
  "plain_dek cy master keys tenantId =
    (case map_of keys tenantId of
       None \<Rightarrow> Inl (plain_error (''No encryption key found for tenant '' @ tenantId @ ''. Call ensureTenantKey() first.''))
     | Some encryptedDek \<Rightarrow>
        res_bind (loadMasterKey master) (\<lambda>masterKey. res_bind (decodePayload encryptedDek) (aesgcmDecrypt cy masterKey)))"

definition load_dek :: "crypto \<Rightarrow> string option \<Rightarrow> string \<Rightarrow> key_state \<Rightarrow> key_state \<times> nat res" where
  "load_dek cy master tenantId s =
    (case plain_dek cy master (ks_keys s) tenantId of
       Inl e \<Rightarrow> (s, Inl e)
     | Inr bytes \<Rightarrow> (let (s1, dek) = alloc bytes s in (setCachedDek tenantId dek s1, Inr dek)))"

definition unwrapDek :: "crypto \<Rightarrow> string option \<Rightarrow> string \<Rightarrow> key_state \<Rightarrow> key_state \<times> nat res" where
  "unwrapDek cy master tenantId s =
    (case getCachedDek tenantId s of (s1, Some dek) \<Rightarrow> (s1, Inr dek) | (s1, None) \<Rightarrow> load_dek cy master tenantId s1)"

definition generateTenantKey :: "crypto \<Rightarrow> string option \<Rightarrow> string \<Rightarrow> string \<Rightarrow> string \<Rightarrow> key_state \<Rightarrow> key_state \<times> unit res" where
  "generateTenantKey cy master iv dek tenantId s =
    (if tenantId = [] then (s, Inl (plain_error ''tenantId is required to generate a tenant key''))
     else (case loadMasterKey master of
       Inl e \<Rightarrow> (s, Inl e)
     | Inr masterKey \<Rightarrow>
        (case map_of (ks_keys s) tenantId of
           Some k \<Rightarrow> (s, Inr ())
         | None \<Rightarrow> (s\<lparr>ks_keys := ks_keys s @ [(tenantId, encrypted_payload cy masterKey iv dek None)]\<rparr>, Inr ()))))"

definition generateEncryptedDek :: "crypto \<Rightarrow> string option \<Rightarrow> string \<Rightarrow> string \<Rightarrow> string res" where
  "generateEncryptedDek cy master iv dek = res_bind (loadMasterKey master) (\<lambda>masterKey. Inr (encrypted_payload cy masterKey iv dek (Some PAYLOAD_VERSION)))"

definition provider_encrypt :: "crypto \<Rightarrow> string option \<Rightarrow> string \<Rightarrow> string \<Rightarrow> string \<Rightarrow> key_state \<Rightarrow> key_state \<times> string res" where
  "provider_encrypt cy master iv plaintext tenantId s =
    (if tenantId = [] then (s, Inl (plain_error ''tenantId is required for encryption''))
     else (case unwrapDek cy master tenantId s of
       (s1, Inl e) \<Rightarrow> (s1, Inl e)
     | (s1, Inr dek) \<Rightarrow> (zeroBuffer dek s1, Inr (encrypted_payload cy (ks_heap s1 dek) iv plaintext (Some PAYLOAD_VERSION)))))"

definition provider_decrypt :: "crypto \<Rightarrow> string option \<Rightarrow> string \<Rightarrow> string \<Rightarrow> key_state \<Rightarrow> key_state \<times> string res" where
  "provider_decrypt cy master ciphertext tenantId s =
    (if tenantId = [] then (s, Inl (plain_error ''tenantId is required for decryption''))
     else (case unwrapDek cy master tenantId s of
       (s1, Inl e) \<Rightarrow> (s1, Inl e)
     | (s1, Inr dek) \<Rightarrow> (zeroBuffer dek s1, res_bind (decodePayload ciphertext) (aesgcmDecrypt cy (ks_heap s1 dek)))))"

text \<open>
  A process and the buffers that its running requests have been given, each with its tenant.  A request looks the key up
  in the cache (\<open>hit\<close>), or continues after the query (\<open>load\<close>), or ends in its \<open>finally\<close> block (\<open>finish\<close>); \<open>create\<close> is a
  call of \<open>generateTenantKey\<close>.  Requests interleave between these steps.
\<close>

inductive key_run :: "crypto \<Rightarrow> string option \<Rightarrow> key_state \<Rightarrow> (nat \<times> string) list \<Rightarrow> bool" for cy master where
  start: "ks_cache s = [] \<Longrightarrow> key_run cy master s []"
| hit: "key_run cy master s held \<Longrightarrow> getCachedDek tenantId s = (s1, Some a) \<Longrightarrow> key_run cy master s1 ((a, tenantId) # held)"
| load: "key_run cy master s held \<Longrightarrow> load_dek cy master tenantId s = (s1, Inr a) \<Longrightarrow> key_run cy master s1 ((a, tenantId) # held)"
| finish: "key_run cy master s (before @ (a, tenantId) # later) \<Longrightarrow> key_run cy master (zeroBuffer a s) (before @ later)"
| create: "key_run cy master s held \<Longrightarrow> key_run cy master (fst (generateTenantKey cy master iv dek tenantId s)) held"

text \<open>What the provider computes, without cache and buffers.\<close>

definition spec_encrypt :: "crypto \<Rightarrow> string option \<Rightarrow> (string \<times> string) list \<Rightarrow> string \<Rightarrow> string \<Rightarrow> string \<Rightarrow> string res" where
  "spec_encrypt cy master keys iv plaintext tenantId =
    (if tenantId = [] then Inl (plain_error ''tenantId is required for encryption'')
     else res_bind (plain_dek cy master keys tenantId) (\<lambda>key. Inr (encrypted_payload cy key iv plaintext (Some PAYLOAD_VERSION))))"

definition spec_decrypt :: "crypto \<Rightarrow> string option \<Rightarrow> (string \<times> string) list \<Rightarrow> string \<Rightarrow> string \<Rightarrow> string res" where
  "spec_decrypt cy master keys ciphertext tenantId =
    (if tenantId = [] then Inl (plain_error ''tenantId is required for decryption'')
     else res_bind (plain_dek cy master keys tenantId) (\<lambda>key. res_bind (decodePayload ciphertext) (aesgcmDecrypt cy key)))"

subsection \<open>The service\<close>

record encryption_env =
  ee_crypto :: crypto
  ee_master :: "string option"
  ee_provider :: "string option"

definition getProvider :: "encryption_env \<Rightarrow> unit res" where
  "getProvider env =
    (let name = js_lower (str_or_empty (js_or (ee_provider env) (Some ''local'')))
     in if name = ''local'' \<or> name = ''disabled'' then Inr ()
        else if name = ''kms'' then Inl (plain_error ''ENCRYPTION_PROVIDER=kms is not available in this deployment. Use ENCRYPTION_PROVIDER=local until KMS is implemented.'')
        else Inl (plain_error (''Unsupported ENCRYPTION_PROVIDER '' @ CHR 0x22 # name @ CHR 0x22 # ''. Supported providers: local, disabled'')))"

text \<open>\<open>generateEncryptedDek\<close> of the service.\<close>

definition service_encryptedDek :: "encryption_env \<Rightarrow> string \<Rightarrow> string \<Rightarrow> string res" where
  "service_encryptedDek env iv dek =
    (if js_lower (str_or_empty (js_or (ee_provider env) (Some ''local''))) = ''local'' \<and> \<not> truthy (ee_master env)
     then Inl (plain_error ''Master encryption key missing for local provider. Set MASTER_ENCRYPTION_KEY.'')
     else res_bind (getProvider env) (\<lambda>_. generateEncryptedDek (ee_crypto env) (ee_master env) iv dek))"

definition ensureTenantKey :: "encryption_env \<Rightarrow> string \<Rightarrow> string \<Rightarrow> string \<Rightarrow> key_state \<Rightarrow> key_state \<times> unit res" where
  "ensureTenantKey env iv dek tenantId s =
    (if tenantId = [] then (s, Inl (plain_error ''tenantId is required for ensureTenantKey''))
     else (case getProvider env of Inl e \<Rightarrow> (s, Inl e) | Inr u \<Rightarrow> generateTenantKey (ee_crypto env) (ee_master env) iv dek tenantId s))"

definition encrypt :: "encryption_env \<Rightarrow> string \<Rightarrow> string option \<Rightarrow> string \<Rightarrow> key_state \<Rightarrow> key_state \<times> string option res" where
  "encrypt env iv value tenantId s =
    (case value of
       None \<Rightarrow> (s, Inr None)
     | Some v \<Rightarrow>
        if tenantId = [] then (s, Inl (plain_error ''tenantId is required for encryption''))
        else (case getProvider env of Inl e \<Rightarrow> (s, Inl e)
              | Inr u \<Rightarrow> (case provider_encrypt (ee_crypto env) (ee_master env) iv v tenantId s of
                  (s1, Inl e) \<Rightarrow> (s1, Inl e) | (s1, Inr c) \<Rightarrow> (s1, Inr (Some c)))))"

definition error_text :: "js_error \<Rightarrow> string" where
  "error_text e = (case e of Thrown m st c \<Rightarrow> m | _ \<Rightarrow> [])"

definition decryption_failed :: "string option \<Rightarrow> js_error \<Rightarrow> js_error" where
  "decryption_failed field e =
    plain_error (''Decryption failed'' @ (if truthy field then '' for '' @ str_or_empty field else []) @ '': '' @ error_text e)"

definition decrypt ::
  "encryption_env \<Rightarrow> string option \<Rightarrow> string option \<Rightarrow> string option \<Rightarrow> string \<Rightarrow> key_state \<Rightarrow> key_state \<times> string option res" where
  "decrypt env field role value tenantId s =
    (case value of
       None \<Rightarrow> (s, Inr None)
     | Some v \<Rightarrow>
        if truthy role \<and> drop_first (CHR ''_'') (js_lower (str_or_empty role)) = ''superadmin''
        then (s, Inl (Thrown ''Superadmin is not permitted to decrypt tenant data'' (Some 403) None))
        else if \<not> looksEncrypted v then (s, Inr (Some v))
        else if tenantId = [] then (s, Inl (plain_error ''[EncryptionService] tenantId is required for decryption''))
        else (case getProvider env of
                Inl e \<Rightarrow> (s, Inl (decryption_failed field e))
              | Inr u \<Rightarrow> (case provider_decrypt (ee_crypto env) (ee_master env) v tenantId s of
                  (s1, Inl e) \<Rightarrow> (s1, Inl (decryption_failed field e)) | (s1, Inr p) \<Rightarrow> (s1, Inr (Some p)))))"

text \<open>The identifiers under which the key of a tenant may be stored.\<close>

definition resolveTenantKeyCandidates :: "tenant_db \<Rightarrow> string option \<Rightarrow> string list" where
  "resolveTenantKeyCandidates td tenantId =
    (if \<not> truthy tenantId then []
     else (let c = resolveCanonicalTenantFromFirmId td tenantId;
               ids = map str_or_empty (filter truthy [Option.bind c tx_tenantId, Option.bind c tx_ownershipFirmId,
                       Option.bind c tx_legacyFirmId, Option.bind c tx_defaultClientId])
           in fold (\<lambda>i cs. if i \<in> set cs then cs else cs @ [i]) ids [str_or_empty tenantId]))"

definition tenantKeyExists :: "key_state \<Rightarrow> string \<Rightarrow> bool" where
  "tenantKeyExists s tenantId \<longleftrightarrow> tenantId \<noteq> [] \<and> map_of (ks_keys s) tenantId \<noteq> None"

definition resolveTenantKeyTenantId :: "tenant_db \<Rightarrow> key_state \<Rightarrow> string option \<Rightarrow> string option" where
  "resolveTenantKeyTenantId td s tenantId = find (tenantKeyExists s) (resolveTenantKeyCandidates td tenantId)"

subsection \<open>Dockets and clients\<close>

text \<open>The hook before the save of a docket: its stored description, or the error of the save.\<close>

record random_bytes =
  rb_keyIv :: string
  rb_dek :: string
  rb_iv :: string

definition encrypt_stored :: "encryption_env \<Rightarrow> random_bytes \<Rightarrow> string \<Rightarrow> string option \<Rightarrow> key_state \<Rightarrow> key_state \<times> string option res" where
  "encrypt_stored env r tenantId value s =
    (case ensureTenantKey env (rb_keyIv r) (rb_dek r) tenantId s of
       (s1, Inl e) \<Rightarrow> (s1, Inl e)
     | (s1, Inr u) \<Rightarrow>
        (case value of
           None \<Rightarrow> (s1, Inr None)
         | Some v \<Rightarrow> if looksEncrypted v then (s1, Inr (Some v)) else encrypt env (rb_iv r) (Some v) tenantId s1))"

definition encrypt_case_description ::
  "encryption_env \<Rightarrow> random_bytes \<Rightarrow> string option \<Rightarrow> string option \<Rightarrow> key_state \<Rightarrow> key_state \<times> string option res" where
  "encrypt_case_description env r firmId description s =
    (if \<not> truthy (ee_master env) \<or> \<not> truthy firmId then (s, Inr description)
     else encrypt_stored env r (str_or_empty firmId) description s)"

text \<open>\<open>_decryptCaseDoc\<close>: a description that cannot be decrypted is handed out as it is stored.\<close>

definition decryptCaseDescription :: "encryption_env \<Rightarrow> string option \<Rightarrow> string option \<Rightarrow> key_state \<Rightarrow> key_state \<times> string option" where
  "decryptCaseDescription env firmId description s =
    (if \<not> truthy (ee_master env) \<or> \<not> truthy firmId then (s, description)
     else (case description of
       None \<Rightarrow> (s, None)
     | Some v \<Rightarrow>
        if \<not> looksEncrypted v then (s, Some v)
        else (case decrypt env (Some ''description'') None (Some v) (str_or_empty firmId) s of
                (s1, Inr (Some p)) \<Rightarrow> (s1, Some p) | (s1, x) \<Rightarrow> (s1, Some v))))"

definition read_case_description ::
  "encryption_env \<Rightarrow> string option \<Rightarrow> string option \<Rightarrow> string option \<Rightarrow> key_state \<Rightarrow> key_state \<times> string option res" where
  "read_case_description env role firmId description s =
    (case guardSuperadmin role of Inl e \<Rightarrow> (s, Inl e)
     | Inr u \<Rightarrow> (case decryptCaseDescription env firmId description s of (s1, v) \<Rightarrow> (s1, Inr v)))"

text \<open>The two encrypted fields of a client are trimmed, the address in lower case.\<close>

datatype client_field = BusinessEmail | PrimaryContactNumber

definition normalize_client_field :: "client_field \<Rightarrow> string \<Rightarrow> string" where
  "normalize_client_field f v =
    (if looksEncrypted v then v else case f of BusinessEmail \<Rightarrow> js_lower (js_trim v) | PrimaryContactNumber \<Rightarrow> js_trim v)"

definition encrypt_client_field ::
  "encryption_env \<Rightarrow> random_bytes \<Rightarrow> string option \<Rightarrow> client_field \<Rightarrow> string option \<Rightarrow> key_state \<Rightarrow> key_state \<times> string option res" where
  "encrypt_client_field env r firmId f value s =
    (if \<not> truthy (ee_master env) \<or> \<not> truthy firmId then (s, Inr value)
     else encrypt_stored env r (str_or_empty firmId) (map_option (normalize_client_field f) value) s)"

text \<open>\<open>_decryptClientDoc\<close>, for one of its fields: an error ends the request.\<close>

definition tenant_key_missing :: "string \<Rightarrow> js_error" where
  "tenant_key_missing tenantId =
    Thrown (''Tenant encryption key is missing for tenant '' @ tenantId @ ''. Repair is required before decrypting client data.'') (Some 503)
      (Some ''TENANT_KEY_MISSING'')"

definition decryptClientField ::
  "encryption_env \<Rightarrow> tenant_db \<Rightarrow> string \<Rightarrow> string option \<Rightarrow> string option \<Rightarrow> key_state \<Rightarrow> key_state \<times> string option res" where
  "decryptClientField env td field tenantId value s =
    (if \<not> truthy (ee_master env) \<or> \<not> truthy tenantId then (s, Inr value)
     else (case value of
       None \<Rightarrow> (s, Inr None)
     | Some v \<Rightarrow>
        if \<not> looksEncrypted v then (s, Inr (Some v))
        else (case resolveTenantKeyTenantId td s tenantId of
                None \<Rightarrow> (s, Inl (tenant_key_missing (str_or_empty tenantId)))
              | Some k \<Rightarrow> decrypt env (Some field) None (Some v) k s)))"

subsection \<open>Protected settings\<close>

text \<open>
  \<open>utils/encryption.js\<close>, for storage configurations: one key for all tenants, the SHA-256 digest of the master key
  (\<open>sha\<close>), and the prefix \<open>enc::\<close>.
\<close>

definition ENCRYPTED_PREFIX :: string where
  "ENCRYPTED_PREFIX = ''enc::''"

definition hasEncryptedPrefix :: "string \<Rightarrow> bool" where
  "hasEncryptedPrefix v \<longleftrightarrow> take 5 v = ENCRYPTED_PREFIX"

definition resolveKeyMaterial :: "(string \<Rightarrow> string) \<Rightarrow> string option \<Rightarrow> string res" where
  "resolveKeyMaterial sha master =
    (if \<not> truthy master then Inl (plain_error ''MASTER_ENCRYPTION_KEY must be configured before encrypting protected values'')
     else Inr (sha (str_or_empty master)))"

definition protect :: "crypto \<Rightarrow> (string \<Rightarrow> string) \<Rightarrow> string option \<Rightarrow> string \<Rightarrow> string option \<Rightarrow> string option res" where
  "protect cy sha master iv value =
    (if \<not> truthy value \<or> hasEncryptedPrefix (str_or_empty value) then Inr value
     else res_bind (resolveKeyMaterial sha master) (\<lambda>key.
       case cy_encrypt cy key iv (str_or_empty value) of
         (ciphertext, authTag) \<Rightarrow> Inr (Some (ENCRYPTED_PREFIX @ encodePayload iv authTag ciphertext None))))"

definition unprotect :: "crypto \<Rightarrow> (string \<Rightarrow> string) \<Rightarrow> string option \<Rightarrow> string option \<Rightarrow> string option res" where
  "unprotect cy sha master value =
    (if \<not> truthy value \<or> \<not> hasEncryptedPrefix (str_or_empty value) then Inr value
     else (case split_on CHR '':'' (drop 5 (str_or_empty value)) of
             ivRaw # authTagRaw # ciphertextRaw # r \<Rightarrow>
               if ivRaw = [] \<or> authTagRaw = [] \<or> ciphertextRaw = [] then Inl (plain_error ''Encrypted value is malformed'')
               else res_bind (resolveKeyMaterial sha master) (\<lambda>key.
                 res_bind (aesgcmDecrypt cy key (from_base64 ivRaw, from_base64 authTagRaw, from_base64 ciphertextRaw)) (\<lambda>p. Inr (Some p)))
           | _ \<Rightarrow> Inl (plain_error ''Encrypted value is malformed'')))"

definition safeUnprotect :: "crypto \<Rightarrow> (string \<Rightarrow> string) \<Rightarrow> string option \<Rightarrow> string option \<Rightarrow> string option" where
  "safeUnprotect cy sha master value =
    (if \<not> truthy value \<or> \<not> hasEncryptedPrefix (str_or_empty value) then value
     else case unprotect cy sha master value of Inr v \<Rightarrow> v | Inl e \<Rightarrow> value)"

end
