(* ===== verification/EncryptionProperties.thy ===== *)
theory EncryptionProperties
  imports Encryption "HOL-Library.Multiset"
begin

section \<open>Properties of the encryption of tenant data\<close>

text \<open>
  What AES-256-GCM promises for keys of 32 and initialisation vectors of 12 bytes.
\<close>

definition gcm_laws :: "crypto \<Rightarrow> bool" where
  "gcm_laws cy \<longleftrightarrow> (\<forall>key iv p. length key = 32 \<longrightarrow> length iv = 12 \<longrightarrow>
    (case cy_encrypt cy key iv p of (c, tag) \<Rightarrow> tag \<noteq> [] \<and> (c = [] \<longleftrightarrow> p = []) \<and> cy_decrypt cy key iv tag c = Some p))"

subsection \<open>An instance for the witnesses\<close>

definition plain_crypto :: crypto where
  "plain_crypto = \<lparr>cy_encrypt = (\<lambda>key iv p. (p, key)), cy_decrypt = (\<lambda>key iv tag c. if tag = key then Some c else None)\<rparr>"

definition sample_env :: encryption_env where
  "sample_env = \<lparr>ee_crypto = plain_crypto, ee_master = Some (replicate 64 CHR ''0''), ee_provider = None\<rparr>"

definition sample_random :: random_bytes where
  "sample_random = \<lparr>rb_keyIv = replicate 12 CHR ''i'', rb_dek = replicate 32 CHR ''k'', rb_iv = replicate 12 CHR ''j''\<rparr>"

definition new_process :: "(string \<times> string) list \<Rightarrow> key_state" where
  "new_process keys = \<lparr>ks_keys = keys, ks_heap = (\<lambda>_. []), ks_next = 0, ks_cache = []\<rparr>"

definition sample_keys :: "(string \<times> string) list" where
  "sample_keys = ks_keys (fst (ensureTenantKey sample_env (rb_keyIv sample_random) (rb_dek sample_random) ''F1'' (new_process [])))"

definition sample_loaded :: key_state where
  "sample_loaded = fst (load_dek plain_crypto (ee_master sample_env) ''F1'' (new_process sample_keys))"

lemma plain_crypto_laws: "gcm_laws (ee_crypto sample_env)"
proof -
  have "length key = 32 \<Longrightarrow> key \<noteq> []" for key :: string by force
  then show ?thesis by (simp add: gcm_laws_def sample_env_def plain_crypto_def)
qed

lemma sample_env_ok:
  "loadMasterKey (ee_master sample_env) = Inr (replicate 32 CHR 0x00)" "getProvider sample_env = Inr ()"
  "length (rb_keyIv sample_random) = 12" "length (rb_dek sample_random) = 32" "length (rb_iv sample_random) = 12"
  by code_simp+

lemma sample_run:
  "key_run plain_crypto (ee_master sample_env) (new_process keys) []"
  "key_run plain_crypto (ee_master sample_env) sample_loaded [(0, ''F1'')]"
proof -
  show start: "key_run plain_crypto (ee_master sample_env) (new_process keys) []" for keys by (rule key_run.start) (simp add: new_process_def)
  have "plain_dek plain_crypto (ee_master sample_env) sample_keys ''F1'' = Inr (replicate 32 CHR ''k'')" by code_simp
  then have "load_dek plain_crypto (ee_master sample_env) ''F1'' (new_process sample_keys) = (sample_loaded, Inr 0)"
    by (simp add: load_dek_def sample_loaded_def alloc_def new_process_def)
  from key_run.load [OF start this] show "key_run plain_crypto (ee_master sample_env) sample_loaded [(0, ''F1'')]" .
qed

subsection \<open>Buffers are never shared\<close>

text \<open>
  \<open>held\<close> are the buffers of plain keys that running requests have been given, each with its tenant.  They are
  distinct, none of them is in the cache, and all hold the key of their tenant, as the cached ones do.
\<close>

definition running_ok :: "crypto \<Rightarrow> string option \<Rightarrow> key_state \<Rightarrow> (nat \<times> string) list \<Rightarrow> bool" where
  "running_ok cy master s held \<longleftrightarrow>
    distinct (map fst (ks_cache s)) \<and> distinct (map snd (ks_cache s)) \<and> length (ks_cache s) \<le> TENANT_KEY_CACHE_MAX_SIZE
    \<and> (\<forall>(t, a)\<in>set (ks_cache s). a < ks_next s \<and> plain_dek cy master (ks_keys s) t = Inr (ks_heap s a))
    \<and> distinct (map fst held)
    \<and> (\<forall>(a, t)\<in>set held. a < ks_next s \<and> a \<notin> snd ` set (ks_cache s) \<and> plain_dek cy master (ks_keys s) t = Inr (ks_heap s a))"

lemma running_okD:
  assumes "running_ok cy master s held"
  shows "distinct (map fst (ks_cache s))" "distinct (map snd (ks_cache s))" "length (ks_cache s) \<le> TENANT_KEY_CACHE_MAX_SIZE"
    "(t, a) \<in> set (ks_cache s) \<Longrightarrow> a < ks_next s \<and> plain_dek cy master (ks_keys s) t = Inr (ks_heap s a)"
    "distinct (map fst held)"
    "(b, u) \<in> set held \<Longrightarrow> b < ks_next s \<and> b \<notin> snd ` set (ks_cache s) \<and> plain_dek cy master (ks_keys s) u = Inr (ks_heap s b)"
  using assms unfolding running_ok_def by blast+

lemma key_state_simps [simp]:
  "ks_keys (fst (alloc b s)) = ks_keys s" "ks_cache (fst (alloc b s)) = ks_cache s" "ks_next (fst (alloc b s)) = ks_next s + 1"
  "snd (alloc b s) = ks_next s" "ks_heap (fst (alloc b s)) = (ks_heap s)(ks_next s := b)"
  "ks_keys (zeroBuffer a s) = ks_keys s" "ks_cache (zeroBuffer a s) = ks_cache s" "ks_next (zeroBuffer a s) = ks_next s"
  "x \<noteq> a \<Longrightarrow> ks_heap (zeroBuffer a s) x = ks_heap s x"
  "ks_keys (cache_delete t s) = ks_keys s" "ks_heap (cache_delete t s) = ks_heap s" "ks_next (cache_delete t s) = ks_next s"
  by (simp_all add: alloc_def zeroBuffer_def cache_delete_def)

lemma same_address: "distinct (map snd c) \<Longrightarrow> (t, a) \<in> set c \<Longrightarrow> (u, a) \<in> set c \<Longrightarrow> t = u"
  by (metis (mono_tags, lifting) distinct_map inj_on_eq_iff prod.inject snd_conv)

lemma same_tenant: "distinct (map fst c) \<Longrightarrow> (t, a) \<in> set c \<Longrightarrow> (t, b) \<in> set c \<Longrightarrow> a = b"
  by (metis eq_key_imp_eq_value)

lemma distinct_map_filter': "distinct (map f xs) \<Longrightarrow> distinct (map f (filter P xs))"
  by (simp add: distinct_map_filter)

lemma getCached_ok:
  assumes ok: "running_ok cy master s held" and eq: "getCachedDek t s = (s', Some n)"
  shows "running_ok cy master s' ((n, t) # held) \<and> ks_keys s' = ks_keys s"
proof -
  obtain a where a: "map_of (ks_cache s) t = Some a" using eq by (auto simp: getCachedDek_def split: option.splits)
  note D = running_okD [OF ok]
  have mem: "(t, a) \<in> set (ks_cache s)" by (rule map_of_SomeD [OF a])
  have s': "s' = fst (alloc (ks_heap s a) (s\<lparr>ks_cache := filter (\<lambda>(u, b). u \<noteq> t) (ks_cache s) @ [(t, a)]\<rparr>))" and n: "n = ks_next s"
    using eq a by (auto simp: getCachedDek_def cache_delete_def alloc_def Let_def)
  let ?c = "filter (\<lambda>(u, b). u \<noteq> t) (ks_cache s) @ [(t, a)]"
  have sub: "set ?c = set (ks_cache s)"
  proof
    show "set ?c \<subseteq> set (ks_cache s)" using mem by auto
    show "set (ks_cache s) \<subseteq> set ?c"
    proof (rule subsetI, clarify)
      fix u b
      assume ub: "(u, b) \<in> set (ks_cache s)"
      show "(u, b) \<in> set ?c"
      proof (cases "u = t")
        case True
        then have "a = b" using same_tenant [OF D(1) mem, of b] ub by blast
        then show ?thesis using True by simp
      qed (use ub in simp)
    qed
  qed
  have rest: "(u, a) \<in> set (ks_cache s) \<Longrightarrow> u = t" for u using same_address [OF D(2) mem] by blast
  have len: "length ?c \<le> TENANT_KEY_CACHE_MAX_SIZE"
  proof -
    have "length (filter (\<lambda>(u, b). u \<noteq> t) (ks_cache s)) < length (ks_cache s)" using mem by (intro length_filter_less) auto
    then show ?thesis using D(3) by simp
  qed
  have fresh: "\<forall>(u, b)\<in>set (ks_cache s). b < ks_next s" "\<forall>(b, u)\<in>set held. b < ks_next s" using D(4,6) by blast+
  have "distinct (map fst ?c)" using distinct_map_filter' [OF D(1)] by auto
  moreover have "distinct (map snd ?c)" using distinct_map_filter' [OF D(2)] rest by auto
  moreover have "\<forall>(u, b)\<in>set ?c. b < ks_next s' \<and> plain_dek cy master (ks_keys s') u = Inr (ks_heap s' b)"
    unfolding sub
  proof (rule ballI, clarify)
    fix u b
    assume "(u, b) \<in> set (ks_cache s)"
    then have "b < ks_next s \<and> plain_dek cy master (ks_keys s) u = Inr (ks_heap s b)" by (rule D(4))
    then show "b < ks_next s' \<and> plain_dek cy master (ks_keys s') u = Inr (ks_heap s' b)" by (simp add: s')
  qed
  moreover have "distinct (map fst ((n, t) # held))" using D(5) fresh(2) by (auto simp: n)
  moreover have "\<forall>(b, u)\<in>set ((n, t) # held). b < ks_next s' \<and> b \<notin> snd ` set ?c \<and> plain_dek cy master (ks_keys s') u = Inr (ks_heap s' b)"
    unfolding sub
  proof (rule ballI, clarify)
    fix b u
    assume "(b, u) \<in> set ((n, t) # held)"
    then consider "b = n" "u = t" | "(b, u) \<in> set held" by auto
    then show "b < ks_next s' \<and> b \<notin> snd ` set (ks_cache s) \<and> plain_dek cy master (ks_keys s') u = Inr (ks_heap s' b)"
    proof cases
      case 1
      have "n \<notin> snd ` set (ks_cache s)" using fresh(1) by (auto simp: n)
      then show ?thesis using 1 D(4) [OF mem] by (simp add: s' n)
    next
      case 2
      then show ?thesis using D(6) [OF 2] by (simp add: s')
    qed
  qed
  ultimately show ?thesis using len by (simp add: running_ok_def s')
qed

lemma getCached_None: "getCachedDek t s = (s', None) \<Longrightarrow> s' = s"
  by (auto simp: getCachedDek_def Let_def split: option.splits prod.splits)

lemma evict_spec:
  "\<exists>k. ks_cache (evict c s) = drop k c \<and> length (drop k c) \<le> TENANT_KEY_CACHE_MAX_SIZE
     \<and> ks_keys (evict c s) = ks_keys s \<and> ks_next (evict c s) = ks_next s
     \<and> (\<forall>a. a \<notin> snd ` set (take k c) \<longrightarrow> ks_heap (evict c s) a = ks_heap s a)"
proof (induction c s rule: evict.induct)
  case (1 s)
  show ?case by (rule exI [of _ 0]) simp
next
  case (2 t a c s)
  show ?case
  proof (cases "length ((t, a) # c) > TENANT_KEY_CACHE_MAX_SIZE")
    case True
    from 2 [OF this] obtain k where k: "ks_cache (evict c (zeroBuffer a s)) = drop k c" "length (drop k c) \<le> TENANT_KEY_CACHE_MAX_SIZE"
      "ks_keys (evict c (zeroBuffer a s)) = ks_keys (zeroBuffer a s)" "ks_next (evict c (zeroBuffer a s)) = ks_next (zeroBuffer a s)"
      "\<forall>b. b \<notin> snd ` set (take k c) \<longrightarrow> ks_heap (evict c (zeroBuffer a s)) b = ks_heap (zeroBuffer a s) b" by blast
    then show ?thesis using True by (intro exI [of _ "Suc k"]) simp
  next
    case False
    then show ?thesis by (intro exI [of _ 0]) simp
  qed
qed

text \<open>Storing a copy of a held key in the cache.\<close>

lemma dropped_previous:
  assumes ok: "running_ok cy master s held"
    and s1_def: "s1 = drop_previous t s"
  shows "running_ok cy master s1 held \<and> t \<notin> fst ` set (ks_cache s1) \<and> ks_keys s1 = ks_keys s \<and> ks_next s1 = ks_next s"
proof (cases "map_of (ks_cache s) t")
  case None
  then have "s1 = s" by (simp add: s1_def drop_previous_def)
  then show ?thesis using ok None by (simp add: map_of_eq_None_iff)
next
  case (Some p)
  note D = running_okD [OF ok]
  have mem: "(t, p) \<in> set (ks_cache s)" by (rule map_of_SomeD [OF Some])
  have c: "ks_cache s1 = filter (\<lambda>(u, b). u \<noteq> t) (ks_cache s)" by (simp add: s1_def drop_previous_def Some cache_delete_def)
  have heap: "b \<noteq> p \<Longrightarrow> ks_heap s1 b = ks_heap s b" for b by (simp add: s1_def drop_previous_def Some)
  have notin: "t \<notin> fst ` set (ks_cache s1)" unfolding c by auto
  have other: "(u, b) \<in> set (ks_cache s) \<Longrightarrow> u \<noteq> t \<Longrightarrow> b \<noteq> p" for u b using same_address [OF D(2) mem] by blast
  have nheld: "(b, u) \<in> set held \<Longrightarrow> b \<noteq> p" for b u using D(6) mem by force
  have "length (ks_cache s1) \<le> TENANT_KEY_CACHE_MAX_SIZE" using D(3) length_filter_le order_trans unfolding c by blast
  moreover have "ks_keys s1 = ks_keys s" "ks_next s1 = ks_next s" by (simp_all add: s1_def drop_previous_def Some)
  moreover have "\<forall>(u, b)\<in>set (ks_cache s1). b < ks_next s1 \<and> plain_dek cy master (ks_keys s1) u = Inr (ks_heap s1 b)"
  proof (rule ballI, clarify)
    fix u b
    assume "(u, b) \<in> set (ks_cache s1)"
    then have ub: "(u, b) \<in> set (ks_cache s)" "u \<noteq> t" by (simp_all add: c)
    show "b < ks_next s1 \<and> plain_dek cy master (ks_keys s1) u = Inr (ks_heap s1 b)"
      using D(4) [OF ub(1)] heap [OF other [OF ub]] calculation(2,3) by simp
  qed
  moreover have "\<forall>(b, u)\<in>set held. b < ks_next s1 \<and> b \<notin> snd ` set (ks_cache s1) \<and> plain_dek cy master (ks_keys s1) u = Inr (ks_heap s1 b)"
  proof (rule ballI, clarify)
    fix b u
    assume bu: "(b, u) \<in> set held"
    have "set (ks_cache s1) \<subseteq> set (ks_cache s)" unfolding c by auto
    then show "b < ks_next s1 \<and> b \<notin> snd ` set (ks_cache s1) \<and> plain_dek cy master (ks_keys s1) u = Inr (ks_heap s1 b)"
      using D(6) [OF bu] heap [OF nheld [OF bu]] calculation(2,3) by auto
  qed
  moreover have "distinct (map fst (ks_cache s1))" "distinct (map snd (ks_cache s1))"
    unfolding c using D(1,2) by (simp_all add: distinct_map_filter)
  ultimately show ?thesis using D(5) notin unfolding running_ok_def by blast
qed

lemma held_kept_by_drop:
  assumes ok: "running_ok cy master s held" and b: "b \<notin> snd ` set (ks_cache s)"
  shows "ks_heap (drop_previous t s) b = ks_heap s b"
proof (cases "map_of (ks_cache s) t")
  case None
  then show ?thesis by (simp add: drop_previous_def)
next
  case (Some p)
  then have "(t, p) \<in> set (ks_cache s)" by (rule map_of_SomeD)
  then have "b \<noteq> p" using b by force
  then show ?thesis by (simp add: drop_previous_def Some)
qed

lemma evict_ok:
  assumes c: "ks_cache s = c" and d: "distinct (map fst c)" "distinct (map snd c)"
    and cached: "\<forall>(t, a)\<in>set c. a < ks_next s \<and> plain_dek cy master (ks_keys s) t = Inr (ks_heap s a)"
    and h: "distinct (map fst held)"
    and held: "\<forall>(a, t)\<in>set held. a < ks_next s \<and> a \<notin> snd ` set c \<and> plain_dek cy master (ks_keys s) t = Inr (ks_heap s a)"
  shows "running_ok cy master (evict c s) held \<and> ks_keys (evict c s) = ks_keys s"
proof -
  obtain k where k: "ks_cache (evict c s) = drop k c" "length (drop k c) \<le> TENANT_KEY_CACHE_MAX_SIZE"
    "ks_keys (evict c s) = ks_keys s" "ks_next (evict c s) = ks_next s"
    "\<forall>a. a \<notin> snd ` set (take k c) \<longrightarrow> ks_heap (evict c s) a = ks_heap s a" using evict_spec [of c s] by blast
  have tk: "snd ` set (take k c) \<subseteq> snd ` set c" using set_take_subset [of k c] by blast
  have dk: "snd ` set (drop k c) \<subseteq> snd ` set c" "set (drop k c) \<subseteq> set c" using set_drop_subset [of k c] by blast+
  have "set (take k (map snd c)) \<inter> set (drop k (map snd c)) = {}" using set_take_disj_set_drop_if_distinct [OF d(2)] by simp
  then have disj: "(t, a) \<in> set (drop k c) \<Longrightarrow> a \<notin> snd ` set (take k c)" for t a
    by (force simp: take_map drop_map)
  have "\<forall>(t, a)\<in>set (drop k c). a < ks_next s \<and> plain_dek cy master (ks_keys s) t = Inr (ks_heap (evict c s) a)"
  proof (rule ballI, clarify)
    fix t a
    assume "(t, a) \<in> set (drop k c)"
    then show "a < ks_next s \<and> plain_dek cy master (ks_keys s) t = Inr (ks_heap (evict c s) a)"
      using cached dk(2) disj [of t a] k(5) by auto
  qed
  moreover have "\<forall>(a, t)\<in>set held. a < ks_next s \<and> a \<notin> snd ` set (drop k c) \<and> plain_dek cy master (ks_keys s) t = Inr (ks_heap (evict c s) a)"
  proof (rule ballI, clarify)
    fix a t
    assume "(a, t) \<in> set held"
    then have "a < ks_next s" "a \<notin> snd ` set c" "plain_dek cy master (ks_keys s) t = Inr (ks_heap s a)" using held by blast+
    moreover have "ks_heap (evict c s) a = ks_heap s a" using calculation(2) k(5) tk by blast
    moreover have "a \<notin> snd ` set (drop k c)" using calculation(2) dk(1) by blast
    ultimately show "a < ks_next s \<and> a \<notin> snd ` set (drop k c) \<and> plain_dek cy master (ks_keys s) t = Inr (ks_heap (evict c s) a)"
      by simp
  qed
  ultimately show ?thesis using k(1-4) h d by (simp add: running_ok_def drop_map [symmetric])
qed

lemma set_ok:
  assumes ok: "running_ok cy master s held" and a: "a < ks_next s" "a \<notin> snd ` set (ks_cache s)" "a \<notin> fst ` set held"
    and key: "plain_dek cy master (ks_keys s) t = Inr (ks_heap s a)"
  shows "running_ok cy master (setCachedDek t a s) ((a, t) # held) \<and> ks_keys (setCachedDek t a s) = ks_keys s"
proof -
  define s1 where "s1 = drop_previous t s"
  note d = dropped_previous [OF ok s1_def]
  then have ok1: "running_ok cy master s1 held" and t: "t \<notin> fst ` set (ks_cache s1)" and keys: "ks_keys s1 = ks_keys s"
    and nx: "ks_next s1 = ks_next s" by blast+
  have heap: "ks_heap s1 a = ks_heap s a" unfolding s1_def by (rule held_kept_by_drop [OF ok a(2)])
  have "set (ks_cache s1) \<subseteq> set (ks_cache s)" by (auto simp: s1_def drop_previous_def cache_delete_def zeroBuffer_def split: option.splits)
  then have a1: "a \<notin> snd ` set (ks_cache s1)" using a(2) by blast
  define c where "c = ks_cache s1 @ [(t, ks_next s1)]"
  define s3 where "s3 = (fst (alloc (ks_heap s1 a) s1))\<lparr>ks_cache := c\<rparr>"
  have set: "setCachedDek t a s = evict c s3"
    by (simp add: setCachedDek_def s3_def c_def Let_def alloc_def flip: s1_def)
  note D = running_okD [OF ok1]
  have sel: "ks_keys s3 = ks_keys s" "ks_next s3 = ks_next s1 + 1" "ks_heap s3 = (ks_heap s1)(ks_next s1 := ks_heap s a)" "ks_cache s3 = c"
    by (simp_all add: s3_def keys heap alloc_def)
  have fresh: "(u, b) \<in> set (ks_cache s1) \<Longrightarrow> b < ks_next s1" "(b, u) \<in> set held \<Longrightarrow> b < ks_next s1" for u b using D(4,6) by blast+
  have "running_ok cy master (evict c s3) ((a, t) # held) \<and> ks_keys (evict c s3) = ks_keys s3"
  proof (rule evict_ok [OF sel(4)])
    show "distinct (map fst c)" using D(1) t by (simp add: c_def)
    show "distinct (map snd c)" using D(2) fresh(1) by (fastforce simp: c_def)
    show "\<forall>(u, b)\<in>set c. b < ks_next s3 \<and> plain_dek cy master (ks_keys s3) u = Inr (ks_heap s3 b)"
    proof (rule ballI, clarify)
      fix u b
      assume "(u, b) \<in> set c"
      then show "b < ks_next s3 \<and> plain_dek cy master (ks_keys s3) u = Inr (ks_heap s3 b)"
        using D(4) [of u b] key unfolding c_def sel keys by auto
    qed
    show "distinct (map fst ((a, t) # held))" using D(5) a(3) by simp
    show "\<forall>(b, u)\<in>set ((a, t) # held). b < ks_next s3 \<and> b \<notin> snd ` set c \<and> plain_dek cy master (ks_keys s3) u = Inr (ks_heap s3 b)"
    proof (rule ballI, clarify)
      fix b u
      assume bu: "(b, u) \<in> set ((a, t) # held)"
      then have b: "b < ks_next s1 \<and> b \<notin> snd ` set (ks_cache s1) \<and> plain_dek cy master (ks_keys s) u = Inr (ks_heap s1 b)"
        using D(6) [of b u] a(1) a1 key nx heap keys by auto
      then have "b \<noteq> ks_next s1" by simp
      then show "b < ks_next s3 \<and> b \<notin> snd ` set c \<and> plain_dek cy master (ks_keys s3) u = Inr (ks_heap s3 b)"
        using b unfolding c_def sel by auto
    qed
  qed
  then show ?thesis by (simp add: set sel)
qed

lemma load_ok:
  assumes ok: "running_ok cy master s held" and eq: "load_dek cy master t s = (s', Inr n)"
  shows "running_ok cy master s' ((n, t) # held) \<and> ks_keys s' = ks_keys s"
proof -
  obtain bytes where b: "plain_dek cy master (ks_keys s) t = Inr bytes" using eq by (auto simp: load_dek_def split: sum.splits)
  define s1 where "s1 = fst (alloc bytes s)"
  have n: "n = ks_next s" and s': "s' = setCachedDek t n s1" using eq b by (auto simp: load_dek_def alloc_def s1_def)
  note D = running_okD [OF ok]
  have ok1: "running_ok cy master s1 held"
  proof -
    have "\<forall>(u, c)\<in>set (ks_cache s). c < ks_next s1 \<and> plain_dek cy master (ks_keys s1) u = Inr (ks_heap s1 c)"
    proof (rule ballI, clarify)
      fix u c
      assume "(u, c) \<in> set (ks_cache s)"
      from D(4) [OF this] show "c < ks_next s1 \<and> plain_dek cy master (ks_keys s1) u = Inr (ks_heap s1 c)" by (simp add: s1_def)
    qed
    moreover have "\<forall>(c, u)\<in>set held. c < ks_next s1 \<and> c \<notin> snd ` set (ks_cache s) \<and> plain_dek cy master (ks_keys s1) u = Inr (ks_heap s1 c)"
    proof (rule ballI, clarify)
      fix c u
      assume "(c, u) \<in> set held"
      from D(6) [OF this] show "c < ks_next s1 \<and> c \<notin> snd ` set (ks_cache s) \<and> plain_dek cy master (ks_keys s1) u = Inr (ks_heap s1 c)"
        by (simp add: s1_def)
    qed
    ultimately show ?thesis using D(1-3,5) by (simp add: running_ok_def s1_def)
  qed
  have "n \<notin> snd ` set (ks_cache s1)" using D(4) by (force simp: n s1_def)
  moreover have "n \<notin> fst ` set held" using D(6) by (force simp: n)
  ultimately have "running_ok cy master (setCachedDek t n s1) ((n, t) # held) \<and> ks_keys (setCachedDek t n s1) = ks_keys s1"
    using b by (intro set_ok [OF ok1]) (simp_all add: n s1_def)
  then show ?thesis by (simp add: s' s1_def)
qed

text \<open>So whichever way a request gets its key, it holds the key of its tenant in a buffer of its own.\<close>

lemma unwrap_ok:
  assumes ok: "running_ok cy master s held" and eq: "unwrapDek cy master t s = (s', Inr n)"
  shows "running_ok cy master s' ((n, t) # held) \<and> ks_keys s' = ks_keys s"
proof (cases "getCachedDek t s")
  case (Pair s1 r)
  show ?thesis
  proof (cases r)
    case None
    then have "s1 = s" using getCached_None Pair by blast
    then show ?thesis using load_ok [OF ok] eq Pair None by (simp add: unwrapDek_def)
  next
    case (Some n')
    then show ?thesis using getCached_ok [OF ok] eq Pair by (simp add: unwrapDek_def)
  qed
qed

lemma unwrap_error:
  assumes "unwrapDek cy master t s = (s', Inl e)"
  shows "s' = s \<and> plain_dek cy master (ks_keys s) t = Inl e"
proof (cases "getCachedDek t s")
  case (Pair s1 r)
  show ?thesis
  proof (cases r)
    case None
    then have "s1 = s" using getCached_None Pair by blast
    then show ?thesis using assms Pair None by (auto simp: unwrapDek_def load_dek_def alloc_def split: sum.splits)
  next
    case (Some n')
    then show ?thesis using assms Pair by (simp add: unwrapDek_def)
  qed
qed

lemma zero_ok:
  assumes ok: "running_ok cy master s ((n, t) # held)"
  shows "running_ok cy master (zeroBuffer n s) held"
proof -
  note D = running_okD [OF ok]
  have n: "n \<notin> snd ` set (ks_cache s)" using D(6) [of n t] by simp
  have nh: "n \<notin> fst ` set held" using D(5) by simp
  have "\<forall>(u, b)\<in>set (ks_cache s). b < ks_next s \<and> plain_dek cy master (ks_keys s) u = Inr (ks_heap (zeroBuffer n s) b)"
  proof (rule ballI, clarify)
    fix u b
    assume ub: "(u, b) \<in> set (ks_cache s)"
    then have "b \<noteq> n" using n by force
    then show "b < ks_next s \<and> plain_dek cy master (ks_keys s) u = Inr (ks_heap (zeroBuffer n s) b)" using D(4) [OF ub] by simp
  qed
  moreover have "\<forall>(b, u)\<in>set held. b < ks_next s \<and> b \<notin> snd ` set (ks_cache s) \<and> plain_dek cy master (ks_keys s) u = Inr (ks_heap (zeroBuffer n s) b)"
  proof (rule ballI, clarify)
    fix b u
    assume bu: "(b, u) \<in> set held"
    then have "b \<noteq> n" using nh by force
    then show "b < ks_next s \<and> b \<notin> snd ` set (ks_cache s) \<and> plain_dek cy master (ks_keys s) u = Inr (ks_heap (zeroBuffer n s) b)"
      using D(6) [of b u] bu by simp
  qed
  ultimately show ?thesis using D(1-3,5) by (simp add: running_ok_def)
qed

lemma plain_dek_append: "plain_dek cy master keys t = Inr b \<Longrightarrow> plain_dek cy master (keys @ [k]) t = Inr b"
  by (cases k) (auto simp: plain_dek_def map_add_def split: option.splits)

lemma generate_ok:
  assumes ok: "running_ok cy master s held"
  shows "running_ok cy master (fst (generateTenantKey cy master iv dek t s)) held"
proof -
  have app: "running_ok cy master (s\<lparr>ks_keys := ks_keys s @ [k]\<rparr>) held" for k
    using ok unfolding running_ok_def by (auto simp: plain_dek_append case_prod_beta)
  show ?thesis using ok app by (simp add: generateTenantKey_def split: sum.splits option.splits)
qed

lemma running_ok_perm: "mset held = mset held' \<Longrightarrow> running_ok cy master s held \<Longrightarrow> running_ok cy master s held'"
proof -
  assume eq: "mset held = mset held'" and ok: "running_ok cy master s held"
  have "set held = set held'" by (rule mset_eq_setD [OF eq])
  moreover have "distinct (map fst held) = distinct (map fst held')" by (rule mset_eq_imp_distinct_iff) (simp add: eq)
  ultimately show "running_ok cy master s held'" using ok by (simp add: running_ok_def)
qed

lemma key_run_ok: "key_run cy master s held \<Longrightarrow> running_ok cy master s held"
proof (induction rule: key_run.induct)
  case (start s)
  then show ?case by (simp add: running_ok_def)
next
  case (hit s held t s1 a)
  then show ?case using getCached_ok by blast
next
  case (load s held t s1 a)
  then show ?case using load_ok by blast
next
  case (finish s before a t later)
  have "running_ok cy master s ((a, t) # before @ later)" by (rule running_ok_perm [OF _ finish.IH]) simp
  then show ?case by (rule zero_ok)
next
  case (create s held iv dek t)
  then show ?case using generate_ok by blast
qed

text \<open>
  C22. However the requests of a process interleave, the buffer a request was given holds the key of its tenant until the
  request itself overwrites it: no other request's \<open>finally\<close> block, no eviction from the cache and no replacement of a
  cached key touches it; and the cache never holds more than 500 keys.
\<close>

theorem key_buffers_intact:
  assumes "key_run cy master s held"
  shows "length (ks_cache s) \<le> 500 \<and> distinct (map fst held)
    \<and> (\<forall>i<length held. plain_dek cy master (ks_keys s) (snd (held ! i)) = Inr (ks_heap s (fst (held ! i))))"
proof -
  note D = running_okD [OF key_run_ok [OF assms]]
  have "plain_dek cy master (ks_keys s) (snd (held ! i)) = Inr (ks_heap s (fst (held ! i)))" if "i < length held" for i
    using D(6) [of "fst (held ! i)" "snd (held ! i)"] nth_mem [OF that] by simp
  then show ?thesis using D(3,5) by (simp add: TENANT_KEY_CACHE_MAX_SIZE_def)
qed

lemma key_buffers_intact_witness:
  "length (ks_cache sample_loaded) \<le> 500 \<and> plain_dek plain_crypto (ee_master sample_env) (ks_keys sample_loaded) ''F1'' = Inr (ks_heap sample_loaded 0)"
  using key_buffers_intact [OF sample_run(2)] by simp

lemma key_run_unwrap: "key_run cy master s held \<Longrightarrow> unwrapDek cy master t s = (s', Inr a) \<Longrightarrow> key_run cy master s' ((a, t) # held)"
proof (cases "getCachedDek t s")
  case (Pair s1 r)
  assume run: "key_run cy master s held" and eq: "unwrapDek cy master t s = (s', Inr a)"
  show ?thesis
  proof (cases r)
    case None
    then have "s1 = s" using getCached_None Pair by blast
    then have "load_dek cy master t s = (s', Inr a)" using eq Pair None by (simp add: unwrapDek_def)
    with run show ?thesis by (rule key_run.load)
  next
    case (Some b)
    then have "getCachedDek t s = (s', Some a)" using eq Pair by (simp add: unwrapDek_def)
    with run show ?thesis by (rule key_run.hit)
  qed
qed

text \<open>One operation of the provider: its result, the keys it leaves and the buffers that stay held.\<close>

lemma provider_encrypt_spec:
  assumes "key_run cy master s held" and "provider_encrypt cy master iv p t s = (s', r)"
  shows "r = spec_encrypt cy master (ks_keys s) iv p t \<and> key_run cy master s' held \<and> ks_keys s' = ks_keys s"
proof (cases "t = []")
  case True
  then show ?thesis using assms by (simp add: provider_encrypt_def spec_encrypt_def)
next
  case False
  obtain s1 u where u: "unwrapDek cy master t s = (s1, u)" by fastforce
  show ?thesis
  proof (cases u)
    case (Inl e)
    then have e: "s1 = s \<and> plain_dek cy master (ks_keys s) t = Inl e" using unwrap_error u by blast
    have "r = Inl e \<and> s' = s" using assms(2) u Inl e False by (simp add: provider_encrypt_def)
    then show ?thesis using e assms(1) False by (simp add: spec_encrypt_def)
  next
    case (Inr a)
    have ok: "running_ok cy master s1 ((a, t) # held)" "ks_keys s1 = ks_keys s"
      using unwrap_ok [OF key_run_ok [OF assms(1)]] u Inr by blast+
    have "key_run cy master s1 ([] @ (a, t) # held)" using key_run_unwrap [OF assms(1)] u Inr by simp
    from key_run.finish [OF this] have "key_run cy master (zeroBuffer a s1) held" by simp
    then show ?thesis using ok(2) running_okD(6) [OF ok(1), of a t] u Inr assms(2) False
      by (auto simp: provider_encrypt_def spec_encrypt_def)
  qed
qed

lemma provider_decrypt_spec:
  assumes "key_run cy master s held" and "provider_decrypt cy master c t s = (s', r)"
  shows "r = spec_decrypt cy master (ks_keys s) c t \<and> key_run cy master s' held \<and> ks_keys s' = ks_keys s"
proof (cases "t = []")
  case True
  then show ?thesis using assms by (simp add: provider_decrypt_def spec_decrypt_def)
next
  case False
  obtain s1 u where u: "unwrapDek cy master t s = (s1, u)" by fastforce
  show ?thesis
  proof (cases u)
    case (Inl e)
    then have e: "s1 = s \<and> plain_dek cy master (ks_keys s) t = Inl e" using unwrap_error u by blast
    have "r = Inl e \<and> s' = s" using assms(2) u Inl e False by (simp add: provider_decrypt_def)
    then show ?thesis using e assms(1) False by (simp add: spec_decrypt_def)
  next
    case (Inr a)
    have ok: "running_ok cy master s1 ((a, t) # held)" "ks_keys s1 = ks_keys s"
      using unwrap_ok [OF key_run_ok [OF assms(1)]] u Inr by blast+
    have "key_run cy master s1 ([] @ (a, t) # held)" using key_run_unwrap [OF assms(1)] u Inr by simp
    from key_run.finish [OF this] have "key_run cy master (zeroBuffer a s1) held" by simp
    then show ?thesis using ok(2) running_okD(6) [OF ok(1), of a t] u Inr assms(2) False
      by (auto simp: provider_decrypt_def spec_decrypt_def)
  qed
qed

text \<open>
  C23. The provider with its cache of keys and its zeroed buffers computes what the provider without them computes: in every
  state a process can reach, encryption and decryption give the result of \<open>spec_encrypt\<close> and \<open>spec_decrypt\<close>, errors
  included, and leave the keys as they are and the other requests' buffers held.
\<close>

theorem provider_refines:
  assumes "key_run cy master s held"
  shows "snd (provider_encrypt cy master iv p t s) = spec_encrypt cy master (ks_keys s) iv p t
    \<and> snd (provider_decrypt cy master c t s) = spec_decrypt cy master (ks_keys s) c t
    \<and> key_run cy master (fst (provider_encrypt cy master iv p t s)) held
    \<and> key_run cy master (fst (provider_decrypt cy master c t s)) held"
  using provider_encrypt_spec [OF assms prod.collapse [symmetric], of iv p t] provider_decrypt_spec [OF assms prod.collapse [symmetric], of c t]
  by blast

lemma provider_refines_witness:
  "snd (provider_encrypt plain_crypto (ee_master sample_env) ''iv'' ''text'' ''F1'' sample_loaded)
    = spec_encrypt plain_crypto (ee_master sample_env) (ks_keys sample_loaded) ''iv'' ''text'' ''F1''"
  using provider_refines [OF sample_run(2)] by blast

subsection \<open>Payloads\<close>

lemma colon_not_b64: "b64_text c \<Longrightarrow> c \<noteq> CHR '':''"
  by (auto simp: b64_text_def b64_index_def Let_def)

lemma no_colon [simp]: "CHR '':'' \<notin> set (to_base64 b)"
  using to_base64_text [of b] colon_not_b64 by (auto simp: list_all_iff)

lemma parts_of_payload:
  "split_on CHR '':'' (to_base64 iv @ CHR '':'' # to_base64 tag @ CHR '':'' # to_base64 c) = [to_base64 iv, to_base64 tag, to_base64 c]"
  by (simp add: split_on_sep split_on_none)

lemma payload_parts_encode [simp]:
  "payload_parts (encodePayload iv tag c (Some PAYLOAD_VERSION)) = [to_base64 iv, to_base64 tag, to_base64 c]"
  "payload_parts (encodePayload iv tag c None) = [to_base64 iv, to_base64 tag, to_base64 c]"
proof -
  have "split_on CHR '':'' (''v1'' @ CHR '':'' # to_base64 iv @ CHR '':'' # to_base64 tag @ CHR '':'' # to_base64 c) =
    ''v1'' # [to_base64 iv, to_base64 tag, to_base64 c]"
    using split_on_sep [of "CHR '':''" "''v1''"] by (simp add: parts_of_payload)
  then show "payload_parts (encodePayload iv tag c (Some PAYLOAD_VERSION)) = [to_base64 iv, to_base64 tag, to_base64 c]"
    by (simp add: payload_parts_def encodePayload_def Let_def PAYLOAD_VERSION_def truthy_def str_or_empty_def)
  have "to_base64 iv \<noteq> ''v1''"
  proof
    assume "to_base64 iv = ''v1''"
    then have "length (to_base64 iv) mod 4 = 2" by simp
    then show False by (simp only: length_to_base64)
  qed
  then show "payload_parts (encodePayload iv tag c None) = [to_base64 iv, to_base64 tag, to_base64 c]"
    by (simp add: payload_parts_def encodePayload_def Let_def PAYLOAD_VERSION_def parts_of_payload)
qed

lemma decode_encode [simp]:
  "decodePayload (encodePayload iv tag c (Some PAYLOAD_VERSION)) = Inr (iv, tag, c)"
  "decodePayload (encodePayload iv tag c None) = Inr (iv, tag, c)"
  by (simp_all add: decodePayload_def)

lemma looks_encoded [simp]:
  "looksEncrypted (encodePayload iv tag c (Some PAYLOAD_VERSION)) \<longleftrightarrow> iv \<noteq> [] \<and> tag \<noteq> [] \<and> c \<noteq> []"
  by (simp add: looksEncrypted_def to_base64_text)

lemma encoded_not_Nil: "encodePayload iv tag c (Some PAYLOAD_VERSION) \<noteq> []"
  by (simp add: encodePayload_def Let_def PAYLOAD_VERSION_def truthy_def)

subsection \<open>Saving and reading\<close>

text \<open>The stored keys are data keys of 32 bytes that the code has encrypted with the master key \<open>mk\<close>.\<close>

definition generated_key :: "crypto \<Rightarrow> string \<Rightarrow> string \<Rightarrow> bool" where
  "generated_key cy mk k \<longleftrightarrow>
    (\<exists>iv dek version. length iv = 12 \<and> length dek = 32 \<and> version \<in> {None, Some PAYLOAD_VERSION} \<and> k = encrypted_payload cy mk iv dek version)"

lemma gcm_lawsD:
  assumes "gcm_laws cy" "length key = 32" "length iv = 12" "cy_encrypt cy key iv p = (c, tag)"
  shows "tag \<noteq> []" "c = [] \<longleftrightarrow> p = []" "cy_decrypt cy key iv tag c = Some p"
proof -
  have "case cy_encrypt cy key iv p of (c, tag) \<Rightarrow> tag \<noteq> [] \<and> (c = [] \<longleftrightarrow> p = []) \<and> cy_decrypt cy key iv tag c = Some p"
    by (rule assms(1) [unfolded gcm_laws_def, rule_format, OF assms(2,3)])
  then show "tag \<noteq> []" "c = [] \<longleftrightarrow> p = []" "cy_decrypt cy key iv tag c = Some p" unfolding assms(4) by simp_all
qed

lemma payload_decrypts:
  assumes "gcm_laws cy" "length key = 32" "length iv = 12" "version \<in> {None, Some PAYLOAD_VERSION}"
  shows "res_bind (decodePayload (encrypted_payload cy key iv p version)) (aesgcmDecrypt cy key) = Inr p"
proof -
  obtain c tag where e: "cy_encrypt cy key iv p = (c, tag)" by fastforce
  note gcm_lawsD(3) [OF assms(1-3) e]
  then show ?thesis using assms(4) by (auto simp: encrypted_payload_def e aesgcmDecrypt_def)
qed

lemma payload_looks:
  assumes "gcm_laws cy" "length key = 32" "length iv = 12"
  shows "looksEncrypted (encrypted_payload cy key iv p (Some PAYLOAD_VERSION)) \<longleftrightarrow> p \<noteq> []"
proof -
  obtain c tag where e: "cy_encrypt cy key iv p = (c, tag)" by fastforce
  note gcm_lawsD(1,2) [OF assms e]
  moreover have "iv \<noteq> []" using assms(3) by force
  ultimately show ?thesis by (simp add: encrypted_payload_def e)
qed

lemma payload_not_Nil: "encrypted_payload cy key iv p (Some PAYLOAD_VERSION) \<noteq> []"
  by (simp add: encrypted_payload_def encoded_not_Nil split: prod.splits)

lemma master_length: "loadMasterKey master = Inr mk \<Longrightarrow> length mk = 32 \<and> truthy master"
  by (auto simp: loadMasterKey_def Let_def KEY_LENGTH_def split: if_splits)

lemma generated_opens:
  assumes "gcm_laws cy" "loadMasterKey master = Inr mk" "map_of keys t = Some k" "generated_key cy mk k"
  shows "\<exists>dek. plain_dek cy master keys t = Inr dek \<and> length dek = 32"
proof -
  from assms(4) obtain iv dek version where k: "length iv = 12" "length dek = 32" "version \<in> {None, Some PAYLOAD_VERSION}"
    "k = encrypted_payload cy mk iv dek version" unfolding generated_key_def by blast
  have "plain_dek cy master keys t = Inr dek"
    using assms(2,3) k payload_decrypts [OF assms(1) _ k(1,3), of mk dek] master_length [OF assms(2)] by (simp add: plain_dek_def)
  then show ?thesis using k(2) by blast
qed

lemma ensured:
  assumes laws: "gcm_laws (ee_crypto env)" and master: "loadMasterKey (ee_master env) = Inr mk" and prov: "getProvider env = Inr ()"
    and run: "key_run (ee_crypto env) (ee_master env) s held" and t: "t \<noteq> []"
    and len: "length iv = 12" "length dek = 32" and keys: "\<forall>(u, k)\<in>set (ks_keys s). generated_key (ee_crypto env) mk k"
  shows "\<exists>s1 key. ensureTenantKey env iv dek t s = (s1, Inr ()) \<and> key_run (ee_crypto env) (ee_master env) s1 held
    \<and> plain_dek (ee_crypto env) (ee_master env) (ks_keys s1) t = Inr key \<and> length key = 32"
proof -
  define s1 where "s1 = fst (generateTenantKey (ee_crypto env) (ee_master env) iv dek t s)"
  have e: "ensureTenantKey env iv dek t s = (s1, Inr ())"
    using t prov master by (simp add: ensureTenantKey_def generateTenantKey_def s1_def split: option.splits)
  have run1: "key_run (ee_crypto env) (ee_master env) s1 held" unfolding s1_def by (rule key_run.create [OF run])
  show ?thesis
  proof (cases "map_of (ks_keys s) t")
    case (Some k)
    then have "s1 = s" using t master by (simp add: s1_def generateTenantKey_def)
    moreover have "generated_key (ee_crypto env) mk k" using map_of_SomeD [OF Some] keys by blast
    ultimately show ?thesis using e run1 generated_opens [OF laws master Some] by blast
  next
    case None
    let ?k = "encrypted_payload (ee_crypto env) mk iv dek None"
    have "ks_keys s1 = ks_keys s @ [(t, ?k)]" using t master None by (simp add: s1_def generateTenantKey_def)
    then have m: "map_of (ks_keys s1) t = Some ?k" using None by (simp add: map_add_def)
    have "generated_key (ee_crypto env) mk ?k" unfolding generated_key_def using len by blast
    then show ?thesis using e run1 generated_opens [OF laws master m] by blast
  qed
qed

lemma saved_payload:
  assumes laws: "gcm_laws (ee_crypto env)" and master: "loadMasterKey (ee_master env) = Inr mk" and prov: "getProvider env = Inr ()"
    and run: "key_run (ee_crypto env) (ee_master env) s held" and t: "t \<noteq> []"
    and len: "length (rb_keyIv r) = 12" "length (rb_dek r) = 32" "length (rb_iv r) = 12"
    and keys: "\<forall>(u, k)\<in>set (ks_keys s). generated_key (ee_crypto env) mk k"
    and v: "\<not> looksEncrypted v" and saved: "encrypt_stored env r t (Some v) s = (s1, stored)"
  shows "\<exists>key. stored = Inr (Some (encrypted_payload (ee_crypto env) key (rb_iv r) v (Some PAYLOAD_VERSION)))
    \<and> plain_dek (ee_crypto env) (ee_master env) (ks_keys s1) t = Inr key \<and> length key = 32"
proof -
  from ensured [OF laws master prov run t len(1,2) keys] obtain s2 key where s2: "ensureTenantKey env (rb_keyIv r) (rb_dek r) t s = (s2, Inr ())"
    "key_run (ee_crypto env) (ee_master env) s2 held" "plain_dek (ee_crypto env) (ee_master env) (ks_keys s2) t = Inr key" "length key = 32" by blast
  obtain s3 x where x: "provider_encrypt (ee_crypto env) (ee_master env) (rb_iv r) v t s2 = (s3, x)" by fastforce
  have p: "x = spec_encrypt (ee_crypto env) (ee_master env) (ks_keys s2) (rb_iv r) v t \<and> key_run (ee_crypto env) (ee_master env) s3 held \<and> ks_keys s3 = ks_keys s2"
    by (rule provider_encrypt_spec [OF s2(2) x])
  then have "x = Inr (encrypted_payload (ee_crypto env) key (rb_iv r) v (Some PAYLOAD_VERSION))" using s2(3) t by (simp add: spec_encrypt_def)
  then have "s1 = s3 \<and> stored = Inr (Some (encrypted_payload (ee_crypto env) key (rb_iv r) v (Some PAYLOAD_VERSION)))"
    using saved s2(1) x v t prov by (simp add: encrypt_stored_def encrypt_def)
  then show ?thesis using p s2(3,4) by auto
qed

lemma plain_dek_more: "plain_dek cy master keys t = Inr b \<Longrightarrow> plain_dek cy master (keys @ rest) t = Inr b"
  by (auto simp: plain_dek_def map_add_def split: option.splits)

lemma decrypt_payload:
  assumes laws: "gcm_laws (ee_crypto env)" and prov: "getProvider env = Inr ()" and run: "key_run (ee_crypto env) (ee_master env) s held"
    and t: "t \<noteq> []" and key: "plain_dek (ee_crypto env) (ee_master env) (ks_keys s) t = Inr key" "length key = 32" and iv: "length iv = 12"
    and v: "v \<noteq> []" and role: "\<not> truthy role"
  shows "snd (decrypt env field role (Some (encrypted_payload (ee_crypto env) key iv v (Some PAYLOAD_VERSION))) t s) = Inr (Some v)"
proof -
  let ?c = "encrypted_payload (ee_crypto env) key iv v (Some PAYLOAD_VERSION)"
  obtain s1 x where x: "provider_decrypt (ee_crypto env) (ee_master env) ?c t s = (s1, x)" by fastforce
  have "x = spec_decrypt (ee_crypto env) (ee_master env) (ks_keys s) ?c t" using provider_decrypt_spec [OF run x] by blast
  then have "x = Inr v" using key(1) t payload_decrypts [OF laws key(2) iv, of "Some PAYLOAD_VERSION" v] by (simp add: spec_decrypt_def)
  then show ?thesis using payload_looks [OF laws key(2) iv, of v] v x t prov role by (simp add: decrypt_def)
qed



text \<open>
  C25. The empty description is not read back.  It is encrypted like any other, but to a payload with an empty last
  part, which the code does not take for a payload: every read hands out the stored payload \<open>v1:...:...:\<close> as
  the description of the docket.
\<close>

theorem empty_description_garbled:
  assumes laws: "gcm_laws (ee_crypto env)" and master: "loadMasterKey (ee_master env) = Inr mk" and prov: "getProvider env = Inr ()"
    and run: "key_run (ee_crypto env) (ee_master env) s held" and firm: "firm \<noteq> []"
    and len: "length (rb_keyIv r) = 12" "length (rb_dek r) = 32" "length (rb_iv r) = 12"
    and keys: "\<forall>(u, k)\<in>set (ks_keys s). generated_key (ee_crypto env) mk k" and role: "guardSuperadmin role = Inr ()"
    and saved: "encrypt_case_description env r (Some firm) (Some []) s = (s1, stored)"
  shows "\<exists>c. stored = Inr (Some c) \<and> c \<noteq> [] \<and> read_case_description env role (Some firm) (Some c) s2 = (s2, Inr (Some c))"
proof -
  have m: "truthy (ee_master env)" "truthy (Some firm)" using master_length [OF master] firm by (simp_all add: truthy_def)
  then have e: "encrypt_stored env r firm (Some []) s = (s1, stored)" using saved by (simp add: encrypt_case_description_def str_or_empty_def)
  have nl: "\<not> looksEncrypted []" by (simp add: looksEncrypted_def payload_parts_def PAYLOAD_VERSION_def Let_def)
  from saved_payload [OF laws master prov run firm len keys nl e] obtain key
    where key: "stored = Inr (Some (encrypted_payload (ee_crypto env) key (rb_iv r) [] (Some PAYLOAD_VERSION)))" "length key = 32" by blast
  let ?c = "encrypted_payload (ee_crypto env) key (rb_iv r) [] (Some PAYLOAD_VERSION)"
  have "\<not> looksEncrypted ?c" using payload_looks [OF laws key(2) len(3)] by blast
  then have "read_case_description env role (Some firm) (Some ?c) s2 = (s2, Inr (Some ?c))"
    by (simp add: read_case_description_def decryptCaseDescription_def role m)
  then show ?thesis using key(1) payload_not_Nil by (intro exI [of _ ?c] conjI)
qed

lemma empty_description_garbled_witness:
  "\<exists>c. snd (encrypt_case_description sample_env sample_random (Some ''F1'') (Some []) (new_process [])) = Inr (Some c) \<and> c \<noteq> []
    \<and> read_case_description sample_env (Some ''EMPLOYEE'') (Some ''F1'') (Some c) (new_process []) = (new_process [], Inr (Some c))"
proof -
  have crypto: "ee_crypto sample_env = plain_crypto" by (simp add: sample_env_def)
  have role: "guardSuperadmin (Some ''EMPLOYEE'') = Inr ()" by code_simp
  have no: "\<forall>(u, k)\<in>set (ks_keys (new_process [])). generated_key (ee_crypto sample_env) mk k" for mk by (simp add: new_process_def)
  show ?thesis
    by (rule empty_description_garbled [OF plain_crypto_laws sample_env_ok(1,2) sample_run(1) [folded crypto] _ sample_env_ok(3-5) no role
          prod.collapse [symmetric]]) simp
qed

text \<open>
  A text of three parts that are written in the alphabet of base 64 is taken for a payload.  A time of day is such a text:
  it is stored as it is, not encrypted.
\<close>

lemma time_stored_in_clear:
  "snd (encrypt_case_description sample_env sample_random (Some ''F1'') (Some ''12:30:45'') (new_process [])) = Inr (Some ''12:30:45'')"
proof -
  have "looksEncrypted ''12:30:45''" by code_simp
  moreover obtain s1 where "ensureTenantKey sample_env (rb_keyIv sample_random) (rb_dek sample_random) ''F1'' (new_process []) = (s1, Inr ())"
    using sample_env_ok(1,2) by (auto simp: ensureTenantKey_def generateTenantKey_def new_process_def)
  moreover have "truthy (ee_master sample_env)" by code_simp
  ultimately show ?thesis by (simp add: encrypt_case_description_def encrypt_stored_def str_or_empty_def truthy_def)
qed

text \<open>A protected setting is read back.\<close>

lemma protect_roundtrip:
  assumes laws: "gcm_laws cy" and key: "resolveKeyMaterial sha master = Inr key" "length key = 32" and iv: "length iv = 12"
    and v: "v \<noteq> []" "\<not> hasEncryptedPrefix v"
  shows "\<exists>c. protect cy sha master iv (Some v) = Inr (Some c) \<and> unprotect cy sha master (Some c) = Inr (Some v) \<and> safeUnprotect cy sha master (Some c) = Some v"
proof -
  obtain c tag where e: "cy_encrypt cy key iv v = (c, tag)" by fastforce
  let ?c = "ENCRYPTED_PREFIX @ encodePayload iv tag c None"
  have ne: "tag \<noteq> []" "c \<noteq> []" "iv \<noteq> []" using gcm_lawsD(1,2) [OF laws key(2) iv e] v(1) iv by force+
  have p: "protect cy sha master iv (Some v) = Inr (Some ?c)" using key(1) v e by (simp add: protect_def truthy_def str_or_empty_def)
  have pre: "hasEncryptedPrefix ?c" "drop 5 ?c = encodePayload iv tag c None" "?c \<noteq> []"
    by (simp_all add: hasEncryptedPrefix_def ENCRYPTED_PREFIX_def)
  have "split_on CHR '':'' (encodePayload iv tag c None) = [to_base64 iv, to_base64 tag, to_base64 c]"
    by (simp add: encodePayload_def Let_def parts_of_payload truthy_def)
  then have u: "unprotect cy sha master (Some ?c) = Inr (Some v)"
    using pre ne key(1) gcm_lawsD(3) [OF laws key(2) iv e] by (simp add: unprotect_def truthy_def str_or_empty_def aesgcmDecrypt_def)
  then have "safeUnprotect cy sha master (Some ?c) = Some v" using pre by (simp add: safeUnprotect_def truthy_def str_or_empty_def)
  then show ?thesis using p u by (intro exI [of _ ?c] conjI)
qed

end
