(* ===== verification/DocketAudit.thy ===== *)
theory DocketAudit
  imports DocketHandlers Decimal CivilDate "HOL-Library.Char_ord"
begin

section \<open>The audit trail of a docket\<close>

text \<open>
  \<open>services/docketAudit.service.js\<close>: what is recorded of a change (\<open>sanitizeValue\<close>, \<open>diffFields\<close>), the two
  collections it goes to (\<open>models/DocketAudit.model.js\<close>, \<open>models/DocketAuditLog.model.js\<close>) and the pages it is read in.
  Values are trees \<open>json\<close>; \<open>null\<close> and \<open>undefined\<close> are \<open>JNull\<close>, objects are lists of their entries in order.  The SHA-256 digest
  is an argument.
\<close>

datatype json = JNull | JBool bool | JNum int | JStr string | JDate int | JArr "json list" | JObj "(string \<times> json) list"

type_synonym json_object = "(string \<times> json) list"

definition obj_get :: "string \<Rightarrow> json_object \<Rightarrow> json" where
  "obj_get k o1 = (case map_of o1 k of None \<Rightarrow> JNull | Some v \<Rightarrow> v)"

text \<open>Setting a key keeps the place of one that is there.\<close>

fun obj_put :: "string \<Rightarrow> json \<Rightarrow> json_object \<Rightarrow> json_object" where
  "obj_put k v [] = [(k, v)]"
| "obj_put k v ((l, w) # r) = (if l = k then (k, v) # r else (l, w) # obj_put k v r)"

definition json_text :: "string option \<Rightarrow> json" where
  "json_text v = (case v of None \<Rightarrow> JNull | Some s \<Rightarrow> JStr s)"

text \<open>\<open>toISOString\<close> for the years 0 to 9999.\<close>

definition toISOString :: "int \<Rightarrow> string" where
  "toISOString t =
    (case civil (t div DAY_MS) of (y, m, d) \<Rightarrow>
       let ms = t mod DAY_MS
       in padded 4 (nat y) @ ''-'' @ padded 2 (nat (m + 1)) @ ''-'' @ padded 2 (nat d) @ ''T'' @ padded 2 (nat (ms div 3600000)) @ '':''
          @ padded 2 (nat (ms div 60000 mod 60)) @ '':'' @ padded 2 (nat (ms div 1000 mod 60)) @ ''.'' @ padded 3 (nat (ms mod 1000)) @ ''Z'')"

subsection \<open>Values that are recorded\<close>

definition MAX_VALUE_LENGTH :: nat where
  "MAX_VALUE_LENGTH = 300"

definition SENSITIVE_FIELD_FRAGMENTS :: "string list" where
  "SENSITIVE_FIELD_FRAGMENTS = [''password'', ''token'', ''secret'', ''auth'', ''cookie'', ''payload'', ''pan'', ''gst'', ''cin'']"

definition isSensitiveField :: "string \<Rightarrow> bool" where
  "isSensitiveField field \<longleftrightarrow> list_ex (\<lambda>fragment. js_includes fragment (js_lower field)) SENSITIVE_FIELD_FRAGMENTS"

definition REDACTED :: json where
  "REDACTED = JStr ''[REDACTED]''"

definition audit_role :: "string option \<Rightarrow> string" where
  "audit_role role =
    (let normalized = normalize_str role
     in if normalized \<in> {''ADMIN'', ''SUPER_ADMIN'', ''SUPERADMIN''} then ''ADMIN'' else if normalized = ''SYSTEM'' then ''SYSTEM'' else ''USER'')"

definition shorten :: "string \<Rightarrow> string" where
  "shorten s = (if length s > MAX_VALUE_LENGTH then take MAX_VALUE_LENGTH s @ [CHR 0xE2, CHR 0x80, CHR 0xA6] else s)"

fun sanitizeValue :: "string \<Rightarrow> json \<Rightarrow> json" where
  "sanitizeValue field v =
    (if isSensitiveField field then REDACTED
     else case v of
       JNull \<Rightarrow> JNull
     | JDate t \<Rightarrow> JStr (toISOString t)
     | JNum n \<Rightarrow> JNum n
     | JBool b \<Rightarrow> JBool b
     | JStr s \<Rightarrow> JStr (shorten s)
     | JArr vs \<Rightarrow> JArr (take 20 (map (sanitizeValue field) vs))
     | JObj kvs \<Rightarrow> JObj (take 30 (map (\<lambda>(k, w). (k, sanitizeValue (field @ ''.'' @ k) w)) kvs)))"

declare sanitizeValue.simps [simp del]

text \<open>\<open>valuesEqual\<close> compares the texts of \<open>stableStringify\<close>, in which the keys of an object are sorted.\<close>

fun sort_keys :: "json \<Rightarrow> json" where
  "sort_keys (JArr vs) = JArr (map sort_keys vs)"
| "sort_keys (JObj kvs) = JObj (sort_key fst (map (\<lambda>(k, v). (k, sort_keys v)) kvs))"
| "sort_keys v = v"

definition valuesEqual :: "json \<Rightarrow> json \<Rightarrow> bool" where
  "valuesEqual l r \<longleftrightarrow> sort_keys l = sort_keys r"

text \<open>The fields to compare are the given ones, or all keys of both objects.\<close>

definition first_occurrences :: "string list \<Rightarrow> string list" where
  "first_occurrences ks = rev (remdups (rev ks))"

definition diff_keys :: "json_object \<Rightarrow> json_object \<Rightarrow> string list option \<Rightarrow> string list" where
  "diff_keys before after listed =
    (case listed of Some (f # fs) \<Rightarrow> f # fs | _ \<Rightarrow> first_occurrences (map fst before @ map fst after))"

definition field_change :: "string \<Rightarrow> json \<Rightarrow> json \<Rightarrow> json" where
  "field_change field from to = JObj [(''field'', JStr field), (''from'', from), (''to'', to)]"

definition diffFields :: "json_object \<Rightarrow> json_object \<Rightarrow> string list option \<Rightarrow> json list" where
  "diffFields before after listed =
    concat (map (\<lambda>field.
        let from = sanitizeValue field (obj_get field before); to = sanitizeValue field (obj_get field after)
        in if valuesEqual from to then [] else [field_change field from to])
      (diff_keys before after listed))"

subsection \<open>The two collections\<close>

record audit_event =
  ae_docketId :: string
  ae_firmId :: string
  ae_event :: string
  ae_userId :: "string option"
  ae_userRole :: "string option"
  ae_fromState :: "string option"
  ae_toState :: "string option"
  ae_qcOutcome :: json
  ae_reasonCode :: json
  ae_metadata :: json_object

record log_row =
  lr_firmId :: string
  lr_docketId :: string
  lr_action :: string
  lr_fromState :: "string option"
  lr_toState :: "string option"
  lr_performedBy :: string
  lr_performedByRole :: string
  lr_comment :: "string option"
  lr_changes :: "json list"
  lr_metadata :: json
  lr_timestamp :: int
  lr_requestId :: string
  lr_dedupeKey :: string

record audit_db =
  ad_events :: "(audit_event \<times> string) list"
  ad_logs :: "log_row list"

definition json_truthy :: "json \<Rightarrow> bool" where
  "json_truthy v \<longleftrightarrow> v \<notin> {JNull, JStr [], JNum 0, JBool False}"

definition json_or :: "json \<Rightarrow> json \<Rightarrow> json" where
  "json_or a b = (if json_truthy a then a else b)"

definition omitted_metadata :: "string list" where
  "omitted_metadata = [''reasonCode'', ''fromState'', ''toState'', ''actorId'', ''actorRole'']"

definition event_metadata :: "json_object \<Rightarrow> json_object" where
  "event_metadata sanitized =
    filter (\<lambda>(k, v). k \<notin> set omitted_metadata) (obj_put ''source'' (json_or (obj_get ''source'' sanitized) (JStr ''docket.audit'')) sanitized)"

definition sanitized_object :: "json_object \<Rightarrow> json_object" where
  "sanitized_object metadata = (case sanitizeValue [] (JObj metadata) of JObj kvs \<Rightarrow> kvs | _ \<Rightarrow> [])"

record log_request =
  lq_firmId :: "string option"
  lq_docketId :: "string option"
  lq_action :: "string option"
  lq_fromState :: "string option"
  lq_toState :: "string option"
  lq_performedBy :: "string option"
  lq_performedByRole :: "string option"
  lq_comment :: "string option"
  lq_changes :: "json list"
  lq_metadata :: json_object
  lq_reasonCode :: "string option"

text \<open>\<open>logDocketEvent\<close>, of whose arguments a request carries the ones it uses.\<close>

definition logDocketEvent :: "(audit_event \<Rightarrow> string) \<Rightarrow> log_request \<Rightarrow> json \<Rightarrow> audit_db \<Rightarrow> audit_db" where
  "logDocketEvent digest r qcOutcome db =
    (if \<not> truthy (lq_action r) \<or> \<not> truthy (lq_docketId r) \<or> \<not> truthy (lq_firmId r) \<or> normalize_str (lq_action r) = [] then db
     else (let sanitized = sanitized_object (lq_metadata r);
               userId = (if truthy (lq_performedBy r) then Some (js_upper (str_or_empty (lq_performedBy r))) else None);
               payload = \<lparr>ae_docketId = str_or_empty (lq_docketId r), ae_firmId = str_or_empty (lq_firmId r), ae_event = normalize_str (lq_action r),
                 ae_userId = userId, ae_userRole = (if truthy (lq_performedByRole r) then Some (audit_role (lq_performedByRole r)) else None),
                 ae_fromState = js_or (lq_fromState r) None, ae_toState = js_or (lq_toState r) None, ae_qcOutcome = json_or qcOutcome JNull,
                 ae_reasonCode = json_or (obj_get ''reasonCode'' sanitized) JNull, ae_metadata = event_metadata sanitized\<rparr>
           in db\<lparr>ad_events := ad_events db @ [(payload, digest payload)]\<rparr>))"

text \<open>The metadata of the entry that \<open>createLog\<close> hands to \<open>logDocketEvent\<close>.\<close>

definition bridge_metadata :: "log_request \<Rightarrow> json_object" where
  "bridge_metadata r =
    obj_put ''source'' (JStr ''docket.audit.legacy_bridge'')
     (obj_put ''legacyAction'' (JStr (js_upper (str_or_empty (lq_action r))))
      (obj_put ''changes'' (JArr (lq_changes r))
       (obj_put ''comment'' (json_text (js_or (lq_comment r) None))
        (obj_put ''reasonCode'' (json_or (json_text (lq_reasonCode r)) (json_or (obj_get ''reasonCode'' (lq_metadata r)) JNull)) (lq_metadata r)))))"

definition dedupe_source :: "log_request \<Rightarrow> log_request" where
  "dedupe_source r = r\<lparr>lq_action := Some (js_upper (str_or_empty (lq_action r))), lq_metadata := sanitized_object (lq_metadata r),
     lq_performedByRole := None, lq_comment := None, lq_reasonCode := None\<rparr>"

definition same_entry :: "log_row \<Rightarrow> log_row \<Rightarrow> bool" where
  "same_entry a b \<longleftrightarrow> lr_firmId a = lr_firmId b \<and> lr_docketId a = lr_docketId b \<and> lr_action a = lr_action b
    \<and> lr_requestId a = lr_requestId b \<and> lr_dedupeKey a = lr_dedupeKey b"

text \<open>The identifier \<open>requestId\<close> is the default of the schema, a random UUID.\<close>

definition log_row_of :: "(log_request \<Rightarrow> string) \<Rightarrow> string \<Rightarrow> int \<Rightarrow> log_request \<Rightarrow> log_row" where
  "log_row_of digest requestId now r =
    \<lparr>lr_firmId = str_or_empty (lq_firmId r), lr_docketId = str_or_empty (lq_docketId r), lr_action = normalize_str (lq_action r),
     lr_fromState = lq_fromState r, lr_toState = lq_toState r, lr_performedBy = js_upper (str_or_empty (lq_performedBy r)),
     lr_performedByRole = audit_role (lq_performedByRole r),
     lr_comment = (if truthy (lq_comment r) then Some (take 500 (str_or_empty (lq_comment r))) else None), lr_changes = lq_changes r,
     lr_metadata = sanitizeValue [] (JObj (lq_metadata r)), lr_timestamp = now, lr_requestId = requestId, lr_dedupeKey = digest (dedupe_source r)\<rparr>"

definition createLog ::
  "(audit_event \<Rightarrow> string) \<Rightarrow> (log_request \<Rightarrow> string) \<Rightarrow> string \<Rightarrow> int \<Rightarrow> log_request \<Rightarrow> audit_db \<Rightarrow> audit_db \<times> log_row option" where
  "createLog digestE digestL requestId now r db =
    (if \<not> truthy (lq_firmId r) \<or> \<not> truthy (lq_docketId r) \<or> \<not> truthy (lq_action r) \<or> \<not> truthy (lq_performedBy r) then (db, None)
     else (let db1 = logDocketEvent digestE (r\<lparr>lq_metadata := bridge_metadata r\<rparr>) (json_or (obj_get ''qcOutcome'' (lq_metadata r)) JNull) db;
               row = log_row_of digestL requestId now r
           in if list_ex (same_entry row) (ad_logs db1) then (db1, None) else (db1\<lparr>ad_logs := ad_logs db1 @ [row]\<rparr>, Some row)))"

text \<open>The status of a document, \<open>x.status || null\<close>.\<close>

definition status_text :: "json_object \<Rightarrow> string option" where
  "status_text o1 = (case obj_get ''status'' o1 of JStr s \<Rightarrow> js_or (Some s) None | _ \<Rightarrow> None)"

definition logUpdate ::
  "(audit_event \<Rightarrow> string) \<Rightarrow> (log_request \<Rightarrow> string) \<Rightarrow> string \<Rightarrow> int \<Rightarrow> log_request \<Rightarrow> json_object \<Rightarrow> json_object \<Rightarrow> string list option
   \<Rightarrow> audit_db \<Rightarrow> audit_db \<times> log_row option" where
  "logUpdate digestE digestL requestId now r before after listed db =
    (let changes = diffFields before after listed
     in if changes = [] then (db, None) else createLog digestE digestL requestId now
         (r\<lparr>lq_fromState := status_text before, lq_toState := status_text after, lq_changes := changes\<rparr>) db)"

definition state_object :: "(string \<times> string option) list \<Rightarrow> json_object" where
  "state_object pairs = map (\<lambda>(k, v). (k, json_text (js_or v None))) pairs"

definition logCreation ::
  "(audit_event \<Rightarrow> string) \<Rightarrow> (log_request \<Rightarrow> string) \<Rightarrow> string \<Rightarrow> int \<Rightarrow> log_request \<Rightarrow> json_object \<Rightarrow> audit_db \<Rightarrow> audit_db \<times> log_row option" where
  "logCreation digestE digestL requestId now r initialData db =
    createLog digestE digestL requestId now
      (r\<lparr>lq_action := Some ''CREATED'', lq_fromState := None,
         lq_toState := status_text initialData,
         lq_changes := diffFields [] initialData None\<rparr>) db"

definition logStatusChange ::
  "(audit_event \<Rightarrow> string) \<Rightarrow> (log_request \<Rightarrow> string) \<Rightarrow> string \<Rightarrow> int \<Rightarrow> log_request \<Rightarrow> string option \<Rightarrow> string option
   \<Rightarrow> audit_db \<Rightarrow> audit_db \<times> log_row option" where
  "logStatusChange digestE digestL requestId now r fromStatus toStatus db =
    createLog digestE digestL requestId now
      (r\<lparr>lq_action := Some ''STATUS_CHANGED'', lq_fromState := js_or fromStatus None, lq_toState := js_or toStatus None,
         lq_changes := diffFields (state_object [(''status'', fromStatus)]) (state_object [(''status'', toStatus)]) (Some [''status''])\<rparr>) db"

definition logAssignment ::
  "(audit_event \<Rightarrow> string) \<Rightarrow> (log_request \<Rightarrow> string) \<Rightarrow> string \<Rightarrow> int \<Rightarrow> log_request \<Rightarrow> string option \<Rightarrow> string option
   \<Rightarrow> audit_db \<Rightarrow> audit_db \<times> log_row option" where
  "logAssignment digestE digestL requestId now r fromAssignee toAssignee db =
    createLog digestE digestL requestId now
      (r\<lparr>lq_changes := diffFields (state_object [(''assignedToXID'', fromAssignee), (''status'', lq_fromState r)])
           (state_object [(''assignedToXID'', toAssignee), (''status'', lq_toState r)]) (Some [''assignedToXID'', ''status''])\<rparr>) db"

subsection \<open>Reading\<close>

text \<open>The page and the limit of a request, \<open>None\<close> when they are not integers.\<close>

definition page_number :: "int option \<Rightarrow> int" where
  "page_number page = (case page of None \<Rightarrow> 1 | Some p \<Rightarrow> max 1 p)"

definition page_limit :: "int option \<Rightarrow> int" where
  "page_limit limit = (case limit of None \<Rightarrow> 50 | Some l \<Rightarrow> min 100 (max 1 l))"

definition trail_rows :: "string \<Rightarrow> string \<Rightarrow> audit_db \<Rightarrow> log_row list" where
  "trail_rows firmId docketId db =
    sort_key (\<lambda>r. - lr_timestamp r) (filter (\<lambda>r. lr_firmId r = firmId \<and> lr_docketId r = docketId) (ad_logs db))"

definition getAuditTrail :: "string \<Rightarrow> string \<Rightarrow> int option \<Rightarrow> int option \<Rightarrow> audit_db \<Rightarrow> log_row list \<times> int \<times> int \<times> nat \<times> nat" where
  "getAuditTrail firmId docketId page limit db =
    (let rows = trail_rows firmId docketId db; p = page_number page; l = page_limit limit; total = length rows
     in (take (nat l) (drop (nat ((p - 1) * l)) rows), p, l, total, max 1 ((total + nat l - 1) div nat l)))"

end
