(* ===== verification/DocketAuditProperties.thy ===== *)
theory DocketAuditProperties
  imports DocketAudit
begin

section \<open>Properties of the audit trail of a docket\<close>

subsection \<open>What is kept under a sensitive name is never recorded\<close>

text \<open>Two values at a path agree when they differ only below sensitive names.\<close>

inductive agree :: "string \<Rightarrow> json \<Rightarrow> json \<Rightarrow> bool" where
  agree_refl: "agree field v v"
| agree_sensitive: "isSensitiveField field \<Longrightarrow> agree field v w"
| agree_arr: "list_all2 (agree field) vs ws \<Longrightarrow> agree field (JArr vs) (JArr ws)"
| agree_obj: "list_all2 (\<lambda>x y. fst x = fst y \<and> agree (field @ ''.'' @ fst x) (snd x) (snd y)) kvs lws \<Longrightarrow> agree field (JObj kvs) (JObj lws)"

definition objects_agree :: "json_object \<Rightarrow> json_object \<Rightarrow> bool" where
  "objects_agree o1 o2 \<longleftrightarrow> list_all2 (\<lambda>x y. fst x = fst y \<and> agree (fst x) (snd x) (snd y)) o1 o2"

lemma sanitize_sensitive [simp]: "isSensitiveField field \<Longrightarrow> sanitizeValue field v = REDACTED"
  by (simp add: sanitizeValue.simps)

lemma list_all2_map_eq: "list_all2 R xs ys \<Longrightarrow> (\<And>x y. R x y \<Longrightarrow> f x = f y) \<Longrightarrow> map f xs = map f ys"
  by (induction rule: list_all2_induct) auto

lemma agree_sanitize: "agree field v w \<Longrightarrow> sanitizeValue field v = sanitizeValue field w"
proof (induction rule: agree.induct)
  case (agree_arr field vs ws)
  have "map (sanitizeValue field) vs = map (sanitizeValue field) ws" by (rule list_all2_map_eq [OF agree_arr]) auto
  then show ?case by (simp add: sanitizeValue.simps [of field "JArr _"])
next
  case (agree_obj field kvs lws)
  have "map (\<lambda>(k, w). (k, sanitizeValue (field @ ''.'' @ k) w)) kvs = map (\<lambda>(k, w). (k, sanitizeValue (field @ ''.'' @ k) w)) lws"
    by (rule list_all2_map_eq [OF agree_obj]) auto
  then show ?case by (simp add: sanitizeValue.simps [of field "JObj _"])
qed simp_all

lemma objects_agree_keys: "objects_agree o1 o2 \<Longrightarrow> map fst o1 = map fst o2"
  unfolding objects_agree_def by (auto simp: list_all2_conv_all_nth intro!: nth_equalityI)

lemma objects_agree_get: "objects_agree o1 o2 \<Longrightarrow> agree k (obj_get k o1) (obj_get k o2)"
  unfolding objects_agree_def
proof (induction rule: list_all2_induct)
  case Nil
  show ?case by (simp add: obj_get_def agree_refl)
next
  case (Cons x xs y ys)
  then show ?case by (cases x; cases y) (auto simp: obj_get_def split: option.splits)
qed

lemma agree_get_sanitize: "objects_agree o1 o2 \<Longrightarrow> sanitizeValue k (obj_get k o1) = sanitizeValue k (obj_get k o2)"
  by (rule agree_sanitize [OF objects_agree_get])

lemma diff_agree:
  assumes "objects_agree b b'" and "objects_agree a a'"
  shows "diffFields b a listed = diffFields b' a' listed"
proof -
  have "diff_keys b a listed = diff_keys b' a' listed"
    unfolding diff_keys_def objects_agree_keys [OF assms(1)] objects_agree_keys [OF assms(2)] ..
  then show ?thesis by (simp add: diffFields_def agree_get_sanitize [OF assms(1)] agree_get_sanitize [OF assms(2)])
qed

lemma status_agree: "objects_agree o1 o2 \<Longrightarrow> status_text o1 = status_text o2"
proof -
  assume "objects_agree o1 o2"
  then have "agree ''status'' (obj_get ''status'' o1) (obj_get ''status'' o2)" by (rule objects_agree_get)
  moreover have "\<not> isSensitiveField ''status''" by code_simp
  ultimately show "status_text o1 = status_text o2" unfolding status_text_def by (auto elim: agree.cases)
qed

lemma diff_same: "objects_agree b a \<Longrightarrow> diffFields b a listed = []"
  using agree_get_sanitize [of b a] by (simp add: diffFields_def valuesEqual_def)

text \<open>
  C31. Nothing that is kept under a name that contains one of the sensitive fragments, at any depth, influences the audit
  trail: documents that differ only there leave the same collections and the same entry.  In particular a change
  of such values alone is not recorded at all.
\<close>

theorem audit_blind:
  assumes "objects_agree b b'" and "objects_agree a a'"
  shows "logUpdate dE dL requestId now r b a listed db = logUpdate dE dL requestId now r b' a' listed db
    \<and> (objects_agree b a \<longrightarrow> logUpdate dE dL requestId now r b a listed db = (db, None))"
  using diff_agree [OF assms, of listed] diff_same [of b a listed] status_agree [OF assms(1)] status_agree [OF assms(2)] by (simp add: logUpdate_def Let_def)

definition sample_log :: log_request where
  "sample_log = \<lparr>lq_firmId = Some ''FIRM1'', lq_docketId = Some ''CASE-20260108-00012'', lq_action = Some ''UPDATED'', lq_fromState = None,
     lq_toState = None, lq_performedBy = Some ''X000123'', lq_performedByRole = Some ''Admin'', lq_comment = None, lq_changes = [],
     lq_metadata = [], lq_reasonCode = None\<rparr>"

lemma audit_blind_witness:
  "logUpdate (\<lambda>_. ''d'') (\<lambda>_. ''e'') ''R1'' 5 sample_log [(''title'', JStr ''a''), (''gstNumber'', JStr ''1'')] [(''title'', JStr ''b''), (''gstNumber'', JStr ''2'')] None
     \<lparr>ad_events = [], ad_logs = []\<rparr>
   = logUpdate (\<lambda>_. ''d'') (\<lambda>_. ''e'') ''R1'' 5 sample_log [(''title'', JStr ''a''), (''gstNumber'', JNull)] [(''title'', JStr ''b''), (''gstNumber'', JNull)] None
     \<lparr>ad_events = [], ad_logs = []\<rparr>"
proof -
  have s: "isSensitiveField ''gstNumber''" by code_simp
  have "objects_agree [(''title'', v), (''gstNumber'', w)] [(''title'', v), (''gstNumber'', x)]" for v w x
    by (simp add: objects_agree_def agree_refl agree_sensitive [OF s])
  then show ?thesis using audit_blind by blast
qed

subsection \<open>Changes and entries\<close>

lemma diff_Nil_iff:
  "diffFields b a listed = [] \<longleftrightarrow>
    (\<forall>k\<in>set (diff_keys b a listed). isSensitiveField k \<or> valuesEqual (sanitizeValue k (obj_get k b)) (sanitizeValue k (obj_get k a)))"
  by (auto simp: diffFields_def Let_def valuesEqual_def)

lemma events_keep_logs [simp]: "ad_logs (logDocketEvent dE r q db) = ad_logs db"
  by (simp add: logDocketEvent_def Let_def)

lemma createLog_logs:
  assumes "truthy (lq_firmId r)" "truthy (lq_docketId r)" "truthy (lq_action r)" "truthy (lq_performedBy r)"
    and "requestId \<notin> lr_requestId ` set (ad_logs db)"
  shows "snd (createLog dE dL requestId now r db) = Some (log_row_of dL requestId now r)
    \<and> ad_logs (fst (createLog dE dL requestId now r db)) = ad_logs db @ [log_row_of dL requestId now r]"
proof -
  have "\<not> list_ex (same_entry (log_row_of dL requestId now r)) (ad_logs db)"
    using assms(5) by (auto simp: list_ex_iff same_entry_def log_row_of_def)
  then show ?thesis using assms(1-4) by (simp add: createLog_def Let_def)
qed

text \<open>
  Fact. Every update that changes the recorded form of a compared field is recorded once, with all its changes, and no other
  is; that the same change was recorded before does not matter, because the unique index contains a fresh identifier.
\<close>

theorem update_logged_exactly:
  assumes "truthy (lq_firmId r)" "truthy (lq_docketId r)" "truthy (lq_action r)" "truthy (lq_performedBy r)"
    and "requestId \<notin> lr_requestId ` set (ad_logs db)"
  shows "ad_logs (fst (logUpdate dE dL requestId now r b a listed db)) =
    (if \<forall>k\<in>set (diff_keys b a listed). isSensitiveField k \<or> valuesEqual (sanitizeValue k (obj_get k b)) (sanitizeValue k (obj_get k a))
     then ad_logs db else ad_logs db @ [log_row_of dL requestId now
       (r\<lparr>lq_fromState := status_text b, lq_toState := status_text a, lq_changes := diffFields b a listed\<rparr>)])"
  using createLog_logs [of "r\<lparr>lq_fromState := status_text b, lq_toState := status_text a, lq_changes := diffFields b a listed\<rparr>" requestId db dE dL now] assms
  by (simp add: logUpdate_def Let_def flip: diff_Nil_iff)

text \<open>The name of a company contains the fragment \<open>pan\<close>.\<close>

lemma company_name_hidden: "isSensitiveField ''companyName'' \<and> isSensitiveField ''expandedAt'' \<and> isSensitiveField ''author''"
  by code_simp

subsection \<open>Pages\<close>

lemma concat_pages: "concat (map (\<lambda>i. take l (drop (i * l) xs)) [0..<n]) = take (n * l) xs"
proof (induction n)
  case (Suc n)
  have "take (l + n * l) xs = take (n * l) xs @ take l (drop (n * l) xs)" by (simp add: take_add add.commute [of l])
  then show ?case using Suc by simp
qed simp

lemma pages_enough: "0 < l \<Longrightarrow> (m::nat) \<le> max 1 ((m + l - 1) div l) * l"
proof -
  assume l: "0 < l"
  have "m + l - 1 = (m + l - 1) div l * l + (m + l - 1) mod l" by simp
  moreover have "(m + l - 1) mod l \<le> l - 1" using mod_less_divisor [OF l, of "m + l - 1"] by linarith
  ultimately have "m + l - 1 \<le> (m + l - 1) div l * l + (l - 1)" by linarith
  then have "m \<le> (m + l - 1) div l * l" using l by linarith
  also have "\<dots> \<le> max 1 ((m + l - 1) div l) * l" by simp
  finally show ?thesis .
qed

text \<open>
  Fact. Reading all pages one after another, with any limit, gives every entry of the docket exactly once, the newest first.
\<close>

theorem audit_pages:
  assumes "getAuditTrail firm docket (Some 1) limit db = (rows, p, l, count, pages)"
  shows "concat (map (\<lambda>i. fst (getAuditTrail firm docket (Some (int (i + 1))) limit db)) [0..<pages]) = trail_rows firm docket db
    \<and> count = length (trail_rows firm docket db) \<and> sorted_wrt (\<lambda>x y. lr_timestamp y \<le> lr_timestamp x) (trail_rows firm docket db)"
proof -
  let ?rows = "trail_rows firm docket db" and ?l = "nat (page_limit limit)"
  have l: "1 \<le> page_limit limit" by (simp add: page_limit_def split: option.splits)
  have pg: "pages = max 1 ((length ?rows + ?l - 1) div ?l)" and tot: "count = length ?rows"
    using assms by (auto simp: getAuditTrail_def Let_def)
  have "fst (getAuditTrail firm docket (Some (int (i + 1))) limit db) = take ?l (drop (i * ?l) ?rows)" for i
    using l by (simp add: getAuditTrail_def Let_def page_number_def nat_mult_distrib)
  then have "concat (map (\<lambda>i. fst (getAuditTrail firm docket (Some (int (i + 1))) limit db)) [0..<pages]) = take (pages * ?l) ?rows"
    by (simp add: concat_pages)
  moreover have "length ?rows \<le> pages * ?l" unfolding pg using l by (intro pages_enough) simp
  moreover have "sorted (map (\<lambda>r. - lr_timestamp r) ?rows)" by (simp add: trail_rows_def)
  ultimately show ?thesis using tot by (simp add: sorted_map)
qed

end
