(* ===== verification/CaseLock.thy ===== *)
theory CaseLock
  imports CaseService DocketAudit
begin

section \<open>Locks and status changes requested by a client\<close>

text \<open>
  \<open>services/caseUpdate.service.js\<close>: the lock a user takes on a docket, giving it back, moving a docket to the workbasket, and
  the request that changes a status, which ends in \<open>updateStatus\<close>.  The docket an identifier designates is an argument,
  with the user of the session in the request.  A handler gives its effects and the stored docket, or the error of its reply.
\<close>

subsection \<open>Locks\<close>

record lock_request =
  kq_userEmail :: "string option"
  kq_xID :: "string option"
  kq_name :: "string option"
  kq_firstName :: "string option"
  kq_lastName :: "string option"
  kq_email :: "string option"

text \<open>An entry of \<open>models/CaseHistory.model.js\<close>: \<open>create\<close> validates the required paths.\<close>

record history_entry =
  he_caseId :: "string option"
  he_firmId :: "string option"
  he_actionType :: "string option"
  he_description :: "string option"
  he_performedBy :: "string option"

definition create_history :: "history_entry \<Rightarrow> history_entry res" where
  "create_history h =
    (let missing = map fst (filter (\<lambda>(path, v). \<not> truthy v)
           [(''caseId'', he_caseId h), (''firmId'', he_firmId h), (''actionType'', he_actionType h),
            (''description'', he_description h), (''performedBy'', he_performedBy h)])
     in if missing = [] then Inr h else Inl (ValidationError missing))"

datatype lock_effect = HistoryEntry history_entry | LockSaved docket | LockUpdated "json list"

definition lock_object :: "lock_status \<Rightarrow> json_object" where
  "lock_object l = [(''isLocked'', JBool (lk_isLocked l)), (''activeUserEmail'', json_text (js_or (lk_activeUserEmail l) None)),
     (''activeUserXID'', json_text (js_or (lk_activeUserXID l) None))]"

definition lock_changes :: "json_object \<Rightarrow> json_object \<Rightarrow> lock_effect list" where
  "lock_changes before after =
    (case diffFields before after (Some [''isLocked'', ''activeUserEmail'', ''activeUserXID'']) of [] \<Rightarrow> [] | c # cs \<Rightarrow> [LockUpdated (c # cs)])"

text \<open>The setters of the schema trim, and put the address in lower and the XID in upper case.\<close>

definition lock_set :: "lock_status \<Rightarrow> lock_status" where
  "lock_set l = l\<lparr>lk_activeUserEmail := map_option (\<lambda>s. js_trim (js_lower s)) (lk_activeUserEmail l),
     lk_activeUserXID := xid_set (lk_activeUserXID l), lk_activeUserDisplayName := map_option js_trim (lk_activeUserDisplayName l)\<rparr>"

definition locker_name :: "lock_request \<Rightarrow> string option" where
  "locker_name r =
    (let joined = (case map str_or_empty (filter truthy [kq_firstName r, kq_lastName r]) of [] \<Rightarrow> None | [a] \<Rightarrow> Some a | a # b # _ \<Rightarrow> Some (a @ '' '' @ b))
     in js_or (kq_name r) (js_or joined (js_or (kq_email r) (kq_userEmail r))))"

definition email_required :: js_error where
  "email_required = Thrown ''User email is required'' (Some 400) None"

definition case_missing :: js_error where
  "case_missing = Thrown ''Case not found'' (Some 404) None"

definition locked_message :: "string \<Rightarrow> docket \<Rightarrow> js_error" where
  "locked_message caseId d =
    (let l = d_lockStatus d;
         lockerDisplay = (if truthy (lk_activeUserDisplayName l) \<and> truthy (lk_activeUserXID l)
           then str_or_empty (lk_activeUserDisplayName l) @ '' ('' @ str_or_empty (lk_activeUserXID l) @ '')'' else str_or_empty (lk_activeUserEmail l));
         docketRef = str_or_empty (js_or (d_caseNumber d) (js_or (d_caseId d) (Some caseId)))
     in Thrown (''Docket '' @ docketRef @ '' is locked by '' @ lockerDisplay) (Some 409) None)"

definition last_activity :: "lock_status \<Rightarrow> int option" where
  "last_activity l = (case lk_lastActivityAt l of Some t \<Rightarrow> Some t | None \<Rightarrow> lk_lockedAt l)"

definition held_by_other :: "lock_request \<Rightarrow> docket \<Rightarrow> bool" where
  "held_by_other r d \<longleftrightarrow>
    lk_isLocked (d_lockStatus d) \<and> lk_activeUserEmail (d_lockStatus d) \<noteq> Some (js_lower (str_or_empty (kq_userEmail r)))"

text \<open>The check of an inactive holder: the entry written before the lock is taken over has no firm.\<close>

definition auto_unlock_entry :: "string \<Rightarrow> docket \<Rightarrow> history_entry" where
  "auto_unlock_entry caseId d =
    \<lparr>he_caseId = Some caseId, he_firmId = None, he_actionType = Some ''AutoUnlocked'',
     he_description = Some (''Docket auto-unlocked due to 2 hours of inactivity. Previous lock holder: '' @ str_or_empty (lk_activeUserEmail (d_lockStatus d))),
     he_performedBy = Some ''system''\<rparr>"

definition auto_unlock :: "int \<Rightarrow> lock_request \<Rightarrow> string \<Rightarrow> docket \<Rightarrow> (lock_effect, unit) outcome" where
  "auto_unlock now r caseId d =
    (if \<not> held_by_other r d then pure (Inr ())
     else (case last_activity (d_lockStatus d) of
       None \<Rightarrow> pure (Inl (locked_message caseId d))
     | Some t \<Rightarrow>
        if now - t > INACTIVITY_TIMEOUT_MS
        then seq (pure (create_history (auto_unlock_entry caseId d))) (\<lambda>h. emit [HistoryEntry h])
        else pure (Inl (locked_message caseId d))))"

text \<open>Whatever is thrown after the check becomes the reply 500; the refusal 409 is a reply of its own.\<close>

definition internal_error :: "string \<Rightarrow> ('e, 'a) outcome \<Rightarrow> ('e, 'a) outcome" where
  "internal_error message m =
    (fst m, case snd m of Inr x \<Rightarrow> Inr x
       | Inl e \<Rightarrow> Inl (case e of Thrown t (Some s) c \<Rightarrow> Thrown t (Some s) c | _ \<Rightarrow> Thrown message (Some 500) None))"

definition write_lock :: "bool \<Rightarrow> docket \<Rightarrow> lock_status \<Rightarrow> json_object \<Rightarrow> (lock_effect, docket) outcome" where
  "write_lock revalidate d l after =
    seq (pure (save revalidate d (d\<lparr>d_lockStatus := lock_set l\<rparr>))) (\<lambda>d'.
    seq (emit (LockSaved d' # lock_changes (lock_object (d_lockStatus d)) after)) (\<lambda>_. pure (Inr d')))"

definition lockCaseEndpoint :: "bool \<Rightarrow> int \<Rightarrow> lock_request \<Rightarrow> string \<Rightarrow> docket option \<Rightarrow> (lock_effect, docket) outcome" where
  "lockCaseEndpoint revalidate now r caseId loaded =
    (if \<not> truthy (kq_userEmail r) then pure (Inl email_required)
     else (case loaded of None \<Rightarrow> pure (Inl case_missing)
       | Some d \<Rightarrow>
          internal_error ''Error locking case''
           (seq (auto_unlock now r caseId d) (\<lambda>_.
            let l = \<lparr>lk_isLocked = True, lk_activeUserEmail = Some (js_lower (str_or_empty (kq_userEmail r))), lk_activeUserXID = js_or (kq_xID r) None,
                     lk_activeUserDisplayName = js_or (locker_name r) None, lk_lockedAt = Some now, lk_lastActivityAt = Some now\<rparr>
            in write_lock revalidate d l (lock_object l)))))"

definition unlocked :: lock_status where
  "unlocked = \<lparr>lk_isLocked = False, lk_activeUserEmail = None, lk_activeUserXID = None, lk_activeUserDisplayName = None,
     lk_lockedAt = None, lk_lastActivityAt = None\<rparr>"

definition unlockCaseEndpoint :: "bool \<Rightarrow> lock_request \<Rightarrow> docket option \<Rightarrow> (lock_effect, docket) outcome" where
  "unlockCaseEndpoint revalidate r loaded =
    (if \<not> truthy (kq_userEmail r) then pure (Inl email_required)
     else (case loaded of None \<Rightarrow> pure (Inl case_missing)
       | Some d \<Rightarrow>
          if held_by_other r d then pure (Inl (Thrown ''You can only unlock cases that you have locked'' (Some 403) None))
          else internal_error ''Error unlocking case'' (write_lock revalidate d unlocked (lock_object unlocked))))"

text \<open>Requests to one docket, one after the other; one that fails leaves it.\<close>

datatype lock_call = LockCall int lock_request | UnlockCall lock_request

definition lock_call :: "bool \<Rightarrow> string \<Rightarrow> lock_call \<Rightarrow> docket \<Rightarrow> docket res" where
  "lock_call revalidate caseId c d =
    (case c of LockCall now r \<Rightarrow> snd (lockCaseEndpoint revalidate now r caseId (Some d))
     | UnlockCall r \<Rightarrow> snd (unlockCaseEndpoint revalidate r (Some d)))"

definition lock_run :: "bool \<Rightarrow> string \<Rightarrow> lock_call list \<Rightarrow> docket \<Rightarrow> docket" where
  "lock_run revalidate caseId = fold (\<lambda>c d. case lock_call revalidate caseId c d of Inl _ \<Rightarrow> d | Inr d' \<Rightarrow> d')"

definition call_email :: "lock_call \<Rightarrow> string" where
  "call_email c = js_lower (str_or_empty (case c of LockCall now r \<Rightarrow> kq_userEmail r | UnlockCall r \<Rightarrow> kq_userEmail r))"

subsection \<open>Moving a docket to the workbasket\<close>

text \<open>
  \<open>unassignCase\<close>: the block reads \<open>CASE_ACTION_TYPES\<close>, which it declares with \<open>const\<close> further down, so building the
  audit entry throws.
\<close>

definition unassignCase :: "int \<Rightarrow> string option \<Rightarrow> docket option \<Rightarrow> docket res" where
  "unassignCase now xID loaded =
    (if \<not> truthy xID then Inl (Thrown ''Authentication required - user identity not found'' (Some 401) None)
     else (case loaded of None \<Rightarrow> Inl case_missing
       | Some d \<Rightarrow>
          (let l = d_lockStatus d; lockOwnerXID = normalize_str (lk_activeUserXID l);
               lockTs = (case last_activity l of Some t \<Rightarrow> t | None \<Rightarrow> 0);
               isActiveLock = (lk_isLocked l \<and> lockTs > 0 \<and> now - lockTs < INACTIVITY_TIMEOUT_MS)
           in if isActiveLock \<and> lockOwnerXID \<noteq> [] \<and> lockOwnerXID \<noteq> normalize_str xID
              then Inl (Thrown (''Docket is locked by '' @ (if truthy (lk_activeUserDisplayName l)
                     then str_or_empty (lk_activeUserDisplayName l) @ '' ('' @ lockOwnerXID @ '')'' else lockOwnerXID)
                     @ ''. Ask them to exit or close the docket before moving it.'') (Some 409) (Some ''DOCKET_LOCKED_ACTIVE''))
              else Inl (Thrown ''Error moving case to global worklist'' (Some 500) None))))"

subsection \<open>The request that changes a status\<close>

record status_request =
  uq_status :: "string option"
  uq_performedBy :: "string option"
  uq_pendingUntil :: "int option"
  uq_version :: "int option"
  uq_reason :: "string option"
  uq_notes :: "string option"
  uq_firmId :: "string option"
  uq_role :: "string option"
  uq_xID :: "string option"
  uq_hasSession :: bool

definition docketStatuses :: "string list" where
  "docketStatuses = [''OPEN'', ''PENDING'', ''RESOLVED'', ''FILED'']"

definition pending_patch :: "status_request \<Rightarrow> string \<Rightarrow> status_patch" where
  "pending_patch r normalizedStatus =
    \<lparr>sp_lifecycle = None, sp_assignedToXID = None, sp_queueType = None,
     sp_apply = (\<lambda>d. if normalizedStatus = ''PENDING'' then d\<lparr>d_pendingUntil := uq_pendingUntil r, d_pendingReason := js_or (uq_reason r) None\<rparr>
        else d\<lparr>d_pendingUntil := None, d_pendingReason := None\<rparr>)\<rparr>"

definition request_ctx :: "status_request \<Rightarrow> string \<Rightarrow> docket \<Rightarrow> status_ctx" where
  "request_ctx r normalizedStatus d =
    \<lparr>cx_tenantId = uq_firmId r, cx_role = uq_role r, cx_userId = uq_xID r, cx_hasSession = uq_hasSession r,
     cx_expectedVersion = (case uq_version r of Some v \<Rightarrow> Some v | None \<Rightarrow> d_version d), cx_reason = uq_reason r, cx_notes = uq_notes r,
     cx_meta_reason = None, cx_meta_notes = None, cx_currentStatus = None, cx_skipDocketAudit = True,
     cx_actorRole = Some (if uq_role r = Some ''Admin'' then ''ADMIN'' else ''USER''), cx_patch = pending_patch r normalizedStatus\<rparr>"

definition update_guard :: "status_request \<Rightarrow> docket \<Rightarrow> string res" where
  "update_guard r d =
    (let normalizedStatus = js_upper (str_or_empty (uq_status r)); current = js_upper (str_or_empty (d_status d))
     in if normalizedStatus = ''PENDING'' \<and> \<not> truthy (uq_reason r)
        then Inl (Thrown ''pendingReason is required when status is PENDING'' (Some 400) None)
        else if current \<in> set docketStatuses \<and> normalizedStatus \<in> set docketStatuses
             \<and> \<not> isValidTransition (Some (lifecycle_name (toLifecycleFromStatus (d_status d)))) (Some (lifecycle_name (toLifecycleFromStatus (Some normalizedStatus))))
        then Inl (Thrown ''Invalid transition'' (Some 400) None)
        else Inr normalizedStatus)"

definition update_error :: "js_error \<Rightarrow> js_error" where
  "update_error e = Thrown ''Error updating case status'' (Some (case e of Thrown m (Some c) k \<Rightarrow> c | _ \<Rightarrow> 400)) None"

definition updateCaseStatus ::
  "int \<Rightarrow> (docket \<Rightarrow> string option \<times> string option \<times> string option) \<Rightarrow> status_request
   \<Rightarrow> (docket \<times> tat_clock) option \<Rightarrow> docket \<Rightarrow> (case_effect, docket \<times> tat_clock) outcome" where
  "updateCaseStatus now spread r loaded stored =
    (if \<not> truthy (uq_status r) then pure (Inl (Thrown ''Status is required'' (Some 400) None))
     else if \<not> truthy (uq_performedBy r) then pure (Inl (Thrown ''Performed by email is required'' (Some 400) None))
     else (case loaded of None \<Rightarrow> pure (Inl case_missing)
       | Some (d, clock) \<Rightarrow>
          (case update_guard r d of Inl e \<Rightarrow> pure (Inl e)
           | Inr st \<Rightarrow>
              (case updateStatus now spread (d_caseId d) (Some st) (request_ctx r st d) loaded stored of
                 (es, Inl e) \<Rightarrow> (es, Inl (update_error e)) | (es, Inr x) \<Rightarrow> (es, Inr x)))))"

text \<open>Who is notified: the assignee and the creator, of a filed docket also the manager and the members of its team, never the actor.\<close>

definition status_recipients :: "status_request \<Rightarrow> docket \<Rightarrow> string option \<Rightarrow> string option list \<Rightarrow> string list" where
  "status_recipients r d manager members =
    (let everyone = filter truthy [d_assignedToXID d, d_createdByXID d]
           @ (if js_upper (str_or_empty (uq_status r)) = ''FILED'' then filter truthy (manager # members) else [])
     in filter (\<lambda>x. x \<noteq> js_upper (str_or_empty (uq_xID r))) (first_occurrences (map (\<lambda>x. js_upper (str_or_empty x)) everyone)))"

end
