(* ===== verification/CaseLockProperties.thy ===== *)
theory CaseLockProperties
  imports CaseLock
begin

section \<open>Properties of locks and of the status request\<close>

subsection \<open>A lock stays with its holder\<close>

lemma auto_unlock_entry_invalid: "is_error (create_history (auto_unlock_entry caseId d))"
  by (simp add: create_history_def auto_unlock_entry_def)

lemma auto_unlock_refused: "held_by_other r d \<Longrightarrow> is_error (snd (auto_unlock now r caseId d))"
  using auto_unlock_entry_invalid [of caseId d]
  by (auto simp: auto_unlock_def pure_def is_error_iff res_bind_Inr_iff split: option.splits)

lemma lock_refused:
  assumes "held_by_other r d"
  shows "is_error (snd (lockCaseEndpoint rv now r caseId (Some d)))" "is_error (snd (unlockCaseEndpoint rv r (Some d)))"
  using auto_unlock_refused [OF assms, of now caseId] assms
  by (auto simp: lockCaseEndpoint_def unlockCaseEndpoint_def internal_error_def pure_def is_error_iff res_bind_Inr_iff split: sum.splits)


text \<open>The reply to a late request is 500, not the lock.\<close>

lemma late_lock_reply:
  assumes "truthy (kq_userEmail r)" and "held_by_other r d" and "last_activity (d_lockStatus d) = Some t" and "now - t > INACTIVITY_TIMEOUT_MS"
  shows "lockCaseEndpoint rv now r caseId (Some d) = ([], Inl (Thrown ''Error locking case'' (Some 500) None))"
proof -
  have "create_history h = Inr h \<or> (\<exists>e. create_history h = Inl (ValidationError e))" for h
    by (simp add: create_history_def Let_def)
  then obtain e where e: "create_history (auto_unlock_entry caseId d) = Inl (ValidationError e)"
    using auto_unlock_entry_invalid [of caseId d] by (metis is_error_simps(2))
  then show ?thesis using assms by (simp add: lockCaseEndpoint_def auto_unlock_def internal_error_def pure_def seq_def)
qed

subsection \<open>Taking and giving back\<close>

lemma save_lock:
  "save rv d (d\<lparr>d_lockStatus := l\<rparr>) = (case save rv d d of Inl e \<Rightarrow> Inl e | Inr x \<Rightarrow> Inr (x\<lparr>d_lockStatus := l\<rparr>))"
proof -
  have p: "preValidate (d\<lparr>d_lockStatus := l\<rparr>) = (preValidate d)\<lparr>d_lockStatus := l\<rparr>"
    by (simp add: preValidate_def set_lifecycle_def canonical_state_def Let_def)
  have s: "status_errors rv d ((preValidate d)\<lparr>d_lockStatus := l\<rparr>) = status_errors rv d (preValidate d)"
    by (simp add: status_errors_def status_validator_def)
  show ?thesis unfolding save_def Let_def p s
    by (simp add: enforceAssignedUserForWorklistLifecycle_def enforceAssignedUserForWlOnSave_def check_def)
qed

lemma take_lock:
  assumes "truthy (kq_userEmail r)" and "\<not> held_by_other r d" and "save rv d d = Inr d0"
  shows "\<exists>l. snd (lockCaseEndpoint rv now r caseId (Some d)) = Inr (d0\<lparr>d_lockStatus := l\<rparr>) \<and> lk_isLocked l
    \<and> lk_activeUserEmail l = Some (js_trim (js_lower (str_or_empty (kq_userEmail r))))"
proof -
  let ?l = "lock_set \<lparr>lk_isLocked = True, lk_activeUserEmail = Some (js_lower (str_or_empty (kq_userEmail r))), lk_activeUserXID = js_or (kq_xID r) None,
    lk_activeUserDisplayName = js_or (locker_name r) None, lk_lockedAt = Some now, lk_lastActivityAt = Some now\<rparr>"
  have "snd (lockCaseEndpoint rv now r caseId (Some d)) = Inr (d0\<lparr>d_lockStatus := ?l\<rparr>)"
    using assms by (simp add: lockCaseEndpoint_def auto_unlock_def internal_error_def write_lock_def save_lock pure_def emit_def seq_def Let_def)
  then show ?thesis by (intro exI [of _ ?l]) (simp add: lock_set_def)
qed

lemma give_back:
  assumes "truthy (kq_userEmail r)" and "\<not> held_by_other r d" and "save rv d d = Inr d0"
  shows "snd (unlockCaseEndpoint rv r (Some d)) = Inr (d0\<lparr>d_lockStatus := unlocked\<rparr>)"
  using assms by (simp add: unlockCaseEndpoint_def internal_error_def write_lock_def save_lock pure_def emit_def seq_def)
    (simp add: lock_set_def unlocked_def xid_set_def)

text \<open>
  Fact. The address in the request is all that counts: any user who sends the address of the holder gives the lock back, whoever
  the session belongs to; and a lock taken with an address that has spaces around it cannot be given back with the same
  address, because it is stored without them.
\<close>

theorem unlock_by_address:
  assumes "truthy (kq_userEmail r)" and "lk_activeUserEmail (d_lockStatus d) = Some (js_lower (str_or_empty (kq_userEmail r)))" and "save rv d d = Inr d0"
  shows "snd (unlockCaseEndpoint rv (r\<lparr>kq_xID := x\<rparr>) (Some d)) = Inr (d0\<lparr>d_lockStatus := unlocked\<rparr>)"
  using give_back [of "r\<lparr>kq_xID := x\<rparr>" d rv d0] assms by (simp add: held_by_other_def)

lemma spaced_address_stuck:
  assumes "truthy (kq_userEmail r)" and "\<not> held_by_other r d" and "save rv d d = Inr d0"
    and "js_trim (js_lower (str_or_empty (kq_userEmail r))) \<noteq> js_lower (str_or_empty (kq_userEmail r))"
    and "snd (lockCaseEndpoint rv now r caseId (Some d)) = Inr d1"
  shows "is_error (snd (unlockCaseEndpoint rv r (Some d1)))"
proof (rule lock_refused(2))
  from take_lock [OF assms(1-3), of now caseId] obtain l where "d1 = d0\<lparr>d_lockStatus := l\<rparr>" "lk_isLocked l"
    "lk_activeUserEmail l = Some (js_trim (js_lower (str_or_empty (kq_userEmail r))))" using assms(5) by auto
  then show "held_by_other r d1" using assms(4) by (simp add: held_by_other_def)
qed

text \<open>Of two requests that both read the docket unlocked both are told that they hold the lock.\<close>

lemma lock_race:
  assumes "\<not> lk_isLocked (d_lockStatus d)" and "truthy (kq_userEmail r)" and "truthy (kq_userEmail q)" and "save rv d d = Inr d0"
  shows "\<not> is_error (snd (lockCaseEndpoint rv now r caseId (Some d))) \<and> \<not> is_error (snd (lockCaseEndpoint rv now' q caseId (Some d)))"
  using take_lock [of r d rv d0 now caseId] take_lock [of q d rv d0 now' caseId] assms by (auto simp: held_by_other_def)

lemma unassign_always_fails: "is_error (unassignCase now xID loaded)"
  by (simp add: unassignCase_def Let_def split: option.split)

definition sample_lock_request :: lock_request where
  "sample_lock_request = \<lparr>kq_userEmail = Some ''Bob@firm.in'', kq_xID = Some ''X000456'', kq_name = None, kq_firstName = None, kq_lastName = None, kq_email = None\<rparr>"


subsection \<open>The status request\<close>

text \<open>
  Fact. A status request that succeeds leaves the normalised status, follows the lifecycle table, adds one to the version, and keeps
  the pending fields with the status: with \<open>PENDING\<close> they are those of the request and the reason is there, without it
  they are empty.
\<close>

theorem status_request_sound:
  assumes "snd (updateCaseStatus now spread r (Some (d, clock)) stored) = Inr (d', c')"
  shows "d_status d' = normalizeStatus (Some (js_upper (str_or_empty (uq_status r))))
    \<and> toLifecycleFromStatus (d_status d') \<in> set (lifecycle_TRANSITIONS (normalizeLifecycle (d_lifecycle stored)))
    \<and> d_version d' = Some (case d_version stored of None \<Rightarrow> 1 | Some v \<Rightarrow> v + 1)
    \<and> (if js_upper (str_or_empty (uq_status r)) = ''PENDING'' then truthy (d_pendingReason d') \<and> d_pendingReason d' = uq_reason r \<and> d_pendingUntil d' = uq_pendingUntil r
       else d_pendingReason d' = None \<and> d_pendingUntil d' = None)"
proof -
  let ?st = "js_upper (str_or_empty (uq_status r))" and ?cx = "request_ctx r (js_upper (str_or_empty (uq_status r))) d"
  have g: "?st = ''PENDING'' \<Longrightarrow> truthy (uq_reason r)" and u: "snd (updateStatus now spread (d_caseId d) (Some ?st) ?cx (Some (d, clock)) stored) = Inr (d', c')"
    using assms by (auto simp: updateCaseStatus_def update_guard_def Let_def pure_def split: if_splits sum.splits prod.splits)
  from u show ?thesis
  proof (rule updateStatus_InrE)
    fix ex cl
    assume a: "Some (d, clock) = Some (ex, cl)"
      and m: "d' = merged_fields spread ex (normalizeStatus (Some ?st)) (cx_patch ?cx)
            ((transition_docket_set now (toDocketState (normalizeStatus (Some ?st))) stored)\<lparr>d_status := normalizeStatus (Some ?st)\<rparr>)"
      and l: "toLifecycleFromStatus (normalizeStatus (Some ?st)) \<in> set (lifecycle_TRANSITIONS (normalizeLifecycle (d_lifecycle stored)))"
    have st: "d_status d' = normalizeStatus (Some ?st)" by (simp add: m merged_fields_def request_ctx_def pending_patch_def transition_docket_set_def)
    have "d_version d' = Some (case d_version stored of None \<Rightarrow> 1 | Some v \<Rightarrow> v + 1)"
      by (simp add: m merged_fields_def request_ctx_def pending_patch_def transition_docket_set_def)
    moreover have "if ?st = ''PENDING'' then truthy (d_pendingReason d') \<and> d_pendingReason d' = uq_reason r \<and> d_pendingUntil d' = uq_pendingUntil r
       else d_pendingReason d' = None \<and> d_pendingUntil d' = None"
      using g by (simp add: m merged_fields_def request_ctx_def pending_patch_def transition_docket_set_def js_or_def)
    ultimately show ?thesis using st l unfolding st by blast
  qed
qed

lemma recipients_exclude_actor:
  "js_upper (str_or_empty (uq_xID r)) \<notin> set (status_recipients r d manager members) \<and> distinct (status_recipients r d manager members)"
  by (simp add: status_recipients_def first_occurrences_def Let_def)

end
