(* ===== verification/DocketTimer.thy ===== *)
theory DocketTimer
  imports JsPrelude
begin

section \<open>Time spent on a docket\<close>

text \<open>
  \<open>services/docketSession.service.js\<close>, \<open>services/docketAnalytics.service.js\<close> and \<open>models/DocketSession.model.js\<close>: a page that
  shows a docket starts a session, sends heartbeats and ends it; the seconds between heartbeats that follow one another
  closely are the time spent.  The collection is a list, the oldest document first.  The entries in history and audit trail
  that starting and ending write are not part of the model.
\<close>

record work_session =
  ws_id :: nat
  ws_docketId :: string
  ws_firmId :: string
  ws_userId :: string
  ws_startedAt :: int
  ws_lastHeartbeatAt :: int
  ws_endedAt :: "int option"
  ws_activeSeconds :: int
  ws_isActive :: bool

definition HEARTBEAT_COUNT_THRESHOLD_SECONDS :: int where
  "HEARTBEAT_COUNT_THRESHOLD_SECONDS = 30"

definition HEARTBEAT_STALE_THRESHOLD_SECONDS :: int where
  "HEARTBEAT_STALE_THRESHOLD_SECONDS = 60"

definition toSafeDeltaSeconds :: "int \<Rightarrow> int \<Rightarrow> int" where
  "toSafeDeltaSeconds from to = (let delta = (to - from) div 1000 in if delta \<le> 0 then 0 else delta)"

text \<open>The setter of the schema, on integers.\<close>

definition set_activeSeconds :: "int \<Rightarrow> int" where
  "set_activeSeconds v = max 0 v"

definition session_key :: "work_session \<Rightarrow> string \<times> string \<times> string" where
  "session_key s = (ws_docketId s, ws_firmId s, ws_userId s)"

definition active_for :: "string \<times> string \<times> string \<Rightarrow> work_session \<Rightarrow> bool" where
  "active_for k s \<longleftrightarrow> session_key s = k \<and> ws_isActive s"

definition close_session :: "int \<Rightarrow> work_session \<Rightarrow> work_session" where
  "close_session now s = s\<lparr>ws_isActive := False, ws_endedAt := Some now\<rparr>"

definition startSession :: "string \<times> string \<times> string \<Rightarrow> nat \<Rightarrow> int \<Rightarrow> work_session list \<Rightarrow> work_session list" where
  "startSession k i now ss =
    map (\<lambda>s. if active_for k s then close_session now s else s) ss
      @ [\<lparr>ws_id = i, ws_docketId = fst k, ws_firmId = fst (snd k), ws_userId = snd (snd k), ws_startedAt = now, ws_lastHeartbeatAt = now,
          ws_endedAt = None, ws_activeSeconds = set_activeSeconds 0, ws_isActive = True\<rparr>]"

text \<open>\<open>save()\<close> writes the paths that were changed on the document that was \<open>read\<close> into the \<open>stored\<close> one.\<close>

definition heartbeat_write :: "int \<Rightarrow> work_session \<Rightarrow> work_session \<Rightarrow> work_session" where
  "heartbeat_write now read stored =
    (let delta = toSafeDeltaSeconds (ws_lastHeartbeatAt read) now;
         counted = (if delta > 0 \<and> delta \<le> HEARTBEAT_COUNT_THRESHOLD_SECONDS
           then stored\<lparr>ws_activeSeconds := set_activeSeconds (ws_activeSeconds read + delta)\<rparr> else stored)
     in if delta > HEARTBEAT_STALE_THRESHOLD_SECONDS then counted\<lparr>ws_lastHeartbeatAt := now\<rparr>
        else counted\<lparr>ws_lastHeartbeatAt := now\<rparr>)"

definition on_active ::
  "string \<times> string \<times> string \<Rightarrow> (work_session \<Rightarrow> work_session \<Rightarrow> work_session) \<Rightarrow> work_session list \<Rightarrow> work_session list" where
  "on_active k write ss =
    (case find (active_for k) ss of None \<Rightarrow> ss | Some s \<Rightarrow> map (\<lambda>x. if ws_id x = ws_id s then write s x else x) ss)"

definition heartbeat :: "string \<times> string \<times> string \<Rightarrow> int \<Rightarrow> work_session list \<Rightarrow> work_session list" where
  "heartbeat k now = on_active k (heartbeat_write now)"

definition endSession :: "string \<times> string \<times> string \<Rightarrow> int \<Rightarrow> work_session list \<Rightarrow> work_session list" where
  "endSession k now = on_active k (\<lambda>read. close_session now)"

definition getDocketTimeSpent :: "string \<Rightarrow> work_session list \<Rightarrow> int" where
  "getDocketTimeSpent docketId ss = sum_list (map ws_activeSeconds (filter (\<lambda>s. ws_docketId s = docketId) ss))"

text \<open>Requests that do not overlap, in the order of their times.\<close>

inductive timer_run :: "int \<Rightarrow> work_session list \<Rightarrow> bool" where
  timer_empty: "timer_run now []"
| timer_start: "timer_run t ss \<Longrightarrow> t \<le> now \<Longrightarrow> i \<notin> ws_id ` set ss \<Longrightarrow> timer_run now (startSession k i now ss)"
| timer_beat: "timer_run t ss \<Longrightarrow> t \<le> now \<Longrightarrow> timer_run now (heartbeat k now ss)"
| timer_end: "timer_run t ss \<Longrightarrow> t \<le> now \<Longrightarrow> timer_run now (endSession k now ss)"

subsection \<open>The invariant\<close>

text \<open>
  Every session counts no more time than has passed, and of two sessions of one user on one docket the earlier one is over
  before the later one starts.
\<close>

definition session_ok :: "int \<Rightarrow> work_session \<Rightarrow> bool" where
  "session_ok now s \<longleftrightarrow> 0 \<le> ws_activeSeconds s \<and> ws_activeSeconds s * 1000 \<le> ws_lastHeartbeatAt s - ws_startedAt s \<and> ws_lastHeartbeatAt s \<le> now"

definition before_session :: "work_session \<Rightarrow> work_session \<Rightarrow> bool" where
  "before_session x y \<longleftrightarrow> (session_key x = session_key y \<longrightarrow> \<not> ws_isActive x \<and> ws_lastHeartbeatAt x \<le> ws_startedAt y)"

definition timer_ok :: "int \<Rightarrow> work_session list \<Rightarrow> bool" where
  "timer_ok now ss \<longleftrightarrow> distinct (map ws_id ss) \<and> (\<forall>s\<in>set ss. session_ok now s) \<and> sorted_wrt before_session ss"

lemma session_later: "session_ok t s \<Longrightarrow> t \<le> now \<Longrightarrow> session_ok now s"
  by (simp add: session_ok_def)

lemma close_session_simps [simp]:
  "ws_id (close_session now s) = ws_id s" "session_key (close_session now s) = session_key s" "\<not> ws_isActive (close_session now s)"
  "ws_startedAt (close_session now s) = ws_startedAt s" "ws_lastHeartbeatAt (close_session now s) = ws_lastHeartbeatAt s"
  "ws_activeSeconds (close_session now s) = ws_activeSeconds s" "session_ok t (close_session now s) = session_ok t s"
  by (simp_all add: close_session_def session_key_def session_ok_def)

lemma beat_simps [simp]:
  "ws_id (heartbeat_write now r s) = ws_id s" "session_key (heartbeat_write now r s) = session_key s"
  "ws_isActive (heartbeat_write now r s) = ws_isActive s" "ws_startedAt (heartbeat_write now r s) = ws_startedAt s"
  "ws_lastHeartbeatAt (heartbeat_write now r s) = now"
  by (simp_all add: heartbeat_write_def session_key_def Let_def)

lemma beat_counts:
  assumes "session_ok t s" and "t \<le> now"
  shows "session_ok now (heartbeat_write now s s)"
proof -
  define delta where "delta = toSafeDeltaSeconds (ws_lastHeartbeatAt s) now"
  have "(now - ws_lastHeartbeatAt s) div 1000 * 1000 \<le> now - ws_lastHeartbeatAt s"
    using minus_mod_eq_div_mult [of "now - ws_lastHeartbeatAt s" 1000] pos_mod_sign [of 1000 "now - ws_lastHeartbeatAt s"] by linarith
  moreover have "ws_lastHeartbeatAt s \<le> now" using assms by (simp add: session_ok_def)
  ultimately have d: "0 \<le> delta" "delta * 1000 \<le> now - ws_lastHeartbeatAt s"
    by (simp_all add: delta_def toSafeDeltaSeconds_def Let_def)
  have "ws_activeSeconds (heartbeat_write now s s) \<in> {ws_activeSeconds s, max 0 (ws_activeSeconds s + delta)}"
    by (simp add: heartbeat_write_def Let_def set_activeSeconds_def flip: delta_def)
  then show ?thesis using assms d by (auto simp: session_ok_def)
qed

text \<open>A write to the active session of a key that moves it forward keeps the invariant.\<close>

lemma on_active_ok:
  assumes ok: "timer_ok t ss" and t: "t \<le> now"
    and w: "\<And>s. ws_id (write s s) = ws_id s" "\<And>s. session_key (write s s) = session_key s" "\<And>s. ws_startedAt (write s s) = ws_startedAt s"
      "\<And>s. session_ok t s \<Longrightarrow> session_ok now (write s s)"
  shows "timer_ok now (on_active k write ss)"
proof (cases "find (active_for k) ss")
  case None
  then show ?thesis using ok t by (auto simp: on_active_def timer_ok_def session_later)
next
  case (Some s)
  then have s: "s \<in> set ss" "ws_isActive s" by (auto simp: find_Some_iff active_for_def)
  define h where "h x = (if ws_id x = ws_id s then write s x else x)" for x
  have dist: "distinct (map ws_id ss)" and each: "\<forall>x\<in>set ss. session_ok t x" and ord: "sorted_wrt before_session ss"
    using ok by (simp_all add: timer_ok_def)
  have h: "h x = (if x = s then write s s else x)" if "x \<in> set ss" for x
    using dist that s(1) by (auto simp: h_def distinct_map inj_on_def)
  have "map ws_id (map h ss) = map ws_id ss" using h w(1) by (auto simp: comp_def)
  moreover have "\<forall>x\<in>set (map h ss). session_ok now x" using each h w(4) t by (auto simp: session_later)
  moreover have "sorted_wrt before_session (map h ss)"
    unfolding sorted_wrt_map
  proof (rule sorted_wrt_mono_rel [OF _ ord])
    fix x y
    assume xy: "x \<in> set ss" "y \<in> set ss" "before_session x y"
    show "before_session (h x) (h y)"
    proof (cases "x = s")
      case True
      then have "session_key (h x) \<noteq> session_key (h y)" using xy s(2) h w(2) by (auto simp: before_session_def)
      then show ?thesis by (simp add: before_session_def)
    next
      case False
      then show ?thesis using xy h w(2,3) by (auto simp: before_session_def)
    qed
  qed
  moreover have "on_active k write ss = map h ss" by (simp add: on_active_def Some h_def)
  ultimately show ?thesis unfolding timer_ok_def using dist by metis
qed

lemma start_ok:
  assumes ok: "timer_ok t ss" and t: "t \<le> now" and i: "i \<notin> ws_id ` set ss"
  shows "timer_ok now (startSession k i now ss)"
proof -
  define h where "h s = (if active_for k s then close_session now s else s)" for s
  define n where "n = \<lparr>ws_id = i, ws_docketId = fst k, ws_firmId = fst (snd k), ws_userId = snd (snd k), ws_startedAt = now, ws_lastHeartbeatAt = now,
    ws_endedAt = None, ws_activeSeconds = set_activeSeconds 0, ws_isActive = True\<rparr>"
  have st: "startSession k i now ss = map h ss @ [n]" by (simp add: startSession_def h_def n_def)
  have [simp]: "ws_id (h s) = ws_id s" "session_key (h s) = session_key s" "ws_startedAt (h s) = ws_startedAt s"
    "ws_lastHeartbeatAt (h s) = ws_lastHeartbeatAt s" "session_ok t' (h s) = session_ok t' s" for s t'
    by (simp_all add: h_def split: if_splits)
  have n: "session_key n = k" "ws_startedAt n = now" "ws_id n = i" "session_ok now n"
    by (simp_all add: n_def session_key_def session_ok_def set_activeSeconds_def)
  have dist: "distinct (map ws_id ss)" and each: "\<forall>x\<in>set ss. session_ok t x" and ord: "sorted_wrt before_session ss"
    using ok by (simp_all add: timer_ok_def)
  have key_of: "ws_isActive (h x) \<Longrightarrow> ws_isActive x" for x by (simp add: h_def split: if_splits)
  have hs: "sorted_wrt before_session (map h ss)"
    unfolding sorted_wrt_map
  proof (rule sorted_wrt_mono_rel [OF _ ord])
    fix x y
    assume "before_session x y"
    then show "before_session (h x) (h y)" using key_of [of x] by (simp add: before_session_def) blast
  qed
  have hn: "before_session (h s) n" if "s \<in> set ss" for s
  proof -
    have "session_ok t s" using each that by blast
    then have "ws_lastHeartbeatAt s \<le> now" using t by (simp add: session_ok_def)
    moreover have "session_key s = k \<Longrightarrow> \<not> ws_isActive (h s)" by (simp add: h_def active_for_def)
    ultimately show ?thesis by (simp add: before_session_def n)
  qed
  have "distinct (map ws_id (map h ss @ [n]))" using dist i by (simp add: n(3) comp_def)
  moreover have "\<forall>x\<in>set (map h ss @ [n]). session_ok now x" using each t n(4) session_later by auto
  moreover have "sorted_wrt before_session (map h ss @ [n])" using hs hn by (simp add: sorted_wrt_append)
  ultimately show ?thesis unfolding timer_ok_def st by blast
qed

lemma timer_run_ok: "timer_run now ss \<Longrightarrow> timer_ok now ss"
proof (induction rule: timer_run.induct)
  case (timer_empty now)
  show ?case by (simp add: timer_ok_def)
next
  case (timer_start t ss now i k)
  then show ?case by (intro start_ok)
next
  case (timer_beat t ss now k)
  show ?case unfolding heartbeat_def by (rule on_active_ok [OF timer_beat.IH timer_beat.hyps(2)]) (simp_all add: beat_counts timer_beat.hyps)
next
  case (timer_end t ss now k)
  show ?case unfolding endSession_def by (rule on_active_ok [OF timer_end.IH timer_end.hyps(2)]) (use timer_end.hyps in \<open>simp_all add: session_later\<close>)
qed

lemma consecutive_bounded:
  assumes "sorted_wrt before_session ss" and "\<forall>s\<in>set ss. session_ok now s \<and> session_key s = k" and "ss \<noteq> []"
  shows "sum_list (map ws_activeSeconds ss) * 1000 \<le> now - ws_startedAt (hd ss)"
  using assms
proof (induction ss)
  case (Cons s ss)
  show ?case
  proof (cases ss)
    case Nil
    then show ?thesis using Cons.prems by (simp add: session_ok_def)
  next
    case (Cons y ys)
    have "sum_list (map ws_activeSeconds ss) * 1000 \<le> now - ws_startedAt (hd ss)" using Cons.IH Cons.prems Cons by simp
    moreover have "ws_activeSeconds s * 1000 \<le> ws_lastHeartbeatAt s - ws_startedAt s" using Cons.prems by (simp add: session_ok_def)
    moreover have "ws_lastHeartbeatAt s \<le> ws_startedAt (hd ss)" using Cons.prems Cons by (auto simp: before_session_def)
    ultimately show ?thesis by simp
  qed
qed simp



text \<open>
  Fact. Heartbeats that come between 31 seconds and a minute after one another count nothing at all, although the code calls a
  session stale only after a minute: the interval that is not counted is not kept either.
\<close>

theorem slow_heartbeats_count_nothing:
  assumes "HEARTBEAT_COUNT_THRESHOLD_SECONDS < toSafeDeltaSeconds (ws_lastHeartbeatAt s) now"
  shows "heartbeat_write now s s = s\<lparr>ws_lastHeartbeatAt := now\<rparr>"
  using assms by (simp add: heartbeat_write_def Let_def)

text \<open>
  Two heartbeats that overlap: the one that read first writes last, sets the time of the last heartbeat back and keeps the second
  the other one counted, so that the next heartbeat counts it again.
\<close>

lemma overlapping_heartbeats_count_twice:
  assumes "s = hd (startSession k 1 0 [])"
  shows "ws_activeSeconds (let first = heartbeat_write 1200 s s; second = heartbeat_write 500 s first in heartbeat_write 30500 second second) = 31"
  by (simp add: assms startSession_def heartbeat_write_def toSafeDeltaSeconds_def set_activeSeconds_def
      HEARTBEAT_COUNT_THRESHOLD_SECONDS_def Let_def)

end
