(* ===== verification/ClientDuplicates.thy ===== *)
theory ClientDuplicates
  imports JsPrelude
begin

section \<open>Detecting duplicate clients\<close>

text \<open>
  \<open>services/clientDuplicateDetector.js\<close>: equal numbers and addresses, and business names whose edit distance is small.  The
  collection of clients, of all firms, is an argument; the fields are as they are stored.
\<close>

subsection \<open>Similarity\<close>

definition word_or_space :: "char \<Rightarrow> bool" where
  "word_or_space c \<longleftrightarrow>
    (let k = (of_char c :: nat) in 48 \<le> k \<and> k \<le> 57 \<or> 65 \<le> k \<and> k \<le> 90 \<or> 97 \<le> k \<and> k \<le> 122 \<or> k = 95 \<or> js_space c)"

function single_spaces :: "string \<Rightarrow> string" where
  "single_spaces [] = []"
| "single_spaces (c # s) = (if js_space c then CHR '' '' # single_spaces (dropWhile js_space s) else c # single_spaces s)"
  by pat_completeness auto
termination
  by (relation "measure length") (auto simp: le_imp_less_Suc length_dropWhile_le)

definition normalizeString :: "string \<Rightarrow> string" where
  "normalizeString str = (if str = [] then [] else single_spaces (filter word_or_space (js_trim (js_lower str))))"

text \<open>
  \<open>levenshteinDistance\<close>: row 0 of the matrix counts up, row \<open>i\<close> starts with \<open>i\<close> and grows by one cell for every
  character of the second string.
\<close>

fun fill_row :: "nat list \<Rightarrow> char \<Rightarrow> string \<Rightarrow> nat list \<Rightarrow> nat list" where
  "fill_row upper c [] row = row"
| "fill_row upper c (d # str2) row =
    (let j = length row; cost = (if c = d then 0 else 1)
     in fill_row upper c str2 (row @ [min (min (upper ! j + 1) (row ! (j - 1) + 1)) (upper ! (j - 1) + cost)]))"

definition lev_matrix :: "string \<Rightarrow> string \<Rightarrow> nat list list" where
  "lev_matrix str1 str2 = foldl (\<lambda>m c. m @ [fill_row (last m) c str2 [length m]]) [[0..<length str2 + 1]] str1"

definition levenshteinDistance :: "string \<Rightarrow> string \<Rightarrow> nat" where
  "levenshteinDistance str1 str2 = lev_matrix str1 str2 ! length str1 ! length str2"

text \<open>
  The percentage is computed exactly.  The source computes it in floating point, where a value that ends in one half may be rounded down
  (23 of 40 gives 57); the comparison with 80 is not affected.
\<close>

definition round_percent :: "nat \<Rightarrow> nat \<Rightarrow> nat" where
  "round_percent part whole = (200 * part + whole) div (2 * whole)"

definition calculateSimilarity :: "string \<Rightarrow> string \<Rightarrow> nat" where
  "calculateSimilarity str1 str2 =
    (if str1 = [] \<or> str2 = [] then 0
     else (let n1 = normalizeString str1; n2 = normalizeString str2; maxLength = max (length n1) (length n2)
           in if n1 = n2 then 100 else if maxLength = 0 then 100
              else round_percent (maxLength - levenshteinDistance n1 n2) maxLength))"

subsection \<open>Matches\<close>

record client_doc =
  cd_clientId :: string
  cd_firmId :: string
  cd_businessName :: "string option"
  cd_primaryContactNumber :: "string option"
  cd_businessEmail :: "string option"
  cd_isActive :: bool

record client_data =
  ci_businessName :: "string option"
  ci_primaryContactNumber :: "string option"
  ci_businessEmail :: "string option"

record client_match =
  cm_clientId :: string
  cm_businessName :: "string option"
  cm_matchedFields :: "string list"
  cm_exact :: bool
  cm_similarity :: nat

definition number_query :: "client_data \<Rightarrow> string option" where
  "number_query d = js_or (map_option js_trim (ci_primaryContactNumber d)) None"

definition email_query :: "client_data \<Rightarrow> string option" where
  "email_query d = js_or (map_option (\<lambda>s. js_trim (js_lower s)) (ci_businessEmail d)) None"

definition exact_fields :: "client_data \<Rightarrow> client_doc \<Rightarrow> string list" where
  "exact_fields d c =
    (if truthy (ci_primaryContactNumber d) \<and> cd_primaryContactNumber c = map_option js_trim (ci_primaryContactNumber d) then [''Primary Contact Number''] else [])
    @ (if truthy (ci_businessEmail d) \<and> cd_businessEmail c = map_option (\<lambda>s. js_trim (js_lower s)) (ci_businessEmail d) then [''Email''] else [])"

definition exact_matches :: "client_data \<Rightarrow> client_doc list \<Rightarrow> client_match list" where
  "exact_matches d clients =
    map (\<lambda>c. \<lparr>cm_clientId = cd_clientId c, cm_businessName = cd_businessName c, cm_matchedFields = exact_fields d c, cm_exact = True, cm_similarity = 100\<rparr>)
      (filter (\<lambda>c. cd_isActive c \<and> (number_query d \<noteq> None \<and> cd_primaryContactNumber c = number_query d
            \<or> email_query d \<noteq> None \<and> cd_businessEmail c = email_query d)) clients)"

definition fuzzy_step :: "string \<Rightarrow> client_doc \<Rightarrow> client_match list \<Rightarrow> client_match list" where
  "fuzzy_step name c matches =
    (if list_ex (\<lambda>m. cm_clientId m = cd_clientId c) matches \<or> \<not> truthy (cd_businessName c) then matches
     else (let nameSimilarity = calculateSimilarity name (str_or_empty (cd_businessName c))
           in if nameSimilarity \<ge> 80
              then matches @ [\<lparr>cm_clientId = cd_clientId c, cm_businessName = cd_businessName c, cm_matchedFields = [''Business Name''],
                     cm_exact = False, cm_similarity = nameSimilarity\<rparr>]
              else matches))"

definition detectDuplicates :: "client_doc list \<Rightarrow> client_data \<Rightarrow> client_match list" where
  "detectDuplicates clients d =
    (let exact = exact_matches d clients;
         all_matches = (if truthy (ci_businessName d)
           then fold (fuzzy_step (str_or_empty (ci_businessName d))) (filter cd_isActive clients) exact else exact)
     in sort_key (\<lambda>m. - int (cm_similarity m)) all_matches)"

subsection \<open>The edit distance\<close>

text \<open>One edit: a character is inserted, deleted or replaced, somewhere.\<close>

inductive edit_step :: "string \<Rightarrow> string \<Rightarrow> bool" where
  edit_insert: "edit_step s (d # s)"
| edit_delete: "edit_step (c # s) s"
| edit_replace: "edit_step (c # s) (d # s)"
| edit_later: "edit_step s t \<Longrightarrow> edit_step (c # s) (c # t)"

text \<open>The recurrence of the matrix, on reversed strings.\<close>

fun rdist :: "string \<Rightarrow> string \<Rightarrow> nat" where
  "rdist [] t = length t"
| "rdist s [] = length s"
| "rdist (c # s) (d # t) = min (min (rdist s (d # t) + 1) (rdist (c # s) t + 1)) (rdist s t + (if c = d then 0 else 1))"

lemma rdist_Nil [simp]: "rdist s [] = length s"
  by (cases s) simp_all

lemma fill_row_rdist:
  assumes upper: "upper = map (\<lambda>j. rdist r (rev (take j t))) [0..<length t + 1]"
    and row: "row = map (\<lambda>j. rdist (c # r) (rev (take j t))) [0..<Suc k]" and rest: "rest = drop k t" and k: "k \<le> length t"
  shows "fill_row upper c rest row = map (\<lambda>j. rdist (c # r) (rev (take j t))) [0..<length t + 1]"
  using row rest k
proof (induction rest arbitrary: row k)
  case Nil
  then have "k = length t" by simp
  then show ?case using Nil by simp
next
  case (Cons d rest)
  then have dr: "drop k t = d # rest" by simp
  then have k: "k < length t" by (metis drop_eq_Nil list.distinct(1) not_le)
  then have "t ! k # drop (Suc k) t = d # rest" using dr Cons_nth_drop_Suc [OF k] by simp
  then have d: "t ! k = d" and rest: "rest = drop (Suc k) t" by simp_all
  have tk: "rev (take (Suc k) t) = d # rev (take k t)" using k d by (simp add: take_Suc_conv_app_nth)
  have l: "length row = Suc k" using Cons.prems(1) by simp
  have "upper ! Suc k = rdist r (d # rev (take k t))" "upper ! k = rdist r (rev (take k t))" "row ! k = rdist (c # r) (rev (take k t))"
    using k by (simp_all add: upper Cons.prems(1) nth_append tk del: upt_Suc)
  then have "fill_row upper c (d # rest) row = fill_row upper c rest (row @ [rdist (c # r) (rev (take (Suc k) t))])"
    using l by (simp add: tk Let_def)
  also have "\<dots> = map (\<lambda>j. rdist (c # r) (rev (take j t))) [0..<length t + 1]"
    by (rule Cons.IH [OF _ rest]) (use Cons.prems(1) k in simp_all)
  finally show ?case .
qed

lemma lev_matrix_rdist:
  "lev_matrix s t = map (\<lambda>i. map (\<lambda>j. rdist (rev (take i s)) (rev (take j t))) [0..<length t + 1]) [0..<length s + 1]"
proof (induction s rule: rev_induct)
  case Nil
  have "[0..<length t + 1] = map (\<lambda>j. length (rev (take j t))) [0..<length t + 1]" by (rule nth_equalityI) (simp_all del: upt_Suc)
  then show ?case by (simp add: lev_matrix_def)
next
  case (snoc c s)
  let ?m = "map (\<lambda>i. map (\<lambda>j. rdist (rev (take i s)) (rev (take j t))) [0..<length t + 1]) [0..<length s + 1]"
  have "lev_matrix (s @ [c]) t = ?m @ [fill_row (last ?m) c t [length ?m]]" using snoc by (simp add: lev_matrix_def)
  moreover have "last ?m = map (\<lambda>j. rdist (rev s) (rev (take j t))) [0..<length t + 1]" by simp
  moreover have "fill_row (map (\<lambda>j. rdist (rev s) (rev (take j t))) [0..<length t + 1]) c t [length ?m]
      = map (\<lambda>j. rdist (c # rev s) (rev (take j t))) [0..<length t + 1]"
    by (rule fill_row_rdist [where k = 0]) simp_all
  ultimately show ?case by (simp del: upt_Suc) (simp add: upt_Suc_append)
qed

lemma levenshtein_rdist: "levenshteinDistance s t = rdist (rev s) (rev t)"
  by (simp add: levenshteinDistance_def lev_matrix_rdist del: upt_Suc)

lemma rdist_step: "rdist (c # s) t \<le> rdist s t + 1" "rdist s (d # t) \<le> rdist s t + 1"
  by (cases t; simp) (cases s; simp)

lemma rdist_cell:
  "rdist (a # s) (c # t) = rdist s (c # t) + 1 \<or> rdist (a # s) (c # t) = rdist (a # s) t + 1
    \<or> rdist (a # s) (c # t) = rdist s t + (if a = c then 0 else 1)"
  "rdist (a # s) (d # t) \<le> rdist s t + (if a = d then 0 else 1)"
  by (auto simp: min_def)

declare rdist.simps(3) [simp del]

lemma rdist_delete: "rdist s t \<le> rdist s (d # t) + 1"
proof (induction s)
  case (Cons a s)
  then show ?case using rdist_step(1) [of a s t] rdist_cell(1) [of a s d t] by (auto split: if_splits)
qed simp

lemma rdist_replace: "rdist s (d # t) \<le> rdist s (c # t) + 1"
proof (induction s)
  case (Cons a s)
  then show ?case using rdist_step(1) [of a s "d # t"] rdist_step(2) [of "a # s" d t] rdist_cell(1) [of a s c t] rdist_cell(2) [of a s d t] by (auto split: if_splits)
qed simp

lemma rdist_edit: "edit_step u t \<Longrightarrow> rdist s t \<le> rdist s u + 1"
proof (induction arbitrary: s rule: edit_step.induct)
  case (edit_later u t c)
  show ?case
  proof (induction s)
    case Nil
    then show ?case using edit_later.IH [of "[]"] by simp
  next
    case (Cons a s)
    then show ?case using edit_later.IH [of "a # s"] edit_later.IH [of s] rdist_step(1) [of a s "c # t"] rdist_step(2) [of "a # s" c t]
        rdist_cell(1) [of a s c u] rdist_cell(2) [of a s c t] by (auto split: if_splits)
  qed
qed (rule rdist_step rdist_delete rdist_replace)+

lemma rdist_lower: "(edit_step ^^ n) s t \<Longrightarrow> rdist s t \<le> n"
proof (induction n arbitrary: t)
  case 0
  have "rdist s s = 0" by (induction s) (simp_all add: rdist.simps(3))
  then show ?case using 0 by simp
next
  case (Suc n)
  then obtain u where "(edit_step ^^ n) s u" "edit_step u t" by auto
  then show ?case using Suc.IH rdist_edit [of u t s] by fastforce
qed

lemma edits_later: "(edit_step ^^ n) s t \<Longrightarrow> (edit_step ^^ n) (c # s) (c # t)"
  by (induction n arbitrary: t) (auto intro: edit_later relcomppI)

lemma rdist_reached: "(edit_step ^^ rdist s t) s t"
proof (induction s t rule: rdist.induct)
  case (1 t)
  show ?case by (induction t) (auto intro: edit_insert relcomppI)
next
  case (2 c s)
  have "(edit_step ^^ length s) s []" for s
  proof (induction s)
    case (Cons c s)
    show ?case using relpowp_Suc_I2 [OF edit_delete Cons.IH] by simp
  qed simp
  from this [of "c # s"] show ?case by simp
next
  case (3 c s d t)
  consider "rdist (c # s) (d # t) = Suc (rdist s (d # t))" | "rdist (c # s) (d # t) = Suc (rdist (c # s) t)"
    | "c = d" "rdist (c # s) (d # t) = rdist s t" | "rdist (c # s) (d # t) = Suc (rdist s t)"
    using rdist_cell(1) [of c s d t] by (auto split: if_splits)
  then show ?case
  proof cases
    case 1
    show ?thesis unfolding 1 using relpowp_Suc_I2 [OF edit_delete 3(1)] .
  next
    case 2
    show ?thesis unfolding 2 using relpowp_Suc_I [OF 3(2) edit_insert] .
  next
    case a: 3
    show ?thesis using edits_later [OF 3(3), of d] a by simp
  next
    case 4
    show ?thesis unfolding 4 using relpowp_Suc_I [OF edits_later [OF 3(3)] edit_replace] .
  qed
qed

lemma edit_prefix: "edit_step s t \<Longrightarrow> edit_step (u @ s) (u @ t)"
  by (induction u) (auto intro: edit_later)

lemma edit_suffix: "edit_step s t \<Longrightarrow> edit_step (s @ x) (t @ x)"
  by (induction rule: edit_step.induct) (auto intro: edit_step.intros)

lemma edit_rev: "edit_step s t \<Longrightarrow> edit_step (rev s) (rev t)"
proof (induction rule: edit_step.induct)
  case (edit_insert s d)
  show ?case using edit_prefix [OF edit_step.edit_insert, of "rev s" "[]" d] by simp
next
  case (edit_delete c s)
  show ?case using edit_prefix [OF edit_step.edit_delete, of "rev s" c "[]"] by simp
next
  case (edit_replace c s d)
  show ?case using edit_prefix [OF edit_step.edit_replace, of "rev s" c "[]" d] by simp
next
  case (edit_later s t c)
  show ?case using edit_suffix [OF edit_later.IH, of "[c]"] by simp
qed

lemma edits_rev: "(edit_step ^^ n) s t \<Longrightarrow> (edit_step ^^ n) (rev s) (rev t)"
  by (induction n arbitrary: t) (auto intro: edit_rev relcomppI)

text \<open>
  C29. The matrix computes the edit distance: its last cell is the least number of single-character edits that lead from one
  string to the other.
\<close>

theorem levenshtein_exact: "levenshteinDistance s t = (LEAST n. (edit_step ^^ n) s t)"
proof (rule Least_equality [symmetric])
  show "(edit_step ^^ levenshteinDistance s t) s t"
    using edits_rev [OF rdist_reached [of "rev s" "rev t"]] by (simp add: levenshtein_rdist)
next
  fix n
  assume "(edit_step ^^ n) s t"
  then show "levenshteinDistance s t \<le> n" using rdist_lower edits_rev by (auto simp: levenshtein_rdist)
qed

lemma rdist_max: "rdist s t \<le> max (length s) (length t)"
  by (induction s t rule: rdist.induct) (auto simp: rdist.simps(3))

lemma round_percent_le: "p \<le> w \<Longrightarrow> 0 < w \<Longrightarrow> round_percent p w \<le> 100"
proof -
  assume a: "p \<le> w" "0 < w"
  have "(200 * p + w) div (2 * w) < 101" using a by (intro less_mult_imp_div_less) simp
  then show ?thesis by (simp add: round_percent_def)
qed

lemma similarity_bounds: "calculateSimilarity s t \<le> 100"
  by (auto simp: calculateSimilarity_def Let_def less_max_iff_disj intro!: round_percent_le)

subsection \<open>Clients of other firms\<close>

lemma fuzzy_keeps: "set ms \<subseteq> set (fold (fuzzy_step name) cs ms)"
proof (induction cs arbitrary: ms)
  case (Cons c cs)
  have "set ms \<subseteq> set (fuzzy_step name c ms)" by (auto simp: fuzzy_step_def Let_def)
  then show ?case using Cons.IH [of "fuzzy_step name c ms"] by auto
qed simp

lemma fuzzy_finds:
  assumes "c \<in> set cs" and "truthy (cd_businessName c)" and "80 \<le> calculateSimilarity name (str_or_empty (cd_businessName c))"
  shows "cd_clientId c \<in> cm_clientId ` set (fold (fuzzy_step name) cs ms)"
  using assms(1)
proof (induction cs arbitrary: ms)
  case (Cons x xs)
  show ?case
  proof (cases "x = c")
    case True
    have "cd_clientId c \<in> cm_clientId ` set (fuzzy_step name c ms)" using assms(2,3) by (force simp: fuzzy_step_def Let_def list_ex_iff image_iff)
    then show ?thesis using True fuzzy_keeps [of "fuzzy_step name c ms" name xs] by auto
  next
    case False
    then show ?thesis using Cons by simp
  qed
qed simp

text \<open>
  Fact. Duplicates are looked for in the clients of all firms: whoever the firms are, every active client with the number asked for, and one
  with the identifier of every active client with a similar name, is among the matches that are handed out.
\<close>

theorem duplicates_cross_firms:
  assumes "c \<in> set clients" and "cd_isActive c"
  shows "(number_query d \<noteq> None \<and> cd_primaryContactNumber c = number_query d \<longrightarrow>
      (\<exists>m\<in>set (detectDuplicates clients d). cm_clientId m = cd_clientId c \<and> cm_businessName m = cd_businessName c))
    \<and> (truthy (ci_businessName d) \<and> truthy (cd_businessName c)
          \<and> 80 \<le> calculateSimilarity (str_or_empty (ci_businessName d)) (str_or_empty (cd_businessName c)) \<longrightarrow>
        cd_clientId c \<in> cm_clientId ` set (detectDuplicates clients d))"
proof (intro conjI impI)
  let ?e = "exact_matches d clients"
  have sub: "set ?e \<subseteq> set (detectDuplicates clients d)" using fuzzy_keeps by (auto simp: detectDuplicates_def Let_def)
  assume "number_query d \<noteq> None \<and> cd_primaryContactNumber c = number_query d"
  then have "\<exists>m\<in>set ?e. cm_clientId m = cd_clientId c \<and> cm_businessName m = cd_businessName c" using assms by (force simp: exact_matches_def)
  then show "\<exists>m\<in>set (detectDuplicates clients d). cm_clientId m = cd_clientId c \<and> cm_businessName m = cd_businessName c" using sub by blast
next
  assume a: "truthy (ci_businessName d) \<and> truthy (cd_businessName c)
    \<and> 80 \<le> calculateSimilarity (str_or_empty (ci_businessName d)) (str_or_empty (cd_businessName c))"
  have "c \<in> set (filter cd_isActive clients)" using assms by simp
  then show "cd_clientId c \<in> cm_clientId ` set (detectDuplicates clients d)"
    using fuzzy_finds [of c "filter cd_isActive clients" "str_or_empty (ci_businessName d)" "exact_matches d clients"] a
    by (simp add: detectDuplicates_def Let_def)
qed

definition sample_duplicate :: client_doc where
  "sample_duplicate = \<lparr>cd_clientId = ''C000002'', cd_firmId = ''FIRM2'', cd_businessName = Some ''Acme Traders'', cd_primaryContactNumber = Some ''98'',
     cd_businessEmail = None, cd_isActive = True\<rparr>"

lemma duplicates_cross_firms_witness:
  "\<exists>m\<in>set (detectDuplicates [sample_duplicate] \<lparr>ci_businessName = None, ci_primaryContactNumber = Some '' 98'', ci_businessEmail = None\<rparr>).
     cm_businessName m = Some ''Acme Traders''"
proof -
  let ?d = "\<lparr>ci_businessName = None, ci_primaryContactNumber = Some '' 98'', ci_businessEmail = None\<rparr>"
  have "sample_duplicate \<in> set [sample_duplicate]" "cd_isActive sample_duplicate" by (simp_all add: sample_duplicate_def)
  note d = duplicates_cross_firms [OF this, of ?d]
  have "number_query ?d \<noteq> None \<and> cd_primaryContactNumber sample_duplicate = number_query ?d" by code_simp
  moreover have "cd_businessName sample_duplicate = Some ''Acme Traders''" by code_simp
  ultimately show ?thesis using d by fastforce
qed

end
