(* ===== verification/CaseCreate.thy ===== *)
theory CaseCreate
  imports DocketWorkflow CaseStates Deadlines ClientDuplicates
begin

section \<open>Creating a docket\<close>

text \<open>
  \<open>createCase\<close> of \<open>services/caseCreate.service.js\<close> with the normalisation of \<open>services/docket.service.js\<close> and
  \<open>utils/clientStatus.js\<close>: the checks of a request in their order, the turnaround and due dates of the new docket, its first status,
  and the idempotency key.  What the queries return is the record \<open>create_lookups\<close>.  A number the request or a
  document lacks is \<open>None\<close>; a date of the request is absent, invalid or an instant.  The handler runs in a transaction that a reply
  with an error rolls back, so an error leaves the collection as it was.
\<close>

subsection \<open>Documents and requests\<close>

record new_subcategory =
  sb_id :: string
  sb_name :: "string option"
  sb_isActive :: bool
  sb_workbasketId :: "string option"
  sb_employeeContextEnabled :: bool
  sb_requiresRelatedEmployeeUser :: bool
  sb_defaultSlaDays :: "rat option"
  sb_deadlineRule :: "(deadline_rule \<times> bool) option"

record new_category =
  kc_name :: "string option"
  kc_subcategories :: "new_subcategory list"
  kc_requiresRelatedEmployeeUser :: bool
  kc_defaultSlaDays :: "rat option"

record create_request =
  cq_xID :: "string option"
  cq_firmId :: "string option"
  cq_role :: "string option"
  cq_teamId :: "string option"
  cq_title :: "string option"
  cq_description :: "string option"
  cq_categoryId :: "string option"
  cq_subcategoryId :: "string option"
  cq_caseCategory :: "string option"
  cq_category :: "string option"
  cq_caseSubCategory :: "string option"
  cq_clientId :: "string option"
  cq_workbasketId :: "string option"
  cq_priority :: "string option"
  cq_assignedTo :: "string option"
  cq_employeeXID :: "string option"
  cq_relatedEmployeeUserId :: "string option"
  cq_dealId :: "string option"
  cq_workTypeId :: "string option"
  cq_subWorkTypeId :: "string option"
  cq_isInternal :: bool
  cq_slaDueDate :: date_input
  cq_dueDate :: date_input
  cq_eventDate :: date_input
  cq_clientData :: "client_data option"
  cq_forceCreate :: bool
  cq_idempotencyKey :: "string option"
  cq_compliance_state :: "string option"
  cq_risk_level :: "string option"
  cq_isHistoricalImport :: bool
  cq_status :: "string option"
  cq_completedDate :: date_input
  cq_startDate :: date_input

record case_client =
  cc_firmId :: string
  cc_status :: "string option"
  cc_data :: client_data

text \<open>The tenant's client with an identifier, the work types (their days, 0 when they have none), and so on.\<close>

record create_lookups =
  cl_category :: "new_category option"
  cl_employee :: bool
  cl_relatedUser :: bool
  cl_crmClient :: bool
  cl_deal :: bool
  cl_workType :: "rat option"
  cl_subWorkType :: "rat option"
  cl_defaultClientId :: "string option"
  cl_client :: "string \<Rightarrow> case_client option"
  cl_allClients :: "client_doc list"
  cl_config :: raw_config
  cl_rules :: "sla_rule list"

record create_env =
  ce_now :: int
  ce_isValid :: "string \<Rightarrow> bool"
  ce_zone :: zone
  ce_toKey :: "string \<Rightarrow> string"
  ce_addDays :: "int \<Rightarrow> rat \<Rightarrow> int"
  ce_id :: string
  ce_number :: "nat \<Rightarrow> string"
  ce_upload :: "unit res"
  ce_indexes_missing :: bool
  ce_stamped :: bool

text \<open>A stored docket: the fields of the workflow, and those a new docket gets beside them.\<close>

record new_case =
  nc_docket :: docket
  nc_title :: string
  nc_description :: string
  nc_priority :: string
  nc_clientId :: string
  nc_isInternal :: bool
  nc_slaDueAt :: "int option"
  nc_clock :: tat_clock
  nc_tatDurationMinutes :: rat
  nc_tatDaysSnapshot :: rat
  nc_slaDays :: rat
  nc_dueDate :: "int option"
  nc_compliance :: compliance
  nc_risk_level :: string
  nc_idempotencyKey :: "string option"
  nc_createdAt :: int
  nc_isHistoricalImport :: bool

definition json_error :: "nat \<Rightarrow> string \<Rightarrow> js_error" where
  "json_error status message = Thrown message (Some status) None"

subsection \<open>The checks\<close>

text \<open>\<open>normalizeCreateInput\<close>: the fields that are trimmed.\<close>

definition trimmed :: "string option \<Rightarrow> string option" where
  "trimmed v = js_or (map_option js_trim v) None"

definition guided_xid :: "string option \<Rightarrow> string option" where
  "guided_xid v = map_option js_upper (trimmed v)"

definition guided_priority :: "string option \<Rightarrow> string" where
  "guided_priority v = js_lower (str_or_empty (js_or (trimmed v) (Some ''medium'')))"

definition resolved_title :: "create_request \<Rightarrow> string" where
  "resolved_title rq = str_or_empty (js_or (trimmed (cq_title rq)) (Some ''Untitled Docket''))"

definition validateStructuredInput :: "string \<Rightarrow> string option \<Rightarrow> string option \<Rightarrow> string option \<Rightarrow> unit res" where
  "validateStructuredInput title workbasketId categoryId subcategoryId =
    (if title = [] then Inl (json_error 400 ''Title is required'')
     else if \<not> truthy workbasketId then Inl (json_error 400 ''Workbasket is required'')
     else if \<not> truthy categoryId \<and> truthy subcategoryId then Inl (json_error 400 ''Subcategory cannot be provided without category'')
     else Inr ())"

definition resolved_workbasket :: "create_request \<Rightarrow> string option" where
  "resolved_workbasket rq = js_or (cq_workbasketId rq) (js_or (cq_teamId rq) None)"

definition find_subcategory :: "create_request \<Rightarrow> new_category option \<Rightarrow> new_subcategory option" where
  "find_subcategory rq cat =
    (case cat of None \<Rightarrow> None | Some c \<Rightarrow> find (\<lambda>s. sb_id s = (case cq_subcategoryId rq of Some i \<Rightarrow> i | None \<Rightarrow> ''undefined'')) (kc_subcategories c))"

text \<open>
  The category and subcategory with the workbasket they lead to.  The search for a fallback workbasket further on is never
  needed, because a request without any workbasket has been refused.
\<close>

definition create_place :: "create_request \<Rightarrow> create_lookups \<Rightarrow> (new_category option \<times> new_subcategory option \<times> string) res" where
  "create_place rq lk =
    res_bind (validateStructuredInput (resolved_title rq) (resolved_workbasket rq) (cq_categoryId rq) (cq_subcategoryId rq)) (\<lambda>_.
    res_bind (check (\<not> (truthy (cq_categoryId rq) \<and> cl_category lk = None)) (json_error 404 ''Category not found or inactive'')) (\<lambda>_.
    let cat = (if truthy (cq_categoryId rq) then cl_category lk else None); sub = find_subcategory rq cat
    in res_bind (check (truthy (cq_subcategoryId rq) \<longrightarrow> (case sub of None \<Rightarrow> False | Some s \<Rightarrow> sb_isActive s)) (json_error 400 ''Invalid subcategory selected.'')) (\<lambda>_.
       res_bind (check (\<not> ((case sub of None \<Rightarrow> False | Some s \<Rightarrow> sb_requiresRelatedEmployeeUser s) \<or> (case cat of None \<Rightarrow> False | Some c \<Rightarrow> kc_requiresRelatedEmployeeUser c))
              \<or> trimmed (cq_relatedEmployeeUserId rq) \<noteq> None) (json_error 400 ''Related employee/user is required for this category.'')) (\<lambda>_.
       let routed = (case sub of None \<Rightarrow> None | Some s \<Rightarrow> js_or (sb_workbasketId s) None)
       in res_bind (check (truthy (cq_subcategoryId rq) \<longrightarrow> routed \<noteq> None) (json_error 400 ''Selected subcategory is missing a workbasket mapping'')) (\<lambda>_.
          Inr (cat, sub, str_or_empty (js_or routed (resolved_workbasket rq))))))))"

text \<open>References to an employee, a user, a contact and a deal; the result is the identifier of the client, if one was given.\<close>

definition create_refs :: "create_env \<Rightarrow> create_request \<Rightarrow> create_lookups \<Rightarrow> new_subcategory option \<Rightarrow> string option res" where
  "create_refs env rq lk sub =
    (let employee = guided_xid (cq_employeeXID rq); related = trimmed (cq_relatedEmployeeUserId rq);
         crm = (truthy (cq_clientId rq) \<and> ce_isValid env (str_or_empty (cq_clientId rq)))
     in res_bind (check (employee = None \<or> (case sub of None \<Rightarrow> False | Some s \<Rightarrow> sb_employeeContextEnabled s))
          (json_error 400 ''Employee context is not enabled for the selected subcategory.'')) (\<lambda>_.
        res_bind (check (related = None \<or> ce_isValid env (str_or_empty related)) (json_error 400 ''Invalid relatedEmployeeUserId'')) (\<lambda>_.
        res_bind (check (cq_dealId rq = None \<or> ce_isValid env (str_or_empty (cq_dealId rq))) (json_error 400 ''Invalid dealId'')) (\<lambda>_.
        res_bind (check (employee = None \<or> cl_employee lk) (json_error 400 ''Selected employee must be an active user in your firm.'')) (\<lambda>_.
        res_bind (check (related = None \<or> cl_relatedUser lk) (json_error 400 ''Selected related employee/user is invalid for this firm.'')) (\<lambda>_.
        res_bind (check (\<not> crm \<or> cl_crmClient lk) (json_error 400 ''Invalid clientId'')) (\<lambda>_.
        res_bind (check (\<not> truthy (cq_dealId rq) \<or> cl_deal lk) (json_error 400 ''Invalid dealId'')) (\<lambda>_.
        Inr (if crm then None else js_or (cq_clientId rq) None)))))))))"

definition normalizeClientStatus :: "string option \<Rightarrow> string" where
  "normalizeClientStatus status =
    (let raw = js_trim (str_or_empty status)
     in if raw = ''LEAD'' \<or> raw = ''lead'' then ''lead'' else if raw = ''INACTIVE'' \<or> raw = ''inactive'' then ''inactive'' else ''active'')"

definition isClientActive :: "string option \<Rightarrow> bool" where
  "isClientActive status \<longleftrightarrow> normalizeClientStatus status = ''active''"

definition create_client :: "create_request \<Rightarrow> create_lookups \<Rightarrow> string option \<Rightarrow> (string \<times> case_client) res" where
  "create_client rq lk given =
    (let finalClientId = str_or_empty (js_or given (js_or (cl_defaultClientId lk) (Some ''C000001'')))
     in case cl_client lk finalClientId of
          None \<Rightarrow> Inl (json_error 404 (''Client '' @ finalClientId @ '' not found''))
        | Some c \<Rightarrow>
           if Some (cc_firmId c) \<noteq> cq_firmId rq then Inl (json_error 403 ''Client firm mismatch detected'')
           else if \<not> isClientActive (cc_status c)
           then Inl (json_error 400 ''This client is no longer active. Please contact your administrator to proceed.'')
           else Inr (finalClientId, c))"

definition create_tat :: "create_request \<Rightarrow> create_lookups \<Rightarrow> rat res" where
  "create_tat rq lk =
    res_bind (check (\<not> truthy (cq_workTypeId rq) \<or> cl_workType lk \<noteq> None) (json_error 404 ''Work type not found or inactive'')) (\<lambda>_.
    let tat = (if truthy (cq_workTypeId rq) then the (cl_workType lk) else 0)
    in if \<not> truthy (cq_subWorkTypeId rq) then Inr tat
       else res_bind (check (truthy (cq_workTypeId rq)) (json_error 400 ''workTypeId is required when subWorkTypeId is provided'')) (\<lambda>_.
         case cl_subWorkType lk of
           None \<Rightarrow> Inl (json_error 404 ''Sub work type not found, inactive, or not linked to selected work type'')
         | Some q \<Rightarrow> Inr (if q \<noteq> 0 then q else tat)))"

definition actual_category :: "create_request \<Rightarrow> new_category option \<Rightarrow> string" where
  "actual_category rq cat =
    str_or_empty (js_or (cq_caseCategory rq) (js_or (cq_category rq) (js_or (case cat of None \<Rightarrow> None | Some c \<Rightarrow> kc_name c) (Some ''General''))))"

definition CLIENT_NEW :: string where
  "CLIENT_NEW = ''Client - New''"

definition duplicate_matches :: "create_request \<Rightarrow> create_lookups \<Rightarrow> new_category option \<Rightarrow> string \<Rightarrow> case_client \<Rightarrow> client_match list" where
  "duplicate_matches rq lk cat finalClientId c =
    (if actual_category rq cat \<noteq> CLIENT_NEW then []
     else filter (\<lambda>m. cm_clientId m \<noteq> finalClientId)
            (detectDuplicates (cl_allClients lk) (case cq_clientData rq of Some d \<Rightarrow> d | None \<Rightarrow> cc_data c)))"

subsection \<open>Turnaround and due date\<close>

definition DEFAULT_CATEGORY_SLA_DAYS :: rat where
  "DEFAULT_CATEGORY_SLA_DAYS = 3"

definition getEffectiveCategorySlaDays :: "new_subcategory option \<Rightarrow> new_category option \<Rightarrow> rat" where
  "getEffectiveCategorySlaDays sub cat =
    (case positive_number (Option.bind sub sb_defaultSlaDays) of Some q \<Rightarrow> q
     | None \<Rightarrow> (case positive_number (Option.bind cat kc_defaultSlaDays) of Some q \<Rightarrow> q | None \<Rightarrow> DEFAULT_CATEGORY_SLA_DAYS))"

definition requested_sla :: "create_request \<Rightarrow> int option" where
  "requested_sla rq = (if cq_role rq \<in> {Some ''ADMIN'', Some ''Admin''} then (case cq_slaDueDate rq of At t \<Rightarrow> Some t | _ \<Rightarrow> None) else None)"

definition rule_query :: "create_env \<Rightarrow> create_request \<Rightarrow> new_category option \<Rightarrow> new_subcategory option \<Rightarrow> string \<Rightarrow> sla_docket" where
  "rule_query env rq cat sub wb =
    \<lparr>sd_firmId = cq_firmId rq, sd_category = Some (actual_category rq cat),
     sd_subcategory = js_or (Option.bind sub sb_name) (js_or (cq_caseSubCategory rq) (Some [])), sd_workbasketId = Some wb, sd_ownerTeamId = None,
     sd_routedToTeamId = None, sd_createdAt = Some (ce_now env), sd_updatedAt = None, sd_status = None, sd_slaDueAt = None, sd_slaDueDate = None,
     sd_assignedToXID = None, sd_createdByXID = None, sd_caseId = None\<rparr>"

text \<open>The chosen rule, the instant the turnaround ends and the clock.\<close>

definition create_sla ::
  "create_env \<Rightarrow> create_request \<Rightarrow> create_lookups \<Rightarrow> new_category option \<Rightarrow> new_subcategory option \<Rightarrow> string \<Rightarrow> sla_rule option \<times> int option \<times> tat_clock" where
  "create_sla env rq lk cat sub wb =
    (case initializeCaseSla (ce_zone env) (ce_toKey env) (cl_config lk) (ce_now env) of (base, clock) \<Rightarrow>
      let d = rule_query env rq cat sub wb; rule = resolveSlaRule (cq_firmId rq) None (cl_rules lk) d;
          ruleDue = (case rule of None \<Rightarrow> None | Some r \<Rightarrow> calculateSlaDueDate (ce_zone env) (ce_toKey env) (cl_config lk) (ce_now env) rule d);
          days = getEffectiveCategorySlaDays sub cat
      in (rule,
          case requested_sla rq of Some t \<Rightarrow> Some t
          | None \<Rightarrow> (case ruleDue of Some t \<Rightarrow> Some t
              | None \<Rightarrow> if days > 0 then calculateFallbackDueDateFromDays (ce_zone env) (ce_toKey env) (cl_config lk) (ce_now env) (Some days) else Some base),
          clock))"

definition non_zero :: "rat option \<Rightarrow> rat option" where
  "non_zero v = (case v of Some q \<Rightarrow> if q \<noteq> 0 then Some q else None | None \<Rightarrow> None)"

definition rule_days :: "sla_rule \<Rightarrow> rat \<Rightarrow> rat" where
  "rule_days r base =
    (case or_else (non_zero (sr_slaWorkingDays r)) (non_zero (Some (of_int \<lceil>(case sr_slaHours r of Some h \<Rightarrow> h | None \<Rightarrow> 0) / 8\<rceil>))) of
       Some q \<Rightarrow> q | None \<Rightarrow> base)"

definition create_slaDays :: "create_request \<Rightarrow> sla_rule option \<Rightarrow> rat \<Rightarrow> rat \<Rightarrow> rat" where
  "create_slaDays rq rule tat days =
    (let base = max 0 (if tat \<noteq> 0 then tat else days)
     in case (rule, requested_sla rq) of (Some r, None) \<Rightarrow> rule_days r base | _ \<Rightarrow> base)"

text \<open>The minutes of the turnaround in the snapshot of the configuration.\<close>

definition rule_minutes_snapshot :: "sla_rule \<Rightarrow> rat" where
  "rule_minutes_snapshot r =
    (case non_zero (sr_slaWorkingDays r) of Some q \<Rightarrow> of_int (js_round (q * 8 * 60))
     | None \<Rightarrow> of_int (js_round ((case sr_slaHours r of Some h \<Rightarrow> h | None \<Rightarrow> 0) * 60)))"

definition create_minutes :: "create_env \<Rightarrow> create_request \<Rightarrow> create_lookups \<Rightarrow> sla_rule option \<Rightarrow> rat \<Rightarrow> rat" where
  "create_minutes env rq lk rule days =
    (if requested_sla rq = None
     then (case rule of
             Some r \<Rightarrow> if rule_minutes rule \<noteq> None then rule_minutes_snapshot r else days * 8 * 60
           | None \<Rightarrow> days * 8 * 60)
     else of_int (sc_tatDurationMinutes (normalizeConfig (ce_toKey env) (cl_config lk))))"

definition computeDeadlineFromTatDays :: "create_env \<Rightarrow> rat \<Rightarrow> int option" where
  "computeDeadlineFromTatDays env days = (if days \<le> 0 then None else Some (ce_addDays env (ce_now env) days))"

definition manual_due :: "create_request \<Rightarrow> int option" where
  "manual_due rq = (case cq_dueDate rq of At t \<Rightarrow> Some t | _ \<Rightarrow> None)"

text \<open>The due date and the days of the snapshot.\<close>

definition create_due ::
  "create_env \<Rightarrow> create_request \<Rightarrow> create_lookups \<Rightarrow> new_category option \<Rightarrow> new_subcategory option \<Rightarrow> rat \<Rightarrow> (int option \<times> rat) res" where
  "create_due env rq lk cat sub tat =
    (let none_rule = \<lparr>dr_mode = Some ''NONE'', dr_tatDays = None, dr_fixedDayOfMonth = None, dr_eventOffsetDays = None\<rparr>;
         (rule, override) = (case Option.bind sub sb_deadlineRule of Some r \<Rightarrow> r | None \<Rightarrow> (none_rule, True));
         manual = manual_due rq
     in res_bind
          (if manual = None \<or> \<not> override
           then (case calculateDeadlineFromRule (ce_zone env) (ce_toKey env) (cl_config lk) (ce_now env) rule (At (ce_now env)) (cq_dueDate rq) (cq_eventDate rq) of
                   Inl e \<Rightarrow> Inl (json_error 400 (err_message e))
                 | Inr dl \<Rightarrow> Inr (or_else (dl_dueDate dl) manual,
                     if dl_source dl = ''TAT_DAYS'' then (case dr_tatDays rule of Some q \<Rightarrow> q | None \<Rightarrow> tat) else tat))
           else Inr (manual, tat)) (\<lambda>(due, tat').
        Inr (or_else due (or_else (computeDeadlineFromTatDays env tat')
               (calculateFallbackDueDateFromDays (ce_zone env) (ce_toKey env) (cl_config lk) (ce_now env) (Some (getEffectiveCategorySlaDays sub cat)))), tat')))"

subsection \<open>The document\<close>

definition blank_lock :: lock_status where
  "blank_lock = \<lparr>lk_isLocked = False, lk_activeUserEmail = None, lk_activeUserXID = None, lk_activeUserDisplayName = None,
     lk_lockedAt = None, lk_lastActivityAt = None\<rparr>"

definition blank_qc :: qc_info where
  "blank_qc = \<lparr>qc_requestedBy = None, qc_handledBy = None, qc_status = None, qc_attempts = 0, qc_comment = None, qc_requestedAt = None,
     qc_handledAt = None, qc_originalAssigneeXID = None\<rparr>"

text \<open>A docket of a firm in a queue, with the defaults of the schema; \<open>assignee\<close> is trimmed and put in capitals by the schema.\<close>

definition fresh_docket :: "string \<Rightarrow> string option \<Rightarrow> string option \<Rightarrow> string option \<Rightarrow> docket" where
  "fresh_docket ident firmId creator assignee =
    \<lparr>d_id = ident, d_caseInternalId = ident, d_caseId = None, d_caseNumber = None, d_firmId = firmId,
     d_category = None, d_categoryId = None, d_subcategory = None, d_caseSubCategory = None, d_subcategoryId = None,
     d_status = Some (if truthy assignee then ''ASSIGNED'' else ''UNASSIGNED''), d_state = None, d_qcOutcome = None, d_version = Some 0,
     d_lifecycle = Some (lifecycle_name (normalizeLifecycle (Some (if truthy assignee then ''ACTIVE'' else ''WL'')))),
     d_pendingUntil = None, d_reopenAt = None, d_duplicateOf = None, d_forceQc = False, d_qcStatus = None, d_qcBy = None, d_qcAt = None,
     d_qcSubmittedByXID = None, d_qcSubmittedAt = None, d_qcDecisionByXID = None, d_qcDecisionAt = None, d_qcFailedCorrected = False,
     d_qc = blank_qc, d_resolvedAt = None, d_pendingReason = None, d_ownerTeamId = None, d_routedToTeamId = None, d_workbasketId = None,
     d_createdByXID = xid_set creator, d_assignedToXID = xid_set (js_or assignee None), d_assignedTo = None, d_assignedBy = None,
     d_assignedAt = None, d_queueType = Some (if truthy assignee then ''PERSONAL'' else ''GLOBAL''), d_pendedByXID = None,
     d_lastActionByXID = None, d_lastActionAt = None, d_lockStatus = blank_lock, d_updatedAt = None\<rparr>"

definition create_assignee :: "create_request \<Rightarrow> string option" where
  "create_assignee rq = js_or (guided_xid (cq_assignedTo rq)) (js_or (cq_assignedTo rq) None)"

definition create_docket ::
  "create_env \<Rightarrow> create_request \<Rightarrow> new_category option \<Rightarrow> new_subcategory option \<Rightarrow> string \<Rightarrow> docket" where
  "create_docket env rq cat sub wb =
    (let name = map_option js_trim (js_or (Option.bind sub sb_name) (js_or (cq_caseSubCategory rq) (Some [])))
     in (fresh_docket (ce_id env) (cq_firmId rq) (cq_xID rq) (create_assignee rq))
        \<lparr>d_category := Some (js_trim (actual_category rq cat)), d_categoryId := cq_categoryId rq, d_subcategory := name, d_caseSubCategory := name,
         d_subcategoryId := map_option js_trim (cq_subcategoryId rq), d_state := Some (if truthy (create_assignee rq) then ''IN_PROGRESS'' else ''IN_WB''),
         d_workbasketId := js_or (Some wb) None, d_ownerTeamId := js_or (Some wb) None\<rparr>)"

text \<open>An import of old work may come in resolved, with its dates.  An invalid date is refused by the schema.\<close>

definition create_import :: "create_env \<Rightarrow> create_request \<Rightarrow> new_case \<Rightarrow> new_case res" where
  "create_import env rq nc =
    (if \<not> cq_isHistoricalImport rq then Inr nc
     else res_bind
       (if js_upper (str_or_empty (cq_status rq)) = ''RESOLVED''
        then (case cq_completedDate rq of
                Invalid_date \<Rightarrow> Inl (ValidationError [''resolvedAt''])
              | At t \<Rightarrow> Inr ((nc_docket nc)\<lparr>d_status := Some ''RESOLVED'', d_state := Some ''RESOLVED'', d_resolvedAt := Some t\<rparr>)
              | Absent \<Rightarrow> Inr ((nc_docket nc)\<lparr>d_status := Some ''RESOLVED'', d_state := Some ''RESOLVED'', d_resolvedAt := Some (ce_now env)\<rparr>))
        else Inr (nc_docket nc)) (\<lambda>d.
       Inr (nc\<lparr>nc_docket := d, nc_createdAt := (case cq_startDate rq of At t \<Rightarrow> t | _ \<Rightarrow> nc_createdAt nc)\<rparr>)))"

definition create_key :: "create_request \<Rightarrow> string option" where
  "create_key rq = js_or (map_option (\<lambda>s. js_lower (js_trim s)) (cq_idempotencyKey rq)) None"

definition RISK_LEVELS :: "string list" where
  "RISK_LEVELS = [''low'', ''medium'', ''high'', ''critical'']"

definition build_case ::
  "create_env \<Rightarrow> create_request \<Rightarrow> create_lookups \<Rightarrow> new_category option \<Rightarrow> new_subcategory option \<Rightarrow> string \<Rightarrow> string \<Rightarrow> rat \<Rightarrow> new_case res" where
  "build_case env rq lk cat sub wb clientId tat =
    (case create_sla env rq lk cat sub wb of (rule, slaDueAt, clock) \<Rightarrow>
      let days = getEffectiveCategorySlaDays sub cat; risk = js_lower (str_or_empty (cq_risk_level rq))
      in res_bind (create_due env rq lk cat sub tat) (\<lambda>(due, tat').
         create_import env rq
          \<lparr>nc_docket = create_docket env rq cat sub wb, nc_title = resolved_title rq, nc_description = js_trim (str_or_empty (cq_description rq)),
           nc_priority = guided_priority (cq_priority rq), nc_clientId = clientId, nc_isInternal = cq_isInternal rq,
           nc_slaDueAt = or_else slaDueAt due, nc_clock = clock, nc_tatDurationMinutes = create_minutes env rq lk rule days,
           nc_tatDaysSnapshot = tat', nc_slaDays = create_slaDays rq rule tat days, nc_dueDate = due,
           nc_compliance = (case normalizeComplianceState (cq_compliance_state rq) of Some c \<Rightarrow> c | None \<Rightarrow> Not_started),
           nc_risk_level = (if risk \<in> set RISK_LEVELS then risk else ''medium''), nc_idempotencyKey = create_key rq,
           nc_createdAt = ce_now env, nc_isHistoricalImport = cq_isHistoricalImport rq\<rparr>))"

subsection \<open>Saving\<close>

definition PRIORITIES :: "string list" where
  "PRIORITIES = [''low'', ''medium'', ''high'', ''urgent'']"

text \<open>The other paths of the schema that a new docket may violate.\<close>

definition schema_errors :: "new_case \<Rightarrow> string list" where
  "schema_errors nc =
    (if nc_title nc = [] then [''title''] else []) @ (if length (nc_description nc) > 5000 then [''description''] else [])
    @ (if truthy (d_categoryId (nc_docket nc)) then [] else [''categoryId'']) @ (if truthy (d_subcategoryId (nc_docket nc)) then [] else [''subcategoryId''])
    @ (if truthy (d_createdByXID (nc_docket nc)) then [] else [''createdByXID'']) @ (if nc_priority nc \<in> set PRIORITIES then [] else [''priority''])
    @ (if nc_slaDueAt nc = None then [''slaDueAt''] else []) @ (if nc_tatDaysSnapshot nc < 0 then [''tatDaysSnapshot''] else [])
    @ (if nc_slaDays nc < 0 then [''slaDays''] else []) @ (if nc_tatDurationMinutes nc < 0 then [''slaConfigSnapshot.tatDurationMinutes''] else [])"

text \<open>
  The hook that derives a due date from the days.  Whether Mongoose has set \<open>createdAt\<close> when it runs is \<open>ce_stamped\<close>;
  \<open>setUTCDate\<close> drops a fraction of a day.
\<close>

definition due_hook :: "create_env \<Rightarrow> new_case \<Rightarrow> new_case" where
  "due_hook env nc =
    (if nc_dueDate nc = None \<and> 0 < nc_slaDays nc \<and> (ce_stamped env \<or> nc_createdAt nc \<noteq> ce_now env)
     then nc\<lparr>nc_dueDate := Some (nc_createdAt nc + \<lfloor>nc_slaDays nc\<rfloor> * 86400000)\<rparr> else nc)"

definition duplicate_error :: "string \<Rightarrow> js_error" where
  "duplicate_error index = Thrown (''E11000 duplicate key error: '' @ index) None (Some ''11000'')"

definition duplicate_key :: "js_error \<Rightarrow> bool" where
  "duplicate_key e = (case e of Thrown _ _ code \<Rightarrow> code = Some ''11000'' | _ \<Rightarrow> False)"

definition one_firm :: "new_case \<Rightarrow> new_case \<Rightarrow> bool" where
  "one_firm a b \<longleftrightarrow> d_firmId (nc_docket a) = d_firmId (nc_docket b)"

text \<open>
  The index on firm and key is \<open>unique\<close> and \<open>sparse\<close>.  Whether such an index of two fields holds a document that lacks
  the key, as the missing value, is MongoDB's and is \<open>ce_indexes_missing\<close>.
\<close>

definition key_clash :: "bool \<Rightarrow> new_case \<Rightarrow> new_case \<Rightarrow> bool" where
  "key_clash indexes_missing a b \<longleftrightarrow>
    one_firm a b \<and> nc_idempotencyKey a = nc_idempotencyKey b \<and> (nc_idempotencyKey a \<noteq> None \<or> indexes_missing)"

definition insert_case :: "create_env \<Rightarrow> new_case list \<Rightarrow> nat \<Rightarrow> new_case \<Rightarrow> new_case res" where
  "insert_case env ds attempt nc =
    (let number = Some (ce_number env attempt);
         nc1 = due_hook env (nc\<lparr>nc_docket := (nc_docket nc)\<lparr>d_caseNumber := number, d_caseId := number\<rparr>\<rparr>)
     in case save True (nc_docket nc1) (nc_docket nc1) of
          Inl (ValidationError errs) \<Rightarrow> Inl (ValidationError (errs @ schema_errors nc1))
        | Inl e \<Rightarrow> Inl e
        | Inr d \<Rightarrow>
           (let nc2 = nc1\<lparr>nc_docket := d\<rparr>
            in if schema_errors nc1 \<noteq> [] then Inl (ValidationError (schema_errors nc1))
               else if list_ex (\<lambda>x. one_firm nc2 x \<and> d_caseNumber (nc_docket x) = number) ds then Inl (duplicate_error ''firmId_1_caseNumber_1'')
               else if list_ex (key_clash (ce_indexes_missing env) nc2) ds then Inl (duplicate_error ''firmId_1_idempotencyKey_1'')
               else Inr nc2))"

text \<open>\<open>saveWithRetry\<close> has five attempts: after the one numbered \<open>attempt\<close> there are \<open>left\<close> more.\<close>

fun saveWithRetry :: "create_env \<Rightarrow> new_case list \<Rightarrow> nat \<Rightarrow> nat \<Rightarrow> new_case \<Rightarrow> new_case res" where
  "saveWithRetry env ds attempt left nc =
    (case insert_case env ds attempt nc of
       Inr x \<Rightarrow> Inr x
     | Inl e \<Rightarrow>
        if duplicate_key e \<and> js_includes ''caseNumber'' (err_message e)
        then (case left of 0 \<Rightarrow> Inl (Thrown ''Failed to generate a unique docket ID after 5 attempts. Please try again.'' None None)
              | Suc n \<Rightarrow> saveWithRetry env ds (Suc attempt) n nc)
        else Inl e)"

declare saveWithRetry.simps [simp del]

subsection \<open>The handler\<close>

datatype create_effect =
    MetricCounted string
  | HistoryEntry string string
  | SystemComment string nat
  | AuditEntry string string
  | CreationLogged string
  | CommentCopied string string
  | AttachmentCopied string string

record create_world =
  cw_cases :: "new_case list"
  cw_effects :: "create_effect list"

datatype create_reply = Created new_case | Replayed new_case | DuplicatesFound "client_match list"

definition create_checks ::
  "create_env \<Rightarrow> create_request \<Rightarrow> create_lookups
    \<Rightarrow> (new_category option \<times> new_subcategory option \<times> string \<times> string \<times> rat \<times> client_match list) res" where
  "create_checks env rq lk =
    res_bind (check (truthy (cq_firmId rq) \<or> cq_role rq = Some ''SUPER_ADMIN'') (Thrown ''Firm context missing'' (Some 403) (Some ''TENANT_CONTEXT_REQUIRED''))) (\<lambda>_.
    res_bind (check (truthy (cq_xID rq)) (json_error 401 ''Authentication required - user identity not found'')) (\<lambda>_.
    res_bind (check (truthy (cq_firmId rq)) (json_error 403 ''User must be assigned to a firm to create cases'')) (\<lambda>_.
    res_bind (create_place rq lk) (\<lambda>(cat, sub, wb).
    res_bind (create_refs env rq lk sub) (\<lambda>given.
    res_bind (create_client rq lk given) (\<lambda>(clientId, client).
    res_bind (create_tat rq lk) (\<lambda>tat.
    Inr (cat, sub, wb, clientId, tat, duplicate_matches rq lk cat clientId client))))))))"

definition by_key :: "string option \<Rightarrow> string option \<Rightarrow> new_case \<Rightarrow> bool" where
  "by_key firmId key nc \<longleftrightarrow> key \<noteq> None \<and> d_firmId (nc_docket nc) = firmId \<and> nc_idempotencyKey nc = key"

text \<open>The write, which runs after the look-up of the key found nothing.\<close>

definition create_write ::
  "create_env \<Rightarrow> create_request \<Rightarrow> new_case res \<Rightarrow> nat \<Rightarrow> create_world \<Rightarrow> create_reply res \<times> create_world" where
  "create_write env rq built overridden w =
    (case res_bind built (saveWithRetry env (cw_cases w) 0 4) of
       Inl e \<Rightarrow>
         (if duplicate_key e
          then (case find (by_key (cq_firmId rq) (create_key rq)) (cw_cases w) of
                  Some x \<Rightarrow> (Inr (Replayed x), w)
                | None \<Rightarrow> (Inl (json_error 409 ''Duplicate case detected. No changes were applied.''), w))
          else (Inl e, w))
     | Inr nc \<Rightarrow>
         (case ce_upload env of
            Inl e \<Rightarrow> (Inl e, w)
          | Inr _ \<Rightarrow>
             (let ident = str_or_empty (d_caseId (nc_docket nc))
              in (Inr (Created nc),
                  w\<lparr>cw_cases := cw_cases w @ [nc],
                    cw_effects := cw_effects w @ [MetricCounted (str_or_empty (cq_firmId rq)), HistoryEntry ident ''CASE_CREATED'']
                      @ (if overridden > 0 then [SystemComment ident overridden] else [])
                      @ [AuditEntry ident ''CREATED'', CreationLogged ident]\<rparr>))))"

text \<open>\<open>seen\<close> is the collection when the key is looked up; the write may find more in it.\<close>

definition createCase ::
  "create_env \<Rightarrow> create_request \<Rightarrow> create_lookups \<Rightarrow> new_case list \<Rightarrow> create_world \<Rightarrow> create_reply res \<times> create_world" where
  "createCase env rq lk seen w =
    (case create_checks env rq lk of
       Inl e \<Rightarrow> (Inl e, w)
     | Inr (cat, sub, wb, clientId, tat, matches) \<Rightarrow>
        if matches \<noteq> [] \<and> \<not> cq_forceCreate rq then (Inr (DuplicatesFound matches), w)
        else (case find (by_key (cq_firmId rq) (create_key rq)) seen of
                Some x \<Rightarrow> (Inr (Replayed x), w)
              | None \<Rightarrow> create_write env rq (build_case env rq lk cat sub wb clientId tat) (length matches) w))"

text \<open>A sequence of requests; each looks its key up when the collection had the given number of dockets.\<close>

fun create_run :: "(create_env \<times> create_request \<times> create_lookups \<times> nat) list \<Rightarrow> create_world \<Rightarrow> create_reply res list \<times> create_world" where
  "create_run [] w = ([], w)"
| "create_run ((env, rq, lk, n) # rest) w =
    (case createCase env rq lk (take n (cw_cases w)) w of (r, w1) \<Rightarrow>
       case create_run rest w1 of (rs, w2) \<Rightarrow> (r # rs, w2))"

end
