(* ===== verification/CaseClone.thy ===== *)
theory CaseClone
  imports CaseCreate
begin

section \<open>Cloning a docket\<close>

text \<open>
  \<open>cloneCase\<close> of \<open>services/caseCreate.service.js\<close>: the checks of a request, the new docket and the copies of comments and
  attachments.  What the queries return is the record \<open>clone_lookups\<close>; comments and attachments are their texts and names.  The
  write runs in a transaction of its own.
\<close>

record clone_request =
  kq_xID :: "string option"
  kq_firmId :: "string option"
  kq_teamId :: "string option"
  kq_categoryId :: "string option"
  kq_subcategoryId :: "string option"

record clone_lookups =
  kl_category :: "new_category option"
  kl_original :: "new_case option"
  kl_client :: "case_client option"
  kl_config :: raw_config
  kl_rules :: "sla_rule list"
  kl_comments :: "string list"
  kl_attachments :: "string list"

definition clone_error :: "string \<Rightarrow> nat \<Rightarrow> string \<Rightarrow> js_error" where
  "clone_error message status code = Thrown message (Some status) (Some code)"

definition clone_checks :: "clone_request \<Rightarrow> clone_lookups \<Rightarrow> (new_category \<times> new_subcategory \<times> new_case) res" where
  "clone_checks rq lk =
    res_bind (check (truthy (kq_categoryId rq)) (clone_error ''Category is required for clone.'' 400 ''CLONE_CATEGORY_REQUIRED'')) (\<lambda>_.
    res_bind (check (truthy (kq_subcategoryId rq)) (clone_error ''Subcategory is required for clone.'' 400 ''CLONE_SUBCATEGORY_REQUIRED'')) (\<lambda>_.
    case kl_category lk of
      None \<Rightarrow> Inl (clone_error ''Category not found or inactive.'' 404 ''CLONE_CATEGORY_INVALID'')
    | Some cat \<Rightarrow>
       (case find (\<lambda>s. Some (sb_id s) = kq_subcategoryId rq) (kc_subcategories cat) of
          None \<Rightarrow> Inl (clone_error ''Invalid subcategory selected.'' 400 ''CLONE_SUBCATEGORY_INVALID'')
        | Some sub \<Rightarrow>
           res_bind (check (sb_isActive sub) (clone_error ''Invalid subcategory selected.'' 400 ''CLONE_SUBCATEGORY_INVALID'')) (\<lambda>_.
           case kl_original lk of
             None \<Rightarrow> Inl (json_error 404 ''Original case not found'')
           | Some original \<Rightarrow>
              res_bind (check (d_status (nc_docket original) \<noteq> Some ''Archived'') (json_error 400 ''Archived cases cannot be cloned'')) (\<lambda>_.
              case kl_client lk of
                None \<Rightarrow> Inl (json_error 404 (''Client '' @ nc_clientId original @ '' not found''))
              | Some client \<Rightarrow>
                 res_bind (check (cc_status client = Some ''active'')
                   (json_error 400 ''This client is no longer active. Please contact your administrator to proceed.'')) (\<lambda>_.
                 Inr (cat, sub, original)))))))"

definition clone_query :: "create_env \<Rightarrow> clone_request \<Rightarrow> string option \<Rightarrow> string option \<Rightarrow> string option \<Rightarrow> sla_docket" where
  "clone_query env rq category subcategory wb =
    \<lparr>sd_firmId = kq_firmId rq, sd_category = category, sd_subcategory = subcategory, sd_workbasketId = wb, sd_ownerTeamId = None,
     sd_routedToTeamId = None, sd_createdAt = Some (ce_now env), sd_updatedAt = None, sd_status = None, sd_slaDueAt = None,
     sd_slaDueDate = None, sd_assignedToXID = None, sd_createdByXID = None, sd_caseId = None\<rparr>"

text \<open>The days a category gives are positive, so the case in which the clone takes the due date of the original never arises.\<close>

definition clone_sla ::
  "create_env \<Rightarrow> clone_request \<Rightarrow> clone_lookups \<Rightarrow> sla_docket \<Rightarrow> rat \<Rightarrow> sla_rule option \<times> int option \<times> rat" where
  "clone_sla env rq lk d days =
    (let rule = resolveSlaRule (kq_firmId rq) None (kl_rules lk) d;
         ruleDue = (case rule of None \<Rightarrow> None | Some r \<Rightarrow> calculateSlaDueDate (ce_zone env) (ce_toKey env) (kl_config lk) (ce_now env) rule d)
     in case (rule, ruleDue) of
          (Some r, Some t) \<Rightarrow> (rule, Some t, rule_minutes_snapshot r)
        | _ \<Rightarrow> (rule, calculateFallbackDueDateFromDays (ce_zone env) (ce_toKey env) (kl_config lk) (ce_now env) (Some days), days * 8 * 60))"

definition clone_slaDays :: "sla_rule option \<Rightarrow> rat \<Rightarrow> rat \<Rightarrow> rat" where
  "clone_slaDays rule tatDays days =
    (let base = max 0 (if tatDays \<noteq> 0 then tatDays else days) in case rule of Some r \<Rightarrow> rule_days r base | None \<Rightarrow> base)"

definition clone_case :: "create_env \<Rightarrow> clone_request \<Rightarrow> clone_lookups \<Rightarrow> new_category \<Rightarrow> new_subcategory \<Rightarrow> new_case \<Rightarrow> new_case" where
  "clone_case env rq lk cat sub original =
    (let od = nc_docket original;
         targetCategory = js_or (kc_name cat) (js_or (d_category od) (Some []));
         targetSubcategory = js_or (sb_name sub) (js_or (d_subcategory od) (Some []));
         wb = js_or (d_ownerTeamId od) (js_or (kq_teamId rq) None);
         days = getEffectiveCategorySlaDays (Some sub) (Some cat);
         tatDays = nc_tatDaysSnapshot original
     in case clone_sla env rq lk (clone_query env rq targetCategory targetSubcategory wb) days of (rule, due, minutes) \<Rightarrow>
       \<lparr>nc_docket = (fresh_docket (ce_id env) (kq_firmId rq) (kq_xID rq) None)
          \<lparr>d_category := map_option js_trim targetCategory, d_categoryId := kq_categoryId rq,
           d_subcategory := map_option js_trim (js_or (sb_name sub) (Some [])), d_caseSubCategory := map_option js_trim (js_or (sb_name sub) (Some [])),
           d_subcategoryId := map_option js_trim (kq_subcategoryId rq), d_ownerTeamId := wb,
           d_duplicateOf := js_or (d_duplicateOf od) None\<rparr>,
        nc_title = nc_title original, nc_description = nc_description original, nc_priority = js_lower (nc_priority original),
        nc_clientId = nc_clientId original, nc_isInternal = False, nc_slaDueAt = due,
        nc_clock = \<lparr>tat_paused = False, tat_lastStartedAt = Some (ce_now env), tat_accumulatedMinutes = Some 0,
          tat_totalMinutes = Some (case tat_totalMinutes (nc_clock original) of Some q \<Rightarrow> q | None \<Rightarrow> 0)\<rparr>,
        nc_tatDurationMinutes = minutes, nc_tatDaysSnapshot = (if tatDays \<noteq> 0 then tatDays else nc_slaDays original),
        nc_slaDays = clone_slaDays rule tatDays days, nc_dueDate = nc_dueDate original, nc_compliance = Not_started,
        nc_risk_level = ''medium'', nc_idempotencyKey = None, nc_createdAt = ce_now env, nc_isHistoricalImport = False\<rparr>)"

definition cloneCase :: "create_env \<Rightarrow> clone_request \<Rightarrow> clone_lookups \<Rightarrow> create_world \<Rightarrow> new_case res \<times> create_world" where
  "cloneCase env rq lk w =
    (case clone_checks rq lk of
       Inl e \<Rightarrow> (Inl e, w)
     | Inr (cat, sub, original) \<Rightarrow>
        (case saveWithRetry env (cw_cases w) 0 4 (clone_case env rq lk cat sub original) of
           Inl e \<Rightarrow> (Inl e, w)
         | Inr nc \<Rightarrow>
            (let from_id = str_or_empty (d_caseId (nc_docket original)); to_id = str_or_empty (d_caseId (nc_docket nc))
             in (Inr nc,
                 w\<lparr>cw_cases := cw_cases w @ [nc],
                   cw_effects := cw_effects w @ map (CommentCopied to_id) (kl_comments lk) @ map (AttachmentCopied to_id) (kl_attachments lk)
                     @ [HistoryEntry from_id ''CLONED_TO_NEW_DOCKET'', HistoryEntry to_id ''CREATED_FROM_CLONE'']\<rparr>))))"

end
