(* ===== verification/CaseCreateProperties.thy ===== *)
theory CaseCreateProperties
  imports CaseClone SlaDueDate
begin

section \<open>Properties of new dockets\<close>

text \<open>
  A key creates one docket; a new docket is consistent and has its deadlines; what an index that holds missing keys does to
  dockets without one; imports.
\<close>

subsection \<open>Saving\<close>

lemma due_hook_simps [simp]:
  "nc_docket (due_hook env nc) = nc_docket nc" "nc_idempotencyKey (due_hook env nc) = nc_idempotencyKey nc"
  "nc_clientId (due_hook env nc) = nc_clientId nc" "nc_slaDueAt (due_hook env nc) = nc_slaDueAt nc"
  "nc_dueDate nc = Some t \<Longrightarrow> nc_dueDate (due_hook env nc) = Some t"
  by (simp_all add: due_hook_def)

lemma preValidate_firmId [simp]: "d_firmId (preValidate d) = d_firmId d"
  by (simp add: preValidate_def set_lifecycle_def Let_def)

lemma save_Inr: "save rv b d = Inr x \<Longrightarrow> x = preValidate d"
  by (auto simp: save_def Let_def res_bind_Inr_iff split: if_splits)

lemma insert_case_Inr:
  assumes "insert_case env ds a nc = Inr x"
  shows "let nc1 = due_hook env (nc\<lparr>nc_docket := (nc_docket nc)\<lparr>d_caseNumber := Some (ce_number env a), d_caseId := Some (ce_number env a)\<rparr>\<rparr>)
    in save True (nc_docket nc1) (nc_docket nc1) = Inr (preValidate (nc_docket nc1)) \<and> schema_errors nc1 = []
      \<and> x = nc1\<lparr>nc_docket := preValidate (nc_docket nc1)\<rparr> \<and> \<not> list_ex (key_clash (ce_indexes_missing env) x) ds"
  using assms save_Inr by (auto simp: insert_case_def Let_def split: sum.splits js_error.splits if_splits)

lemma saveWithRetry_Inr: "saveWithRetry env ds a l nc = Inr x \<Longrightarrow> \<exists>a. insert_case env ds a nc = Inr x"
proof (induction l arbitrary: a)
  case 0
  then show ?case by (subst (asm) saveWithRetry.simps) (auto split: sum.splits if_splits)
next
  case (Suc l)
  from Suc.prems show ?case by (subst (asm) saveWithRetry.simps) (auto split: sum.splits if_splits dest: Suc.IH)
qed

lemma saved_facts:
  assumes "saveWithRetry env ds a l nc = Inr x"
  shows "nc_idempotencyKey x = nc_idempotencyKey nc" and "d_firmId (nc_docket x) = d_firmId (nc_docket nc)"
    and "\<not> list_ex (key_clash (ce_indexes_missing env) x) ds"
  using saveWithRetry_Inr [OF assms] insert_case_Inr by (fastforce simp: Let_def)+

subsection \<open>What a request leaves\<close>

lemma create_import_facts:
  assumes "create_import env rq nc = Inr x"
  shows "nc_idempotencyKey x = nc_idempotencyKey nc" and "nc_clientId x = nc_clientId nc" and "nc_slaDueAt x = nc_slaDueAt nc"
    and "nc_dueDate x = nc_dueDate nc" and "nc_isHistoricalImport x = nc_isHistoricalImport nc"
    and "d_firmId (nc_docket x) = d_firmId (nc_docket nc)" and "d_assignedToXID (nc_docket x) = d_assignedToXID (nc_docket nc)"
    and "d_queueType (nc_docket x) = d_queueType (nc_docket nc)" and "d_lifecycle (nc_docket x) = d_lifecycle (nc_docket nc)"
    and "\<not> cq_isHistoricalImport rq \<Longrightarrow> x = nc"
    and "cq_isHistoricalImport rq \<and> js_upper (str_or_empty (cq_status rq)) = ''RESOLVED'' \<Longrightarrow>
      d_status (nc_docket x) = Some ''RESOLVED'' \<and> d_state (nc_docket x) = Some ''RESOLVED''"
  using assms by (auto simp: create_import_def res_bind_Inr_iff split: if_splits date_input.splits)

lemma build_case_Inr:
  assumes "build_case env rq lk cat sub wb clientId tat = Inr nc"
  obtains base rule sla clock due tat' where "create_import env rq base = Inr nc" and "create_sla env rq lk cat sub wb = (rule, sla, clock)"
    and "create_due env rq lk cat sub tat = Inr (due, tat')" and "nc_docket base = create_docket env rq cat sub wb"
    and "nc_idempotencyKey base = create_key rq" and "nc_clientId base = clientId" and "nc_slaDueAt base = or_else sla due"
    and "nc_dueDate base = due"
proof -
  obtain rule sla clock where s: "create_sla env rq lk cat sub wb = (rule, sla, clock)" by (cases "create_sla env rq lk cat sub wb") auto
  show thesis using assms that unfolding build_case_def s by (auto simp: Let_def elim!: res_bind_InrE)
qed

lemma create_docket_firm [simp]: "d_firmId (create_docket env rq cat sub wb) = cq_firmId rq"
  by (simp add: create_docket_def fresh_docket_def Let_def)

lemma build_case_facts:
  assumes "build_case env rq lk cat sub wb clientId tat = Inr nc"
  shows "nc_idempotencyKey nc = create_key rq" and "d_firmId (nc_docket nc) = cq_firmId rq" and "nc_clientId nc = clientId"
  using assms by (elim build_case_Inr, simp add: create_import_facts(1,2,6))+

lemma find_sound: "find P xs = Some x \<Longrightarrow> x \<in> set xs \<and> P x"
  by (auto simp: find_Some_iff)

lemma create_write_cases:
  assumes "create_write env rq built n w = (r, w')"
  shows "(\<exists>nc b. r = Inr (Created nc) \<and> built = Inr b \<and> saveWithRetry env (cw_cases w) 0 4 b = Inr nc \<and> cw_cases w' = cw_cases w @ [nc])
    \<or> (\<exists>x. r = Inr (Replayed x) \<and> w' = w \<and> x \<in> set (cw_cases w) \<and> by_key (cq_firmId rq) (create_key rq) x)
    \<or> (\<exists>e. r = Inl e \<and> w' = w)"
  using assms
  by (auto simp: create_write_def Let_def res_bind_Inr_iff dest: find_sound split: sum.splits if_splits option.splits)

lemma createCase_cases:
  assumes "createCase env rq lk seen w = (r, w')"
  obtains
    (Created) nc b cat sub wb tat matches where "r = Inr (Created nc)" and "create_checks env rq lk = Inr (cat, sub, wb, nc_clientId b, tat, matches)"
      and "build_case env rq lk cat sub wb (nc_clientId b) tat = Inr b" and "saveWithRetry env (cw_cases w) 0 4 b = Inr nc"
      and "cw_cases w' = cw_cases w @ [nc]"
  | (Replayed) x where "r = Inr (Replayed x)" and "w' = w" and "x \<in> set seen \<union> set (cw_cases w)" and "by_key (cq_firmId rq) (create_key rq) x"
  | (Refused) "w' = w" and "\<forall>nc. r \<noteq> Inr (Created nc) \<and> r \<noteq> Inr (Replayed nc)"
proof -
  show thesis
  proof (cases "create_checks env rq lk")
    case (Inl e)
    then have "r = Inl e" "w' = w" using assms by (simp_all add: createCase_def)
    then show thesis using Refused by simp
  next
    case (Inr t)
    obtain cat sub wb cid tat matches where t: "t = (cat, sub, wb, cid, tat, matches)" by (cases t) auto
    have step: "(if matches \<noteq> [] \<and> \<not> cq_forceCreate rq then (Inr (DuplicatesFound matches), w)
        else (case find (by_key (cq_firmId rq) (create_key rq)) seen of Some x \<Rightarrow> (Inr (Replayed x), w)
              | None \<Rightarrow> create_write env rq (build_case env rq lk cat sub wb cid tat) (length matches) w)) = (r, w')"
      using assms by (simp add: createCase_def Inr t)
    consider "r = Inr (DuplicatesFound matches)" "w' = w" | x where "r = Inr (Replayed x)" "w' = w" "find (by_key (cq_firmId rq) (create_key rq)) seen = Some x"
      | "create_write env rq (build_case env rq lk cat sub wb cid tat) (length matches) w = (r, w')"
    proof (cases "matches \<noteq> [] \<and> \<not> cq_forceCreate rq")
      case True
      then show thesis using step that(1) by simp
    next
      case False
      show thesis
      proof (cases "find (by_key (cq_firmId rq) (create_key rq)) seen")
        case None
        then show thesis using step False by (intro that(3)) simp
      next
        case (Some x)
        have "Inr (Replayed x) = r \<and> w = w'" using step by (simp only: False Some if_False option.case prod.inject)
        then show thesis using that(2) Some by metis
      qed
    qed
    then show thesis
    proof cases
      case 1
      then show thesis using Refused by simp
    next
      case (2 x)
      then show thesis using Replayed find_sound by (metis UnI1)
    next
      case 3
      from create_write_cases [OF 3] consider
          nc b where "r = Inr (Created nc)" "build_case env rq lk cat sub wb cid tat = Inr b" "saveWithRetry env (cw_cases w) 0 4 b = Inr nc" "cw_cases w' = cw_cases w @ [nc]"
        | x where "r = Inr (Replayed x)" "w' = w" "x \<in> set (cw_cases w)" "by_key (cq_firmId rq) (create_key rq) x"
        | e where "w' = w" "r = Inl e" by blast
      then show thesis
      proof cases
        case (1 nc b)
        then show thesis using Created [of nc cat sub wb b tat matches] build_case_facts(3) [OF 1(2)] Inr t by simp
      next
        case (2 x)
        then show thesis using Replayed by blast
      next
        case (3 e)
        then show thesis using Refused by simp
      qed
    qed
  qed
qed

subsection \<open>One docket for a key\<close>

definition holders :: "string option \<Rightarrow> string \<Rightarrow> new_case list \<Rightarrow> new_case list" where
  "holders f k ds = filter (by_key f (Some k)) ds"

definition asks_for :: "string option \<Rightarrow> string \<Rightarrow> create_env \<times> create_request \<times> create_lookups \<times> nat \<Rightarrow> bool" where
  "asks_for f k q = (case q of (_, rq, _, _) \<Rightarrow> cq_firmId rq = f \<and> create_key rq = Some k)"

definition answered_with :: "new_case \<Rightarrow> create_reply res \<Rightarrow> bool" where
  "answered_with nc r \<longleftrightarrow> r = Inr (Created nc) \<or> r = Inr (Replayed nc)"

definition creations :: "string option \<Rightarrow> string \<Rightarrow> (create_env \<times> create_request \<times> create_lookups \<times> nat) list \<Rightarrow> create_reply res list \<Rightarrow> nat" where
  "creations f k reqs rs = length (filter (\<lambda>(q, r). asks_for f k q \<and> (\<exists>nc. r = Inr (Created nc))) (zip reqs rs))"

lemma create_step:
  assumes "createCase env rq lk (take n (cw_cases w)) w = (r, w')"
  shows "(\<exists>new. cw_cases w' = cw_cases w @ new)
    \<and> length (holders f k (cw_cases w')) = length (holders f k (cw_cases w)) + creations f k [(env, rq, lk, n)] [r]
    \<and> (length (holders f k (cw_cases w)) \<le> 1 \<longrightarrow> length (holders f k (cw_cases w')) \<le> 1)
    \<and> (\<forall>nc. asks_for f k (env, rq, lk, n) \<and> answered_with nc r \<longrightarrow> nc \<in> set (holders f k (cw_cases w')))"
  using assms
proof (cases rule: createCase_cases)
  case (Created nc b cat sub wb tat matches)
  note s = saved_facts [OF Created(4)] and b = build_case_facts [OF Created(3)]
  have k: "by_key f (Some k) nc \<longleftrightarrow> asks_for f k (env, rq, lk, n)" using s(1,2) b(1,2) by (auto simp: by_key_def asks_for_def)
  have "holders f k (cw_cases w) = []" if "by_key f (Some k) nc"
    using s(3) that by (auto simp: holders_def filter_empty_conv by_key_def key_clash_def one_firm_def list_ex_iff)
  then show ?thesis using Created(1,5) k by (auto simp: holders_def creations_def answered_with_def)
next
  case (Replayed x)
  then have "x \<in> set (cw_cases w)" using in_set_takeD by fastforce
  then show ?thesis using Replayed by (auto simp: holders_def creations_def answered_with_def asks_for_def)
next
  case Refused
  then show ?thesis by (auto simp: creations_def answered_with_def)
qed

lemma create_run_keeps:
  assumes "create_run reqs w = (rs, w')" and "length (holders f k (cw_cases w)) \<le> 1"
  shows "length rs = length reqs \<and> (\<exists>new. cw_cases w' = cw_cases w @ new)
    \<and> length (holders f k (cw_cases w')) = length (holders f k (cw_cases w)) + creations f k reqs rs
    \<and> length (holders f k (cw_cases w')) \<le> 1
    \<and> (\<forall>i<length reqs. \<forall>nc. asks_for f k (reqs ! i) \<and> answered_with nc (rs ! i) \<longrightarrow> nc \<in> set (holders f k (cw_cases w')))"
  using assms
proof (induction reqs arbitrary: w rs)
  case Nil
  then show ?case by (simp add: creations_def)
next
  case (Cons q reqs)
  obtain env rq lk n where q: "q = (env, rq, lk, n)" by (cases q) auto
  obtain r w1 where s: "createCase env rq lk (take n (cw_cases w)) w = (r, w1)" by fastforce
  obtain rs' where r: "create_run reqs w1 = (rs', w')" and rs: "rs = r # rs'"
    using Cons.prems(1) by (auto simp: q s split: prod.splits)
  note step = create_step [OF s, of f k]
  have "length (holders f k (cw_cases w1)) \<le> 1" using step Cons.prems(2) by blast
  note rest = Cons.IH [OF r this]
  obtain new where new: "cw_cases w' = cw_cases w1 @ new" using rest by blast
  have mono: "set (holders f k (cw_cases w1)) \<subseteq> set (holders f k (cw_cases w'))" by (auto simp: holders_def new)
  have c: "creations f k (q # reqs) rs = creations f k [q] [r] + creations f k reqs rs'" by (simp add: creations_def rs)
  show ?case
  proof (intro conjI allI impI)
    fix i nc
    assume i: "i < length (q # reqs)" and a: "asks_for f k ((q # reqs) ! i) \<and> answered_with nc (rs ! i)"
    show "nc \<in> set (holders f k (cw_cases w'))"
    proof (cases i)
      case 0
      then have "nc \<in> set (holders f k (cw_cases w1))" using step a by (simp add: rs q)
      then show ?thesis using mono by blast
    next
      case (Suc j)
      then show ?thesis using rest a i by (simp add: rs)
    qed
  next
    show "length (holders f k (cw_cases w')) = length (holders f k (cw_cases w)) + creations f k (q # reqs) rs"
      using rest step c q by simp
    show "\<exists>new. cw_cases w' = cw_cases w @ new" using rest step by (metis append.assoc)
    show "length (holders f k (cw_cases w')) \<le> 1" using rest by blast
  qed (use rest rs in simp)
qed

text \<open>
  C26. An idempotency key creates one docket: of any requests of a firm with one key, whose look-ups may be as old as they like, at most
  one creates a docket, and every one that is answered with a docket is answered with that one, which is the only one
  stored under the key.
\<close>

theorem create_once:
  assumes "create_run reqs w = (rs, w')" and "holders f k (cw_cases w) = []"
  shows "creations f k reqs rs \<le> 1 \<and> length (holders f k (cw_cases w')) = creations f k reqs rs
    \<and> (\<forall>i<length reqs. \<forall>nc. asks_for f k (reqs ! i) \<and> answered_with nc (rs ! i) \<longrightarrow> holders f k (cw_cases w') = [nc])"
proof -
  note r = create_run_keeps [OF assms(1), of f k]
  have le: "length (holders f k (cw_cases w')) \<le> 1" using r assms(2) by simp
  then have one: "holders f k (cw_cases w') = [nc]" if "nc \<in> set (holders f k (cw_cases w'))" for nc
    using that by (cases "holders f k (cw_cases w')") auto
  show ?thesis using r assms(2) le one by auto
qed

subsection \<open>A new docket\<close>

lemma effective_days_positive: "0 < getEffectiveCategorySlaDays sub cat"
  by (auto simp: getEffectiveCategorySlaDays_def DEFAULT_CATEGORY_SLA_DAYS_def positive_number_def split: option.splits if_splits)

lemma or_else_given: "or_else a (or_else b (Some t)) \<noteq> None"
  by (simp add: or_else_def split: option.splits)

lemma fallback_given: "0 < days \<Longrightarrow> \<exists>t. calculateFallbackDueDateFromDays z k cfg now (Some days) = Some t"
  by (simp add: calculateFallbackDueDateFromDays_def positive_number_def)

lemma create_due_given:
  assumes "create_due env rq lk cat sub tat = Inr (due, tat')"
  shows "due \<noteq> None"
proof -
  obtain t where t: "calculateFallbackDueDateFromDays (ce_zone env) (ce_toKey env) (cl_config lk) (ce_now env) (Some (getEffectiveCategorySlaDays sub cat)) = Some t"
    using fallback_given [OF effective_days_positive] by blast
  obtain a b where "due = or_else a (or_else b (Some t))"
    using assms unfolding create_due_def t Let_def case_prod_beta by (elim res_bind_InrE) (simp only: sum.inject prod.inject, blast)
  then show ?thesis using or_else_given by simp
qed

lemma create_client_active:
  "create_client rq lk given = Inr (cid, c) \<Longrightarrow> cl_client lk cid = Some c \<and> Some (cc_firmId c) = cq_firmId rq \<and> isClientActive (cc_status c)"
  by (auto simp: create_client_def Let_def split: option.splits if_splits)

lemma create_checks_Inr:
  assumes "create_checks env rq lk = Inr (cat, sub, wb, cid, tat, matches)"
  obtains c where "truthy (cq_firmId rq)" and "cl_client lk cid = Some c" and "Some (cc_firmId c) = cq_firmId rq" and "isClientActive (cc_status c)"
  using assms create_client_active by (fastforce simp: create_checks_def elim!: res_bind_InrE)

lemma deriveLifecycle_known [simp]:
  "deriveLifecycle (Some ''ACTIVE'') a s = ACTIVE" "deriveLifecycle (Some ''WL'') a s = WL"
proof -
  have "coerceLifecycleToDocket (Some ''ACTIVE'') = Some ACTIVE" "coerceLifecycleToDocket (Some ''WL'') = Some WL" by code_simp+
  then show "deriveLifecycle (Some ''ACTIVE'') a s = ACTIVE" "deriveLifecycle (Some ''WL'') a s = WL" by (simp_all add: deriveLifecycle_def)
qed

lemma preValidate_kept [simp]:
  "truthy (d_state d) \<Longrightarrow> d_state (preValidate d) = d_state d"
  "d_lifecycle (preValidate d) = Some (lifecycle_name (deriveLifecycle (d_lifecycle d) (d_assignedToXID d) (d_status d)))"
  by (simp_all add: preValidate_def set_lifecycle_def Let_def)

lemma save_personal:
  "save rv b d = Inr x \<Longrightarrow> normalize_str (d_queueType d) = ''PERSONAL'' \<Longrightarrow> truthy (d_assignedToXID d)"
  by (auto simp: save_def Let_def enforceAssignedUserForWorklistLifecycle_def split: if_splits)

lemma schema_errors_Nil:
  "schema_errors nc = [] \<longleftrightarrow> nc_title nc \<noteq> [] \<and> length (nc_description nc) \<le> 5000 \<and> truthy (d_categoryId (nc_docket nc))
    \<and> truthy (d_subcategoryId (nc_docket nc)) \<and> truthy (d_createdByXID (nc_docket nc)) \<and> nc_priority nc \<in> set PRIORITIES
    \<and> nc_slaDueAt nc \<noteq> None \<and> 0 \<le> nc_tatDaysSnapshot nc \<and> 0 \<le> nc_slaDays nc \<and> 0 \<le> nc_tatDurationMinutes nc"
  by (auto simp: schema_errors_def)

lemma preValidate_same [simp]:
  "d_categoryId (preValidate d) = d_categoryId d" "d_subcategoryId (preValidate d) = d_subcategoryId d" "d_createdByXID (preValidate d) = d_createdByXID d"
  by (simp_all add: preValidate_def set_lifecycle_def Let_def)

lemma due_hook_same [simp]: "nc_priority (due_hook env nc) = nc_priority nc"
  by (simp add: due_hook_def)

lemma saved_docket:
  assumes "saveWithRetry env ds a l b = Inr nc"
  shows "nc_priority nc \<in> set PRIORITIES" and "nc_slaDueAt nc = nc_slaDueAt b" and "nc_slaDueAt nc \<noteq> None" and "nc_clientId nc = nc_clientId b"
    and "nc_dueDate b = Some t \<Longrightarrow> nc_dueDate nc = Some t"
    and "truthy (d_categoryId (nc_docket nc))" and "truthy (d_subcategoryId (nc_docket nc))" and "truthy (d_createdByXID (nc_docket nc))"
    and "d_assignedToXID (nc_docket nc) = d_assignedToXID (nc_docket b)" and "d_queueType (nc_docket nc) = d_queueType (nc_docket b)"
    and "d_status (nc_docket nc) = d_status (nc_docket b)" and "truthy (d_state (nc_docket b)) \<Longrightarrow> d_state (nc_docket nc) = d_state (nc_docket b)"
    and "d_lifecycle (nc_docket b) = Some ''ACTIVE'' \<Longrightarrow> d_lifecycle (nc_docket nc) = Some ''ACTIVE''"
    and "d_lifecycle (nc_docket b) = Some ''WL'' \<Longrightarrow> d_lifecycle (nc_docket nc) = Some ''WL''"
    and "normalize_str (d_queueType (nc_docket b)) = ''PERSONAL'' \<Longrightarrow> truthy (d_assignedToXID (nc_docket b))"
proof -
  obtain i where "insert_case env ds i b = Inr nc" using saveWithRetry_Inr [OF assms] by blast
  note f = insert_case_Inr [OF this, unfolded Let_def]
  define b1 where "b1 = due_hook env (b\<lparr>nc_docket := (nc_docket b)\<lparr>d_caseNumber := Some (ce_number env i), d_caseId := Some (ce_number env i)\<rparr>\<rparr>)"
  have d: "nc_docket b1 = (nc_docket b)\<lparr>d_caseNumber := Some (ce_number env i), d_caseId := Some (ce_number env i)\<rparr>" by (simp add: b1_def)
  have nc: "nc = b1\<lparr>nc_docket := preValidate (nc_docket b1)\<rparr>" and se: "schema_errors b1 = []"
    and sv: "save True (nc_docket b1) (nc_docket b1) = Inr (preValidate (nc_docket b1))" using f unfolding b1_def by blast+
  note se = se [unfolded schema_errors_Nil]
  have ln: "lifecycle_name ACTIVE = ''ACTIVE''" "lifecycle_name WL = ''WL''" by code_simp+
  show "nc_priority nc \<in> set PRIORITIES" "nc_slaDueAt nc \<noteq> None" "truthy (d_categoryId (nc_docket nc))" "truthy (d_subcategoryId (nc_docket nc))"
    "truthy (d_createdByXID (nc_docket nc))" using se by (simp_all add: nc)
  show "nc_slaDueAt nc = nc_slaDueAt b" "nc_clientId nc = nc_clientId b" by (simp_all add: nc b1_def)
  show "nc_dueDate b = Some t \<Longrightarrow> nc_dueDate nc = Some t" by (simp add: nc b1_def)
  show "d_assignedToXID (nc_docket nc) = d_assignedToXID (nc_docket b)" "d_queueType (nc_docket nc) = d_queueType (nc_docket b)"
    "d_status (nc_docket nc) = d_status (nc_docket b)" by (simp_all add: nc d)
  show "truthy (d_state (nc_docket b)) \<Longrightarrow> d_state (nc_docket nc) = d_state (nc_docket b)" by (simp add: nc d)
  show "d_lifecycle (nc_docket b) = Some ''ACTIVE'' \<Longrightarrow> d_lifecycle (nc_docket nc) = Some ''ACTIVE''"
    "d_lifecycle (nc_docket b) = Some ''WL'' \<Longrightarrow> d_lifecycle (nc_docket nc) = Some ''WL''" by (simp_all add: nc d ln)
  show "normalize_str (d_queueType (nc_docket b)) = ''PERSONAL'' \<Longrightarrow> truthy (d_assignedToXID (nc_docket b))"
    using save_personal [OF sv] by (simp add: d)
qed

lemma create_docket_facts:
  "d_queueType (create_docket env rq cat sub wb) = Some (if truthy (create_assignee rq) then ''PERSONAL'' else ''GLOBAL'')"
  "d_lifecycle (create_docket env rq cat sub wb) = Some (if truthy (create_assignee rq) then ''ACTIVE'' else ''WL'')"
  "d_status (create_docket env rq cat sub wb) = Some (if truthy (create_assignee rq) then ''ASSIGNED'' else ''UNASSIGNED'')"
  "d_state (create_docket env rq cat sub wb) = Some (if truthy (create_assignee rq) then ''IN_PROGRESS'' else ''IN_WB'')"
  "\<not> truthy (create_assignee rq) \<Longrightarrow> \<not> truthy (d_assignedToXID (create_docket env rq cat sub wb))"
proof -
  have l: "lifecycle_name (normalizeLifecycle (Some ''ACTIVE'')) = ''ACTIVE''" "lifecycle_name (normalizeLifecycle (Some ''WL'')) = ''WL''" by code_simp+
  show "d_lifecycle (create_docket env rq cat sub wb) = Some (if truthy (create_assignee rq) then ''ACTIVE'' else ''WL'')"
    by (simp add: create_docket_def fresh_docket_def Let_def l)
qed (simp_all add: create_docket_def fresh_docket_def Let_def js_or_def xid_set_def truthy_def str_or_empty_def)

text \<open>
  C27. A docket that a request creates is consistent: it is of the caller's firm and names its creator, its class and a known priority; it has a
  turnaround and a due date; it is in the worklist of an assignee and active, or in the workbasket with none; unless it is
  imported, status and state say the same; and its client is an active client of the firm.
\<close>

theorem new_docket_consistent:
  assumes "createCase env rq lk seen w = (Inr (Created nc), w')"
  shows "let d = nc_docket nc; assigned = truthy (d_assignedToXID d) in
    d_firmId d = cq_firmId rq \<and> truthy (d_firmId d) \<and> truthy (d_createdByXID d) \<and> truthy (d_categoryId d) \<and> truthy (d_subcategoryId d)
    \<and> nc_priority nc \<in> set PRIORITIES \<and> nc_slaDueAt nc \<noteq> None \<and> nc_dueDate nc \<noteq> None
    \<and> d_queueType d = Some (if assigned then ''PERSONAL'' else ''GLOBAL'') \<and> d_lifecycle d = Some (if assigned then ''ACTIVE'' else ''WL'')
    \<and> (cq_isHistoricalImport rq
      \<or> d_status d = Some (if assigned then ''ASSIGNED'' else ''UNASSIGNED'') \<and> d_state d = Some (if assigned then ''IN_PROGRESS'' else ''IN_WB''))
    \<and> (\<exists>c. cl_client lk (nc_clientId nc) = Some c \<and> Some (cc_firmId c) = cq_firmId rq \<and> isClientActive (cc_status c))"
  using assms
proof (cases rule: createCase_cases)
  case (Created nc' b cat sub wb tat matches)
  then have nc: "nc' = nc" by simp
  note saved = Created(4) [unfolded nc]
  from Created(3) obtain base rule sla clock due tat' where base: "create_import env rq base = Inr b" "nc_docket base = create_docket env rq cat sub wb"
      "create_due env rq lk cat sub tat = Inr (due, tat')" "nc_dueDate base = due" by (rule build_case_Inr)
  note im = create_import_facts [OF base(1)]
  obtain t where t: "nc_dueDate b = Some t" using create_due_given [OF base(3)] im(4) base(4) by auto
  obtain c where c: "truthy (cq_firmId rq)" "cl_client lk (nc_clientId b) = Some c" "Some (cc_firmId c) = cq_firmId rq" "isClientActive (cc_status c)"
    using create_checks_Inr [OF Created(2)] by metis
  have pn: "normalize_str (Some ''PERSONAL'') = ''PERSONAL''" by code_simp
  have a: "truthy (d_assignedToXID (nc_docket nc)) \<longleftrightarrow> truthy (create_assignee rq)"
    using saved_docket(15) [OF saved] create_docket_facts(1,5) pn by (fastforce simp: saved_docket(9) [OF saved] im(7,8) base(2))
  have q: "d_queueType (nc_docket nc) = Some (if truthy (create_assignee rq) then ''PERSONAL'' else ''GLOBAL'')"
    by (simp add: saved_docket(10) [OF saved] im(8) base(2) create_docket_facts)
  have l: "d_lifecycle (nc_docket nc) = Some (if truthy (create_assignee rq) then ''ACTIVE'' else ''WL'')"
    using saved_docket(13,14) [OF saved] by (simp add: im(9) base(2) create_docket_facts(2))
  have s: "cq_isHistoricalImport rq \<or> d_status (nc_docket nc) = Some (if truthy (create_assignee rq) then ''ASSIGNED'' else ''UNASSIGNED'')
      \<and> d_state (nc_docket nc) = Some (if truthy (create_assignee rq) then ''IN_PROGRESS'' else ''IN_WB'')"
  proof (cases "cq_isHistoricalImport rq")
    case False
    then have "b = base" by (rule im(10))
    then show ?thesis using saved_docket(11,12) [OF saved] by (simp add: base(2) create_docket_facts)
  qed simp
  show ?thesis unfolding Let_def a
    using saved_facts(2) [OF saved] build_case_facts(2) [OF Created(3)] saved_docket(1,3,4,6,7,8) [OF saved] saved_docket(5) [OF saved t] q l s c by simp
qed simp_all

subsection \<open>A concrete request\<close>

definition sample_subcategory :: new_subcategory where
  "sample_subcategory = \<lparr>sb_id = ''S1'', sb_name = Some ''GST'', sb_isActive = True, sb_workbasketId = Some ''T1'', sb_employeeContextEnabled = False,
     sb_requiresRelatedEmployeeUser = False, sb_defaultSlaDays = Some (1/8), sb_deadlineRule = None\<rparr>"

definition sample_new_category :: new_category where
  "sample_new_category = \<lparr>kc_name = Some ''Tax'', kc_subcategories = [sample_subcategory], kc_requiresRelatedEmployeeUser = False, kc_defaultSlaDays = None\<rparr>"

definition sample_create :: create_request where
  "sample_create = \<lparr>cq_xID = Some ''X000001'', cq_firmId = Some ''FIRM1'', cq_role = Some ''USER'', cq_teamId = Some ''T9'', cq_title = Some '' Return '',
     cq_description = None, cq_categoryId = Some ''K1'', cq_subcategoryId = Some ''S1'', cq_caseCategory = None, cq_category = None,
     cq_caseSubCategory = None, cq_clientId = None, cq_workbasketId = None, cq_priority = None, cq_assignedTo = Some ''x000002'', cq_employeeXID = None,
     cq_relatedEmployeeUserId = None, cq_dealId = None, cq_workTypeId = None, cq_subWorkTypeId = None, cq_isInternal = False,
     cq_slaDueDate = Absent, cq_dueDate = At 500000000, cq_eventDate = Absent, cq_clientData = None, cq_forceCreate = False,
     cq_idempotencyKey = Some ''Key-1'', cq_compliance_state = None, cq_risk_level = None, cq_isHistoricalImport = False, cq_status = None,
     cq_completedDate = Absent, cq_startDate = Absent\<rparr>"

definition sample_found :: case_client where
  "sample_found = \<lparr>cc_firmId = ''FIRM1'', cc_status = Some ''active'',
     cc_data = \<lparr>ci_businessName = None, ci_primaryContactNumber = None, ci_businessEmail = None\<rparr>\<rparr>"

definition sample_lookups :: create_lookups where
  "sample_lookups = \<lparr>cl_category = Some sample_new_category, cl_employee = False, cl_relatedUser = False, cl_crmClient = False, cl_deal = False,
     cl_workType = None, cl_subWorkType = None, cl_defaultClientId = Some ''C000001'', cl_client = (\<lambda>_. Some sample_found), cl_allClients = [],
     cl_config = default_raw, cl_rules = []\<rparr>"

definition sample_create_env :: "string \<Rightarrow> create_env" where
  "sample_create_env number = \<lparr>ce_now = 147600000, ce_isValid = (\<lambda>_. False), ce_zone = utc_zone, ce_toKey = (\<lambda>_. []), ce_addDays = (\<lambda>t _. t), ce_id = ''I1'',
     ce_number = (\<lambda>_. number), ce_upload = Inr (), ce_indexes_missing = True, ce_stamped = False\<rparr>"

definition sample_world :: create_world where
  "sample_world = \<lparr>cw_cases = [], cw_effects = []\<rparr>"

definition created_docket :: "create_reply res \<Rightarrow> new_case option" where
  "created_docket r = (case r of Inr (Created nc) \<Rightarrow> Some nc | _ \<Rightarrow> None)"

lemma created_docket_Some [simp]: "created_docket r = Some nc \<longleftrightarrow> r = Inr (Created nc)"
  by (auto simp: created_docket_def split: sum.splits create_reply.splits)

definition sample_built :: new_case where
  "sample_built = \<lparr>nc_docket = create_docket (sample_create_env ''CASE-1'') sample_create (Some sample_new_category) (Some sample_subcategory) ''T1'',
     nc_title = ''Return'', nc_description = [], nc_priority = ''medium'', nc_clientId = ''C000001'', nc_isInternal = False,
     nc_slaDueAt = Some 151200000,
     nc_clock = \<lparr>tat_paused = False, tat_lastStartedAt = Some 147600000, tat_accumulatedMinutes = Some 0, tat_totalMinutes = Some 0\<rparr>,
     nc_tatDurationMinutes = 60, nc_tatDaysSnapshot = 0, nc_slaDays = 1/8, nc_dueDate = Some 500000000, nc_compliance = Not_started,
     nc_risk_level = ''medium'', nc_idempotencyKey = Some ''key-1'', nc_createdAt = 147600000, nc_isHistoricalImport = False\<rparr>"

lemma sample_upload: "ce_upload (sample_create_env number) = Inr ()"
  by (simp add: sample_create_env_def)

lemma sample_checks: "create_checks (sample_create_env ''CASE-1'') sample_create sample_lookups = Inr (Some sample_new_category, Some sample_subcategory, ''T1'', ''C000001'', 0, [])"
  by code_simp

lemma sample_build:
  "build_case (sample_create_env ''CASE-1'') sample_create sample_lookups (Some sample_new_category) (Some sample_subcategory) ''T1'' ''C000001'' 0 = Inr sample_built"
  by code_simp

lemma sample_saved: "\<not> is_error (saveWithRetry (sample_create_env ''CASE-1'') [] 0 4 sample_built)"
  by code_simp

lemma sample_created:
  obtains nc w' where "createCase (sample_create_env ''CASE-1'') sample_create sample_lookups [] sample_world = (Inr (Created nc), w')"
proof -
  obtain nc where "saveWithRetry (sample_create_env ''CASE-1'') [] 0 4 sample_built = Inr nc" using sample_saved by (auto simp: is_error_iff)
  then have "\<exists>w'. createCase (sample_create_env ''CASE-1'') sample_create sample_lookups [] sample_world = (Inr (Created nc), w')"
    by (simp add: createCase_def sample_checks create_write_def sample_build sample_world_def sample_upload Let_def)
  then show thesis using that by blast
qed

lemma create_once_witness:
  "\<exists>rs w'. create_run [(sample_create_env ''CASE-1'', sample_create, sample_lookups, 0), (sample_create_env ''CASE-2'', sample_create, sample_lookups, 0)] sample_world = (rs, w')
    \<and> length (holders (Some ''FIRM1'') ''key-1'' (cw_cases w')) \<le> 1"
proof -
  let ?q = "[(sample_create_env ''CASE-1'', sample_create, sample_lookups, 0), (sample_create_env ''CASE-2'', sample_create, sample_lookups, 0)]"
  obtain rs w' where r: "create_run ?q sample_world = (rs, w')" by fastforce
  have "holders (Some ''FIRM1'') ''key-1'' (cw_cases sample_world) = []" by (simp add: holders_def sample_world_def)
  from create_once [OF r this] have "length (holders (Some ''FIRM1'') ''key-1'' (cw_cases w')) \<le> 1" by simp
  then show ?thesis using r by blast
qed

lemma new_docket_consistent_witness:
  "\<exists>nc w'. createCase (sample_create_env ''CASE-1'') sample_create sample_lookups [] sample_world = (Inr (Created nc), w')
    \<and> nc_dueDate nc \<noteq> None \<and> truthy (d_createdByXID (nc_docket nc))"
proof -
  obtain nc w' where c: "createCase (sample_create_env ''CASE-1'') sample_create sample_lookups [] sample_world = (Inr (Created nc), w')" by (rule sample_created)
  from new_docket_consistent [OF c] show ?thesis using c by (auto simp: Let_def)
qed

subsection \<open>Dockets without a key\<close>

text \<open>
  C28. If the unique index holds a document that lacks the key, a firm that has one docket without a key gets no second one: every request
  to clone a docket fails, and so does every request to create one without a key, and nothing changes.
\<close>

theorem unkeyed_docket_blocks:
  assumes "ce_indexes_missing env" and "x \<in> set (cw_cases w)" and "nc_idempotencyKey x = None"
  shows "(kq_firmId krq = d_firmId (nc_docket x) \<longrightarrow> (\<exists>e. cloneCase env krq klk w = (Inl e, w)))
    \<and> (cq_firmId rq = d_firmId (nc_docket x) \<and> create_key rq = None \<longrightarrow>
        snd (createCase env rq lk [] w) = w \<and> created_docket (fst (createCase env rq lk [] w)) = None)"
proof (intro conjI impI)
  have no_save: False if "saveWithRetry env (cw_cases w) 0 4 b = Inr nc" "d_firmId (nc_docket b) = d_firmId (nc_docket x)" "nc_idempotencyKey b = None" for b nc
    using saved_facts [OF that(1)] that(2,3) assms by (auto simp: list_ex_iff key_clash_def one_firm_def)
  {
    assume f: "kq_firmId krq = d_firmId (nc_docket x)"
    show "\<exists>e. cloneCase env krq klk w = (Inl e, w)"
    proof (cases "clone_checks krq klk")
      case (Inr t)
      obtain cat sub original where t: "t = (cat, sub, original)" by (cases t) auto
      have "d_firmId (nc_docket (clone_case env krq klk cat sub original)) = d_firmId (nc_docket x)"
        "nc_idempotencyKey (clone_case env krq klk cat sub original) = None"
        by (simp_all add: clone_case_def Let_def fresh_docket_def f split: prod.split)
      then have "\<exists>e. saveWithRetry env (cw_cases w) 0 4 (clone_case env krq klk cat sub original) = Inl e"
        using no_save by (cases "saveWithRetry env (cw_cases w) 0 4 (clone_case env krq klk cat sub original)") blast+
      then show ?thesis by (auto simp: cloneCase_def Inr t)
    qed (simp add: cloneCase_def)
  next
    assume f: "cq_firmId rq = d_firmId (nc_docket x) \<and> create_key rq = None"
    obtain r w' where c: "createCase env rq lk [] w = (r, w')" by fastforce
    from c have "w' = w \<and> created_docket r = None"
    proof (cases rule: createCase_cases)
      case (Created nc b cat sub wb tat matches)
      then show ?thesis using no_save [OF Created(4)] build_case_facts [OF Created(3)] f by simp
    next
      case (Replayed y)
      then show ?thesis by (simp add: created_docket_def)
    next
      case Refused
      then show ?thesis using not_Some_eq created_docket_Some by metis
    qed
    then show "snd (createCase env rq lk [] w) = w" "created_docket (fst (createCase env rq lk [] w)) = None" by (simp_all add: c)
  }
qed

definition sample_clone :: clone_request where
  "sample_clone = \<lparr>kq_xID = Some ''X000001'', kq_firmId = Some ''FIRM1'', kq_teamId = None, kq_categoryId = Some ''K1'', kq_subcategoryId = Some ''S1''\<rparr>"

definition sample_clone_lookups :: "new_case \<Rightarrow> clone_lookups" where
  "sample_clone_lookups original = \<lparr>kl_category = Some sample_new_category, kl_original = Some original, kl_client = Some sample_found,
     kl_config = default_raw, kl_rules = [], kl_comments = [], kl_attachments = []\<rparr>"

definition unkeyed_world :: create_world where
  "unkeyed_world = \<lparr>cw_cases = [sample_built\<lparr>nc_idempotencyKey := None\<rparr>], cw_effects = []\<rparr>"

lemma sample_clone_checks:
  "clone_checks sample_clone (sample_clone_lookups sample_built) = Inr (sample_new_category, sample_subcategory, sample_built)"
  by code_simp

text \<open>The request is in order and would succeed if the firm had no other docket.\<close>

lemma unkeyed_docket_blocks_witness:
  "\<not> is_error (fst (cloneCase (sample_create_env ''CASE-2'') sample_clone (sample_clone_lookups sample_built) sample_world))
    \<and> (\<exists>e. cloneCase (sample_create_env ''CASE-2'') sample_clone (sample_clone_lookups sample_built) unkeyed_world = (Inl e, unkeyed_world))"
proof
  have "\<not> is_error (saveWithRetry (sample_create_env ''CASE-2'') [] 0 4
      (clone_case (sample_create_env ''CASE-2'') sample_clone (sample_clone_lookups sample_built) sample_new_category sample_subcategory sample_built))" by code_simp
  then show "\<not> is_error (fst (cloneCase (sample_create_env ''CASE-2'') sample_clone (sample_clone_lookups sample_built) sample_world))"
    by (simp add: cloneCase_def sample_clone_checks sample_world_def is_error_def Let_def split: sum.splits)
next
  let ?x = "sample_built\<lparr>nc_idempotencyKey := None\<rparr>"
  have "ce_indexes_missing (sample_create_env ''CASE-2'')" "?x \<in> set (cw_cases unkeyed_world)" "nc_idempotencyKey ?x = None"
    by (simp_all add: sample_create_env_def unkeyed_world_def)
  note u = unkeyed_docket_blocks [OF this, of sample_clone "sample_clone_lookups sample_built"]
  have "kq_firmId sample_clone = d_firmId (nc_docket ?x)" by code_simp
  then show "\<exists>e. cloneCase (sample_create_env ''CASE-2'') sample_clone (sample_clone_lookups sample_built) unkeyed_world = (Inl e, unkeyed_world)"
    using u by blast
qed

subsection \<open>Imports\<close>

text \<open>
  Fact. Whoever sends it, a request that calls itself an import creates a docket that is resolved but still in a queue with a
  lifecycle that is not done.
\<close>

theorem import_resolved_open:
  assumes "createCase env rq lk seen w = (Inr (Created nc), w')" and "cq_isHistoricalImport rq" and "js_upper (str_or_empty (cq_status rq)) = ''RESOLVED''"
  shows "d_status (nc_docket nc) = Some ''RESOLVED'' \<and> d_state (nc_docket nc) = Some ''RESOLVED''
    \<and> d_lifecycle (nc_docket nc) \<in> {Some ''WL'', Some ''ACTIVE''}"
  using assms(1)
proof (cases rule: createCase_cases)
  case (Created nc' b cat sub wb tat matches)
  then have nc: "nc' = nc" by simp
  note saved = Created(4) [unfolded nc]
  from Created(3) obtain base where base: "create_import env rq base = Inr b" "nc_docket base = create_docket env rq cat sub wb" by (rule build_case_Inr)
  note im = create_import_facts [OF base(1)]
  have b: "d_status (nc_docket b) = Some ''RESOLVED''" "d_state (nc_docket b) = Some ''RESOLVED''" using im(11) assms(2,3) by blast+
  have l: "d_lifecycle (nc_docket b) = Some (if truthy (create_assignee rq) then ''ACTIVE'' else ''WL'')" by (simp add: im(9) base(2) create_docket_facts(2))
  show ?thesis using saved_docket(11,12,13,14) [OF saved] b l by (simp add: truthy_def str_or_empty_def split: if_splits)
qed simp_all

end
