(* ===== verification/Spec2Isabelle.thy ===== *)
theory Spec2Isabelle
  imports JsPrelude CaseStates DocketStates CaseModel DocketQuery DocketQc DocketWorkflow DocketHandlers
    DocketInvariants DocketProperties DocketProperties2 DocketProperties3 DocketSchedulers DocketSessions
    CaseSla CaseService CaseAction CaseActionProperties CaseAssignment DocketApproval SlaCalendar SlaDueDate
    ExpiringStore Idempotency CircuitBreaker AccountLockout Decimal Selection Identifiers IdentifierProperties Otp SlaRules DocketRouting RoutingProperties
    Tenancy Roles Access AccessProperties CivilDate Deadlines UserModel UserHierarchy CodeGuard SignIn SignInHandlers
    SignInProperties SignInPasswords AuthSession AuthProperties SessionProperties SessionUse CookieProperties AuthPassword PasswordProperties
    AccountAdmin AccountProperties Recurrence RecurrenceProperties ComplianceGeneration ComplianceProperties
    Base64 Encryption EncryptionProperties DocketAudit DocketAuditProperties CaseLock CaseLockProperties DocketTimer
    ClientDuplicates CaseCreate CaseClone CaseCreateProperties
begin

text \<open>
  Docketra: verification of the docket workflow.

  Docketra is a multi-tenant case-management server (Node.js, Express, MongoDB through Mongoose).
  Its unit of work is the docket, also called case: a document that a firm creates, routes to a
  workbasket, assigns to a user, works on, pends while it waits for the client, sends through quality
  control, resolves and files.  This development models the server code that decides how a docket may
  move, who may own it and what is recorded about it, under \<open>src/src\<close>.

  The parts and how they interact.  Four state machines over status strings
  (\<open>domain/case\<close>, \<open>domain/docket\<close>, \<open>domain/docketLifecycle.js\<close>,
  \<open>utils/docketState*.js\<close>) are consulted by every service.  The workflow service
  (\<open>services/docketWorkflow.service.js\<close>) loads a document, checks guards, changes fields and
  saves, which runs the hooks of the schema (\<open>models/Case.model.js\<close>).  The case actions
  (\<open>services/caseAction.service.js\<close>) go through \<open>services/case.service.js\<close>, which runs the
  turnaround clock (\<open>services/caseSla.service.js\<close>), calls
  \<open>services/docketTransition.service.js\<close> for the guarded, versioned status change and then writes
  the rest with the repository.  The assignment service (\<open>services/caseAssignment.service.js\<close>)
  uses single conditional updates.  Schedulers and inbound mail reopen pending dockets.

  Theories, in the order they build on each other.

    \<^item> \<open>JsPrelude\<close>: strings and null coercions of the source, thrown errors as values of a sum
      type, outcomes (effects and a value or an error), and three contracts as locales:
      \<open>transition_table\<close> (what all state machines promise), \<open>claim\<close> and \<open>competition\<close> (what
      a conditional update promises concurrent requests).
    \<^item> \<open>CaseStates\<close>, \<open>DocketStates\<close>: the state machines and the maps between them; the
      tables are interpretations of \<open>transition_table\<close>.  \<open>canonical_simulates_docket\<close> is the
      refinement between two of them, \<open>lifecycle_conflicts_exact\<close> says exactly where they
      disagree.
    \<^item> \<open>CaseModel\<close>: the document as a record and the save hooks.
    \<^item> \<open>DocketQuery\<close>, \<open>DocketQc\<close>: the tenant-scoped lookup of a docket, and the rules that
      send a docket to quality control.
    \<^item> \<open>DocketWorkflow\<close>, \<open>DocketHandlers\<close>: the guards and the handlers (pull, transition,
      quality-control decision, reassignment, opening).  \<open>DocketInvariants\<close> holds what each of them
      guarantees, \<open>DocketProperties\<close>, \<open>DocketProperties2\<close> and \<open>DocketProperties3\<close> the
      properties: ownership, agreement of state and status and the lifecycle table as invariants of the
      step relation \<open>workflow_step\<close>, the behaviour of single handlers, races, locks and audit.
    \<^item> \<open>DocketSchedulers\<close>, \<open>DocketSessions\<close>: reopening of due dockets, the handover of a
      deactivated user's dockets, client mail and the expiry of upload sessions, on the whole
      collection.
    \<^item> \<open>CaseSla\<close>: the turnaround clock, an interpretation of the contract \<open>stopwatch\<close>.
    \<^item> \<open>CaseService\<close>: the versioned status change (an interpretation of \<open>claim\<close>) and
      \<open>updateStatus\<close>.
    \<^item> \<open>CaseAction\<close>, \<open>CaseActionProperties\<close>: resolve, pend, file, unpend and the automatic
      reopening.
    \<^item> \<open>CaseAssignment\<close>: pull, assign, bulk assign, reassign, unassign; together with the
      workflow's pull they are an interpretation of \<open>competition\<close>.
    \<^item> \<open>DocketApproval\<close>: requests, decisions and reminders of approvals.
    \<^item> \<open>SlaCalendar\<close>, \<open>SlaDueDate\<close>: the business calendar of a firm, and the proof that
      a due date is the exact amount of business time away, for every calendar with the documented
      laws of luxon (\<open>calendar_laws\<close>); UTC is an instance.
    \<^item> \<open>Selection\<close>, \<open>SlaRules\<close>: sorting and taking the first as the contract \<open>preference\<close>,
      and the SLA rule chosen with it, traffic lights and the weekly figures
      (\<open>services/sla.service.js\<close>).
    \<^item> \<open>CivilDate\<close>, \<open>Deadlines\<close>: the UTC calendar of the language, proved inverse to
      \<open>Date.UTC\<close>, and the due date of a new docket
      (\<open>domain/deadlines/calculateDeadlineFromRule.js\<close>).
    \<^item> \<open>DocketRouting\<close>, \<open>RoutingProperties\<close>: lending a docket to another team
      (\<open>services/docketRouting.service.js\<close>): the round trip, the partial write, acceptance, moves by
      a manager.
    \<^item> \<open>Tenancy\<close>: which firm an identifier stands for (\<open>services/tenantIdentity.service.js\<close>) and the
      scopes put on queries, as the contract \<open>scoped_query\<close>.
    \<^item> \<open>Roles\<close>, \<open>Access\<close>, \<open>AccessProperties\<close>: roles, ranks and policies, role contexts
      (\<open>services/authorization.service.js\<close>) and the guards of the routes (\<open>middleware\<close>).
    \<^item> \<open>ExpiringStore\<close>, \<open>Idempotency\<close>, \<open>AccountLockout\<close>: a store whose entries expire,
      requests that run once per key, and the lock after failed logins.
    \<^item> \<open>CircuitBreaker\<close>: breakers, the system state and the write guard.
    \<^item> \<open>Otp\<close>: one-time passwords and their refinement to the automaton of one code.
    \<^item> \<open>Decimal\<close>, \<open>Identifiers\<close>, \<open>IdentifierProperties\<close>: counters, generated numbers, their
      formats and their resolution.

    \<^item> \<open>UserModel\<close>, \<open>UserHierarchy\<close>: the user document with its save hooks
      (\<open>models/User.model.js\<close>), and the proof that stored references to superiors have no cycle.
    \<^item> \<open>CodeGuard\<close>, \<open>SignIn\<close>, \<open>SignInHandlers\<close>: passwords, one-time codes and the sessions
      between them (\<open>services/authLogin.service.js\<close>, \<open>controllers/auth.controller.js\<close>).  The contract
      \<open>limited_code\<close> says that a code with a lock admits a bounded number of guesses; the codes of signing
      in and of a forgotten password are its interpretations.  \<open>SignInProperties\<close> and
      \<open>SignInPasswords\<close> carry the bounds to whole sequences of requests.
    \<^item> \<open>AuthSession\<close>: cookies, refresh, logout and the authentication of a request
      (\<open>services/authSession.service.js\<close>, \<open>services/jwt.service.js\<close>, \<open>middleware/auth.middleware.js\<close>);
      \<open>AuthProperties\<close>, \<open>SessionProperties\<close>, \<open>SessionUse\<close> and \<open>CookieProperties\<close> hold
      what follows for requests, tokens and cookies.
    \<^item> \<open>AuthPassword\<close>, \<open>PasswordProperties\<close>: the policy, resets by link and by code, setup links
      and changes of a password (\<open>services/authPassword.service.js\<close>).
    \<^item> \<open>AccountAdmin\<close>, \<open>AccountProperties\<close>: activation, deactivation, locks and resets by an
      administrator, on users, sessions, codes and dockets together; \<open>account_step\<close> is the relation whose
      invariants protect primary administrators and the limit of the plan.
    \<^item> \<open>Recurrence\<close>, \<open>RecurrenceProperties\<close>: the periods and due dates of recurring
      obligations; \<open>ComplianceGeneration\<close>, \<open>ComplianceProperties\<close>: the dockets generated from
      templates (\<open>services/complianceTemplateGeneration.service.js\<close>), one per firm and key.
    \<^item> \<open>Base64\<close>, \<open>Encryption\<close>: the text encodings of buffers, and the encryption of tenant data
      (\<open>security\<close>, \<open>utils/encryption.js\<close>): the keys of tenants, the cache of plain keys, the encrypted fields of
      dockets and clients; AES-256-GCM is the argument \<open>crypto\<close>.  \<open>EncryptionProperties\<close>: the buffers with plain
      keys, which the code copies, shares with the cache and overwrites, as an invariant of the interleavings \<open>key_run\<close>;
      the refinement of a provider without cache; and what is saved is read back.

    \<^item> \<open>DocketAudit\<close>, \<open>DocketAuditProperties\<close>: what the audit trail records of a change
      (\<open>services/docketAudit.service.js\<close>): values under sensitive names never reach it, and the pages show every entry once.
    \<^item> \<open>CaseLock\<close>, \<open>CaseLockProperties\<close>: the locks users take on dockets and the request that changes a status
      (\<open>services/caseUpdate.service.js\<close>), which ends in \<open>updateStatus\<close> of \<open>CaseService\<close>.
    \<^item> \<open>DocketTimer\<close>: the time spent on a docket, counted from heartbeats
      (\<open>services/docketSession.service.js\<close>).
    \<^item> \<open>CaseCreate\<close>, \<open>CaseClone\<close>: creating and cloning a docket (\<open>services/caseCreate.service.js\<close>): the checks in
      their order, deadlines, the first status, the unique indexes and the retries of a save.  Files of standard
      procedures and checklists copied from a subcategory, the narrative in external storage (whose success is an argument)
      and the texts of history and audit are left out.  \<open>CaseCreateProperties\<close>: one docket per key over any
      interleaving of look-ups and writes, what every new docket satisfies, and what an index that holds missing keys,
      as MongoDB documents it for \<open>sparse\<close> indexes of two fields, does to dockets without one.
    \<^item> \<open>ClientDuplicates\<close>: the search for similar clients (\<open>services/clientDuplicateDetector.js\<close>), with the matrix proved to
      compute the least number of edits.

  How state and operations correspond to the code.  A definition has the name of the function it
  models.  A document is a record whose fields have the names of the schema with the prefix
  \<open>d_\<close>; \<open>null\<close> and \<open>undefined\<close> are \<open>None\<close>; a date is an integer (milliseconds).  What
  a query returned is an argument of the operation that runs it, a conditional update is a filter and
  an update on the stored document, and a collection is a list.  What an operation writes, sends and
  logs are its effects, in order; its result is the document or the thrown error.  Third-party code
  is an argument: the object-id test, the digest used for sampling, the date arithmetic of luxon, the
  delivery of mail, and how Mongoose copies a document with the spread operator.  Whether Mongoose
  validates an unmodified status again is the flag \<open>e_revalidate\<close>; the theorems hold for both
  values.

  The state of signing in is \<open>auth_db\<close> (users \<open>u_\<close>, refresh tokens \<open>rk_\<close>, sessions between
  password and code \<open>ls_\<close>, tenants), the collections it reads and writes; \<open>account_db\<close> adds one-time
  passwords and dockets.  The settings and the third-party functions of these handlers (hashes, the comparison of bcrypt)
  are the fields of \<open>auth_env\<close>, the random values of one request those of \<open>fresh\<close>.  A handler returns the
  new state, its effects and its reply.  Where requests can overlap, a handler is its read followed by its write, and the
  write gets whatever state is there by then.

  Bounds and fuel.  All functions are total; loops over documents are recursions over lists.  The
  search \<open>can_reach\<close> of the prelude is bounded by its depth argument and used with depths no
  table exceeds.  The loops over days have the bounds of the code: the lookahead of 370 days, which is
  enough when a working day is within its reach (\<open>recurrent\<close>), and the safety counter of the
  due-date loop, which \<open>due_date_exact\<close> shows to be enough.

  Not modelled: HTTP controllers and routes (request parsing and response codes over these services),
  mail, storage and model integrations (third-party services), the rendering of text in audit
  descriptions, and the behaviour after a failure of the database itself; the second factor by app, the sign-in
  with Google, and invitations.
\<close>

end
